(* ===== verification/Ticks_Prelude.thy ===== *)
theory Ticks_Prelude
  imports Main "HOL-Library.Word"
begin

text \<open>
  Shared material: the C conversions the emulator's expressions use, and the bit and carry
  lemmas its flag computations rest on.

  The sources compute in C's \<open>int\<close> (every \<open>unsigned char\<close> and \<open>unsigned short\<close> operand is
  promoted) and truncate on assignment. The model keeps that shape: registers are words, a
  right-hand side is an \<^typ>\<open>int\<close> expression over \<open>uint\<close> of the operands, and \<open>u8\<close>, \<open>u16\<close>,
  \<open>u32\<close> are the truncating conversions of an assignment. No intermediate value of the modelled
  code leaves the range of a 32-bit \<open>int\<close>, so \<^typ>\<open>int\<close> and C agree.
\<close>

unbundle bit_operations_syntax

named_theorems cpu_simps \<open>facts that compute one component of the machine state after an operation\<close>

abbreviation u8 :: "int \<Rightarrow> 8 word" where
  "u8 \<equiv> word_of_int"

abbreviation u16 :: "int \<Rightarrow> 16 word" where
  "u16 \<equiv> word_of_int"

abbreviation u32 :: "int \<Rightarrow> 32 word" where
  "u32 \<equiv> word_of_int"

text \<open>\<open>x << n\<close> and \<open>x >> n\<close> of C on an \<open>int\<close> (the shifted values are never negative
  where a right shift is applied).\<close>

abbreviation shl :: "int \<Rightarrow> nat \<Rightarrow> int" where
  "shl x n \<equiv> push_bit n x"

abbreviation shr :: "int \<Rightarrow> nat \<Rightarrow> int" where
  "shr x n \<equiv> drop_bit n x"

text \<open>The 16-bit value of a register pair, C's \<open>lo | hi<<8\<close>.\<close>

definition pair16 :: "8 word \<Rightarrow> 8 word \<Rightarrow> 16 word" where
  "pair16 hi lo = u16 (uint lo OR shl (uint hi) 8)"

definition hi8 :: "16 word \<Rightarrow> 8 word" where
  "hi8 x = u8 (shr (uint x) 8)"

definition lo8 :: "16 word \<Rightarrow> 8 word" where
  "lo8 x = u8 (uint x)"

text \<open>C's sign extension of a displacement byte, \<open>(d^128)-128\<close>.\<close>

definition sdisp :: "8 word \<Rightarrow> int" where
  "sdisp d = (uint d XOR 128) - 128"

section \<open>Bits of sums\<close>

lemma bit_int_sum:
  fixes x y c :: int
  assumes "c = 0 \<or> c = 1"
  shows "bit (x + y + c) n \<longleftrightarrow>
    (bit x n \<noteq> (bit y n \<noteq> (x mod 2 ^ n + y mod 2 ^ n + c \<ge> 2 ^ n)))"
proof -
  let ?m = "(2::int) ^ n"
  let ?k = "x mod ?m + y mod ?m + c"
  have pos: "0 < ?m" by simp
  have "x + y + c = (x div ?m + y div ?m) * ?m + ?k"
    by (simp add: algebra_simps)
  then have "(x + y + c) div ?m = x div ?m + y div ?m + ?k div ?m"
    using pos by (metis div_mult_self3 less_irrefl add.commute)
  moreover have "?k div ?m = (if ?k \<ge> ?m then 1 else 0)"
  proof -
    have "0 \<le> x mod ?m" "x mod ?m < ?m" "0 \<le> y mod ?m" "y mod ?m < ?m"
      using pos by simp_all
    then have r: "0 \<le> ?k" "?k < 2 * ?m" using assms by linarith+
    show ?thesis
    proof (cases "?k \<ge> ?m")
      case True
      have "?k div ?m = 1"
        using True r by (intro int_div_pos_eq [where r = "?k - ?m"]) auto
      with True show ?thesis by simp
    next
      case False
      with r show ?thesis by (simp add: div_pos_pos_trivial)
    qed
  qed
  ultimately show ?thesis
    by (auto simp: bit_iff_odd)
qed

end
