(* ===== verification/Ticks_State.thy ===== *)
theory Ticks_State
  imports Ticks_Prelude
begin

text \<open>
  The machine state of the ticks emulator: the global variables of \<open>src/src/ticks/ticks.c\<close>
  (declared in \<open>ticks.h\<close>), of \<open>memory.c\<close>, \<open>am9511.c\<close> and \<open>vm1_inst.c\<close>, as one record, and the
  CPU predicates of \<open>cpu.h\<close>. Every operation of the later theories is a function on this record.
\<close>

section \<open>Registers\<close>

text \<open>
  The 8-bit variables \<open>a b c d e h l j k\<close>, their alternates \<open>a_ b_ ...\<close>, the index halves
  \<open>xh xl yh yl\<close> and \<open>i r r7 w\<close>. The macros of \<open>ticks.c\<close> take them as lvalues; a \<open>reg\<close> is such
  an lvalue.
\<close>

datatype reg =
    rA | rB | rC | rD | rE | rH | rL | rJ | rK
  | rA' | rB' | rC' | rD' | rE' | rH' | rL' | rJ' | rK'
  | rXH | rXL | rYH | rYL
  | rI | rR | rR7 | rW
  | rXP | rYP | rZP | rSPL | rSPH

text \<open>The 32-bit pointer registers \<open>pw px py pz\<close> of \<open>r4k_inst.c\<close> and their alternates.\<close>

datatype preg = PW | PX | PY | PZ | PW' | PX' | PY' | PZ'

text \<open>
  The flags are kept undecoded: \<open>ff\<close> holds S, bits 5 and 3, and the carry in bit 8; \<open>fr\<close> is the
  last result; \<open>fa\<close> and \<open>fb\<close> are the operands half carry, subtract and parity/overflow are
  computed from when \<open>f()\<close> is called. \<open>ff_ fr_ fa_ fb_\<close> are a second such group.
\<close>

record flg =
  ff :: "16 word"
  fr :: "16 word"
  fa :: "16 word"
  fb :: "16 word"

section \<open>Memory and devices\<close>

text \<open>
  The byte arrays \<open>memory.c\<close> allocates. A resolved address is an array and an offset into it.
\<close>

datatype array_id =
    Mem | Vm1_bank1 | Zxn_bank nat | Zx_bank nat | Zx_rom nat
  | Z180_mem | Ioi_mem | Ioe_mem | Msx_bank nat

text \<open>The function pointer \<open>get_mem_addr\<close> (with its \<open>handle_out\<close> and \<open>handle_in\<close>).\<close>

datatype mem_model = Standard | Zxn | Zx128 | Z180 | Rabbit | Msx

record memory =
  model :: mem_model
  store :: "array_id \<Rightarrow> nat \<Rightarrow> 8 word"
  vm1_alloc :: bool          \<comment> \<open>\<open>vm1_bank1 != NULL\<close>\<close>
  zxnext_mmu :: "nat \<Rightarrow> 8 word"
  zxn_nextport :: int        \<comment> \<open>the static \<open>nextport\<close> of \<open>zxn_handle_out\<close>\<close>
  zx_pages :: "nat \<Rightarrow> 8 word"
  zx_locked :: bool          \<comment> \<open>the static \<open>locked\<close> of \<open>zx_handle_out\<close>\<close>
  msx_mmu :: "nat \<Rightarrow> 8 word"
  z180_CBAR :: "8 word"
  z180_CBR :: "8 word"
  z180_BBR :: "8 word"

datatype memtype = MEM_TYPE_INST | MEM_TYPE_DATA | MEM_TYPE_STACK | MEM_TYPE_LOGICAL | MEM_TYPE_PHYSICAL

text \<open>The APU of \<open>am9511.c\<close>: a ring of sixteen bytes, its top and the status byte.\<close>

record apu =
  apu_stack :: "nat \<Rightarrow> 8 word"
  apu_tos :: nat
  apu_status :: "8 word"

text \<open>
  The arithmetic of C's \<open>double\<close> and the functions of \<open>math.h\<close> that \<open>am9511.c\<close> computes with.
  They belong to the host: a \<open>double\<close> is its 64-bit representation, its operations are fields that
  every statement leaves open.
\<close>

record libm =
  d_of_int :: "int \<Rightarrow> 64 word"    \<comment> \<open>conversion from an integer type\<close>
  int_of_d :: "64 word \<Rightarrow> int"    \<comment> \<open>conversion to \<open>int\<close>\<close>
  int64_of_d :: "64 word \<Rightarrow> int"  \<comment> \<open>conversion to \<open>int64_t\<close>\<close>
  d_add :: "64 word \<Rightarrow> 64 word \<Rightarrow> 64 word"
  d_sub :: "64 word \<Rightarrow> 64 word \<Rightarrow> 64 word"
  d_mul :: "64 word \<Rightarrow> 64 word \<Rightarrow> 64 word"
  d_div :: "64 word \<Rightarrow> 64 word \<Rightarrow> 64 word"
  d_less :: "64 word \<Rightarrow> 64 word \<Rightarrow> bool"
  d_eq :: "64 word \<Rightarrow> 64 word \<Rightarrow> bool"
  isfinite :: "64 word \<Rightarrow> bool"
  d_fabs :: "64 word \<Rightarrow> 64 word"
  d_pow :: "64 word \<Rightarrow> 64 word \<Rightarrow> 64 word"
  d_log2 :: "64 word \<Rightarrow> 64 word"
  d_log10 :: "64 word \<Rightarrow> 64 word"
  d_log :: "64 word \<Rightarrow> 64 word"
  d_sqrt :: "64 word \<Rightarrow> 64 word"
  d_sin :: "64 word \<Rightarrow> 64 word"
  d_cos :: "64 word \<Rightarrow> 64 word"
  d_tan :: "64 word \<Rightarrow> 64 word"
  d_asin :: "64 word \<Rightarrow> 64 word"
  d_acos :: "64 word \<Rightarrow> 64 word"
  d_atan :: "64 word \<Rightarrow> 64 word"

text \<open>
  The calls of the hook functions into the operating system and what they return: the result, the time or
  size a structure receives, \<open>errno\<close> and the bytes of a read.
\<close>

datatype open_flag = O_RDONLY | O_WRONLY | O_RDWR | O_TRUNC | O_APPEND | O_CREAT

datatype whence = SEEK_SET | SEEK_CUR | SEEK_END

datatype os_call =
    OsOpen "8 word list" "open_flag list" | OsClose int | OsWrite int "8 word list" | OsRead int nat
  | OsSeek int int whence | OsUnlink "8 word list" | OsRename "8 word list" "8 word list"
  | OsStat "8 word list" | OsTime

datatype os_errno = E_OK | EINVAL | EBADF | EACCES | ENFILE | ENOMEM | E_OTHER

record os_reply =
  ret :: int
  aux :: int
  errno :: os_errno
  payload :: "8 word list"

text \<open>How the emulator itself can end inside an instruction: \<open>exit()\<close>, a host trap, behaviour that C leaves
  undefined (an access outside every array, an uninitialised buffer), a loop of the host that does not end.\<close>

datatype stop = Exit int | Trap | Undefined | Hang

text \<open>
  What the emulator reads from and writes to the host: the results the next calls of \<open>getchar()\<close>
  will give, in \<open>getch()\<close> and in the non-blocking read of \<open>kbhit()\<close> (-1 is \<open>EOF\<close>), the character
  \<open>ungetc()\<close> has put back, and the bytes written to \<open>stdout\<close> (most recent first); the replies the next
  system calls will give and the calls made (most recent first); the static variables of \<open>hook_io.c\<close>,
  \<open>hook_cpm.c\<close> and \<open>hook_misc.c\<close>.
\<close>

record host =
  getch_in :: "int list"
  kbhit_in :: "int list"
  ungot :: "int option"
  stdout :: "8 word list"
  libm :: libm
  replies :: "os_reply list"
  calls :: "os_call list"
  stopped :: "stop option"
  rc2014_mode :: bool           \<comment> \<open>\<open>c_rc2014_mode\<close>\<close>
  io_slots :: "nat \<Rightarrow> int"      \<comment> \<open>\<open>slots\<close> of \<open>hook_io.c\<close>, -1 is free\<close>
  selected_unit :: nat
  devices :: "nat \<Rightarrow> int"
  start_time :: int
  cpm_slots :: "nat \<Rightarrow> int"     \<comment> \<open>\<open>slots\<close> of \<open>hook_cpm.c\<close>\<close>
  user_num :: int
  dma_address :: int

record cpu =
  c_cpu :: "16 word"
  c_rom_size :: int
  c_ioport :: int
  c_z80asm_tests :: bool
  regs :: "reg \<Rightarrow> 8 word"
  pregs :: "preg \<Rightarrow> 32 word"
  fl :: flg
  fl' :: flg
  fk :: "16 word"
  pc :: "16 word"
  sp :: "16 word"
  mp :: "16 word"
  tt :: "16 word"            \<comment> \<open>the scratch variable \<open>t\<close>\<close>
  uu :: "16 word"            \<comment> \<open>the scratch variable \<open>u\<close>\<close>
  st :: int
  ih :: bool
  iy :: bool
  altd :: bool
  alts :: bool
  ioi :: bool
  ioe :: bool
  iff :: bool
  halted :: bool
  im :: nat
  ear :: "8 word"
  vm1_mf :: int
  vm1_mb :: int
  vm1_rs :: int
  mem :: memory
  apu :: apu
  host :: host

definition stop_run :: "stop \<Rightarrow> cpu \<Rightarrow> cpu" where
  "stop_run x s = s\<lparr>host := (host s)\<lparr>stopped := Some x\<rparr>\<rparr>"

section \<open>The CPU selection of cpu.h\<close>

definition CPU_Z80 :: "16 word" where "CPU_Z80 = 1"
definition CPU_Z180 :: "16 word" where "CPU_Z180 = 2"
definition CPU_R2KA :: "16 word" where "CPU_R2KA = 4"
definition CPU_R3K :: "16 word" where "CPU_R3K = 8"
definition CPU_Z80N :: "16 word" where "CPU_Z80N = 16"
definition CPU_R800 :: "16 word" where "CPU_R800 = 32"
definition CPU_GBZ80 :: "16 word" where "CPU_GBZ80 = 64"
definition CPU_8080 :: "16 word" where "CPU_8080 = 128"
definition CPU_8085 :: "16 word" where "CPU_8085 = 256"
definition CPU_EZ80 :: "16 word" where "CPU_EZ80 = 512"
definition CPU_R4K :: "16 word" where "CPU_R4K = 1024"
definition CPU_R6K :: "16 word" where "CPU_R6K = 2048"
definition CPU_KC160 :: "16 word" where "CPU_KC160 = 4096"
definition CPU_KC160_Z80 :: "16 word" where "CPU_KC160_Z80 = 8192"
definition CPU_KR580VM1 :: "16 word" where "CPU_KR580VM1 = 16384"

lemmas cpu_codes =
  CPU_Z80_def CPU_Z180_def CPU_R2KA_def CPU_R3K_def CPU_Z80N_def CPU_R800_def CPU_GBZ80_def
  CPU_8080_def CPU_8085_def CPU_EZ80_def CPU_R4K_def CPU_R6K_def CPU_KC160_def
  CPU_KC160_Z80_def CPU_KR580VM1_def

text \<open>\<open>c_cpu & mask\<close> read as a truth value.\<close>

definition cpu_is :: "16 word \<Rightarrow> cpu \<Rightarrow> bool" where
  "cpu_is m s \<longleftrightarrow> c_cpu s AND m \<noteq> 0"

definition is8080 :: "cpu \<Rightarrow> bool" where "is8080 s \<longleftrightarrow> cpu_is CPU_8080 s"
definition is8085 :: "cpu \<Rightarrow> bool" where "is8085 s \<longleftrightarrow> cpu_is CPU_8085 s"
definition is808x :: "cpu \<Rightarrow> bool" where
  "is808x s \<longleftrightarrow> cpu_is (CPU_8080 OR CPU_8085 OR CPU_KR580VM1) s"
definition isvm1 :: "cpu \<Rightarrow> bool" where "isvm1 s \<longleftrightarrow> cpu_is CPU_KR580VM1 s"
definition isgbz80 :: "cpu \<Rightarrow> bool" where "isgbz80 s \<longleftrightarrow> cpu_is CPU_GBZ80 s"
definition isr800 :: "cpu \<Rightarrow> bool" where "isr800 s \<longleftrightarrow> cpu_is CPU_R800 s"
definition israbbit :: "cpu \<Rightarrow> bool" where
  "israbbit s \<longleftrightarrow> cpu_is (CPU_R2KA OR CPU_R3K OR CPU_R4K OR CPU_R6K) s"
definition israbbit3k :: "cpu \<Rightarrow> bool" where "israbbit3k s \<longleftrightarrow> cpu_is CPU_R3K s"
definition isz180 :: "cpu \<Rightarrow> bool" where "isz180 s \<longleftrightarrow> cpu_is CPU_Z180 s"
definition isez80 :: "cpu \<Rightarrow> bool" where "isez80 s \<longleftrightarrow> cpu_is CPU_EZ80 s"
definition isz80n :: "cpu \<Rightarrow> bool" where "isz80n s \<longleftrightarrow> cpu_is CPU_Z80N s"
definition iskc160 :: "cpu \<Rightarrow> bool" where
  "iskc160 s \<longleftrightarrow> cpu_is (CPU_KC160 OR CPU_KC160_Z80) s"
definition iskc160z80 :: "cpu \<Rightarrow> bool" where "iskc160z80 s \<longleftrightarrow> cpu_is CPU_KC160_Z80 s"
definition iskc160ext :: "cpu \<Rightarrow> bool" where "iskc160ext s \<longleftrightarrow> cpu_is CPU_KC160 s"
definition canaltreg :: "cpu \<Rightarrow> bool" where
  "canaltreg s \<longleftrightarrow> \<not> cpu_is (CPU_8080 OR CPU_8085 OR CPU_GBZ80 OR CPU_KR580VM1) s"
definition canindex :: "cpu \<Rightarrow> bool" where
  "canindex s \<longleftrightarrow> \<not> cpu_is (CPU_8080 OR CPU_8085 OR CPU_GBZ80 OR CPU_KR580VM1) s"
definition canixh :: "cpu \<Rightarrow> bool" where
  "canixh s \<longleftrightarrow> cpu_is (CPU_Z80 OR CPU_Z80N OR CPU_R800 OR CPU_EZ80) s"
definition cansll :: "cpu \<Rightarrow> bool" where "cansll s \<longleftrightarrow> cpu_is (CPU_Z80 OR CPU_Z80N) s"
definition canz180 :: "cpu \<Rightarrow> bool" where "canz180 s \<longleftrightarrow> cpu_is (CPU_Z180 OR CPU_EZ80) s"
definition cancbundoc :: "cpu \<Rightarrow> bool" where "cancbundoc s \<longleftrightarrow> cpu_is (CPU_Z80 OR CPU_Z80N) s"

lemmas cpu_preds =
  is8080_def is8085_def is808x_def isvm1_def isgbz80_def isr800_def israbbit_def israbbit3k_def
  isz180_def isez80_def isz80n_def iskc160_def iskc160z80_def iskc160ext_def canaltreg_def
  canindex_def canixh_def cansll_def canz180_def cancbundoc_def cpu_is_def

text \<open>The values \<open>main()\<close> gives \<open>c_cpu\<close>: one code, never a mask of several.\<close>

definition one_cpu :: "cpu \<Rightarrow> bool" where
  "one_cpu s \<longleftrightarrow> c_cpu s \<in> {CPU_Z80, CPU_Z180, CPU_R2KA, CPU_R3K, CPU_Z80N, CPU_R800, CPU_GBZ80,
     CPU_8080, CPU_8085, CPU_EZ80, CPU_R4K, CPU_R6K, CPU_KC160, CPU_KC160_Z80, CPU_KR580VM1}"

lemma one_cpu_excl:
  assumes "one_cpu s"
  shows "isgbz80 s \<Longrightarrow> \<not> is8085 s" "isgbz80 s \<Longrightarrow> \<not> isvm1 s" "isgbz80 s \<Longrightarrow> \<not> is8080 s"
    "is8085 s \<Longrightarrow> \<not> isvm1 s" "is8085 s \<Longrightarrow> \<not> is8080 s" "is8080 s \<Longrightarrow> \<not> isvm1 s"
  using assms by (auto simp: one_cpu_def cpu_preds cpu_codes)

text \<open>A processor whose F register has the Z80 layout.\<close>

definition z80_flags :: "cpu \<Rightarrow> bool" where
  "z80_flags s \<longleftrightarrow> \<not> is8085 s \<and> \<not> isvm1 s \<and> \<not> is8080 s \<and> \<not> isgbz80 s"

end
