(* ===== verification/Ticks_Bus.thy ===== *)
theory Ticks_Bus
  imports Ticks_Prelude
begin

text \<open>
  The interface between the CPU and its memory, as a contract: \<open>rd\<close> and \<open>wr\<close> are a byte read
  and a byte write on a 16-bit address, \<open>same\<close> says that two addresses name one byte (banked
  memory can map two addresses to one byte), \<open>ok\<close> that writes take effect. The stack and the
  block instructions are clients; \<open>Ticks_Memory\<close> is the provider.
\<close>

section \<open>Client operations\<close>

text \<open>A 16-bit value at \<open>a\<close>, low byte first.\<close>

definition rd16 :: "(16 word \<Rightarrow> 's \<Rightarrow> 8 word) \<Rightarrow> 16 word \<Rightarrow> 's \<Rightarrow> 16 word" where
  "rd16 rd a s = pair16 (rd (a + 1) s) (rd a s)"

text \<open>The loop of a block copy: \<open>n\<close> bytes, one at a time, upwards or downwards (\<open>d = 1\<close> or
  \<open>d = -1\<close>).\<close>

fun copy_bytes :: "(16 word \<Rightarrow> 's \<Rightarrow> 8 word) \<Rightarrow> (16 word \<Rightarrow> 8 word \<Rightarrow> 's \<Rightarrow> 's) \<Rightarrow> 16 word \<Rightarrow>
    nat \<Rightarrow> 16 word \<Rightarrow> 16 word \<Rightarrow> 's \<Rightarrow> 's" where
  "copy_bytes rd wr d 0 src dst s = s"
| "copy_bytes rd wr d (Suc n) src dst s =
     copy_bytes rd wr d n (src + d) (dst + d) (wr dst (rd src s) s)"

section \<open>The contract\<close>

locale byte_bus =
  fixes rd :: "16 word \<Rightarrow> 's \<Rightarrow> 8 word"
    and wr :: "16 word \<Rightarrow> 8 word \<Rightarrow> 's \<Rightarrow> 's"
    and same :: "'s \<Rightarrow> 16 word \<Rightarrow> 16 word \<Rightarrow> bool"
    and ok :: "'s \<Rightarrow> bool"
  assumes rd_wr: "ok s \<Longrightarrow> rd x (wr a v s) = (if same s a x then v else rd x s)"
    and ok_wr: "ok (wr a v s) = ok s"
    and same_wr: "same (wr a v s) x y = same s x y"
    and same_refl: "same s x x"
    and same_sym: "same s x y = same s y x"
begin

lemma rd_wr_same: "ok s \<Longrightarrow> rd a (wr a v s) = v"
  by (simp add: rd_wr same_refl)

lemma rd_wr_other: "ok s \<Longrightarrow> \<not> same s a x \<Longrightarrow> rd x (wr a v s) = rd x s"
  by (simp add: rd_wr)

lemma wr_wr_rd:
  "ok s \<Longrightarrow> \<not> same s a b \<Longrightarrow> rd a (wr b w (wr a v s)) = v"
  by (simp add: rd_wr ok_wr same_wr same_refl same_sym [of s b a])

lemma ok_copy: "ok (copy_bytes rd wr d n src dst s) = ok s"
  by (induction n arbitrary: src dst s) (simp_all add: ok_wr)

lemma same_copy: "same (copy_bytes rd wr d n src dst s) x y = same s x y"
  by (induction n arbitrary: src dst s) (simp_all add: same_wr)

text \<open>Bytes no write of the copy reaches keep their value.\<close>

lemma copy_frame:
  "ok s \<Longrightarrow> (\<And>i. i < n \<Longrightarrow> \<not> same s (dst + of_nat i * d) x) \<Longrightarrow>
    rd x (copy_bytes rd wr d n src dst s) = rd x s"
proof (induction n arbitrary: src dst s)
  case 0
  then show ?case by simp
next
  case (Suc n)
  have "\<not> same s (dst + d + of_nat i * d) x" if "i < n" for i
    using Suc.prems(2) [of "Suc i"] that by (simp add: algebra_simps)
  moreover have "\<not> same s dst x" using Suc.prems(2) [of 0] by simp
  ultimately show ?case
    using Suc.IH [of "wr dst (rd src s) s" "dst + d" "src + d"] Suc.prems(1)
    by (simp add: ok_wr same_wr rd_wr)
qed

text \<open>
  When no write of the copy reaches a source byte that is still to be read (the blocks are
  disjoint, or overlap the harmless way round), the destination receives the source block.
\<close>

lemma copy_result:
  assumes "ok s" "i < n"
    and inj: "\<And>j k. j < n \<Longrightarrow> k < n \<Longrightarrow> j \<noteq> k \<Longrightarrow>
      \<not> same s (dst + of_nat j * d) (dst + of_nat k * d)"
    and ahead: "\<And>j k. j < k \<Longrightarrow> k < n \<Longrightarrow>
      \<not> same s (dst + of_nat j * d) (src + of_nat k * d)"
  shows "rd (dst + of_nat i * d) (copy_bytes rd wr d n src dst s) = rd (src + of_nat i * d) s"
  using assms
proof (induction n arbitrary: src dst s i)
  case 0
  then show ?case by simp
next
  case (Suc n)
  let ?s = "wr dst (rd src s) s"
  have sh: "x + d + of_nat j * d = x + of_nat (Suc j) * d" for x :: "16 word" and j
    by (simp add: algebra_simps)
  show ?case
  proof (cases i)
    case 0
    have "\<not> same ?s (dst + d + of_nat j * d) dst" if "j < n" for j
      using Suc.prems(3) [of "Suc j" 0] that by (simp add: same_wr algebra_simps)
    then have "rd dst (copy_bytes rd wr d n (src + d) (dst + d) ?s) = rd dst ?s"
      using Suc.prems(1) by (intro copy_frame) (simp_all add: ok_wr)
    with 0 Suc.prems(1) show ?thesis by (simp add: rd_wr_same)
  next
    case (Suc i')
    have "rd (dst + d + of_nat i' * d) (copy_bytes rd wr d n (src + d) (dst + d) ?s) =
        rd (src + d + of_nat i' * d) ?s"
    proof (rule Suc.IH)
      show "ok ?s" using Suc.prems(1) by (simp add: ok_wr)
      show "i' < n" using Suc.prems(2) Suc by simp
      show "\<not> same ?s (dst + d + of_nat j * d) (dst + d + of_nat k * d)"
        if "j < n" "k < n" "j \<noteq> k" for j k
        using Suc.prems(3) [of "Suc j" "Suc k"] that by (simp add: same_wr sh)
      show "\<not> same ?s (dst + d + of_nat j * d) (src + d + of_nat k * d)"
        if "j < k" "k < n" for j k
        using Suc.prems(4) [of "Suc j" "Suc k"] that by (simp add: same_wr sh)
    qed
    moreover have "\<not> same s dst (src + of_nat i * d)"
      using Suc.prems(2) Suc.prems(4) [of 0 i] Suc by simp
    ultimately show ?thesis
      using Suc Suc.prems(1) by (simp add: sh rd_wr)
  qed
qed

end

text \<open>Memory in which every address is a byte of its own.\<close>

locale flat_bus = byte_bus +
  assumes same_eq: "ok s \<Longrightarrow> same s x y \<longleftrightarrow> x = y"
begin

lemma rd_wr_flat: "ok s \<Longrightarrow> rd x (wr a v s) = (if x = a then v else rd x s)"
  by (auto simp: rd_wr same_eq)

text \<open>A word pushed below the stack pointer, high byte first, reads back.\<close>

lemma rd16_push:
  assumes "ok s"
  shows "rd16 rd (a - 2) (wr (a - 2) lo (wr (a - 1) hi s)) = pair16 hi lo"
proof -
  have "a - 2 + 1 = a - 1" by (simp add: algebra_simps)
  moreover have "a - 1 \<noteq> a - 2" by simp
  ultimately show ?thesis
    using assms by (simp add: rd16_def rd_wr_flat ok_wr)
qed

text \<open>
  The idiom of filling memory: the destination one past the source. Every byte of the
  destination receives the first source byte.
\<close>

lemma copy_fill:
  assumes "ok s" "i < n" "n < 65536"
  shows "rd (src + 1 + of_nat i) (copy_bytes rd wr 1 n src (src + 1) s) = rd src s"
  using assms
proof (induction n arbitrary: src s i)
  case 0
  then show ?case by simp
next
  case (Suc n)
  let ?s = "wr (src + 1) (rd src s) s"
  have ok: "ok ?s" using Suc.prems(1) by (simp add: ok_wr)
  have v: "rd (src + 1) ?s = rd src s" using Suc.prems(1) by (simp add: rd_wr_same)
  show ?case
  proof (cases i)
    case 0
    have "\<not> same ?s (src + 1 + 1 + of_nat j * 1) (src + 1)" if "j < n" for j
    proof -
      have "(1 + of_nat j :: 16 word) \<noteq> 0"
      proof
        assume "(1 + of_nat j :: 16 word) = 0"
        then have "of_nat (Suc j) = (0 :: 16 word)" by simp
        then have "2 ^ LENGTH(16) dvd Suc j" by (simp only: word_of_nat_eq_0_iff)
        then have "65536 \<le> Suc j" by (auto dest: dvd_imp_le)
        with that Suc.prems(3) show False by simp
      qed
      then show ?thesis using ok by (simp add: same_eq algebra_simps)
    qed
    then have "rd (src + 1) (copy_bytes rd wr 1 n (src + 1) (src + 1 + 1) ?s) = rd (src + 1) ?s"
      using ok by (intro copy_frame) simp_all
    with 0 v show ?thesis by simp
  next
    case (Suc i')
    then show ?thesis
      using Suc.IH [of ?s i' "src + 1"] Suc.prems ok v by (simp add: algebra_simps)
  qed
qed

end

section \<open>Byte stacks\<close>

text \<open>
  A stack of bytes of limited depth: \<open>view k\<close> is the byte \<open>k\<close> below the top. Both the CPU's stack in
  memory and the ring buffer of the AM9511 provide it; multi-byte pushes are its clients.
\<close>

locale byte_stack =
  fixes push :: "8 word \<Rightarrow> 's \<Rightarrow> 's"
    and drop_top :: "'s \<Rightarrow> 's"
    and view :: "nat \<Rightarrow> 's \<Rightarrow> 8 word"
    and depth :: nat
    and good :: "'s \<Rightarrow> bool"
  assumes good_push: "good s \<Longrightarrow> good (push b s)"
    and good_drop: "good s \<Longrightarrow> good (drop_top s)"
    and view_push: "good s \<Longrightarrow> k < depth \<Longrightarrow> view k (push b s) = (if k = 0 then b else view (k - 1) s)"
    and view_drop: "good s \<Longrightarrow> view k (drop_top s) = view (Suc k) s"
begin

lemma good_pushes: "good s \<Longrightarrow> good (fold push bs s)"
  by (induction bs arbitrary: s) (simp_all add: good_push)

lemma good_drops: "good s \<Longrightarrow> good ((drop_top ^^ n) s)"
  by (induction n) (simp_all add: good_drop)

lemma view_drops: "good s \<Longrightarrow> view k ((drop_top ^^ n) s) = view (k + n) s"
  by (induction n arbitrary: k) (simp_all add: good_drops view_drop)

text \<open>The last byte pushed is on top; what was there lies below.\<close>

lemma view_pushes:
  "good s \<Longrightarrow> k < depth \<Longrightarrow>
    view k (fold push bs s) = (if k < length bs then rev bs ! k else view (k - length bs) s)"
proof (induction bs arbitrary: k rule: rev_induct)
  case Nil
  then show ?case by simp
next
  case (snoc b bs)
  show ?case
  proof (cases k)
    case 0
    with snoc.prems show ?thesis by (simp add: view_push good_pushes)
  next
    case (Suc k')
    with snoc.prems snoc.IH [of k'] show ?thesis by (simp add: view_push good_pushes)
  qed
qed

text \<open>Dropping what was pushed gives the old contents back, down to the depth that was left.\<close>

lemma view_pushes_drops:
  "good s \<Longrightarrow> k + length bs < depth \<Longrightarrow>
    view k ((drop_top ^^ length bs) (fold push bs s)) = view k s"
  by (simp add: view_drops good_pushes view_pushes)

end

end
