(* ===== verification/Ticks_Memory.thy ===== *)
theory Ticks_Memory
  imports Ticks_State Ticks_Bus
begin

text \<open>
  \<open>src/src/ticks/memory.c\<close>: the six memory models. A \<open>*_get_memory_addr\<close> function returns a
  pointer into one of the arrays; here it returns the array and the offset, or \<open>None\<close> where the
  C indexes outside an array. Addresses are the \<open>uint32_t\<close> argument as an \<^typ>\<open>int\<close>; every
  caller passes a value from 0 to 65536. The debugger callbacks \<open>bk.debugger_read_memory\<close> and
  \<open>bk.debugger_write_memory\<close> only look for watchpoints and are left out.
\<close>

section \<open>Arrays\<close>

type_synonym loc = "array_id \<times> nat"

definition array_size :: "array_id \<Rightarrow> nat" where
  "array_size a = (case a of
     Mem \<Rightarrow> 65536 | Vm1_bank1 \<Rightarrow> 65536
   | Zxn_bank b \<Rightarrow> (if b < 256 then 8192 else 0)
   | Zx_bank b \<Rightarrow> (if b < 8 then 16384 else 0)
   | Zx_rom b \<Rightarrow> (if b < 2 then 16384 else 0)
   | Z180_mem \<Rightarrow> 1024 * 1024
   | Ioi_mem \<Rightarrow> 65536 | Ioe_mem \<Rightarrow> 65536
   | Msx_bank b \<Rightarrow> (if b < 256 then 16384 else 0))"

text \<open>\<open>&arr[i]\<close>, checked.\<close>

definition at :: "array_id \<Rightarrow> int \<Rightarrow> loc option" where
  "at arr i = (if 0 \<le> i \<and> i < int (array_size arr) then Some (arr, nat i) else None)"

section \<open>The address functions\<close>

text \<open>\<open>vm1_bank_select\<close> of \<open>vm1_inst.c\<close>, called from here.\<close>

definition vm1_bank_select :: "cpu \<Rightarrow> int" where
  "vm1_bank_select s = (vm1_mf s XOR (if vm1_mb s \<noteq> 0 then 1 else 0)) AND 1"

definition standard_get_memory_addr :: "int \<Rightarrow> memtype \<Rightarrow> cpu \<Rightarrow> loc option" where
  "standard_get_memory_addr a type s =
     (let a = a AND 0xffff in
      if vm1_alloc (mem s) \<and> type = MEM_TYPE_DATA \<and> vm1_bank_select s \<noteq> 0
      then at Vm1_bank1 a
      else at Mem (a AND 65535))"

definition zxn_get_memory_addr :: "int \<Rightarrow> memtype \<Rightarrow> cpu \<Rightarrow> loc option" where
  "zxn_get_memory_addr a type s =
     (let segment = a div 8192; a = a AND 0xffff in
      if \<not> (0 \<le> segment \<and> segment < 8) then None
      else if zxnext_mmu (mem s) (nat segment) \<noteq> 0xff
      then at (Zxn_bank (unat (zxnext_mmu (mem s) (nat segment)))) (a mod 8192)
      else at Mem (a AND 65535))"

definition zx_get_memory_addr :: "int \<Rightarrow> memtype \<Rightarrow> cpu \<Rightarrow> loc option" where
  "zx_get_memory_addr a type s =
     (let segment = a div 16384 in
      if \<not> (0 \<le> segment \<and> segment < 4) then None
      else
        let bank = unat (zx_pages (mem s) (nat segment)); a = a AND 0xffff in
        if bank \<ge> 0x10 then at (Zx_rom (bank - 0x10)) (a mod 16384)
        else at (Zx_bank bank) (a mod 16384))"

definition z180_get_memory_addr :: "int \<Rightarrow> memtype \<Rightarrow> cpu \<Rightarrow> loc option" where
  "z180_get_memory_addr a type s =
     (let bank_start = shl (uint (z180_CBAR (mem s)) AND 0x0f) 12;
          common1_start = shl (uint (z180_CBAR (mem s)) AND 0xf0) 8 in
      if a \<ge> bank_start \<and> a < common1_start
      then at Z180_mem ((a AND 0x0fff) + uint (z180_BBR (mem s)) * 4096)
      else if a \<ge> common1_start
      then at Z180_mem ((a AND 0x0fff) + uint (z180_CBR (mem s)) * 4096)
      else at Z180_mem (a AND 0xffff))"

definition rabbit_get_memory_addr :: "int \<Rightarrow> memtype \<Rightarrow> cpu \<Rightarrow> loc option" where
  "rabbit_get_memory_addr a type s =
     (let a = a AND 0xffff in
      if ioi s \<and> type \<noteq> MEM_TYPE_INST then at Ioi_mem (a AND 65535)
      else if ioe s \<and> type \<noteq> MEM_TYPE_INST then at Ioe_mem (a AND 65535)
      else at Mem (a AND 65535))"

definition msx_get_memory_addr :: "int \<Rightarrow> memtype \<Rightarrow> cpu \<Rightarrow> loc option" where
  "msx_get_memory_addr a type s =
     (let segment = a div 16384 in
      if \<not> (0 \<le> segment \<and> segment < 4) then None
      else at (Msx_bank (unat (msx_mmu (mem s) (nat segment)))) (a mod 16384))"

definition get_memory_addr :: "int \<Rightarrow> memtype \<Rightarrow> cpu \<Rightarrow> loc option" where
  "get_memory_addr a type s = (case model (mem s) of
     Standard \<Rightarrow> standard_get_memory_addr a type s
   | Zxn \<Rightarrow> zxn_get_memory_addr a type s
   | Zx128 \<Rightarrow> zx_get_memory_addr a type s
   | Z180 \<Rightarrow> z180_get_memory_addr a type s
   | Rabbit \<Rightarrow> rabbit_get_memory_addr a type s
   | Msx \<Rightarrow> msx_get_memory_addr a type s)"

section \<open>Reading and writing\<close>

text \<open>
  An access outside the arrays is undefined in C. A read gives 0 here and a write does nothing;
  \<open>get_memory_addr_in_bounds\<close> below says which accesses never come to that.
\<close>

definition load :: "loc option \<Rightarrow> cpu \<Rightarrow> 8 word" where
  "load p s = (case p of Some (arr, i) \<Rightarrow> store (mem s) arr i | None \<Rightarrow> 0)"

definition store_at :: "loc option \<Rightarrow> 8 word \<Rightarrow> cpu \<Rightarrow> cpu" where
  "store_at p v s = (case p of
     Some (arr, i) \<Rightarrow>
       s\<lparr>mem := (mem s)\<lparr>store := (store (mem s))(arr := (store (mem s) arr)(i := v))\<rparr>\<rparr>
   | None \<Rightarrow> s)"

definition get_memory :: "int \<Rightarrow> memtype \<Rightarrow> cpu \<Rightarrow> 8 word" where
  "get_memory a type s = load (get_memory_addr a type s) s"

abbreviation get_memory_inst :: "int \<Rightarrow> cpu \<Rightarrow> 8 word" where
  "get_memory_inst a s \<equiv> get_memory a MEM_TYPE_INST s"

abbreviation get_memory_data :: "int \<Rightarrow> cpu \<Rightarrow> 8 word" where
  "get_memory_data a s \<equiv> get_memory a MEM_TYPE_DATA s"

text \<open>\<open>put_memory\<close> takes a \<open>uint16_t\<close> and returns the byte the location holds afterwards.\<close>

definition put_memory :: "16 word \<Rightarrow> 8 word \<Rightarrow> cpu \<Rightarrow> 8 word \<times> cpu" where
  "put_memory a v s =
     (let p = get_memory_addr (uint a) MEM_TYPE_DATA s in
      if uint a < c_rom_size s then (load p s, s)
      else (v, store_at p v s))"

text \<open>The calls that drop the result.\<close>

definition put_mem :: "16 word \<Rightarrow> 8 word \<Rightarrow> cpu \<Rightarrow> cpu" where
  "put_mem a v s = snd (put_memory a v s)"

text \<open>The macro \<open>put_memory_physical\<close> stores without the ROM check.\<close>

definition put_physical :: "int \<Rightarrow> 8 word \<Rightarrow> cpu \<Rightarrow> cpu" where
  "put_physical a v s = store_at (get_memory_addr a MEM_TYPE_PHYSICAL s) v s"

abbreviation get_physical :: "int \<Rightarrow> cpu \<Rightarrow> 8 word" where
  "get_physical a s \<equiv> get_memory a MEM_TYPE_PHYSICAL s"

section \<open>Paging\<close>

abbreviation upd_mem :: "(memory \<Rightarrow> memory) \<Rightarrow> cpu \<Rightarrow> cpu" where
  "upd_mem g s \<equiv> s\<lparr>mem := g (mem s)\<rparr>"

definition zxn_handle_out :: "int \<Rightarrow> int \<Rightarrow> cpu \<Rightarrow> cpu" where
  "zxn_handle_out port val s =
     (if port = 0x243B \<and> zxn_nextport (mem s) = 0
      then upd_mem (\<lambda>m. m\<lparr>zxn_nextport := val\<rparr>) s
      else
        let np = zxn_nextport (mem s);
            s = (if np \<ge> 0x50 \<and> np \<le> 0x57
                 then upd_mem (\<lambda>m. m\<lparr>zxnext_mmu := (zxnext_mmu m)(nat (np - 0x50) := u8 val)\<rparr>) s
                 else s)
        in upd_mem (\<lambda>m. m\<lparr>zxn_nextport := 0\<rparr>) s)"

definition zx_handle_out :: "int \<Rightarrow> int \<Rightarrow> cpu \<Rightarrow> cpu" where
  "zx_handle_out port val s =
     (if port = 0x7ffd \<and> \<not> zx_locked (mem s) then
        if val AND 0x20 \<noteq> 0 then upd_mem (\<lambda>m. m\<lparr>zx_locked := True\<rparr>) s
        else upd_mem (\<lambda>m. m\<lparr>zx_pages := (zx_pages m)(3 := u8 (val AND 0x07),
                0 := (if val AND 16 \<noteq> 0 then 0x10 else 0x11))\<rparr>) s
      else s)"

definition z180_handle_out :: "int \<Rightarrow> int \<Rightarrow> cpu \<Rightarrow> cpu" where
  "z180_handle_out port val s =
     (if port = 56 then upd_mem (\<lambda>m. m\<lparr>z180_CBR := u8 val\<rparr>) s
      else if port = 57 then upd_mem (\<lambda>m. m\<lparr>z180_BBR := u8 val\<rparr>) s
      else if port = 58 then upd_mem (\<lambda>m. m\<lparr>z180_CBAR := u8 val\<rparr>) s
      else s)"

definition msx_handle_out :: "int \<Rightarrow> int \<Rightarrow> cpu \<Rightarrow> cpu" where
  "msx_handle_out port val s =
     (let p = port AND 0xff in
      if 0xfc \<le> p \<and> p \<le> 0xff
      then upd_mem (\<lambda>m. m\<lparr>msx_mmu := (msx_mmu m)(nat (p - 0xfc) := u8 val)\<rparr>) s
      else s)"

definition msx_handle_in :: "int \<Rightarrow> cpu \<Rightarrow> int" where
  "msx_handle_in port s =
     (let p = port AND 0xff in
      if 0xfc \<le> p \<and> p \<le> 0xff then uint (msx_mmu (mem s) (nat (p - 0xfc))) else -1)"

definition memory_handle_paging :: "int \<Rightarrow> int \<Rightarrow> cpu \<Rightarrow> cpu" where
  "memory_handle_paging port val s = (case model (mem s) of
     Zxn \<Rightarrow> zxn_handle_out port val s
   | Zx128 \<Rightarrow> zx_handle_out port val s
   | Z180 \<Rightarrow> z180_handle_out port val s
   | Msx \<Rightarrow> msx_handle_out port val s
   | Standard \<Rightarrow> s | Rabbit \<Rightarrow> s)"

definition memory_in :: "int \<Rightarrow> cpu \<Rightarrow> int" where
  "memory_in port s = (if model (mem s) = Msx then msx_handle_in port s else -1)"

definition memory_reset_paging :: "cpu \<Rightarrow> cpu" where
  "memory_reset_paging s =
     upd_mem (\<lambda>m. m\<lparr>zxnext_mmu := (\<lambda>i. if i < 8 then 0xff else zxnext_mmu m i)\<rparr>) s"

text \<open>
  \<open>rabbit_get_ioi_reg\<close>. The array only exists under the Rabbit model, which \<open>ticks_main.c\<close>
  selects for every Rabbit CPU; the store reads 0 elsewhere, as after \<open>calloc\<close>.
\<close>

definition rabbit_get_ioi_reg :: "int \<Rightarrow> cpu \<Rightarrow> int" where
  "rabbit_get_ioi_reg reg s = uint (load (at Ioi_mem (reg AND 0xffff)) s)"

text \<open>
  \<open>memory_init\<close> by model name: the arrays are zeroed, the bank registers have their static
  initial values. \<open>None\<close> is the \<open>exit(1)\<close> of an unknown model. Loading ROM images (\<open>zx128,file\<close>)
  is file I/O and left out.
\<close>

definition memory_reset_state :: "mem_model \<Rightarrow> bool \<Rightarrow> memory" where
  "memory_reset_state m vm1 = \<lparr>model = m, store = (\<lambda>_ _. 0), vm1_alloc = (m = Standard \<or> m = Zxn) \<and> vm1,
     zxnext_mmu = (\<lambda>_. 0xff), zxn_nextport = 0,
     zx_pages = (\<lambda>i. [0x11, 0x05, 0x02, 0x00] ! i), zx_locked = False,
     msx_mmu = (\<lambda>i. [0x00, 0x01, 0x02, 0x03] ! i),
     z180_CBAR = 0xf0, z180_CBR = 0, z180_BBR = 0\<rparr>"

definition memory_init :: "string \<Rightarrow> cpu \<Rightarrow> cpu option" where
  "memory_init name s =
     (let start = (\<lambda>m. Some (s\<lparr>mem := memory_reset_state m (isvm1 s)\<rparr>)) in
      if name = ''zxn'' then start Zxn
      else if take 5 name = ''zx128'' then start Zx128
      else if name = ''standard'' then start Standard
      else if name = ''z180'' then start Z180
      else if name = ''rabbit'' then start Rabbit
      else if name = ''msx'' then start Msx
      else None)"

text \<open>
  The globals of \<open>ticks.c\<close> as they are initialised, for a processor and a memory model: the
  state \<open>main\<close> hands to \<open>cpu_run\<close> when no option sets a register.
\<close>

definition zero_libm :: libm where
  "zero_libm = \<lparr>d_of_int = (\<lambda>_. 0), int_of_d = (\<lambda>_. 0), int64_of_d = (\<lambda>_. 0), d_add = (\<lambda>_ _. 0),
     d_sub = (\<lambda>_ _. 0), d_mul = (\<lambda>_ _. 0), d_div = (\<lambda>_ _. 0), d_less = (\<lambda>_ _. False),
     d_eq = (=), isfinite = (\<lambda>_. True), d_fabs = id, d_pow = (\<lambda>_ _. 0), d_log2 = (\<lambda>_. 0),
     d_log10 = (\<lambda>_. 0), d_log = (\<lambda>_. 0), d_sqrt = id, d_sin = id, d_cos = id, d_tan = id,
     d_asin = id, d_acos = id, d_atan = id\<rparr>"

definition power_on :: "16 word \<Rightarrow> mem_model \<Rightarrow> cpu" where
  "power_on code m =
     \<lparr>c_cpu = code, c_rom_size = 0, c_ioport = -1, c_z80asm_tests = False,
      regs = (\<lambda>_. 0), pregs = (\<lambda>_. 0), fl = \<lparr>ff = 0, fr = 0, fa = 0, fb = 0\<rparr>, fl' = \<lparr>ff = 0, fr = 0, fa = 0, fb = 0\<rparr>,
      fk = 0, pc = 0, sp = 0, mp = 0, tt = 0, uu = 0, st = 0, ih = True, iy = False,
      altd = False, alts = False, ioi = False, ioe = False, iff = False, halted = False,
      im = 0, ear = 255, vm1_mf = 0, vm1_mb = 0, vm1_rs = 0,
      mem = memory_reset_state m (code AND CPU_KR580VM1 \<noteq> 0),
      apu = \<lparr>apu_stack = (\<lambda>_. 0), apu_tos = 0, apu_status = 0\<rparr>,
      host = \<lparr>getch_in = [], kbhit_in = [], ungot = None, stdout = [], libm = zero_libm, replies = [], calls = [],
        stopped = None, rc2014_mode = False, io_slots = (\<lambda>i. if i < 3 then int i else -1), selected_unit = 0,
        devices = (\<lambda>_. 0), start_time = 0, cpm_slots = (\<lambda>_. -1), user_num = 0, dma_address = 0\<rparr>\<rparr>"

section \<open>Where accesses land\<close>

text \<open>The page registers the code can hold: ROM pages 16 and 17, RAM pages 0 to 7.\<close>

definition mem_wf :: "memory \<Rightarrow> bool" where
  "mem_wf m \<longleftrightarrow> (\<forall>i<4. unat (zx_pages m i) < 8 \<or> unat (zx_pages m i) \<in> {0x10, 0x11})"


lemma and_mask16: "0 \<le> a \<Longrightarrow> a < 65536 \<Longrightarrow> (a::int) AND 0xffff = a"
  using take_bit_int_eq_self [of a 16] by (simp add: take_bit_eq_mask mask_eq_exp_minus_1)

lemma and_mask16_bounds: "0 \<le> (a::int) AND 0xffff" "(a::int) AND 0xffff < 65536"
  using take_bit_nonnegative [of 16 a] take_bit_int_less_exp [of 16 a]
  by (simp_all add: take_bit_eq_mask mask_eq_exp_minus_1)

lemma and_fff_bounds: "0 \<le> (a::int) AND 0x0fff" "(a::int) AND 0x0fff < 4096"
  using take_bit_nonnegative [of 12 a] take_bit_int_less_exp [of 12 a]
  by (simp_all add: take_bit_eq_mask mask_eq_exp_minus_1)

lemma uint8_bound: "0 \<le> uint (w :: 8 word)" "uint (w :: 8 word) < 256"
  using uint_bounded [of w] by simp_all

lemma uint16_bound: "0 \<le> uint (w :: 16 word)" "uint (w :: 16 word) < 65536"
  using uint_bounded [of w] by simp_all

lemma unat8_bound: "unat (w :: 8 word) < 256"
proof -
  have "unat w < 2 ^ LENGTH(8)" by (rule unsigned_less)
  then show ?thesis by simp
qed

lemma z180_page_in: "\<exists>p. at Z180_mem ((a AND 0x0fff) + uint (w :: 8 word) * 4096) = Some p"
proof -
  have "0 \<le> (a AND 0x0fff) + uint w * 4096" "(a AND 0x0fff) + uint w * 4096 < 1048576"
    using and_fff_bounds [of a] uint8_bound [of w] by linarith+
  then show ?thesis by (simp add: at_def array_size_def)
qed

lemma at_in: "0 \<le> i \<Longrightarrow> i < int (array_size arr) \<Longrightarrow> at arr i = Some (arr, nat i)"
  by (simp add: at_def)

lemma at_Some: "at arr i = Some (arr', j) \<Longrightarrow> arr' = arr \<and> j < array_size arr"
  by (auto simp: at_def split: if_splits)

lemma standard_in_bounds:
  "\<exists>p. standard_get_memory_addr a ty s = Some p"
  using and_mask16_bounds [of a] and_mask16_bounds [of "a AND 65535"]
  by (auto simp: standard_get_memory_addr_def Let_def at_def array_size_def)

lemma rabbit_in_bounds:
  "\<exists>p. rabbit_get_memory_addr a ty s = Some p"
  using and_mask16_bounds [of a] and_mask16_bounds [of "a AND 65535"]
  by (auto simp: rabbit_get_memory_addr_def Let_def at_def array_size_def)

lemma zxn_in_bounds:
  assumes "0 \<le> a" "a < 65536"
  shows "\<exists>p. zxn_get_memory_addr a ty s = Some p"
proof -
  have "unat (zxnext_mmu (mem s) (nat (a div 8192))) < 256"
    by (rule unat8_bound)
  moreover have "a div 8192 < 8" "0 \<le> a div 8192" using assms by auto
  ultimately show ?thesis
    using and_mask16_bounds [of "a AND 65535"]
    by (auto simp: zxn_get_memory_addr_def Let_def at_def array_size_def)
qed

lemma zx_in_bounds:
  assumes "0 \<le> a" "a < 65536" "mem_wf (mem s)"
  shows "\<exists>p. zx_get_memory_addr a ty s = Some p"
proof -
  have seg: "a div 16384 < 4" "0 \<le> a div 16384" using assms by auto
  then have "nat (a div 16384) < 4" by auto
  with assms(3) have "unat (zx_pages (mem s) (nat (a div 16384))) < 8 \<or>
      unat (zx_pages (mem s) (nat (a div 16384))) \<in> {0x10, 0x11}"
    by (auto simp: mem_wf_def)
  with seg show ?thesis
    by (auto simp: zx_get_memory_addr_def Let_def at_def array_size_def)
qed

lemma z180_in_bounds:
  assumes "0 \<le> a" "a < 65536"
  shows "\<exists>p. z180_get_memory_addr a ty s = Some p"
proof -
  have "\<exists>p. at Z180_mem (a AND 0xffff) = Some p"
    using and_mask16_bounds [of a] by (simp add: at_def array_size_def)
  then show ?thesis
    using z180_page_in by (simp add: z180_get_memory_addr_def Let_def)
qed

lemma msx_in_bounds:
  assumes "0 \<le> a" "a < 65536"
  shows "\<exists>p. msx_get_memory_addr a ty s = Some p"
proof -
  have "unat (msx_mmu (mem s) (nat (a div 16384))) < 256"
    by (rule unat8_bound)
  moreover have "a div 16384 < 4" "0 \<le> a div 16384" using assms by auto
  ultimately show ?thesis
    by (auto simp: msx_get_memory_addr_def Let_def at_def array_size_def)
qed

lemma get_memory_addr_resolves:
  assumes "0 \<le> a" "a < 65536" "mem_wf (mem s)"
  shows "\<exists>p. get_memory_addr a ty s = Some p"
  using assms standard_in_bounds zxn_in_bounds zx_in_bounds z180_in_bounds rabbit_in_bounds
    msx_in_bounds
  by (auto simp: get_memory_addr_def split: mem_model.split)

lemma resolved_in_array:
  "get_memory_addr a ty s = Some (arr, i) \<Longrightarrow> i < array_size arr"
  by (auto simp: get_memory_addr_def standard_get_memory_addr_def zxn_get_memory_addr_def
      zx_get_memory_addr_def z180_get_memory_addr_def rabbit_get_memory_addr_def
      msx_get_memory_addr_def Let_def dest: at_Some split: mem_model.splits if_splits)

section \<open>Read after write\<close>

text \<open>
  Two addresses name the same byte when they resolve to the same location. The addresses
  resolve without looking at the stored bytes, so a write does not change what an address names.
\<close>

definition same_byte :: "cpu \<Rightarrow> 16 word \<Rightarrow> 16 word \<Rightarrow> bool" where
  "same_byte s x y \<longleftrightarrow>
     get_memory_addr (uint x) MEM_TYPE_DATA s = get_memory_addr (uint y) MEM_TYPE_DATA s"

lemma store_at_frame [simp]:
  "c_rom_size (store_at p v s) = c_rom_size s"
  "model (mem (store_at p v s)) = model (mem s)"
  "zx_pages (mem (store_at p v s)) = zx_pages (mem s)"
  "regs (store_at p v s) = regs s" "fl (store_at p v s) = fl s" "fl' (store_at p v s) = fl' s"
  "pc (store_at p v s) = pc s" "sp (store_at p v s) = sp s" "mp (store_at p v s) = mp s"
  "st (store_at p v s) = st s" "c_cpu (store_at p v s) = c_cpu s" "fk (store_at p v s) = fk s"
  "altd (store_at p v s) = altd s" "alts (store_at p v s) = alts s" "ih (store_at p v s) = ih s"
  "iy (store_at p v s) = iy s" "ioi (store_at p v s) = ioi s" "ioe (store_at p v s) = ioe s"
  "tt (store_at p v s) = tt s" "uu (store_at p v s) = uu s"
  "c_z80asm_tests (store_at p v s) = c_z80asm_tests s"
  "vm1_mf (store_at p v s) = vm1_mf s" "vm1_mb (store_at p v s) = vm1_mb s"
  "vm1_rs (store_at p v s) = vm1_rs s" "iff (store_at p v s) = iff s"
  "halted (store_at p v s) = halted s" "im (store_at p v s) = im s" "apu (store_at p v s) = apu s"
  "host (store_at p v s) = host s" "ear (store_at p v s) = ear s"
  "c_ioport (store_at p v s) = c_ioport s"
  by (simp_all add: store_at_def split: option.split prod.split)

lemma put_mem_frame [simp]:
  "c_rom_size (put_mem a v s) = c_rom_size s"
  "model (mem (put_mem a v s)) = model (mem s)"
  "zx_pages (mem (put_mem a v s)) = zx_pages (mem s)"
  "regs (put_mem a v s) = regs s" "fl (put_mem a v s) = fl s" "fl' (put_mem a v s) = fl' s"
  "pc (put_mem a v s) = pc s" "sp (put_mem a v s) = sp s" "mp (put_mem a v s) = mp s"
  "st (put_mem a v s) = st s" "c_cpu (put_mem a v s) = c_cpu s" "fk (put_mem a v s) = fk s"
  "altd (put_mem a v s) = altd s" "alts (put_mem a v s) = alts s" "ih (put_mem a v s) = ih s"
  "iy (put_mem a v s) = iy s" "ioi (put_mem a v s) = ioi s" "ioe (put_mem a v s) = ioe s"
  "tt (put_mem a v s) = tt s" "uu (put_mem a v s) = uu s"
  "c_z80asm_tests (put_mem a v s) = c_z80asm_tests s"
  "vm1_mf (put_mem a v s) = vm1_mf s" "vm1_mb (put_mem a v s) = vm1_mb s"
  "vm1_rs (put_mem a v s) = vm1_rs s" "iff (put_mem a v s) = iff s"
  "halted (put_mem a v s) = halted s" "im (put_mem a v s) = im s" "apu (put_mem a v s) = apu s"
  "host (put_mem a v s) = host s" "ear (put_mem a v s) = ear s"
  "c_ioport (put_mem a v s) = c_ioport s"
  by (simp_all add: put_mem_def put_memory_def Let_def)

text \<open>Resolution reads only the paging registers, the prefix flags and the VM1 bank bits.\<close>

lemma get_memory_addr_cong:
  assumes "mem s' = mem s\<lparr>store := x\<rparr>" "ioi s' = ioi s" "ioe s' = ioe s"
    "vm1_mf s' = vm1_mf s" "vm1_mb s' = vm1_mb s"
  shows "get_memory_addr a ty s' = get_memory_addr a ty s"
  using assms
  by (simp add: get_memory_addr_def standard_get_memory_addr_def zxn_get_memory_addr_def
      zx_get_memory_addr_def z180_get_memory_addr_def rabbit_get_memory_addr_def
      msx_get_memory_addr_def vm1_bank_select_def Let_def split: mem_model.split)

lemma get_memory_addr_store_at [simp]:
  "get_memory_addr a ty (store_at p v s) = get_memory_addr a ty s"
proof (cases p)
  case None
  then show ?thesis by (simp add: store_at_def)
next
  case (Some q)
  then show ?thesis
    by (intro get_memory_addr_cong
        [where x = "(store (mem s))(fst q := (store (mem s) (fst q))(snd q := v))"])
      (simp_all add: store_at_def split: prod.split)
qed

lemma get_memory_addr_put_mem [simp]:
  "get_memory_addr a ty (put_mem b v s) = get_memory_addr a ty s"
  by (simp add: put_mem_def put_memory_def Let_def)

lemma same_byte_put_mem [simp]: "same_byte (put_mem b v s) x y = same_byte s x y"
  by (simp add: same_byte_def)

lemma load_store_at:
  "load q (store_at (Some p) v s) = (if q = Some p then v else load q s)"
  by (auto simp: load_def store_at_def split: option.split prod.split)

text \<open>Locations the CPU may write: past the ROM, under a paging state the code can reach.\<close>

definition ram_ok :: "cpu \<Rightarrow> bool" where
  "ram_ok s \<longleftrightarrow> c_rom_size s \<le> 0 \<and> mem_wf (mem s)"

lemma ram_ok_put_mem [simp]: "ram_ok (put_mem a v s) = ram_ok s"
  by (simp add: ram_ok_def mem_wf_def)

lemma get_put_mem:
  assumes "ram_ok s"
  shows "get_memory_data (uint x) (put_mem a v s) =
    (if same_byte s a x then v else get_memory_data (uint x) s)"
proof -
  obtain p where p: "get_memory_addr (uint a) MEM_TYPE_DATA s = Some p"
    using assms get_memory_addr_resolves uint16_bound ram_ok_def by blast
  have "\<not> uint a < c_rom_size s" using assms uint16_bound(1) [of a] unfolding ram_ok_def by linarith
  then have "put_mem a v s = store_at (Some p) v s"
    by (simp add: put_mem_def put_memory_def p)
  then show ?thesis
    by (simp add: get_memory_def load_store_at same_byte_def p eq_commute)
qed

section \<open>The contracts\<close>

abbreviation rd_data :: "16 word \<Rightarrow> cpu \<Rightarrow> 8 word" where
  "rd_data x s \<equiv> get_memory_data (uint x) s"

text \<open>All six memory models meet the byte contract.\<close>

interpretation bus: byte_bus rd_data put_mem same_byte ram_ok
  by unfold_locales (simp_all add: get_put_mem same_byte_def eq_commute)

text \<open>The unbanked models are flat.\<close>

definition flat_ram :: "cpu \<Rightarrow> bool" where
  "flat_ram s \<longleftrightarrow> c_rom_size s \<le> 0 \<and> mem_wf (mem s) \<and> (model (mem s) = Standard \<or> model (mem s) = Rabbit)"

lemma flat_ram_put_mem [simp]: "flat_ram (put_mem a v s) = flat_ram s"
  by (simp add: flat_ram_def mem_wf_def)

lemma flat_ram_ok: "flat_ram s \<Longrightarrow> ram_ok s"
  by (simp add: flat_ram_def ram_ok_def)

lemma at_eq: "at arr i = at arr j \<Longrightarrow> at arr i \<noteq> None \<Longrightarrow> i = j"
  by (auto simp: at_def split: if_splits)

lemma mask16_uint [simp]: "uint (x :: 16 word) AND 65535 = uint x"
  by (rule and_mask16 [OF uint16_bound])

lemma at_flat_eq:
  assumes "arr \<in> {Mem, Vm1_bank1, Ioi_mem, Ioe_mem}" "at arr (uint x) = at arr (uint (y :: 16 word))"
  shows "x = y"
proof -
  have "at arr (uint x) \<noteq> None"
    using assms(1) uint16_bound [of x] by (auto simp: at_def array_size_def)
  with assms(2) have "uint x = uint y" by (blast dest: at_eq)
  then show ?thesis by (rule word_uint_eqI)
qed

lemma same_byte_flat: "flat_ram s \<Longrightarrow> same_byte s x y \<longleftrightarrow> x = y"
  by (auto simp: flat_ram_def same_byte_def get_memory_addr_def standard_get_memory_addr_def
      rabbit_get_memory_addr_def Let_def dest: at_flat_eq [rotated] split: if_splits)

interpretation flat: flat_bus rd_data put_mem same_byte flat_ram
  by unfold_locales
    (simp_all add: get_put_mem flat_ram_ok same_byte_flat bus.same_refl bus.same_sym)

section \<open>Properties\<close>

lemma all_less4: "(\<forall>i<4. P i) \<longleftrightarrow> P 0 \<and> P 1 \<and> P 2 \<and> P (3 :: nat)"
  by (auto simp: numeral_nat less_Suc_eq)

lemma mem_wf_init: "memory_init name s = Some s' \<Longrightarrow> mem_wf (mem s')"
proof -
  have "mem_wf (memory_reset_state m v)" for m v
    by (simp add: mem_wf_def memory_reset_state_def all_less4)
  then show "memory_init name s = Some s' \<Longrightarrow> mem_wf (mem s')"
    by (auto simp: memory_init_def split: if_splits)
qed

lemma mem_wf_put_mem [simp]: "mem_wf (mem (put_mem a b s)) = mem_wf (mem s)"
  by (simp add: mem_wf_def)

lemma u8_and7: "unat (u8 (v AND 7)) < 8"
proof -
  have "0 \<le> v AND 7" "v AND 7 < 8"
    using take_bit_nonnegative [of 3 v] take_bit_int_less_exp [of 3 v]
    by (simp_all add: take_bit_eq_mask mask_eq_exp_minus_1)
  then show ?thesis by (simp add: unat_eq_nat_uint uint_word_of_int nat_less_iff)
qed

lemma mem_wf_paging: "mem_wf (mem s) \<Longrightarrow> mem_wf (mem (memory_handle_paging port v s))"
  using u8_and7 [of v]
  by (auto simp: memory_handle_paging_def zxn_handle_out_def zx_handle_out_def z180_handle_out_def
      msx_handle_out_def mem_wf_def Let_def split: mem_model.split)

text \<open>
  an access at a 16-bit address resolves, in every memory model and access type, to a byte
  inside one of the allocated arrays, as long as the 128K page registers hold pages that exist.
\<close>

lemma memory_access_in_bounds:
  assumes "0 \<le> a" "a < 65536" "mem_wf (mem s)"
  shows "\<exists>arr i. get_memory_addr a ty s = Some (arr, i) \<and> i < array_size arr"
  using get_memory_addr_resolves [OF assms, of ty] resolved_in_array by fastforce

text \<open>
  the page registers stay within the allocated pages: initialising a model establishes it
  and no port write or memory write breaks it.
\<close>

lemma mem_wf_invariant:
  assumes "memory_init name s0 = Some s \<or> mem_wf (mem s)"
  shows "mem_wf (mem s) \<and> mem_wf (mem (memory_handle_paging port v s)) \<and>
    mem_wf (mem (put_mem a b s))"
  using assms mem_wf_init mem_wf_paging by (metis mem_wf_put_mem)

text \<open>The bank and offset of a 16-bit address under the Spectrum Next model.\<close>

definition zxn_page :: "cpu \<Rightarrow> 16 word \<Rightarrow> 8 word" where
  "zxn_page s x = zxnext_mmu (mem s) (nat (uint x div 8192))"

lemma zxn_resolve:
  "zxn_get_memory_addr (uint x) ty s =
    (if zxn_page s x \<noteq> 0xff then Some (Zxn_bank (unat (zxn_page s x)), nat (uint x mod 8192))
     else Some (Mem, nat (uint x)))"
proof -
  have "uint x div 8192 < 8" "0 \<le> uint x div 8192" "uint x mod 8192 < 8192" "0 \<le> uint x mod 8192"
    using uint16_bound [of x] by (auto simp: pos_imp_zdiv_nonneg_iff)
  then show ?thesis
    using unat8_bound [of "zxn_page s x"] uint16_bound [of x]
    by (auto simp: zxn_get_memory_addr_def zxn_page_def Let_def at_def array_size_def)
qed

text \<open>
  C12: under the Spectrum Next model a byte written at \<open>a\<close> is read back at exactly the addresses
  that are \<open>a\<close> itself, or name the same offset of an 8K slot holding the same bank; every other
  address reads as before.
\<close>

theorem zxn_read_after_write:
  assumes "model (mem s) = Zxn" "ram_ok s"
  shows "get_memory_data (uint x) (put_mem a v s) =
    (if a = x \<or> (zxn_page s a = zxn_page s x \<and> zxn_page s a \<noteq> 0xff \<and>
        uint a mod 8192 = uint x mod 8192)
     then v else get_memory_data (uint x) s)"
proof -
  have "nat (uint a mod 8192) = nat (uint x mod 8192) \<longleftrightarrow> uint a mod 8192 = uint x mod 8192"
    using uint16_bound [of a] uint16_bound [of x] by (simp add: eq_nat_nat_iff)
  moreover have "nat (uint a) = nat (uint x) \<longleftrightarrow> a = x"
    by (auto simp: word_unat_eq_iff)
  moreover have "unat (zxn_page s a) = unat (zxn_page s x) \<longleftrightarrow> zxn_page s a = zxn_page s x"
    by (rule word_unat_eq_iff [symmetric])
  ultimately have "same_byte s a x \<longleftrightarrow> a = x \<or> (zxn_page s a = zxn_page s x \<and>
      zxn_page s a \<noteq> 0xff \<and> uint a mod 8192 = uint x mod 8192)"
    using assms(1) by (auto simp: same_byte_def get_memory_addr_def zxn_resolve)
  then show ?thesis using bus.rd_wr [OF assms(2), of x a v] by simp
qed


theorem zxn_read_after_write_witness:
  "let s = (power_on CPU_Z80N Standard)\<lparr>mem := (memory_reset_state Zxn False)\<lparr>zxnext_mmu := (\<lambda>_. 9)\<rparr>, c_rom_size := 0\<rparr> in
     get_memory_data (uint (0x2005 :: 16 word)) (put_mem 5 7 s) = 7"
proof -
  let ?s = "(power_on CPU_Z80N Standard)\<lparr>mem := (memory_reset_state Zxn False)\<lparr>zxnext_mmu := (\<lambda>_. 9)\<rparr>, c_rom_size := 0\<rparr>"
  have "model (mem ?s) = Zxn" "ram_ok ?s"
    by (simp_all add: ram_ok_def mem_wf_def memory_reset_state_def all_less4)
  from zxn_read_after_write [OF this, of "0x2005" 5 7] show ?thesis
    by (simp add: zxn_page_def)
qed


end
