(* ===== verification/Ticks_Flags.thy ===== *)
theory Ticks_Flags
  imports Ticks_Memory
begin

text \<open>
  \<open>f()\<close>, \<open>f_()\<close> and \<open>setf()\<close> of \<open>src/src/ticks/ticks.c\<close>: the F register is not stored but
  computed from the undecoded group \<open>ff fr fa fb\<close>, and a popped F is turned back into such a
  group. The reference is a record of the eight flag bits.
\<close>

section \<open>The code\<close>

text \<open>The expression for P/V, and for V and K, shared by the variants of \<open>f()\<close>.\<close>

definition pv_bits :: "flg \<Rightarrow> int" where
  "pv_bits g =
     (if uint (fa g) AND -256 \<noteq> 0
      then shr 154020 (nat ((uint (fr g) XOR shr (uint (fr g)) 4) AND 15))
      else shr ((uint (fr g) XOR uint (fa g)) AND (uint (fr g) XOR uint (fb g))) 5) AND 4"

definition h_bits :: "flg \<Rightarrow> int" where
  "h_bits g = (uint (fr g) XOR uint (fa g) XOR uint (fb g) XOR shr (uint (fb g)) 8) AND 16"

definition f_i8085 :: "flg \<Rightarrow> 16 word \<Rightarrow> int" where
  "f_i8085 g k =
     (uint (ff g) AND 128) OR (shr (uint (ff g)) 8 AND 1) OR shl (of_bool (fr g = 0)) 6
      OR shl (uint k) 5 OR h_bits g OR pv_bits g OR shr (pv_bits g) 1"

definition f_vm1 :: "flg \<Rightarrow> 16 word \<Rightarrow> int \<Rightarrow> int" where
  "f_vm1 g k mf =
     (uint (ff g) AND 128) OR 0x02 OR (shr (uint (ff g)) 8 AND 1) OR shl (of_bool (fr g = 0)) 6
      OR shl (uint k) 5 OR (if mf \<noteq> 0 then 8 else 0) OR h_bits g OR pv_bits g"

definition f_i8080 :: "flg \<Rightarrow> int" where
  "f_i8080 g =
     (uint (ff g) AND 128) OR 0x02 OR (shr (uint (ff g)) 8 AND 1) OR shl (of_bool (fr g = 0)) 6
      OR h_bits g OR pv_bits g"

definition f_gbz80 :: "flg \<Rightarrow> int" where
  "f_gbz80 g =
     (shr (uint (ff g)) 4 AND 0x10) OR shl (h_bits g) 1 OR shl (shr (uint (fb g)) 8 AND 2) 5
      OR shl (of_bool (fr g = 0)) 7"

definition f_z80 :: "flg \<Rightarrow> int" where
  "f_z80 g =
     (uint (ff g) AND 168) OR (shr (uint (ff g)) 8 AND 1) OR shl (of_bool (fr g = 0)) 6
      OR (shr (uint (fb g)) 8 AND 2) OR h_bits g OR pv_bits g"

definition f_flags :: "cpu \<Rightarrow> int" where
  "f_flags s =
     (if is8085 s then f_i8085 (fl s) (fk s)
      else if isvm1 s then f_vm1 (fl s) (fk s) (vm1_mf s)
      else if is8080 s \<and> \<not> c_z80asm_tests s then f_i8080 (fl s)
      else if isgbz80 s \<and> \<not> c_z80asm_tests s then f_gbz80 (fl s)
      else f_z80 (fl s))"

definition f_alt :: "cpu \<Rightarrow> int" where
  "f_alt s = f_z80 (fl' s)"

text \<open>\<open>setf\<close>: the sm83 byte is first rearranged into Z80 order.\<close>

definition setf_gbz80 :: "int \<Rightarrow> int" where
  "setf_gbz80 a =
     (shr a 4 AND 0x01) OR (shr a 1 AND 0x40) OR (shr a 5 AND 0x02) OR (shr a 1 AND 0x10)"

definition setf_group :: "int \<Rightarrow> flg" where
  "setf_group a =
     (let a' = a OR shl a 8;
          b = u16 ((a' AND -129) OR shl (a' AND 4) 5)
      in \<lparr>ff = u16 a', fr = u16 (NOT a AND 64), fa = u16 (255 AND uint b), fb = b\<rparr>)"

definition setf :: "int \<Rightarrow> cpu \<Rightarrow> cpu" where
  "setf a s =
     (let a = (if isgbz80 s \<and> \<not> c_z80asm_tests s then setf_gbz80 a else a);
          s = (if isvm1 s then s\<lparr>vm1_mf := shr a 3 AND 1\<rparr> else s);
          a' = a OR shl a 8
      in s\<lparr>fl := setf_group a, fk := u16 (shr (a' AND 0x20) 5)\<rparr>)"

text \<open>The condition macros \<open>F_C\<close> to \<open>F_GTU\<close>.\<close>

definition F_C :: "int \<Rightarrow> bool" where "F_C v = (v AND 1 = 1)"
definition F_V :: "cpu \<Rightarrow> int \<Rightarrow> bool" where
  "F_V s v = (if is8085 s then v AND 2 = 2 else v AND 4 = 4)"
definition F_Z :: "int \<Rightarrow> bool" where "F_Z v = (v AND 0x40 = 0x40)"
definition F_S :: "int \<Rightarrow> bool" where "F_S v = (v AND 0x80 = 0x80)"
definition F_GT :: "cpu \<Rightarrow> int \<Rightarrow> bool" where "F_GT s v = (\<not> (F_Z v \<or> (F_S v \<noteq> F_V s v)))"
definition F_LT :: "cpu \<Rightarrow> int \<Rightarrow> bool" where "F_LT s v = (F_S v \<noteq> F_V s v)"
definition F_GTU :: "int \<Rightarrow> bool" where "F_GTU v = (\<not> F_C v \<and> \<not> F_Z v)"

section \<open>The reference: eight flag bits\<close>

record zflags =
  S_flag :: bool
  Z_flag :: bool
  Y_flag :: bool      \<comment> \<open>bit 5\<close>
  H_flag :: bool
  X_flag :: bool      \<comment> \<open>bit 3\<close>
  PV_flag :: bool
  N_flag :: bool
  C_flag :: bool

definition flags_of :: "int \<Rightarrow> zflags" where
  "flags_of v = \<lparr>S_flag = bit v 7, Z_flag = bit v 6, Y_flag = bit v 5, H_flag = bit v 4,
     X_flag = bit v 3, PV_flag = bit v 2, N_flag = bit v 1, C_flag = bit v 0\<rparr>"

text \<open>Even parity of a byte.\<close>

definition even_parity :: "8 word \<Rightarrow> bool" where
  "even_parity w \<longleftrightarrow> even (card {i. i < 8 \<and> bit w i})"

section \<open>Decoding\<close>

lemma bit_pow2: "bit (2 ^ m :: int) n \<longleftrightarrow> n = m"
  by (simp add: bit_exp_iff)

lemma bit_masks:
  "bit (4 :: int) n \<longleftrightarrow> n = 2" "bit (16 :: int) n \<longleftrightarrow> n = 4" "bit (128 :: int) n \<longleftrightarrow> n = 7"
  "bit (64 :: int) n \<longleftrightarrow> n = 6" "bit (2 :: int) n \<longleftrightarrow> n = 1"
  "bit (32 :: int) n \<longleftrightarrow> n = 5" "bit (8 :: int) n \<longleftrightarrow> n = 3"
  using bit_pow2 [of 2 n] bit_pow2 [of 4 n] bit_pow2 [of 7 n] bit_pow2 [of 6 n] bit_pow2 [of 1 n]
    bit_pow2 [of 5 n] bit_pow2 [of 3 n] by simp_all

lemma even_filter_Cons: "even (length (filter P (x # xs))) \<longleftrightarrow> (P x \<noteq> even (length (filter P xs)))"
  by simp

lemma even_parity_xor:
  "even_parity w \<longleftrightarrow> (bit w 0 \<noteq> (bit w 1 \<noteq> (bit w 2 \<noteq> (bit w 3 \<noteq>
     (bit w 4 \<noteq> (bit w 5 \<noteq> (bit w 6 \<noteq> (bit w 7 \<noteq> True))))))))"
proof -
  have "{i. i < 8 \<and> bit w i} = set (filter (bit w) [0..<8])" by auto
  then have "card {i. i < 8 \<and> bit w i} = length (filter (bit w) [0..<8])"
    by (simp only: distinct_card distinct_filter distinct_upt)
  moreover have "[0..<8] = [0,1,2,3,4,5,6,7]" by (simp add: upt_rec)
  ultimately show ?thesis by (simp only: even_parity_def even_filter_Cons) simp
qed

lemma even_parity_bits:
  "even_parity w \<longleftrightarrow>
     ((bit w 0 = bit w 4) = (bit w 1 = bit w 5)) = ((bit w 2 = bit w 6) = (bit w 3 = bit w 7))"
  unfolding even_parity_xor by argo

text \<open>One bit of a flag expression at a time.\<close>

lemmas bit_int_ops = bit_or_iff bit_and_iff bit_xor_iff bit_push_bit_iff_int bit_drop_bit_eq bit_not_iff

lemma bit_of_bool_int: "bit (of_bool p :: int) n \<longleftrightarrow> p \<and> n = 0"
  by (auto simp: bit_1_iff)

lemma bit_uint16: "bit (uint (w :: 16 word)) n \<longleftrightarrow> bit w n"
  using bit_imp_le_length [of w n] by (auto simp: bit_uint_iff)

lemma bit_uint8: "bit (uint (w :: 8 word)) n \<longleftrightarrow> bit w n"
  using bit_imp_le_length [of w n] by (auto simp: bit_uint_iff)

lemma bit16_high: "16 \<le> n \<Longrightarrow> \<not> bit (w :: 16 word) n"
  using bit_imp_le_length [of w n] by auto

lemma bit8_high: "8 \<le> n \<Longrightarrow> \<not> bit (w :: 8 word) n"
  using bit_imp_le_length [of w n] by auto

lemma bit_pv_mask: "n \<noteq> 2 \<Longrightarrow> \<not> bit (pv_bits g) n"
  by (simp add: pv_bits_def bit_and_iff bit_masks)

lemma bit_h_mask: "n \<noteq> 4 \<Longrightarrow> \<not> bit (h_bits g) n"
  by (simp add: h_bits_def bit_and_iff bit_masks)

lemma bit_h_bits: "bit (h_bits g) 4 \<longleftrightarrow> (bit (fr g) 4 \<noteq> (bit (fa g) 4 \<noteq> (bit (fb g) 4 \<noteq> bit (fb g) 12)))"
  by (simp add: h_bits_def bit_int_ops bit_uint16)

text \<open>P/V: parity of the result when \<open>fa\<close> has a bit above 7, else signed overflow.\<close>

lemma parity_table:
  fixes n :: nat
  assumes "n < 16"
  shows "bit (shr 154020 n) 2 \<longleftrightarrow> ((odd n = odd (n div 2)) = (odd (n div 4) = odd (n div 8)))"
proof -
  have "n \<in> set [0..<16]" using assms by simp
  moreover have "list_all (\<lambda>n. bit (shr 154020 n) 2 = ((odd n = odd (n div 2)) = (odd (n div 4) = odd (n div 8)))) [0..<16]"
    by (simp add: upt_rec bit_drop_bit_eq)
  ultimately show ?thesis by (simp add: list_all_iff)
qed

lemma bit_pv_overflow:
  assumes "uint (fa g) AND -256 = 0"
  shows "bit (pv_bits g) 2 \<longleftrightarrow> (bit (fr g) 7 \<noteq> bit (fa g) 7 \<and> bit (fr g) 7 \<noteq> bit (fb g) 7)"
  using assms by (simp add: pv_bits_def bit_int_ops bit_uint16)

lemma bit_pv_parity:
  assumes "uint (fa g) AND -256 \<noteq> 0" and r: "fr g = u16 (uint (w :: 8 word))"
  shows "bit (pv_bits g) 2 \<longleftrightarrow> even_parity w"
proof -
  let ?x = "(uint (fr g) XOR shr (uint (fr g)) 4) AND 15"
  have b: "bit (fr g) n \<longleftrightarrow> bit w n" for n
    using r bit_imp_le_length [of w n] by (auto simp: bit_ucast_iff)
  have x0: "0 \<le> ?x" by simp
  have "?x < 16"
    using AND_upper2 [of 15 "uint (fr g) XOR shr (uint (fr g)) 4"] by simp
  then have lt: "nat ?x < 16" by linarith
  have bits: "odd (nat ?x div 2 ^ n) \<longleftrightarrow> bit ?x n" for n
    using bit_nat_iff [of ?x n] x0 by (simp only: bit_iff_odd [of "nat ?x"] simp_thms)
  have "odd (nat ?x) \<longleftrightarrow> (bit w 0 \<noteq> bit w 4)" "odd (nat ?x div 2) \<longleftrightarrow> (bit w 1 \<noteq> bit w 5)"
    "odd (nat ?x div 4) \<longleftrightarrow> (bit w 2 \<noteq> bit w 6)" "odd (nat ?x div 8) \<longleftrightarrow> (bit w 3 \<noteq> bit w 7)"
    using bits [of 0] bits [of 1] bits [of 2] bits [of 3]
    by (simp_all add: bit_int_ops bit_uint16 b)
  then show ?thesis
    using assms(1) parity_table [OF lt]
    by (simp add: pv_bits_def bit_and_iff even_parity_bits) argo
qed

text \<open>What \<open>f()\<close> of a Z80 shows, bit by bit.\<close>

lemma flags_of_f_z80:
  "flags_of (f_z80 g) = \<lparr>S_flag = bit (ff g) 7, Z_flag = (fr g = 0), Y_flag = bit (ff g) 5,
     H_flag = (bit (fr g) 4 \<noteq> (bit (fa g) 4 \<noteq> (bit (fb g) 4 \<noteq> bit (fb g) 12))),
     X_flag = bit (ff g) 3, PV_flag = bit (pv_bits g) 2, N_flag = bit (fb g) 9,
     C_flag = bit (ff g) 8\<rparr>"
  by (simp add: flags_of_def f_z80_def bit_or_iff bit_and_iff bit_1_iff bit_drop_bit_eq bit_push_bit_iff_int
      bit_of_bool_int bit_pv_mask bit_h_mask bit_h_bits bit_uint16)

lemma bit_minus_256: "bit (-256 :: int) n \<longleftrightarrow> 8 \<le> n"
proof -
  have "(-256 :: int) = NOT (mask 8)" by (simp add: mask_eq_exp_minus_1 not_int_def)
  then show ?thesis by (simp only: bit_not_iff bit_mask_iff) auto
qed

lemma fa_high_zero: "uint (fa g) AND -256 = 0 \<longleftrightarrow> (\<forall>n\<ge>8. \<not> bit (fa g) n)"
  by (auto simp: bit_eq_iff bit_and_iff bit_uint16 bit_minus_256)


section \<open>Popping F\<close>

lemma setf_bits:
  fixes w :: "8 word"
  defines "g \<equiv> setf_group (uint w)"
  shows "bit (ff g) n \<longleftrightarrow> (if n < 8 then bit w n else bit w (n - 8) \<and> n < 16)"
    and "fr g = 0 \<longleftrightarrow> bit w 6" and "\<not> bit (fr g) 4" and "\<not> bit (fr g) 7"
    and "bit (fb g) 4 = bit w 4" and "bit (fb g) 12 = bit w 4" and "bit (fb g) 9 = bit w 1" and "bit (fb g) 7 = bit w 2"
    and "bit (fa g) 4 = bit w 4" and "bit (fa g) 7 = bit w 2" and "8 \<le> n \<Longrightarrow> \<not> bit (fa g) n"
proof -
  show "fr g = 0 \<longleftrightarrow> bit w 6" "\<not> bit (fr g) 4"  "\<not> bit (fr g) 7"
   by (auto simp: g_def setf_group_def Let_def bit_eq_iff [where 'a = "16 word"] bit_word_of_int_iff bit_int_ops bit_uint8 bit_masks
       dest: spec [of _ 6])
 show "bit (ff g) n \<longleftrightarrow> (if n < 8 then bit w n else bit w (n - 8) \<and> n < 16)"
   using bit8_high [of n w] by (auto simp: g_def setf_group_def Let_def  bit_word_of_int_iff bit_int_ops bit_uint8)
 show "bit (fb g) 4 = bit w 4"  "bit (fb g) 12 = bit w 4"  "bit (fb g) 9 = bit w 1"  "bit (fb g) 7 = bit w 2"
    "bit (fa g) 4 = bit w 4"  "bit (fa g) 7 = bit w 2" 
   by (auto simp: g_def setf_group_def Let_def  bit_word_of_int_iff bit_int_ops bit_uint8 bit8_high bit_uint_iff)
  have "bit (255 :: int) n = (n < 8)" using bit_mask_iff [of 8 n, where 'a=int] by (simp add: mask_eq_exp_minus_1)
  then show "8 \<le> n \<Longrightarrow> \<not> bit (fa g) n"
   by (simp add: g_def setf_group_def Let_def  bit_word_of_int_iff bit_int_ops)
qed

lemma byte_int_eqI:
  fixes x y :: int
  assumes "\<And>n. 8 \<le> n \<Longrightarrow> \<not> bit x n" "\<And>n. 8 \<le> n \<Longrightarrow> \<not> bit y n"
    and "flags_of x = flags_of y"
  shows "x = y"
proof (rule bit_eqI)
  fix n :: nat
  have "n = 0 \<or> n = 1 \<or> n = 2 \<or> n = 3 \<or> n = 4 \<or> n = 5 \<or> n = 6 \<or> n = 7 \<or> 8 \<le> n" by arith
  then show "bit x n = bit y n" using assms by (auto simp: flags_of_def)
qed

lemma small_numeral_bits:
  "8 \<le> n \<Longrightarrow> \<not> bit (245 :: int) n" "8 \<le> n \<Longrightarrow> \<not> bit (253 :: int) n" "8 \<le> n \<Longrightarrow> \<not> bit (213 :: int) n"
  "8 \<le> n \<Longrightarrow> \<not> bit (240 :: int) n" "8 \<le> n \<Longrightarrow> \<not> bit (168 :: int) n" "8 \<le> n \<Longrightarrow> \<not> bit (128 :: int) n"
  "8 \<le> n \<Longrightarrow> \<not> bit (1 :: int) n" "8 \<le> n \<Longrightarrow> \<not> bit (2 :: int) n" "8 \<le> n \<Longrightarrow> \<not> bit (8 :: int) n" "8 \<le> n \<Longrightarrow> \<not> bit (16 :: int) n"
proof -
  have "\<not> bit x n" if "8 \<le> n" "x \<in> {0..<256}" for x :: int and n
  proof -
    from that have "x = take_bit 8 x" by (simp add: take_bit_int_eq_self)
    then have "bit x n = bit (take_bit 8 x) n" by simp
    then show ?thesis using that by (simp add: bit_take_bit_iff)
  qed
  note this [simp]
  show "8 \<le> n \<Longrightarrow> \<not> bit (245 :: int) n" "8 \<le> n \<Longrightarrow> \<not> bit (253 :: int) n" "8 \<le> n \<Longrightarrow> \<not> bit (213 :: int) n"
  "8 \<le> n \<Longrightarrow> \<not> bit (240 :: int) n" "8 \<le> n \<Longrightarrow> \<not> bit (168 :: int) n" "8 \<le> n \<Longrightarrow> \<not> bit (128 :: int) n"
  "8 \<le> n \<Longrightarrow> \<not> bit (1 :: int) n" "8 \<le> n \<Longrightarrow> \<not> bit (2 :: int) n" "8 \<le> n \<Longrightarrow> \<not> bit (8 :: int) n" "8 \<le> n \<Longrightarrow> \<not> bit (16 :: int) n"
   by auto
qed

lemma bit_pv_setf: "bit (pv_bits (setf_group (uint (w :: 8 word)))) 2 \<longleftrightarrow> bit w 2"
  by (subst bit_pv_overflow) (simp_all add: fa_high_zero setf_bits)

lemma bit_h_setf: "bit (h_bits (setf_group (uint (w :: 8 word)))) 4 \<longleftrightarrow> bit w 4"
  by (simp add: bit_h_bits setf_bits)

lemmas f_bits = bit_int_ops bit_of_bool_int bit_pv_mask bit_h_mask bit_h_setf bit_uint16 bit_uint8 bit_1_iff bit_masks

lemma f_z80_setf: "f_z80 (setf_group (uint (w :: 8 word))) = uint w"
  by (rule byte_int_eqI)
    (simp_all add: small_numeral_bits f_z80_def f_bits bit8_high
      bit_pv_setf setf_bits flags_of_def)

lemma f_i8080_setf: "f_i8080 (setf_group (uint (w :: 8 word))) = uint w AND 213 OR 2"
  by (rule byte_int_eqI)
    (simp_all add: small_numeral_bits f_i8080_def f_bits bit8_high
      bit_pv_setf setf_bits flags_of_def)

lemma setf_gbz80_group:
  fixes w :: "8 word"
  defines "g \<equiv> setf_group (setf_gbz80 (uint w))"
  shows "bit (ff g) 8 = bit w 4" "fr g = 0 \<longleftrightarrow> bit w 7" "bit (fb g) 9 = bit w 6"
    "bit (h_bits g) 4 \<longleftrightarrow> bit w 5"
proof -
  let ?v = "u8 (setf_gbz80 (uint w))"
  have b: "bit (setf_gbz80 (uint w)) n \<longleftrightarrow> n = 0 \<and> bit w 4 \<or> n = 6 \<and> bit w 7 \<or> n = 1 \<and> bit w 6 \<or> n = 4 \<and> bit w 5" for n
    by (auto simp: setf_gbz80_def bit_int_ops bit_uint8 bit_masks bit_1_iff)
  have "setf_gbz80 (uint w) = uint ?v"
    by (rule byte_int_eqI) (auto simp: b bit_uint8 bit8_high flags_of_def bit_word_of_int_iff)
  then have "g = setf_group (uint ?v)" by (simp add: g_def)
  moreover have "bit ?v n \<longleftrightarrow> n < 8 \<and> bit (setf_gbz80 (uint w)) n" for n
    by (simp add: bit_word_of_int_iff)
  ultimately show "bit (ff g) 8 = bit w 4" "fr g = 0 \<longleftrightarrow> bit w 7" "bit (fb g) 9 = bit w 6"
    "bit (h_bits g) 4 \<longleftrightarrow> bit w 5"
    by (simp_all add: setf_bits b bit_h_setf)
qed

lemma bit_times_2: "bit (x * 2 :: int) n \<longleftrightarrow> n \<noteq> 0 \<and> bit x (n - 1)"
  by (simp add: mult.commute [of x] bit_double_iff)

lemma f_gbz80_setf: "f_gbz80 (setf_group (setf_gbz80 (uint (w :: 8 word)))) = uint w AND 240"
  by (rule byte_int_eqI)
    (simp_all add: small_numeral_bits f_gbz80_def f_bits bit8_high bit_times_2
      setf_gbz80_group flags_of_def)

lemma f_i8085_setf:
  assumes "\<And>n. bit k n \<longleftrightarrow> n = 0 \<and> bit w 5"
  shows "f_i8085 (setf_group (uint w)) k = uint (w :: 8 word) AND 245 OR shr (uint w AND 4) 1"
  by (rule byte_int_eqI)
    (simp_all add: small_numeral_bits f_i8085_def f_bits bit8_high assms
      bit_pv_setf bit_pv_setf [unfolded numeral_2_eq_2] setf_bits flags_of_def)

lemma f_vm1_setf:
  assumes "\<And>n. bit k n \<longleftrightarrow> n = 0 \<and> bit w 5" and "mf \<noteq> 0 \<longleftrightarrow> bit w 3"
  shows "f_vm1 (setf_group (uint w)) k mf = uint (w :: 8 word) OR 2"
  by (rule byte_int_eqI)
    (simp_all add: small_numeral_bits f_vm1_def f_bits bit8_high assms if_distrib [of "\<lambda>x. bit x _"]
      bit_pv_setf setf_bits flags_of_def)

lemma setf_fields:
  "fl (setf (uint (w :: 8 word)) s) =
     setf_group (if isgbz80 s \<and> \<not> c_z80asm_tests s then setf_gbz80 (uint w) else uint w)"
  "c_cpu (setf a (s :: cpu)) = c_cpu s" "c_z80asm_tests (setf a s) = c_z80asm_tests s"
  "regs (setf a s) = regs s" "mem (setf a s) = mem s"
  by (auto simp: setf_def Let_def)

lemma setf_cpu_preds [simp]:
  "is8085 (setf a (s :: cpu)) = is8085 s" "isvm1 (setf a s) = isvm1 s" "is8080 (setf a s) = is8080 s"
  "isgbz80 (setf a s) = isgbz80 s"
  by (simp_all add: cpu_preds setf_fields)

lemma setf_fk:
  assumes "\<not> isgbz80 s"
  shows "bit (fk (setf (uint (w :: 8 word)) s)) n \<longleftrightarrow> n = 0 \<and> bit w 5"
proof -
  have "fk (setf (uint w) s) = u16 (shr ((uint w OR shl (uint w) 8) AND 0x20) 5)"
    using assms by (simp add: setf_def Let_def)
  then show ?thesis
    by (auto simp: bit_word_of_int_iff bit_int_ops bit_uint8 bit_1_iff bit_masks)
qed

lemma setf_mf:
  assumes "\<not> isgbz80 s" "isvm1 s"
  shows "vm1_mf (setf (uint (w :: 8 word)) s) \<noteq> 0 \<longleftrightarrow> bit w 3"
proof -
  have "shr (uint w) 3 AND 1 \<noteq> 0 \<longleftrightarrow> odd (shr (uint w) 3)"
    by (simp add: and_one_eq odd_iff_mod_2_eq_one)
  then show ?thesis using assms
    by (simp add: setf_def Let_def flip: bit_iff_odd_drop_bit) (simp add: bit_uint8)
qed

text \<open>C10: popping a byte into F and reading F back gives the byte: all eight bits on the Z80
  family, and on the 8080, 8085, VM1 and sm83 the byte with that CPU's fixed or shared bits.\<close>

theorem f_setf_roundtrip:
  assumes "one_cpu s"
  shows "f_flags (setf (uint w) s) =
     (if is8085 s then uint (w :: 8 word) AND 245 OR shr (uint w AND 4) 1
      else if isvm1 s then uint w OR 2
      else if is8080 s \<and> \<not> c_z80asm_tests s then uint w AND 213 OR 2
      else if isgbz80 s \<and> \<not> c_z80asm_tests s then uint w AND 240
      else uint w)"
  using one_cpu_excl [OF assms]
  by (simp add: f_flags_def setf_fields f_z80_setf f_i8080_setf f_gbz80_setf
      f_i8085_setf [OF setf_fk] f_vm1_setf [OF setf_fk setf_mf])

theorem f_setf_roundtrip_witness:
  "f_flags (setf 0xd7 (power_on CPU_GBZ80 Standard)) = 0xd0"
  using f_setf_roundtrip [of "power_on CPU_GBZ80 Standard" "0xd7"]
  by (simp add: one_cpu_def power_on_def cpu_preds cpu_codes)

end
