(* ===== verification/Ticks_Alu.thy ===== *)
theory Ticks_Alu
  imports Ticks_Flags
begin

text \<open>
  The 8-bit arithmetic macros of \<open>src/src/ticks/ticks.c\<close>: \<open>ADD ADC SUB SBC AND XOR OR CP\<close>,
  \<open>INC DEC TEST\<close>, with the \<open>KR580VM1\<close> overflow slot. Each takes the operand and the tick count
  the opcode passes. The Rabbit prefixes select the accumulator and flag group a macro reads
  (\<open>alts\<close>) and writes (\<open>altd\<close>). The reference is addition and subtraction of bytes with the
  eight flags of the Z80.
\<close>

section \<open>Selected registers and the cycle counter\<close>

definition ticks :: "int \<Rightarrow> cpu \<Rightarrow> cpu" where
  "ticks n s = s\<lparr>st := st s + n\<rparr>"

definition set_reg :: "reg \<Rightarrow> 8 word \<Rightarrow> cpu \<Rightarrow> cpu" where
  "set_reg r v s = s\<lparr>regs := (regs s)(r := v)\<rparr>"

text \<open>\<open>altd ? x_ : x\<close> for the flag group and \<open>a\<close>; \<open>alts ? a_ : a\<close>.\<close>

definition grp :: "cpu \<Rightarrow> flg" where
  "grp s = (if altd s then fl' s else fl s)"

definition set_grp :: "flg \<Rightarrow> cpu \<Rightarrow> cpu" where
  "set_grp g s = (if altd s then s\<lparr>fl' := g\<rparr> else s\<lparr>fl := g\<rparr>)"

definition src_a :: "cpu \<Rightarrow> 8 word" where
  "src_a s = regs s (if alts s then rA' else rA)"

definition dst_r :: "reg \<Rightarrow> reg \<Rightarrow> cpu \<Rightarrow> reg" where
  "dst_r r r' s = (if altd s then r' else r)"

definition src_r :: "reg \<Rightarrow> reg \<Rightarrow> cpu \<Rightarrow> 8 word" where
  "src_r r r' s = regs s (if alts s then r' else r)"

definition israbbit4k :: "cpu \<Rightarrow> bool" where
  "israbbit4k s \<longleftrightarrow> cpu_is (CPU_R6K OR CPU_R4K) s \<and> rabbit_get_ioi_reg 0x0420 s = 0xc0"

definition israbbit6k :: "cpu \<Rightarrow> bool" where
  "israbbit6k s \<longleftrightarrow> cpu_is CPU_R6K s \<and> rabbit_get_ioi_reg 0x0420 s = 0xc0"

definition ALUr_TICKS :: "cpu \<Rightarrow> int" where
  "ALUr_TICKS s = (if isez80 s then 1 else if israbbit s then 2 else if isr800 s then 1
     else if iskc160 s then 1 else if isgbz80 s then 4 else 4)"

definition ALURxy_TICKS :: "cpu \<Rightarrow> int" where
  "ALURxy_TICKS s = (if isez80 s then 1 else if isr800 s then 2 else 4)"

definition ALUiHL_TICKS :: "cpu \<Rightarrow> int" where
  "ALUiHL_TICKS s = (if isez80 s then 2 else if israbbit s then 5 else if isr800 s then 2
     else if iskc160 s then 3 else if isgbz80 s then 8 else 7)"

definition ALUiXY_TICKS :: "cpu \<Rightarrow> int" where
  "ALUiXY_TICKS s = (if isez80 s then 3 else if israbbit4k s then 9 else if israbbit s then 7
     else if isr800 s then 5 else if iskc160 s then 4 else 15)"

definition ALUn_TICKS :: "cpu \<Rightarrow> int" where
  "ALUn_TICKS s = (if isez80 s then 2 else if israbbit s then 4 else if isr800 s then 2
     else if iskc160 s then 1 else if isgbz80 s then 8 else 7)"

definition LDrr_TICKS :: "cpu \<Rightarrow> int" where
  "LDrr_TICKS s = (if isez80 s then 1 else if israbbit s then 2 else if isr800 s then 1
     else if iskc160 s then 1 else if isgbz80 s then 4 else if is8080 s \<or> isvm1 s then 5 else 4)"

definition CBr_TICKS :: "cpu \<Rightarrow> int" where
  "CBr_TICKS s = (if isez80 s then 2 else if israbbit s then 4 else if isr800 s then 2
     else if iskc160 s then 2 else if isz180 s then 7 else 8)"

section \<open>The macros\<close>

definition vm1_of :: "flg \<Rightarrow> 16 word" where
  "vm1_of g =
     u16 (shr ((uint (fr g) XOR uint (fa g)) AND (uint (fr g) XOR uint (fb g))) 7 AND 1)"

definition VM1_OF_ARITH :: "cpu \<Rightarrow> cpu" where
  "VM1_OF_ARITH s = (if isvm1 s then s\<lparr>fk := vm1_of (fl s)\<rparr> else s\<lparr>fk := 0\<rparr>)"

definition VM1_OF_LOGIC :: "cpu \<Rightarrow> cpu" where
  "VM1_OF_LOGIC s = (if \<not> isvm1 s then s\<lparr>fk := 0\<rparr> else s)"

definition VM1_OF_ONLY :: "cpu \<Rightarrow> cpu" where
  "VM1_OF_ONLY s = (if isvm1 s then s\<lparr>fk := vm1_of (fl s)\<rparr> else s)"

text \<open>
  \<open>fr = a = (ff = (fa = x) + (fb = y) + c)\<close>: the common shape of the four additive macros;
  \<open>fr\<close> receives the value of the byte \<open>a\<close>.
\<close>

definition alu_sum :: "8 word \<Rightarrow> 16 word \<Rightarrow> int \<Rightarrow> 8 word \<times> flg" where
  "alu_sum x y c =
     (let sum = u16 (uint x + uint y + c);
          res = u8 (uint sum)
      in (res, \<lparr>ff = sum, fr = u16 (uint res), fa = u16 (uint x), fb = y\<rparr>))"

definition put_alu :: "8 word \<times> flg \<Rightarrow> cpu \<Rightarrow> cpu" where
  "put_alu rg s = set_reg (dst_r rA rA' s) (fst rg) (set_grp (snd rg) s)"

definition carry_in :: "cpu \<Rightarrow> int" where
  "carry_in s = shr (uint (ff (grp s))) 8 AND 1"

definition ADD :: "8 word \<Rightarrow> int \<Rightarrow> cpu \<Rightarrow> cpu" where
  "ADD b n s = VM1_OF_ARITH (put_alu (alu_sum (src_a s) (u16 (uint b)) 0) (ticks n s))"

definition ADC :: "8 word \<Rightarrow> int \<Rightarrow> cpu \<Rightarrow> cpu" where
  "ADC b n s = VM1_OF_ARITH (put_alu (alu_sum (src_a s) (u16 (uint b)) (carry_in s)) (ticks n s))"

definition SUB :: "8 word \<Rightarrow> int \<Rightarrow> cpu \<Rightarrow> cpu" where
  "SUB b n s = VM1_OF_ARITH (put_alu (alu_sum (src_a s) (u16 (NOT (uint b))) 1) (ticks n s))"

definition SBC :: "8 word \<Rightarrow> int \<Rightarrow> cpu \<Rightarrow> cpu" where
  "SBC b n s =
     VM1_OF_ARITH (put_alu (alu_sum (src_a s) (u16 (NOT (uint b))) (carry_in s XOR 1)) (ticks n s))"

definition AND_op :: "8 word \<Rightarrow> int \<Rightarrow> cpu \<Rightarrow> cpu" where
  "AND_op b n s =
     (let v = u16 (uint (src_a s) AND uint b);
          res = u8 (uint v)
      in VM1_OF_LOGIC (put_alu (res, \<lparr>ff = v, fr = v, fa = u16 (NOT (uint res)), fb = 0\<rparr>) (ticks n s)))"

definition XOR_op :: "8 word \<Rightarrow> int \<Rightarrow> cpu \<Rightarrow> cpu" where
  "XOR_op b n s =
     (let res = u8 (uint (src_a s) XOR uint b);
          v = u16 (uint res)
      in VM1_OF_LOGIC (put_alu (res, \<lparr>ff = v, fr = v, fa = u16 (256 OR uint v), fb = 0\<rparr>) (ticks n s)))"

definition OR_op :: "8 word \<Rightarrow> int \<Rightarrow> cpu \<Rightarrow> cpu" where
  "OR_op b n s =
     (let res = u8 (uint (src_a s) OR uint b);
          v = u16 (uint res)
      in VM1_OF_LOGIC (put_alu (res, \<lparr>ff = v, fr = v, fa = u16 (256 OR uint v), fb = 0\<rparr>) (ticks n s)))"

definition CP :: "8 word \<Rightarrow> int \<Rightarrow> cpu \<Rightarrow> cpu" where
  "CP b n s =
     (let x = src_a s;
          d = u16 (uint x - uint b)
      in VM1_OF_ONLY (set_grp
           \<lparr>ff = u16 (uint d AND -41 OR uint b AND 40), fr = u16 (uint d AND 255),
            fa = u16 (uint x), fb = u16 (NOT (uint b))\<rparr> (ticks n s)))"

text \<open>\<open>INC(r, r')\<close> and \<open>DEC(r, r')\<close> keep the carry; \<open>fb\<close> is 1 or \<open>0xffff\<close>.\<close>

definition INC_TICKS :: "cpu \<Rightarrow> int" where
  "INC_TICKS s = (if isez80 s then 1 else if israbbit s then 2 else if is8080 s \<or> isvm1 s then 5
     else if isr800 s then 1 else if iskc160 s then 1 else 4)"

definition step_group :: "flg \<Rightarrow> 8 word \<Rightarrow> 16 word \<Rightarrow> 8 word \<times> flg" where
  "step_group g x d =
     (let res = u8 (uint x + uint d);
          r16 = u16 (uint res)
      in (res, \<lparr>ff = u16 (uint (ff g) AND 256 OR uint r16), fr = r16, fa = u16 (uint x), fb = d\<rparr>))"

definition INC :: "reg \<Rightarrow> reg \<Rightarrow> cpu \<Rightarrow> cpu" where
  "INC r r' s =
     (let rg = step_group (grp s) (src_r r r' s) 1
      in VM1_OF_ARITH (set_reg (dst_r r r' s) (fst rg) (set_grp (snd rg) (ticks (INC_TICKS s) s))))"

definition DEC :: "reg \<Rightarrow> reg \<Rightarrow> cpu \<Rightarrow> cpu" where
  "DEC r r' s =
     (let rg = step_group (grp s) (src_r r r' s) (u16 (-1))
      in VM1_OF_ARITH (set_reg (dst_r r r' s) (fst rg) (set_grp (snd rg) (ticks (INC_TICKS s) s))))"

text \<open>\<open>TEST(v, ticks)\<close>: an \<open>AND\<close> that puts the old \<open>a\<close> back.\<close>

definition TEST :: "8 word \<Rightarrow> int \<Rightarrow> cpu \<Rightarrow> cpu" where
  "TEST v n s = (let olda = regs s rA in ticks n (set_reg rA olda (AND_op v 0 s)))"

section \<open>The reference\<close>

text \<open>The flags of \<open>x + y + c\<close> and \<open>x - y - c\<close>; Y and X copy the byte \<open>v\<close>.\<close>

definition add_flags :: "8 word \<Rightarrow> 8 word \<Rightarrow> bool \<Rightarrow> zflags" where
  "add_flags x y c =
     (let r = x + y + of_bool c in
      \<lparr>S_flag = bit r 7, Z_flag = (r = 0), Y_flag = bit r 5,
       H_flag = (16 \<le> uint x mod 16 + uint y mod 16 + of_bool c), X_flag = bit r 3,
       PV_flag = (sint x + sint y + of_bool c \<notin> {-128..127}), N_flag = False,
       C_flag = (256 \<le> uint x + uint y + of_bool c)\<rparr>)"

definition sub_flags :: "8 word \<Rightarrow> 8 word \<Rightarrow> bool \<Rightarrow> zflags" where
  "sub_flags x y c =
     (let r = x - y - of_bool c in
      \<lparr>S_flag = bit r 7, Z_flag = (r = 0), Y_flag = bit r 5,
       H_flag = (uint x mod 16 < uint y mod 16 + of_bool c), X_flag = bit r 3,
       PV_flag = (sint x - sint y - of_bool c \<notin> {-128..127}), N_flag = True,
       C_flag = (uint x < uint y + of_bool c)\<rparr>)"

definition logic_flags :: "8 word \<Rightarrow> bool \<Rightarrow> zflags" where
  "logic_flags r h =
     \<lparr>S_flag = bit r 7, Z_flag = (r = 0), Y_flag = bit r 5, H_flag = h, X_flag = bit r 3,
      PV_flag = even_parity r, N_flag = False, C_flag = False\<rparr>"

text \<open>The flags a macro's result shows, and the carry it read.\<close>

definition dst_flags :: "cpu \<Rightarrow> zflags" where
  "dst_flags s = flags_of (if altd s then f_alt s else f_flags s)"

definition carry :: "cpu \<Rightarrow> bool" where
  "carry s = bit (ff (grp s)) 8"

section \<open>Facts about bytes\<close>

lemma bit7_uint: "bit (x :: 8 word) 7 \<longleftrightarrow> 128 \<le> uint x"
proof -
  have b: "0 \<le> uint x" "uint x < 256" using uint8_bound [of x] by auto
  have "bit x 7 \<longleftrightarrow> odd (uint x div 128)" by (simp flip: bit_uint8 add: bit_iff_odd)
  also have "\<dots> \<longleftrightarrow> 128 \<le> uint x"
  proof (cases "128 \<le> uint x")
    case True
    then have "uint x div 128 = 1" using b by (intro int_div_pos_eq [where r = "uint x - 128"]) auto
    with True show ?thesis by simp
  next
    case False
    with b show ?thesis by (simp add: div_pos_pos_trivial)
  qed
  finally show ?thesis .
qed

lemma sint8: "sint (x :: 8 word) = uint x - (if bit x 7 then 256 else 0)"
proof -
  have b: "0 \<le> uint x" "uint x < 256" using uint8_bound [of x] by auto
  have e: "sint x = (uint x + 128) mod 256 - 128"
    by (simp add: sint_uint signed_take_bit_eq_take_bit_shift take_bit_eq_mod)
  show ?thesis
  proof (cases "128 \<le> uint x")
    case True
    then have "(uint x + 128) mod 256 = uint x - 128"
      using b by (intro int_mod_pos_eq [where q = 1]) auto
    with True e show ?thesis by (simp add: bit7_uint)
  next
    case False
    with b e show ?thesis by (simp add: bit7_uint mod_pos_pos_trivial)
  qed
qed

lemma uint_u16_byte [simp]: "uint (u16 (uint (r :: 8 word))) = uint r"
  using uint8_bound [of r] by (subst uint_word_of_int) (simp add: mod_pos_pos_trivial)

lemma u16_uint8_eq_0: "u16 (uint (r :: 8 word)) = 0 \<longleftrightarrow> r = 0"
  by (metis uint_u16_byte unsigned_eq_0_iff)

lemma bit_u16: "bit (u16 z) n \<longleftrightarrow> n < 16 \<and> bit z n"
  by (simp add: bit_word_of_int_iff)

lemma bit_u8: "bit (u8 z) n \<longleftrightarrow> n < 8 \<and> bit z n"
  by (simp add: bit_word_of_int_iff)

lemma u8_uint_u16: "u8 (uint (u16 z)) = u8 z"
  by (rule bit_word_eqI) (simp only: bit_u8 bit_uint16 bit_u16, auto)
section \<open>The flag group of a sum\<close>

lemma low_byte_and: "uint (u16 (uint (x :: 8 word))) AND -256 = 0"
  by (simp only: uint_u16_byte)
    (use bit8_high [of _ x] in \<open>auto simp: bit_eq_iff bit_and_iff bit_uint8 bit_minus_256\<close>)

lemma bit_u16_byte: "bit (u16 (uint (w :: 8 word))) n \<longleftrightarrow> bit w n"
  using bit_imp_le_length [of w n] by (simp only: bit_u16 bit_uint8) auto

text \<open>A group whose \<open>fr\<close> and \<open>fa\<close> are bytes.\<close>

lemma byte_group_flags:
  "flags_of (f_z80 \<lparr>ff = F, fr = u16 (uint r), fa = u16 (uint x), fb = B\<rparr>) =
     \<lparr>S_flag = bit F 7, Z_flag = ((r :: 8 word) = 0), Y_flag = bit F 5,
      H_flag = (bit r 4 \<noteq> (bit (x :: 8 word) 4 \<noteq> (bit B 4 \<noteq> bit B 12))), X_flag = bit F 3,
      PV_flag = (bit r 7 \<noteq> bit x 7 \<and> bit r 7 \<noteq> bit B 7), N_flag = bit B 9, C_flag = bit F 8\<rparr>"
proof -
  let ?g = "\<lparr>ff = F, fr = u16 (uint r), fa = u16 (uint x), fb = B\<rparr>"
  have "uint (fa ?g) AND -256 = 0" by (simp only: flg.simps low_byte_and)
  then show ?thesis
    by (simp only: bit_u16_byte flags_of_f_z80 bit_pv_overflow flg.simps u16_uint8_eq_0 zflags.simps refl simp_thms)
qed

lemma nibble_carry:
  fixes x y :: "8 word"
  assumes "c = 0 \<or> c = 1"
  shows "bit (uint x + uint y + c) 4 \<longleftrightarrow>
    (bit x 4 \<noteq> (bit y 4 \<noteq> (16 \<le> uint x mod 16 + uint y mod 16 + c)))"
  using bit_int_sum [OF assms, of "uint x" "uint y" 4] by (simp add: bit_uint8)

lemma bit8_sum:
  assumes "0 \<le> (z :: int)" "z < 512"
  shows "bit z 8 \<longleftrightarrow> 256 \<le> z"
proof (cases "256 \<le> z")
  case True
  then have "z div 256 = 1" using assms by (intro int_div_pos_eq [where r = "z - 256"]) auto
  with True show ?thesis by (simp add: bit_iff_odd)
next
  case False
  with assms show ?thesis by (simp add: bit_iff_odd div_pos_pos_trivial)
qed

lemma uint_byte_sum:
  fixes x y :: "8 word"
  shows "uint (x + y + of_bool c) = (uint x + uint y + of_bool c) mod 256"
  by (simp add: uint_word_ariths mod_simps of_bool_def)

lemma mod_256: "0 \<le> z \<Longrightarrow> z < 512 \<Longrightarrow> (z :: int) mod 256 = (if 256 \<le> z then z - 256 else z)"
  by (auto simp: mod_pos_pos_trivial intro!: int_mod_pos_eq [where q = 1])

lemma overflow_int:
  fixes X Y C R :: int
  assumes "0 \<le> X" "X < 256" "0 \<le> Y" "Y < 256" "C = 0 \<or> C = 1"
    and "R = (if 256 \<le> X + Y + C then X + Y + C - 256 else X + Y + C)"
  shows "((128 \<le> R) \<noteq> (128 \<le> X) \<and> (128 \<le> R) \<noteq> (128 \<le> Y)) \<longleftrightarrow>
    (X - (if 128 \<le> X then 256 else 0)) + (Y - (if 128 \<le> Y then 256 else 0)) + C \<notin> {-128..127}"
  using assms by (auto split: if_splits)

lemma overflow_add:
  fixes x y :: "8 word" and c :: bool
  defines "r \<equiv> x + y + of_bool c"
  shows "(bit r 7 \<noteq> bit x 7 \<and> bit r 7 \<noteq> bit y 7) \<longleftrightarrow> sint x + sint y + of_bool c \<notin> {-128..127}"
proof -
  have b: "0 \<le> uint x" "uint x < 256" "0 \<le> uint y" "uint y < 256"
    using uint8_bound [of x] uint8_bound [of y] by auto
  have "uint r = (let z = uint x + uint y + of_bool c in if 256 \<le> z then z - 256 else z)"
    unfolding r_def uint_byte_sum Let_def using b by (intro mod_256) (auto simp: of_bool_def)
  then show ?thesis
    unfolding sint8 bit7_uint Let_def
    by (intro overflow_int [OF b]) (auto simp: of_bool_def)
qed

lemma alu_sum_add:
  fixes x y :: "8 word"
  shows "fst (alu_sum x (u16 (uint y)) (of_bool c)) = x + y + of_bool c"
    and "flags_of (f_z80 (snd (alu_sum x (u16 (uint y)) (of_bool c)))) = add_flags x y c"
proof -
  obtain z where z: "z = uint x + uint y + of_bool c" by simp
  have b: "0 \<le> uint x" "uint x < 256" "0 \<le> uint y" "uint y < 256"
    using uint8_bound [of x] uint8_bound [of y] by auto
  with z have z': "0 \<le> z" "z < 512" by auto
  have res: "u8 z = x + y + of_bool c" by (simp add: z)
  then show "fst (alu_sum x (u16 (uint y)) (of_bool c)) = x + y + of_bool c"
    by (simp only: alu_sum_def Let_def fst_conv uint_u16_byte u8_uint_u16 flip: z)
  define r where "r = x + y + of_bool c"
  have r: "bit r n \<longleftrightarrow> n < 8 \<and> bit z n" for n
    using res by (simp add: r_def bit_u8 flip: res)
  note y = bit_u16_byte [of y]
  have H: "(bit r 4 \<noteq> (bit x 4 \<noteq> bit y 4)) \<longleftrightarrow> 16 \<le> uint x mod 16 + uint y mod 16 + of_bool c"
    using nibble_carry [of "of_bool c" x y] r [of 4] z by (auto simp: of_bool_def)
  have "snd (alu_sum x (u16 (uint y)) (of_bool c)) =
      \<lparr>ff = u16 z, fr = u16 (uint r), fa = u16 (uint x), fb = u16 (uint y)\<rparr>"
    using res by (simp only: alu_sum_def Let_def snd_conv uint_u16_byte u8_uint_u16 flip: z r_def)
  then have "flags_of (f_z80 (snd (alu_sum x (u16 (uint y)) (of_bool c)))) =
      \<lparr>S_flag = bit z 7, Z_flag = (r = 0), Y_flag = bit z 5,
       H_flag = (bit r 4 \<noteq> (bit x 4 \<noteq> bit y 4)), X_flag = bit z 3,
       PV_flag = (bit r 7 \<noteq> bit x 7 \<and> bit r 7 \<noteq> bit y 7), N_flag = False, C_flag = bit z 8\<rparr>"
    by (simp only: byte_group_flags y bit_u16) (simp add: bit8_high bit_uint8)
  then show "flags_of (f_z80 (snd (alu_sum x (u16 (uint y)) (of_bool c)))) = add_flags x y c"
    using H bit8_sum [OF z'] overflow_add [of x y c]
    by (simp only: add_flags_def Let_def flip: z r_def) (simp add: r)
qed

section \<open>The flag group of a difference\<close>

lemma uint_u16_not: "uint (u16 (NOT (uint (y :: 8 word)))) = 65535 - uint y"
proof -
  have "NOT (uint y) mod 65536 = 65535 - uint y"
    using uint8_bound [of y] by (intro int_mod_pos_eq [where q = "-1"]; simp only: not_int_def; linarith)
  then show ?thesis by (subst uint_word_of_int) simp
qed

lemma bit_u16_not: "bit (u16 (NOT (uint (y :: 8 word)))) n \<longleftrightarrow> n < 16 \<and> \<not> bit y n"
  by (simp only: bit_u16 bit_not_iff bit_uint8) simp

lemma nibble_borrow:
  fixes x y :: "8 word"
  assumes "c = 0 \<or> c = 1"
  shows "bit (uint x - uint y - c) 4 \<longleftrightarrow>
    (bit x 4 \<noteq> (bit y 4 \<noteq> (uint x mod 16 < uint y mod 16 + c)))"
proof -
  have e: "uint x + NOT (uint y) + (1 - c) = uint x - uint y - c" by (simp add: not_int_def)
  have "NOT (uint y) mod 16 = 15 - uint y mod 16"
  proof (rule int_mod_pos_eq [where q = "- 1 - uint y div 16"])
    show "NOT (uint y) = 16 * (- 1 - uint y div 16) + (15 - uint y mod 16)"
      by (simp add: not_int_def algebra_simps minus_mod_eq_mult_div [symmetric])
  qed simp_all
  then show ?thesis
    using bit_int_sum [of "1 - c" "uint x" "NOT (uint y)" 4] assms
    by (auto simp: e bit_uint8 bit_not_iff)
qed

lemma bit8_diff:
  assumes "-256 \<le> (z :: int)" "z < 256"
  shows "bit z 8 \<longleftrightarrow> z < 0"
proof (cases "z < 0")
  case True
  then have "z div 256 = -1" using assms by (intro int_div_pos_eq [where r = "z + 256"]) auto
  with True show ?thesis by (simp add: bit_iff_odd)
next
  case False
  with assms show ?thesis by (simp add: bit_iff_odd div_pos_pos_trivial)
qed

lemma uint_byte_diff:
  fixes x y :: "8 word"
  shows "uint (x - y - of_bool c) = (uint x - uint y - of_bool c) mod 256"
  by (simp add: uint_word_ariths mod_simps of_bool_def)

lemma diff_range:
  fixes x y :: "8 word"
  shows "-256 \<le> uint x - uint y - of_bool c" "uint x - uint y - of_bool c < 256"
  using uint8_bound [of x] uint8_bound [of y] by (cases c; simp only: of_bool_eq; linarith)+

lemma mod_256_neg: "- 256 \<le> z \<Longrightarrow> z < 256 \<Longrightarrow> (z :: int) mod 256 = (if z < 0 then z + 256 else z)"
  by (auto simp: mod_pos_pos_trivial intro!: int_mod_pos_eq [where q = "-1"])

lemma overflow_int_sub:
  fixes X Y C R :: int
  assumes "0 \<le> X" "X < 256" "0 \<le> Y" "Y < 256" "C = 0 \<or> C = 1"
    and "R = (if X - Y - C < 0 then X - Y - C + 256 else X - Y - C)"
  shows "((128 \<le> R) \<noteq> (128 \<le> X) \<and> (128 \<le> R) = (128 \<le> Y)) \<longleftrightarrow>
    (X - (if 128 \<le> X then 256 else 0)) - (Y - (if 128 \<le> Y then 256 else 0)) - C \<notin> {-128..127}"
  using assms by (auto split: if_splits)

lemma overflow_sub:
  fixes x y :: "8 word" and c :: bool
  defines "r \<equiv> x - y - of_bool c"
  shows "(bit r 7 \<noteq> bit x 7 \<and> bit r 7 = bit y 7) \<longleftrightarrow> sint x - sint y - of_bool c \<notin> {-128..127}"
proof -
  have b: "0 \<le> uint x" "uint x < 256" "0 \<le> uint y" "uint y < 256"
    using uint8_bound [of x] uint8_bound [of y] by auto
  have "uint r = (let z = uint x - uint y - of_bool c in if z < 0 then z + 256 else z)"
    unfolding r_def uint_byte_diff Let_def by (intro mod_256_neg diff_range)
  then show ?thesis
    unfolding sint8 bit7_uint Let_def
    by (intro overflow_int_sub [OF b]) (auto simp: of_bool_def)
qed

lemma u16_mod: "u16 (z + 65536) = u16 z"
  by (rule word_uint_eqI) (simp only: uint_word_of_int, simp)

text \<open>The group \<open>fb = ~b\<close>, \<open>ff\<close> the 16-bit difference; \<open>F\<close> agrees with it in the bits F shows.\<close>

lemma diff_group_flags:
  fixes x y :: "8 word"
  assumes r: "r = x - y - of_bool c"
    and F: "bit F 7 = bit r 7" "bit F 5 = bit v 5" "bit F 3 = bit v 3"
      "bit F 8 \<longleftrightarrow> uint x < uint y + of_bool c"
  shows "flags_of (f_z80 \<lparr>ff = F, fr = u16 (uint r), fa = u16 (uint x), fb = u16 (NOT (uint y))\<rparr>) =
     (sub_flags x y c)\<lparr>Y_flag := bit (v :: 8 word) 5, X_flag := bit v 3\<rparr>"
proof -
  obtain z where z: "z = uint x - uint y - of_bool c" by simp
  have "u8 z = r" by (simp add: z r)
  then have "bit r 4 = bit z 4" using bit_u8 [of z 4] by simp
  with z nibble_borrow [of "of_bool c" x y]
  have "(bit r 4 \<noteq> (bit x 4 \<noteq> bit y 4)) \<longleftrightarrow> uint x mod 16 < uint y mod 16 + of_bool c"
    by (auto simp: of_bool_def)
  moreover have "(bit r 7 \<noteq> bit x 7 \<and> bit r 7 \<noteq> bit (u16 (NOT (uint y))) 7) \<longleftrightarrow>
      sint x - sint y - of_bool c \<notin> {-128..127}"
    unfolding overflow_sub [symmetric] bit_u16_not r by auto
  ultimately show ?thesis
    unfolding byte_group_flags
    by (simp only: F sub_flags_def Let_def bit_u16_not flip: r) (auto simp: bit8_high)
qed

lemma alu_sum_sub:
  fixes x y :: "8 word"
  assumes k: "k = 1 - of_bool c"
  shows "fst (alu_sum x (u16 (NOT (uint y))) k) = x - y - of_bool c"
    and "flags_of (f_z80 (snd (alu_sum x (u16 (NOT (uint y))) k))) = sub_flags x y c"
proof -
  obtain z where z: "z = uint x - uint y - of_bool c" by simp
  have z': "-256 \<le> z" "z < 256" unfolding z by (rule diff_range)+
  have e: "u16 (uint x + uint (u16 (NOT (uint y))) + k) = u16 z"
    using u16_mod [of z] by (simp only: uint_u16_not k z) (simp add: algebra_simps)
  have res: "u8 z = x - y - of_bool c" by (simp add: z)
  then show "fst (alu_sum x (u16 (NOT (uint y))) k) = x - y - of_bool c"
    by (simp only: alu_sum_def Let_def fst_conv e u8_uint_u16)
  define r where "r = x - y - of_bool c"
  have r: "bit r n \<longleftrightarrow> n < 8 \<and> bit z n" for n
    using res by (simp add: r_def bit_u8 flip: res)
  have "snd (alu_sum x (u16 (NOT (uint y))) k) =
      \<lparr>ff = u16 z, fr = u16 (uint r), fa = u16 (uint x), fb = u16 (NOT (uint y))\<rparr>"
    by (simp only: alu_sum_def Let_def snd_conv e u8_uint_u16 res flip: r_def)
  moreover have "(sub_flags x y c)\<lparr>Y_flag := bit r 5, X_flag := bit r 3\<rparr> = sub_flags x y c"
    by (simp add: sub_flags_def Let_def r_def)
  ultimately show "flags_of (f_z80 (snd (alu_sum x (u16 (NOT (uint y))) k))) = sub_flags x y c"
    using diff_group_flags [of r x y c "u16 z" r] bit8_diff [OF z']
    by (simp add: r_def [symmetric] bit_u16 r) (auto simp: z)
qed

section \<open>Logic groups\<close>

lemma parity_group:
  assumes "uint F AND -256 \<noteq> 0"
  shows "flags_of (f_z80 \<lparr>ff = u16 (uint (r :: 8 word)), fr = u16 (uint r), fa = F, fb = 0\<rparr>) =
    logic_flags r (bit r 4 \<noteq> bit F 4)"
proof -
  let ?g = "\<lparr>ff = u16 (uint r), fr = u16 (uint r), fa = F, fb = 0\<rparr>"
  have "bit (pv_bits ?g) 2 \<longleftrightarrow> even_parity r"
    using assms by (intro bit_pv_parity) simp_all
  then show ?thesis
    by (simp only: flags_of_f_z80 flg.simps bit_u16_byte u16_uint8_eq_0 logic_flags_def)
      (simp add: bit8_high)
qed

section \<open>The macros against the reference\<close>

lemma cpu_preds_ticks [simp]:
  "z80_flags (s\<lparr>st := n\<rparr>) = z80_flags s" "z80_flags (s\<lparr>regs := g\<rparr>) = z80_flags s"
  "z80_flags (s\<lparr>fl := f\<rparr>) = z80_flags s" "z80_flags (s\<lparr>fl' := f\<rparr>) = z80_flags s"
  "z80_flags (s\<lparr>fk := k\<rparr>) = z80_flags s"
  by (simp_all add: z80_flags_def cpu_preds)

lemma dst_flags_z80: "z80_flags s \<Longrightarrow> dst_flags s = flags_of (f_z80 (grp s))"
  by (simp add: dst_flags_def z80_flags_def f_flags_def f_alt_def grp_def)

lemma carry_in_eq: "carry_in s = of_bool (carry s)"
  by (simp add: carry_in_def carry_def and_one_eq flip: bit_uint16) (simp add: bit_iff_odd_drop_bit odd_iff_mod_2_eq_one)

text \<open>The state an accumulator macro leaves: only the counter, one register and flags change.\<close>

definition acc_result :: "cpu \<Rightarrow> int \<Rightarrow> 8 word \<Rightarrow> cpu \<Rightarrow> bool" where
  "acc_result s n r s' \<longleftrightarrow>
     s' = s\<lparr>st := st s + n, regs := (regs s)(dst_r rA rA' s := r), fl := fl s', fl' := fl' s', fk := 0\<rparr> \<and>
     (if altd s then fl s' = fl s else fl' s' = fl' s)"

lemma acc_result_regs: "acc_result s n r s' \<Longrightarrow> regs s' = (regs s)(dst_r rA rA' s := r)"
  unfolding acc_result_def by (elim conjE, drule arg_cong [where f = regs]) simp

lemma acc_macro:
  assumes "z80_flags s"
  shows "acc_result s n r (VM1_OF_ARITH (put_alu (r, g) (ticks n s)))"
    and "dst_flags (VM1_OF_ARITH (put_alu (r, g) (ticks n s))) = flags_of (f_z80 g)"
    and "acc_result s n r (VM1_OF_LOGIC (put_alu (r, g) (ticks n s)))"
    and "dst_flags (VM1_OF_LOGIC (put_alu (r, g) (ticks n s))) = flags_of (f_z80 g)"
proof -
  let ?s = "set_reg (dst_r rA rA' s) r (set_grp g (ticks n s))"
  have vm: "\<not> isvm1 s" using assms by (simp add: z80_flags_def)
  then have e: "VM1_OF_ARITH (put_alu (r, g) (ticks n s)) = ?s\<lparr>fk := 0\<rparr>"
      "VM1_OF_LOGIC (put_alu (r, g) (ticks n s)) = ?s\<lparr>fk := 0\<rparr>"
    by (auto simp: VM1_OF_ARITH_def VM1_OF_LOGIC_def put_alu_def set_reg_def set_grp_def ticks_def
        cpu_preds dst_r_def)
  have "acc_result s n r (?s\<lparr>fk := 0\<rparr>)"
    by (simp add: acc_result_def set_reg_def set_grp_def ticks_def)
  moreover have "dst_flags (?s\<lparr>fk := 0\<rparr>) = flags_of (f_z80 g)"
    using assms by (subst dst_flags_z80) (auto simp: set_reg_def set_grp_def ticks_def grp_def)
  ultimately show "acc_result s n r (VM1_OF_ARITH (put_alu (r, g) (ticks n s)))"
    "dst_flags (VM1_OF_ARITH (put_alu (r, g) (ticks n s))) = flags_of (f_z80 g)"
    "acc_result s n r (VM1_OF_LOGIC (put_alu (r, g) (ticks n s)))"
    "dst_flags (VM1_OF_LOGIC (put_alu (r, g) (ticks n s))) = flags_of (f_z80 g)"
    by (simp_all only: e)
qed

lemma acc_macro_sum:
  assumes "z80_flags s"
  shows "acc_result s n (fst (alu_sum x y c)) (VM1_OF_ARITH (put_alu (alu_sum x y c) (ticks n s)))"
    and "dst_flags (VM1_OF_ARITH (put_alu (alu_sum x y c) (ticks n s))) = flags_of (f_z80 (snd (alu_sum x y c)))"
  using acc_macro(1,2) [where n = n, OF assms, of "fst (alu_sum x y c)" "snd (alu_sum x y c)"] by simp_all

text \<open>C8: \<open>ADD A\<close> and \<open>ADC A\<close> leave the byte sum in the destination accumulator and the eight
  flags of the addition in its flag group, and change nothing else.\<close>

theorem add_adc_correct:
  assumes "z80_flags s"
  shows "acc_result s n (src_a s + b) (ADD b n s) \<and>
    dst_flags (ADD b n s) = add_flags (src_a s) b False \<and>
    acc_result s n (src_a s + b + of_bool (carry s)) (ADC b n s) \<and>
    dst_flags (ADC b n s) = add_flags (src_a s) b (carry s)"
  using acc_macro_sum [where n = n, OF assms, of "src_a s" "u16 (uint b)" "of_bool False"]
    acc_macro_sum [where n = n, OF assms, of "src_a s" "u16 (uint b)" "of_bool (carry s)"]
    alu_sum_add [of "src_a s" b False] alu_sum_add [of "src_a s" b "carry s"]
  unfolding ADD_def ADC_def carry_in_eq of_bool_eq add_0_right by simp

theorem add_adc_correct_witness:
  "let s = (power_on CPU_Z80 Standard)\<lparr>regs := (\<lambda>_. 0x7f)\<rparr> in
   regs (ADD 1 4 s) rA = 0x80 \<and> PV_flag (dst_flags (ADD 1 4 s)) \<and> H_flag (dst_flags (ADD 1 4 s))"
proof -
  let ?s = "(power_on CPU_Z80 Standard)\<lparr>regs := (\<lambda>_. 0x7f)\<rparr>"
  have "z80_flags ?s" by (simp add: z80_flags_def power_on_def cpu_preds cpu_codes)
  from add_adc_correct [where n = 4 and b = 1, OF this] have
    r: "acc_result ?s 4 (src_a ?s + 1) (ADD 1 4 ?s)" and
    f: "dst_flags (ADD 1 4 ?s) = add_flags (src_a ?s) 1 False" by blast+
  have "src_a ?s = 0x7f" by (simp add: src_a_def)
  moreover have "altd ?s = False" by (simp add: power_on_def)
  moreover have "regs (ADD 1 4 ?s) = (regs ?s)(dst_r rA rA' ?s := src_a ?s + 1)"
    by (rule acc_result_regs [OF r])
  ultimately show ?thesis using f by (simp add: Let_def dst_r_def add_flags_def)
qed

lemma cp_group:
  fixes x b :: "8 word"
  defines "d \<equiv> u16 (uint x - uint b)"
  shows "flags_of (f_z80 \<lparr>ff = u16 (uint d AND -41 OR uint b AND 40), fr = u16 (uint d AND 255),
      fa = u16 (uint x), fb = u16 (NOT (uint b))\<rparr>) =
    (sub_flags x b False)\<lparr>Y_flag := bit b 5, X_flag := bit b 3\<rparr>"
proof -
  obtain z where z: "z = uint x - uint b - of_bool False" by simp
  have z': "-256 \<le> z" "z < 256" unfolding z by (rule diff_range)+
  have d: "d = u16 z" by (simp add: d_def z)
  have m: "bit (255 :: int) n \<longleftrightarrow> n < 8" for n
    using bit_mask_iff [of 8 n, where 'a = int] by (simp add: mask_eq_exp_minus_1)
  have rz: "u8 z = x - b" by (simp add: z)
  have bd: "bit (uint d) n \<longleftrightarrow> n < 16 \<and> bit z n" for n by (simp only: d bit_uint16 bit_u16)
  have "u16 (uint d AND 255) = u16 (uint (x - b))"
    by (rule bit_word_eqI)
      (auto simp only: bit_u16 bit_and_iff bd m bit_uint8 bit_u8 simp flip: rz)
  moreover have "bit (u16 (uint d AND -41 OR uint b AND 40)) 7 = bit (x - b) 7"
      "bit (u16 (uint d AND -41 OR uint b AND 40)) 5 = bit b 5"
      "bit (u16 (uint d AND -41 OR uint b AND 40)) 3 = bit b 3"
      "bit (u16 (uint d AND -41 OR uint b AND 40)) 8 = bit z 8"
    by (simp_all add: bit_u16 bit_or_iff bit_and_iff bd bit_uint8 bit_u8 bit8_high flip: rz)
  ultimately show ?thesis
    using diff_group_flags [of "x - b" x b False "u16 (uint d AND -41 OR uint b AND 40)" b]
      bit8_diff [OF z'] by (simp add: z)
qed

text \<open>C9: \<open>SUB\<close>, \<open>SBC A\<close> and \<open>CP\<close> compute the byte difference and the eight flags of the
  subtraction; \<open>CP\<close> leaves the accumulator alone and copies bits 5 and 3 of the operand.\<close>

theorem sub_sbc_cp_correct:
  assumes "z80_flags s"
  shows "acc_result s n (src_a s - b) (SUB b n s) \<and>
    dst_flags (SUB b n s) = sub_flags (src_a s) b False \<and>
    acc_result s n (src_a s - b - of_bool (carry s)) (SBC b n s) \<and>
    dst_flags (SBC b n s) = sub_flags (src_a s) b (carry s) \<and>
    regs (CP b n s) = regs s \<and> mem (CP b n s) = mem s \<and> st (CP b n s) = st s + n \<and>
    dst_flags (CP b n s) = (sub_flags (src_a s) b False)\<lparr>Y_flag := bit b 5, X_flag := bit b 3\<rparr>"
proof -
  have k: "(of_bool (carry s) :: int) XOR 1 = 1 - of_bool (carry s)" by simp
  have "SUB b n s = VM1_OF_ARITH (put_alu (alu_sum (src_a s) (u16 (NOT (uint b))) 1) (ticks n s))"
    "SBC b n s = VM1_OF_ARITH (put_alu (alu_sum (src_a s) (u16 (NOT (uint b))) (1 - of_bool (carry s))) (ticks n s))"
    by (simp_all only: SUB_def SBC_def carry_in_eq k)
  moreover have "\<not> isvm1 s" using assms by (simp add: z80_flags_def)
  then have cp: "regs (CP b n s) = regs s \<and> mem (CP b n s) = mem s \<and> st (CP b n s) = st s + n"
    "dst_flags (CP b n s) = (sub_flags (src_a s) b False)\<lparr>Y_flag := bit b 5, X_flag := bit b 3\<rparr>"
    using assms cp_group [of "src_a s" b]
    by (simp_all add: CP_def Let_def VM1_OF_ONLY_def ticks_def set_grp_def cpu_preds dst_flags_z80 grp_def)
  ultimately show ?thesis
    using acc_macro_sum [where n = n, OF assms, of "src_a s" "u16 (NOT (uint b))" 1]
      acc_macro_sum [where n = n, OF assms, of "src_a s" "u16 (NOT (uint b))" "1 - of_bool (carry s)"]
      alu_sum_sub [of 1 False "src_a s" b] alu_sum_sub [OF refl, of "src_a s" b "carry s"]
    by simp
qed

theorem sub_sbc_cp_correct_witness:
  "let s = (power_on CPU_Z180 Standard)\<lparr>regs := (\<lambda>_. 0x05)\<rparr> in
   regs (SUB 7 4 s) rA = 0xfe \<and> C_flag (dst_flags (CP 7 4 s)) \<and> N_flag (dst_flags (CP 7 4 s))"
proof -
  let ?s = "(power_on CPU_Z180 Standard)\<lparr>regs := (\<lambda>_. 0x05)\<rparr>"
  have "z80_flags ?s" by (simp add: z80_flags_def power_on_def cpu_preds cpu_codes)
  from sub_sbc_cp_correct [where n = 4 and b = 7, OF this] have
    r: "acc_result ?s 4 (src_a ?s - 7) (SUB 7 4 ?s)" and
    f: "dst_flags (CP 7 4 ?s) = (sub_flags (src_a ?s) 7 False)\<lparr>Y_flag := bit (7 :: 8 word) 5, X_flag := bit (7 :: 8 word) 3\<rparr>"
    by blast+
  have "src_a ?s = 5" "altd ?s = False" by (simp_all add: src_a_def power_on_def)
  then show ?thesis using f acc_result_regs [OF r] by (simp add: Let_def dst_r_def sub_flags_def)
qed

lemma u8_uint_byte: "u8 (uint (r :: 8 word)) = r"
  by simp

text \<open>\<open>AND\<close>, \<open>OR\<close> and \<open>XOR\<close> compute the bitwise operation; parity goes to P/V, carry and N
  are cleared, H is set by \<open>AND\<close> alone.\<close>

lemma logic_ops_correct:
  assumes "z80_flags s"
  shows "acc_result s n (src_a s AND b) (AND_op b n s) \<and>
    dst_flags (AND_op b n s) = logic_flags (src_a s AND b) True \<and>
    acc_result s n (src_a s OR b) (OR_op b n s) \<and>
    dst_flags (OR_op b n s) = logic_flags (src_a s OR b) False \<and>
    acc_result s n (src_a s XOR b) (XOR_op b n s) \<and>
    dst_flags (XOR_op b n s) = logic_flags (src_a s XOR b) False"
proof -
  have hi: "uint (u16 (256 OR uint (r :: 8 word))) AND -256 \<noteq> 0" "\<not> bit (u16 (256 OR uint r)) 4 \<longleftrightarrow> \<not> bit r 4"
      "uint (u16 (NOT (uint r))) AND -256 \<noteq> 0" for r
  proof -
    have "bit (256 :: int) 8" by simp
    then have "bit (uint (u16 (256 OR uint r)) AND -256) 8"
      by (simp only: bit_and_iff bit_uint16 bit_u16 bit_or_iff bit_minus_256) simp
    then show "uint (u16 (256 OR uint r)) AND -256 \<noteq> 0" by auto
    show "\<not> bit (u16 (256 OR uint r)) 4 \<longleftrightarrow> \<not> bit r 4"
      by (simp only: bit_u16 bit_or_iff bit_uint8) simp
    have "bit (uint (u16 (NOT (uint r))) AND -256) 8"
      by (simp only: bit_and_iff bit_uint16 bit_u16_not bit_minus_256) (simp add: bit8_high)
    then show "uint (u16 (NOT (uint r))) AND -256 \<noteq> 0" by auto
  qed
  have "AND_op b n s = VM1_OF_LOGIC (put_alu (src_a s AND b, \<lparr>ff = u16 (uint (src_a s AND b)),
      fr = u16 (uint (src_a s AND b)), fa = u16 (NOT (uint (src_a s AND b))), fb = 0\<rparr>) (ticks n s))"
    by (simp only: AND_op_def Let_def uint_and [symmetric] uint_u16_byte u8_uint_byte)
  moreover have "OR_op b n s = VM1_OF_LOGIC (put_alu (src_a s OR b, \<lparr>ff = u16 (uint (src_a s OR b)),
      fr = u16 (uint (src_a s OR b)), fa = u16 (256 OR uint (src_a s OR b)), fb = 0\<rparr>) (ticks n s))"
    by (simp only: OR_op_def Let_def uint_or [symmetric] uint_u16_byte u8_uint_byte)
  moreover have "XOR_op b n s = VM1_OF_LOGIC (put_alu (src_a s XOR b, \<lparr>ff = u16 (uint (src_a s XOR b)),
      fr = u16 (uint (src_a s XOR b)), fa = u16 (256 OR uint (src_a s XOR b)), fb = 0\<rparr>) (ticks n s))"
    by (simp only: XOR_op_def Let_def uint_xor [symmetric] uint_u16_byte u8_uint_byte)
  ultimately show ?thesis
    by (simp only: acc_macro [OF assms] parity_group [OF hi(1)] parity_group [OF hi(3)] simp_thms hi(2))
      (simp add: bit_u16_not hi(2) [simplified] del: word_of_int_uint)
qed

section \<open>INC and DEC\<close>

text \<open>A step by \<open>d\<close> with the bits of \<open>ff\<close>: the old carry above the result byte.\<close>

lemma step_group_flags:
  assumes "r = u8 (uint x + uint d)"
  shows "fst (step_group g x d) = r"
    and "flags_of (f_z80 (snd (step_group g x d))) =
     \<lparr>S_flag = bit r 7, Z_flag = (r = 0), Y_flag = bit r 5,
      H_flag = (bit r 4 \<noteq> (bit x 4 \<noteq> (bit d 4 \<noteq> bit d 12))), X_flag = bit r 3,
      PV_flag = (bit r 7 \<noteq> bit x 7 \<and> bit r 7 \<noteq> bit d 7), N_flag = bit d 9, C_flag = bit (ff g) 8\<rparr>"
proof -
  show "fst (step_group g x d) = r" by (simp only: step_group_def Let_def fst_conv assms)
  have m: "bit (256 :: int) n \<longleftrightarrow> n = 8" for n using bit_pow2 [of 8 n] by simp
  show "flags_of (f_z80 (snd (step_group g x d))) =
     \<lparr>S_flag = bit r 7, Z_flag = (r = 0), Y_flag = bit r 5,
      H_flag = (bit r 4 \<noteq> (bit x 4 \<noteq> (bit d 4 \<noteq> bit d 12))), X_flag = bit r 3,
      PV_flag = (bit r 7 \<noteq> bit x 7 \<and> bit r 7 \<noteq> bit d 7), N_flag = bit d 9, C_flag = bit (ff g) 8\<rparr>"
    by (simp only: step_group_def Let_def snd_conv byte_group_flags uint_u16_byte flip: assms)
      (simp add: bit_u16 bit_or_iff bit_and_iff bit_uint16 bit_uint8 bit8_high m)
qed

lemma inc_group:
  "fst (step_group g x 1) = x + 1"
  "flags_of (f_z80 (snd (step_group g x 1))) = (add_flags x 1 False)\<lparr>C_flag := bit (ff g) 8\<rparr>"
proof -
  have e: "u8 (uint x + 1) = x + 1" by simp
  then have r: "x + 1 = u8 (uint x + uint (1 :: 16 word))" by (simp only: uint_1)
  then show "fst (step_group g x 1) = x + 1" by (rule step_group_flags)
  have "bit (x + 1) 4 = bit (uint x + 1) 4"
    using bit_u8 [of "uint x + 1" 4] unfolding e by (simp only: simp_thms) simp
  then have "(bit (x + 1) 4 \<noteq> bit x 4) \<longleftrightarrow> 16 \<le> uint x mod 16 + 1"
    using nibble_carry [of 0 x 1] by (simp only: uint_1 add_0_right) auto
  moreover have "(bit (x + 1) 7 \<noteq> bit x 7 \<and> bit (x + 1) 7) \<longleftrightarrow> sint x + 1 \<notin> {-128..127}"
    using overflow_add [of x 1 False] by simp
  ultimately show "flags_of (f_z80 (snd (step_group g x 1))) = (add_flags x 1 False)\<lparr>C_flag := bit (ff g) 8\<rparr>"
    unfolding step_group_flags(2) [OF r] by (simp add: add_flags_def Let_def)
qed

lemma dec_group:
  "fst (step_group g x (u16 (-1))) = x - 1"
  "flags_of (f_z80 (snd (step_group g x (u16 (-1))))) = (sub_flags x 1 False)\<lparr>C_flag := bit (ff g) 8\<rparr>"
proof -
  have m: "uint (u16 (-1)) = 65535" by (subst uint_word_of_int) simp
  have r: "x - 1 = u8 (uint x + uint (u16 (-1)))" by (simp only: m) simp
  then show "fst (step_group g x (u16 (-1))) = x - 1" by (rule step_group_flags)
  have "u8 (uint x - uint (1 :: 8 word) - 0) = x - 1" by simp
  then have "bit (x - 1) 4 = bit (uint x - uint (1 :: 8 word) - 0) 4"
    using bit_u8 [of "uint x - uint (1 :: 8 word) - 0" 4] by simp
  then have "(bit (x - 1) 4 \<noteq> bit x 4) \<longleftrightarrow> uint x mod 16 < 1"
    using nibble_borrow [of 0 x 1] by auto
  moreover have "(bit (x - 1) 7 \<noteq> bit x 7 \<and> \<not> bit (x - 1) 7) \<longleftrightarrow> sint x - 1 \<notin> {-128..127}"
    using overflow_sub [of x 1 False] by simp
  ultimately show "flags_of (f_z80 (snd (step_group g x (u16 (-1))))) =
      (sub_flags x 1 False)\<lparr>C_flag := bit (ff g) 8\<rparr>"
    unfolding step_group_flags(2) [OF r] by (simp add: sub_flags_def Let_def)
qed

text \<open>C11: \<open>INC r\<close> and \<open>DEC r\<close> add and subtract one with the flags of that addition or
  subtraction, except that the carry is kept.\<close>

theorem inc_dec_correct:
  assumes "z80_flags s"
  shows "regs (INC r r' s) = (regs s)(dst_r r r' s := src_r r r' s + 1) \<and>
    dst_flags (INC r r' s) = (add_flags (src_r r r' s) 1 False)\<lparr>C_flag := carry s\<rparr> \<and>
    regs (DEC r r' s) = (regs s)(dst_r r r' s := src_r r r' s - 1) \<and>
    dst_flags (DEC r r' s) = (sub_flags (src_r r r' s) 1 False)\<lparr>C_flag := carry s\<rparr> \<and>
    mem (INC r r' s) = mem s \<and> mem (DEC r r' s) = mem s"
proof -
  have "\<not> isvm1 s" using assms by (simp add: z80_flags_def)
  then show ?thesis
    using assms inc_group [of "grp s" "src_r r r' s"] dec_group [of "grp s" "src_r r r' s"]
    by (cases "altd s")
      (simp_all add: INC_def DEC_def Let_def VM1_OF_ARITH_def cpu_preds set_reg_def set_grp_def ticks_def
        dst_flags_z80 grp_def carry_def dst_r_def)
qed

section \<open>The overflow flag of the KR580VM1\<close>

lemma vm1_of_bit:
  "bit (vm1_of g) 0 \<longleftrightarrow> bit (fr g) 7 \<noteq> bit (fa g) 7 \<and> bit (fr g) 7 \<noteq> bit (fb g) 7"
  by (simp only: vm1_of_def bit_u16 bit_and_iff bit_drop_bit_eq bit_xor_iff bit_uint16 bit_1_iff)
    (simp add: bit_and_iff bit_xor_iff bit_uint16)

lemma f_vm1_of: "bit (f_vm1 g k mf) 5 = bit k 0"
  by (simp add: f_vm1_def f_bits)

lemma vm1_of_pv:
  assumes "fa g = u16 (uint (x :: 8 word))"
  shows "bit (vm1_of g) 0 = PV_flag (flags_of (f_z80 g))"
  using bit_pv_overflow [of g] low_byte_and [of x]
  by (simp add: vm1_of_bit flags_of_f_z80 assms)

lemma vm1_arith:
  assumes "c_cpu s = CPU_KR580VM1" "\<not> altd s"
  shows "bit (f_flags (VM1_OF_ARITH (put_alu (alu_sum x y c) (ticks n s)))) 5 =
    PV_flag (flags_of (f_z80 (snd (alu_sum x y c))))"
  using assms vm1_of_pv [of "snd (alu_sum x y c)" x]
  by (simp add: VM1_OF_ARITH_def put_alu_def set_reg_def set_grp_def ticks_def f_flags_def
      cpu_preds cpu_codes f_vm1_of alu_sum_def Let_def)

text \<open>On the KR580VM1, which has no second flag group, bit 5 of the PSW after an addition,
  a subtraction or a comparison is signed overflow, and a logic operation keeps it.\<close>

lemma vm1_overflow_flag:
  assumes "c_cpu s = CPU_KR580VM1" "\<not> altd s" "\<not> alts s"
  shows "(bit (f_flags (ADC b n s)) 5 \<longleftrightarrow>
      sint (regs s rA) + sint b + of_bool (carry s) \<notin> {-128..127}) \<and>
    (bit (f_flags (SBC b n s)) 5 \<longleftrightarrow>
      sint (regs s rA) - sint b - of_bool (carry s) \<notin> {-128..127}) \<and>
    (bit (f_flags (CP b n s)) 5 \<longleftrightarrow> sint (regs s rA) - sint b \<notin> {-128..127}) \<and>
    bit (f_flags (AND_op b n s)) 5 = bit (f_flags s) 5 \<and>
    bit (f_flags (OR_op b n s)) 5 = bit (f_flags s) 5 \<and>
    bit (f_flags (XOR_op b n s)) 5 = bit (f_flags s) 5"
proof -
  have a: "src_a s = regs s rA" using assms(3) by (simp add: src_a_def)
  have k: "(of_bool (carry s) :: int) XOR 1 = 1 - of_bool (carry s)" by simp
  note vm = vm1_arith [OF assms(1,2)]
  have "bit (f_flags (ADC b n s)) 5 \<longleftrightarrow>
      sint (regs s rA) + sint b + of_bool (carry s) \<notin> {-128..127}"
    by (simp only: ADC_def carry_in_eq vm alu_sum_add a) (simp add: add_flags_def Let_def)
  moreover have "bit (f_flags (SBC b n s)) 5 \<longleftrightarrow>
      sint (regs s rA) - sint b - of_bool (carry s) \<notin> {-128..127}"
    by (simp only: SBC_def carry_in_eq k vm alu_sum_sub [OF refl] a) (simp add: sub_flags_def Let_def)
  moreover have "bit (f_flags (CP b n s)) 5 \<longleftrightarrow> sint (regs s rA) - sint b \<notin> {-128..127}"
  proof -
    let ?g = "\<lparr>ff = u16 (uint (u16 (uint (regs s rA) - uint b)) AND -41 OR uint b AND 40),
      fr = u16 (uint (u16 (uint (regs s rA) - uint b)) AND 255),
      fa = u16 (uint (regs s rA)), fb = u16 (NOT (uint b))\<rparr>"
    have "bit (f_flags (CP b n s)) 5 = bit (vm1_of ?g) 0"
      using assms by (simp add: CP_def Let_def a VM1_OF_ONLY_def ticks_def set_grp_def f_flags_def
          cpu_preds cpu_codes f_vm1_of)
    also have "\<dots> = PV_flag (flags_of (f_z80 ?g))" by (rule vm1_of_pv) (simp only: flg.simps)
    finally show ?thesis by (simp only: cp_group) (simp add: sub_flags_def Let_def)
  qed
  moreover have "bit (f_flags (AND_op b n s)) 5 = bit (f_flags s) 5"
    "bit (f_flags (OR_op b n s)) 5 = bit (f_flags s) 5"
    "bit (f_flags (XOR_op b n s)) 5 = bit (f_flags s) 5"
    using assms by (simp_all add: AND_op_def OR_op_def XOR_op_def Let_def VM1_OF_LOGIC_def put_alu_def
        set_reg_def ticks_def set_grp_def f_flags_def cpu_preds cpu_codes f_vm1_of)
  ultimately show ?thesis by simp
qed

theorem inc_dec_correct_witness:
  "let s = (power_on CPU_Z80 Standard)\<lparr>regs := (\<lambda>_. 0xff)\<rparr> in
   regs (INC rB rB' s) rB = 0 \<and> Z_flag (dst_flags (INC rB rB' s)) \<and> \<not> C_flag (dst_flags (INC rB rB' s))"
proof -
  let ?s = "(power_on CPU_Z80 Standard)\<lparr>regs := (\<lambda>_. 0xff)\<rparr>"
  have "z80_flags ?s" by (simp add: z80_flags_def power_on_def cpu_preds cpu_codes)
  from inc_dec_correct [OF this, of rB rB'] have
    "regs (INC rB rB' ?s) = (regs ?s)(dst_r rB rB' ?s := src_r rB rB' ?s + 1)"
    "dst_flags (INC rB rB' ?s) = (add_flags (src_r rB rB' ?s) 1 False)\<lparr>C_flag := carry ?s\<rparr>" by blast+
  moreover have "src_r rB rB' ?s = 0xff" "dst_r rB rB' ?s = rB" "\<not> carry ?s"
    by (simp_all add: src_r_def dst_r_def power_on_def carry_def grp_def)
  ultimately show ?thesis by (simp add: Let_def add_flags_def)
qed

end
