(* ===== verification/Ticks_Shift.thy ===== *)
theory Ticks_Shift
  imports Ticks_Alu
begin

text \<open>
  The rotate, shift and bit macros of \<open>src/src/ticks/ticks.c\<close> that the CB page uses. Their
  lvalue arguments are a register or one of the 16-bit scratch variables \<open>t\<close> and \<open>u\<close>: the memory
  forms read the byte into a scratch variable and rotate it there.
\<close>

section \<open>Lvalues\<close>

datatype lval = LReg reg | LT | LU

definition get_lv :: "lval \<Rightarrow> cpu \<Rightarrow> int" where
  "get_lv v s = (case v of LReg r \<Rightarrow> uint (regs s r) | LT \<Rightarrow> uint (tt s) | LU \<Rightarrow> uint (uu s))"

definition set_lv :: "lval \<Rightarrow> int \<Rightarrow> cpu \<Rightarrow> cpu" where
  "set_lv v x s = (case v of
     LReg r \<Rightarrow> set_reg r (u8 x) s | LT \<Rightarrow> s\<lparr>tt := u16 x\<rparr> | LU \<Rightarrow> s\<lparr>uu := u16 x\<rparr>)"

section \<open>Rotates and shifts\<close>

text \<open>
  \<open>ff = e, fa = 256 | (fr = r = ff), fb = 0\<close> on the selected group, where the expression \<open>e\<close> reads
  \<open>r\<close> and the old \<open>ff\<close>.
\<close>

definition rot :: "(int \<Rightarrow> int \<Rightarrow> int) \<Rightarrow> lval \<Rightarrow> lval \<Rightarrow> cpu \<Rightarrow> cpu" where
  "rot e r r' s =
     (let s = ticks (CBr_TICKS s) s;
          x = (if altd s then r' else r);
          F = u16 (e (get_lv x s) (uint (ff (grp s))));
          s = set_lv x (uint F) s;
          v = u16 (get_lv x s)
      in set_grp \<lparr>ff = F, fr = v, fa = u16 (256 OR uint v), fb = 0\<rparr> s)"

definition RLC :: "lval \<Rightarrow> lval \<Rightarrow> cpu \<Rightarrow> cpu" where
  "RLC = rot (\<lambda>r f. shr (r * 257) 7)"

text \<open>With \<open>altd\<close>, \<open>RRC\<close> stores the parity operand in \<open>fa\<close>, not in \<open>fa_\<close>.\<close>

definition rrc_expr :: "int \<Rightarrow> int" where
  "rrc_expr r = shr r 1 OR shl (((r AND 1) + 1) XOR 1) 7"

definition RRC :: "lval \<Rightarrow> lval \<Rightarrow> cpu \<Rightarrow> cpu" where
  "RRC r r' s =
     (if altd s then
        (let s = ticks (CBr_TICKS s) s;
             F = u16 (rrc_expr (get_lv r' s));
             s = set_lv r' (uint F) s;
             v = u16 (get_lv r' s)
         in s\<lparr>fl' := (fl' s)\<lparr>ff := F, fr := v, fb := 0\<rparr>, fl := (fl s)\<lparr>fa := u16 (256 OR uint v)\<rparr>\<rparr>)
      else rot (\<lambda>r f. rrc_expr r) r r' s)"

definition RL :: "lval \<Rightarrow> lval \<Rightarrow> cpu \<Rightarrow> cpu" where
  "RL = rot (\<lambda>r f. shl r 1 OR (shr f 8 AND 1))"

definition RR :: "lval \<Rightarrow> lval \<Rightarrow> cpu \<Rightarrow> cpu" where
  "RR = rot (\<lambda>r f. shr (r * 513 OR (f AND 256)) 1)"

definition SLA :: "lval \<Rightarrow> lval \<Rightarrow> cpu \<Rightarrow> cpu" where
  "SLA = rot (\<lambda>r f. shl r 1)"

definition SRA :: "lval \<Rightarrow> lval \<Rightarrow> cpu \<Rightarrow> cpu" where
  "SRA = rot (\<lambda>r f. shr ((r * 513 + 128) XOR 128) 1)"

definition SRL :: "lval \<Rightarrow> lval \<Rightarrow> cpu \<Rightarrow> cpu" where
  "SRL = rot (\<lambda>r f. shr (r * 513) 1)"

definition SLL :: "lval \<Rightarrow> cpu \<Rightarrow> cpu" where
  "SLL r s =
     (if cansll s then
        (let s = ticks 8 s;
             F = u16 (shl (get_lv r s) 1 OR 1);
             s = set_lv r (uint F) s;
             v = u16 (get_lv r s)
         in s\<lparr>fl := \<lparr>ff = F, fr = v, fa = u16 (256 OR uint v), fb = 0\<rparr>\<rparr>)
      else s)"

definition SWAP :: "lval \<Rightarrow> cpu \<Rightarrow> cpu" where
  "SWAP r s =
     ticks 8 (set_lv r (shr (get_lv r s AND 0xf0) 4 OR shl (get_lv r s AND 0x0f) 4) s)"

section \<open>Bit operations\<close>

definition BIT_TICKS :: "cpu \<Rightarrow> int" where
  "BIT_TICKS s = (if isez80 s then 2 else if israbbit s then 4 else if isz180 s then 6
     else if isr800 s then 2 else 8)"

definition BIT :: "int \<Rightarrow> reg \<Rightarrow> reg \<Rightarrow> cpu \<Rightarrow> cpu" where
  "BIT n r r' s =
     (let t = src_r r r' s;
          g = grp s;
          v = u16 (uint t AND n)
      in set_grp \<lparr>ff = u16 ((uint (ff g) AND -256) OR (uint t AND 40) OR uint v), fr = v,
           fa = u16 (NOT (uint v)), fb = 0\<rparr> (ticks (BIT_TICKS s) s))"

text \<open>The group \<open>BITHL\<close> and \<open>BITI\<close> set from the masked byte; bits 5 and 3 come from \<open>mp\<close>.\<close>

definition bit_mem_group :: "flg \<Rightarrow> 16 word \<Rightarrow> 16 word \<Rightarrow> flg" where
  "bit_mem_group g m t =
     \<lparr>ff = u16 ((uint (ff g) AND -256) OR (shr (uint m) 8 AND 40) OR (-41 AND uint t)),
      fr = t, fa = u16 (NOT (uint t)), fb = 0\<rparr>"

definition BITHL :: "int \<Rightarrow> cpu \<Rightarrow> cpu" where
  "BITHL n s =
     (let s = ticks (if isez80 s then 3 else if israbbit s then 7 else if isz180 s then 9
                else if isgbz80 s then 16 else if isr800 s then 3 else if iskc160 s then 4 else 12) s;
          t = u16 (uint (get_memory_data (uint (regs s rL) OR shl (uint (regs s rH)) 8) s));
          t = u16 (uint t AND n)
      in s\<lparr>tt := t, fl := bit_mem_group (fl s) (mp s) t\<rparr>)"

definition BITI :: "int \<Rightarrow> cpu \<Rightarrow> cpu" where
  "BITI n s =
     (let s = ticks (if isez80 s then -7 else if israbbit s then -1 else if isz180 s then 4
                else if isr800 s then -6 else if iskc160 s then -7 else 5) s;
          t = u16 (uint (tt s) AND n)
      in set_grp (bit_mem_group (grp s) (mp s) t) (s\<lparr>tt := t\<rparr>))"

text \<open>\<open>RES\<close> and \<open>SET\<close> copy the source into a byte, mask it and store it.\<close>

definition RES :: "int \<Rightarrow> lval \<Rightarrow> lval \<Rightarrow> cpu \<Rightarrow> cpu" where
  "RES n r r' s =
     (let t = u8 (get_lv (if alts s then r' else r) s);
          s = ticks (CBr_TICKS s) s
      in set_lv (if altd s then r' else r) (uint (u8 (uint t AND n))) s)"

definition SET :: "int \<Rightarrow> lval \<Rightarrow> lval \<Rightarrow> cpu \<Rightarrow> cpu" where
  "SET n r r' s =
     (let t = u8 (get_lv (if alts s then r' else r) s);
          s = ticks (CBr_TICKS s) s
      in set_lv (if altd s then r' else r) (uint (u8 (uint t OR n))) s)"

definition RESHL_TICKS :: "cpu \<Rightarrow> int" where
  "RESHL_TICKS s = (if isez80 s then 3 else if israbbit s then 10 else if isz180 s then 13
     else if isgbz80 s then 16 else if isr800 s then 5 else if iskc160 s then 6 else 15)"

definition RESHL :: "int \<Rightarrow> cpu \<Rightarrow> cpu" where
  "RESHL n s =
     (let s = ticks (RESHL_TICKS s) s;
          t = pair16 (regs s rH) (regs s rL);
          s = s\<lparr>tt := t\<rparr>
      in put_mem t (u8 (uint (get_memory_data (uint t) s) AND n)) s)"

definition SETHL :: "int \<Rightarrow> cpu \<Rightarrow> cpu" where
  "SETHL n s =
     (let s = ticks (RESHL_TICKS s) s;
          t = pair16 (regs s rH) (regs s rL);
          s = s\<lparr>tt := t\<rparr>
      in put_mem t (u8 (uint (get_memory_data (uint t) s) OR n)) s)"

section \<open>The reference\<close>

definition shift_flags :: "8 word \<Rightarrow> bool \<Rightarrow> zflags" where
  "shift_flags res c = (logic_flags res False)\<lparr>C_flag := c\<rparr>"

text \<open>A result byte and the bit shifted out.\<close>

definition shift_ok :: "cpu \<Rightarrow> reg \<Rightarrow> 8 word \<Rightarrow> bool \<Rightarrow> cpu \<Rightarrow> bool" where
  "shift_ok s r res c s' \<longleftrightarrow>
     s' = s\<lparr>st := st s + CBr_TICKS s, regs := (regs s)(r := res), fl := fl s'\<rparr> \<and>
     flags_of (f_flags s') = shift_flags res c"

section \<open>Rotates and shifts of a register\<close>

lemma u16_256_or:
  fixes r :: "8 word"
  shows "uint (u16 (256 OR uint r)) AND -256 \<noteq> 0" and "bit (u16 (256 OR uint r)) 4 = bit r 4"
proof -
  have "bit (256 :: int) 8" by simp
  then have "bit (uint (u16 (256 OR uint r)) AND -256) 8"
    by (simp only: bit_and_iff bit_uint16 bit_u16 bit_or_iff bit_minus_256) simp
  then show "uint (u16 (256 OR uint r)) AND -256 \<noteq> 0" by auto
  show "bit (u16 (256 OR uint r)) 4 = bit r 4"
    by (simp only: bit_u16 bit_or_iff bit_uint8) simp
qed

lemma shift_group_flags:
  fixes r :: "8 word"
  assumes r: "r = u8 (uint F)"
  shows "flags_of (f_z80 \<lparr>ff = F, fr = u16 (uint r), fa = u16 (256 OR uint r), fb = 0\<rparr>) =
    shift_flags r (bit F 8)"
proof -
  let ?g = "\<lparr>ff = F, fr = u16 (uint r), fa = u16 (256 OR uint r), fb = 0\<rparr>"
  have "bit (pv_bits ?g) 2 \<longleftrightarrow> even_parity r"
    by (rule bit_pv_parity) (simp_all only: flg.simps u16_256_or, simp)
  moreover have b: "bit F n = bit r n" if "n < 8" for n
    using that unfolding r bit_u8 bit_uint16 by simp
  ultimately show ?thesis
    by (simp only: flags_of_f_z80 flg.simps bit_u16_byte u16_uint8_eq_0 shift_flags_def logic_flags_def
        u16_256_or(2)) (simp add: b)
qed

lemma uint_ucast_byte: "uint (ucast (r :: 8 word) :: 16 word) = uint r"
  using uint_u16_byte [of r] by simp

lemma rot_reg:
  assumes "z80_flags s" "\<not> altd s"
    and F: "F = u16 (e (uint (regs s r)) (uint (ff (fl s))))"
  shows "shift_ok s r (u8 (uint F)) (bit F 8) (rot e (LReg r) r' s)"
proof -
  define res where "res = u8 (uint F)"
  let ?g = "\<lparr>ff = F, fr = u16 (uint res), fa = u16 (256 OR uint res), fb = 0\<rparr>"
  have "rot e (LReg r) r' s =
      s\<lparr>st := st s + CBr_TICKS s, regs := (regs s)(r := res), fl := ?g\<rparr>"
    using assms(2) by (simp only: rot_def Let_def get_lv_def set_lv_def lval.case ticks_def set_reg_def
        set_grp_def grp_def) (simp add: res_def F uint_ucast_byte)
  moreover have "f_flags (s\<lparr>st := n, regs := g, fl := h\<rparr>) = f_z80 h" for n g h
    using assms(1) by (simp add: f_flags_def z80_flags_def cpu_preds)
  ultimately show ?thesis
    using shift_group_flags [of res F] by (simp add: shift_ok_def res_def)
qed


text \<open>Multiplying a byte by 257 or 513 places a second copy of it above the first.\<close>

lemma byte_add_shl:
  assumes "8 \<le> n"
  shows "uint (x :: 8 word) + shl y n = uint x OR shl y n"
proof (rule disjunctive_add_eq_or)
  show "uint x AND shl y n = 0"
    using assms by (intro bit_eqI) (auto simp: bit_and_iff bit_push_bit_iff_int bit_uint8 dest: bit_imp_le_length)
qed

lemma bit_257: "bit (uint (x :: 8 word) * 257) n \<longleftrightarrow> bit x n \<or> 8 \<le> n \<and> bit x (n - 8)"
proof -
  have "uint x * 257 = uint x + shl (uint x) 8" by (simp add: push_bit_eq_mult)
  then have "uint x * 257 = uint x OR shl (uint x) 8" by (simp only: byte_add_shl)
  then show ?thesis by (auto simp only: bit_or_iff bit_push_bit_iff_int bit_uint8)
qed

lemma bit_513: "bit (uint (x :: 8 word) * 513) n \<longleftrightarrow> bit x n \<or> 9 \<le> n \<and> bit x (n - 9)"
proof -
  have "uint x * 513 = uint x + shl (uint x) 9" by (simp add: push_bit_eq_mult)
  then have "uint x * 513 = uint x OR shl (uint x) 9" by (simp only: byte_add_shl)
  then show ?thesis by (auto simp only: bit_or_iff bit_push_bit_iff_int bit_uint8)
qed

text \<open>Adding 128 and flipping it back moves a copy of bit 7 into bit 8.\<close>

lemma bit_sra:
  "bit ((uint (x :: 8 word) * 513 + 128) XOR 128) n \<longleftrightarrow>
     bit x n \<or> n = 8 \<and> bit x 7 \<or> 9 \<le> n \<and> bit x (n - 9)"
proof (cases "bit x 7")
  case False
  have "uint x * 513 AND 128 = 0"
    using False by (intro bit_eqI) (auto simp: bit_and_iff bit_513 bit_masks dest: bit_imp_le_length)
  then have "uint x * 513 + 128 = uint x * 513 OR 128" by (rule disjunctive_add_eq_or)
  then show ?thesis using False
    by (auto simp: bit_xor_iff bit_or_iff bit_513 bit_masks)
next
  case True
  define y where "y = uint x * 513 AND NOT 128"
  have y: "bit y m \<longleftrightarrow> (bit x m \<and> m \<noteq> 7) \<or> 9 \<le> m \<and> bit x (m - 9)" for m
    by (simp only: y_def bit_and_iff bit_not_iff bit_513 bit_masks) auto
  have "y AND 128 = 0" by (intro bit_eqI) (auto simp: bit_and_iff y bit_masks)
  then have "y + 128 = y OR 128" by (rule disjunctive_add_eq_or)
  also have "y OR 128 = uint x * 513"
    using True by (intro bit_eqI) (auto simp: bit_or_iff y bit_513 bit_masks)
  finally have "uint x * 513 + 128 = y + 256" by simp
  also have "y AND 256 = 0"
    using bit_pow2 [of 8] by (intro bit_eqI) (auto simp: bit_and_iff y dest: bit_imp_le_length)
  then have "y + 256 = y OR 256" by (rule disjunctive_add_eq_or)
  finally show ?thesis using True bit_pow2 [of 8]
    by (auto simp: bit_xor_iff bit_or_iff y bit_masks)
qed

lemma bit_3: "bit (3 :: int) m \<longleftrightarrow> m = 0 \<or> m = 1"
proof -
  have "(3 :: int) = mask 2" by (simp add: mask_eq_exp_minus_1)
  then show ?thesis by (simp only: bit_mask_iff) auto
qed

lemma byte_and_1: "uint (x :: 8 word) AND 1 = of_bool (bit x 0)"
proof -
  have "odd (uint x) = bit x 0" by (simp only: bit_uint8 flip: bit_0)
  then show ?thesis by (simp only: and_one_eq odd_iff_mod_2_eq_one) (cases "bit x 0"; simp)
qed

lemma bit_rrc: "bit (rrc_expr (uint (x :: 8 word))) n \<longleftrightarrow>
    bit x (n + 1) \<or> (n = 7 \<or> n = 8) \<and> bit x 0"
proof (cases "bit x 0")
  case True
  then have "((uint x AND 1) + 1) XOR 1 = 3" by (simp only: byte_and_1) simp
  then have "rrc_expr (uint x) = shr (uint x) 1 OR shl 3 7" by (simp only: rrc_expr_def)
  with True show ?thesis
    by (simp only: bit_or_iff bit_push_bit_iff_int bit_drop_bit_eq bit_uint8 bit_3) (auto simp: bit_uint8)
next
  case False
  then have "((uint x AND 1) + 1) XOR 1 = 0" by (simp only: byte_and_1) simp
  then have "rrc_expr (uint x) = shr (uint x) 1" by (simp only: rrc_expr_def) simp
  with False show ?thesis
    by (simp only: bit_drop_bit_eq bit_uint8) (auto simp: add.commute bit_uint8)
qed

lemma all_less_8:
  "(\<forall>n<8. P n) \<longleftrightarrow> P 0 \<and> P 1 \<and> P 2 \<and> P 3 \<and> P 4 \<and> P 5 \<and> P 6 \<and> P (7 :: nat)"
  by (simp add: numeral_eq_Suc All_less_Suc conj_ac)

lemma bit_word_times_2: "bit (x * 2 :: 8 word) n \<longleftrightarrow> n \<noteq> 0 \<and> n < 8 \<and> bit x (n - 1)"
  by (auto simp: mult.commute [of x] bit_double_iff)

lemma rotates_ok:
  assumes "z80_flags s" "\<not> altd s"
  shows "shift_ok s r (word_rotl 1 (regs s r)) (bit (regs s r) 7) (RLC (LReg r) r' s) \<and>
    shift_ok s r (word_rotr 1 (regs s r)) (bit (regs s r) 0) (RRC (LReg r) r' s) \<and>
    shift_ok s r (push_bit 1 (regs s r) OR of_bool (carry s)) (bit (regs s r) 7) (RL (LReg r) r' s) \<and>
    shift_ok s r (drop_bit 1 (regs s r) OR push_bit 7 (of_bool (carry s))) (bit (regs s r) 0) (RR (LReg r) r' s) \<and>
    shift_ok s r (push_bit 1 (regs s r)) (bit (regs s r) 7) (SLA (LReg r) r' s) \<and>
    shift_ok s r (signed_drop_bit 1 (regs s r)) (bit (regs s r) 0) (SRA (LReg r) r' s) \<and>
    shift_ok s r (drop_bit 1 (regs s r)) (bit (regs s r) 0) (SRL (LReg r) r' s)"
proof -
  let ?x = "regs s r" and ?f = "ff (fl s)"
  have cy: "carry s = bit ?f 8" using assms(2) by (simp add: carry_def grp_def)
  have *: "shift_ok s r res c (rot e (LReg r) r' s)"
    if "\<forall>n<8. bit (e (uint ?x) (uint ?f)) n = bit res n" "bit (e (uint ?x) (uint ?f)) 8 = c"
    for e res c
  proof -
    have "u8 (uint (u16 (e (uint ?x) (uint ?f)))) = res"
      using that(1) by (intro bit_word_eqI) (simp only: bit_u8 bit_uint16 bit_u16, simp)
    moreover have "bit (u16 (e (uint ?x) (uint ?f))) 8 = c"
      using that(2) by (simp only: bit_u16, simp)
    ultimately show ?thesis using rot_reg [OF assms refl, of r e r'] by simp
  qed
  have "bit (256 :: int) n \<longleftrightarrow> n = 8" for n using bit_pow2 [of 8 n] by simp
  note bits = bit_drop_bit_eq bit_or_iff bit_and_iff bit_push_bit_iff_int bit_push_bit_iff bit_257 bit_513 bit_uint8
    bit_uint16 bit_sra bit_rrc bit8_high bit_1_iff this cy bit_times_2 bit_word_times_2 bit_of_bool_iff
  have "shift_ok s r (word_rotl 1 ?x) (bit ?x 7) (RLC (LReg r) r' s)"
    unfolding RLC_def by (rule *) (simp_all add: all_less_8 bits bit_word_rotl_iff)
  moreover have "shift_ok s r (word_rotr 1 ?x) (bit ?x 0) (RRC (LReg r) r' s)"
    using assms(2) unfolding RRC_def by (simp, intro *) (simp_all add: all_less_8 bits bit_word_rotr_iff)
  moreover have "shift_ok s r (push_bit 1 ?x OR of_bool (carry s)) (bit ?x 7) (RL (LReg r) r' s)"
    unfolding RL_def by (rule *) (simp_all add: all_less_8 bits)
  moreover have "shift_ok s r (drop_bit 1 ?x OR push_bit 7 (of_bool (carry s))) (bit ?x 0) (RR (LReg r) r' s)"
    unfolding RR_def by (rule *) (simp_all add: all_less_8 bits)
  moreover have "shift_ok s r (push_bit 1 ?x) (bit ?x 7) (SLA (LReg r) r' s)"
    unfolding SLA_def by (rule *) (simp_all add: all_less_8 bits)
  moreover have "shift_ok s r (signed_drop_bit 1 ?x) (bit ?x 0) (SRA (LReg r) r' s)"
    unfolding SRA_def by (rule *) (simp_all only: all_less_8 bit_drop_bit_eq bit_sra, simp_all add: bits bit_signed_drop_bit_iff)
  moreover have "shift_ok s r (drop_bit 1 ?x) (bit ?x 0) (SRL (LReg r) r' s)"
    unfolding SRL_def by (rule *) (simp_all add: all_less_8 bits)
  ultimately show ?thesis by blast
qed

text \<open>C19: the eight rotates and shifts of a register: the result byte, the bit shifted out in C,
  parity in P/V, H and N clear, and nothing else changed.\<close>

theorem rotate_shift_correct:
  assumes "z80_flags s" "\<not> altd s"
  shows "shift_ok s r (word_rotl 1 (regs s r)) (bit (regs s r) 7) (RLC (LReg r) r' s) \<and>
    shift_ok s r (word_rotr 1 (regs s r)) (bit (regs s r) 0) (RRC (LReg r) r' s) \<and>
    shift_ok s r (push_bit 1 (regs s r) OR of_bool (carry s)) (bit (regs s r) 7) (RL (LReg r) r' s) \<and>
    shift_ok s r (drop_bit 1 (regs s r) OR push_bit 7 (of_bool (carry s))) (bit (regs s r) 0) (RR (LReg r) r' s) \<and>
    shift_ok s r (push_bit 1 (regs s r)) (bit (regs s r) 7) (SLA (LReg r) r' s) \<and>
    shift_ok s r (signed_drop_bit 1 (regs s r)) (bit (regs s r) 0) (SRA (LReg r) r' s) \<and>
    shift_ok s r (drop_bit 1 (regs s r)) (bit (regs s r) 0) (SRL (LReg r) r' s)"
  using rotates_ok [OF assms] .

lemma shift_ok_fields:
  assumes "shift_ok s r res c s'"
  shows "regs s' = (regs s)(r := res)" "mem s' = mem s" "flags_of (f_flags s') = shift_flags res c"
proof -
  have e: "s' = s\<lparr>st := st s + CBr_TICKS s, regs := (regs s)(r := res), fl := fl s'\<rparr>"
    and f: "flags_of (f_flags s') = shift_flags res c" using assms by (auto simp only: shift_ok_def)
  show "regs s' = (regs s)(r := res)" by (subst e) simp
  show "mem s' = mem s" by (subst e) simp
  show "flags_of (f_flags s') = shift_flags res c" by (rule f)
qed

theorem rotate_shift_correct_witness:
  "let s = (power_on CPU_Z80 Standard)\<lparr>regs := (\<lambda>_. 0x81)\<rparr> in
   regs (SRL (LReg rD) (LReg rD') s) rD = 0x40 \<and>
   C_flag (flags_of (f_flags (SRL (LReg rD) (LReg rD') s)))"
proof -
  let ?s = "(power_on CPU_Z80 Standard)\<lparr>regs := (\<lambda>_. 0x81)\<rparr>"
  have "z80_flags ?s" "\<not> altd ?s" by (simp_all add: z80_flags_def power_on_def cpu_preds cpu_codes)
  from rotate_shift_correct [OF this, of rD "LReg rD'"]
  have 2: "shift_ok ?s rD (drop_bit 1 0x81) (bit (0x81 :: 8 word) 0) (SRL (LReg rD) (LReg rD') ?s)"
    by simp_all
  have "drop_bit 1 (0x81 :: 8 word) = 0x40" by simp
  then show ?thesis using shift_ok_fields [OF 2]
    by (simp add: Let_def shift_flags_def)
qed

section \<open>Bit tests\<close>

lemma set_grp_ticks:
  assumes "z80_flags s"
  shows "dst_flags (set_grp h (ticks n s)) = flags_of (f_z80 h)"
    "regs (set_grp h (ticks n s)) = regs s" "mem (set_grp h (ticks n s)) = mem s"
  using assms by (auto simp: dst_flags_z80 set_grp_def grp_def ticks_def)

text \<open>\<open>BIT n,r\<close> leaves the register alone, shows the tested bit in Z (and P/V), sets H, clears
  N, keeps the carry, and copies bit 7 of the masked byte to S and bits 5 and 3 of the register.\<close>

lemma bit_correct:
  assumes "z80_flags s" "n < 8"
  shows "regs (BIT (2 ^ n) r r' s) = regs s \<and> mem (BIT (2 ^ n) r r' s) = mem s \<and>
    dst_flags (BIT (2 ^ n) r r' s) =
      \<lparr>S_flag = (n = 7 \<and> bit (src_r r r' s) 7), Z_flag = (\<not> bit (src_r r r' s) n),
       Y_flag = bit (src_r r r' s) 5, H_flag = True, X_flag = bit (src_r r r' s) 3,
       PV_flag = (\<not> bit (src_r r r' s) n), N_flag = False, C_flag = carry s\<rparr>"
proof -
  let ?t = "src_r r r' s" and ?g = "grp s"
  define v where "v = ?t AND 2 ^ n"
  have bv: "bit v m \<longleftrightarrow> m = n \<and> bit ?t n" for m
    by (auto simp: v_def bit_and_iff bit_exp_iff dest: bit_imp_le_length)
  have e: "u16 (uint ?t AND 2 ^ n) = u16 (uint v)"
    by (rule bit_word_eqI) (simp only: bit_u16 bit_and_iff bit_uint8 bv, auto simp: bit_exp_iff)
  let ?h = "\<lparr>ff = u16 ((uint (ff ?g) AND -256) OR (uint ?t AND 40) OR uint v), fr = u16 (uint v),
      fa = u16 (NOT (uint v)), fb = 0\<rparr>"
  have "BIT (2 ^ n) r r' s = set_grp ?h (ticks (BIT_TICKS s) s)"
    by (simp only: BIT_def Let_def e uint_u16_byte)
  moreover have "flags_of (f_z80 ?h) =
      \<lparr>S_flag = (n = 7 \<and> bit ?t 7), Z_flag = (\<not> bit ?t n), Y_flag = bit ?t 5, H_flag = True,
       X_flag = bit ?t 3, PV_flag = (\<not> bit ?t n), N_flag = False, C_flag = carry s\<rparr>"
  proof -
    have "bit (uint (fa ?h) AND -256) 8"
      by (simp only: flg.simps bit_and_iff bit_uint16 bit_u16_not bit_minus_256) (simp add: bit8_high)
    then have "uint (fa ?h) AND -256 \<noteq> 0" by auto
    then have "bit (pv_bits ?h) 2 \<longleftrightarrow> even_parity v" by (rule bit_pv_parity) (simp only: flg.simps)
    also have "\<dots> \<longleftrightarrow> \<not> bit ?t n"
      using assms(2) unfolding even_parity_bits bv by (auto simp: less_Suc_eq numeral_eq_Suc)
    finally have pv: "bit (pv_bits ?h) 2 \<longleftrightarrow> \<not> bit ?t n" .
    have z: "v = 0 \<longleftrightarrow> \<not> bit ?t n" 
      by (auto simp: bit_eq_iff [where 'a = "8 word"] bv dest: bit_imp_le_length)
    show ?thesis
      using assms(2)
      by (simp only: flags_of_f_z80 flg.simps pv u16_uint8_eq_0 z bit_u16_byte bit_u16_not)
        (auto simp: bit_u16 bit_or_iff bit_and_iff bit_uint16 bit_uint8 bit_minus_256 bv carry_def bit8_high
          dest: bit_imp_le_length)
  qed
  ultimately show ?thesis
    using set_grp_ticks [OF assms(1)] by (simp only: simp_thms)
qed

end
