(* ===== verification/Ticks_Load.thy ===== *)
theory Ticks_Load
  imports Ticks_Shift
begin

text \<open>
  The load and 16-bit arithmetic macros of \<open>src/src/ticks/ticks.c\<close>: immediate, register and
  memory loads, \<open>INCW DECW INCPI DECPI\<close>, the additions to HL, IX and IY and the 16-bit
  \<open>ADC SBC SUB\<close>. The scratch integer \<open>v\<close> is always written before it is read and is a
  local value here.
\<close>

section \<open>Fetching\<close>

text \<open>\<open>get_memory_inst(pc++)\<close>.\<close>

definition fetch :: "cpu \<Rightarrow> 8 word \<times> cpu" where
  "fetch s = (get_memory_inst (uint (pc s)) s, s\<lparr>pc := pc s + 1\<rparr>)"

text \<open>\<open>b | a<<8\<close> of two registers.\<close>

definition rp :: "reg \<Rightarrow> reg \<Rightarrow> cpu \<Rightarrow> int" where
  "rp a b s = uint (regs s b) OR shl (uint (regs s a)) 8"

section \<open>Loads\<close>

definition LDRIM :: "reg \<Rightarrow> reg \<Rightarrow> cpu \<Rightarrow> cpu" where
  "LDRIM r r' s =
     (let s = ticks (if isez80 s then 2 else if israbbit s then 4 else if isz180 s then 6
                else if isgbz80 s then 8 else if isr800 s then 2 else if iskc160 s then 1 else 7) s;
          (x, s) = fetch s
      in set_reg (dst_r r r' s) x s)"

definition LDRRIM :: "reg \<Rightarrow> reg \<Rightarrow> cpu \<Rightarrow> cpu" where
  "LDRRIM a b s =
     (let s = ticks (if isez80 s then 3 else if israbbit s then 6 else if isz180 s then 9
                else if isgbz80 s then 12 else if isr800 s then 3 else if iskc160 s then 2 else 10) s;
          (x, s) = fetch s;
          s = set_reg b x s;
          (y, s) = fetch s
      in set_reg a y s)"

definition LDRP :: "reg \<Rightarrow> reg \<Rightarrow> reg \<Rightarrow> cpu \<Rightarrow> cpu" where
  "LDRP a b r s =
     (let s = ticks (if isez80 s then 2 else if israbbit s then (if a = rH then 5 else 6)
                else if isgbz80 s then 8 else if isz180 s then 6 else if isr800 s then 2
                else if iskc160 s then 2 else 7) s;
          s = s\<lparr>mp := u16 (rp a b s)\<rparr>;
          s = set_reg r (get_memory_data (uint (mp s)) s) s
      in s\<lparr>mp := mp s + 1\<rparr>)"

definition indexed :: "8 word \<Rightarrow> reg \<Rightarrow> reg \<Rightarrow> cpu \<Rightarrow> int" where
  "indexed d a b s = (sdisp d + rp a b s) AND 65535"

definition LDRPI :: "reg \<Rightarrow> reg \<Rightarrow> reg \<Rightarrow> cpu \<Rightarrow> cpu" where
  "LDRPI a b r s =
     (let s = ticks (if isez80 s then 3 else if israbbit s then 7 else if isz180 s then 11
                else if isr800 s then 5 else if iskc160 s then 3 else 15) s;
          (d, s) = fetch s
      in set_reg r (get_memory_data (indexed d a b s) s) s)"

definition LDPR :: "reg \<Rightarrow> reg \<Rightarrow> reg \<Rightarrow> cpu \<Rightarrow> cpu" where
  "LDPR a b r s =
     (let s = ticks (if isez80 s then 2 else if israbbit s then (if a = rH then 6 else 7)
                else if isgbz80 s then 8 else if isr800 s then 2 else if iskc160 s then 2 else 7) s;
          s = put_mem (u16 (rp a b s)) (regs s r) s
      in s\<lparr>mp := u16 (((uint (regs s b) + 1) AND 255) OR shl (uint (regs s a)) 8)\<rparr>)"

definition LDPRI :: "reg \<Rightarrow> reg \<Rightarrow> reg \<Rightarrow> cpu \<Rightarrow> cpu" where
  "LDPRI a b r s =
     (let s = ticks (if isez80 s then 3 else if israbbit s then 8 else if isz180 s then 12
                else if isr800 s then 5 else if iskc160 s then 3 else 15) s;
          (d, s) = fetch s
      in put_mem (u16 (indexed d a b s)) (regs s r) s)"

definition LDRR :: "reg \<Rightarrow> reg \<Rightarrow> reg \<Rightarrow> reg \<Rightarrow> int \<Rightarrow> cpu \<Rightarrow> cpu" where
  "LDRR dr sr dr' sr' n s =
     (let s = ticks n s in set_reg (dst_r dr dr' s) (src_r sr sr' s) s)"

definition LDPNNRR :: "reg \<Rightarrow> reg \<Rightarrow> int \<Rightarrow> cpu \<Rightarrow> cpu" where
  "LDPNNRR a b n s =
     (let s = ticks n s;
          (x, s) = fetch s;
          (y, s) = fetch s;
          t = u16 (uint x OR shl (uint y) 8);
          s = put_mem t (regs s b) (s\<lparr>tt := t\<rparr>);
          s = s\<lparr>mp := t + 1\<rparr>
      in put_mem (mp s) (regs s a) s)"

definition LDPIN :: "reg \<Rightarrow> reg \<Rightarrow> cpu \<Rightarrow> cpu" where
  "LDPIN a b s =
     (let s = ticks (if isez80 s then 4 else if israbbit s then 9 else if isz180 s then 12
                else if isr800 s then 5 else if iskc160 s then 3 else 15) s;
          (d, s) = fetch s;
          s = s\<lparr>tt := u16 (uint d)\<rparr>;
          (x, s) = fetch s
      in put_mem (u16 (indexed d a b s)) x s)"

definition LDRRPNN :: "reg \<Rightarrow> reg \<Rightarrow> int \<Rightarrow> cpu \<Rightarrow> cpu" where
  "LDRRPNN a b n s =
     (let s = ticks n s;
          (x, s) = fetch s;
          (y, s) = fetch s;
          t = u16 (uint x OR shl (uint y) 8);
          s = s\<lparr>tt := t\<rparr>;
          s = set_reg b (get_memory_data (uint t) s) s;
          s = s\<lparr>mp := t + 1\<rparr>
      in set_reg a (get_memory_data (uint (mp s)) s) s)"

section \<open>16-bit increments\<close>

definition INCW_TICKS :: "cpu \<Rightarrow> int" where
  "INCW_TICKS s = (if isez80 s then 1 else if israbbit s then 2 else if isgbz80 s then 8
     else if is8080 s \<or> isvm1 s then 5 else if isr800 s then 2 else if iskc160 s then 1 else 6)"

text \<open>\<open>++b || a++\<close> and \<open>b-- || a--\<close>: the high byte moves when the low byte is zero after the
  increment, or before the decrement. \<open>fk\<close> is the 8085's K flag.\<close>

definition INCW :: "reg \<Rightarrow> reg \<Rightarrow> cpu \<Rightarrow> cpu" where
  "INCW a b s =
     (let s = ticks (INCW_TICKS s) s;
          s = set_reg b (regs s b + 1) s;
          s = (if regs s b = 0 then set_reg a (regs s a + 1) s else s)
      in s\<lparr>fk := (if regs s a OR regs s b = 0 then 1 else 0)\<rparr>)"

definition DECW :: "reg \<Rightarrow> reg \<Rightarrow> cpu \<Rightarrow> cpu" where
  "DECW a b s =
     (let s = ticks (INCW_TICKS s) s;
          old = regs s b;
          s = set_reg b (old - 1) s;
          s = (if old = 0 then set_reg a (regs s a - 1) s else s)
      in s\<lparr>fk := (if regs s a AND regs s b = 0xff then 1 else 0)\<rparr>)"

text \<open>\<open>INC (IX+d)\<close> and \<open>DEC (IX+d)\<close>. \<open>fr\<close> is what \<open>put_memory\<close> returns.\<close>

definition INCPI_TICKS :: "cpu \<Rightarrow> int" where
  "INCPI_TICKS s = (if isez80 s then 5 else if israbbit s then 12 else if isr800 s then 7
     else if iskc160 s then 6 else 19)"

definition step_mem :: "16 word \<Rightarrow> 16 word \<Rightarrow> flg \<Rightarrow> cpu \<Rightarrow> flg \<times> cpu" where
  "step_mem t d g s =
     (let x = get_memory_data (uint t) s;
          (v, s) = put_memory t (u8 (uint x + uint d)) s
      in (\<lparr>ff = u16 ((uint (ff g) AND 256) OR uint v), fr = u16 (uint v), fa = u16 (uint x), fb = d\<rparr>, s))"

definition stepPI :: "16 word \<Rightarrow> reg \<Rightarrow> reg \<Rightarrow> cpu \<Rightarrow> cpu" where
  "stepPI dd a b s =
     (let s = ticks (INCPI_TICKS s) s;
          (d, s) = fetch s;
          t = u16 (sdisp d + rp a b s);
          (g, s) = step_mem t dd (grp s) (s\<lparr>tt := t\<rparr>)
      in VM1_OF_ARITH (set_grp g s))"

definition INCPI :: "reg \<Rightarrow> reg \<Rightarrow> cpu \<Rightarrow> cpu" where
  "INCPI a b s = stepPI 1 a b s"

definition DECPI :: "reg \<Rightarrow> reg \<Rightarrow> cpu \<Rightarrow> cpu" where
  "DECPI a b s = stepPI (u16 (-1)) a b s"

section \<open>16-bit arithmetic\<close>

text \<open>The flag group after an addition to HL: S, Z and P/V keep their sources.\<close>

definition add16_group :: "flg \<Rightarrow> int \<Rightarrow> int \<Rightarrow> int \<Rightarrow> flg" where
  "add16_group g v x y =
     g\<lparr>ff := u16 ((uint (ff g) AND 128) OR (shr v 8 AND 296)),
       fb := u16 ((uint (fb g) AND 128) OR
         ((shr v 8 XOR x XOR y XOR uint (fr g) XOR uint (fa g)) AND 16))\<rparr>"

definition ADDRRRR_TICKS :: "cpu \<Rightarrow> int" where
  "ADDRRRR_TICKS s = (if isez80 s then 1 else if israbbit s then 2 else if is808x s then 10
     else if isgbz80 s then 8 else if isz180 s then 7 else if isr800 s then 1
     else if iskc160 s then 1 else 11)"

definition ADDRRRR :: "reg \<Rightarrow> reg \<Rightarrow> reg \<Rightarrow> reg \<Rightarrow> cpu \<Rightarrow> cpu" where
  "ADDRRRR a b c d s =
     (let s = ticks (ADDRRRR_TICKS s) s;
          R = (\<lambda>r. uint (regs s r));
          v = R b + R d + shl (R a + R c) 8;
          s = s\<lparr>fl := add16_group (fl s) v (R a) (R c), mp := u16 (R b + 1 + shl (R a) 8)\<rparr>
      in set_reg b (u8 v) (set_reg a (u8 (shr v 8)) s))"

definition ADDRRRR_ALTD :: "reg \<Rightarrow> reg \<Rightarrow> reg \<Rightarrow> reg \<Rightarrow> reg \<Rightarrow> reg \<Rightarrow> cpu \<Rightarrow> cpu" where
  "ADDRRRR_ALTD a b c d dh dl s =
     (let s = ticks (if israbbit s then 2 else 11) s;
          R = (\<lambda>r. uint (regs s r));
          v = R b + R d + shl (R a + R c) 8;
          s = s\<lparr>fl' := add16_group (fl' s) v (R a) (R c), mp := u16 (R b + 1 + shl (R a) 8)\<rparr>
      in set_reg dl (u8 v) (set_reg dh (u8 (shr v 8)) s))"

definition ADDISP :: "reg \<Rightarrow> reg \<Rightarrow> cpu \<Rightarrow> cpu" where
  "ADDISP a b s =
     (let s = ticks (ADDRRRR_TICKS s) s;
          R = (\<lambda>r. uint (regs s r));
          v = uint (sp s) + rp a b s;
          s = s\<lparr>fl := add16_group (fl s) v (shr (uint (sp s)) 8) (R a),
                mp := u16 (R b + 1 + shl (R a) 8)\<rparr>
      in set_reg b (u8 v) (set_reg a (u8 (shr v 8)) s))"

definition ADDISP_ALTD :: "reg \<Rightarrow> reg \<Rightarrow> reg \<Rightarrow> reg \<Rightarrow> cpu \<Rightarrow> cpu" where
  "ADDISP_ALTD a b dh dl s =
     (let s = ticks (if israbbit s then 2 else 11) s;
          R = (\<lambda>r. uint (regs s r));
          v = uint (sp s) + rp a b s;
          s = s\<lparr>fl' := add16_group (fl' s) v (shr (uint (sp s)) 8) (R a),
                mp := u16 (R b + 1 + shl (R a) 8)\<rparr>
      in set_reg dl (u8 v) (set_reg dh (u8 (shr v 8)) s))"

text \<open>
  \<open>SBC HL\<close>, \<open>ADC HL\<close>: the operand is given as the values of its high and low part. The result
  goes to H and L, the group is set from the high bytes, and \<open>fr\<close> is zero when both are.
\<close>

definition HL_TICKS :: "cpu \<Rightarrow> int" where
  "HL_TICKS s = (if isez80 s then 2 else if israbbit s then 4 else if isz180 s then 10
     else if isr800 s then 2 else if iskc160 s then 2 else 15)"

definition put_hl :: "int \<Rightarrow> 16 word \<Rightarrow> cpu \<Rightarrow> cpu" where
  "put_hl v b16 s =
     (let R = (\<lambda>r. uint (regs s r));
          F = u16 (shr v 8);
          s' = set_reg rL (u8 v) (set_reg rH (u8 (uint F)) s)
      in s'\<lparr>mp := u16 (R rL + 1 + shl (R rH) 8),
            fl := \<lparr>ff = F, fr = u16 (uint (regs s' rH) OR shl (uint (regs s' rL)) 8),
                   fa = u16 (R rH), fb = b16\<rparr>\<rparr>)"

definition SBCHLRR :: "int \<Rightarrow> int \<Rightarrow> cpu \<Rightarrow> cpu" where
  "SBCHLRR a b s =
     (let s = ticks (HL_TICKS s) s;
          R = (\<lambda>r. uint (regs s r));
          v = R rL - b + shl (R rH - a) 8 - (shr (uint (ff (fl s))) 8 AND 1)
      in put_hl v (u16 (NOT a)) s)"

definition ADCHLRR :: "int \<Rightarrow> int \<Rightarrow> cpu \<Rightarrow> cpu" where
  "ADCHLRR a b s =
     (let s = ticks (HL_TICKS s) s;
          R = (\<lambda>r. uint (regs s r));
          v = R rL + b + shl (R rH + a) 8 + (shr (uint (ff (fl s))) 8 AND 1)
      in put_hl v (u16 a) s)"

text \<open>\<open>SUB HL\<close> of the Rabbit 4000. With \<open>altd\<close> the operands are the alternate registers but the
  result goes to H and L.\<close>

definition SUBHLRR :: "int \<Rightarrow> int \<Rightarrow> cpu \<Rightarrow> cpu" where
  "SUBHLRR a b s =
     (let R = (\<lambda>r. uint (regs s r)) in
      if altd s then
        (let v = R rL' - b + shl (R rH' - a) 8;
             F = u16 (shr v 8);
             s' = set_reg rL (u8 v) (set_reg rH (u8 (uint F)) s)
         in s'\<lparr>mp := u16 (R rL' + 1 + shl (R rH') 8),
               fl' := \<lparr>ff = F, fr = u16 (uint (regs s' rH') OR shl (uint (regs s' rL')) 8),
                       fa = u16 (R rH), fb = u16 (NOT a)\<rparr>\<rparr>)
      else put_hl (R rL - b + shl (R rH - a) 8) (u16 (NOT a)) s)"

section \<open>Register pairs\<close>

lemma uint_pair16: "uint (pair16 h l) = 256 * uint h + uint l"
proof -
  have "uint l OR shl (uint h) 8 = uint l + shl (uint h) 8" by (simp add: byte_add_shl)
  also have "\<dots> = 256 * uint h + uint l" by (simp add: push_bit_eq_mult)
  finally have "uint l OR shl (uint h) 8 = 256 * uint h + uint l" .
  moreover have "0 \<le> 256 * uint h + uint l" "256 * uint h + uint l < 65536"
    using uint8_bound [of h] uint8_bound [of l] by auto
  ultimately show ?thesis
    by (simp only: pair16_def uint_word_of_int) (simp add: mod_pos_pos_trivial)
qed

lemma bit_pair16: "bit (pair16 h l) n \<longleftrightarrow> (if n < 8 then bit l n else bit h (n - 8))"
  using bit_imp_le_length [of l n] bit_imp_le_length [of h "n - 8"]
  by (simp only: pair16_def bit_u16 bit_or_iff bit_push_bit_iff_int bit_uint8) auto

lemma pair16_hi_lo: "pair16 (u8 (shr z 8)) (u8 z) = u16 z"
  by (rule bit_word_eqI) (simp only: bit_pair16 bit_u8 bit_u16 bit_drop_bit_eq, auto)

lemma pair16_hi8_lo8: "pair16 (hi8 x) (lo8 x) = x"
  by (simp only: hi8_def lo8_def pair16_hi_lo) simp

lemma hi8_pair16 [simp]: "hi8 (pair16 h l) = h"
  by (rule bit_word_eqI) (simp only: hi8_def bit_u8 bit_drop_bit_eq o_apply bit_uint16 bit_pair16, simp)

lemma lo8_pair16 [simp]: "lo8 (pair16 h l) = l"
  by (rule bit_word_eqI) (simp only: lo8_def bit_u8 bit_uint16 bit_pair16, simp)

lemma rp_eq: "rp a b s = uint (pair16 (regs s a) (regs s b))"
  by (simp only: rp_def uint_pair16 byte_add_shl [symmetric] order_refl) (simp add: push_bit_eq_mult)

text \<open>The value of a register pair.\<close>

definition pair :: "reg \<Rightarrow> reg \<Rightarrow> cpu \<Rightarrow> 16 word" where
  "pair a b s = pair16 (regs s a) (regs s b)"

section \<open>INC and DEC of a pair\<close>

lemma pair16_eq_iff: "pair16 h l = pair16 h' l' \<longleftrightarrow> h = h' \<and> l = l'"
  by (metis hi8_pair16 lo8_pair16)

lemma pair16_plus:
  "pair16 h l + pair16 h' l' =
     u16 (256 * (uint h + uint h') + (uint l + uint l'))"
proof -
  have "pair16 h l + pair16 h' l' = u16 (uint (pair16 h l) + uint (pair16 h' l'))" by simp
  then show ?thesis by (simp only: uint_pair16) (simp add: algebra_simps)
qed

lemma word8_max: "(l :: 8 word) + 1 = 0 \<longleftrightarrow> uint l = 255"
proof -
  have "l + 1 = 0 \<longleftrightarrow> uint (l + 1) = 0" by (simp only: uint_0_iff)
  also have "\<dots> \<longleftrightarrow> (uint l + 1) mod 256 = 0" by (simp add: uint_word_ariths)
  also have "\<dots> \<longleftrightarrow> uint l = 255"
  proof -
    obtain z where "uint l = z" "0 \<le> z" "z < 256" using uint8_bound [of l] by blast
    then show ?thesis by (auto simp: mod_256 split: if_splits)
  qed
  finally show ?thesis .
qed

lemma pair16_succ: "pair16 h l + 1 = (if l + 1 = 0 then pair16 (h + 1) (l + 1) else pair16 h (l + 1))"
proof (rule word_uint_eqI)
  have b: "0 \<le> uint h" "uint h < 256" "0 \<le> uint l" "uint l < 256"
    using uint8_bound [of h] uint8_bound [of l] by auto
  have e: "uint (x + 1) = (if uint x = 255 then 0 else uint x + 1)" for x :: "8 word"
    using uint8_bound [of x] by (auto simp: uint_word_ariths mod_256)
  have "uint (pair16 h l + 1) = (256 * uint h + uint l + 1) mod 65536"
    by (simp add: uint_word_ariths uint_pair16)
  with b show "uint (pair16 h l + 1) =
      uint (if l + 1 = 0 then pair16 (h + 1) (l + 1) else pair16 h (l + 1))"
    by (simp add: word8_max uint_pair16 e mod_pos_pos_trivial)
qed

lemma pair16_pred: "pair16 h l - 1 = (if l = 0 then pair16 (h - 1) (l - 1) else pair16 h (l - 1))"
  using pair16_succ [of "h - 1" "l - 1"] pair16_succ [of h "l - 1"]
  by (auto simp: algebra_simps split: if_splits)

text \<open>\<open>INC rr\<close> and \<open>DEC rr\<close> step the 16-bit value of the pair, wrapping, and change no other
  register, no memory and no flag but the 8085's K, which tells that the pair wrapped.\<close>

lemma incw_decw_correct:
  assumes "a \<noteq> b"
  shows "pair a b (INCW a b s) = pair a b s + 1 \<and> pair a b (DECW a b s) = pair a b s - 1 \<and>
    (\<forall>r. r \<noteq> a \<and> r \<noteq> b \<longrightarrow> regs (INCW a b s) r = regs s r \<and> regs (DECW a b s) r = regs s r) \<and>
    fl (INCW a b s) = fl s \<and> fl (DECW a b s) = fl s \<and> mem (INCW a b s) = mem s \<and>
    fk (INCW a b s) = of_bool (pair a b s = 0xffff) \<and> fk (DECW a b s) = of_bool (pair a b s = 0)"
proof -
  have m: "(-1 :: 8 word) = 0xff" by simp
  have "pair16 0 0 = 0" "pair16 0xff 0xff = 0xffff"
    by (simp_all add: word_uint_eq_iff uint_pair16)
  then have 1: "x OR y = 0 \<longleftrightarrow> pair16 x y = 0" and 2: "x AND y = 0xff \<longleftrightarrow> pair16 x y = 0xffff" for x y :: "8 word"
    using pair16_eq_iff [of x y 0 0] pair16_eq_iff [of x y "0xff" "0xff"]
      and_eq_minus_1_iff [of x y, unfolded m] or_eq_0_iff [of x y] by simp_all
  have p: "pair a b (INCW a b s) = pair a b s + 1" "pair a b (DECW a b s) = pair a b s - 1"
    using assms
    by (simp_all add: INCW_def DECW_def Let_def pair_def set_reg_def ticks_def pair16_succ pair16_pred)
  have k: "fk (INCW a b s) = of_bool (pair a b (INCW a b s) = 0)"
      "fk (DECW a b s) = of_bool (pair a b (DECW a b s) = 0xffff)"
    by (simp_all add: INCW_def DECW_def Let_def 1 2 pair_def)
  have "pair a b s + 1 = 0 \<longleftrightarrow> pair a b s = 0xffff" "pair a b s - 1 = 0xffff \<longleftrightarrow> pair a b s = 0"
    by (auto simp: eq_diff_eq add_eq_0_iff2 diff_eq_eq)
  moreover have "\<forall>r. r \<noteq> a \<and> r \<noteq> b \<longrightarrow> regs (INCW a b s) r = regs s r \<and> regs (DECW a b s) r = regs s r"
    by (simp add: INCW_def DECW_def Let_def set_reg_def ticks_def)
  moreover have "fl (INCW a b s) = fl s" "fl (DECW a b s) = fl s" "mem (INCW a b s) = mem s"
    by (simp_all add: INCW_def DECW_def Let_def set_reg_def ticks_def)
  ultimately show ?thesis by (simp only: k p simp_thms)
qed

section \<open>16-bit additions and subtractions\<close>

text \<open>Signed overflow of a sum and a difference over \<open>2 * M\<close> values.\<close>

lemma overflow_range_add:
  fixes X Y C R M :: int
  assumes "0 \<le> X" "X < 2 * M" "0 \<le> Y" "Y < 2 * M" "C = 0 \<or> C = 1"
    and "R = (if 2 * M \<le> X + Y + C then X + Y + C - 2 * M else X + Y + C)"
  shows "((M \<le> R) \<noteq> (M \<le> X) \<and> (M \<le> R) \<noteq> (M \<le> Y)) \<longleftrightarrow>
    (X - (if M \<le> X then 2 * M else 0)) + (Y - (if M \<le> Y then 2 * M else 0)) + C \<notin> {-M..M - 1}"
  using assms by (auto split: if_splits)

lemma overflow_range_sub:
  fixes X Y C R M :: int
  assumes "0 \<le> X" "X < 2 * M" "0 \<le> Y" "Y < 2 * M" "C = 0 \<or> C = 1"
    and "R = (if X - Y - C < 0 then X - Y - C + 2 * M else X - Y - C)"
  shows "((M \<le> R) \<noteq> (M \<le> X) \<and> (M \<le> R) = (M \<le> Y)) \<longleftrightarrow>
    (X - (if M \<le> X then 2 * M else 0)) - (Y - (if M \<le> Y then 2 * M else 0)) - C \<notin> {-M..M - 1}"
  using assms by (auto split: if_splits)

lemma bit15_uint: "bit (x :: 16 word) 15 \<longleftrightarrow> 32768 \<le> uint x"
proof -
  have b: "0 \<le> uint x" "uint x < 65536" using uint16_bound [of x] by auto
  have "bit x 15 \<longleftrightarrow> odd (uint x div 32768)" by (simp flip: bit_uint16 add: bit_iff_odd)
  also have "\<dots> \<longleftrightarrow> 32768 \<le> uint x"
  proof (cases "32768 \<le> uint x")
    case True
    then have "uint x div 32768 = 1" using b by (intro int_div_pos_eq [where r = "uint x - 32768"]) auto
    with True show ?thesis by simp
  next
    case False
    with b show ?thesis by (simp add: div_pos_pos_trivial)
  qed
  finally show ?thesis .
qed

lemma sint16: "sint (x :: 16 word) = uint x - (if bit x 15 then 65536 else 0)"
proof -
  obtain z where z: "uint x = z" "0 \<le> z" "z < 65536" using uint16_bound [of x] by blast
  have e: "sint x = (z + 32768) mod 65536 - 32768"
    using z by (simp add: sint_uint signed_take_bit_eq_take_bit_shift take_bit_eq_mod)
  show ?thesis
  proof (cases "32768 \<le> z")
    case True
    then have "(z + 32768) mod 65536 = z - 32768"
      using z by (intro int_mod_pos_eq [where q = 1]) auto
    with True e z show ?thesis by (simp add: bit15_uint)
  next
    case False
    with z e show ?thesis by (simp add: bit15_uint mod_pos_pos_trivial)
  qed
qed

text \<open>The flags of \<open>x + y + c\<close> and \<open>x - y - c\<close> on 16 bits: H is the carry out of bit 11, Y and X
  come from the high byte of the result.\<close>

definition add16_flags :: "16 word \<Rightarrow> 16 word \<Rightarrow> bool \<Rightarrow> zflags" where
  "add16_flags x y c =
     (let r = x + y + of_bool c in
      \<lparr>S_flag = bit r 15, Z_flag = (r = 0), Y_flag = bit r 13,
       H_flag = (4096 \<le> uint x mod 4096 + uint y mod 4096 + of_bool c), X_flag = bit r 11,
       PV_flag = (sint x + sint y + of_bool c \<notin> {-32768..32767}), N_flag = False,
       C_flag = (65536 \<le> uint x + uint y + of_bool c)\<rparr>)"

definition sub16_flags :: "16 word \<Rightarrow> 16 word \<Rightarrow> bool \<Rightarrow> zflags" where
  "sub16_flags x y c =
     (let r = x - y - of_bool c in
      \<lparr>S_flag = bit r 15, Z_flag = (r = 0), Y_flag = bit r 13,
       H_flag = (uint x mod 4096 < uint y mod 4096 + of_bool c), X_flag = bit r 11,
       PV_flag = (sint x - sint y - of_bool c \<notin> {-32768..32767}), N_flag = True,
       C_flag = (uint x < uint y + of_bool c)\<rparr>)"

lemma carry12:
  fixes x y :: "16 word"
  assumes "c = 0 \<or> c = 1"
  shows "bit (uint x + uint y + c) 12 \<longleftrightarrow>
    (bit x 12 \<noteq> (bit y 12 \<noteq> (4096 \<le> uint x mod 4096 + uint y mod 4096 + c)))"
  using bit_int_sum [OF assms, of "uint x" "uint y" 12] by (simp add: bit_uint16)

lemma borrow12:
  fixes x y :: "16 word"
  assumes "c = 0 \<or> c = 1"
  shows "bit (uint x - uint y - c) 12 \<longleftrightarrow>
    (bit x 12 \<noteq> (bit y 12 \<noteq> (uint x mod 4096 < uint y mod 4096 + c)))"
proof -
  have e: "uint x + NOT (uint y) + (1 - c) = uint x - uint y - c" by (simp add: not_int_def)
  have "NOT (uint y) mod 4096 = 4095 - uint y mod 4096"
  proof (rule int_mod_pos_eq [where q = "- 1 - uint y div 4096"])
    show "NOT (uint y) = 4096 * (- 1 - uint y div 4096) + (4095 - uint y mod 4096)"
      by (simp add: not_int_def algebra_simps minus_mod_eq_mult_div [symmetric])
  qed simp_all
  then show ?thesis
    using bit_int_sum [of "1 - c" "uint x" "NOT (uint y)" 12] assms
    by (auto simp: e bit_uint16 bit_not_iff)
qed

lemma bit16_sum:
  assumes "0 \<le> (z :: int)" "z < 131072"
  shows "bit z 16 \<longleftrightarrow> 65536 \<le> z"
proof (cases "65536 \<le> z")
  case True
  then have "z div 65536 = 1" using assms by (intro int_div_pos_eq [where r = "z - 65536"]) auto
  with True show ?thesis by (simp add: bit_iff_odd)
next
  case False
  with assms show ?thesis by (simp add: bit_iff_odd div_pos_pos_trivial)
qed

lemma bit16_diff:
  assumes "-65536 \<le> (z :: int)" "z < 65536"
  shows "bit z 16 \<longleftrightarrow> z < 0"
proof (cases "z < 0")
  case True
  then have "z div 65536 = -1" using assms by (intro int_div_pos_eq [where r = "z + 65536"]) auto
  with True show ?thesis by (simp add: bit_iff_odd)
next
  case False
  with assms show ?thesis by (simp add: bit_iff_odd div_pos_pos_trivial)
qed

lemma overflow16_add:
  fixes x y :: "16 word" and c :: bool
  defines "r \<equiv> x + y + of_bool c"
  shows "(bit r 15 \<noteq> bit x 15 \<and> bit r 15 \<noteq> bit y 15) \<longleftrightarrow> sint x + sint y + of_bool c \<notin> {-32768..32767}"
proof -
  have b: "0 \<le> uint x" "uint x < 2 * 32768" "0 \<le> uint y" "uint y < 2 * 32768"
    using uint16_bound [of x] uint16_bound [of y] by auto
  have "uint r = (uint x + uint y + of_bool c) mod 65536"
    by (simp add: r_def uint_word_ariths mod_simps of_bool_def)
  also have "\<dots> = (if 65536 \<le> uint x + uint y + of_bool c then uint x + uint y + of_bool c - 65536
      else uint x + uint y + of_bool c)"
    using b by (cases c; simp only: of_bool_eq)
      (auto simp: mod_pos_pos_trivial intro!: int_mod_pos_eq [where q = 1])
  finally show ?thesis
    unfolding sint16 bit15_uint using overflow_range_add [OF b, of "of_bool c" "uint r"] by auto
qed

lemma diff16_range:
  fixes x y :: "16 word"
  shows "-65536 \<le> uint x - uint y - of_bool c" "uint x - uint y - of_bool c < 65536"
  using uint16_bound [of x] uint16_bound [of y] by (cases c; simp only: of_bool_eq; linarith)+

lemma mod_64k_neg:
  "- 65536 \<le> z \<Longrightarrow> z < 65536 \<Longrightarrow> (z :: int) mod 65536 = (if z < 0 then z + 65536 else z)"
  by (auto simp: mod_pos_pos_trivial intro!: int_mod_pos_eq [where q = "-1"])

lemma overflow16_sub:
  fixes x y :: "16 word" and c :: bool
  defines "r \<equiv> x - y - of_bool c"
  shows "(bit r 15 \<noteq> bit x 15 \<and> bit r 15 = bit y 15) \<longleftrightarrow> sint x - sint y - of_bool c \<notin> {-32768..32767}"
proof -
  have b: "0 \<le> uint x" "uint x < 2 * 32768" "0 \<le> uint y" "uint y < 2 * 32768"
    using uint16_bound [of x] uint16_bound [of y] by auto
  have "uint r = (uint x - uint y - of_bool c) mod 65536"
    by (simp add: r_def uint_word_ariths mod_simps of_bool_def)
  also have "\<dots> = (if uint x - uint y - of_bool c < 0 then uint x - uint y - of_bool c + 65536
      else uint x - uint y - of_bool c)"
    using diff16_range [where x = x and y = y and c = c] by (rule mod_64k_neg)
  finally show ?thesis
    unfolding sint16 bit15_uint using overflow_range_sub [OF b, of "of_bool c" "uint r"] by auto
qed

lemma add16_v:
  "uint (regs s b) + uint (regs s d) + shl (uint (regs s a) + uint (regs s c)) 8 =
     uint (pair a b s) + uint (pair c d s)"
  by (simp add: pair_def uint_pair16 push_bit_eq_mult)

lemma add16_group_flags:
  fixes x y :: "16 word"
  assumes "X = uint (hi8 x)" "Y = uint (hi8 y)"
  shows "flags_of (f_z80 (add16_group g (uint x + uint y) X Y)) =
    (flags_of (f_z80 g))\<lparr>H_flag := H_flag (add16_flags x y False), N_flag := False,
      C_flag := C_flag (add16_flags x y False), Y_flag := bit (x + y) 13, X_flag := bit (x + y) 11\<rparr>"
proof -
  obtain z where z: "z = uint x + uint y" by simp
  have z': "0 \<le> z" "z < 131072" using uint16_bound [of x] uint16_bound [of y] by (auto simp: z)
  have r: "bit (x + y) n \<longleftrightarrow> n < 16 \<and> bit z n" for n
  proof -
    have "u16 z = x + y" by (simp add: z)
    then show ?thesis by (metis bit_u16)
  qed
  let ?g = "add16_group g z X Y"
  have fld: "ff ?g = u16 ((uint (ff g) AND 128) OR (shr z 8 AND 296))"
    "fb ?g = u16 ((uint (fb g) AND 128) OR ((shr z 8 XOR X XOR Y XOR uint (fr g) XOR uint (fa g)) AND 16))"
    by (simp_all add: add16_group_def)
  have m296: "bit (296 :: int) n \<longleftrightarrow> n = 8 \<or> n = 5 \<or> n = 3" for n
  proof -
    have "(296 :: int) = 256 OR 32 OR 8" by simp
    then show ?thesis using bit_pow2 [of 8 n] by (simp only: bit_or_iff) (simp add: bit_masks)
  qed
  have F: "bit (ff ?g) n \<longleftrightarrow> n < 16 \<and> (bit (ff g) n \<and> n = 7 \<or> bit z (n + 8) \<and> (n = 8 \<or> n = 5 \<or> n = 3))" for n
    by (simp only: fld bit_u16 bit_or_iff bit_and_iff bit_uint16 bit_drop_bit_eq
        m296 bit_masks o_apply) (auto simp: add.commute)
  have hb: "bit X 4 = bit x 12" "bit Y 4 = bit y 12"
    by (simp_all only: assms bit_uint8 hi8_def bit_u8 bit_drop_bit_eq bit_uint16 o_apply) simp_all
  have B: "bit (fb ?g) n \<longleftrightarrow> n < 16 \<and> (bit (fb g) n \<and> n = 7 \<or>
      n = 4 \<and> (bit z 12 \<noteq> (bit x 12 \<noteq> (bit y 12 \<noteq> (bit (fr g) 4 \<noteq> bit (fa g) 4)))))" for n
  proof (cases "n = 4")
    case True
    then show ?thesis
      by (simp only: fld bit_u16 bit_or_iff bit_and_iff bit_xor_iff bit_uint16
          bit_drop_bit_eq bit_masks o_apply hb) auto
  next
    case False
    then show ?thesis
      by (simp only: fld bit_u16 bit_or_iff bit_and_iff bit_uint16 bit_masks) auto
  qed
  have same: "fr ?g = fr g" "fa ?g = fa g" by (simp_all add: add16_group_def)
  have pv: "bit (pv_bits ?g) 2 = bit (pv_bits g) 2"
  proof (cases "uint (fa g) AND -256 = 0")
    case True
    then show ?thesis by (simp add: bit_pv_overflow same B)
  next
    case False
    then show ?thesis by (simp add: pv_bits_def same)
  qed
  have "flags_of (f_z80 ?g) = (flags_of (f_z80 g))\<lparr>
      H_flag := bit z 12 \<noteq> (bit x 12 \<noteq> bit y 12), N_flag := False, C_flag := bit z 16,
      Y_flag := bit z 13, X_flag := bit z 11\<rparr>"
    by (simp only: flags_of_f_z80 same pv F B) auto
  then show ?thesis
    using carry12 [of 0 x y] bit16_sum [OF z']
    by (simp add: add16_flags_def Let_def r flip: z) (auto simp: z)
qed

text \<open>\<open>ADD HL,rr\<close> (and IX, IY) adds the pairs modulo 65536; H and C are the carries out of
  bits 11 and 15, N is cleared, bits 5 and 3 come from the high byte, and S, Z and P/V are kept.\<close>

lemma add_hl_correct:
  assumes "z80_flags s" "a \<noteq> b"
  shows "pair a b (ADDRRRR a b c d s) = pair a b s + pair c d s \<and>
    (\<forall>r. r \<noteq> a \<and> r \<noteq> b \<longrightarrow> regs (ADDRRRR a b c d s) r = regs s r) \<and>
    mem (ADDRRRR a b c d s) = mem s \<and>
    flags_of (f_flags (ADDRRRR a b c d s)) =
      (flags_of (f_flags s))\<lparr>H_flag := H_flag (add16_flags (pair a b s) (pair c d s) False), N_flag := False,
        C_flag := C_flag (add16_flags (pair a b s) (pair c d s) False),
        Y_flag := bit (pair a b s + pair c d s) 13, X_flag := bit (pair a b s + pair c d s) 11\<rparr>"
proof -
  let ?v = "uint (pair a b s) + uint (pair c d s)"
  have v: "pair16 (u8 (shr ?v 8)) (u8 ?v) = pair a b s + pair c d s"
    by (simp only: pair16_hi_lo) simp
  have e: "ADDRRRR a b c d s =
      s\<lparr>st := st s + ADDRRRR_TICKS s, regs := (regs s)(a := u8 (shr ?v 8), b := u8 ?v),
        fl := add16_group (fl s) ?v (uint (regs s a)) (uint (regs s c)),
        mp := u16 (uint (regs s b) + 1 + shl (uint (regs s a)) 8)\<rparr>"
    by (simp add: ADDRRRR_def Let_def ticks_def set_reg_def flip: add16_v)
  have fl: "f_flags (s\<lparr>st := n, regs := g, fl := h, mp := p\<rparr>) = f_z80 h" "f_flags s = f_z80 (fl s)" for n g h p
    using assms(1) by (simp_all add: f_flags_def z80_flags_def cpu_preds)
  have "flags_of (f_z80 (add16_group (fl s) ?v (uint (regs s a)) (uint (regs s c)))) =
      (flags_of (f_z80 (fl s)))\<lparr>H_flag := H_flag (add16_flags (pair a b s) (pair c d s) False), N_flag := False,
        C_flag := C_flag (add16_flags (pair a b s) (pair c d s) False),
        Y_flag := bit (pair a b s + pair c d s) 13, X_flag := bit (pair a b s + pair c d s) 11\<rparr>"
    by (rule add16_group_flags) (simp_all add: pair_def)
  moreover have "pair a b (ADDRRRR a b c d s) = pair a b s + pair c d s"
    using assms(2) v unfolding e by (simp add: pair_def [of a b "_ \<lparr>mp := _\<rparr>"])
  ultimately show ?thesis by (simp add: e fl)
qed

lemma f_flags_z80: "z80_flags s \<Longrightarrow> f_flags s = f_z80 (fl s)"
  by (simp add: f_flags_def z80_flags_def)

lemma z80_put_hl: "z80_flags (put_hl v B s) = z80_flags s"
  by (simp add: put_hl_def Let_def set_reg_def z80_flags_def cpu_preds)

lemma put_hl_flags:
  assumes s: "z80_flags s" and r: "r = u16 v"
  shows "pair rH rL (put_hl v B s) = r"
    and "flags_of (f_flags (put_hl v B s)) =
     \<lparr>S_flag = bit r 15, Z_flag = (r = 0), Y_flag = bit r 13,
      H_flag = (bit r 12 \<noteq> (bit (pair rH rL s) 12 \<noteq> (bit B 4 \<noteq> bit B 12))), X_flag = bit r 11,
      PV_flag = (bit r 15 \<noteq> bit (pair rH rL s) 15 \<and> bit r 15 \<noteq> bit B 7), N_flag = bit B 9,
      C_flag = bit v 16\<rparr>"
proof -
  define F where "F = u16 (shr v 8)"
  define h where "h = u8 (uint F)"
  define l where "l = u8 v"
  let ?g = "\<lparr>ff = F, fr = u16 (uint h OR shl (uint l) 8), fa = u16 (uint (regs s rH)), fb = B\<rparr>"
  have h: "h = u8 (shr v 8)" by (simp only: h_def F_def u8_uint_u16)
  then have hl: "pair16 h l = r" by (simp only: l_def pair16_hi_lo r)
  have reg: "regs (put_hl v B s) rH = h" "regs (put_hl v B s) rL = l"
    by (simp_all add: put_hl_def Let_def set_reg_def h_def l_def F_def)
  then show "pair rH rL (put_hl v B s) = r" by (simp only: pair_def hl)
  have fl: "fl (put_hl v B s) = ?g"
    by (simp add: put_hl_def Let_def set_reg_def h_def l_def F_def)
  have "f_flags (put_hl v B s) = f_z80 ?g"
    using f_flags_z80 [of "put_hl v B s"] s by (simp add: z80_put_hl fl)
  moreover have fr: "fr ?g = pair16 l h" by (simp only: flg.simps pair16_def)
  have rb: "bit r n \<longleftrightarrow> (if n < 8 then bit l n else bit h (n - 8))" for n
    by (simp only: bit_pair16 flip: hl)
  have hb: "bit h n \<longleftrightarrow> n < 8 \<and> bit v (n + 8)" for n by (simp add: h bit_u8 bit_drop_bit_eq add.commute)
  have z: "pair16 l h = 0 \<longleftrightarrow> r = 0"
    using pair16_eq_iff [of l h 0 0] pair16_eq_iff [of h l 0 0] hl by (auto simp: pair16_def)
  have pv: "bit (pv_bits ?g) 2 \<longleftrightarrow> bit h 7 \<noteq> bit (regs s rH) 7 \<and> bit h 7 \<noteq> bit B 7"
  proof -
    have "uint (fa ?g) AND -256 = 0" by (simp only: flg.simps low_byte_and)
    then show ?thesis by (simp only: bit_pv_overflow fr flg.simps(3,4) bit_u16_byte) (simp add: bit_pair16)
  qed
  have F: "bit F n \<longleftrightarrow> n < 16 \<and> bit v (n + 8)" for n
    by (simp add: F_def bit_u16 bit_drop_bit_eq add.commute)
  have "flags_of (f_z80 ?g) =
     \<lparr>S_flag = bit r 15, Z_flag = (r = 0), Y_flag = bit r 13,
      H_flag = (bit r 12 \<noteq> (bit (pair rH rL s) 12 \<noteq> (bit B 4 \<noteq> bit B 12))), X_flag = bit r 11,
      PV_flag = (bit r 15 \<noteq> bit (pair rH rL s) 15 \<and> bit r 15 \<noteq> bit B 7), N_flag = bit B 9,
      C_flag = bit v 16\<rparr>"
    by (simp only: flags_of_f_z80 pv fr z) (simp add: F rb hb pair_def bit_pair16 bit_u16_byte [simplified])
  ultimately show "flags_of (f_flags (put_hl v B s)) =
     \<lparr>S_flag = bit r 15, Z_flag = (r = 0), Y_flag = bit r 13,
      H_flag = (bit r 12 \<noteq> (bit (pair rH rL s) 12 \<noteq> (bit B 4 \<noteq> bit B 12))), X_flag = bit r 11,
      PV_flag = (bit r 15 \<noteq> bit (pair rH rL s) 15 \<and> bit r 15 \<noteq> bit B 7), N_flag = bit B 9,
      C_flag = bit v 16\<rparr>" by simp
qed

text \<open>C20: \<open>ADC HL,rr\<close> and \<open>SBC HL,rr\<close> compute the 16-bit sum and difference with carry and all
  eight flags of the 16-bit operation.\<close>

theorem adc_sbc_hl_correct:
  assumes "z80_flags s"
  defines "x \<equiv> pair rH rL s" and "c \<equiv> bit (ff (fl s)) 8"
  shows "pair rH rL (ADCHLRR (uint hi) (uint lo) s) = x + pair16 hi lo + of_bool c \<and>
    flags_of (f_flags (ADCHLRR (uint hi) (uint lo) s)) = add16_flags x (pair16 hi lo) c \<and>
    pair rH rL (SBCHLRR (uint hi) (uint lo) s) = x - pair16 hi lo - of_bool c \<and>
    flags_of (f_flags (SBCHLRR (uint hi) (uint lo) s)) = sub16_flags x (pair16 hi lo) c"
proof -
  let ?y = "pair16 hi lo" and ?s = "ticks (HL_TICKS s) s"
  have s: "z80_flags ?s" "pair rH rL ?s = x"
    using assms by (simp_all add: ticks_def pair_def)
  have cin: "shr (uint (ff (fl s))) 8 AND 1 = of_bool c"
    by (simp add: c_def and_one_eq flip: bit_uint16) (simp add: bit_iff_odd_drop_bit odd_iff_mod_2_eq_one)
  have hy: "bit (u16 (uint hi)) n = bit hi n" "bit (u16 (NOT (uint hi))) n \<longleftrightarrow> n < 16 \<and> \<not> bit hi n" for n
    by (simp_all only: bit_u16_byte bit_u16_not)
  have yb: "bit ?y 12 = bit hi 4" "bit ?y 15 = bit hi 7" by (simp_all add: bit_pair16)
  obtain v where v: "v = uint x + uint ?y + of_bool c" by simp
  obtain w where w: "w = uint x - uint ?y - of_bool c" by simp
  have rv: "x + ?y + of_bool c = u16 v" and rw: "x - ?y - of_bool c = u16 w" by (simp_all add: v w)
  have ev: "ADCHLRR (uint hi) (uint lo) s = put_hl v (u16 (uint hi)) ?s"
    unfolding v x_def pair_def uint_pair16 ADCHLRR_def Let_def
    by (simp add: ticks_def cin push_bit_eq_mult algebra_simps)
  have ew: "SBCHLRR (uint hi) (uint lo) s = put_hl w (u16 (NOT (uint hi))) ?s"
    unfolding w x_def pair_def uint_pair16 SBCHLRR_def Let_def
    by (simp add: ticks_def cin push_bit_eq_mult algebra_simps)
  have vb: "0 \<le> v" "v < 131072" using uint16_bound [of x] uint16_bound [of ?y]
    by (cases c; simp only: v of_bool_eq; linarith)+
  have wb: "-65536 \<le> w" "w < 65536" unfolding w by (rule diff16_range)+
  have r12: "bit (u16 z) 12 = bit z 12" for z by (simp only: bit_u16) simp
  have c01: "(of_bool c :: int) = 0 \<or> (of_bool c :: int) = 1" by simp
  have "(bit v 12 \<noteq> (bit x 12 \<noteq> bit hi 4)) \<longleftrightarrow> 4096 \<le> uint x mod 4096 + uint ?y mod 4096 + of_bool c"
    using carry12 [OF c01, of x ?y] by (simp only: yb flip: v) blast
  moreover have "(bit (u16 v) 15 \<noteq> bit x 15 \<and> bit (u16 v) 15 \<noteq> bit hi 7) \<longleftrightarrow>
      sint x + sint ?y + of_bool c \<notin> {-32768..32767}"
    using overflow16_add [of x ?y c] by (simp only: yb rv)
  moreover have "bit v 16 \<longleftrightarrow> 65536 \<le> uint x + uint ?y + of_bool c"
    using bit16_sum [OF vb] by (simp only: v)
  ultimately have "flags_of (f_flags (ADCHLRR (uint hi) (uint lo) s)) = add16_flags x ?y c"
    unfolding ev put_hl_flags(2) [OF s(1) refl] s(2) hy r12 add16_flags_def Let_def rv
    by (cases c) (simp_all add: bit8_high bit_uint8)
  moreover have "(bit w 12 \<noteq> (bit x 12 \<noteq> bit hi 4)) \<longleftrightarrow> uint x mod 4096 < uint ?y mod 4096 + of_bool c"
    using borrow12 [OF c01, of x ?y] by (simp only: yb flip: w) blast
  then have "flags_of (f_flags (SBCHLRR (uint hi) (uint lo) s)) = sub16_flags x ?y c"
    using overflow16_sub [of x ?y c, unfolded yb rw] bit16_diff [OF wb]
    unfolding ew put_hl_flags(2) [OF s(1) refl] s(2) hy r12 sub16_flags_def Let_def rw
    by (cases c) (auto simp: bit8_high bit_uint8 bit_not_iff w)
  moreover have "pair rH rL (put_hl v (u16 (uint hi)) ?s) = x + ?y + of_bool c"
    "pair rH rL (put_hl w (u16 (NOT (uint hi))) ?s) = x - ?y - of_bool c"
    by (rule put_hl_flags(1) [OF s(1) rv], rule put_hl_flags(1) [OF s(1) rw])
  ultimately show ?thesis by (simp only: ev ew simp_thms)
qed

theorem adc_sbc_hl_correct_witness:
  "let s = (power_on CPU_Z80 Standard)\<lparr>regs := (\<lambda>_. 0)\<rparr> in
   pair rH rL (SBCHLRR (uint (0x00 :: 8 word)) (uint (0x01 :: 8 word)) s) = 0xffff \<and>
   C_flag (flags_of (f_flags (SBCHLRR (uint (0x00 :: 8 word)) (uint (0x01 :: 8 word)) s)))"
proof -
  let ?s = "(power_on CPU_Z80 Standard)\<lparr>regs := (\<lambda>_. 0)\<rparr>"
  have "z80_flags ?s" by (simp add: z80_flags_def power_on_def cpu_preds cpu_codes)
  moreover have "pair rH rL ?s = 0" "pair16 0 1 = 1" "\<not> bit (ff (fl ?s)) 8"
    by (simp_all add: pair_def word_uint_eq_iff uint_pair16 power_on_def)
  ultimately show ?thesis
    using adc_sbc_hl_correct [of ?s 0 1] by (simp add: Let_def sub16_flags_def)
qed

end
