(* ===== verification/Ticks_Control.thy ===== *)
theory Ticks_Control
  imports Ticks_Load
begin

text \<open>
  The control-flow and stack macros of \<open>src/src/ticks/ticks.c\<close>: relative and absolute jumps,
  calls and returns with their conditions, \<open>PUSH POP RST EXSPI\<close>. A condition is the truth value
  of the macro argument. The stack discipline is proved from the \<open>flat_bus\<close> contract.
\<close>

section \<open>Jumps\<close>

text \<open>\<open>pc += (get_memory_inst(pc)^128)-127\<close>.\<close>

definition rel_jump :: "cpu \<Rightarrow> cpu" where
  "rel_jump s = s\<lparr>pc := u16 (uint (pc s) + (uint (get_memory_inst (uint (pc s)) s) XOR 128) - 127)\<rparr>"

definition JR_taken_TICKS :: "cpu \<Rightarrow> int" where
  "JR_taken_TICKS s = (if isez80 s then 3 else if israbbit4k s then 6 else if israbbit s then 5
     else if isgbz80 s then 8 else if isz180 s then 8 else if isr800 s then 3
     else if iskc160 s then 3 else 12)"

definition JR_not_taken_TICKS :: "cpu \<Rightarrow> int" where
  "JR_not_taken_TICKS s = (if isez80 s then 2 else if israbbit4k s then 6 else if israbbit s then 5
     else if isgbz80 s then 8 else if isz180 s then 6 else if isr800 s then 2
     else if iskc160 s then 2 else 7)"

definition JRCI :: "bool \<Rightarrow> cpu \<Rightarrow> cpu" where
  "JRCI c s =
     (if c then rel_jump (ticks (JR_taken_TICKS s) s)
      else (ticks (JR_not_taken_TICKS s) s)\<lparr>pc := pc s + 1\<rparr>)"

definition JRC :: "bool \<Rightarrow> cpu \<Rightarrow> cpu" where
  "JRC c s =
     (if c then (ticks (JR_not_taken_TICKS s) s)\<lparr>pc := pc s + 1\<rparr>
      else rel_jump (ticks (JR_taken_TICKS s) s))"

text \<open>\<open>get_memory_inst(pc) | get_memory_inst(pc+1)<<8\<close>; the second address is not reduced to
  16 bits.\<close>

definition inst16 :: "cpu \<Rightarrow> 16 word" where
  "inst16 s = u16 (uint (get_memory_inst (uint (pc s)) s) OR
     shl (uint (get_memory_inst (uint (pc s) + 1) s)) 8)"

definition no_io :: "cpu \<Rightarrow> cpu" where
  "no_io s = s\<lparr>ioi := False, ioe := False\<rparr>"

definition JPC_TICKS :: "cpu \<Rightarrow> int" where
  "JPC_TICKS s = (if isez80 s then 3 else if israbbit s then 7 else if isz180 s then 6
     else if is8085 s then 7 else if isgbz80 s then 12 else if isr800 s then 3
     else if iskc160 s then 2 else 10)"

definition JPC_taken_TICKS :: "cpu \<Rightarrow> int" where
  "JPC_taken_TICKS s = (if isez80 s then 1 else if isz180 s then 3 else if is8085 s then 3
     else if isr800 s then 2 else if iskc160 s then 1 else 0)"

definition JPCI :: "bool \<Rightarrow> cpu \<Rightarrow> cpu" where
  "JPCI c s =
     (let s = ticks (JPC_TICKS s) (no_io s) in
      if c then (let s = ticks (JPC_taken_TICKS s) s in s\<lparr>pc := inst16 s\<rparr>)
      else s\<lparr>pc := pc s + 2\<rparr>)"

definition JPC :: "bool \<Rightarrow> cpu \<Rightarrow> cpu" where
  "JPC c s =
     (let s = ticks (JPC_TICKS s) (no_io s) in
      if c then s\<lparr>pc := pc s + 2\<rparr>
      else (let s = ticks (JPC_taken_TICKS s) s in s\<lparr>pc := inst16 s\<rparr>))"

section \<open>The stack\<close>

text \<open>\<open>put_memory(--sp, v)\<close> and \<open>get_memory_data(sp++)\<close>.\<close>

definition push8 :: "8 word \<Rightarrow> cpu \<Rightarrow> cpu" where
  "push8 v s = (let s = s\<lparr>sp := sp s - 1\<rparr> in put_mem (sp s) v s)"

definition pop8 :: "cpu \<Rightarrow> 8 word \<times> cpu" where
  "pop8 s = (get_memory_data (uint (sp s)) s, s\<lparr>sp := sp s + 1\<rparr>)"

definition PUSH_TICKS :: "cpu \<Rightarrow> int" where
  "PUSH_TICKS s = (if isez80 s then 3 else if israbbit s then 10 else if is8085 s then 12 else if isgbz80 s then 16 else if isr800 s then 4 else if iskc160 s then 3 else 11)"

definition PUSH :: "8 word \<Rightarrow> 8 word \<Rightarrow> 8 word \<Rightarrow> 8 word \<Rightarrow> cpu \<Rightarrow> cpu" where
  "PUSH a b a' b' s =
     (let s = no_io s;
          s = ticks (PUSH_TICKS s) s
      in if alts s then push8 b' (push8 a' s) else push8 b (push8 a s))"

definition POP_TICKS :: "cpu \<Rightarrow> int" where
  "POP_TICKS s = (if isez80 s then 3 else if israbbit s then 7 else if isz180 s then 9 else if isgbz80 s then 12 else if isr800 s then 3 else if iskc160 s then 2 else 10)"

definition POP :: "reg \<Rightarrow> reg \<Rightarrow> reg \<Rightarrow> reg \<Rightarrow> cpu \<Rightarrow> cpu" where
  "POP a b a' b' s =
     (let s = no_io s;
          s = ticks (POP_TICKS s) s;
          (x, s) = pop8 s;
          s = set_reg (dst_r b b' s) x s;
          (y, s) = pop8 s
      in set_reg (dst_r a a' s) y s)"

text \<open>\<open>mp = lo; pc = mp |= hi<<8\<close> from two pops.\<close>

definition pop_pc :: "cpu \<Rightarrow> cpu" where
  "pop_pc s =
     (let (x, s) = pop8 s;
          (y, s) = pop8 s;
          m = u16 (uint x OR shl (uint y) 8)
      in s\<lparr>mp := m, pc := m\<rparr>)"

definition RET :: "int \<Rightarrow> cpu \<Rightarrow> cpu" where
  "RET n s = pop_pc (ticks n (no_io s))"

definition RET_not_taken_TICKS :: "cpu \<Rightarrow> int" where
  "RET_not_taken_TICKS s = (if isez80 s then 2 else if israbbit s then 2
     else if is8080 s \<or> isvm1 s then 5 else if is8085 s then 6 else if isgbz80 s then 8
     else if isr800 s then 1 else if iskc160 s then 2 else 5)"

definition RET_taken_TICKS :: "cpu \<Rightarrow> int" where
  "RET_taken_TICKS s = (if isez80 s then 6 else if israbbit s then 8
     else if is8080 s \<or> isvm1 s then 11 else if is8085 s then 12 else if isgbz80 s then 8
     else if isz180 s then 10 else if isr800 s then 3 else if iskc160 s then 5 else 11)"

definition RETC :: "bool \<Rightarrow> cpu \<Rightarrow> cpu" where
  "RETC c s =
     (let s = no_io s in
      if c then ticks (RET_not_taken_TICKS s) s else pop_pc (ticks (RET_taken_TICKS s) s))"

definition RETCI :: "bool \<Rightarrow> cpu \<Rightarrow> cpu" where
  "RETCI c s =
     (let s = no_io s in
      if c then pop_pc (ticks (RET_taken_TICKS s) s) else ticks (RET_not_taken_TICKS s) s)"

text \<open>\<open>t = pc+2; mp = pc = nn; put_memory(--sp,t>>8); put_memory(--sp,t)\<close>.\<close>

definition call_nn :: "cpu \<Rightarrow> cpu" where
  "call_nn s =
     (let t = pc s + 2;
          s = s\<lparr>tt := t\<rparr>;
          m = inst16 s;
          s = s\<lparr>pc := m, mp := m\<rparr>
      in push8 (lo8 t) (push8 (hi8 t) s))"

definition CALL_taken_TICKS :: "cpu \<Rightarrow> int" where
  "CALL_taken_TICKS s = (if isez80 s then 6 else if isz180 s then 16 else if is8085 s then 18
     else if isgbz80 s then 12 else if isr800 s then 5 else if iskc160 s then 6 else 17)"

definition CALL_not_taken_TICKS :: "cpu \<Rightarrow> int" where
  "CALL_not_taken_TICKS s = (if isez80 s then 3 else if isz180 s then 6 else if is8085 s then 9
     else if is8080 s \<or> isvm1 s then 11 else if isgbz80 s then 12 else if isr800 s then 3
     else if iskc160 s then 3 else 10)"

definition CALLC :: "bool \<Rightarrow> cpu \<Rightarrow> cpu" where
  "CALLC c s =
     (let s = no_io s in
      if c then (ticks (CALL_not_taken_TICKS s) s)\<lparr>pc := pc s + 2\<rparr>
      else call_nn (ticks (CALL_taken_TICKS s) s))"

definition CALLCI :: "bool \<Rightarrow> cpu \<Rightarrow> cpu" where
  "CALLCI c s =
     (let s = no_io s in
      if c then call_nn (ticks (CALL_taken_TICKS s) s)
      else (ticks (CALL_not_taken_TICKS s) s)\<lparr>pc := pc s + 2\<rparr>)"

definition RST_TICKS :: "cpu \<Rightarrow> int" where
  "RST_TICKS s = (if isez80 s then 5 else if israbbit s then 8 else if is8085 s then 12 else if isgbz80 s then 16 else if iskc160 s then 7 else 11)"

definition RST :: "int \<Rightarrow> cpu \<Rightarrow> cpu" where
  "RST n s =
     (let s = no_io s;
          s = ticks (RST_TICKS s) s;
          s = push8 (hi8 (pc s)) s;
          s = push8 (lo8 (pc s)) s
      in s\<lparr>pc := u16 n, mp := u16 n\<rparr>)"

definition EXSPI_TICKS :: "cpu \<Rightarrow> int" where
  "EXSPI_TICKS s = (if isez80 s then 5 else if israbbit s then 13 else if isz180 s then 16 else if is8080 s \<or> isvm1 s then 18 else if is8085 s then 16 else if isr800 s then 4 else if iskc160 s then 5 else 19)"

definition EXSPI :: "reg \<Rightarrow> reg \<Rightarrow> cpu \<Rightarrow> cpu" where
  "EXSPI a b s =
     (let s = no_io s;
          s = ticks (EXSPI_TICKS s) s;
          t = get_memory_data (uint (sp s)) s;
          s = put_mem (sp s) (regs s b) s;
          s = set_reg b t (s\<lparr>sp := sp s + 1\<rparr>);
          t = get_memory_data (uint (sp s)) s;
          s = put_mem (sp s) (regs s a) s;
          s = set_reg a t (s\<lparr>sp := sp s - 1, tt := u16 (uint t)\<rparr>)
      in s\<lparr>mp := u16 (rp a b s)\<rparr>)"

section \<open>Memory does not depend on the registers\<close>

lemma get_memory_addr_upd [simp]:
  "get_memory_addr a ty (s\<lparr>regs := x0\<rparr>) = get_memory_addr a ty s" "get_memory_addr a ty (s\<lparr>fl := x1\<rparr>) = get_memory_addr a ty s"
  "get_memory_addr a ty (s\<lparr>fl' := x2\<rparr>) = get_memory_addr a ty s" "get_memory_addr a ty (s\<lparr>fk := x3\<rparr>) = get_memory_addr a ty s"
  "get_memory_addr a ty (s\<lparr>pc := x4\<rparr>) = get_memory_addr a ty s" "get_memory_addr a ty (s\<lparr>sp := x5\<rparr>) = get_memory_addr a ty s"
  "get_memory_addr a ty (s\<lparr>mp := x6\<rparr>) = get_memory_addr a ty s" "get_memory_addr a ty (s\<lparr>tt := x7\<rparr>) = get_memory_addr a ty s"
  "get_memory_addr a ty (s\<lparr>uu := x8\<rparr>) = get_memory_addr a ty s" "get_memory_addr a ty (s\<lparr>st := x9\<rparr>) = get_memory_addr a ty s"
  "get_memory_addr a ty (s\<lparr>iy := x10\<rparr>) = get_memory_addr a ty s" "get_memory_addr a ty (s\<lparr>ih := x11\<rparr>) = get_memory_addr a ty s"
  "get_memory_addr a ty (s\<lparr>altd := x12\<rparr>) = get_memory_addr a ty s" "get_memory_addr a ty (s\<lparr>alts := x13\<rparr>) = get_memory_addr a ty s"
  "get_memory_addr a ty (s\<lparr>iff := x14\<rparr>) = get_memory_addr a ty s" "get_memory_addr a ty (s\<lparr>halted := x15\<rparr>) = get_memory_addr a ty s"
  "get_memory_addr a ty (s\<lparr>im := x16\<rparr>) = get_memory_addr a ty s"
  by (intro get_memory_addr_cong [where x = "store (mem s)"]; simp)+

lemma get_memory_upd [simp]:
  "get_memory a ty (s\<lparr>regs := x0\<rparr>) = get_memory a ty s" "get_memory a ty (s\<lparr>fl := x1\<rparr>) = get_memory a ty s"
  "get_memory a ty (s\<lparr>fl' := x2\<rparr>) = get_memory a ty s" "get_memory a ty (s\<lparr>fk := x3\<rparr>) = get_memory a ty s"
  "get_memory a ty (s\<lparr>pc := x4\<rparr>) = get_memory a ty s" "get_memory a ty (s\<lparr>sp := x5\<rparr>) = get_memory a ty s"
  "get_memory a ty (s\<lparr>mp := x6\<rparr>) = get_memory a ty s" "get_memory a ty (s\<lparr>tt := x7\<rparr>) = get_memory a ty s"
  "get_memory a ty (s\<lparr>uu := x8\<rparr>) = get_memory a ty s" "get_memory a ty (s\<lparr>st := x9\<rparr>) = get_memory a ty s"
  "get_memory a ty (s\<lparr>iy := x10\<rparr>) = get_memory a ty s" "get_memory a ty (s\<lparr>ih := x11\<rparr>) = get_memory a ty s"
  "get_memory a ty (s\<lparr>altd := x12\<rparr>) = get_memory a ty s" "get_memory a ty (s\<lparr>alts := x13\<rparr>) = get_memory a ty s"
  "get_memory a ty (s\<lparr>iff := x14\<rparr>) = get_memory a ty s" "get_memory a ty (s\<lparr>halted := x15\<rparr>) = get_memory a ty s"
  "get_memory a ty (s\<lparr>im := x16\<rparr>) = get_memory a ty s"
  by (simp_all add: get_memory_def load_def split: option.split prod.split)

lemma put_mem_upd [simp]:
  "put_mem a v (s\<lparr>regs := x0\<rparr>) = (put_mem a v s)\<lparr>regs := x0\<rparr>"
  "put_mem a v (s\<lparr>fl := x1\<rparr>) = (put_mem a v s)\<lparr>fl := x1\<rparr>"
  "put_mem a v (s\<lparr>fl' := x2\<rparr>) = (put_mem a v s)\<lparr>fl' := x2\<rparr>"
  "put_mem a v (s\<lparr>fk := x3\<rparr>) = (put_mem a v s)\<lparr>fk := x3\<rparr>"
  "put_mem a v (s\<lparr>pc := x4\<rparr>) = (put_mem a v s)\<lparr>pc := x4\<rparr>"
  "put_mem a v (s\<lparr>sp := x5\<rparr>) = (put_mem a v s)\<lparr>sp := x5\<rparr>"
  "put_mem a v (s\<lparr>mp := x6\<rparr>) = (put_mem a v s)\<lparr>mp := x6\<rparr>"
  "put_mem a v (s\<lparr>tt := x7\<rparr>) = (put_mem a v s)\<lparr>tt := x7\<rparr>"
  "put_mem a v (s\<lparr>uu := x8\<rparr>) = (put_mem a v s)\<lparr>uu := x8\<rparr>"
  "put_mem a v (s\<lparr>st := x9\<rparr>) = (put_mem a v s)\<lparr>st := x9\<rparr>"
  "put_mem a v (s\<lparr>iy := x10\<rparr>) = (put_mem a v s)\<lparr>iy := x10\<rparr>"
  "put_mem a v (s\<lparr>ih := x11\<rparr>) = (put_mem a v s)\<lparr>ih := x11\<rparr>"
  "put_mem a v (s\<lparr>altd := x12\<rparr>) = (put_mem a v s)\<lparr>altd := x12\<rparr>"
  "put_mem a v (s\<lparr>alts := x13\<rparr>) = (put_mem a v s)\<lparr>alts := x13\<rparr>"
  "put_mem a v (s\<lparr>iff := x14\<rparr>) = (put_mem a v s)\<lparr>iff := x14\<rparr>"
  "put_mem a v (s\<lparr>halted := x15\<rparr>) = (put_mem a v s)\<lparr>halted := x15\<rparr>"
  "put_mem a v (s\<lparr>im := x16\<rparr>) = (put_mem a v s)\<lparr>im := x16\<rparr>"
 
  by (simp_all add: put_mem_def put_memory_def Let_def store_at_def split: option.splits)

lemma flat_ram_upd [simp]:
  "flat_ram (s\<lparr>regs := x0\<rparr>) = flat_ram s" "flat_ram (s\<lparr>fl := x1\<rparr>) = flat_ram s"
  "flat_ram (s\<lparr>fl' := x2\<rparr>) = flat_ram s" "flat_ram (s\<lparr>fk := x3\<rparr>) = flat_ram s"
  "flat_ram (s\<lparr>pc := x4\<rparr>) = flat_ram s" "flat_ram (s\<lparr>sp := x5\<rparr>) = flat_ram s"
  "flat_ram (s\<lparr>mp := x6\<rparr>) = flat_ram s" "flat_ram (s\<lparr>tt := x7\<rparr>) = flat_ram s"
  "flat_ram (s\<lparr>uu := x8\<rparr>) = flat_ram s" "flat_ram (s\<lparr>st := x9\<rparr>) = flat_ram s"
  "flat_ram (s\<lparr>iy := x10\<rparr>) = flat_ram s" "flat_ram (s\<lparr>ih := x11\<rparr>) = flat_ram s"
  "flat_ram (s\<lparr>altd := x12\<rparr>) = flat_ram s" "flat_ram (s\<lparr>alts := x13\<rparr>) = flat_ram s"
  "flat_ram (s\<lparr>iff := x14\<rparr>) = flat_ram s" "flat_ram (s\<lparr>halted := x15\<rparr>) = flat_ram s"
  "flat_ram (s\<lparr>im := x16\<rparr>) = flat_ram s"
  by (simp_all add: flat_ram_def)

lemma no_io_flat [simp]: "flat_ram (no_io s) = flat_ram s"
  by (simp add: no_io_def flat_ram_def)

lemma no_io_frame [simp]:
  "sp (no_io s) = sp s" "pc (no_io s) = pc s" "regs (no_io s) = regs s" "fl (no_io s) = fl s"
  "fl' (no_io s) = fl' s" "altd (no_io s) = altd s" "alts (no_io s) = alts s" "c_cpu (no_io s) = c_cpu s"
  "mem (no_io s) = mem s" "\<not> ioi (no_io s)" "\<not> ioe (no_io s)"
  by (simp_all add: no_io_def)

lemma no_io_id: "\<not> ioi s \<Longrightarrow> \<not> ioe s \<Longrightarrow> no_io s = s"
  by (simp add: no_io_def)

section \<open>Stack discipline\<close>

lemma ticks_push8: "ticks n (push8 v s) = push8 v (ticks n s)"
  by (simp add: ticks_def push8_def Let_def)

text \<open>Two pushes as two writes below the stack pointer.\<close>

lemma push8_push8:
  "push8 lo (push8 hi s) = (put_mem (sp s - 2) lo (put_mem (sp s - 1) hi s))\<lparr>sp := sp s - 2\<rparr>"
  by (simp add: push8_def Let_def)

lemma pushed_word:
  assumes "flat_ram s"
  shows "get_memory_data (uint (sp s - 2)) (put_mem (sp s - 2) lo (put_mem (sp s - 1) hi s)) = lo"
    and "get_memory_data (uint (sp s - 1)) (put_mem (sp s - 2) lo (put_mem (sp s - 1) hi s)) = hi"
    and "x \<noteq> sp s - 1 \<Longrightarrow> x \<noteq> sp s - 2 \<Longrightarrow>
      get_memory_data (uint x) (put_mem (sp s - 2) lo (put_mem (sp s - 1) hi s)) = get_memory_data (uint x) s"
  using assms by (auto simp: flat.rd_wr_flat)

lemma pop_pc_pushed:
  assumes "flat_ram s"
  shows "pop_pc (push8 (lo8 t) (push8 (hi8 t) s)) =
    (put_mem (sp s - 2) (lo8 t) (put_mem (sp s - 1) (hi8 t) s))\<lparr>sp := sp s, pc := t, mp := t\<rparr>"
proof -
  have "u16 (uint (lo8 t) OR shl (uint (hi8 t)) 8) = t"
    using pair16_hi8_lo8 [of t] by (simp only: pair16_def)
  then show ?thesis
    using pushed_word(1,2) [OF assms, where lo = "lo8 t" and hi = "hi8 t"]
    by (simp add: pop_pc_def pop8_def Let_def push8_push8)
qed

text \<open>A word pushed and popped lands in the popped pair; the stack pointer is back and no other
  byte of memory has changed.\<close>

lemma push_pop_roundtrip:
  assumes "flat_ram s" "\<not> altd s" "\<not> alts s" "a \<noteq> b"
  shows "let s1 = PUSH hi lo hi' lo' s; s2 = POP a b a' b' s1 in
    pair a b s2 = pair16 hi lo \<and> sp s1 = sp s - 2 \<and> sp s2 = sp s \<and>
    (\<forall>r. r \<noteq> a \<and> r \<noteq> b \<longrightarrow> regs s2 r = regs s r) \<and> fl s2 = fl s \<and> pc s2 = pc s \<and>
    (\<forall>x. x \<noteq> sp s - 1 \<and> x \<noteq> sp s - 2 \<longrightarrow> get_memory_data (uint x) s2 = get_memory_data (uint x) (no_io s))"
proof -
  define s0 where "s0 = ticks (PUSH_TICKS (no_io s)) (no_io s)"
  have s0: "flat_ram s0" "sp s0 = sp s" "\<not> alts s0" "\<not> altd s0" "regs s0 = regs s" "fl s0 = fl s" "pc s0 = pc s"
      "get_memory_data x s0 = get_memory_data x (no_io s)" "\<not> ioi s0" "\<not> ioe s0" for x
    using assms by (simp_all add: s0_def ticks_def)
  let ?m = "put_mem (sp s0 - 2) lo (put_mem (sp s0 - 1) hi s0)"
  have s1: "PUSH hi lo hi' lo' s = ?m\<lparr>sp := sp s0 - 2\<rparr>"
    using s0(3) by (simp add: PUSH_def Let_def push8_push8 flip: s0_def)
  note w = pushed_word [OF s0(1), where lo = lo and hi = hi]
  show ?thesis
    using assms(4) s0 w
    by (simp add: s1 Let_def POP_def pop8_def no_io_id ticks_def set_reg_def dst_r_def pair_def)
qed


text \<open>\<open>EX (SP),HL\<close> swaps the pair with the word on the stack, and doing it twice restores both.\<close>

lemma ex_sp_swap:
  assumes "flat_ram s" "a \<noteq> b"
  shows "let s1 = EXSPI a b s; s2 = EXSPI a b s1 in
    pair a b s1 = rd16 rd_data (sp s) (no_io s) \<and> rd16 rd_data (sp s) s1 = pair a b s \<and> sp s1 = sp s \<and>
    pair a b s2 = pair a b s \<and> rd16 rd_data (sp s) s2 = rd16 rd_data (sp s) (no_io s)"
proof -
  have fl: "flat_ram (no_io s)" using assms by simp
  have e: "EXSPI a b s' = (put_mem (sp s' + 1) (regs s' a) (put_mem (sp s') (regs s' b) (no_io s')))
      \<lparr>regs := (regs s')(b := get_memory_data (uint (sp s')) (no_io s'),
                 a := get_memory_data (uint (sp s' + 1)) (no_io s')),
       st := st (EXSPI a b s'), tt := tt (EXSPI a b s'), mp := mp (EXSPI a b s')\<rparr>"
    if "flat_ram s'" for s'
    using assms(2) that
    by (simp add: EXSPI_def Let_def ticks_def set_reg_def flat.rd_wr_flat)
  have M: "get_memory_data (uint (sp s')) (EXSPI a b s') = regs s' b"
      "get_memory_data (uint (sp s' + 1)) (EXSPI a b s') = regs s' a"
      "regs (EXSPI a b s') b = get_memory_data (uint (sp s')) (no_io s')"
      "regs (EXSPI a b s') a = get_memory_data (uint (sp s' + 1)) (no_io s')"
      "sp (EXSPI a b s') = sp s'" "no_io (EXSPI a b s') = EXSPI a b s'" "flat_ram (EXSPI a b s')"
    if "flat_ram s'" for s'
  proof -
    note f = that
    obtain n t m where E: "EXSPI a b s' = (put_mem (sp s' + 1) (regs s' a) (put_mem (sp s') (regs s' b) (no_io s')))
      \<lparr>regs := (regs s')(b := get_memory_data (uint (sp s')) (no_io s'),
                 a := get_memory_data (uint (sp s' + 1)) (no_io s')),
       st := n, tt := t, mp := m\<rparr>"
      using e [OF f] by blast
    show "get_memory_data (uint (sp s')) (EXSPI a b s') = regs s' b"
      "get_memory_data (uint (sp s' + 1)) (EXSPI a b s') = regs s' a"
      "regs (EXSPI a b s') b = get_memory_data (uint (sp s')) (no_io s')"
      "regs (EXSPI a b s') a = get_memory_data (uint (sp s' + 1)) (no_io s')"
      "sp (EXSPI a b s') = sp s'" "no_io (EXSPI a b s') = EXSPI a b s'" "flat_ram (EXSPI a b s')"
      unfolding E using assms(2) f by (simp_all add: flat.rd_wr_flat no_io_id)
  qed
  note m = M [OF assms(1)]
  show ?thesis
    using M [OF m(7)] m by (simp add: Let_def pair_def rd16_def)
qed

lemma power_on_flat: "flat_ram (power_on c Standard)"
  by (simp add: flat_ram_def power_on_def mem_wf_def memory_reset_state_def all_less4)


section \<open>A machine with a given memory image\<close>

definition boot :: "16 word \<Rightarrow> (nat \<Rightarrow> 8 word) \<Rightarrow> cpu" where
  "boot code img = (power_on code Standard)
     \<lparr>mem := (memory_reset_state Standard False)\<lparr>store := (\<lambda>arr i. if arr = Mem then img i else 0)\<rparr>\<rparr>"

lemma boot_flat [simp]: "flat_ram (boot c img)"
  by (simp add: flat_ram_def boot_def power_on_def mem_wf_def memory_reset_state_def all_less4)

lemma boot_mem [simp]: "0 \<le> a \<Longrightarrow> a < 65536 \<Longrightarrow> get_memory a ty (boot c img) = img (nat a)"
  by (simp add: get_memory_def get_memory_addr_def boot_def memory_reset_state_def
      standard_get_memory_addr_def Let_def load_def at_def array_size_def and_mask16 nat_less_iff)

lemma boot_fields [simp]:
  "c_cpu (boot c img) = c" "ih (boot c img)" "\<not> iy (boot c img)" "\<not> altd (boot c img)" "\<not> alts (boot c img)"
  "pc (boot c img) = 0" "sp (boot c img) = 0" "regs (boot c img) = (\<lambda>_. 0)" "c_z80asm_tests (boot c img) = False"
  "fl (boot c img) = \<lparr>ff = 0, fr = 0, fa = 0, fb = 0\<rparr>" "fk (boot c img) = 0"
  by (simp_all add: boot_def power_on_def)

end
