(* ===== verification/Ticks_Cb.thy ===== *)
theory Ticks_Cb
  imports Ticks_Control
begin

text \<open>
  \<open>handle_cb_page\<close> of \<open>src/src/ticks/ticks.c\<close>, the rotate, shift and bit page. The source spells
  out all 512 cases; they are regular in the opcode's fields: bits 7 and 6 select the group, bits
  5 to 3 the operation or bit number, bits 2 to 0 the register (6 is memory). The few
  irregular cases (\<open>SLL\<close>, \<open>SWAP\<close>, the tick corrections) are kept as they are.
\<close>

section \<open>Fields\<close>

definition cb_reg :: "nat \<Rightarrow> reg" where
  "cb_reg z = [rB, rC, rD, rE, rH, rL, rA, rA] ! (z mod 8)"

definition cb_reg' :: "nat \<Rightarrow> reg" where
  "cb_reg' z = [rB', rC', rD', rE', rH', rL', rA', rA'] ! (z mod 8)"

definition cb_shift :: "nat \<Rightarrow> lval \<Rightarrow> lval \<Rightarrow> cpu \<Rightarrow> cpu" where
  "cb_shift y = [RLC, RRC, RL, RR, SLA, SRA, \<lambda>r r'. SLL r, SRL] ! (y mod 8)"

section \<open>The unprefixed page\<close>

text \<open>The memory forms: \<open>t = l|h<<8; u = get_memory_data(t); OP(u,u); put_memory(t, u)\<close>.\<close>

definition cb_mem :: "(cpu \<Rightarrow> cpu) \<Rightarrow> cpu \<Rightarrow> cpu" where
  "cb_mem f s =
     (let t = u16 (rp rH rL s);
          s = s\<lparr>tt := t\<rparr>;
          s = s\<lparr>uu := u16 (uint (get_memory_data (uint t) s))\<rparr>;
          s = f s
      in put_mem (tt s) (u8 (uint (uu s))) s)"

definition cb_hl_TICKS :: "cpu \<Rightarrow> int" where
  "cb_hl_TICKS s = (if israbbit s then 6 else if isgbz80 s then 8 else if isz180 s then 6 else 7)"

definition cb_rot :: "nat \<Rightarrow> cpu \<Rightarrow> cpu" where
  "cb_rot opc s =
     (let y = opc div 8; z = opc mod 8; r = LReg (cb_reg z); r' = LReg (cb_reg' z) in
      if y = 6 then
        (if z = 6 then
           (if isgbz80 s then cb_mem (SWAP LU) (ticks 8 s)
            else if cansll s then cb_mem (SLL LU) (ticks 7 s)
            else s)
         else if isgbz80 s then SWAP r s
         else SLL r s)
      else if z = 6 then cb_mem (cb_shift y LU LU) (ticks (cb_hl_TICKS s) s)
      else cb_shift y r r' s)"

definition cb_bit :: "nat \<Rightarrow> cpu \<Rightarrow> cpu" where
  "cb_bit opc s =
     (let n = 2 ^ (opc div 8 mod 8); z = opc mod 8 in
      if z = 6 then BITHL n s else BIT n (cb_reg z) (cb_reg' z) s)"

definition cb_res :: "nat \<Rightarrow> cpu \<Rightarrow> cpu" where
  "cb_res opc s =
     (let n = 255 - 2 ^ (opc div 8 mod 8); z = opc mod 8 in
      if z = 6 then RESHL n s else RES n (LReg (cb_reg z)) (LReg (cb_reg' z)) s)"

definition cb_set :: "nat \<Rightarrow> cpu \<Rightarrow> cpu" where
  "cb_set opc s =
     (let n = 2 ^ (opc div 8 mod 8); z = opc mod 8 in
      if z = 6 then SETHL n s else SET n (LReg (cb_reg z)) (LReg (cb_reg' z)) s)"

section \<open>The page under an index prefix\<close>

text \<open>\<open>put_memory(mp, r=t)\<close>, or \<open>put_memory(mp, t)\<close> for register field 6.\<close>

definition cbi_put :: "nat \<Rightarrow> cpu \<Rightarrow> cpu" where
  "cbi_put z s =
     (let v = u8 (uint (tt s));
          s = (if z = 6 then s else set_reg (cb_reg z) v s)
      in put_mem (mp s) v s)"

definition cbi_rot :: "nat \<Rightarrow> cpu \<Rightarrow> cpu" where
  "cbi_rot opc s = cbi_put (opc mod 8) (cb_shift (opc div 8) LT LT s)"

definition cbi_bit :: "nat \<Rightarrow> cpu \<Rightarrow> cpu" where
  "cbi_bit opc s = BITI (2 ^ (opc div 8 mod 8)) s"

definition cbi_fix :: "nat \<Rightarrow> cpu \<Rightarrow> cpu" where
  "cbi_fix z s = (if z = 6 \<and> israbbit s then ticks (-9) s else s)"

definition cbi_res :: "nat \<Rightarrow> cpu \<Rightarrow> cpu" where
  "cbi_res opc s =
     cbi_fix (opc mod 8) (cbi_put (opc mod 8) (RES (255 - 2 ^ (opc div 8 mod 8)) LT LT s))"

definition cbi_set :: "nat \<Rightarrow> cpu \<Rightarrow> cpu" where
  "cbi_set opc s =
     cbi_fix (opc mod 8) (cbi_put (opc mod 8) (SET (2 ^ (opc div 8 mod 8)) LT LT s))"

section \<open>The handler\<close>

definition cb_page :: "nat \<Rightarrow> cpu \<Rightarrow> cpu" where
  "cb_page opc s =
     (if opc < 0x40 then cb_rot opc s else if opc < 0x80 then cb_bit opc s
      else if opc < 0xc0 then cb_res opc s else cb_set opc s)"

definition cbi_page :: "nat \<Rightarrow> cpu \<Rightarrow> cpu" where
  "cbi_page opc s =
     (if opc < 0x40 then cbi_rot opc s else if opc < 0x80 then cbi_bit opc s
      else if opc < 0xc0 then cbi_res opc s else cbi_set opc s)"

definition handle_cb_page :: "cpu \<Rightarrow> cpu" where
  "handle_cb_page s =
     (let s = set_reg rR (regs s rR + 1) s in
      if ih s then
        (let (opc, s) = fetch s in cb_page (unat opc) s)
      else
        (let s = ticks (if isz180 s then 9 else 11) s;
             (d, s) = fetch s;
             s = s\<lparr>mp := u16 (sdisp d + (if iy s then rp rYH rYL s else rp rXH rXL s))\<rparr>;
             s = s\<lparr>tt := u16 (uint (get_memory_data (uint (mp s)) s))\<rparr>;
             (opc, s) = fetch s
         in cbi_page (unat opc) s))"

section \<open>Bit operations on memory\<close>

text \<open>The effect of \<open>RES n\<close> and \<open>SET n\<close> on a byte.\<close>

lemma res_mask: "n < 8 \<Longrightarrow> u8 (uint (x :: 8 word) AND (255 - 2 ^ n)) = unset_bit n x"
proof -
  assume n: "n < 8"
  have d: "(255 :: int) - 2 ^ n = 255 AND NOT (2 ^ n)"
  proof -
    have "n \<in> {0..<8}" using n by simp
    then have "n = 0 \<or> n = 1 \<or> n = 2 \<or> n = 3 \<or> n = 4 \<or> n = 5 \<or> n = 6 \<or> n = 7" by auto
    then show ?thesis by (elim disjE) simp_all
  qed
  have m: "bit (255 :: int) m \<longleftrightarrow> m < 8" for m
    using bit_mask_iff [of 8 m, where 'a = int] by (simp add: mask_eq_exp_minus_1)
  show ?thesis
    by (rule bit_word_eqI)
      (simp only: d bit_u8 bit_and_iff bit_not_iff bit_uint8 bit_unset_bit_iff m bit_pow2, auto)
qed

lemma set_mask: "n < 8 \<Longrightarrow> u8 (uint (x :: 8 word) OR 2 ^ n) = set_bit n x"
  by (rule bit_word_eqI)
    (simp only: bit_u8 bit_or_iff bit_uint8 bit_set_bit_iff bit_pow2, auto)

text \<open>\<open>RES n,(HL)\<close> and \<open>SET n,(HL)\<close>, fetched and decoded, clear and set bit \<open>n\<close> of the byte HL
  points to; every other byte, the registers (but R) and the flags stay.\<close>

lemma cb_res_set_hl:
  assumes "flat_ram s" "ih s" "n < 8"
    and op: "unat (get_memory_inst (uint (pc s)) s) = (if b then 0xc6 else 0x86) + 8 * n"
  shows "let s' = handle_cb_page s; hl = pair rH rL s in
    (\<forall>x. rd_data x s' =
      (if x = hl then (if b then set_bit n else unset_bit n) (rd_data hl s) else rd_data x s)) \<and>
    regs s' = (regs s)(rR := regs s rR + 1) \<and> fl s' = fl s \<and> fl' s' = fl' s \<and> pc s' = pc s + 1"
proof -
  let ?x = "rd_data (pair rH rL s) s" and ?op = "(if b then 0xc6 else 0x86) + 8 * n :: nat"
  let ?v = "(if b then set_bit n else unset_bit n) ?x"
  let ?s = "s\<lparr>regs := (regs s)(rR := regs s rR + 1), pc := pc s + 1\<rparr>"
  have op': "unat (fst (fetch (set_reg rR (regs s rR + 1) s))) = ?op"
    using op by (simp add: fetch_def set_reg_def)
  have f: "?op mod 8 = 6" "?op div 8 mod 8 = n"
  proof -
    have "n = 0 \<or> n = 1 \<or> n = 2 \<or> n = 3 \<or> n = 4 \<or> n = 5 \<or> n = 6 \<or> n = 7" using assms(3) by arith
    then show "?op mod 8 = 6" "?op div 8 mod 8 = n" by (elim disjE; simp)+
  qed
  have hl: "pair16 (regs ?s rH) (regs ?s rL) = pair rH rL s" by (simp add: pair_def)
  have "handle_cb_page s = (if b then SETHL (2 ^ n) ?s else RESHL (255 - 2 ^ n) ?s)"
  proof -
    have "handle_cb_page s = cb_page ?op ?s"
      using assms(2) op' by (simp add: handle_cb_page_def Let_def fetch_def set_reg_def)
    then show ?thesis
      using assms(3) f by (auto simp: cb_page_def cb_res_def cb_set_def Let_def)
  qed
  also have "\<dots> = put_mem (pair rH rL s) ?v (?s\<lparr>st := st s + RESHL_TICKS ?s, tt := pair rH rL s\<rparr>)"
    using res_mask [OF assms(3)] set_mask [OF assms(3)] hl
    by (auto simp: RESHL_def SETHL_def Let_def ticks_def)
  finally show ?thesis
    using assms(1) by (simp add: Let_def flat.rd_wr_flat)
qed

section \<open>Memory rotates\<close>

lemma cb_shift_LT:
  "mem (cb_shift y LT LT s) = mem s \<and> mp (cb_shift y LT LT s) = mp s \<and>
   c_rom_size (cb_shift y LT LT s) = c_rom_size s \<and> regs (cb_shift y LT LT s) = regs s"
proof -
  have r: "mem (rot e LT LT s) = mem s \<and> mp (rot e LT LT s) = mp s \<and>
     c_rom_size (rot e LT LT s) = c_rom_size s \<and> regs (rot e LT LT s) = regs s" for e
    by (simp add: rot_def Let_def ticks_def set_lv_def set_grp_def)
  have "y mod 8 = 0 \<or> y mod 8 = 1 \<or> y mod 8 = 2 \<or> y mod 8 = 3 \<or> y mod 8 = 4 \<or> y mod 8 = 5 \<or>
      y mod 8 = 6 \<or> y mod 8 = 7" by arith
  then show ?thesis
    by (elim disjE) (simp_all add: cb_shift_def RLC_def RL_def RR_def SLA_def SRA_def SRL_def r
        RRC_def SLL_def Let_def ticks_def set_lv_def)
qed

lemma cbi_put_result:
  assumes "flat_ram s"
  shows "rd_data (mp s) (cbi_put z s) = u8 (uint (tt s))" "mp (cbi_put z s) = mp s"
    "z mod 8 \<noteq> 6 \<Longrightarrow> regs (cbi_put z s) (cb_reg z) = u8 (uint (tt s))" "ticks n s = s\<lparr>st := st s + n\<rparr>"
  using assms by (auto simp: cbi_put_def Let_def set_reg_def flat.rd_wr_flat ticks_def)

lemma cbi_put_copy:
  assumes "flat_ram k" "z \<noteq> 6" "z < 8"
  shows "mp (cbi_fix z (cbi_put z k)) = mp k"
    "regs (cbi_fix z (cbi_put z k)) (cb_reg z) = rd_data (mp k) (cbi_fix z (cbi_put z k))"
  using assms by (simp_all add: cbi_fix_def cbi_put_result)

lemma RES_SET_LT:
  "mem (RES n LT LT s) = mem s \<and> mp (RES n LT LT s) = mp s \<and> c_rom_size (RES n LT LT s) = c_rom_size s"
  "mem (SET n LT LT s) = mem s \<and> mp (SET n LT LT s) = mp s \<and> c_rom_size (SET n LT LT s) = c_rom_size s"
  by (simp_all add: RES_def SET_def Let_def ticks_def set_lv_def)

lemma cbi_page_copy:
  assumes "flat_ram t"
    and z: "z < 8" "z \<noteq> 6" and y: "y < 8" and g: "g = 0 \<or> g = 0x80 \<or> g = 0xc0"
  shows "mp (cbi_page (g + 8 * y + z) t) = mp t \<and>
    regs (cbi_page (g + 8 * y + z) t) (cb_reg z) = rd_data (mp t) (cbi_page (g + 8 * y + z) t)"
proof -
  let ?op = "g + 8 * y + z"
  have f: "?op mod 8 = z"
  proof -
    have "g = 8 * (g div 8)" using g by (elim disjE) simp_all
    then obtain k where "g = 8 * k" ..
    then have "?op = z + 8 * (k + y)" by simp
    then show ?thesis using z(1) by (simp only: mod_mult_self2) simp
  qed
  have c: "\<exists>k. cbi_page ?op t = cbi_fix z (cbi_put z k) \<and> flat_ram k \<and> mp k = mp t"
  proof -
    from g consider "g = 0" | "g = 0x80" | "g = 0xc0" by auto
    then show ?thesis
    proof cases
      case 1
      then have "cbi_page ?op t = cbi_put z (cb_shift (?op div 8) LT LT t)"
        using y z f by (simp add: cbi_page_def cbi_rot_def)
      moreover have "cbi_put z k = cbi_fix z (cbi_put z k)" for k
        using z by (simp add: cbi_fix_def)
      ultimately show ?thesis
        using cb_shift_LT [of "?op div 8" t] assms(1)
        by (intro exI [of _ "cb_shift (?op div 8) LT LT t"]) (simp add: flat_ram_def)
    next
      case 2
      then have "cbi_page ?op t = cbi_fix z (cbi_put z (RES (255 - 2 ^ (?op div 8 mod 8)) LT LT t))"
        using y z f by (simp add: cbi_page_def cbi_res_def)
      then show ?thesis using RES_SET_LT(1) [of _ t] assms(1)
        by (intro exI [of _ "RES (255 - 2 ^ (?op div 8 mod 8)) LT LT t"]) (simp add: flat_ram_def)
    next
      case 3
      then have "cbi_page ?op t = cbi_fix z (cbi_put z (SET (2 ^ (?op div 8 mod 8)) LT LT t))"
        using y z f by (simp add: cbi_page_def cbi_set_def)
      then show ?thesis using RES_SET_LT(2) [of _ t] assms(1)
        by (intro exI [of _ "SET (2 ^ (?op div 8 mod 8)) LT LT t"]) (simp add: flat_ram_def)
    qed
  qed
  then obtain k where k: "cbi_page ?op t = cbi_fix z (cbi_put z k)" "flat_ram k" "mp k = mp t"
    by blast
  show ?thesis
    using cbi_put_copy [OF k(2) z(2,1)] by (simp only: k(1) k(3))
qed

text \<open>the indexed forms with a register field store the rotated, cleared or set byte in memory
  and the same byte in that register; \<open>mp\<close> keeps the address.\<close>

lemma cb_index_copy:
  assumes "flat_ram s" "\<not> ih s"
    and z: "z < 8" "z \<noteq> 6" and y: "y < 8" and g: "g = 0 \<or> g = 0x80 \<or> g = 0xc0"
    and op: "unat (get_memory_inst (uint (pc s + 1)) s) = g + 8 * y + z"
  shows "let s' = handle_cb_page s in
    mp s' = u16 (sdisp (get_memory_inst (uint (pc s)) s) + (if iy s then rp rYH rYL s else rp rXH rXL s)) \<and>
    regs s' (cb_reg z) = rd_data (mp s') s'"
proof -
  let ?a = "u16 (sdisp (get_memory_inst (uint (pc s)) s) + (if iy s then rp rYH rYL s else rp rXH rXL s))"
  let ?t = "s\<lparr>regs := (regs s)(rR := regs s rR + 1), st := st s + (if isz180 s then 9 else 11),
      mp := ?a, tt := u16 (uint (get_memory_data (uint ?a) s)), pc := pc s + 2\<rparr>"
  obtain t where t: "handle_cb_page s = cbi_page (g + 8 * y + z) t" "flat_ram t" "mp t = ?a"
  proof (rule that)
    show "handle_cb_page s = cbi_page (g + 8 * y + z) (?t)"
      using assms(2) op by (simp add: handle_cb_page_def Let_def fetch_def set_reg_def ticks_def rp_def cpu_preds add_ac)
    show "flat_ram ?t" using assms(1) by (simp add: flat_ram_def)
  qed simp_all
  show ?thesis
    using cbi_page_copy [OF t(2) z y g] by (simp add: t(1) t(3) Let_def)
qed

lemma rot_LU:
  assumes "\<not> altd s" and F: "F = u16 (e (uint (uu s)) (uint (ff (fl s))))"
  shows "rot e LU LU s = s\<lparr>st := st s + CBr_TICKS s, uu := F,
    fl := \<lparr>ff = F, fr = F, fa = u16 (256 OR uint F), fb = 0\<rparr>\<rparr>"
  using assms(1) by (simp only: rot_def Let_def get_lv_def set_lv_def lval.case ticks_def set_grp_def grp_def)
    (simp add: F)

lemma cb_mem_rot:
  assumes "flat_ram s" "z80_flags s" "\<not> altd s"
    and F: "(F :: 16 word) = u16 (e (uint (rd_data (pair rH rL s) s)) (uint (ff (fl s))))"
  shows "rd_data (pair rH rL s) (cb_mem (rot e LU LU) s) = u8 (uint F) \<and>
    Z_flag (flags_of (f_flags (cb_mem (rot e LU LU) s))) = (F = 0)"
proof -
  let ?t = "pair rH rL s"
  have t: "u16 (rp rH rL s) = ?t" by (simp add: rp_eq pair_def)
  let ?u = "s\<lparr>tt := ?t, uu := u16 (uint (rd_data ?t s))\<rparr>"
  have r: "rot e LU LU ?u = ?u\<lparr>st := st s + CBr_TICKS ?u, uu := F,
      fl := \<lparr>ff = F, fr = F, fa = u16 (256 OR uint F), fb = 0\<rparr>\<rparr>"
    using assms(3) rot_LU [of ?u F e] F uint_ucast_byte [of "rd_data ?t s"] by simp
  have "cb_mem (rot e LU LU) s = put_mem ?t (u8 (uint F)) (rot e LU LU ?u)"
    by (simp add: cb_mem_def t Let_def r [simplified])
  then show ?thesis
    using assms(1,2) by (simp add: r [simplified] f_flags_def z80_flags_def cpu_preds flags_of_f_z80 flat.rd_wr_flat)
qed

text \<open>\<open>SLA (HL)\<close> and \<open>SRL (HL)\<close> shift the byte in memory, but Z tells whether the byte was zero
  before the shift: the flags see nine bits (carry and result), so a byte that becomes zero by
  losing its last bit leaves Z clear, where the register form sets it.\<close>

lemma shift_hl_zero_flag:
  assumes "flat_ram s" "ih s" "z80_flags s" "\<not> altd s"
    and op: "unat (get_memory_inst (uint (pc s)) s) = (if b then 0x26 else 0x3e)"
  shows "let s' = handle_cb_page s; x = rd_data (pair rH rL s) s in
    rd_data (pair rH rL s) s' = (if b then push_bit 1 x else drop_bit 1 x) \<and>
    (Z_flag (flags_of (f_flags s')) \<longleftrightarrow> x = 0)"
proof -
  let ?s = "s\<lparr>regs := (regs s)(rR := regs s rR + 1), pc := pc s + 1, st := st s + cb_hl_TICKS s\<rparr>"
  let ?e = "if b then (\<lambda>r f. shl r 1) else (\<lambda>r f. shr (r * 513) 1)"
  have "handle_cb_page s = cb_page (if b then 0x26 else 0x3e)
      (s\<lparr>regs := (regs s)(rR := regs s rR + 1), pc := pc s + 1\<rparr>)"
    using assms(2) op by (simp add: handle_cb_page_def Let_def fetch_def set_reg_def)
  also have "\<dots> = cb_mem (rot ?e LU LU) ?s"
    by (simp add: cb_page_def cb_rot_def Let_def cb_shift_def SLA_def SRL_def ticks_def cb_hl_TICKS_def cpu_preds)
  finally have h: "handle_cb_page s = cb_mem (rot ?e LU LU) ?s" .
  define F where "F = u16 ((if b then (\<lambda>r f. shl r 1) else (\<lambda>r f. shr (r * 513) 1))
      (uint (rd_data (pair rH rL ?s) ?s)) (uint (ff (fl ?s))))"
  let ?x = "rd_data (pair rH rL s) s"
  have p: "pair rH rL ?s = pair rH rL s" by (simp add: pair_def)
  have F: "bit F n = (if b then n \<noteq> 0 \<and> bit ?x (n - 1) else bit ?x (n + 1) \<or> 8 \<le> n \<and> bit ?x (n - 8))"
    if "n < 16" for n
    using that bit_imp_le_length [of ?x] by (auto simp: F_def p bit_u16 bit_times_2 bit_drop_bit_eq bit_513 bit_uint8)
  have "u8 (uint F) = (if b then push_bit 1 ?x else drop_bit 1 ?x)"
    by (rule bit_word_eqI) (simp only: bit_u8 bit_uint16, auto simp: F bit_word_times_2 bit_drop_bit_eq)
  moreover have "F = 0 \<longleftrightarrow> ?x = 0"
  proof
    assume z: "F = 0"
    have b0: "\<not> bit F n" for n by (simp add: z)
    have "\<not> bit ?x n" if "n < 8" for n
      using that b0 [of "if b then n + 1 else n + 8"] F [of "if b then n + 1 else n + 8"]
      by (auto split: if_splits)
    then show "?x = 0" by (intro bit_word_eqI) simp
  next
    assume "?x = 0"
    then show "F = 0" by (intro bit_word_eqI) (simp add: F)
  qed
  moreover have "flat_ram ?s" "z80_flags ?s" "\<not> altd ?s"
    using assms by (simp_all add: flat_ram_def z80_flags_def cpu_preds)
  note cb_mem_rot [where e = ?e, OF this F_def]
  ultimately show ?thesis
    by (simp add: h p Let_def)
qed

end
