(* ===== verification/Ticks_Am9511.thy ===== *)
theory Ticks_Am9511
  imports Ticks_Control "HOL-Library.Signed_Division"
begin

text \<open>
  The AM9511 arithmetic processor of \<open>src/src/ticks/am9511.c\<close>: a ring of sixteen bytes used as a
  stack, a status byte, and the command decoder. Fixed-point commands compute in C's \<open>int\<close> and
  \<open>int64_t\<close>; floating-point commands compute with the host's \<open>double\<close> arithmetic \<open>libm\<close>.
\<close>

section \<open>The byte stack\<close>

definition apu_move :: "int \<Rightarrow> apu \<Rightarrow> apu" where
  "apu_move n a = a\<lparr>apu_tos := nat ((int (apu_tos a) + n) AND 0xF)\<rparr>"

definition apu_idx :: "int \<Rightarrow> apu \<Rightarrow> nat" where
  "apu_idx depth a = nat ((int (apu_tos a) - depth) AND 0xF)"

definition apu_look8 :: "int \<Rightarrow> apu \<Rightarrow> 8 word" where
  "apu_look8 depth a = apu_stack a (apu_idx depth a)"

definition apu_pop8 :: "apu \<Rightarrow> 8 word \<times> apu" where
  "apu_pop8 a = (let a = apu_move (-1) a in (apu_look8 (-1) a, a))"

definition apu_push8 :: "int \<Rightarrow> apu \<Rightarrow> apu" where
  "apu_push8 data a = (let a = apu_move 1 a in a\<lparr>apu_stack := (apu_stack a)(apu_tos a := u8 data)\<rparr>)"

definition apu_or :: "8 word \<Rightarrow> apu \<Rightarrow> apu" where
  "apu_or n a = a\<lparr>apu_status := apu_status a OR n\<rparr>"

definition APU_F_CARRY :: "8 word" where "APU_F_CARRY = 1"
definition APU_F_OVERFLOW :: "8 word" where "APU_F_OVERFLOW = 2"
definition APU_F_UNDERFLOW :: "8 word" where "APU_F_UNDERFLOW = 4"
definition APU_F_NEGARG :: "8 word" where "APU_F_NEGARG = 8"
definition APU_F_ZERODIV :: "8 word" where "APU_F_ZERODIV = 16"
definition APU_F_LARGE :: "8 word" where "APU_F_LARGE = 24"
definition APU_F_ZERO :: "8 word" where "APU_F_ZERO = 32"
definition APU_F_SIGN :: "8 word" where "APU_F_SIGN = 64"

definition apu_reset :: "apu \<Rightarrow> apu" where
  "apu_reset a = a\<lparr>apu_status := 0, apu_tos := 0, apu_stack := (\<lambda>i. if i < 16 then 0 else apu_stack a i)\<rparr>"

section \<open>Fixed-point operands\<close>

definition apu_pop_fix16 :: "apu \<Rightarrow> int \<times> apu" where
  "apu_pop_fix16 a =
     (let (x, a) = apu_pop8 a;
          (y, a) = apu_pop8 a;
          data = shl (uint x) 8 OR uint y
      in (if data AND 0x8000 \<noteq> 0 then data - 0x10000 else data, a))"

definition apu_push_fix16 :: "int \<Rightarrow> apu \<Rightarrow> apu" where
  "apu_push_fix16 data a =
     (let (data, a) = (if data = 0 then (data, apu_or APU_F_ZERO a)
                       else if data < 0 then (data + 0x10000, apu_or APU_F_SIGN a) else (data, a));
          a = (if data > 0xFFFF \<or> data < 0 then apu_or APU_F_OVERFLOW a else a)
      in apu_push8 (shr data 8) (apu_push8 data a))"

text \<open>\<open>_apu_pop8() << 24\<close> is an \<open>int\<close>: a set top bit makes it negative.\<close>

definition apu_pop_fix32 :: "apu \<Rightarrow> int \<times> apu" where
  "apu_pop_fix32 a =
     (let (x, a) = apu_pop8 a; data = sint (u32 (shl (uint x) 24));
          (x, a) = apu_pop8 a; data = data OR shl (uint x) 16;
          (x, a) = apu_pop8 a; data = data OR shl (uint x) 8;
          (x, a) = apu_pop8 a; data = data OR uint x
      in (if data > 2147483647 then data - 4294967296 else data, a))"

definition apu_push_fix32 :: "int \<Rightarrow> apu \<Rightarrow> apu" where
  "apu_push_fix32 data a =
     (let (data, a) = (if data = 0 then (data, apu_or APU_F_ZERO a)
                       else if data < 0 then (data + 4294967296, apu_or APU_F_SIGN a) else (data, a));
          a = (if data > 4294967295 \<or> data < 0 then apu_or APU_F_OVERFLOW a else a);
          a = apu_push8 (data AND 0xff) a;
          a = apu_push8 (shr data 8 AND 0xff) a;
          a = apu_push8 (shr data 16 AND 0xff) a
      in apu_push8 (shr data 24 AND 0xff) a)"

definition apu_carry :: "int \<Rightarrow> int \<Rightarrow> apu \<Rightarrow> apu" where
  "apu_carry val limit a =
     (if val \<ge> limit * 2 \<or> val < -limit * 2 then apu_or APU_F_CARRY (apu_or APU_F_OVERFLOW a)
      else if val \<ge> limit \<or> val < -limit
      then apu_or APU_F_CARRY (a\<lparr>apu_status := apu_status a AND (255 - APU_F_OVERFLOW)\<rparr>)
      else a)"

section \<open>Floating-point operands\<close>

text \<open>An exponent byte (sign of the mantissa, 7-bit exponent) and a 24-bit mantissa.\<close>

definition apu_pop_float :: "libm \<Rightarrow> apu \<Rightarrow> 64 word \<times> apu" where
  "apu_pop_float L a =
     (let (e, a) = apu_pop8 a;
          (x, a) = apu_pop8 a; data = shl (uint x) 16;
          (x, a) = apu_pop8 a; data = data OR shl (uint x) 8;
          (x, a) = apu_pop8 a; data = data OR uint x
      in if data AND 0x800000 = 0 then (d_of_int L 0, a)
         else
           (let data = (if uint e AND 128 \<noteq> 0 then - data else data);
                ex = (if uint e AND 64 \<noteq> 0 then (uint e AND 63) - 64 else uint e AND 63)
            in (d_mul L (d_pow L (d_of_int L 2) (d_of_int L ex))
                 (d_div L (d_of_int L data) (d_of_int L 16777216)), a)))"

definition apu_push_zero32 :: "apu \<Rightarrow> apu" where
  "apu_push_zero32 a = apu_push8 0 (apu_push8 0 (apu_push8 0 (apu_push8 0 a)))"

text \<open>The exponent byte before the sign, and the status bits that go with it.\<close>

definition apu_exponent :: "int \<Rightarrow> apu \<Rightarrow> int \<times> apu" where
  "apu_exponent e a =
     (if e > 63 then (e AND 63, apu_or APU_F_OVERFLOW a)
      else if e < -64 then ((64 + e) AND 63 OR 64, apu_or APU_F_OVERFLOW a)
      else if e < 0 then ((64 + e) AND 63 OR 64, a)
      else (e, a))"

definition apu_push_float :: "libm \<Rightarrow> 64 word \<Rightarrow> apu \<Rightarrow> apu" where
  "apu_push_float L data a =
     (if \<not> isfinite L data then apu_or APU_F_LARGE (apu_push_zero32 a)
      else if d_eq L data (d_of_int L 0) then apu_or APU_F_ZERO (apu_push_zero32 a)
      else
        (let neg = d_less L data (d_of_int L 0);
             data = d_fabs L data;
             e = int_of_d L (d_log2 L data);
             data = d_div L data (d_pow L (d_of_int L 2) (d_of_int L e));
             i = int_of_d L (d_mul L data (d_of_int L 16777216));
             (i, e, a) = (if i \<ge> 16777216 then (shr i 1, e + 1, a)
                          else if i = 0 then (i, 0, apu_or (APU_F_ZERO OR APU_F_UNDERFLOW) a)
                          else (i, e, a));
             (e, a) = apu_exponent e a;
             (e, a) = (if neg then (e OR 128, apu_or APU_F_SIGN a) else (e, a))
         in apu_push8 e (apu_push8 (shr i 16) (apu_push8 (shr i 8) (apu_push8 i a)))))"

section \<open>Status and stack helpers\<close>

definition apu_sz_fix16 :: "apu \<Rightarrow> apu" where
  "apu_sz_fix16 a =
     (let a = (if uint (apu_look8 0 a) AND 128 \<noteq> 0 then apu_or APU_F_SIGN a else a)
      in if uint (apu_look8 0 a) + uint (apu_look8 1 a) = 0 then apu_or APU_F_ZERO a else a)"

definition apu_sz_fix32 :: "apu \<Rightarrow> apu" where
  "apu_sz_fix32 a =
     (let a = (if uint (apu_look8 0 a) AND 128 \<noteq> 0 then apu_or APU_F_SIGN a else a)
      in if uint (apu_look8 0 a) + uint (apu_look8 1 a) + uint (apu_look8 2 a) + uint (apu_look8 3 a) = 0
         then apu_or APU_F_ZERO a else a)"

definition apu_sz_float :: "apu \<Rightarrow> apu" where
  "apu_sz_float a =
     (let a = (if uint (apu_look8 0 a) AND 128 \<noteq> 0 then apu_or APU_F_SIGN a else a)
      in if uint (apu_look8 1 a) AND 128 = 0 then apu_or APU_F_ZERO a else a)"

definition apu_poke :: "int \<Rightarrow> 8 word \<Rightarrow> apu \<Rightarrow> apu" where
  "apu_poke d v a = a\<lparr>apu_stack := (apu_stack a)(apu_idx d a := v)\<rparr>"

definition apu_xchg :: "int \<Rightarrow> int \<Rightarrow> apu \<Rightarrow> apu" where
  "apu_xchg d1 d2 a =
     (let n = apu_look8 d1 a;
          a = apu_poke d1 (apu_look8 d2 a) a
      in apu_poke d2 n a)"

definition apu_copy :: "int \<Rightarrow> int \<Rightarrow> apu \<Rightarrow> apu" where
  "apu_copy f t a = apu_poke t (apu_look8 f a) a"

section \<open>Commands\<close>

text \<open>Each group maps a command to the new state and the number of APU clocks.\<close>

definition apu_fix16_op :: "nat \<Rightarrow> apu \<Rightarrow> apu \<times> int" where
  "apu_fix16_op cmd a =
     (if cmd = 0x6C then
        (let (x, a) = apu_pop_fix16 a; (y, a) = apu_pop_fix16 a; i = x + y
         in (apu_carry i 0x8000 (apu_push_fix16 i a), 17))
      else if cmd = 0x6D then
        (let (x, a) = apu_pop_fix16 a; (y, a) = apu_pop_fix16 a; i = y - x
         in (apu_carry i 0x8000 (apu_push_fix16 i a), 31))
      else if cmd = 0x6E then
        (let (x, a) = apu_pop_fix16 a; (y, a) = apu_pop_fix16 a in (apu_push_fix16 (x * y) a, 89))
      else if cmd = 0x76 then
        (let (x, a) = apu_pop_fix16 a; (y, a) = apu_pop_fix16 a in (apu_push_fix16 (shr (x * y) 16) a, 87))
      else
        (let (x, a) = apu_pop_fix16 a in
         if x \<noteq> 0 then (let (y, a) = apu_pop_fix16 a in (apu_push_fix16 (y sdiv x) a, 89))
         else (apu_or APU_F_ZERODIV a, 14)))"

definition apu_fix32_op :: "nat \<Rightarrow> apu \<Rightarrow> apu \<times> int" where
  "apu_fix32_op cmd a =
     (if cmd = 0x2C then
        (let (x, a) = apu_pop_fix32 a; (y, a) = apu_pop_fix32 a; l = x + y
         in (apu_carry l 0x80000000 (apu_push_fix32 l a), 21))
      else if cmd = 0x2D then
        (let (x, a) = apu_pop_fix32 a; (y, a) = apu_pop_fix32 a; l = y - x
         in (apu_carry l 0x80000000 (apu_push_fix32 l a), 39))
      else if cmd = 0x2E then
        (let (x, a) = apu_pop_fix32 a; (y, a) = apu_pop_fix32 a in (apu_push_fix32 (x * y) a, 200))
      else if cmd = 0x36 then
        (let (x, a) = apu_pop_fix32 a; (y, a) = apu_pop_fix32 a in (apu_push_fix32 (shr (x * y) 32) a, 200))
      else
        (let (x, a) = apu_pop_fix32 a in
         if x \<noteq> 0 then (let (y, a) = apu_pop_fix32 a in (apu_push_fix32 (y sdiv x) a, 200))
         else (apu_or APU_F_ZERODIV a, 18)))"

text \<open>\<open>if (f)\<close> on a \<open>double\<close> is \<open>f != 0\<close>. The multiplication pops its operands in an order C leaves
  open; here the first pop is the left operand.\<close>

definition apu_float_op :: "libm \<Rightarrow> nat \<Rightarrow> apu \<Rightarrow> apu \<times> int" where
  "apu_float_op L cmd a =
     (let (f, a) = apu_pop_float L a; nz = \<not> d_eq L f (d_of_int L 0) in
      if cmd = 0x10 then
        (let (g, a) = apu_pop_float L a in (apu_push_float L (d_add L g f) a, if nz then 200 else 24))
      else if cmd = 0x11 then
        (let (g, a) = apu_pop_float L a in (apu_push_float L (d_sub L g f) a, if nz then 200 else 26))
      else if cmd = 0x12 then
        (let (g, a) = apu_pop_float L a in (apu_push_float L (d_mul L f g) a, 150))
      else if nz then (let (g, a) = apu_pop_float L a in (apu_push_float L (d_div L g f) a, 170))
      else (apu_or APU_F_ZERODIV a, 22))"

text \<open>\<open>M_E\<close> is the constant whose double bits are \<open>0x4005BF0A8B145769\<close>.\<close>

definition apu_derived_op :: "libm \<Rightarrow> nat \<Rightarrow> apu \<Rightarrow> apu \<times> int" where
  "apu_derived_op L cmd a =
     (let (f, a) = apu_pop_float L a; zero = d_of_int L 0 in
      if cmd = 0x01 then
        (let a = apu_push_float L (d_sqrt L (d_fabs L f)) a
         in (if d_less L f zero then apu_or APU_F_NEGARG a else a, 800))
      else if cmd = 0x02 then (apu_push_float L (d_sin L f) a, 4000)
      else if cmd = 0x03 then (apu_push_float L (d_cos L f) a, 4000)
      else if cmd = 0x04 then (apu_push_float L (d_tan L f) a, 5000)
      else if cmd = 0x05 then (apu_push_float L (d_asin L f) a, 7000)
      else if cmd = 0x06 then (apu_push_float L (d_acos L f) a, 7000)
      else if cmd = 0x07 then (apu_push_float L (d_atan L f) a, 5000)
      else if cmd = 0x08 then
        (if d_less L zero f then (apu_push_float L (d_log10 L f) a, 5500)
         else (apu_move 4 (apu_or APU_F_NEGARG a), 20))
      else if cmd = 0x09 then
        (if d_less L zero f then (apu_push_float L (d_log L f) a, 5500)
         else (apu_move 4 (apu_or APU_F_NEGARG a), 20))
      else if cmd = 0x0A then
        (apu_push_float L (d_pow L 0x4005BF0A8B145769 f) a, if d_less L (d_of_int L 32) f then 34 else 4000)
      else (let (g, a) = apu_pop_float L a in (apu_push_float L (d_pow L g f) a, 10000)))"

definition apu_convert_op :: "libm \<Rightarrow> nat \<Rightarrow> apu \<Rightarrow> apu \<times> int" where
  "apu_convert_op L cmd a =
     (if cmd = 0x1F then (let (f, a) = apu_pop_float L a in (apu_push_fix16 (int_of_d L f) a, 150))
      else if cmd = 0x1E then (let (f, a) = apu_pop_float L a in (apu_push_fix32 (int64_of_d L f) a, 200))
      else if cmd = 0x1D then (let (i, a) = apu_pop_fix16 a in (apu_push_float L (d_of_int L i) a, 100))
      else if cmd = 0x1C then (let (i, a) = apu_pop_fix32 a in (apu_push_float L (d_of_int L i) a, 200))
      else if cmd = 0x74 then (let (i, a) = apu_pop_fix16 a in (apu_push_fix16 (- i) a, 23))
      else if cmd = 0x34 then (let (i, a) = apu_pop_fix32 a in (apu_push_fix32 (- i) a, 27))
      else \<comment> \<open>CHSF\<close>
        (if uint (apu_look8 1 a) AND 128 \<noteq> 0 then
           (let a = apu_poke 0 (apu_look8 0 a XOR 128) a
            in (if uint (apu_look8 0 a) AND 128 \<noteq> 0 then apu_or APU_F_SIGN a else a, 18))
         else (apu_or APU_F_ZERO a, 18)))"

definition apu_dup32 :: "apu \<Rightarrow> apu" where
  "apu_dup32 a = apu_copy 7 3 (apu_copy 6 2 (apu_copy 5 1 (apu_copy 4 0 (apu_move 4 a))))"

definition apu_xchg32 :: "apu \<Rightarrow> apu" where
  "apu_xchg32 a = apu_xchg 3 7 (apu_xchg 2 6 (apu_xchg 1 5 (apu_xchg 0 4 a)))"

definition apu_stack_op :: "nat \<Rightarrow> apu \<Rightarrow> apu \<times> int" where
  "apu_stack_op cmd a =
     (if cmd = 0x77 then (apu_sz_fix16 (apu_copy 3 1 (apu_copy 2 0 (apu_move 2 a))), 16)
      else if cmd = 0x37 then (apu_sz_fix32 (apu_dup32 a), 20)
      else if cmd = 0x17 then (apu_sz_float (apu_dup32 a), 20)
      else if cmd = 0x78 then (apu_sz_fix16 (apu_move (-2) a), 10)
      else if cmd = 0x38 then (apu_sz_fix32 (apu_move (-4) a), 12)
      else if cmd = 0x18 then (apu_sz_float (apu_move (-4) a), 12)
      else if cmd = 0x79 then (apu_sz_fix16 (apu_xchg 1 3 (apu_xchg 0 2 a)), 18)
      else if cmd = 0x39 then (apu_sz_fix32 (apu_xchg32 a), 26)
      else if cmd = 0x19 then (apu_sz_float (apu_xchg32 a), 26)
      else (apu_push8 0x02 (apu_push8 0xC9 (apu_push8 0x0F (apu_push8 0xDA a))), 16))"

definition apu_command :: "libm \<Rightarrow> nat \<Rightarrow> apu \<Rightarrow> apu \<times> int" where
  "apu_command L cmd a =
     (let a = a\<lparr>apu_status := 0\<rparr> in
      if cmd \<in> {0x6C, 0x6D, 0x6E, 0x76, 0x6F} then apu_fix16_op cmd a
      else if cmd \<in> {0x2C, 0x2D, 0x2E, 0x36, 0x2F} then apu_fix32_op cmd a
      else if cmd \<in> {0x10, 0x11, 0x12, 0x13} then apu_float_op L cmd a
      else if 1 \<le> cmd \<and> cmd \<le> 0x0B then apu_derived_op L cmd a
      else if cmd \<in> {0x1F, 0x1E, 0x1D, 0x1C, 0x74, 0x34, 0x15} then apu_convert_op L cmd a
      else if cmd \<in> {0x77, 0x37, 0x17, 0x78, 0x38, 0x18, 0x79, 0x39, 0x19, 0x1A} then apu_stack_op cmd a
      else (a, 4))"

definition apu_write_command :: "8 word \<Rightarrow> cpu \<Rightarrow> cpu" where
  "apu_write_command cmd s =
     (let (a, clocks) = apu_command (libm (host s)) (unat (cmd AND 0x7F)) (apu s)
      in s\<lparr>apu := a, st := st s + clocks * 3\<rparr>)"

definition apu_write_data :: "8 word \<Rightarrow> cpu \<Rightarrow> cpu" where
  "apu_write_data v s = s\<lparr>apu := apu_push8 (uint v) (apu s)\<rparr>"

definition apu_read_data :: "cpu \<Rightarrow> 8 word \<times> cpu" where
  "apu_read_data s = (let (v, a) = apu_pop8 (apu s) in (v, s\<lparr>apu := a\<rparr>))"

text \<open>The ports: \<open>-1\<close> says that the port is not the APU's.\<close>

definition apu_out :: "int \<Rightarrow> int \<Rightarrow> cpu \<Rightarrow> cpu option" where
  "apu_out port val s =
     (if port AND 0xff \<noteq> 0x42 \<and> port AND 0xff \<noteq> 0x43 then None
      else Some (if port AND 1 \<noteq> 0 then apu_write_command (u8 val) s else apu_write_data (u8 val) s))"

definition apu_in :: "int \<Rightarrow> cpu \<Rightarrow> int \<times> cpu" where
  "apu_in port s =
     (if port AND 0xff \<noteq> 0x42 \<and> port AND 0xff \<noteq> 0x43 then (-1, s)
      else if port AND 1 \<noteq> 0 then (uint (apu_status (apu s)), s)
      else (let (v, s) = apu_read_data s in (uint v, s)))"

section \<open>The ring as a stack\<close>

lemma and_15: "(x :: int) AND 15 = x mod 16"
  using take_bit_eq_mask [of 4 x] by (simp add: mask_eq_exp_minus_1 take_bit_eq_mod)

lemma apu_tos_move [simp]: "int (apu_tos (apu_move n a)) = (int (apu_tos a) + n) mod 16"
  by (simp add: apu_move_def and_15)

lemma apu_move_fields [simp]:
  "apu_stack (apu_move n a) = apu_stack a" "apu_status (apu_move n a) = apu_status a"
  by (simp_all add: apu_move_def)

lemma apu_look_move [simp]: "apu_look8 k (apu_move n a) = apu_look8 (k - n) a"
  by (simp add: apu_look8_def apu_idx_def and_15 mod_simps algebra_simps)

lemma apu_move_move [simp]: "apu_move m (apu_move n a) = apu_move (n + m) a"
  by (simp add: apu_move_def and_15 mod_simps algebra_simps)

lemma apu_look_or [simp]: "apu_look8 k (apu_or n a) = apu_look8 k a"
  by (simp add: apu_look8_def apu_idx_def apu_or_def)

lemma apu_status_or [simp]: "apu_status (apu_or n a) = apu_status a OR n"
  by (simp add: apu_or_def)

lemma apu_status_push [simp]: "apu_status (apu_push8 d a) = apu_status a"
  by (simp add: apu_push8_def Let_def)

lemma apu_look_status [simp]: "apu_look8 k (a\<lparr>apu_status := x\<rparr>) = apu_look8 k a"
  by (simp add: apu_look8_def apu_idx_def)

lemma apu_status_cleared [simp]: "apu_status (a\<lparr>apu_status := x\<rparr>) = x"
  by simp

lemma mod16_shift: "0 < k \<Longrightarrow> k < 16 \<Longrightarrow> (t - k) mod 16 \<noteq> t mod (16 :: int)"
proof
  assume k: "0 < k" "k < 16" and e: "(t - k) mod 16 = t mod 16"
  have "16 dvd k" using e by (metis mod_eq_dvd_iff minus_diff_eq dvd_minus_iff diff_diff_eq2 add_diff_cancel_left' mod_eq_dvd_iff)
  with k show False by (auto dest: zdvd_imp_le)
qed

lemma apu_look_push [simp]:
  assumes "0 \<le> k" "k < 16"
  shows "apu_look8 k (apu_push8 d a) = (if k = 0 then u8 d else apu_look8 (k - 1) a)"
proof -
  let ?t = "int (apu_tos a) + 1"
  have "nat ((?t mod 16 - k) mod 16) = nat (?t mod 16) \<longleftrightarrow> k = 0"
    using mod16_shift [of k ?t] assms by (cases "k = 0") (auto simp: mod_simps)
  moreover have "(?t - k) mod 16 = (int (apu_tos a) - (k - 1)) mod 16" by (simp add: algebra_simps)
  ultimately show ?thesis
    by (simp add: apu_push8_def Let_def apu_look8_def apu_idx_def apu_move_def and_15 mod_simps)
qed

lemma apu_pop8_eq: "apu_pop8 a = (apu_look8 0 a, apu_move (-1) a)"
  by (simp add: apu_pop8_def Let_def)

interpretation ring: byte_stack "\<lambda>b. apu_push8 (uint b)" "\<lambda>a. snd (apu_pop8 a)" "\<lambda>k. apu_look8 (int k)" 16 "\<lambda>_. True"
  by unfold_locales (simp_all add: apu_pop8_eq of_nat_diff algebra_simps)

section \<open>Words on the stack\<close>

text \<open>The 16-bit and 32-bit values at depth \<open>k\<close>, most significant byte on top.\<close>

definition apu_word16 :: "int \<Rightarrow> apu \<Rightarrow> 16 word" where
  "apu_word16 k a = pair16 (apu_look8 k a) (apu_look8 (k + 1) a)"

definition apu_word32 :: "int \<Rightarrow> apu \<Rightarrow> 32 word" where
  "apu_word32 k a = word_cat (apu_word16 k a) (apu_word16 (k + 2) a)"

text \<open>Two's complement correction.\<close>

lemma and_exp_bit: "(x :: int) AND 2 ^ n \<noteq> 0 \<longleftrightarrow> bit x n"
  by (simp add: and_exp_eq_0_iff_not_bit)

lemma sint_16: "sint (w :: 16 word) = (if uint w AND 0x8000 \<noteq> 0 then uint w - 0x10000 else uint w)"
  using and_exp_bit [of "uint w" 15] take_bit_int_eq_self [of "uint w" 16] uint_lt2p [of w]
  by (simp add: sint_uint signed_take_bit_eq_take_bit_minus bit_uint16)

lemma pop_fix16: "apu_pop_fix16 a = (sint (apu_word16 0 a), apu_move (-2) a)"
proof -
  have "shl (uint (apu_look8 0 a)) 8 OR uint (apu_look8 1 a) = uint (apu_word16 0 a)"
    by (simp only: apu_word16_def uint_pair16 or.commute [of "shl _ _"] flip: byte_add_shl)
      (simp add: push_bit_eq_mult)
  then show ?thesis by (simp add: apu_pop_fix16_def apu_pop8_eq sint_16)
qed

lemma hi_byte_shift: "u8 (shr (d + 0x10000) 8) = u8 (shr d 8)"
proof -
  have "shr (d + 0x10000) 8 = shr d 8 + 256" by (simp add: drop_bit_eq_div)
  then show ?thesis by simp
qed

lemma push_fix16:
  "apu_push_fix16 d a = apu_push8 (shr d 8) (apu_push8 d (apu_or
     ((if d = 0 then APU_F_ZERO else if d < 0 then APU_F_SIGN else 0) OR
      (if d > 0xFFFF \<or> d < - 0x10000 then APU_F_OVERFLOW else 0)) a))"
proof -
  have 1: "apu_push8 (d + 0x10000) b = apu_push8 d b" "apu_push8 (shr (d + 0x10000) 8) b = apu_push8 (shr d 8) b" for b
  proof -
    have "u8 (d + 0x10000) = u8 d" by (simp only: of_int_add) simp
    then show "apu_push8 (d + 0x10000) b = apu_push8 d b" by (simp only: apu_push8_def)
    show "apu_push8 (shr (d + 0x10000) 8) b = apu_push8 (shr d 8) b" by (simp only: apu_push8_def hi_byte_shift)
  qed
  have "apu_or 0 b = b" "apu_or x (apu_or y b) = apu_or (x OR y) b" for b x y
    by (simp_all add: apu_or_def ac_simps)
  then show ?thesis
    using 1 by (auto simp: apu_push_fix16_def Let_def or.commute)
qed

lemma push_fix16_look:
  "apu_word16 0 (apu_push_fix16 d a) = u16 d"
  "0 \<le> k \<Longrightarrow> k < 14 \<Longrightarrow> apu_look8 (k + 2) (apu_push_fix16 d a) = apu_look8 k a"
  by (simp_all add: push_fix16 apu_word16_def pair16_hi_lo)

section \<open>16-bit commands\<close>

definition sz_status :: "int \<Rightarrow> 8 word" where
  "sz_status v = (if v = 0 then APU_F_ZERO else if v < 0 then APU_F_SIGN else 0)"

text \<open>The stack after a 16-bit command that replaces two operands by one result.\<close>

definition apu_result16 :: "apu \<Rightarrow> 16 word \<Rightarrow> apu \<Rightarrow> bool" where
  "apu_result16 a w a' \<longleftrightarrow> apu_word16 0 a' = w \<and> (\<forall>k\<in>{2..<14}. apu_look8 k a' = apu_look8 (k + 2) a)"

lemma sint16_bounds: "- 32768 \<le> sint (w :: 16 word)" "sint w \<le> 32767"
  using sint_ge [of w] sint_lt [of w] by simp_all

lemma apu_result16_push:
  assumes "w = u16 d" "\<And>k. apu_look8 k b = apu_look8 (k + 4) a"
  shows "apu_result16 a w (apu_push_fix16 d b)"
proof -
  have "apu_look8 k (apu_push_fix16 d b) = apu_look8 (k + 2) a" if "2 \<le> k" "k < 14" for k
    using push_fix16_look(2) [of "k - 2" d b] assms(2) [of "k - 2"] that by (simp add: algebra_simps)
  then show ?thesis by (simp add: apu_result16_def push_fix16_look assms)
qed

lemma apu_fix16_aux:
  fixes a :: apu and L :: libm
  defines "x \<equiv> sint (apu_word16 0 a)" and "y \<equiv> sint (apu_word16 2 a)"
    and "res \<equiv> \<lambda>cmd. fst (apu_command L cmd a)"
  shows "apu_result16 a (apu_word16 2 a + apu_word16 0 a) (res 0x6C) \<and>
    apu_status (res 0x6C) = sz_status (y + x) OR (if - 32768 \<le> y + x \<and> y + x < 32768 then 0 else APU_F_CARRY) \<and>
    apu_result16 a (apu_word16 2 a - apu_word16 0 a) (res 0x6D) \<and>
    apu_status (res 0x6D) = sz_status (y - x) OR (if - 32768 \<le> y - x \<and> y - x < 32768 then 0 else APU_F_CARRY) \<and>
    apu_result16 a (apu_word16 2 a * apu_word16 0 a) (res 0x6E) \<and>
    apu_result16 a (u16 ((y * x) div 65536)) (res 0x76) \<and>
    (if x = 0 then apu_status (res 0x6F) = APU_F_ZERODIV \<and> apu_word16 0 (res 0x6F) = apu_word16 2 a
     else apu_result16 a (u16 (y sdiv x)) (res 0x6F))"
proof -
  let ?a = "a\<lparr>apu_status := 0\<rparr>" and ?b = "apu_move (-4) (a\<lparr>apu_status := 0\<rparr>)"
  have w: "apu_word16 k ?a = apu_word16 k a" "apu_word16 k (apu_move n ?a) = apu_word16 (k - n) a" for k n
    by (simp_all add: apu_word16_def algebra_simps)
  note b = sint16_bounds [of "apu_word16 0 a", folded x_def] sint16_bounds [of "apu_word16 2 a", folded y_def]
  have l: "apu_look8 k ?b = apu_look8 (k + 4) a" for k by simp
  have st: "apu_status (apu_carry d 0x8000 (apu_push_fix16 d ?b)) =
      sz_status d OR (if - 32768 \<le> d \<and> d < 32768 then 0 else APU_F_CARRY)"
    if "- 65536 \<le> d" "d \<le> 65535" for d
    using that by (simp add: push_fix16 apu_carry_def sz_status_def APU_F_ZERO_def APU_F_SIGN_def
        APU_F_CARRY_def APU_F_OVERFLOW_def)
  have ca: "apu_result16 a w (apu_carry d 0x8000 c) = apu_result16 a w c" for d c w
    by (simp add: apu_carry_def apu_result16_def apu_word16_def)
  have "res 0x6C = apu_carry (x + y) 0x8000 (apu_push_fix16 (x + y) ?b)"
       "res 0x6D = apu_carry (y - x) 0x8000 (apu_push_fix16 (y - x) ?b)"
       "res 0x6E = apu_push_fix16 (x * y) ?b"
       "res 0x76 = apu_push_fix16 (shr (x * y) 16) ?b"
       "res 0x6F = (if x \<noteq> 0 then apu_push_fix16 (y sdiv x) ?b else apu_or APU_F_ZERODIV (apu_move (-2) ?a))"
    by (simp_all add: res_def apu_command_def apu_fix16_op_def Let_def pop_fix16 w x_def y_def)
  note res = this
  note p = apu_result16_push [OF _ l]
  have "apu_result16 a (apu_word16 2 a + apu_word16 0 a) (res 0x6C)"
    unfolding res ca by (rule p) (simp add: x_def y_def)
  moreover have "apu_result16 a (apu_word16 2 a - apu_word16 0 a) (res 0x6D)"
    unfolding res ca by (rule p) (simp add: x_def y_def)
  moreover have "apu_result16 a (apu_word16 2 a * apu_word16 0 a) (res 0x6E)"
    unfolding res by (rule p) (simp add: x_def y_def)
  moreover have "apu_result16 a (u16 ((y * x) div 65536)) (res 0x76)"
    unfolding res by (rule p) (simp add: drop_bit_eq_div mult.commute)
  moreover have "x \<noteq> 0 \<Longrightarrow> apu_result16 a (u16 (y sdiv x)) (res 0x6F)"
    unfolding res by (simp add: p)
  moreover have "apu_status (apu_or APU_F_ZERODIV (apu_move (-2) ?a)) = APU_F_ZERODIV"
    "apu_word16 0 (apu_or APU_F_ZERODIV (apu_move (-2) ?a)) = apu_word16 2 a"
    by (simp_all add: apu_word16_def)
  moreover have "apu_status (res 0x6C) = sz_status (y + x) OR (if - 32768 \<le> y + x \<and> y + x < 32768 then 0 else APU_F_CARRY)"
    unfolding res using b st [of "x + y"] by (simp add: add.commute)
  moreover have "apu_status (res 0x6D) = sz_status (y - x) OR (if - 32768 \<le> y - x \<and> y - x < 32768 then 0 else APU_F_CARRY)"
    unfolding res using b st [of "y - x"] by simp
  ultimately show ?thesis by (simp add: res(5))
qed


section \<open>32-bit commands\<close>

lemma bit_word32: "bit (apu_word32 k a) n \<longleftrightarrow>
   (if n < 8 then bit (apu_look8 (k + 3) a) n else if n < 16 then bit (apu_look8 (k + 2) a) (n - 8)
    else if n < 24 then bit (apu_look8 (k + 1) a) (n - 16) else n < 32 \<and> bit (apu_look8 k a) (n - 24))"
proof -
  have k: "k + 2 + 1 = k + 3" by simp
  have n: "n - LENGTH(16) = n - 16" "n - 16 - 8 = n - 24" "n < LENGTH(32) \<longleftrightarrow> n < 32" "n < LENGTH(16) \<longleftrightarrow> n < 16" by simp_all
  show ?thesis
    by (simp only: apu_word32_def apu_word16_def bit_word_cat_iff bit_pair16 k n) (cases "n < 24"; fastforce)
qed

lemma bit_sint32: "bit (sint (w :: 32 word)) n \<longleftrightarrow> bit w (min n 31)"
  using bit_imp_le_length [of w n] by (auto simp: bit_sint_iff min_def)

lemma pop_fix32: "apu_pop_fix32 a = (sint (apu_word32 0 a), apu_move (-4) a)"
proof -
  let ?w = "apu_word32 0 a"
  have "((sint (u32 (shl (uint (apu_look8 0 a)) 24)) OR shl (uint (apu_look8 1 a)) 16) OR
      shl (uint (apu_look8 2 a)) 8) OR uint (apu_look8 3 a) = sint ?w" (is "?d = _")
  proof (rule bit_eqI)
    fix n
    have "bit ?d n \<longleftrightarrow> bit (u32 (shl (uint (apu_look8 0 a)) 24)) (min n 31) \<or>
        16 \<le> n \<and> bit (apu_look8 1 a) (n - 16) \<or> 8 \<le> n \<and> bit (apu_look8 2 a) (n - 8) \<or> bit (apu_look8 3 a) n"
      by (simp only: bit_or_iff bit_sint32 bit_push_bit_iff_int bit_uint8 disj_assoc)
    moreover have "bit (u32 (shl (uint (apu_look8 0 a)) 24)) (min n 31) \<longleftrightarrow>
        24 \<le> min n 31 \<and> bit (apu_look8 0 a) (min n 31 - 24)"
      by (simp only: bit_word_of_int_iff bit_push_bit_iff_int bit_uint8) auto
    moreover have "bit (sint ?w) n \<longleftrightarrow> bit ?w (min n 31)"
      by (rule bit_sint32)
    ultimately show "bit ?d n \<longleftrightarrow> bit (sint ?w) n"
      by (auto simp: bit_word32 min_def dest: bit_imp_le_length split: if_splits)
  qed
  moreover have "\<not> sint ?w > 2147483647" using sint_lt [of ?w] by simp
  ultimately show ?thesis
    by (simp only: apu_pop_fix32_def apu_pop8_eq Let_def prod.case apu_look_move apu_move_move) simp
qed

definition push_bytes32 :: "32 word \<Rightarrow> apu \<Rightarrow> apu" where
  "push_bytes32 w a = apu_push8 (shr (uint w) 24) (apu_push8 (shr (uint w) 16)
     (apu_push8 (shr (uint w) 8) (apu_push8 (uint w) a)))"

lemma word32_bytes: "apu_word32 0 (push_bytes32 w a) = w"
  by (rule bit_word_eqI)
    (simp only: bit_word32 push_bytes32_def, auto simp: bit_u8 bit_ucast_iff bit_drop_bit_eq bit_uint_iff)

lemma look_bytes32: "0 \<le> k \<Longrightarrow> k < 12 \<Longrightarrow> apu_look8 (k + 4) (push_bytes32 w a) = apu_look8 k a"
  by (simp add: push_bytes32_def)

lemma bit_int_255: "bit (255 :: int) n \<longleftrightarrow> n < 8"
  using bit_mask_iff [of 8 n, where 'a = int] by (simp add: mask_eq_exp_minus_1)

lemma byte_of_u32: "m \<le> 24 \<Longrightarrow> u8 (shr d m AND 0xff) = u8 (shr (uint (u32 d)) m)"
  by (rule bit_word_eqI)
    (auto simp: bit_word_of_int_iff bit_and_iff bit_drop_bit_eq bit_uint_iff bit_int_255)

lemma push_fix32:
  "apu_push_fix32 d a = push_bytes32 (u32 d) (apu_or
     ((if d = 0 then APU_F_ZERO else if d < 0 then APU_F_SIGN else 0) OR
      (if d > 4294967295 \<or> d < - 4294967296 then APU_F_OVERFLOW else 0)) a)"
proof -
  have p: "apu_push8 (shr D 24 AND 0xff) (apu_push8 (shr D 16 AND 0xff) (apu_push8 (shr D 8 AND 0xff)
      (apu_push8 (D AND 0xff) b))) = push_bytes32 (u32 D) b" for D b
    using byte_of_u32 [of 8 D] byte_of_u32 [of 16 D] byte_of_u32 [of 24 D] byte_of_u32 [of 0 D]
    by (simp only: push_bytes32_def apu_push8_def) simp
  have d: "(4294967296 :: 32 word) = 0" by simp
  have "apu_or 0 b = b" "apu_or x (apu_or y b) = apu_or (x OR y) b" for b x y
    by (simp_all add: apu_or_def ac_simps)
  then show ?thesis
    by (auto simp: apu_push_fix32_def Let_def p d or.commute)
qed

definition apu_result32 :: "apu \<Rightarrow> 32 word \<Rightarrow> apu \<Rightarrow> bool" where
  "apu_result32 a w a' \<longleftrightarrow> apu_word32 0 a' = w \<and> (\<forall>k\<in>{4..<12}. apu_look8 k a' = apu_look8 (k + 4) a)"

lemma sint32_bounds: "- 2147483648 \<le> sint (w :: 32 word)" "sint w \<le> 2147483647"
  using sint_ge [of w] sint_lt [of w] by simp_all

lemma apu_word32_status [simp]: "apu_word32 k (a\<lparr>apu_status := x\<rparr>) = apu_word32 k a"
  "apu_word32 k (apu_move n a) = apu_word32 (k - n) a" "apu_word32 k (apu_or x a) = apu_word32 k a"
  by (simp_all add: apu_word32_def apu_word16_def algebra_simps)

lemma apu_result32_push:
  assumes "w = u32 d" "\<And>k. apu_look8 k b = apu_look8 (k + 8) a"
  shows "apu_result32 a w (apu_push_fix32 d b)"
proof -
  have "apu_look8 k (apu_push_fix32 d b) = apu_look8 (k + 4) a" if "4 \<le> k" "k < 12" for k
    using look_bytes32 [of "k - 4"] assms(2) [of "k - 4"] that by (simp add: push_fix32 algebra_simps)
  then show ?thesis by (simp add: apu_result32_def push_fix32 word32_bytes assms)
qed

lemma apu_fix32_aux:
  fixes a :: apu and L :: libm
  defines "x \<equiv> sint (apu_word32 0 a)" and "y \<equiv> sint (apu_word32 4 a)"
    and "res \<equiv> \<lambda>cmd. fst (apu_command L cmd a)"
  shows "apu_result32 a (apu_word32 4 a + apu_word32 0 a) (res 0x2C) \<and>
    apu_status (res 0x2C) = sz_status (y + x) OR
      (if - 2147483648 \<le> y + x \<and> y + x < 2147483648 then 0 else APU_F_CARRY) \<and>
    apu_result32 a (apu_word32 4 a - apu_word32 0 a) (res 0x2D) \<and>
    apu_status (res 0x2D) = sz_status (y - x) OR
      (if - 2147483648 \<le> y - x \<and> y - x < 2147483648 then 0 else APU_F_CARRY) \<and>
    apu_result32 a (apu_word32 4 a * apu_word32 0 a) (res 0x2E) \<and>
    apu_result32 a (u32 ((y * x) div 4294967296)) (res 0x36) \<and>
    (if x = 0 then apu_status (res 0x2F) = APU_F_ZERODIV \<and> apu_word32 0 (res 0x2F) = apu_word32 4 a
     else apu_result32 a (u32 (y sdiv x)) (res 0x2F))"
proof -
  let ?a = "a\<lparr>apu_status := 0\<rparr>" and ?b = "apu_move (-8) (a\<lparr>apu_status := 0\<rparr>)"
  note b = sint32_bounds [of "apu_word32 0 a", folded x_def] sint32_bounds [of "apu_word32 4 a", folded y_def]
  have l: "apu_look8 k ?b = apu_look8 (k + 8) a" for k by simp
  have st: "apu_status (apu_carry d 0x80000000 (apu_push_fix32 d ?b)) =
      sz_status d OR (if - 2147483648 \<le> d \<and> d < 2147483648 then 0 else APU_F_CARRY)"
    if "- 4294967296 \<le> d" "d \<le> 4294967295" for d
    using that by (simp add: push_fix32 push_bytes32_def apu_carry_def sz_status_def APU_F_ZERO_def APU_F_SIGN_def
        APU_F_CARRY_def APU_F_OVERFLOW_def)
  have ca: "apu_result32 a w (apu_carry d 0x80000000 c) = apu_result32 a w c" for d c w
    by (simp add: apu_carry_def apu_result32_def)
  have res: "res 0x2C = apu_carry (x + y) 0x80000000 (apu_push_fix32 (x + y) ?b)"
       "res 0x2D = apu_carry (y - x) 0x80000000 (apu_push_fix32 (y - x) ?b)"
       "res 0x2E = apu_push_fix32 (x * y) ?b"
       "res 0x36 = apu_push_fix32 (shr (x * y) 32) ?b"
       "res 0x2F = (if x \<noteq> 0 then apu_push_fix32 (y sdiv x) ?b else apu_or APU_F_ZERODIV (apu_move (-4) ?a))"
    by (simp_all add: res_def apu_command_def apu_fix32_op_def Let_def pop_fix32 x_def y_def)
  note p = apu_result32_push [OF _ l]
  have "apu_result32 a (apu_word32 4 a + apu_word32 0 a) (res 0x2C)"
    unfolding res ca by (rule p) (simp add: x_def y_def)
  moreover have "apu_result32 a (apu_word32 4 a - apu_word32 0 a) (res 0x2D)"
    unfolding res ca by (rule p) (simp add: x_def y_def)
  moreover have "apu_result32 a (apu_word32 4 a * apu_word32 0 a) (res 0x2E)"
    unfolding res by (rule p) (simp add: x_def y_def)
  moreover have "apu_result32 a (u32 ((y * x) div 4294967296)) (res 0x36)"
    unfolding res by (rule p) (simp add: drop_bit_eq_div mult.commute)
  moreover have "x \<noteq> 0 \<Longrightarrow> apu_result32 a (u32 (y sdiv x)) (res 0x2F)"
    unfolding res by (simp add: p)
  moreover have "apu_status (apu_or APU_F_ZERODIV (apu_move (-4) ?a)) = APU_F_ZERODIV"
    "apu_word32 0 (apu_or APU_F_ZERODIV (apu_move (-4) ?a)) = apu_word32 4 a"
    by simp_all
  moreover have "apu_status (res 0x2C) = sz_status (y + x) OR
      (if - 2147483648 \<le> y + x \<and> y + x < 2147483648 then 0 else APU_F_CARRY)"
    unfolding res using b st [of "x + y"] by (simp add: add.commute)
  moreover have "apu_status (res 0x2D) = sz_status (y - x) OR
      (if - 2147483648 \<le> y - x \<and> y - x < 2147483648 then 0 else APU_F_CARRY)"
    unfolding res using b st [of "y - x"] by simp
  ultimately show ?thesis by (simp add: res(5))
qed

text \<open>the 32-bit commands, the same statement at their width.\<close>

lemma apu_fix32_correct:
  "let x = sint (apu_word32 0 a); y = sint (apu_word32 4 a); res = (\<lambda>cmd. fst (apu_command L cmd a)) in
    apu_result32 a (apu_word32 4 a + apu_word32 0 a) (res 0x2C) \<and>
    apu_status (res 0x2C) = sz_status (y + x) OR
      (if - 2147483648 \<le> y + x \<and> y + x < 2147483648 then 0 else APU_F_CARRY) \<and>
    apu_result32 a (apu_word32 4 a - apu_word32 0 a) (res 0x2D) \<and>
    apu_status (res 0x2D) = sz_status (y - x) OR
      (if - 2147483648 \<le> y - x \<and> y - x < 2147483648 then 0 else APU_F_CARRY) \<and>
    apu_result32 a (apu_word32 4 a * apu_word32 0 a) (res 0x2E) \<and>
    apu_result32 a (u32 ((y * x) div 4294967296)) (res 0x36) \<and>
    (if x = 0 then apu_status (res 0x2F) = APU_F_ZERODIV \<and> apu_word32 0 (res 0x2F) = apu_word32 4 a
     else apu_result32 a (u32 (y sdiv x)) (res 0x2F))"
  unfolding Let_def by (rule apu_fix32_aux)

section \<open>Stack commands\<close>

lemma mod16_inj: "0 \<le> k \<Longrightarrow> k < 16 \<Longrightarrow> 0 \<le> d \<Longrightarrow> d < 16 \<Longrightarrow> (t - k) mod 16 = (t - d) mod (16 :: int) \<longleftrightarrow> k = d"
  using mod16_shift [of "k - d" "t - d"] mod16_shift [of "d - k" "t - k"] by (cases k d rule: linorder_cases) auto

lemma apu_look_poke [simp]:
  assumes "0 \<le> k" "k < 16" "0 \<le> d" "d < 16"
  shows "apu_look8 k (apu_poke d v a) = (if k = d then v else apu_look8 k a)"
proof -
  have "nat ((t - k) mod 16) = nat ((t - d) mod 16) \<longleftrightarrow> k = d" for t :: int
    using mod16_inj [OF assms] by (metis eq_nat_nat_iff pos_mod_sign zero_less_numeral)
  then show ?thesis by (simp add: apu_poke_def apu_look8_def apu_idx_def and_15)
qed

lemma apu_status_poke [simp]: "apu_status (apu_poke d v a) = apu_status a"
  by (simp add: apu_poke_def)

lemma byte_sum_0: "uint (x :: 8 word) + uint (y :: 8 word) = 0 \<longleftrightarrow> pair16 x y = 0"
  using uint_ge_0 [of x] uint_ge_0 [of y] by (simp only: word_uint_eq_iff uint_pair16 unsigned_0) linarith

lemma sign_bit: "uint (apu_look8 k a) AND 128 \<noteq> 0 \<longleftrightarrow> bit (apu_look8 k a) 7"
  using and_exp_bit [of _ 7] by (simp add: bit_uint8)

text \<open>The sixteen bytes from the top down, and the two status bits of a 16-bit or 32-bit top.\<close>

definition apu_view :: "apu \<Rightarrow> 8 word list" where
  "apu_view a = map (\<lambda>k. apu_look8 k a) [0..15]"

definition sz_word :: "bool \<Rightarrow> bool \<Rightarrow> 8 word" where
  "sz_word neg zero = (if neg then APU_F_SIGN else 0) OR (if zero then APU_F_ZERO else 0)"

lemma apu_view_list: "apu_view a = map (\<lambda>k. apu_look8 k a) [0, 1, 2, 3, 4, 5, 6, 7, 8, 9, 10, 11, 12, 13, 14, 15]"
  by (simp add: apu_view_def upto_rec1)

lemma look_wrap: "apu_look8 (k + 16) a = apu_look8 k a"
proof -
  have "(t - (k + 16)) mod 16 = (t - k) mod 16" for t :: int
  proof -
    have "t - (k + 16) = (t - k) + (- 1) * 16" by simp
    then show ?thesis by (simp only: mod_mult_self1)
  qed
  then show ?thesis by (simp add: apu_look8_def apu_idx_def and_15)
qed

lemma sint_neg_bit: "sint (w :: 16 word) < 0 \<longleftrightarrow> bit w 15" "sint (x :: 32 word) < 0 \<longleftrightarrow> bit x 31"
  using bit_last_iff [of w] bit_last_iff [of x] by simp_all

lemma sz16:
  "apu_look8 k (apu_sz_fix16 a) = apu_look8 k a"
  "apu_status (apu_sz_fix16 a) = apu_status a OR sz_word (sint (apu_word16 0 a) < 0) (apu_word16 0 a = 0)"
  by (simp_all add: apu_sz_fix16_def Let_def sign_bit sint_neg_bit byte_sum_0 sz_word_def apu_word16_def bit_pair16 or.assoc)

lemma sz32:
  "apu_look8 k (apu_sz_fix32 a) = apu_look8 k a"
  "apu_status (apu_sz_fix32 a) = apu_status a OR sz_word (sint (apu_word32 0 a) < 0) (apu_word32 0 a = 0)"
proof -
  have "apu_word32 0 a = 0 \<longleftrightarrow> apu_word16 0 a = 0 \<and> apu_word16 2 a = 0"
  proof
    assume "apu_word32 0 a = 0"
    then have z: "\<not> bit (apu_word32 0 a) n" for n by simp
    have "\<not> bit (apu_word16 0 a) n" if "n < 16" for n
      using z [of "n + 16"] that by (simp add: apu_word32_def bit_word_cat_iff)
    moreover have "\<not> bit (apu_word16 2 a) n" if "n < 16" for n
      using z [of n] that by (simp add: apu_word32_def bit_word_cat_iff)
    ultimately show "apu_word16 0 a = 0 \<and> apu_word16 2 a = 0" by (auto intro!: bit_word_eqI)
  qed (simp add: apu_word32_def bit_eq_iff [where 'a = "32 word"] bit_word_cat_iff)
  moreover have "uint (apu_look8 0 a) + uint (apu_look8 1 a) + uint (apu_look8 2 a) + uint (apu_look8 3 a) = 0 \<longleftrightarrow>
      uint (apu_look8 0 a) + uint (apu_look8 1 a) = 0 \<and> uint (apu_look8 2 a) + uint (apu_look8 3 a) = 0"
    using uint_ge_0 [of "apu_look8 0 a"] uint_ge_0 [of "apu_look8 1 a"] uint_ge_0 [of "apu_look8 2 a"]
      uint_ge_0 [of "apu_look8 3 a"] by linarith
  ultimately have z: "uint (apu_look8 0 a) + uint (apu_look8 1 a) + uint (apu_look8 2 a) + uint (apu_look8 3 a) = 0 \<longleftrightarrow>
      apu_word32 0 a = 0"
    by (simp only: byte_sum_0) (simp add: apu_word16_def)
  show "apu_look8 k (apu_sz_fix32 a) = apu_look8 k a" by (simp add: apu_sz_fix32_def Let_def)
  show "apu_status (apu_sz_fix32 a) = apu_status a OR sz_word (sint (apu_word32 0 a) < 0) (apu_word32 0 a = 0)"
    by (simp add: apu_sz_fix32_def Let_def z sign_bit sint_neg_bit sz_word_def bit_word32 or.assoc)
qed

lemma sz_float: "apu_look8 k (apu_sz_float a) = apu_look8 k a"
  by (simp add: apu_sz_float_def Let_def)

lemma stack_ops:
  assumes "v = apu_view a"
  shows "apu_view (apu_copy 3 1 (apu_copy 2 0 (apu_move 2 a))) = take 2 v @ take 14 v"
    "apu_view (apu_dup32 a) = take 4 v @ take 12 v"
    "apu_view (apu_move (-2) a) = rotate 2 v"
    "apu_view (apu_move (-4) a) = rotate 4 v"
    "apu_view (apu_xchg 1 3 (apu_xchg 0 2 a)) = take 2 (drop 2 v) @ take 2 v @ drop 4 v"
    "apu_view (apu_xchg32 a) = take 4 (drop 4 v) @ take 4 v @ drop 8 v"
  using look_wrap [of 0 a] look_wrap [of 1 a] look_wrap [of 2 a] look_wrap [of 3 a]
  by (simp_all add: assms apu_view_list apu_copy_def apu_dup32_def apu_xchg_def apu_xchg32_def Let_def
      rotate_drop_take)

lemma apu_view_fields:
  "apu_view (apu_sz_fix16 a) = apu_view a" "apu_view (apu_sz_fix32 a) = apu_view a"
  "apu_view (apu_sz_float a) = apu_view a" "apu_view (a\<lparr>apu_status := x\<rparr>) = apu_view a"
  by (simp_all add: apu_view_def sz16 sz32 sz_float)

lemma stack_op_status:
  "apu_status (apu_copy m n a) = apu_status a" "apu_status (apu_xchg m n a) = apu_status a"
  "apu_status (apu_dup32 a) = apu_status a" "apu_status (apu_xchg32 a) = apu_status a"
  by (simp_all add: apu_copy_def apu_xchg_def apu_dup32_def apu_xchg32_def Let_def)


end
