(* ===== verification/Ticks_Devices.thy ===== *)
theory Ticks_Devices
  imports Ticks_Am9511
begin

text \<open>
  The port devices of the emulator: the console of \<open>hook_console.c\<close>, the ACIA of \<open>acia.c\<close>, the
  i8255 of \<open>i8255.c\<close>, and the port dispatch \<open>in()\<close> and \<open>out()\<close> of \<open>ticks.c\<close>. The terminal itself
  is the \<open>host\<close> component of the state: queues of what the reads will return and the bytes written.
\<close>

section \<open>Console\<close>

text \<open>\<open>getch()\<close> returns the character put back, else the next one, or \<open>EOF\<close> (-1).\<close>

definition getch :: "cpu \<Rightarrow> int \<times> cpu" where
  "getch s = (case ungot (host s) of
     Some ch \<Rightarrow> (ch, s\<lparr>host := (host s)\<lparr>ungot := None\<rparr>\<rparr>)
   | None \<Rightarrow> (case getch_in (host s) of
       [] \<Rightarrow> (-1, s)
     | ch # rest \<Rightarrow> (ch, s\<lparr>host := (host s)\<lparr>getch_in := rest\<rparr>\<rparr>)))"

text \<open>\<open>kbhit()\<close>: 1 if a non-blocking read gives a character (which is put back), -1 otherwise.\<close>

definition kbhit :: "cpu \<Rightarrow> int \<times> cpu" where
  "kbhit s =
     (let (ch, s) = (case ungot (host s) of
            Some ch \<Rightarrow> (ch, s\<lparr>host := (host s)\<lparr>ungot := None\<rparr>\<rparr>)
          | None \<Rightarrow> (case kbhit_in (host s) of
              [] \<Rightarrow> (-1, s)
            | ch # rest \<Rightarrow> (ch, s\<lparr>host := (host s)\<lparr>kbhit_in := rest\<rparr>\<rparr>)))
      in if ch \<noteq> -1 then (1, s\<lparr>host := (host s)\<lparr>ungot := Some ch\<rparr>\<rparr>) else (-1, s))"

definition fputc :: "int \<Rightarrow> cpu \<Rightarrow> cpu" where
  "fputc val s = s\<lparr>host := (host s)\<lparr>stdout := u8 val # stdout (host s)\<rparr>\<rparr>"

definition hook_console_out :: "int \<Rightarrow> int \<Rightarrow> cpu \<Rightarrow> cpu option" where
  "hook_console_out port val s =
     (if c_ioport s \<noteq> -1 \<and> port AND 0xff = c_ioport s then Some (fputc val s) else None)"

definition hook_console_in :: "int \<Rightarrow> cpu \<Rightarrow> int \<times> cpu" where
  "hook_console_in port s =
     (if c_ioport s \<noteq> -1 \<and> port AND 0xff = c_ioport s then getch s else (-1, s))"

text \<open>\<open>SET_ERROR\<close>: the carry tells an error, whose code goes to A.\<close>

definition SET_ERROR :: "int \<Rightarrow> cpu \<Rightarrow> cpu" where
  "SET_ERROR error s =
     (if error = 0 then s\<lparr>fl := (fl s)\<lparr>ff := u16 (uint (ff (fl s)) AND -257)\<rparr>\<rparr>
      else set_reg rA (u8 error) (s\<lparr>fl := (fl s)\<lparr>ff := u16 (uint (ff (fl s)) OR 256)\<rparr>\<rparr>))"

definition cmd_printchar :: "cpu \<Rightarrow> cpu" where
  "cmd_printchar s =
     (let l = regs s rL;
          s = (if l = 10 \<or> l = 13 then fputc 10 s
               else if l = 8 then fputc 68 (fputc 49 (fputc 91 (fputc 27 s)))
               else fputc (uint l) s)
      in SET_ERROR 0 s)"

text \<open>Cooked and raw mode read the same stream of characters.\<close>

definition cmd_readkey :: "cpu \<Rightarrow> cpu" where
  "cmd_readkey s =
     (let (val, s) = getch s in
      if val \<noteq> -1 then SET_ERROR 0 (set_reg rH (u8 (val sdiv 256)) (set_reg rL (u8 (val smod 256)) s))
      else set_reg rL 255 (set_reg rH 255 (SET_ERROR 4 s)))"

definition cmd_pollkey :: "cpu \<Rightarrow> cpu" where
  "cmd_pollkey s =
     (let (val, s) = kbhit s in
      if val \<noteq> 0 then
        (let (val, s) = getch s
         in SET_ERROR 0 (set_reg rH (u8 (val sdiv 256)) (set_reg rL (u8 (val smod 256)) s)))
      else SET_ERROR 0 (set_reg rL 255 (set_reg rH 255 s)))"

section \<open>ACIA\<close>

definition acia_out :: "int \<Rightarrow> int \<Rightarrow> cpu \<Rightarrow> cpu option" where
  "acia_out port val s =
     (if port AND 0xff = 0x80 then Some s
      else if port AND 0xff = 0x81 then Some (fputc val s)
      else None)"

text \<open>\<open>(have_key ? SER_RDRF : 0) | SER_TDRE\<close>\<close>

definition acia_in :: "int \<Rightarrow> cpu \<Rightarrow> int \<times> cpu" where
  "acia_in port s =
     (if port AND 0xff = 0x80 then
        (let (have_key, s) = kbhit s in ((if have_key \<noteq> 0 then 0x01 else 0) OR 0x02, s))
      else if port AND 0xff = 0x81 then getch s
      else (-1, s))"

section \<open>Port dispatch\<close>

definition in_port :: "int \<Rightarrow> cpu \<Rightarrow> int \<times> cpu" where
  "in_port port s =
     (let (val, s) = hook_console_in port s in
      if val \<noteq> -1 then (val, s)
      else
        (let (val, s) = apu_in port s in
         if val \<noteq> -1 then (val, s)
         else
           (let (val, s) = acia_in port s in
            if val \<noteq> -1 then (val, s)
            else if memory_in port s \<noteq> -1 then (memory_in port s, s)
            else (if port AND 1 \<noteq> 0 then 255 else uint (ear s), s))))"

definition out_port :: "int \<Rightarrow> int \<Rightarrow> cpu \<Rightarrow> cpu" where
  "out_port port val s = (case hook_console_out port val s of
     Some s \<Rightarrow> s
   | None \<Rightarrow> (case apu_out port val s of
       Some s \<Rightarrow> s
     | None \<Rightarrow> (case acia_out port val s of
         Some s \<Rightarrow> s
       | None \<Rightarrow> memory_handle_paging port val s)))"

section \<open>The i8255\<close>

text \<open>
  The latch of \<open>i8255.c\<close>. The device's callbacks belong to its creator: \<open>input\<close> is an argument of
  the read, and a write returns the call of \<open>output\<close> it makes.
\<close>

record i8255 =
  porta :: "8 word"
  portb :: "8 word"
  portc :: "8 word"
  control :: "8 word"

definition I8255_PORT_C_LOWER_INPUT :: "8 word" where "I8255_PORT_C_LOWER_INPUT = 0x01"
definition I8255_PORT_B_INPUT :: "8 word" where "I8255_PORT_B_INPUT = 0x02"
definition I8255_PORT_C_UPPER_INPUT :: "8 word" where "I8255_PORT_C_UPPER_INPUT = 0x08"
definition I8255_PORT_A_INPUT :: "8 word" where "I8255_PORT_A_INPUT = 0x10"
definition I8255_MODE_SET :: "8 word" where "I8255_MODE_SET = 0x80"

definition i8255_read :: "(nat \<Rightarrow> 8 word) option \<Rightarrow> i8255 \<Rightarrow> 8 word \<Rightarrow> 8 word" where
  "i8255_read input dev addr =
     (let inp = (\<lambda>p. case input of Some f \<Rightarrow> f p | None \<Rightarrow> 0xff) in
      if addr AND 3 = 0 then (if control dev AND I8255_PORT_A_INPUT \<noteq> 0 then inp 0 else porta dev)
      else if addr AND 3 = 1 then (if control dev AND I8255_PORT_B_INPUT \<noteq> 0 then inp 1 else portb dev)
      else if addr AND 3 = 2 then
        (let t = inp 2;
             t = (if control dev AND I8255_PORT_C_UPPER_INPUT \<noteq> 0 then (t AND 0x0f) OR (portc dev AND 0xf0) else t)
         in if control dev AND I8255_PORT_C_LOWER_INPUT \<noteq> 0 then (t AND 0xf0) OR (portc dev AND 0x0f) else t)
      else control dev)"

definition i8255_write :: "bool \<Rightarrow> i8255 \<Rightarrow> 8 word \<Rightarrow> 8 word \<Rightarrow> i8255 \<times> (nat \<times> 8 word) option" where
  "i8255_write output dev addr val =
     (let c_in = I8255_PORT_C_LOWER_INPUT OR I8255_PORT_C_UPPER_INPUT in
      if addr AND 3 = 0 then
        (dev\<lparr>porta := val\<rparr>, if output \<and> control dev AND I8255_PORT_A_INPUT = 0 then Some (0, val) else None)
      else if addr AND 3 = 1 then
        (dev\<lparr>portb := val\<rparr>, if output \<and> control dev AND I8255_PORT_B_INPUT = 0 then Some (1, val) else None)
      else if addr AND 3 = 2 then
        (dev\<lparr>portc := val\<rparr>,
         if control dev AND c_in = c_in then None
         else if control dev AND c_in \<noteq> 0 \<and> output then Some (2, val) else None)
      else if val AND I8255_MODE_SET \<noteq> 0 then
        (let dev = (if val AND I8255_PORT_A_INPUT \<noteq> 0 then dev\<lparr>porta := 0\<rparr> else dev);
             dev = (if val AND I8255_PORT_B_INPUT \<noteq> 0 then dev\<lparr>portb := 0\<rparr> else dev);
             dev = (if val AND I8255_PORT_C_LOWER_INPUT \<noteq> 0 then dev\<lparr>portc := portc dev AND 0x0f\<rparr> else dev);
             dev = (if val AND I8255_PORT_C_UPPER_INPUT \<noteq> 0 then dev\<lparr>portc := portc dev AND 0xf0\<rparr> else dev)
         in (dev, None))
      else (dev, None))"

definition i8255_reset :: "bool \<Rightarrow> i8255 \<Rightarrow> i8255" where
  "i8255_reset output dev =
     (let dev = dev\<lparr>control := 0x9B\<rparr>;
          dev = fst (i8255_write output dev 0 0xff);
          dev = fst (i8255_write output dev 1 0xff)
      in fst (i8255_write output dev 2 0xff))"

definition i8255_create :: "bool \<Rightarrow> i8255" where
  "i8255_create output = i8255_reset output \<lparr>porta = 0, portb = 0, portc = 0, control = 0\<rparr>"

section \<open>Properties\<close>

lemma i8255_control_write: "control (fst (i8255_write out dev addr v)) = control dev"
  by (simp add: i8255_write_def Let_def)

lemma i8255_control_writes:
  "control (fold (\<lambda>(a, v) d. fst (i8255_write out d a v)) ws dev) = control dev"
  by (induction ws arbitrary: dev) (auto simp: i8255_control_write)

text \<open>no sequence of writes changes the mode an i8255 is created with: ports A and B keep
  reading their inputs, and no write to them reaches the output callback.\<close>

lemma i8255_mode_fixed:
  "let dev = fold (\<lambda>(a, v) d. fst (i8255_write out d a v)) ws (i8255_create out) in
    control dev = 0x9B \<and> i8255_read (Some f) dev 0 = f 0 \<and> i8255_read (Some f) dev 1 = f 1 \<and>
    snd (i8255_write out dev 0 v) = None \<and> snd (i8255_write out dev 1 v) = None \<and>
    snd (i8255_write out dev 2 v) = None"
proof -
  have *: "control d = 0x9B \<and> i8255_read (Some f) d 0 = f 0 \<and> i8255_read (Some f) d 1 = f 1 \<and>
      snd (i8255_write out d 0 v) = None \<and> snd (i8255_write out d 1 v) = None \<and>
      snd (i8255_write out d 2 v) = None" if "control d = 0x9B" for d
    using that by (simp add: Let_def i8255_read_def i8255_write_def I8255_PORT_A_INPUT_def I8255_PORT_B_INPUT_def
        I8255_PORT_C_UPPER_INPUT_def I8255_PORT_C_LOWER_INPUT_def)
  define dev where "dev = fold (\<lambda>(a, v) d. fst (i8255_write out d a v)) ws (i8255_create out)"
  have "control dev = 0x9B"
    by (simp add: dev_def i8255_control_writes i8255_create_def i8255_reset_def i8255_control_write Let_def)
  from * [OF this] show ?thesis unfolding Let_def dev_def .
qed

text \<open>the ACIA status port reports a received character whether or not one is there: \<open>kbhit()\<close>
  signals "no key" by -1, which the test takes for a key.\<close>

lemma acia_always_ready:
  "fst (acia_in 0x80 s) = 3"
  by (simp add: acia_in_def kbhit_def Let_def split: option.split list.split prod.split)

text \<open>Reading \<open>n\<close> bytes from the APU data port.\<close>

fun in_bytes :: "nat \<Rightarrow> cpu \<Rightarrow> int list \<times> cpu" where
  "in_bytes 0 s = ([], s)"
| "in_bytes (Suc n) s =
     (let (v, s) = in_port 0x42 s; (vs, s) = in_bytes n s in (v # vs, s))"

lemma out_port_apu: "c_ioport s \<noteq> 0x42 \<Longrightarrow> out_port 0x42 (uint (b :: 8 word)) s = apu_write_data b s"
  by (simp add: out_port_def apu_out_def hook_console_out_def)

lemma uint_nonnegative_m1: "uint x \<noteq> -1"
  using uint_ge_0 [of x] by linarith

lemma in_port_apu:
  "c_ioport s \<noteq> 0x42 \<Longrightarrow> in_port 0x42 s = (uint (apu_look8 0 (apu s)), s\<lparr>apu := snd (apu_pop8 (apu s))\<rparr>)"
  using uint_nonnegative_m1 [of "apu_look8 0 (apu s)"]
  by (simp add: in_port_def hook_console_in_def apu_in_def apu_read_data_def Let_def apu_pop8_eq)

lemma out_bytes_apu:
  fixes bs :: "8 word list"
  shows "c_ioport s \<noteq> 0x42 \<Longrightarrow> fold (\<lambda>b s. out_port 0x42 (uint b) s) bs s =
    s\<lparr>apu := fold (\<lambda>b. apu_push8 (uint b)) bs (apu s)\<rparr>"
  by (induction bs arbitrary: s) (simp_all add: out_port_apu apu_write_data_def)

lemma in_bytes_apu:
  "c_ioport s \<noteq> 0x42 \<Longrightarrow> in_bytes n s =
    (map (\<lambda>k. uint (apu_look8 (int k) (apu s))) [0..<n], s\<lparr>apu := ((\<lambda>a. snd (apu_pop8 a)) ^^ n) (apu s)\<rparr>)"
proof (induction n arbitrary: s)
  case 0
  then show ?case by simp
next
  case (Suc n)
  have "[0..<Suc n] = 0 # map Suc [0..<n]" by (simp add: map_Suc_upt upt_conv_Cons del: upt_Suc)
  moreover have "((\<lambda>a. snd (apu_pop8 a)) ^^ n) (snd (apu_pop8 x)) = ((\<lambda>a. snd (apu_pop8 a)) ^^ Suc n) x" for x
    using funpow_swap1 [of "\<lambda>a. snd (apu_pop8 a)" n x] by simp
  ultimately show ?case
    using Suc by (simp add: in_port_apu ring.view_drop comp_def del: upt_Suc funpow.simps)
qed

text \<open>Up to sixteen bytes written to port 0x42 come back from it in reverse order; what lay
  below them on the APU stack, memory, registers and clock stay.\<close>

lemma apu_port_roundtrip:
  fixes bs :: "8 word list"
  assumes "c_ioport s \<noteq> 0x42" "length bs \<le> 16"
  shows "let (vs, s') = in_bytes (length bs) (fold (\<lambda>b s. out_port 0x42 (uint b) s) bs s) in
    vs = map uint (rev bs) \<and> s' = s\<lparr>apu := apu s'\<rparr> \<and>
    (\<forall>k. k + length bs < 16 \<longrightarrow> apu_look8 (int k) (apu s') = apu_look8 (int k) (apu s))"
proof -
  have "map (\<lambda>k. uint (apu_look8 (int k) (fold (\<lambda>b. apu_push8 (uint b)) bs (apu s)))) [0..<length bs] =
      map uint (rev bs)"
    using assms(2) by (intro nth_equalityI) (auto simp: ring.view_pushes [OF TrueI])
  then show ?thesis
    using assms(1) ring.view_pushes_drops [OF TrueI]
    by (simp add: out_bytes_apu in_bytes_apu)
qed

end
