(* ===== verification/Ticks_Zilog.thy ===== *)
theory Ticks_Zilog
  imports Ticks_Cb Ticks_Devices
begin

text \<open>
  The long Zilog instructions of \<open>src/src/ticks/zilog_inst.c\<close> (DAA, RLD, RRD and the compare and
  I/O block instructions), and the block transfers, port instructions and small register
  instructions that \<open>handle_ed_page\<close> of \<open>ticks.c\<close> spells out in its cases.
\<close>

section \<open>Register-pair steps\<close>

text \<open>\<open>++l || h++\<close> and \<open>l-- || h--\<close>.\<close>

definition inc_rr :: "reg \<Rightarrow> reg \<Rightarrow> cpu \<Rightarrow> cpu" where
  "inc_rr h l s =
     (let s = set_reg l (regs s l + 1) s
      in if regs s l = 0 then set_reg h (regs s h + 1) s else s)"

definition dec_rr :: "reg \<Rightarrow> reg \<Rightarrow> cpu \<Rightarrow> cpu" where
  "dec_rr h l s =
     (let old = regs s l;
          s = set_reg l (old - 1) s
      in if old = 0 then set_reg h (regs s h - 1) s else s)"

definition step_rr :: "bool \<Rightarrow> reg \<Rightarrow> reg \<Rightarrow> cpu \<Rightarrow> cpu" where
  "step_rr up h l s = (if up then inc_rr h l s else dec_rr h l s)"

text \<open>\<open>b|c\<close>\<close>

definition bc_left :: "cpu \<Rightarrow> bool" where
  "bc_left s \<longleftrightarrow> regs s rB OR regs s rC \<noteq> 0"

definition fast_TICKS :: "int \<Rightarrow> int \<Rightarrow> int \<Rightarrow> cpu \<Rightarrow> int" where
  "fast_TICKS r800 kc160 n s = (if isr800 s then r800 else if iskc160 s then kc160 else n)"

text \<open>\<open>mp= --pc, --pc\<close>: the instruction is fetched again.\<close>

definition repeat_insn :: "int \<Rightarrow> cpu \<Rightarrow> cpu" where
  "repeat_insn n s = s\<lparr>st := st s + n, mp := pc s - 1, pc := pc s - 2\<rparr>"

section \<open>DAA, RLD, RRD\<close>

text \<open>The correction of A, and whether it includes the carry (bit 8).\<close>

definition daa_incr :: "bool \<Rightarrow> int \<Rightarrow> flg \<Rightarrow> int" where
  "daa_incr z180 a g =
     (let t = (uint (fr g) XOR uint (fa g) XOR uint (fb g) XOR shr (uint (fb g)) 8) AND 16;
          n = uint (fb g) AND 512 \<noteq> 0;
          c = uint (ff g) AND 256 \<noteq> 0 in
      if z180 then
        (let u = (if t \<noteq> 0 \<or> (\<not> n \<and> a AND 0x0f > 9) then 6 else 0)
         in if c \<or> (\<not> n \<and> a > 0x99) then u OR 0x160 else u)
      else
        (let u = (if a OR (uint (ff g) AND 256) > 0x99 then 0x160 else 0)
         in if (a AND 15) OR t > 9 then u + 6 else u))"

definition DAA_TICKS :: "cpu \<Rightarrow> int" where
  "DAA_TICKS s = (if isez80 s then 1 else if isr800 s then 1 else if iskc160 s then 1 else 4)"

definition zilog_daa :: "cpu \<Rightarrow> cpu" where
  "zilog_daa s =
     (let s = ticks (DAA_TICKS s) s;
          a = uint (regs s rA);
          u = daa_incr (isz180 s) a (fl s);
          sub = uint (fb (fl s)) AND 512 \<noteq> 0;
          a' = u8 (if sub then a - u else a + u)
      in set_reg rA a' (s\<lparr>fl := \<lparr>ff = u16 (uint a' OR (u AND 256)), fr = u16 (uint a'), fa = u16 (a OR 256),
           fb = u16 (if sub then NOT u else u)\<rparr>\<rparr>))"

text \<open>The group RLD and RRD leave, from the new A.\<close>

definition digit_group :: "int \<Rightarrow> flg \<Rightarrow> flg" where
  "digit_group a g = \<lparr>ff = u16 ((uint (ff g) AND -256) OR a), fr = u16 a, fa = u16 (a OR 256), fb = 0\<rparr>"

definition zilog_rld :: "cpu \<Rightarrow> cpu" where
  "zilog_rld s =
     (let s = ticks (fast_TICKS 5 7 18 s) s;
          hl = pair16 (regs s rH) (regs s rL);
          s = s\<lparr>mp := hl\<rparr>;
          t = u16 (shl (uint (get_memory_data (uint hl) s)) 4 OR (uint (regs s rA) AND 15));
          a = u8 ((uint (regs s rA) AND 240) OR shr (uint t) 8);
          s = set_reg rA a (s\<lparr>fl := digit_group (uint a) (fl s)\<rparr>)
      in (put_mem hl (u8 (uint t)) s)\<lparr>mp := hl + 1\<rparr>)"

definition zilog_rrd :: "cpu \<Rightarrow> cpu" where
  "zilog_rrd s =
     (let s = ticks (fast_TICKS 5 7 18 s) s;
          hl = pair16 (regs s rH) (regs s rL);
          s = s\<lparr>mp := hl\<rparr>;
          t = u16 (uint (get_memory_data (uint hl) s) OR shl (uint (regs s rA)) 8);
          a = u8 ((uint (regs s rA) AND 240) OR (uint t AND 15));
          s = set_reg rA a (s\<lparr>fl := digit_group (uint a) (fl s)\<rparr>)
      in (put_mem hl (u8 (shr (uint t) 4)) s)\<lparr>mp := hl + 1\<rparr>)"

section \<open>Block compare\<close>

text \<open>
  The common body of \<open>zilog_cpi\<close>, \<open>zilog_cpd\<close>, \<open>zilog_cpir\<close>, \<open>zilog_cpdr\<close>. \<open>w\<close> is the
  difference byte; the last step keeps \<open>w\<close> less the half borrow for bits 5 and 3.
\<close>

definition cp_group :: "8 word \<Rightarrow> 16 word \<Rightarrow> int \<Rightarrow> bool \<Rightarrow> flg \<Rightarrow> flg" where
  "cp_group w t a left g =
     (let F = u16 ((uint (ff g) AND -256) OR (uint w AND -41));
          w' = (if (uint w XOR uint t XOR a) AND 16 \<noteq> 0 then w - 1 else w)
      in \<lparr>ff = u16 (uint F OR (shl (uint w') 4 AND 32) OR (uint w' AND 8)),
          fr = u16 ((uint w AND 127) OR shr (uint w) 7),
          fa = u16 ((a AND 127) OR (if left then 128 else 0)),
          fb = u16 (NOT (uint t OR 128) OR (if left then 128 else 0))\<rparr>)"

definition cp_block :: "bool \<Rightarrow> bool \<Rightarrow> cpu \<Rightarrow> cpu" where
  "cp_block up rep s =
     (let s = ticks (if isr800 s then 4 else 16) s;
          t = u16 (uint (get_memory_data (uint (regs s rL) OR shl (uint (regs s rH)) 8) s));
          w = u8 (uint (regs s rA) - uint t);
          s = step_rr up rH rL s;
          s = dec_rr rB rC s;
          s = s\<lparr>mp := mp s + (if up then 1 else -1)\<rparr>;
          s' = (if rep \<and> bc_left s \<and> w \<noteq> 0 then repeat_insn 5 s else s)
      in s'\<lparr>fl := cp_group w t (uint (regs s rA)) (bc_left s) (fl s)\<rparr>)"

definition zilog_cpi :: "cpu \<Rightarrow> cpu" where "zilog_cpi = cp_block True False"
definition zilog_cpd :: "cpu \<Rightarrow> cpu" where "zilog_cpd = cp_block False False"
definition zilog_cpir :: "cpu \<Rightarrow> cpu" where "zilog_cpir = cp_block True True"
definition zilog_cpdr :: "cpu \<Rightarrow> cpu" where "zilog_cpdr = cp_block False True"

section \<open>Block input and output\<close>

text \<open>The flags from the byte moved, the sum \<open>u\<close> and the new B.\<close>

definition io_group :: "16 word \<Rightarrow> 16 word \<Rightarrow> 8 word \<Rightarrow> flg" where
  "io_group t u b =
     (let F = u16 ((uint u AND 7) XOR uint b);
          u' = u16 (uint u AND 256)
      in \<lparr>ff = u16 (uint b OR uint u'), fr = u16 (uint b), fa = u16 (uint b XOR 128),
          fb = u16 (((shr 4928640 (nat ((uint F XOR shr (uint F) 4) AND 15)) XOR uint b) AND 128)
                 OR shr (uint u') 4 OR shl (uint t AND 128) 2)\<rparr>)"

definition in_block :: "bool \<Rightarrow> bool \<Rightarrow> cpu \<Rightarrow> cpu" where
  "in_block up rep s =
     (let s = ticks (if isr800 s then 4 else 16) s;
          port = pair16 (regs s rB) (regs s rC);
          s = s\<lparr>mp := port\<rparr>;
          (val, s) = in_port (uint port) s;
          t = u16 val;
          s = put_mem (pair16 (regs s rH) (regs s rL)) (u8 (uint t)) s;
          s = step_rr up rH rL s;
          d = (if up then 1 else -1);
          s = s\<lparr>mp := mp s + (if up then 1 else -1)\<rparr>;
          u = u16 (uint t + ((uint (regs s rC) + d) AND 255));
          b = regs s rB - 1;
          s = set_reg rB b s;
          s = (if rep \<and> b \<noteq> 0 then repeat_insn 5 s else s)
      in s\<lparr>fl := io_group t u b\<rparr>)"

definition zilog_ini :: "cpu \<Rightarrow> cpu" where "zilog_ini = in_block True False"
definition zilog_ind :: "cpu \<Rightarrow> cpu" where "zilog_ind = in_block False False"
definition zilog_inir :: "cpu \<Rightarrow> cpu" where "zilog_inir = in_block True True"
definition zilog_indr :: "cpu \<Rightarrow> cpu" where "zilog_indr = in_block False True"

definition out_block :: "bool \<Rightarrow> bool \<Rightarrow> cpu \<Rightarrow> cpu" where
  "out_block up rep s =
     (let s = ticks (if isr800 s then 4 else 16) s;
          b = regs s rB - 1;
          s = set_reg rB b s;
          port = pair16 (regs s rB) (regs s rC);
          s = s\<lparr>mp := port\<rparr>;
          t = u16 (uint (get_memory_data (uint (regs s rL) OR shl (uint (regs s rH)) 8) s));
          s = out_port (uint port) (uint t) s;
          s = s\<lparr>mp := mp s + (if up then 1 else -1)\<rparr>;
          s = step_rr up rH rL s;
          u = u16 (uint t + uint (regs s rL));
          s = (if rep \<and> b \<noteq> 0 then repeat_insn 5 s else s)
      in s\<lparr>fl := io_group t u b\<rparr>)"

definition zilog_outi :: "cpu \<Rightarrow> cpu" where "zilog_outi = out_block True False"
definition zilog_outd :: "cpu \<Rightarrow> cpu" where "zilog_outd = out_block False False"
definition zilog_otir :: "cpu \<Rightarrow> cpu" where "zilog_otir = out_block True True"
definition zilog_otdr :: "cpu \<Rightarrow> cpu" where "zilog_otdr = out_block False True"

section \<open>Block transfer\<close>

text \<open>On a Rabbit the I/O prefix only redirects the destination.\<close>

definition read_plain :: "int \<Rightarrow> cpu \<Rightarrow> 8 word" where
  "read_plain a s = get_memory_data a (s\<lparr>ioi := False, ioe := False\<rparr>)"

text \<open>\<open>(DE) = (HL)\<close>, the steps of HL, DE, BC, and the flags but P/V; \<open>t\<close> ends as the byte plus A.\<close>

definition ld_step :: "bool \<Rightarrow> cpu \<Rightarrow> cpu" where
  "ld_step up s =
     (let v = read_plain (uint (regs s rL) OR shl (uint (regs s rH)) 8) s;
          s = put_mem (pair16 (regs s rD) (regs s rE)) v s;
          s = step_rr up rH rL s;
          s = step_rr up rD rE s;
          s = dec_rr rB rC s;
          t = u16 (uint v + uint (regs s rA));
          g = fl s
      in s\<lparr>tt := t,
           fl := g\<lparr>fr := (if fr g \<noteq> 0 then 1 else fr g),
                   ff := u16 ((uint (ff g) AND -41) OR (uint t AND 8) OR (shl (uint t) 4 AND 32))\<rparr>\<rparr>)"

text \<open>\<open>fa= 0; b|c && (fa= 128); fb= fa\<close>\<close>

definition ld_pv :: "bool \<Rightarrow> cpu \<Rightarrow> cpu" where
  "ld_pv left s = s\<lparr>fl := (fl s)\<lparr>fa := (if left then 128 else 0), fb := (if left then 128 else 0)\<rparr>\<rparr>"

definition LDI_TICKS :: "cpu \<Rightarrow> int" where
  "LDI_TICKS s = (if israbbit s then 10 else if isz180 s then 12 else if isr800 s then 4
     else if iskc160 s then 4 else 16)"

definition LDIR_TICKS :: "cpu \<Rightarrow> int" where
  "LDIR_TICKS s = (if israbbit s then 7 else if isz180 s then 12 else if isr800 s then 4
     else if iskc160 s then 4 else 16)"

definition ld_once :: "bool \<Rightarrow> cpu \<Rightarrow> cpu" where
  "ld_once up s =
     (let s = ld_step up (ticks (LDI_TICKS s) s) in ld_pv (bc_left s) s)"

definition ld_repeat :: "bool \<Rightarrow> cpu \<Rightarrow> cpu" where
  "ld_repeat up s =
     (let s = ld_step up (ticks (LDIR_TICKS s) s);
          left = bc_left s;
          s = (if left then repeat_insn (if israbbit s then 6 else if isz180 s then 2 else 5) s else s);
          s = (if ioe s \<or> ioi s then s\<lparr>pc := pc s - 1\<rparr> else s)
      in ld_pv left s)"

definition LDI :: "cpu \<Rightarrow> cpu" where "LDI = ld_once True"
definition LDD :: "cpu \<Rightarrow> cpu" where "LDD = ld_once False"
definition LDIR :: "cpu \<Rightarrow> cpu" where "LDIR = ld_repeat True"
definition LDDR :: "cpu \<Rightarrow> cpu" where "LDDR = ld_repeat False"

section \<open>Port instructions\<close>

text \<open>\<open>IN r,(C)\<close>; the form with register field 6 keeps the value in \<open>t\<close>.\<close>

definition INR :: "lval \<Rightarrow> cpu \<Rightarrow> cpu" where
  "INR r s =
     (let s = ticks (if isr800 s then 3 else 12) s;
          port = pair16 (regs s rB) (regs s rC);
          s = s\<lparr>mp := port\<rparr>;
          (val, s) = in_port (uint port) s;
          s = set_lv r val s;
          s = s\<lparr>mp := mp s + 1\<rparr>;
          v = u16 (get_lv r s)
      in s\<lparr>fl := \<lparr>ff = u16 ((uint (ff (fl s)) AND -256) OR uint v), fr = v, fa = u16 (uint v OR 256), fb = 0\<rparr>\<rparr>)"

definition OUTR :: "8 word \<Rightarrow> cpu \<Rightarrow> cpu" where
  "OUTR v s =
     (let s = ticks (if isr800 s then 3 else 12) s;
          port = pair16 (regs s rB) (regs s rC);
          s = s\<lparr>mp := port\<rparr>;
          s = out_port (uint port) (uint v) s
      in s\<lparr>mp := mp s + 1\<rparr>)"

section \<open>Accumulator, interrupt and refresh registers\<close>

definition UNDOCUMENTED_NEG :: "cpu \<Rightarrow> cpu" where
  "UNDOCUMENTED_NEG s =
     (let s = ticks 8 s;
          B = u16 (NOT (uint (regs s rA)));
          F = u16 (uint B + 1);
          a = u8 (uint F)
      in set_reg rA a (s\<lparr>fl := \<lparr>ff = F, fr = u16 (uint a), fa = 0, fb = B\<rparr>\<rparr>))"

definition UNDOCUMENTED_IM0 :: "cpu \<Rightarrow> cpu" where "UNDOCUMENTED_IM0 s = (ticks 8 s)\<lparr>im := 0\<rparr>"
definition UNDOCUMENTED_IM1 :: "cpu \<Rightarrow> cpu" where "UNDOCUMENTED_IM1 s = (ticks 8 s)\<lparr>im := 1\<rparr>"
definition UNDOCUMENTED_IM2 :: "cpu \<Rightarrow> cpu" where "UNDOCUMENTED_IM2 s = (ticks 8 s)\<lparr>im := 2\<rparr>"

definition UNDOCUMENTED_RETN :: "cpu \<Rightarrow> cpu" where
  "UNDOCUMENTED_RETN s = RET (if israbbit s then 12 else if isz180 s then 12 else 14) s"

text \<open>\<open>LD A,I\<close> and \<open>LD A,R\<close>: S, Z from the byte, P/V from the interrupt flip-flop.\<close>

definition ld_a_special :: "int \<Rightarrow> int \<Rightarrow> cpu \<Rightarrow> cpu" where
  "ld_a_special n v s =
     (let s = ticks n s;
          a = u8 v;
          i = (if iff s then 128 else 0)
      in set_reg rA a (s\<lparr>fl := \<lparr>ff = u16 ((uint (ff (fl s)) AND -256) OR uint a),
           fr = (if a \<noteq> 0 then 1 else 0), fa = i, fb = i\<rparr>\<rparr>))"

definition LD_A_I :: "cpu \<Rightarrow> cpu" where
  "LD_A_I s = ld_a_special (if israbbit s then 4 else if isz180 s then 6 else 9) (uint (regs s rI)) s"

definition LDAR_TICKS :: "cpu \<Rightarrow> int" where
  "LDAR_TICKS s = (if israbbit s then 4 else if isz180 s then 6 else if isr800 s then 2
     else if iskc160 s then 2 else 9)"

definition LD_A_R :: "cpu \<Rightarrow> cpu" where
  "LD_A_R s = ld_a_special (LDAR_TICKS s) ((uint (regs s rR) AND 127) OR (uint (regs s rR7) AND 128)) s"

definition LD_R_A :: "cpu \<Rightarrow> cpu" where
  "LD_R_A s = (let s = LDRR rR rA rR rA (LDAR_TICKS s) s in set_reg rR7 (regs s rR) s)"

section \<open>Instructions on SP\<close>

definition put_hl_sp :: "int \<Rightarrow> int \<Rightarrow> cpu \<Rightarrow> cpu" where
  "put_hl_sp v b s =
     (let hl = pair16 (regs s rH) (regs s rL);
          h = regs s rH;
          F = u16 (shr v 8);
          s = set_reg rL (u8 v) (set_reg rH (u8 (uint F)) s)
      in s\<lparr>mp := hl + 1,
           fl := \<lparr>ff = F, fr = u16 (uint (regs s rH) OR shl (uint (regs s rL)) 8), fa = u16 (uint h),
                  fb = u16 b\<rparr>\<rparr>)"

definition SBC_HL_SP :: "cpu \<Rightarrow> cpu" where
  "SBC_HL_SP s =
     (let s = ticks (HL_TICKS s) s;
          v = rp rH rL s - uint (sp s) - (shr (uint (ff (fl s))) 8 AND 1)
      in put_hl_sp v (shr (NOT (uint (sp s))) 8) s)"

definition ADC_HL_SP :: "cpu \<Rightarrow> cpu" where
  "ADC_HL_SP s =
     (let s = ticks (HL_TICKS s) s;
          v = rp rH rL s + uint (sp s) + (shr (uint (ff (fl s))) 8 AND 1)
      in put_hl_sp v (shr (uint (sp s)) 8) s)"

definition LD_NN_SP :: "cpu \<Rightarrow> cpu" where
  "LD_NN_SP s =
     (let s = ticks (if isez80 s then 6 else if israbbit s then 15 else if isz180 s then 19
                else if isr800 s then 6 else if iskc160 s then 5 else 20) s;
          (x, s) = fetch s;
          (y, s) = fetch s;
          m = u16 (uint x OR shl (uint y) 8);
          s = put_mem m (lo8 (sp s)) (s\<lparr>mp := m\<rparr>);
          s = s\<lparr>mp := m + 1\<rparr>
      in put_mem (m + 1) (hi8 (sp s)) s)"

definition LD_SP_NN :: "cpu \<Rightarrow> cpu" where
  "LD_SP_NN s =
     (let s = ticks (if isez80 s then 6 else if israbbit s then 13 else if isz180 s then 18
                else if isr800 s then 6 else if iskc160 s then 5 else 20) s;
          (x, s) = fetch s;
          (y, s) = fetch s;
          t = u16 (uint x OR shl (uint y) 8);
          s = s\<lparr>tt := t, mp := t + 1\<rparr>;
          lo = get_memory_data (uint t) s;
          hi = get_memory_data (uint (t + 1)) s
      in s\<lparr>sp := pair16 hi lo\<rparr>)"

section \<open>Register pairs\<close>

lemma inc_rr_pair: "h \<noteq> l \<Longrightarrow> pair h l (inc_rr h l s) = pair h l s + 1"
  by (simp add: inc_rr_def Let_def pair_def set_reg_def pair16_succ)

lemma dec_rr_pair: "h \<noteq> l \<Longrightarrow> pair h l (dec_rr h l s) = pair h l s - 1"
  by (simp add: dec_rr_def Let_def pair_def set_reg_def pair16_pred)

lemma step_rr_pair: "h \<noteq> l \<Longrightarrow> pair h l (step_rr up h l s) = pair h l s + (if up then 1 else -1)"
  by (simp add: step_rr_def inc_rr_pair dec_rr_pair)

lemma inc_rr_frame: "inc_rr h l s = s\<lparr>regs := regs (inc_rr h l s)\<rparr>"
  "r \<noteq> h \<Longrightarrow> r \<noteq> l \<Longrightarrow> regs (inc_rr h l s) r = regs s r"
  by (simp_all add: inc_rr_def Let_def set_reg_def)

lemma dec_rr_frame: "dec_rr h l s = s\<lparr>regs := regs (dec_rr h l s)\<rparr>"
  "r \<noteq> h \<Longrightarrow> r \<noteq> l \<Longrightarrow> regs (dec_rr h l s) r = regs s r"
  by (simp_all add: dec_rr_def Let_def set_reg_def)

lemma step_rr_frame: "step_rr up h l s = s\<lparr>regs := regs (step_rr up h l s)\<rparr>"
  "r \<noteq> h \<Longrightarrow> r \<noteq> l \<Longrightarrow> regs (step_rr up h l s) r = regs s r"
  unfolding step_rr_def using inc_rr_frame dec_rr_frame by (auto split: if_splits)

lemma pair_step_other:
  "a \<noteq> h \<Longrightarrow> a \<noteq> l \<Longrightarrow> b \<noteq> h \<Longrightarrow> b \<noteq> l \<Longrightarrow> pair a b (step_rr up h l s) = pair a b s"
  "a \<noteq> h \<Longrightarrow> a \<noteq> l \<Longrightarrow> b \<noteq> h \<Longrightarrow> b \<noteq> l \<Longrightarrow> pair a b (dec_rr h l s) = pair a b s"
  by (simp_all add: pair_def step_rr_frame(2) dec_rr_frame(2))

lemma bc_left_pair: "bc_left s \<longleftrightarrow> pair rB rC s \<noteq> 0"
proof -
  have "pair16 0 0 = 0" by (simp add: word_uint_eq_iff uint_pair16)
  then show ?thesis
    using pair16_eq_iff [of "regs s rB" "regs s rC" 0 0] or_eq_0_iff [of "regs s rB" "regs s rC"]
    by (simp add: bc_left_def pair_def)
qed

section \<open>Decimal adjust\<close>

definition bcd :: "8 word \<Rightarrow> bool" where
  "bcd x \<longleftrightarrow> uint x div 16 \<le> 9 \<and> uint x mod 16 \<le> 9"

definition decimal :: "8 word \<Rightarrow> int" where
  "decimal x = 10 * (uint x div 16) + uint x mod 16"

text \<open>The correction as arithmetic: \<open>h\<close>, \<open>c\<close>, \<open>n\<close> are the half carry, carry and subtract flags.\<close>

definition daa_add :: "bool \<Rightarrow> bool \<Rightarrow> bool \<Rightarrow> int \<Rightarrow> int" where
  "daa_add h c n a =
     (if h \<or> \<not> n \<and> a mod 16 > 9 then 6 else 0) + (if c \<or> \<not> n \<and> a > 0x99 then 0x160 else 0)"

lemma or_exp:
  assumes "0 \<le> x" "x < 2 ^ n"
  shows "x OR 2 ^ n = x + (2 ^ n :: int)"
proof -
  have "\<not> bit x n" using assms by (simp add: bit_iff_odd div_pos_pos_trivial)
  then have "x AND 2 ^ n = 0" by (simp add: and_exp_eq_0_iff_not_bit)
  then show ?thesis by (rule disjunctive_add_eq_or [symmetric])
qed

lemma daa_incr_add:
  assumes "0 \<le> a" "a < 256" and "bit (uint (fb g)) 9 \<Longrightarrow> a mod 16 \<le> 9 \<or> bit (h_bits g) 4"
    and "bit (uint (fb g)) 9 \<Longrightarrow> a \<le> 0x99 \<or> bit (uint (ff g)) 8"
  shows "daa_incr z a g = daa_add (bit (h_bits g) 4) (bit (uint (ff g)) 8) (bit (uint (fb g)) 9) a"
proof -
  let ?h = "bit (h_bits g) 4" and ?c = "bit (uint (ff g)) 8" and ?n = "bit (uint (fb g)) 9"
  define t where "t = (uint (fr g) XOR uint (fa g) XOR uint (fb g) XOR shr (uint (fb g)) 8) AND 16"
  have "t = h_bits g" by (simp only: t_def h_bits_def)
  then have tb: "t = (if ?h then 16 else 0)"
    using bit_pow2 [of 4] bit_h_mask [of _ g] by (intro bit_eqI) (case_tac "n = 4"; simp)
  have n: "uint (fb g) AND 512 \<noteq> 0 \<longleftrightarrow> ?n" and c: "uint (ff g) AND 256 \<noteq> 0 \<longleftrightarrow> ?c"
    using and_exp_bit [of _ 9] and_exp_bit [of _ 8] by simp_all
  have c': "uint (ff g) AND 256 = (if ?c then 256 else 0)"
    using bit_pow2 [of 8] by (intro bit_eqI) (auto simp: bit_and_iff)
  have m: "a AND 15 = a mod 16" "a AND 0x0f = a mod 16" using and_15 by simp_all
  show ?thesis
    unfolding daa_incr_def Let_def m n c c' t_def [symmetric] tb daa_add_def
    using assms or_exp [of "a mod 16" 4] or_exp [of a 8] by auto
qed

lemma daa_result:
  assumes "flags_of (f_z80 (fl s)) = F" "a = uint (regs s rA)"
    and "N_flag F \<Longrightarrow> a mod 16 \<le> 9 \<or> H_flag F" "N_flag F \<Longrightarrow> a \<le> 0x99 \<or> C_flag F"
  defines "D \<equiv> daa_add (H_flag F) (C_flag F) (N_flag F) a"
  shows "regs (zilog_daa s) rA = u8 (if N_flag F then a - D else a + D)"
    "bit (ff (fl (zilog_daa s))) 8 \<longleftrightarrow> C_flag F \<or> \<not> N_flag F \<and> a > 0x99"
    "altd (zilog_daa s) = altd s"
proof -
  let ?g = "fl s"
  have F: "H_flag F = bit (h_bits ?g) 4" "C_flag F = bit (uint (ff ?g)) 8" "N_flag F = bit (uint (fb ?g)) 9"
    using flags_of_f_z80 [of ?g] bit_h_bits [of ?g] by (simp_all flip: assms(1) add: bit_uint16)
  have b: "0 \<le> a" "a < 256" using uint_lt2p [of "regs s rA"] by (simp_all add: assms(2))
  have n: "uint (fb ?g) AND 512 \<noteq> 0 \<longleftrightarrow> N_flag F" using and_exp_bit [of _ 9] by (simp add: F(3))
  have D: "daa_incr z (uint (regs s rA)) ?g = D" for z
    unfolding D_def F assms(2) [symmetric] by (rule daa_incr_add) (use b assms(3,4) F in auto)
  have z: "zilog_daa s = set_reg rA (u8 (if N_flag F then a - D else a + D))
     (ticks (DAA_TICKS s) s\<lparr>fl :=
        \<lparr>ff = u16 (uint (u8 (if N_flag F then a - D else a + D)) OR (D AND 256)),
         fr = u16 (uint (u8 (if N_flag F then a - D else a + D))), fa = u16 (a OR 256),
         fb = u16 (if N_flag F then NOT D else D)\<rparr>\<rparr>)"
    unfolding assms(2) zilog_daa_def Let_def ticks_def using n D by simp
  show "regs (zilog_daa s) rA = u8 (if N_flag F then a - D else a + D)"
    by (simp add: z set_reg_def)
  show "altd (zilog_daa s) = altd s"
    by (simp add: z set_reg_def ticks_def)
  have "bit D 8 \<longleftrightarrow> C_flag F \<or> \<not> N_flag F \<and> a > 0x99"
    by (auto simp: D_def daa_add_def bit_iff_odd)
  then show "bit (ff (fl (zilog_daa s))) 8 \<longleftrightarrow> C_flag F \<or> \<not> N_flag F \<and> a > 0x99"
    using bit_pow2 [of 8 8] by (simp add: z set_reg_def bit_u16 bit_or_iff bit_and_iff bit_uint8 bit8_high)
qed

text \<open>The arithmetic of a packed decimal sum and difference.\<close>

lemma decimal_digits:
  assumes "x = 16 * h + l" "0 \<le> l" "l \<le> 9" "0 \<le> h" "h \<le> 9"
  shows "bcd (u8 x)" "decimal (u8 x) = 10 * h + l"
proof -
  have "uint (u8 x) = x mod 256" by (simp only: uint_word_of_int) simp
  also have "\<dots> = x" using assms by (intro mod_pos_pos_trivial) auto
  finally have "uint (u8 x) = x" .
  moreover have "x div 16 = h" "x mod 16 = l" using assms by auto
  ultimately show "bcd (u8 x)" "decimal (u8 x) = 10 * h + l"
    using assms by (simp_all add: bcd_def decimal_def)
qed

lemma u8_eqI: "x = y + 256 * k \<Longrightarrow> u8 x = u8 y"
  unfolding word_of_int_eq_iff by (simp add: take_bit_eq_mod)

lemma bcd_sum:
  fixes hx lx hy ly c :: int
  assumes d: "0 \<le> lx" "lx \<le> 9" "0 \<le> hx" "hx \<le> 9" "0 \<le> ly" "ly \<le> 9" "0 \<le> hy" "hy \<le> 9" "c = 0 \<or> c = 1"
  defines "S \<equiv> (16 * hx + lx) + (16 * hy + ly) + c" and "T \<equiv> (10 * hx + lx) + (10 * hy + ly) + c"
  defines "r \<equiv> u8 (S mod 256 + daa_add (16 \<le> lx + ly + c) (256 \<le> S) False (S mod 256))"
  shows "bcd r \<and> decimal r = T mod 100 \<and> (256 \<le> S \<or> S mod 256 > 0x99 \<longleftrightarrow> 100 \<le> T)"
proof -
  define h l where "h = hx + hy" and "l = lx + ly + c"
  have hl: "0 \<le> h" "h \<le> 18" "0 \<le> l" "l \<le> 19" "S = 16 * h + l" "T = 10 * h + l"
    using d by (auto simp: h_def l_def S_def T_def)
  define lo hi where "lo = (if 10 \<le> l then l - 10 else l)"
    and "hi = (let h' = (if 10 \<le> l then h + 1 else h) in if 10 \<le> h' then h' - 10 else h')"
  have S: "S mod 256 = (if 256 \<le> S then S - 256 else S)"
    using hl by (auto simp: mod_256)
  note S' = S [unfolded hl(5)]
  have six: "16 \<le> l \<or> S mod 256 mod 16 > 9 \<longleftrightarrow> 10 \<le> l"
  proof -
    have "S mod 256 mod 16 = l mod 16" unfolding hl(5) by (simp add: mod_mod_cancel)
    moreover have "16 \<le> l \<or> l mod 16 > 9 \<longleftrightarrow> 10 \<le> l"
    proof (cases "l < 16")
      case True
      then show ?thesis using hl(3) by (auto simp: mod_pos_pos_trivial)
    qed simp
    ultimately show ?thesis by simp
  qed
  have big: "256 \<le> S \<or> S mod 256 > 0x99 \<longleftrightarrow> 100 \<le> T"
  proof -
    have "153 < S \<longleftrightarrow> 100 \<le> T" proof -
      consider "h \<le> 8" | "h = 9" | "10 \<le> h" by linarith
      then show ?thesis using hl(1-4) unfolding hl(5,6) by cases auto
    qed
    then show ?thesis unfolding S by auto
  qed
  define h' where "h' = (if 10 \<le> l then h + 1 else h)"
  have h': "100 \<le> T \<longleftrightarrow> 10 \<le> h'" "0 \<le> h'" "h' \<le> 19" "hi = (if 10 \<le> h' then h' - 10 else h')"
    using hl(1-4) unfolding hl(6) by (auto simp: h'_def hi_def Let_def)
  have lo: "0 \<le> lo" "lo \<le> 9" and hi: "0 \<le> hi" "hi \<le> 9"
    using hl(3,4) h'(2-4) by (simp_all add: lo_def)
  have "S mod 256 = 16 * h + l - (if 256 \<le> S then 256 else 0)" using S hl(5) by simp
  then have V: "S mod 256 + daa_add (16 \<le> l) (256 \<le> S) False (S mod 256) =
      16 * h + l - (if 256 \<le> S then 256 else 0) + (if 10 \<le> l then 6 else 0) + (if 100 \<le> T then 0x160 else 0)"
    using six big by (simp add: daa_add_def)
  have k: "S mod 256 + daa_add (16 \<le> l) (256 \<le> S) False (S mod 256) =
      (16 * hi + lo) + 256 * ((if 100 \<le> T then 2 else 0) - (if 256 \<le> S then 1 else 0))"
    "10 * hi + lo = T - (if 100 \<le> T then 100 else 0)"
    using h'(1,4) hl(6) unfolding V lo_def by (cases "10 \<le> l"; cases "10 \<le> h'"; simp add: h'_def)+
  have r: "r = u8 (16 * hi + lo)"
    unfolding r_def using u8_eqI [OF k(1)] by (simp only: l_def)
  have T: "10 * hi + lo = T mod 100"
  proof -
    have "T mod 100 = (T - (if 100 \<le> T then 100 else 0)) mod 100" by simp
    also have "\<dots> = 10 * hi + lo"
      unfolding k(2) [symmetric] using lo hi by (intro mod_pos_pos_trivial) auto
    finally show ?thesis by simp
  qed
  show ?thesis using decimal_digits [OF refl lo hi] big by (simp add: r T)
qed

lemma bcd_diff:
  fixes hx lx hy ly c :: int
  assumes d: "0 \<le> lx" "lx \<le> 9" "0 \<le> hx" "hx \<le> 9" "0 \<le> ly" "ly \<le> 9" "0 \<le> hy" "hy \<le> 9" "c = 0 \<or> c = 1"
  defines "S \<equiv> (16 * hx + lx) - (16 * hy + ly) - c" and "T \<equiv> (10 * hx + lx) - (10 * hy + ly) - c"
  defines "r \<equiv> u8 (S mod 256 - daa_add (lx < ly + c) (S < 0) True (S mod 256))"
  shows "bcd r \<and> decimal r = T mod 100 \<and> (S < 0 \<longleftrightarrow> T < 0) \<and>
    (S mod 256 mod 16 \<le> 9 \<or> lx < ly + c) \<and> (S mod 256 \<le> 0x99 \<or> S < 0)"
proof -
  define h l where "h = hx - hy" and "l = lx - ly - c"
  have hl: "- 9 \<le> h" "h \<le> 9" "- 10 \<le> l" "l \<le> 9" "S = 16 * h + l" "T = 10 * h + l" "lx < ly + c \<longleftrightarrow> l < 0"
    using d by (auto simp: h_def l_def S_def T_def)
  define lo hi where "lo = (if l < 0 then l + 10 else l)"
    and "hi = (let h' = (if l < 0 then h - 1 else h) in if h' < 0 then h' + 10 else h')"
  have S: "S mod 256 = (if S < 0 then S + 256 else S)"
    using hl by (auto simp: mod_256_neg)
  note S' = S [unfolded hl(5)]
  have neg: "S < 0 \<longleftrightarrow> T < 0" using hl(1-4) unfolding hl(5,6) by presburger
  have "S mod 256 mod 16 = l mod 16" unfolding hl(5) by (simp add: mod_mod_cancel)
  moreover have "l mod 16 \<le> 9 \<or> l < 0" using hl(4) by presburger
  ultimately have n6: "S mod 256 mod 16 \<le> 9 \<or> l < 0" by simp
  have n9: "S mod 256 \<le> 0x99 \<or> S < 0" using hl by (auto simp: S')
  have S'': "S mod 256 = 16 * h + l + (if T < 0 then 256 else 0)" using S neg hl(5) by simp
  have V: "S mod 256 - daa_add (lx < ly + c) (S < 0) True (S mod 256) =
      16 * h + l + (if T < 0 then 256 else 0) - (if l < 0 then 6 else 0) - (if T < 0 then 0x160 else 0)"
    using S'' neg by (simp add: daa_add_def hl(7))
  define h' where "h' = (if l < 0 then h - 1 else h)"
  have h': "T < 0 \<longleftrightarrow> h' < 0" "- 10 \<le> h'" "h' \<le> 9" "hi = (if h' < 0 then h' + 10 else h')"
    using hl(1-4) unfolding hl(6) by (auto simp: h'_def hi_def Let_def)
  have lo: "0 \<le> lo" "lo \<le> 9" and hi: "0 \<le> hi" "hi \<le> 9"
    using hl(3,4) h'(2-4) by (simp_all add: lo_def)
  have k: "S mod 256 - daa_add (lx < ly + c) (S < 0) True (S mod 256) =
      (16 * hi + lo) + 256 * (if T < 0 then - 1 else 0)"
    "10 * hi + lo = T + (if T < 0 then 100 else 0)"
    using h'(1,4) hl(6) unfolding V lo_def by (cases "l < 0"; cases "h' < 0"; simp add: h'_def)+
  have r: "r = u8 (16 * hi + lo)"
    unfolding r_def by (rule u8_eqI [OF k(1)])
  have T: "10 * hi + lo = T mod 100"
  proof -
    have "T mod 100 = (T + (if T < 0 then 100 else 0)) mod 100" by simp
    also have "\<dots> = 10 * hi + lo"
      unfolding k(2) [symmetric] using lo hi by (intro mod_pos_pos_trivial) auto
    finally show ?thesis by simp
  qed
  show ?thesis using decimal_digits [OF refl lo hi] neg n6 n9 by (simp add: r T hl(7))
qed

lemma alu_state:
  assumes "z80_flags s" "\<not> altd s" "\<not> alts s"
  shows "regs (ADC y n s) rA = regs s rA + y + of_bool (carry s) \<and>
      flags_of (f_z80 (fl (ADC y n s))) = add_flags (regs s rA) y (carry s) \<and> \<not> altd (ADC y n s)"
    "regs (ADD y n s) rA = regs s rA + y \<and>
      flags_of (f_z80 (fl (ADD y n s))) = add_flags (regs s rA) y False \<and> \<not> altd (ADD y n s)"
    "regs (SBC y n s) rA = regs s rA - y - of_bool (carry s) \<and>
      flags_of (f_z80 (fl (SBC y n s))) = sub_flags (regs s rA) y (carry s) \<and> \<not> altd (SBC y n s)"
    "regs (SUB y n s) rA = regs s rA - y \<and>
      flags_of (f_z80 (fl (SUB y n s))) = sub_flags (regs s rA) y False \<and> \<not> altd (SUB y n s)"
proof -
  have a: "src_a s = regs s rA" using assms(3) by (simp add: src_a_def)
  have *: "regs (VM1_OF_ARITH (put_alu (alu_sum x z c) (ticks n s))) rA = fst (alu_sum x z c) \<and>
      fl (VM1_OF_ARITH (put_alu (alu_sum x z c) (ticks n s))) = snd (alu_sum x z c) \<and>
      altd (VM1_OF_ARITH (put_alu (alu_sum x z c) (ticks n s))) = altd s" for x z c
    using assms(1,2) by (auto simp: VM1_OF_ARITH_def put_alu_def set_reg_def set_grp_def ticks_def dst_r_def
        z80_flags_def cpu_preds)
  have k: "(of_bool (carry s) :: int) XOR 1 = 1 - of_bool (carry s)" by simp
  show "regs (ADC y n s) rA = regs s rA + y + of_bool (carry s) \<and>
      flags_of (f_z80 (fl (ADC y n s))) = add_flags (regs s rA) y (carry s) \<and> \<not> altd (ADC y n s)"
    using assms(2) unfolding ADC_def carry_in_eq a by (simp only: * alu_sum_add) simp
  show "regs (ADD y n s) rA = regs s rA + y \<and>
      flags_of (f_z80 (fl (ADD y n s))) = add_flags (regs s rA) y False \<and> \<not> altd (ADD y n s)"
    using assms(2) alu_sum_add [of "regs s rA" y False] unfolding ADD_def a by (simp add: *)
  show "regs (SBC y n s) rA = regs s rA - y - of_bool (carry s) \<and>
      flags_of (f_z80 (fl (SBC y n s))) = sub_flags (regs s rA) y (carry s) \<and> \<not> altd (SBC y n s)"
    using assms(2) alu_sum_sub [OF refl, of "regs s rA" y "carry s"] unfolding SBC_def carry_in_eq a k by (simp add: *)
  show "regs (SUB y n s) rA = regs s rA - y \<and>
      flags_of (f_z80 (fl (SUB y n s))) = sub_flags (regs s rA) y False \<and> \<not> altd (SUB y n s)"
    using assms(2) alu_sum_sub [of 1 False "regs s rA" y] unfolding SUB_def a by (simp add: *)
qed

lemma bcd_digits:
  assumes "bcd x"
  obtains h l where "uint x = 16 * h + l" "0 \<le> l" "l \<le> 9" "0 \<le> h" "h \<le> 9" "decimal x = 10 * h + l" "uint x mod 16 = l"
proof
  show "uint x = 16 * (uint x div 16) + uint x mod 16" by simp
  show "0 \<le> uint x div 16" by (simp add: pos_imp_zdiv_nonneg_iff)
qed (use assms in \<open>simp_all add: bcd_def decimal_def\<close>)

lemma daa_after_add:
  assumes "bcd (regs s rA)" "bcd y" "regs t rA = regs s rA + y + of_bool c"
    "flags_of (f_z80 (fl t)) = add_flags (regs s rA) y c" "\<not> altd t"
  defines "T \<equiv> decimal (regs s rA) + decimal y + of_bool c"
  shows "bcd (regs (zilog_daa t) rA) \<and> decimal (regs (zilog_daa t) rA) = T mod 100 \<and>
    (carry (zilog_daa t) \<longleftrightarrow> 100 \<le> T) \<and> 0 \<le> T"
proof -
  let ?x = "regs s rA" and ?F = "add_flags (regs s rA) y c"
  obtain hx lx where x: "uint ?x = 16 * hx + lx" "0 \<le> lx" "lx \<le> 9" "0 \<le> hx" "hx \<le> 9" "decimal ?x = 10 * hx + lx" "uint ?x mod 16 = lx"
    using assms(1) by (rule bcd_digits)
  obtain hy ly where yy: "uint y = 16 * hy + ly" "0 \<le> ly" "ly \<le> 9" "0 \<le> hy" "hy \<le> 9" "decimal y = 10 * hy + ly" "uint y mod 16 = ly"
    using assms(2) by (rule bcd_digits)
  define S where "S = (16 * hx + lx) + (16 * hy + ly) + (of_bool c :: int)"
  have a: "uint (regs t rA) = S mod 256"
    using x yy by (simp add: assms(3) S_def uint_word_ariths of_bool_def mod_simps)
  have F: "N_flag ?F = False" "H_flag ?F = (16 \<le> lx + ly + of_bool c)" "C_flag ?F = (256 \<le> S)"
    using x yy by (simp_all add: add_flags_def Let_def S_def)
  note d = daa_result [OF assms(4) refl, unfolded F a, simplified]
  note b = bcd_sum [OF x(2-5) yy(2-5), of "of_bool c", folded S_def]
  have "carry (zilog_daa t) = bit (ff (fl (zilog_daa t))) 8"
    using assms(5) d(3) by (simp add: carry_def grp_def)
  then show ?thesis
    using b d x yy by (simp add: T_def)
qed

lemma daa_after_sub:
  assumes "bcd (regs s rA)" "bcd y" "regs t rA = regs s rA - y - of_bool c"
    "flags_of (f_z80 (fl t)) = sub_flags (regs s rA) y c" "\<not> altd t"
  defines "T \<equiv> decimal (regs s rA) - decimal y - of_bool c"
  shows "bcd (regs (zilog_daa t) rA) \<and> decimal (regs (zilog_daa t) rA) = T mod 100 \<and>
    (carry (zilog_daa t) \<longleftrightarrow> T < 0) \<and> T < 100"
proof -
  let ?x = "regs s rA" and ?F = "sub_flags (regs s rA) y c"
  obtain hx lx where x: "uint ?x = 16 * hx + lx" "0 \<le> lx" "lx \<le> 9" "0 \<le> hx" "hx \<le> 9" "decimal ?x = 10 * hx + lx" "uint ?x mod 16 = lx"
    using assms(1) by (rule bcd_digits)
  obtain hy ly where yy: "uint y = 16 * hy + ly" "0 \<le> ly" "ly \<le> 9" "0 \<le> hy" "hy \<le> 9" "decimal y = 10 * hy + ly" "uint y mod 16 = ly"
    using assms(2) by (rule bcd_digits)
  define S where "S = (16 * hx + lx) - (16 * hy + ly) - (of_bool c :: int)"
  have a: "uint (regs t rA) = S mod 256"
    using x yy by (simp add: assms(3) S_def uint_word_ariths of_bool_def mod_simps)
  have F: "N_flag ?F = True" "H_flag ?F = (lx < ly + of_bool c)" "C_flag ?F = (S < 0)"
    using x yy by (auto simp: sub_flags_def Let_def S_def)
  note b = bcd_diff [OF x(2-5) yy(2-5), of "of_bool c", folded S_def]
  have b2: "S mod 256 mod 16 \<le> 9 \<or> lx < ly + of_bool c" "S mod 256 \<le> 0x99 \<or> S < 0"
    using b by auto
  note d = daa_result [OF assms(4) refl, unfolded F a, OF b2, simplified simp_thms if_True]
  have "carry (zilog_daa t) = (S < 0)"
    using assms(5) d(2,3) by (simp add: carry_def grp_def)
  moreover have "T = 10 * hx + lx - (10 * hy + ly) - of_bool c" by (simp add: T_def x(6) yy(6))
  ultimately show ?thesis using b d(1) x(3,5) yy(2,4) by auto
qed

text \<open>C22: DAA after an addition or subtraction of packed decimal bytes leaves the packed decimal
  result modulo 100, with the decimal carry or borrow in C, on every Z80-type processor.\<close>

theorem daa_correct:
  assumes "z80_flags s" "\<not> altd s" "\<not> alts s" "bcd (regs s rA)" "bcd y"
  shows "let x = decimal (regs s rA); d = decimal y; c = of_bool (carry s);
      ok = (\<lambda>v s'. bcd (regs s' rA) \<and> decimal (regs s' rA) = v mod 100 \<and> carry s' = (v < 0 \<or> 100 \<le> v)) in
    ok (x + d) (zilog_daa (ADD y n s)) \<and> ok (x + d + c) (zilog_daa (ADC y n s)) \<and>
    ok (x - d) (zilog_daa (SUB y n s)) \<and> ok (x - d - c) (zilog_daa (SBC y n s))"
  using daa_after_add [OF assms(4,5), of "ADD y n s" False] daa_after_add [OF assms(4,5), of "ADC y n s" "carry s"]
    daa_after_sub [OF assms(4,5), of "SUB y n s" False] daa_after_sub [OF assms(4,5), of "SBC y n s" "carry s"]
    alu_state [OF assms(1-3), of y n]
  by (auto simp: Let_def)

theorem daa_correct_witness:
  "decimal (regs (zilog_daa (ADD 0x58 4 ((power_on CPU_Z80 Standard)\<lparr>regs := (\<lambda>_. 0x67)\<rparr>))) rA) = 25"
proof -
  let ?s = "(power_on CPU_Z80 Standard)\<lparr>regs := (\<lambda>_. 0x67)\<rparr>"
  have 1: "z80_flags ?s" "\<not> altd ?s" "\<not> alts ?s" "bcd (regs ?s rA)" "bcd 0x58"
    by (simp_all add: z80_flags_def power_on_def cpu_preds cpu_codes bcd_def)
  show ?thesis using daa_correct [OF 1] by (simp add: Let_def decimal_def)
qed

section \<open>Digit rotates\<close>

lemma rld_bytes:
  fixes m a :: "8 word"
  shows "u8 (uint (u16 (shl (uint m) 4 OR (uint a AND 15)))) = push_bit 4 m OR take_bit 4 a"
    "u8 ((uint a AND 240) OR shr (uint (u16 (shl (uint m) 4 OR (uint a AND 15)))) 8) =
      push_bit 4 (drop_bit 4 a) OR drop_bit 4 m"
    "u8 (shr (uint (u16 (uint m OR shl (uint a) 8))) 4) = drop_bit 4 m OR push_bit 4 a"
    "u8 ((uint a AND 240) OR (uint (u16 (uint m OR shl (uint a) 8)) AND 15)) =
      push_bit 4 (drop_bit 4 a) OR take_bit 4 m"
proof -
  have m15: "bit (15 :: int) n \<longleftrightarrow> n < 4" for n
    using bit_mask_iff [of 4 n, where 'a = int] by (simp add: mask_eq_exp_minus_1)
  have m240: "bit (240 :: int) n \<longleftrightarrow> 4 \<le> n \<and> n < 8" for n
  proof -
    have "(240 :: int) = push_bit 4 15" by simp
    then show ?thesis by (simp only: bit_push_bit_iff_int m15) auto
  qed
  note b = bit_u8 bit_uint16 bit_u16 bit_or_iff bit_and_iff bit_uint8 bit_push_bit_iff_int bit_drop_bit_eq
    m15 m240 bit_push_bit_iff bit_take_bit_iff o_apply
  note c = bit_imp_le_length [of a] bit_imp_le_length [of m]
  show "u8 (uint (u16 (shl (uint m) 4 OR (uint a AND 15)))) = push_bit 4 m OR take_bit 4 a"
    by (rule bit_word_eqI, simp only: b) (auto dest: c)
  show "u8 ((uint a AND 240) OR shr (uint (u16 (shl (uint m) 4 OR (uint a AND 15)))) 8) =
      push_bit 4 (drop_bit 4 a) OR drop_bit 4 m"
    by (rule bit_word_eqI, simp only: b) (auto dest: c)
  show "u8 (shr (uint (u16 (uint m OR shl (uint a) 8))) 4) = drop_bit 4 m OR push_bit 4 a"
    by (rule bit_word_eqI, simp only: b) (auto dest: c)
  show "u8 ((uint a AND 240) OR (uint (u16 (uint m OR shl (uint a) 8)) AND 15)) =
      push_bit 4 (drop_bit 4 a) OR take_bit 4 m"
    by (rule bit_word_eqI, simp only: b) (auto dest: c)
qed

lemma rld_eq:
  fixes s :: cpu
  defines "hl \<equiv> pair rH rL s"
  defines "m \<equiv> rd_data hl s" and "a \<equiv> regs s rA"
  shows "zilog_rld s = (put_mem hl (push_bit 4 m OR take_bit 4 a) s)
    \<lparr>st := st s + fast_TICKS 5 7 18 s, mp := hl + 1,
     regs := (regs s)(rA := push_bit 4 (drop_bit 4 a) OR drop_bit 4 m),
     fl := digit_group (uint (push_bit 4 (drop_bit 4 a) OR drop_bit 4 m)) (fl s)\<rparr>"
  unfolding zilog_rld_def Let_def rld_bytes hl_def m_def a_def
  by (simp add: ticks_def set_reg_def rld_bytes flip: pair_def)

lemma rrd_eq:
  fixes s :: cpu
  defines "hl \<equiv> pair rH rL s"
  defines "m \<equiv> rd_data hl s" and "a \<equiv> regs s rA"
  shows "zilog_rrd s = (put_mem hl (drop_bit 4 m OR push_bit 4 a) s)
    \<lparr>st := st s + fast_TICKS 5 7 18 s, mp := hl + 1,
     regs := (regs s)(rA := push_bit 4 (drop_bit 4 a) OR take_bit 4 m),
     fl := digit_group (uint (push_bit 4 (drop_bit 4 a) OR take_bit 4 m)) (fl s)\<rparr>"
  unfolding zilog_rrd_def Let_def rld_bytes hl_def m_def a_def
  by (simp add: ticks_def set_reg_def rld_bytes flip: pair_def)

lemma word8_eqI: "(\<forall>n<8. bit x n = bit y n) \<Longrightarrow> x = (y :: 8 word)"
  by (rule bit_word_eqI) simp

lemma nibbles:
  fixes a m :: "8 word"
  shows "push_bit 4 (drop_bit 4 (push_bit 4 (drop_bit 4 a) OR drop_bit 4 m)) OR take_bit 4 (push_bit 4 m OR take_bit 4 a) = a"
    "drop_bit 4 (push_bit 4 m OR take_bit 4 a) OR push_bit 4 (push_bit 4 (drop_bit 4 a) OR drop_bit 4 m) = m"
    "push_bit 4 (drop_bit 4 (push_bit 4 (drop_bit 4 a) OR take_bit 4 m)) OR drop_bit 4 (drop_bit 4 m OR push_bit 4 a) = a"
    "push_bit 4 (drop_bit 4 m OR push_bit 4 a) OR take_bit 4 (push_bit 4 (drop_bit 4 a) OR take_bit 4 m) = m"
  by (rule word8_eqI, simp only: all_less_8 bit_or_iff bit_push_bit_iff bit_drop_bit_eq bit_take_bit_iff o_apply,
      simp add: bit8_high)+

lemma pair_other_reg: "r \<noteq> h \<Longrightarrow> r \<noteq> l \<Longrightarrow> pair h l (s\<lparr>regs := (g)(r := v)\<rparr>) = pair16 (g h) (g l)"
  by (simp add: pair_def)

text \<open>RLD moves the high digit of (HL) to A, its low digit up and A's low digit in; RRD moves them
  the other way round. Each undoes the other: A and every byte of memory come back.\<close>

lemma rld_rrd_inverse:
  assumes "flat_ram s"
  shows "let a = regs s rA; hl = pair rH rL s; m = rd_data hl s; s1 = zilog_rld s; s2 = zilog_rrd s in
    regs s1 rA = push_bit 4 (drop_bit 4 a) OR drop_bit 4 m \<and>
    rd_data hl s1 = push_bit 4 m OR take_bit 4 a \<and>
    regs s2 rA = push_bit 4 (drop_bit 4 a) OR take_bit 4 m \<and>
    rd_data hl s2 = drop_bit 4 m OR push_bit 4 a \<and>
    regs (zilog_rrd s1) = regs s \<and> regs (zilog_rld s2) = regs s \<and>
    (\<forall>x. rd_data x (zilog_rrd s1) = rd_data x s \<and> rd_data x (zilog_rld s2) = rd_data x s)"
proof -
  let ?hl = "pair rH rL s"
  have p: "pair rH rL (zilog_rld s) = ?hl" "pair rH rL (zilog_rrd s) = ?hl"
    by (simp_all add: rld_eq rrd_eq pair_def)
  have f: "flat_ram (zilog_rld s)" "flat_ram (zilog_rrd s)"
    using assms by (simp_all add: rld_eq rrd_eq)
  have r: "rd_data x (zilog_rld s) = (if x = ?hl then push_bit 4 (rd_data ?hl s) OR take_bit 4 (regs s rA) else rd_data x s)"
    "rd_data x (zilog_rrd s) = (if x = ?hl then drop_bit 4 (rd_data ?hl s) OR push_bit 4 (regs s rA) else rd_data x s)" for x
    using assms by (simp_all add: rld_eq rrd_eq flat.rd_wr_flat)
  have a: "regs (zilog_rld s) = (regs s)(rA := push_bit 4 (drop_bit 4 (regs s rA)) OR drop_bit 4 (rd_data ?hl s))"
    "regs (zilog_rrd s) = (regs s)(rA := push_bit 4 (drop_bit 4 (regs s rA)) OR take_bit 4 (rd_data ?hl s))"
    by (simp_all add: rld_eq rrd_eq)
  show ?thesis
    unfolding Let_def
    using rrd_eq [of "zilog_rld s"] rld_eq [of "zilog_rrd s"] f
    by (simp add: p r a nibbles flat.rd_wr_flat del: push_bit_or drop_bit_or take_bit_or)
qed

section \<open>Negation\<close>

text \<open>NEG is a subtraction from zero, with all its flags.\<close>

lemma neg_correct:
  assumes "z80_flags s"
  shows "regs (UNDOCUMENTED_NEG s) = (regs s)(rA := - regs s rA) \<and>
    flags_of (f_flags (UNDOCUMENTED_NEG s)) = sub_flags 0 (regs s rA) False"
proof -
  let ?a = "regs s rA"
  have "alu_sum 0 (u16 (NOT (uint ?a))) 1 = (u8 (uint (u16 (uint (u16 (NOT (uint ?a))) + 1))), \<lparr>ff = u16 (uint (u16 (NOT (uint ?a))) + 1),
      fr = u16 (uint (u8 (uint (u16 (uint (u16 (NOT (uint ?a))) + 1))))), fa = 0, fb = u16 (NOT (uint ?a))\<rparr>)"
    by (simp add: alu_sum_def Let_def)
  then have "UNDOCUMENTED_NEG s = set_reg rA (fst (alu_sum 0 (u16 (NOT (uint ?a))) 1))
      ((ticks 8 s)\<lparr>fl := snd (alu_sum 0 (u16 (NOT (uint ?a))) 1)\<rparr>)"
    by (simp add: UNDOCUMENTED_NEG_def Let_def ticks_def)
  then show ?thesis
    using alu_sum_sub [of 1 False 0 ?a] assms
    by (simp add: set_reg_def ticks_def f_flags_z80)
qed

section \<open>Repeated block transfers\<close>

text \<open>One execution of the two-byte instruction at \<open>pc\<close>.\<close>

definition ldir_insn :: "bool \<Rightarrow> cpu \<Rightarrow> cpu" where
  "ldir_insn up s = (if up then LDIR else LDDR) (s\<lparr>pc := pc s + 2\<rparr>)"

definition dir :: "bool \<Rightarrow> 16 word" where
  "dir up = (if up then 1 else -1)"

lemma read_plain_id: "\<not> ioi s \<Longrightarrow> \<not> ioe s \<Longrightarrow> read_plain a s = get_memory_data a s"
proof -
  assume "\<not> ioi s" "\<not> ioe s"
  then have "s\<lparr>ioi := False, ioe := False\<rparr> = s" by simp
  then show ?thesis by (simp add: read_plain_def)
qed

text \<open>The scratch and register fields a transfer changes; everything but memory.\<close>

definition with_fields :: "cpu \<Rightarrow> cpu \<Rightarrow> cpu" where
  "with_fields t s = s\<lparr>regs := regs t, fl := fl t, pc := pc t, mp := mp t, tt := tt t, st := st t\<rparr>"

lemma with_fields_mem [simp]:
  "get_memory x ty (with_fields t s) = get_memory x ty s" "put_mem a v (with_fields t s) = with_fields t (put_mem a v s)"
  "regs (with_fields t s) = regs t" "pc (with_fields t s) = pc t" "fl (with_fields t s) = fl t"
  "ioi (with_fields t s) = ioi s" "ioe (with_fields t s) = ioe s" "with_fields t (with_fields u s) = with_fields t s"
  "with_fields (with_fields t u) s = with_fields t s"
  by (simp_all add: with_fields_def)

lemma ld_step_regs:
  fixes up and s :: cpu
  defines "p \<equiv> put_mem (pair16 (regs s rD) (regs s rE)) (read_plain (uint (regs s rL) OR shl (uint (regs s rH)) 8) s) s"
  defines "t \<equiv> dec_rr rB rC (step_rr up rD rE (step_rr up rH rL p))"
  shows "regs (ld_step up s) = regs t" "ld_step up s = p\<lparr>regs := regs t, tt := tt (ld_step up s), fl := fl (ld_step up s)\<rparr>"
proof -
  obtain a where a: "step_rr up rH rL p = p\<lparr>regs := a\<rparr>" using step_rr_frame(1) ..
  obtain b where b: "step_rr up rD rE (p\<lparr>regs := a\<rparr>) = p\<lparr>regs := b\<rparr>"
    using step_rr_frame(1) [of up rD rE "p\<lparr>regs := a\<rparr>"] by simp
  obtain c where c: "dec_rr rB rC (p\<lparr>regs := b\<rparr>) = p\<lparr>regs := c\<rparr>"
    using dec_rr_frame(1) [of rB rC "p\<lparr>regs := b\<rparr>"] by simp
  have "t = p\<lparr>regs := c\<rparr>" by (simp add: t_def a b c)
  then show "regs (ld_step up s) = regs t" "ld_step up s = p\<lparr>regs := regs t, tt := tt (ld_step up s), fl := fl (ld_step up s)\<rparr>"
    by (simp_all add: ld_step_def Let_def flip: p_def t_def)
qed

lemma ld_step_pairs:
  "pair rH rL (ld_step up s) = pair rH rL s + dir up"
  "pair rD rE (ld_step up s) = pair rD rE s + dir up"
  "pair rB rC (ld_step up s) = pair rB rC s - 1"
proof -
  let ?p = "put_mem (pair16 (regs s rD) (regs s rE)) (read_plain (uint (regs s rL) OR shl (uint (regs s rH)) 8) s) s"
  let ?t = "dec_rr rB rC (step_rr up rD rE (step_rr up rH rL ?p))"
  have *: "pair h l (ld_step up s) = pair h l ?t" "pair h l ?p = pair h l s" for h l
    using ld_step_regs(1) [of up s] by (simp_all add: pair_def)
  show "pair rH rL (ld_step up s) = pair rH rL s + dir up"
    "pair rD rE (ld_step up s) = pair rD rE s + dir up"
    "pair rB rC (ld_step up s) = pair rB rC s - 1"
    unfolding * by (simp_all add: pair_step_other step_rr_pair dec_rr_pair * dir_def)
qed

lemma with_fields_eqI:
  "s' = p\<lparr>regs := a, tt := b, fl := c, pc := d, mp := e, st := f\<rparr> \<Longrightarrow> s' = with_fields s' p"
  by (simp add: with_fields_def)

lemma ldir_insn_step:
  assumes "\<not> ioi s" "\<not> ioe s"
  shows "ldir_insn up s = with_fields (ldir_insn up s) (put_mem (pair rD rE s) (rd_data (pair rH rL s) s) s)"
    "pair rH rL (ldir_insn up s) = pair rH rL s + dir up"
    "pair rD rE (ldir_insn up s) = pair rD rE s + dir up"
    "pair rB rC (ldir_insn up s) = pair rB rC s - 1"
    "pc (ldir_insn up s) = (if pair rB rC s = 1 then pc s + 2 else pc s)"
    "ioi (ldir_insn up s) = ioi s" "ioe (ldir_insn up s) = ioe s"
proof -
  let ?p = "put_mem (pair rD rE s) (rd_data (pair rH rL s) s) s"
  let ?s = "ticks (LDIR_TICKS (s\<lparr>pc := pc s + 2\<rparr>)) (s\<lparr>pc := pc s + 2\<rparr>)"
  have hl: "uint (regs s rL) OR shl (uint (regs s rH)) 8 = uint (pair rH rL s)"
    using rp_eq [of rH rL s] by (simp add: rp_def pair_def)
  obtain g t f where L: "ld_step up ?s = ?p\<lparr>pc := pc s + 2, st := st ?s, regs := g, tt := t, fl := f\<rparr>"
    using ld_step_regs(2) [of up ?s] assms by (simp add: read_plain_id ticks_def hl flip: pair_def)
  have pr: "pair h l (ld_step up ?s) = pair16 (g h) (g l)" for h l by (simp add: L pair_def)
  have q: "pair h l ?s = pair h l s" for h l by (simp add: pair_def ticks_def)
  have left: "bc_left (ld_step up ?s) \<longleftrightarrow> pair rB rC s \<noteq> 1"
    using ld_step_pairs(3) [of up ?s] by (simp add: bc_left_pair q)
  have e: "ldir_insn up s = ld_repeat up (s\<lparr>pc := pc s + 2\<rparr>)" by (simp add: ldir_insn_def LDIR_def LDDR_def)
  obtain m n h where R: "ldir_insn up s = ?p\<lparr>regs := g, tt := t, fl := h,
      pc := (if pair rB rC s = 1 then pc s + 2 else pc s), mp := m, st := n\<rparr>"
  proof (cases "pair rB rC s = 1")
    case True
    have "ldir_insn up s = ?p\<lparr>regs := g, tt := t, fl := f\<lparr>fa := 0, fb := 0\<rparr>, pc := pc s + 2, mp := mp ?p, st := st ?s\<rparr>"
      using assms left True by (simp add: e ld_repeat_def Let_def ld_pv_def) (simp add: L)
    with True show ?thesis by (intro that) simp
  next
    case False
    then obtain k where "ldir_insn up s = ld_pv True (repeat_insn k (ld_step up ?s))"
      using assms left by (fastforce simp: e ld_repeat_def Let_def L repeat_insn_def)
    then have "ldir_insn up s = ?p\<lparr>regs := g, tt := t, fl := f\<lparr>fa := 128, fb := 128\<rparr>, pc := pc s,
        mp := pc s + 1, st := st ?s + k\<rparr>"
      by (simp add: L ld_pv_def repeat_insn_def)
    with False show ?thesis by (intro that) simp
  qed
  show "ldir_insn up s = with_fields (ldir_insn up s) ?p" using R by (rule with_fields_eqI)
  have P: "pair h l (ldir_insn up s) = pair h l (ld_step up ?s)" for h l
    unfolding pr by (simp add: R pair_def)
  show "pair rH rL (ldir_insn up s) = pair rH rL s + dir up"
    "pair rD rE (ldir_insn up s) = pair rD rE s + dir up"
    "pair rB rC (ldir_insn up s) = pair rB rC s - 1"
    by (simp_all add: P ld_step_pairs q)
  show "pc (ldir_insn up s) = (if pair rB rC s = 1 then pc s + 2 else pc s)"
    "ioi (ldir_insn up s) = ioi s" "ioe (ldir_insn up s) = ioe s"
    by (simp_all add: R)
qed

text \<open>The loop any block transfer runs through: \<open>xf\<close> moves the byte at one address to another.\<close>

fun block_bytes :: "(16 word \<Rightarrow> 16 word \<Rightarrow> cpu \<Rightarrow> cpu) \<Rightarrow> 16 word \<Rightarrow> nat \<Rightarrow> 16 word \<Rightarrow> 16 word \<Rightarrow> cpu \<Rightarrow> cpu" where
  "block_bytes xf d 0 a b s = s"
| "block_bytes xf d (Suc n) a b s = block_bytes xf d n (a + d) (b + d) (xf a b s)"

lemma block_bytes_copy:
  "block_bytes (\<lambda>a b s. put_mem b (rd_data a s) s) d n a b s = copy_bytes rd_data put_mem d n a b s"
  by (induction n arbitrary: a b s) simp_all

text \<open>
  A two-byte instruction that transfers one byte from HL to DE, counts BC down and fetches itself
  again until BC is zero. \<open>key\<close> is what the transfer reads of the registers; \<open>ready\<close> a condition
  that holds on to the end.
\<close>

locale block_loop =
  fixes insn :: "cpu \<Rightarrow> cpu" and d :: "16 word"
    and xf :: "'k \<Rightarrow> 16 word \<Rightarrow> 16 word \<Rightarrow> cpu \<Rightarrow> cpu"
    and key :: "cpu \<Rightarrow> 'k" and ready :: "cpu \<Rightarrow> bool"
  assumes insn_mem: "ready s \<Longrightarrow> insn s = with_fields (insn s) (xf (key s) (pair rH rL s) (pair rD rE s) s)"
    and insn_pairs: "ready s \<Longrightarrow> pair rH rL (insn s) = pair rH rL s + d \<and>
      pair rD rE (insn s) = pair rD rE s + d \<and> pair rB rC (insn s) = pair rB rC s - 1"
    and insn_pc: "ready s \<Longrightarrow> pc (insn s) = (if pair rB rC s = 1 then pc s + 2 else pc s)"
    and insn_keeps: "ready s \<Longrightarrow> key (insn s) = key s \<and> ready (insn s)"
    and xf_with_fields: "xf k a b (with_fields t s) = with_fields t (xf k a b s)"
begin

lemma block_with_fields:
  "block_bytes (xf k) d n a b (with_fields t s) = with_fields t (block_bytes (xf k) d n a b s)"
  by (induction n arbitrary: a b s) (simp_all add: xf_with_fields)

lemma iter:
  assumes "ready s" "0 < n" "pair rB rC s = of_nat n" "n \<le> 65536"
  shows "(insn ^^ n) s = with_fields ((insn ^^ n) s)
      (block_bytes (xf (key s)) d n (pair rH rL s) (pair rD rE s) s) \<and>
    pair rH rL ((insn ^^ n) s) = pair rH rL s + of_nat n * d \<and>
    pair rD rE ((insn ^^ n) s) = pair rD rE s + of_nat n * d \<and>
    pair rB rC ((insn ^^ n) s) = 0 \<and> pc ((insn ^^ n) s) = pc s + 2"
  using assms
proof (induction n arbitrary: s)
  case 0
  then show ?case by simp
next
  case (Suc n)
  let ?k = "key s"
  let ?q = "xf ?k (pair rH rL s) (pair rD rE s) s"
  note st = insn_pairs [OF Suc.prems(1)]
  show ?case
  proof (cases "n = 0")
    case True
    then show ?thesis
      using st insn_mem [OF Suc.prems(1)] insn_pc [OF Suc.prems(1)] Suc.prems(3) by simp
  next
    case False
    have "pair rB rC s \<noteq> 1"
    proof
      assume "pair rB rC s = 1"
      then have "(of_nat (Suc n) :: 16 word) = of_nat 1" using Suc.prems(3) by simp
      then have "Suc n mod 65536 = 1" by (simp only: word_of_nat_eq_iff take_bit_eq_mod) simp
      with False Suc.prems(4) show False by (cases "Suc n = 65536") auto
    qed
    then have pc: "pc (insn s) = pc s" using insn_pc [OF Suc.prems(1)] by simp
    have n: "pair rB rC (insn s) = of_nat n" using st Suc.prems(3) by simp
    have k: "ready (insn s)" "key (insn s) = ?k" using insn_keeps [OF Suc.prems(1)] by simp_all
    have iter: "(insn ^^ Suc n) s = (insn ^^ n) (insn s)" by (simp add: funpow_swap1)
    have le: "n \<le> 65536" using Suc.prems(4) by simp
    note IH = Suc.IH [OF k(1) _ _ le]
    have cp: "block_bytes (xf ?k) d n a b (insn s) = with_fields (insn s) (block_bytes (xf ?k) d n a b ?q)" for a b
      by (subst insn_mem [OF Suc.prems(1)]) (simp only: block_with_fields)
    let ?X = "(insn ^^ n) (insn s)" and ?c = "block_bytes (xf ?k) d n"
    have "?X = with_fields ?X (?c (pair rH rL (insn s)) (pair rD rE (insn s)) (insn s))"
      using IH [OF _ n] False by (simp only: k(2))
    also have "\<dots> = with_fields ?X (block_bytes (xf ?k) d (Suc n) (pair rH rL s) (pair rD rE s) s)"
      using st by (simp only: cp with_fields_mem block_bytes.simps)
    finally have 1: "?X = with_fields ?X (block_bytes (xf ?k) d (Suc n) (pair rH rL s) (pair rD rE s) s)" .
    have 2: "pair rH rL ?X = pair rH rL s + d + of_nat n * d \<and>
      pair rD rE ?X = pair rD rE s + d + of_nat n * d \<and> pair rB rC ?X = 0 \<and> pc ?X = pc s + 2"
      using IH [OF _ n] False st pc by simp
    show ?thesis
      unfolding iter using 1 2 by (intro conjI) (simp_all only: of_nat_Suc, simp_all add: algebra_simps)
  qed
qed

text \<open>The number of executions BC asks for: 65536 when it is zero.\<close>

lemma finish:
  assumes "ready s"
  defines "n \<equiv> (if pair rB rC s = 0 then 65536 else unat (pair rB rC s))"
  shows "rd_data x ((insn ^^ n) s) = rd_data x (block_bytes (xf (key s)) d n (pair rH rL s) (pair rD rE s) s)"
    "pair rH rL ((insn ^^ n) s) = pair rH rL s + of_nat n * d"
    "pair rD rE ((insn ^^ n) s) = pair rD rE s + of_nat n * d"
    "pair rB rC ((insn ^^ n) s) = 0" "pc ((insn ^^ n) s) = pc s + 2"
proof -
  have "unat (pair rB rC s) < 2 ^ LENGTH(16)" by (rule unsigned_less)
  then have "0 < n" "n \<le> 65536" "pair rB rC s = of_nat n"
    by (simp_all add: n_def unat_gt_0)
  note L = iter [OF assms(1) this(1,3,2)]
  then show "rd_data x ((insn ^^ n) s) = rd_data x (block_bytes (xf (key s)) d n (pair rH rL s) (pair rD rE s) s)"
    by (metis with_fields_mem(1))
  from L show "pair rH rL ((insn ^^ n) s) = pair rH rL s + of_nat n * d"
    "pair rD rE ((insn ^^ n) s) = pair rD rE s + of_nat n * d"
    "pair rB rC ((insn ^^ n) s) = 0" "pc ((insn ^^ n) s) = pc s + 2"
    by blast+
qed

end

interpretation ldir: block_loop "ldir_insn up" "dir up" "\<lambda>k a b s. put_mem b (rd_data a s) s" "\<lambda>s. ()"
    "\<lambda>s. \<not> ioi s \<and> \<not> ioe s" for up
  using ldir_insn_step by unfold_locales auto



text \<open>the idiom that fills memory: LDIR with DE = HL + 1 copies the first byte to all BC bytes
  after it.\<close>

lemma ldir_fill:
  assumes "flat_ram s" "\<not> ioi s" "\<not> ioe s" "pair rB rC s \<noteq> 0" "pair rD rE s = pair rH rL s + 1"
    and "i < unat (pair rB rC s)"
  shows "rd_data (pair rD rE s + of_nat i) ((ldir_insn True ^^ unat (pair rB rC s)) s) =
    rd_data (pair rH rL s) s"
proof -
  let ?n = "unat (pair rB rC s)"
  have n: "?n < 2 ^ LENGTH(16)" by (rule unsigned_less)
  have L: "(ldir_insn True ^^ ?n) s = with_fields ((ldir_insn True ^^ ?n) s)
      (copy_bytes rd_data put_mem 1 ?n (pair rH rL s) (pair rH rL s + 1) s)"
    using ldir.iter [where s = s and n = ?n and up = True] assms n by (simp add: unat_gt_0 dir_def block_bytes_copy)
  show ?thesis
    by (subst L, simp only: with_fields_mem assms(5), rule flat.copy_fill [OF assms(1,6)]) (use n in simp)
qed

text \<open>Under an I/O prefix (Rabbit) the program counter is stepped back over the prefix also after
  the last byte: it ends inside the instruction, one byte short of its end.\<close>

lemma ldir_io_last:
  assumes "ioi s \<or> ioe s" "pair rB rC s = 1"
  shows "pc (ldir_insn up s) = pc s + 1"
proof -
  let ?s = "ticks (LDIR_TICKS (s\<lparr>pc := pc s + 2\<rparr>)) (s\<lparr>pc := pc s + 2\<rparr>)"
  have "pair rB rC ?s = 1" using assms(2) by (simp add: pair_def ticks_def)
  then have "\<not> bc_left (ld_step up ?s)" by (simp add: bc_left_pair ld_step_pairs)
  moreover have "pc (ld_step up ?s) = pc s + 2 \<and> ioi (ld_step up ?s) = ioi s \<and> ioe (ld_step up ?s) = ioe s"
    by (subst (1 2 3) ld_step_regs(2)) (simp add: ticks_def)
  moreover have "ldir_insn up s = ld_repeat up (s\<lparr>pc := pc s + 2\<rparr>)" by (simp add: ldir_insn_def LDIR_def LDDR_def)
  ultimately show ?thesis
    using assms(1) by (auto simp: ld_repeat_def Let_def ld_pv_def)
qed

end
