(* ===== verification/Ticks_Z80n.thy ===== *)
theory Ticks_Z80n
  imports Ticks_Zilog
begin

text \<open>
  The Spectrum Next instructions: \<open>src/src/ticks/z80n_inst.c\<close> and the five barrel shifts that
  \<open>handle_ed_page\<close> of \<open>ticks.c\<close> spells out in its cases 0x28 to 0x2c.
\<close>

section \<open>Instructions\<close>

definition mirror_table :: "int list" where
  "mirror_table = [0x0, 0x8, 0x4, 0xC, 0x2, 0xA, 0x6, 0xE, 0x1, 0x9, 0x5, 0xD, 0x3, 0xB, 0x7, 0xF]"

definition z80n_mirror :: "cpu \<Rightarrow> cpu" where
  "z80n_mirror s =
     (let a = uint (regs s rA)
      in ticks 8 (set_reg rA (u8 (shl (mirror_table ! nat (a AND 0x0f)) 4 OR
           mirror_table ! nat (shr (a AND 0xf0) 4))) s))"

definition z80n_outinb :: "cpu \<Rightarrow> cpu" where
  "z80n_outinb s =
     (let t = get_memory_data (uint (regs s rL) OR shl (uint (regs s rH)) 8) s;
          s = out_port (uint (regs s rC) OR shl (uint (regs s rB)) 8) (uint t) s
      in ticks 16 (inc_rr rH rL s))"

definition z80n_nextreg_8_8 :: "cpu \<Rightarrow> cpu" where
  "z80n_nextreg_8_8 s =
     (let (v, s) = fetch s; (r, s) = fetch s
      in ticks 20 (out_port 0x253b (uint r) (out_port 0x243b (uint v) s)))"

definition z80n_nextreg_8_a :: "cpu \<Rightarrow> cpu" where
  "z80n_nextreg_8_a s =
     (let (v, s) = fetch s; s = out_port 0x243b (uint v) s
      in ticks 17 (out_port 0x253b (uint (regs s rA)) s))"

definition z80n_ldws :: "cpu \<Rightarrow> cpu" where
  "z80n_ldws s =
     (let t = get_memory_data (uint (regs s rL) OR shl (uint (regs s rH)) 8) s;
          s = put_mem (pair16 (regs s rD) (regs s rE)) t s;
          s = set_reg rL (regs s rL + 1) s
      in ticks 14 (set_reg rD (regs s rD + 1) s))"

definition z80n_ldpirx :: "cpu \<Rightarrow> cpu" where
  "z80n_ldpirx s =
     (let t = get_memory_data (((uint (regs s rL) OR shl (uint (regs s rH)) 8) AND 0xfff8) + (uint (regs s rE) AND 0x07)) s;
          s = (if t \<noteq> regs s rA then put_mem (pair16 (regs s rD) (regs s rE)) t s else s);
          s = inc_rr rD rE s;
          s = dec_rr rB rC s;
          s = ticks 16 s
      in if bc_left s then ticks 5 (s\<lparr>pc := pc s - 2\<rparr>) else s)"

text \<open>
  The body LDIX, LDDX, LDIRX and LDDRX share. The local \<open>t\<close> is a byte; the second read of the
  source, before the write, sees the same memory as the first.
\<close>

definition ldx_step :: "bool \<Rightarrow> cpu \<Rightarrow> cpu" where
  "ldx_step up s =
     (let s = ticks 16 s;
          v = get_memory_data (uint (regs s rL) OR shl (uint (regs s rH)) 8) s;
          s = (if v \<noteq> regs s rA then put_mem (pair16 (regs s rD) (regs s rE)) v s else s);
          s = step_rr up rH rL s;
          s = step_rr up rD rE s;
          s = dec_rr rB rC s;
          t = u8 (uint v + uint (regs s rA));
          g = fl s
      in s\<lparr>fl := g\<lparr>fr := (if fr g \<noteq> 0 then 1 else fr g),
                   ff := u16 ((uint (ff g) AND -41) OR (uint t AND 8) OR (shl (uint t) 4 AND 32))\<rparr>\<rparr>)"

definition ldx_once :: "bool \<Rightarrow> cpu \<Rightarrow> cpu" where
  "ldx_once up s = (let s = ldx_step up s in ld_pv (bc_left s) s)"

definition ldx_repeat :: "bool \<Rightarrow> cpu \<Rightarrow> cpu" where
  "ldx_repeat up s =
     (let s = ldx_step up s; left = bc_left s
      in ld_pv left (if left then repeat_insn 5 s else s))"

definition z80n_ldix :: "cpu \<Rightarrow> cpu" where "z80n_ldix = ldx_once True"
definition z80n_lddx :: "cpu \<Rightarrow> cpu" where "z80n_lddx = ldx_once False"
definition z80n_ldirx :: "cpu \<Rightarrow> cpu" where "z80n_ldirx = ldx_repeat True"
definition z80n_lddrx :: "cpu \<Rightarrow> cpu" where "z80n_lddrx = ldx_repeat False"

text \<open>\<open>int16_t result = ...; h = (result >> 8) & 0xff; l = result & 0xff\<close>: only the low sixteen bits
  of the sum or product reach the pair, whatever the sign of \<open>result\<close>.\<close>

definition put_pair :: "reg \<Rightarrow> reg \<Rightarrow> int \<Rightarrow> cpu \<Rightarrow> cpu" where
  "put_pair h l result s =
     set_reg l (u8 (result AND 0xff)) (set_reg h (u8 (shr result 8 AND 0xff)) s)"

definition z80n_mul_d_e :: "cpu \<Rightarrow> cpu" where
  "z80n_mul_d_e s = ticks 8 (put_pair rD rE (sint (u16 (uint (regs s rD) * uint (regs s rE)))) s)"

definition z80n_add_rr_a :: "reg \<Rightarrow> reg \<Rightarrow> cpu \<Rightarrow> cpu" where
  "z80n_add_rr_a h l s =
     ticks 8 (put_pair h l (sint (u16 (uint (regs s h) * 256 + uint (regs s l) + uint (regs s rA)))) s)"

definition z80n_add_rr_mn :: "reg \<Rightarrow> reg \<Rightarrow> cpu \<Rightarrow> cpu" where
  "z80n_add_rr_mn h l s =
     (let (lsb, s) = fetch s; (msb, s) = fetch s
      in ticks 16 (put_pair h l (sint (u16 (uint (regs s h) * 256 + uint (regs s l) + (uint lsb + uint msb * 256)))) s))"

definition z80n_add_hl_a :: "cpu \<Rightarrow> cpu" where "z80n_add_hl_a = z80n_add_rr_a rH rL"
definition z80n_add_de_a :: "cpu \<Rightarrow> cpu" where "z80n_add_de_a = z80n_add_rr_a rD rE"
definition z80n_add_bc_a :: "cpu \<Rightarrow> cpu" where "z80n_add_bc_a = z80n_add_rr_a rB rC"
definition z80n_add_hl_mn :: "cpu \<Rightarrow> cpu" where "z80n_add_hl_mn = z80n_add_rr_mn rH rL"
definition z80n_add_de_mn :: "cpu \<Rightarrow> cpu" where "z80n_add_de_mn = z80n_add_rr_mn rD rE"
definition z80n_add_bc_mn :: "cpu \<Rightarrow> cpu" where "z80n_add_bc_mn = z80n_add_rr_mn rB rC"

text \<open>The immediate is stored high byte first.\<close>

definition z80n_push_mn :: "cpu \<Rightarrow> cpu" where
  "z80n_push_mn s =
     (let (msb, s) = fetch s; (lsb, s) = fetch s
      in ticks 23 (push8 lsb (push8 msb s)))"

section \<open>Barrel shifts\<close>

text \<open>The shift macros of the main CPU, repeated; clock and flags are put back afterwards.\<close>

definition barrel :: "(cpu \<Rightarrow> cpu) \<Rightarrow> int \<Rightarrow> cpu \<Rightarrow> cpu" where
  "barrel step m s =
     ((step ^^ nat (uint (regs s rB) AND m)) s)\<lparr>st := st s + 8, fl := fl s\<rparr>"

definition BSLA_DE_B :: "cpu \<Rightarrow> cpu" where
  "BSLA_DE_B = barrel (\<lambda>s. RL (LReg rD) (LReg rD) (SLA (LReg rE) (LReg rE) s)) 0x1f"

definition BSRA_DE_B :: "cpu \<Rightarrow> cpu" where
  "BSRA_DE_B = barrel (\<lambda>s. RR (LReg rE) (LReg rE) (SRA (LReg rD) (LReg rD) s)) 0x1f"

definition BSRL_DE_B :: "cpu \<Rightarrow> cpu" where
  "BSRL_DE_B = barrel (\<lambda>s. RR (LReg rE) (LReg rE) (SRL (LReg rD) (LReg rD) s)) 0x1f"

definition BSRF_DE_B :: "cpu \<Rightarrow> cpu" where
  "BSRF_DE_B = barrel (\<lambda>s.
     let s = RR (LReg rD) (LReg rD) s;
         s = set_reg rD (u8 (uint (regs s rD) OR 128)) s
     in RR (LReg rE) (LReg rE) s) 0x1f"

text \<open>The rotation puts bit 7 of D into the carry first.\<close>

definition BRLC_DE_B :: "cpu \<Rightarrow> cpu" where
  "BRLC_DE_B = barrel (\<lambda>s.
     let g = fl s;
         g = g\<lparr>ff := u16 (uint (ff g) AND NOT 256)\<rparr>;
         g = g\<lparr>ff := u16 (uint (ff g) OR (if uint (regs s rD) AND 128 \<noteq> 0 then 256 else 0))\<rparr>;
         s = s\<lparr>fl := g\<rparr>
     in RL (LReg rD) (LReg rD) (RL (LReg rE) (LReg rE) s)) 0x0f"

section \<open>The barrel shifts as word operations\<close>

definition steps_pair :: "cpu \<Rightarrow> (16 word \<Rightarrow> 16 word) \<Rightarrow> cpu \<Rightarrow> bool" where
  "steps_pair s f s' \<longleftrightarrow> (\<exists>n d e F. s' = s\<lparr>st := n, regs := (regs s)(rD := d, rE := e), fl := F\<rparr> \<and>
     pair16 d e = f (pair rD rE s))"

lemma barrel_word:
  assumes step: "\<And>s. z80_flags s \<Longrightarrow> \<not> altd s \<Longrightarrow> steps_pair s f (step s)"
    and "z80_flags s" "\<not> altd s"
  shows "barrel step m s = s\<lparr>st := st s + 8,
    regs := (regs s)(rD := hi8 ((f ^^ nat (uint (regs s rB) AND m)) (pair rD rE s)),
                     rE := lo8 ((f ^^ nat (uint (regs s rB) AND m)) (pair rD rE s)))\<rparr>"
proof -
  have "\<exists>n F. (step ^^ k) s = s\<lparr>st := n, fl := F, regs := (regs s)
      (rD := hi8 ((f ^^ k) (pair rD rE s)), rE := lo8 ((f ^^ k) (pair rD rE s)))\<rparr>" for k
  proof (induction k)
    case 0
    have "(regs s)(rD := hi8 (pair rD rE s), rE := lo8 (pair rD rE s)) = regs s"
      by (simp add: pair_def hi8_pair16 lo8_pair16)
    then have "s = s\<lparr>st := st s, fl := fl s, regs := (regs s)(rD := hi8 (pair rD rE s), rE := lo8 (pair rD rE s))\<rparr>"
      by simp
    then show ?case by (simp only: funpow_0) blast
  next
    case (Suc k)
    let ?w = "(f ^^ k) (pair rD rE s)"
    from Suc obtain n F where k: "(step ^^ k) s = s\<lparr>st := n, fl := F, regs := (regs s)(rD := hi8 ?w, rE := lo8 ?w)\<rparr>"
      by blast
    let ?s = "s\<lparr>st := n, fl := F, regs := (regs s)(rD := hi8 ?w, rE := lo8 ?w)\<rparr>"
    have "z80_flags ?s" "\<not> altd ?s" "pair rD rE ?s = ?w"
      using assms(2,3) by (simp_all add: z80_flags_def cpu_preds pair_def pair16_hi8_lo8)
    with step [of ?s, unfolded steps_pair_def] obtain n' d e F' where
      q: "step ?s = ?s\<lparr>st := n', regs := (regs ?s)(rD := d, rE := e), fl := F'\<rparr>" "pair16 d e = f ?w" by fastforce
    then have "hi8 (f ?w) = d" "lo8 (f ?w) = e" using hi8_pair16 [of d e] lo8_pair16 [of d e] by simp_all
    then have "(step ^^ Suc k) s = s\<lparr>st := n', fl := F', regs := (regs s)
        (rD := hi8 ((f ^^ Suc k) (pair rD rE s)), rE := lo8 ((f ^^ Suc k) (pair rD rE s)))\<rparr>"
      by (simp add: k q(1) fun_upd_twist)
    then show ?case by blast
  qed
  from this [of "nat (uint (regs s rB) AND m)"] show ?thesis
    by (auto simp: barrel_def)
qed

text \<open>Two shifts in a row: D and E, with the carry of the first in the second.\<close>

lemma shift_ok_elim:
  assumes "shift_ok s r v c s'"
  obtains F where "s' = s\<lparr>st := st s + CBr_TICKS s, regs := (regs s)(r := v), fl := F\<rparr>"
    "z80_flags s \<Longrightarrow> bit (ff F) 8 = c"
proof
  show e: "s' = s\<lparr>st := st s + CBr_TICKS s, regs := (regs s)(r := v), fl := fl s'\<rparr>"
    using assms by (simp only: shift_ok_def)
  assume "z80_flags s"
  then have "z80_flags s'" by (subst e) (simp add: z80_flags_def cpu_preds)
  then have "C_flag (flags_of (f_flags s')) = bit (ff (fl s')) 8"
    by (simp add: f_flags_z80 flags_of_f_z80)
  then show "bit (ff (fl s')) 8 = c"
    using assms by (simp add: shift_ok_def shift_flags_def)
qed

lemma all_less_16:
  "(\<forall>n<16. P n) \<longleftrightarrow> P 0 \<and> P 1 \<and> P 2 \<and> P 3 \<and> P 4 \<and> P 5 \<and> P 6 \<and> P 7 \<and> P 8 \<and> P 9 \<and> P 10 \<and> P 11 \<and>
    P 12 \<and> P 13 \<and> P 14 \<and> P (15 :: nat)"
  by (simp add: numeral_eq_Suc All_less_Suc conj_ac)

lemma word16_eqI: "\<forall>n<16. bit x n = bit y n \<Longrightarrow> x = (y :: 16 word)"
  by (rule bit_word_eqI) simp

lemma pair16_shift:
  "pair16 (push_bit 1 d OR of_bool (bit e 7)) (push_bit 1 e) = push_bit 1 (pair16 d e)"
  "pair16 (drop_bit 1 d) (drop_bit 1 e OR push_bit 7 (of_bool (bit d 0))) = drop_bit 1 (pair16 d e)"
  "pair16 (signed_drop_bit 1 d) (drop_bit 1 e OR push_bit 7 (of_bool (bit d 0))) = signed_drop_bit 1 (pair16 d e)"
  "pair16 (drop_bit 1 d OR 128) (drop_bit 1 e OR push_bit 7 (of_bool (bit d 0))) = NOT (drop_bit 1 (NOT (pair16 d e)))"
  "pair16 (push_bit 1 d OR of_bool (bit e 7)) (push_bit 1 e OR of_bool (bit d 7)) = word_rotl 1 (pair16 d e)"
proof -
  have b128: "bit (128 :: 8 word) k \<longleftrightarrow> k = 7" for k
    using bit_exp_iff [where 'a = "8 word", of 7 k] by auto
  note b = bit_pair16 bit_or_iff bit_push_bit_iff bit_drop_bit_eq bit_of_bool_iff bit_signed_drop_bit_iff
    bit_not_iff bit_word_rotl_iff
  show "pair16 (push_bit 1 d OR of_bool (bit e 7)) (push_bit 1 e) = push_bit 1 (pair16 d e)"
    by (rule word16_eqI) (simp only: b all_less_16, simp add: bit_pair16 bit8_high bit_not_iff, (simp add: numeral_eq_Suc)?)
  show "pair16 (drop_bit 1 d) (drop_bit 1 e OR push_bit 7 (of_bool (bit d 0))) = drop_bit 1 (pair16 d e)"
    by (rule word16_eqI) (simp only: b all_less_16, simp add: bit_pair16 bit8_high bit_not_iff, (simp add: numeral_eq_Suc)?)
  show "pair16 (signed_drop_bit 1 d) (drop_bit 1 e OR push_bit 7 (of_bool (bit d 0))) = signed_drop_bit 1 (pair16 d e)"
    by (rule word16_eqI) (simp only: b all_less_16, simp add: bit_pair16 bit8_high bit_not_iff, (simp add: numeral_eq_Suc)?)
  show "pair16 (drop_bit 1 d OR 128) (drop_bit 1 e OR push_bit 7 (of_bool (bit d 0))) = NOT (drop_bit 1 (NOT (pair16 d e)))"
    by (rule word16_eqI) (simp only: b b128 all_less_16, simp add: bit_pair16 bit8_high bit_not_iff, (simp add: numeral_eq_Suc)?)
  show "pair16 (push_bit 1 d OR of_bool (bit e 7)) (push_bit 1 e OR of_bool (bit d 7)) = word_rotl 1 (pair16 d e)"
    by (rule word16_eqI) (simp only: b all_less_16, simp add: bit_pair16 bit8_high bit_not_iff, (simp add: numeral_eq_Suc)?)
qed
lemma funpow_shifts:
  "(push_bit 1 ^^ n) (w :: 16 word) = push_bit n w" "(drop_bit 1 ^^ n) w = drop_bit n w"
  "(signed_drop_bit 1 ^^ n) w = signed_drop_bit n w" "(word_rotl 1 ^^ n) w = word_rotl n w"
  "((\<lambda>w. NOT (drop_bit 1 (NOT w))) ^^ n) w = NOT (drop_bit n (NOT w))"
proof -
  show "(push_bit 1 ^^ n) w = push_bit n w" by (induction n) (simp_all only: funpow_0 funpow.simps o_apply push_bit_push_bit, simp_all)
  show "(drop_bit 1 ^^ n) w = drop_bit n w" by (induction n) (simp_all only: funpow.simps o_apply drop_bit_drop_bit, simp_all)
  show "(signed_drop_bit 1 ^^ n) w = signed_drop_bit n w" 
    by (induction n) (simp_all only: funpow.simps o_apply signed_drop_bit_signed_drop_bit, simp_all)
  show "(word_rotl 1 ^^ n) w = word_rotl n w"
  proof (induction n)
    case 0
    show ?case by (rule bit_word_eqI) (simp add: bit_word_rotl_iff)
  next
    case (Suc n)
    have "word_rotl 0 w = w" "word_rotr 0 w = w" for w :: "16 word"
      by (rule bit_word_eqI, simp add: bit_word_rotl_iff bit_word_rotr_iff)+
    then have r: "word_rotl k w = word_roti (- int k) w" for k and w :: "16 word" by simp
    have "word_rotl 1 (word_rotl n w) = word_rotl (Suc n) w"
      unfolding r word_roti_add [symmetric] by (rule arg_cong [where f = "\<lambda>i. word_roti i w"]) simp
    with Suc show ?case by (simp only: funpow.simps o_apply)
  qed
  show "((\<lambda>w. NOT (drop_bit 1 (NOT w))) ^^ n) w = NOT (drop_bit n (NOT w))"
    by (induction n) (simp_all only: funpow.simps o_apply not_not drop_bit_drop_bit, simp_all)
qed

lemma shift_then:
  assumes "z80_flags s" "\<not> altd s" "shift_ok s r v c s1" "r \<noteq> q"
    and "\<And>t. z80_flags t \<Longrightarrow> \<not> altd t \<Longrightarrow> shift_ok t q (V (regs t q) (carry t)) (C t) (s2 t)"
  shows "\<exists>n F. s2 s1 = s\<lparr>st := n, regs := (regs s)(r := v, q := V (regs s q) c), fl := F\<rparr>"
proof -
  obtain F where 1: "s1 = s\<lparr>st := st s + CBr_TICKS s, regs := (regs s)(r := v), fl := F\<rparr>" and c: "bit (ff F) 8 = c"
    using shift_ok_elim [OF assms(3)] assms(1) by metis
  then have t: "z80_flags s1" "\<not> altd s1" "carry s1 = c" "regs s1 q = regs s q"
    using assms(1,2,4) by (simp_all add: z80_flags_def cpu_preds carry_def grp_def)
  obtain F' n where "s2 s1 = s1\<lparr>st := n, regs := (regs s1)(q := V (regs s q) c), fl := F'\<rparr>"
    by (rule shift_ok_elim [OF assms(5) [OF t(1,2)], unfolded t(3,4)]) (rule that)
  then have "s2 s1 = s\<lparr>st := n, regs := (regs s)(r := v, q := V (regs s q) c), fl := F'\<rparr>" by (simp add: 1)
  then show ?thesis by blast
qed

lemma steps_pairI:
  assumes "\<exists>n F. s' = s\<lparr>st := n, regs := (regs s)(rD := d, rE := e), fl := F\<rparr>" "pair16 d e = f (pair16 (regs s rD) (regs s rE))"
  shows "steps_pair s f s'"
  using assms unfolding steps_pair_def pair_def by blast

lemma steps_pairI':
  assumes "\<exists>n F. s' = s\<lparr>st := n, regs := (regs s)(rE := e, rD := d), fl := F\<rparr>" "pair16 d e = f (pair16 (regs s rD) (regs s rE))"
  shows "steps_pair s f s'"
proof -
  have "(regs s)(rE := e, rD := d) = (regs s)(rD := d, rE := e)" by (rule fun_upd_twist) simp
  with assms show ?thesis by (intro steps_pairI) auto
qed

lemma rl_rr_ok:
  assumes "z80_flags t" "\<not> altd t"
  shows "shift_ok t q (push_bit 1 (regs t q) OR of_bool (carry t)) (bit (regs t q) 7) (RL (LReg q) r t)"
    and "shift_ok t q (drop_bit 1 (regs t q) OR push_bit 7 (of_bool (carry t))) (bit (regs t q) 0) (RR (LReg q) r t)"
  using rotates_ok [OF assms, of q r] by blast+

lemmas rl_then = shift_then [where ?s2.0 = "RL (LReg q) r" and V = "\<lambda>x c. push_bit 1 x OR of_bool c"
    and C = "\<lambda>t. bit (regs t q) 7" for q r, OF _ _ _ _ rl_rr_ok(1)]
lemmas rr_then = shift_then [where ?s2.0 = "RR (LReg q) r" and V = "\<lambda>x c. drop_bit 1 x OR push_bit 7 (of_bool c)"
    and C = "\<lambda>t. bit (regs t q) 0" for q r, OF _ _ _ _ rl_rr_ok(2)]

lemma barrel_steps:
  assumes "z80_flags s" "\<not> altd s"
  shows "steps_pair s (push_bit 1) (RL (LReg rD) r (SLA (LReg rE) r' s))"
    "steps_pair s (signed_drop_bit 1) (RR (LReg rE) r (SRA (LReg rD) r' s))"
    "steps_pair s (drop_bit 1) (RR (LReg rE) r (SRL (LReg rD) r' s))"
    "carry s = bit (regs s rD) 7 \<Longrightarrow> steps_pair s (word_rotl 1) (RL (LReg rD) r (RL (LReg rE) r' s))"
proof -
  note ok = rotates_ok [OF assms, THEN conjunct2, THEN conjunct2, THEN conjunct2, THEN conjunct2]
  show "steps_pair s (push_bit 1) (RL (LReg rD) r (SLA (LReg rE) r' s))"
    using ok [of rE r'] by (intro steps_pairI' [where f = "push_bit 1", OF rl_then [OF assms] pair16_shift(1)]) auto
  show "steps_pair s (signed_drop_bit 1) (RR (LReg rE) r (SRA (LReg rD) r' s))"
    using ok [of rD r'] by (intro steps_pairI [where f = "signed_drop_bit 1", OF rr_then [OF assms] pair16_shift(3)]) auto
  show "steps_pair s (drop_bit 1) (RR (LReg rE) r (SRL (LReg rD) r' s))"
    using ok [of rD r'] by (intro steps_pairI [where f = "drop_bit 1", OF rr_then [OF assms] pair16_shift(2)]) auto
  assume c: "carry s = bit (regs s rD) 7"
  show "steps_pair s (word_rotl 1) (RL (LReg rD) r (RL (LReg rE) r' s))"
    by (rule steps_pairI' [OF rl_then [OF assms rl_rr_ok(1) [OF assms]]])
      (simp_all only: c pair16_shift(5), simp_all)
qed

lemma steps_pair_carry:
  assumes "steps_pair (s\<lparr>fl := g\<rparr>) f s'"
  shows "steps_pair s f s'"
  using assms by (simp add: steps_pair_def pair_def)

text \<open>The fill shift sets bit 7 of D between its two steps.\<close>

lemma bsrf_step:
  assumes "z80_flags s" "\<not> altd s"
  shows "steps_pair s (\<lambda>w. NOT (drop_bit 1 (NOT w)))
    (let s = RR (LReg rD) r s; s = set_reg rD (u8 (uint (regs s rD) OR 128)) s in RR (LReg rE) r' s)"
proof -
  let ?d = "drop_bit 1 (regs s rD) OR push_bit 7 (of_bool (carry s))"
  obtain F where 1: "RR (LReg rD) r s = s\<lparr>st := st s + CBr_TICKS s, regs := (regs s)(rD := ?d), fl := F\<rparr>"
    and c: "bit (ff F) 8 = bit (regs s rD) 0"
    by (rule shift_ok_elim [OF rl_rr_ok(2) [OF assms, of rD r]]) (rule that, assumption, use assms(1) in blast)
  have 128: "u8 (uint ?d OR 128) = drop_bit 1 (regs s rD) OR 128"
  proof -
    have "u8 (uint x OR 128) = x OR 128" for x :: "8 word"
      by (rule word8_eqI) (simp only: bit_u8 bit_or_iff bit_uint8 all_less_8, simp)
    then have "u8 (uint ?d OR 128) = ?d OR 128" .
    also have "\<dots> = drop_bit 1 (regs s rD) OR 128"
      by (rule word8_eqI) (simp add: bit_or_iff all_less_8)
    finally show ?thesis .
  qed
  define t where "t = set_reg rD (u8 (uint (regs (RR (LReg rD) r s) rD) OR 128)) (RR (LReg rD) r s)"
  have t: "t = s\<lparr>st := st s + CBr_TICKS s, regs := (regs s)(rD := drop_bit 1 (regs s rD) OR 128), fl := F\<rparr>"
    by (simp only: t_def 1 set_reg_def) (simp add: 128 [simplified])
  then have "z80_flags t" "\<not> altd t" "carry t = bit (regs s rD) 0" "regs t rE = regs s rE"
    using assms c by (simp_all add: z80_flags_def cpu_preds carry_def grp_def)
  note u = this
  have "\<exists>n G. RR (LReg rE) r' t = s\<lparr>st := n, regs := (regs s)(rD := drop_bit 1 (regs s rD) OR 128,
      rE := drop_bit 1 (regs s rE) OR push_bit 7 (of_bool (bit (regs s rD) 0))), fl := G\<rparr>"
  proof (rule shift_ok_elim [OF rl_rr_ok(2) [OF u(1,2), of rE r'], unfolded u(3,4)])
    fix G
    assume "RR (LReg rE) r' t = t\<lparr>st := st t + CBr_TICKS t,
      regs := (regs t)(rE := drop_bit 1 (regs s rE) OR push_bit 7 (of_bool (bit (regs s rD) 0))), fl := G\<rparr>"
    then have "RR (LReg rE) r' t = s\<lparr>st := st t + CBr_TICKS t, regs := (regs s)(rD := drop_bit 1 (regs s rD) OR 128,
      rE := drop_bit 1 (regs s rE) OR push_bit 7 (of_bool (bit (regs s rD) 0))), fl := G\<rparr>"
      by (subst (asm) (2 4) t) simp
    then show ?thesis by blast
  qed
  then have "steps_pair s (\<lambda>w. NOT (drop_bit 1 (NOT w))) (RR (LReg rE) r' t)"
    by (rule steps_pairI) (rule pair16_shift(4))
  then show ?thesis by (simp only: Let_def t_def)
qed
lemma bit_and_set_256:
  "bit (u16 (uint (u16 (uint (f :: 16 word) AND NOT 256)) OR (if c then 256 else 0))) 8 = c"
  using bit_pow2 [of 8 8] by (simp only: bit_u16 bit_or_iff bit_uint16 bit_and_iff bit_not_iff) simp

lemma and_128_bit: "uint (x :: 8 word) AND 128 \<noteq> 0 \<longleftrightarrow> bit x 7"
  using and_exp_bit [of "uint x" 7] by (simp only: bit_uint8) simp

lemma shift_count: "nat (uint x AND m) = unat (x AND word_of_int m)" if "0 \<le> m" "m < 256" for x :: "8 word"
proof -
  have "unat (x AND word_of_int m) = nat (uint (x AND word_of_int m))" by simp
  also have "uint (x AND word_of_int m) = uint x AND m"
    using that by (simp add: uint_and word_of_int_inverse)
  finally show ?thesis by simp
qed

text \<open>C26: the five barrel shifts, loops of byte shifts through the carry, are the 16-bit shift left,
  arithmetic shift right, logical shift right, shift right filling with ones and rotate left of DE by
  B (modulo 32, the rotation modulo 16); flags and every other register are as before.\<close>

theorem barrel_shift_correct:
  assumes "z80_flags s" "\<not> altd s"
  shows "let w = pair rD rE s; n = unat (regs s rB AND 31); r = unat (regs s rB AND 15);
      put = (\<lambda>w. s\<lparr>st := st s + 8, regs := (regs s)(rD := hi8 w, rE := lo8 w)\<rparr>) in
    BSLA_DE_B s = put (push_bit n w) \<and> BSRA_DE_B s = put (signed_drop_bit n w) \<and>
    BSRL_DE_B s = put (drop_bit n w) \<and> BSRF_DE_B s = put (NOT (drop_bit n (NOT w))) \<and>
    BRLC_DE_B s = put (word_rotl r w)"
proof -
  have n: "nat (uint (regs s rB) AND 0x1f) = unat (regs s rB AND 31)" "nat (uint (regs s rB) AND 0x0f) = unat (regs s rB AND 15)"
    using shift_count [of 31] shift_count [of 15] by simp_all
  note b = barrel_word [OF _ assms, where m = "0x1f", unfolded n(1)]
  have c: "steps_pair t (word_rotl 1) (RL (LReg rD) (LReg rD) (RL (LReg rE) (LReg rE) (t\<lparr>fl := g\<rparr>)))"
    if "z80_flags t" "\<not> altd t" "bit (ff g) 8 = bit (regs t rD) 7" for t g
    using that by (intro steps_pair_carry [OF barrel_steps(4)]) (simp_all add: z80_flags_def cpu_preds carry_def grp_def)
  have ff: "ff (g\<lparr>ff := a\<rparr>) = a" for g a by simp
  have r: "BRLC_DE_B s = s\<lparr>st := st s + 8, regs := (regs s)
      (rD := hi8 (word_rotl (unat (regs s rB AND 15)) (pair rD rE s)), rE := lo8 (word_rotl (unat (regs s rB AND 15)) (pair rD rE s)))\<rparr>"
    unfolding BRLC_DE_B_def by (rule barrel_word [OF _ assms, where m = "0x0f" and f = "word_rotl 1", unfolded n(2) funpow_shifts])
      (unfold Let_def, rule c, assumption+, simp only: ff bit_and_set_256 and_128_bit)
  show ?thesis
    unfolding Let_def BSLA_DE_B_def BSRA_DE_B_def BSRL_DE_B_def BSRF_DE_B_def
    using r b [OF barrel_steps(1), unfolded funpow_shifts] b [OF barrel_steps(2), unfolded funpow_shifts]
      b [OF barrel_steps(3), unfolded funpow_shifts] b [OF bsrf_step, unfolded Let_def funpow_shifts]
    by (intro conjI)
qed

theorem barrel_shift_correct_witness:
  "let s = (power_on CPU_Z80N Zxn)\<lparr>regs := (\<lambda>_. 4)(rD := 0x80, rE := 0x12)\<rparr> in
    regs (BSRA_DE_B s) rD = 0xF8 \<and> regs (BSRA_DE_B s) rE = 0x01"
proof -
  let ?s = "(power_on CPU_Z80N Zxn)\<lparr>regs := (\<lambda>_. 4)(rD := 0x80, rE := 0x12)\<rparr>"
  have p: "pair rD rE ?s = 0x8012" by (simp add: pair_def word_uint_eq_iff uint_pair16)
  have "z80_flags ?s" "\<not> altd ?s" by (simp_all add: z80_flags_def power_on_def cpu_preds cpu_codes)
  from barrel_shift_correct [OF this]
  have "regs (BSRA_DE_B ?s) rD = hi8 (signed_drop_bit 4 0x8012)" "regs (BSRA_DE_B ?s) rE = lo8 (signed_drop_bit 4 0x8012)"
    by (simp_all add: Let_def p)
  moreover have "signed_drop_bit 4 (0x8012 :: 16 word) = 0xF801" by (rule word16_eqI) (simp add: all_less_16 bit_signed_drop_bit_iff)
  ultimately show ?thesis by (simp add: hi8_def lo8_def)
qed

section \<open>Transparent block copies\<close>

text \<open>One execution of LDIRX or LDDRX.\<close>

definition ldirx_insn :: "bool \<Rightarrow> cpu \<Rightarrow> cpu" where
  "ldirx_insn up s = (if up then z80n_ldirx else z80n_lddrx) (s\<lparr>pc := pc s + 2\<rparr>)"

text \<open>Bytes equal to \<open>k\<close> are not copied.\<close>

definition masked_byte :: "8 word \<Rightarrow> 16 word \<Rightarrow> 16 word \<Rightarrow> cpu \<Rightarrow> cpu" where
  "masked_byte k a b s = (if rd_data a s = k then s else put_mem b (rd_data a s) s)"

lemma ldx_step_regs:
  fixes up and s :: cpu
  defines "p \<equiv> masked_byte (regs s rA) (pair rH rL s) (pair rD rE s) (ticks 16 s)"
  shows "\<exists>g f. ldx_step up s = p\<lparr>regs := g, fl := f\<rparr> \<and> g = regs (dec_rr rB rC (step_rr up rD rE (step_rr up rH rL p)))"
proof -
  have hl: "uint (regs s rL) OR shl (uint (regs s rH)) 8 = uint (pair rH rL s)"
    using rp_eq [of rH rL s] by (simp add: rp_def pair_def)
  obtain a where a: "step_rr up rH rL p = p\<lparr>regs := a\<rparr>" using step_rr_frame(1) ..
  obtain b where b: "step_rr up rD rE (p\<lparr>regs := a\<rparr>) = p\<lparr>regs := b\<rparr>"
    using step_rr_frame(1) [of up rD rE "p\<lparr>regs := a\<rparr>"] by simp
  obtain c where c: "dec_rr rB rC (p\<lparr>regs := b\<rparr>) = p\<lparr>regs := c\<rparr>"
    using dec_rr_frame(1) [of rB rC "p\<lparr>regs := b\<rparr>"] by simp
  have p: "(if get_memory_data (uint (pair rH rL s)) (ticks 16 s) \<noteq> regs (ticks 16 s) rA
      then put_mem (pair16 (regs (ticks 16 s) rD) (regs (ticks 16 s) rE)) (rd_data (pair rH rL s) (ticks 16 s)) (ticks 16 s)
      else ticks 16 s) = p"
    by (simp add: p_def masked_byte_def ticks_def pair_def)
  have "regs (ticks 16 s) rH = regs s rH" "regs (ticks 16 s) rL = regs s rL" by (simp_all add: ticks_def)
  then have "\<exists>f. ldx_step up s = p\<lparr>regs := c, fl := f\<rparr>"
    unfolding ldx_step_def Let_def by (simp only: hl p a b c) (simp, blast)
  then show ?thesis by (simp add: a b c)
qed
lemma masked_byte_fields:
  "masked_byte k a b (with_fields t s) = with_fields t (masked_byte k a b s)"
  "regs (masked_byte k a b s) = regs s" "pc (masked_byte k a b s) = pc s"
  by (simp_all add: masked_byte_def)

lemma ldirx_insn_step:
  fixes up and s :: cpu
  defines "p \<equiv> masked_byte (regs s rA) (pair rH rL s) (pair rD rE s) s"
  shows "ldirx_insn up s = with_fields (ldirx_insn up s) p"
    "pair rH rL (ldirx_insn up s) = pair rH rL s + dir up \<and> pair rD rE (ldirx_insn up s) = pair rD rE s + dir up \<and>
      pair rB rC (ldirx_insn up s) = pair rB rC s - 1"
    "pc (ldirx_insn up s) = (if pair rB rC s = 1 then pc s + 2 else pc s)"
    "regs (ldirx_insn up s) rA = regs s rA"
proof -
  let ?s = "s\<lparr>pc := pc s + 2\<rparr>"
  define q where "q = masked_byte (regs ?s rA) (pair rH rL ?s) (pair rD rE ?s) (ticks 16 ?s)"
  let ?t = "dec_rr rB rC (step_rr up rD rE (step_rr up rH rL q))"
  obtain g f where L: "ldx_step up ?s = q\<lparr>regs := g, fl := f\<rparr>" and g: "g = regs ?t"
    using ldx_step_regs [of up ?s] unfolding q_def by blast
  have q: "q = p\<lparr>pc := pc s + 2, st := st s + 16\<rparr>"
    by (simp add: q_def p_def masked_byte_def ticks_def pair_def)
  have pq: "pair h l q = pair h l s" "pair h l (ldx_step up ?s) = pair h l ?t" for h l
    by (simp_all add: q p_def masked_byte_fields pair_def L g flip: q_def)
  have pr: "pair rH rL (ldx_step up ?s) = pair rH rL s + dir up" "pair rD rE (ldx_step up ?s) = pair rD rE s + dir up"
    "pair rB rC (ldx_step up ?s) = pair rB rC s - 1"
    unfolding pq(2) by (simp_all add: pair_step_other step_rr_pair dec_rr_pair pq(1) dir_def)
  have A: "g rA = regs s rA"
    by (simp add: g dec_rr_frame(2) step_rr_frame(2)) (simp add: q p_def masked_byte_fields)
  have left: "bc_left (ldx_step up ?s) \<longleftrightarrow> pair rB rC s \<noteq> 1"
    by (simp add: bc_left_pair pr)
  have e: "ldirx_insn up s = ldx_repeat up ?s" by (simp add: ldirx_insn_def z80n_ldirx_def z80n_lddrx_def)
  obtain m n h where R: "ldirx_insn up s = p\<lparr>regs := g, tt := tt p, fl := h,
      pc := (if pair rB rC s = 1 then pc s + 2 else pc s), mp := m, st := n\<rparr>"
  proof (cases "pair rB rC s = 1")
    case True
    have "ldirx_insn up s = p\<lparr>regs := g, tt := tt p, fl := f\<lparr>fa := 0, fb := 0\<rparr>, pc := pc s + 2, mp := mp p, st := st s + 16\<rparr>"
      using left True by (simp add: e ldx_repeat_def Let_def ld_pv_def) (simp add: L q)
    with True show ?thesis by (intro that [where h = "f\<lparr>fa := 0, fb := 0\<rparr>" and m = "mp p" and n = "st s + 16"]) simp
  next
    case False
    have "ldirx_insn up s = p\<lparr>regs := g, tt := tt p, fl := f\<lparr>fa := 128, fb := 128\<rparr>, pc := pc s,
        mp := pc s + 1, st := st s + 21\<rparr>"
      using left False by (simp add: e ldx_repeat_def Let_def ld_pv_def repeat_insn_def) (simp add: L q)
    with False show ?thesis by (intro that) simp
  qed
  show "ldirx_insn up s = with_fields (ldirx_insn up s) p" using R by (rule with_fields_eqI)
  have P: "pair h l (ldirx_insn up s) = pair h l (ldx_step up ?s)" for h l
    by (simp add: R pair_def L)
  show "pair rH rL (ldirx_insn up s) = pair rH rL s + dir up \<and> pair rD rE (ldirx_insn up s) = pair rD rE s + dir up \<and>
      pair rB rC (ldirx_insn up s) = pair rB rC s - 1"
    by (simp add: P pr)
  show "pc (ldirx_insn up s) = (if pair rB rC s = 1 then pc s + 2 else pc s)" "regs (ldirx_insn up s) rA = regs s rA"
    by (simp_all add: R A)
qed

interpretation ldirx: block_loop "ldirx_insn up" "dir up" masked_byte "\<lambda>s. regs s rA" "\<lambda>_. True" for up
  by unfold_locales (simp_all add: ldirx_insn_step(2-) masked_byte_fields, rule ldirx_insn_step(1))

text \<open>What the copy leaves in flat memory when the blocks do not meet.\<close>

lemma of_nat_step:
  assumes "d = 1 \<or> d = (-1 :: 16 word)" "j < 65536" "j \<noteq> 0"
  shows "of_nat j * d \<noteq> 0"
proof
  assume "of_nat j * d = 0"
  with assms(1) have "of_nat j = (0 :: 16 word)" by auto
  then have "2 ^ LENGTH(16) dvd j" by (simp only: word_of_nat_eq_0_iff)
  with assms(2,3) show False by (auto dest: dvd_imp_le)
qed

lemma masked_byte_flat:
  assumes "flat_ram s"
  shows "rd_data x (masked_byte k a b s) = (if x = b \<and> rd_data a s \<noteq> k then rd_data a s else rd_data x s)"
    "flat_ram (masked_byte k a b s)"
  using assms by (simp_all add: masked_byte_def flat.rd_wr_flat flat_ram_put_mem)

lemma masked_block_frame:
  assumes "flat_ram s" "\<And>j. j < n \<Longrightarrow> x \<noteq> dst + of_nat j * d"
  shows "rd_data x (block_bytes (masked_byte k) d n src dst s) = rd_data x s"
  using assms
proof (induction n arbitrary: src dst s)
  case 0
  then show ?case by simp
next
  case (Suc n)
  have "x \<noteq> dst + d + of_nat j * d" if "j < n" for j
    using Suc.prems(2) [of "Suc j"] that by (simp add: algebra_simps)
  moreover have "x \<noteq> dst" using Suc.prems(2) [of 0] by simp
  ultimately show ?case
    using Suc.IH [of "masked_byte k src dst s" "dst + d" "src + d"] Suc.prems(1) by (simp add: masked_byte_flat)
qed

lemma masked_block:
  assumes "flat_ram s" "d = 1 \<or> d = -1" "n \<le> 65536" "i < n"
    and "\<And>j k. j < n \<Longrightarrow> k < n \<Longrightarrow> dst + of_nat j * d \<noteq> src + of_nat k * d"
  shows "rd_data (dst + of_nat i * d) (block_bytes (masked_byte k) d n src dst s) =
    (if rd_data (src + of_nat i * d) s = k then rd_data (dst + of_nat i * d) s else rd_data (src + of_nat i * d) s)"
  using assms
proof (induction n arbitrary: src dst s i)
  case 0
  then show ?case by simp
next
  case (Suc n)
  let ?s = "masked_byte k src dst s"
  have sh: "x + d + of_nat j * d = x + of_nat (Suc j) * d" for x :: "16 word" and j by (simp add: algebra_simps)
  have apart: "dst + of_nat (Suc j) * d \<noteq> dst" if "j < n" for j
    using of_nat_step [OF Suc.prems(2), of "Suc j"] that Suc.prems(3) by simp
  show ?case
  proof (cases i)
    case 0
    have "rd_data dst (block_bytes (masked_byte k) d n (src + d) (dst + d) ?s) = rd_data dst ?s"
      using Suc.prems(1) apart by (intro masked_block_frame) (simp_all only: masked_byte_flat sh, metis)
    then show ?thesis using 0 Suc.prems(1) by (simp add: masked_byte_flat)
  next
    case (Suc m)
    have m: "m < n" using Suc.prems(4) Suc by simp
    have "rd_data (dst + d + of_nat m * d) (block_bytes (masked_byte k) d n (src + d) (dst + d) ?s) =
      (if rd_data (src + d + of_nat m * d) ?s = k then rd_data (dst + d + of_nat m * d) ?s
       else rd_data (src + d + of_nat m * d) ?s)"
    proof (rule Suc.IH)
      show "dst + d + of_nat j * d \<noteq> src + d + of_nat l * d" if "j < n" "l < n" for j l
        using Suc.prems(5) [of "Suc j" "Suc l"] that unfolding sh by simp
    qed (use Suc.prems m in \<open>simp_all add: masked_byte_flat\<close>)
    moreover have "src + of_nat (Suc m) * d \<noteq> dst"
      using Suc.prems(5) [of 0 "Suc m"] m by (metis Suc_mono add_0_right mult_zero_left of_nat_0 zero_less_Suc)
    ultimately show ?thesis
      using Suc.prems(1) apart [OF m] Suc by (simp only: sh block_bytes.simps masked_byte_flat simp_thms if_False)
  qed
qed

text \<open>LDIRX and LDDRX, executed until they stop repeating (BC times), are the transparent copy: where
  every address is a byte of its own and the blocks do not meet, each destination byte becomes the
  source byte unless that equals A, when it stays; HL and DE end past the blocks, BC is zero and the
  program counter is behind the instruction.\<close>

lemma ldirx_copies:
  assumes "flat_ram s" "n = (if pair rB rC s = 0 then 65536 else unat (pair rB rC s))"
    and "\<And>j k. j < n \<Longrightarrow> k < n \<Longrightarrow> pair rD rE s + of_nat j * dir up \<noteq> pair rH rL s + of_nat k * dir up"
  shows "let s' = (ldirx_insn up ^^ n) s; src = (\<lambda>i. pair rH rL s + of_nat i * dir up);
      dst = (\<lambda>i. pair rD rE s + of_nat i * dir up) in
    (\<forall>i<n. rd_data (dst i) s' = (if rd_data (src i) s = regs s rA then rd_data (dst i) s else rd_data (src i) s)) \<and>
    (\<forall>x. (\<forall>i<n. x \<noteq> dst i) \<longrightarrow> rd_data x s' = rd_data x s) \<and>
    pair rH rL s' = src n \<and> pair rD rE s' = dst n \<and> pair rB rC s' = 0 \<and> pc s' = pc s + 2"
proof -
  have "unat (pair rB rC s) < 2 ^ LENGTH(16)" by (rule unsigned_less)
  then have n: "n \<le> 65536" by (simp add: assms(2))
  have d: "dir up = 1 \<or> dir up = -1" by (simp add: dir_def)
  note L = ldirx.finish [where s = s and up = up, OF TrueI, folded assms(2)]
  show ?thesis
    unfolding Let_def L using masked_block [OF assms(1) d n _ assms(3)]
    by (intro conjI allI impI masked_block_frame [OF assms(1)]) auto
qed

end
