(* ===== verification/Ticks_Small.thy ===== *)
theory Ticks_Small
  imports Ticks_Zilog
begin

text \<open>
  The instruction files of the smaller variants: \<open>gbz80_inst.c\<close> (SM83), \<open>z180_inst.c\<close> and
  \<open>r800_inst.c\<close>. Messages on \<open>stderr\<close> are not part of the state.
\<close>

section \<open>SM83\<close>

definition gbz80_ld_inm_sp :: "cpu \<Rightarrow> cpu" where
  "gbz80_ld_inm_sp s =
     (let (x, s) = fetch s;
          (y, s) = fetch s;
          m = u16 (uint x OR shl (uint y) 8);
          s = put_mem m (u8 (uint (sp s) AND 0xff)) (s\<lparr>mp := m\<rparr>);
          s = s\<lparr>mp := m + 1\<rparr>
      in ticks 20 (put_mem (m + 1) (hi8 (sp s)) s))"

definition gbz80_add_sp_d :: "cpu \<Rightarrow> cpu" where
  "gbz80_add_sp_d s =
     (let s = ticks 16 s;
          (d, s) = fetch s;
          v = uint (u32 (uint (sp s) + sdisp d));
          s = s\<lparr>sp := u16 (v AND 0xffff)\<rparr>;
          g = fl s
      in s\<lparr>fl := g\<lparr>ff := u16 (if shr v 16 \<noteq> 0 then uint (ff g) OR 256 else uint (ff g) AND NOT 256)\<rparr>\<rparr>)"

definition gbz80_ld_hl_spd :: "cpu \<Rightarrow> cpu" where
  "gbz80_ld_hl_spd s =
     (let s = ticks 12 s;
          (d, s) = fetch s;
          t = uint (u16 ((uint (sp s) + sdisp d) AND 0xffff))
      in set_reg rL (u8 (t mod 256)) (set_reg rH (u8 (t div 256)) s))"

definition gbz80_ld_inm_a :: "cpu \<Rightarrow> cpu" where
  "gbz80_ld_inm_a s =
     (let s = ticks 16 s;
          (x, s) = fetch s;
          (y, s) = fetch s;
          t = u16 (uint x OR shl (uint y) 8);
          s = put_mem t (regs s rA) s
      in s\<lparr>mp := u16 (((uint t + 1) AND 255) OR shl (uint (regs s rA)) 8)\<rparr>)"

definition gbz80_ld_a_inm :: "cpu \<Rightarrow> cpu" where
  "gbz80_ld_a_inm s =
     (let s = ticks 16 s;
          (x, s) = fetch s;
          (y, s) = fetch s;
          m = u16 (uint x OR shl (uint y) 8);
          s = s\<lparr>mp := m\<rparr>;
          s = set_reg rA (get_memory_data (uint m) s) s
      in s\<lparr>mp := m + 1\<rparr>)"

section \<open>Z180\<close>

definition mlt_pair :: "reg \<Rightarrow> reg \<Rightarrow> cpu \<Rightarrow> cpu" where
  "mlt_pair h l s =
     (let v = u16 (uint (regs s h) * uint (regs s l)) in set_reg l (lo8 v) (set_reg h (hi8 v) s))"

definition z180_mlt :: "int \<Rightarrow> cpu \<Rightarrow> cpu" where
  "z180_mlt opcode s =
     (let cls = shr opcode 4 AND 0x03;
          s = (if cls = 0 then mlt_pair rB rC s else if cls = 1 then mlt_pair rD rE s
               else if cls = 2 then mlt_pair rH rL s else s)
      in ticks (if isez80 s then 6 else 17) s)"

text \<open>The block output and sleep instructions only print a message.\<close>

definition z180_otim :: "cpu \<Rightarrow> cpu" where "z180_otim s = s"
definition z180_otdm :: "cpu \<Rightarrow> cpu" where "z180_otdm s = s"
definition z180_otimr :: "cpu \<Rightarrow> cpu" where "z180_otimr s = s"
definition z180_otdmr :: "cpu \<Rightarrow> cpu" where "z180_otdmr s = s"
definition z180_slp :: "cpu \<Rightarrow> cpu" where "z180_slp s = s"

definition z180_in0 :: "cpu \<Rightarrow> cpu" where
  "z180_in0 s = (let (p, s) = fetch s in ticks 12 s)"

definition z180_out0 :: "cpu \<Rightarrow> cpu" where
  "z180_out0 s = (let (p, s) = fetch s in ticks 13 s)"

section \<open>R800\<close>

text \<open>The case for L lacks its \<open>break\<close> and falls into the one that returns.\<close>

definition r800_operand :: "int \<Rightarrow> cpu \<Rightarrow> 8 word option" where
  "r800_operand opcode s =
     (let k = shr opcode 3 AND 0x07 in
      if k = 0 then Some (regs s rB) else if k = 1 then Some (regs s rC)
      else if k = 2 then Some (regs s rD) else if k = 3 then Some (regs s rE)
      else if k = 4 then Some (regs s rH) else if k = 7 then Some (regs s rA) else None)"

definition r800_mulub :: "int \<Rightarrow> cpu \<Rightarrow> cpu" where
  "r800_mulub opcode s =
     (case r800_operand opcode s of
        None \<Rightarrow> s
      | Some r2 \<Rightarrow>
          (let v = uint (u16 (uint (regs s rA) * uint r2))
           in ticks 14 (set_reg rL (u8 (v AND 0xff)) (set_reg rH (u8 (shr v 8 AND 0xff)) s))))"

definition muluw_operand :: "int \<Rightarrow> cpu \<Rightarrow> int" where
  "muluw_operand opcode s =
     (let k = shr opcode 4 AND 0x03 in
      if k = 0 then uint (regs s rB) * 256 + uint (regs s rC) else if k = 1 then uint (regs s rD) * 256 + uint (regs s rE)
      else if k = 2 then uint (regs s rH) * 256 + uint (regs s rL) else uint (sp s) AND 0xffff)"

definition r800_muluw :: "int \<Rightarrow> cpu \<Rightarrow> cpu" where
  "r800_muluw opcode s =
     (let v = uint (u32 ((uint (regs s rH) * 256 + uint (regs s rL)) * muluw_operand opcode s))
      in ticks 36 (set_reg rL (u8 (v AND 0xff)) (set_reg rH (u8 (shr v 8 AND 0xff))
           (set_reg rE (u8 (shr v 16 AND 0xff)) (set_reg rD (u8 (shr v 24 AND 0xff)) s)))))"

section \<open>The products\<close>

lemma byte_of_int: "uint (u8 (shr v k AND 0xff)) = v div 2 ^ k mod 256" "uint (u8 (v AND 0xff)) = v mod 256"
proof -
  have m: "x AND 0xff = x mod 256" for x :: int
    using take_bit_eq_mask [of 8 x] by (simp add: mask_eq_exp_minus_1 take_bit_eq_mod)
  show "uint (u8 (shr v k AND 0xff)) = v div 2 ^ k mod 256" "uint (u8 (v AND 0xff)) = v mod 256"
    by (simp_all only: m uint_word_of_int drop_bit_eq_div) (simp_all add: mod_mod_trivial)
qed

lemma byte_product: "0 \<le> uint (a :: 8 word) * uint (b :: 8 word)" "uint a * uint b \<le> 65025"
proof -
  have "0 \<le> uint a" "0 \<le> uint b" "uint a \<le> 255" "uint b \<le> 255"
    using uint_lt2p [of a] uint_lt2p [of b] by simp_all
  then show "0 \<le> uint a * uint b" "uint a * uint b \<le> 65025"
    using mult_mono [of "uint a" 255 "uint b" 255] by simp_all
qed

lemma mlt_pair_product:
  assumes "h \<noteq> l"
  shows "uint (pair h l (mlt_pair h l s)) = uint (regs s h) * uint (regs s l)"
proof -
  let ?v = "u16 (uint (regs s h) * uint (regs s l))"
  have "pair h l (mlt_pair h l s) = ?v"
    using assms by (simp add: mlt_pair_def Let_def pair_def set_reg_def pair16_hi8_lo8 [of ?v, simplified])
  moreover have "uint ?v = uint (regs s h) * uint (regs s l)"
    using byte_product [of "regs s h" "regs s l"] by (simp only: uint_word_of_int) simp
  ultimately show ?thesis by (simp only:)
qed

lemma mlt_pair_ticks: "pair h l (ticks n s) = pair h l s" "regs (ticks n s) = regs s"
  by (simp_all add: pair_def ticks_def)

lemma word_product32:
  fixes a b :: int
  assumes "0 \<le> a" "a < 65536" "0 \<le> b" "b < 65536"
  shows "uint (u32 (a * b)) = a * b"
proof -
  have "0 \<le> a * b" "a * b \<le> 65535 * 65535" using assms mult_mono [of a 65535 b 65535] by auto
  then show ?thesis by (simp only: uint_word_of_int) simp
qed

lemma div_256_chain: "(v :: int) div 2 ^ 16 = v div 256 div 256" "v div 2 ^ 24 = v div 256 div 256 div 256"
  using zdiv_zmult2_eq [of 256 v 256] zdiv_zmult2_eq [of 256 v 65536] zdiv_zmult2_eq [of 256 "v div 256" 256] by simp_all

lemma base_256:
  fixes v :: int
  shows "0 \<le> v \<Longrightarrow> v < 65536 \<Longrightarrow> 256 * (v div 2 ^ 8 mod 256) + v mod 256 = v"
    "0 \<le> v \<Longrightarrow> v < 2 ^ 32 \<Longrightarrow> (256 * (v div 2 ^ 24 mod 256) + v div 2 ^ 16 mod 256) * 65536 +
      (256 * (v div 2 ^ 8 mod 256) + v mod 256) = v"
proof -
  have d: "256 * (w div 256) + w mod 256 = w" for w :: int by (rule mult_div_mod_eq)
  have 8: "(2 :: int) ^ 8 = 256" by simp
  { assume "0 \<le> v" "v < 65536"
    then have "v div 256 mod 256 = v div 256" by (intro mod_pos_pos_trivial) auto
    then show "256 * (v div 2 ^ 8 mod 256) + v mod 256 = v" by (simp only: 8 d) }
  define a b c where "a = v div 256" and "b = a div 256" and "c = b div 256"
  assume "0 \<le> v" "v < 2 ^ 32"
  then have "v div 2 ^ 24 mod 256 = v div 2 ^ 24" by (intro mod_pos_pos_trivial) auto
  then have "v div 2 ^ 24 mod 256 = c" "v div 2 ^ 16 mod 256 = b mod 256" "v div 2 ^ 8 mod 256 = a mod 256"
    unfolding div_256_chain 8 by (simp_all only: a_def b_def c_def)
  moreover have "256 * a + v mod 256 = v" "256 * b + a mod 256 = a" "256 * c + b mod 256 = b"
    unfolding a_def b_def c_def by (rule d)+
  ultimately show "(256 * (v div 2 ^ 24 mod 256) + v div 2 ^ 16 mod 256) * 65536 +
      (256 * (v div 2 ^ 8 mod 256) + v mod 256) = v"
    by (simp only:)
qed

lemma muluw_operand_pair:
  "muluw_operand opcode s = (let k = shr opcode 4 AND 3 in
     if k = 0 then uint (pair rB rC s) else if k = 1 then uint (pair rD rE s)
     else if k = 2 then uint (pair rH rL s) else uint (sp s))"
proof -
  have "uint (sp s) AND 0xffff = uint (sp s)"
    using take_bit_eq_mask [of 16 "uint (sp s)"] by (simp add: mask_eq_exp_minus_1)
  then show ?thesis by (simp add: muluw_operand_def Let_def pair_def uint_pair16 mult.commute)
qed

lemma muluw_product:
  "uint (pair rD rE (r800_muluw opcode s)) * 65536 + uint (pair rH rL (r800_muluw opcode s)) =
    uint (pair rH rL s) * muluw_operand opcode s"
proof -
  define v where "v = uint (pair rH rL s) * muluw_operand opcode s"
  have r: "0 \<le> muluw_operand opcode s" "muluw_operand opcode s < 65536"
    using uint_lt2p [of "pair rB rC s"] uint_lt2p [of "pair rD rE s"] uint_lt2p [of "pair rH rL s"] uint_lt2p [of "sp s"]
    by (auto simp: muluw_operand_pair Let_def)
  have v: "uint (u32 v) = v"
    unfolding v_def using r uint_lt2p [of "pair rH rL s"] by (intro word_product32) auto
  have v0: "0 \<le> v" "v < 2 ^ 32"
    using uint_ge_0 [of "u32 v"] uint_lt2p [of "u32 v"] unfolding v by simp_all
  have e: "r800_muluw opcode s = ticks 36 (set_reg rL (u8 (v AND 0xff)) (set_reg rH (u8 (shr v 8 AND 0xff))
           (set_reg rE (u8 (shr v 16 AND 0xff)) (set_reg rD (u8 (shr v 24 AND 0xff)) s))))"
  proof -
    have "uint (regs s rH) * 256 + uint (regs s rL) = uint (pair rH rL s)"
      by (simp add: pair_def uint_pair16 mult.commute)
    then show ?thesis by (simp only: r800_muluw_def Let_def v v_def [symmetric])
  qed
  have "uint (pair rD rE (r800_muluw opcode s)) = 256 * (v div 2 ^ 24 mod 256) + v div 2 ^ 16 mod 256"
    "uint (pair rH rL (r800_muluw opcode s)) = 256 * (v div 2 ^ 8 mod 256) + v mod 256"
    unfolding e by (simp_all only: pair_def mlt_pair_ticks uint_pair16 byte_of_int [symmetric])
      (simp_all add: set_reg_def drop_bit_eq_div)
  then show ?thesis using base_256(2) [OF v0] by (simp only: v_def [symmetric])
qed

lemma mulub_product:
  "case r800_operand opcode s of None \<Rightarrow> r800_mulub opcode s = s
   | Some r \<Rightarrow> uint (pair rH rL (r800_mulub opcode s)) = uint (regs s rA) * uint r"
proof (cases "r800_operand opcode s")
  case None
  then show ?thesis by (simp add: r800_mulub_def)
next
  case (Some r)
  let ?v = "uint (regs s rA) * uint r"
  have v: "uint (u16 ?v) = ?v" "0 \<le> ?v" "?v < 65536"
    using byte_product [of "regs s rA" r] by (simp_all only: uint_word_of_int) simp_all
  have "uint (pair rH rL (r800_mulub opcode s)) = 256 * (?v div 2 ^ 8 mod 256) + ?v mod 256"
    by (simp only: r800_mulub_def Some option.case Let_def v(1) pair_def mlt_pair_ticks uint_pair16 byte_of_int [symmetric])
      (simp add: set_reg_def drop_bit_eq_div)
  then show ?thesis using base_256(1) [OF v(2,3)] by (simp only: Some option.case)
qed

text \<open>the multiplications give the full product: MLT rr the byte product of the two halves in the
  pair, MULUB A,r that of A and the register in HL (opcode field 5, A with L, does nothing at all),
  MULUW HL,rr the 32-bit product of HL and the pair or SP in DE:HL.\<close>

lemma multiply_correct:
  "uint (pair rB rC (z180_mlt 0x4C s)) = uint (regs s rB) * uint (regs s rC) \<and>
   uint (pair rD rE (z180_mlt 0x5C s)) = uint (regs s rD) * uint (regs s rE) \<and>
   uint (pair rH rL (z180_mlt 0x6C s)) = uint (regs s rH) * uint (regs s rL) \<and>
   (case r800_operand op s of None \<Rightarrow> r800_mulub op s = s
    | Some r \<Rightarrow> uint (pair rH rL (r800_mulub op s)) = uint (regs s rA) * uint r) \<and>
   r800_operand 0xE9 s = None \<and>
   uint (pair rD rE (r800_muluw 0xC3 s)) * 65536 + uint (pair rH rL (r800_muluw 0xC3 s)) =
     uint (pair rH rL s) * uint (pair rB rC s) \<and>
   uint (pair rD rE (r800_muluw 0xF3 s)) * 65536 + uint (pair rH rL (r800_muluw 0xF3 s)) =
     uint (pair rH rL s) * uint (sp s)"
  using mulub_product [where opcode = op and s = s] muluw_product [where opcode = "0xC3" and s = s]
    muluw_product [where opcode = "0xF3" and s = s]
  by (simp add: z180_mlt_def Let_def mlt_pair_ticks mlt_pair_product muluw_operand_pair r800_operand_def)

end
