(* ===== verification/Ticks_I8085.thy ===== *)
theory Ticks_I8085
  imports Ticks_Zilog
begin

text \<open>
  The undocumented 8085 instructions of \<open>src/src/ticks/i8085_inst.c\<close>. RIM, SIM and RSTV only print a
  message and count their clocks.
\<close>

section \<open>Instructions\<close>

text \<open>The file's own \<open>SUBHLRR\<close>: the subtraction, then the K flag from the operands kept aside.\<close>

definition i8085_SUBHLRR :: "int \<Rightarrow> int \<Rightarrow> cpu \<Rightarrow> cpu" where
  "i8085_SUBHLRR a b s =
     (let h = uint (regs s rH); l = uint (regs s rL);
          hl0 = shl h 8 OR l;
          rr0 = shl (a AND 0xff) 8 OR (b AND 0xff);
          res0 = (hl0 - rr0) AND 0xffff;
          v = l - b + shl (h - a) 8;
          F = u16 (shr v 8);
          s = s\<lparr>mp := u16 (l + 1 + shl h 8)\<rparr>;
          s = set_reg rL (u8 v) (set_reg rH (u8 (uint F)) s)
      in s\<lparr>fl := \<lparr>ff = F, fr = u16 (uint (regs s rH) OR shl (uint (regs s rL)) 8), fa = u16 h, fb = u16 (NOT a)\<rparr>,
           fk := u16 ((shr res0 15 XOR shr ((hl0 XOR rr0) AND (hl0 XOR res0)) 15) AND 1)\<rparr>)"

definition i8085_rim :: "cpu \<Rightarrow> cpu" where "i8085_rim s = ticks 4 s"
definition i8085_sim :: "cpu \<Rightarrow> cpu" where "i8085_sim s = ticks 4 s"
definition i8085_rstv :: "cpu \<Rightarrow> cpu" where "i8085_rstv s = ticks 6 s"

definition i8085_ld_de_hln :: "cpu \<Rightarrow> cpu" where
  "i8085_ld_de_hln s =
     (let (n, s) = fetch s;
          val = uint (u16 ((uint (regs s rL) OR shl (uint (regs s rH)) 8) + uint n))
      in ticks 10 (set_reg rE (u8 (val mod 256)) (set_reg rD (u8 (val div 256)) s)))"

definition i8085_ld_de_spn :: "cpu \<Rightarrow> cpu" where
  "i8085_ld_de_spn s =
     (let (n, s) = fetch s;
          val = uint (u16 (uint (sp s) + uint n))
      in ticks 10 (set_reg rE (u8 (val mod 256)) (set_reg rD (u8 (val div 256)) s)))"

text \<open>The address of the second read is not truncated to 16 bits.\<close>

definition i8085_ld_hl_ide :: "cpu \<Rightarrow> cpu" where
  "i8085_ld_hl_ide s =
     (let a = uint (regs s rE) OR shl (uint (regs s rD)) 8;
          s = set_reg rL (get_memory_data a s) s;
          s = set_reg rH (get_memory_data (a + 1) s) s
      in ticks 10 s)"

definition i8085_ld_ide_hl :: "cpu \<Rightarrow> cpu" where
  "i8085_ld_ide_hl s =
     (let a = pair16 (regs s rD) (regs s rE);
          s = put_mem a (regs s rL) s;
          s = put_mem (a + 1) (regs s rH) s
      in ticks 10 s)"

definition i8085_sub_hl_bc :: "cpu \<Rightarrow> cpu" where
  "i8085_sub_hl_bc s = ticks 10 (i8085_SUBHLRR (uint (regs s rB)) (uint (regs s rC)) s)"

text \<open>\<open>fb = (fb & 128) | ((fa ^ fr) & 16)\<close>: half carry and overflow read as clear afterwards.\<close>

definition clear_hv :: "flg \<Rightarrow> 16 word" where
  "clear_hv g = u16 ((uint (fb g) AND 128) OR ((uint (fa g) XOR uint (fr g)) AND 16))"

definition i8085_rl_de :: "cpu \<Rightarrow> cpu" where
  "i8085_rl_de s =
     (let g = fl s;
          t = shl (uint (regs s rD)) 9 OR shl (uint (regs s rE)) 1 OR (shr (uint (ff g)) 8 AND 1);
          s = set_reg rE (u8 (t AND 255)) s;
          s = set_reg rD (u8 (shr t 8 AND 255)) s
      in ticks 10 (s\<lparr>fl := g\<lparr>ff := u16 ((uint (ff g) AND 255) OR (shr t 8 AND 256)), fb := clear_hv g\<rparr>\<rparr>))"

definition i8085_sra_hl :: "cpu \<Rightarrow> cpu" where
  "i8085_sra_hl s =
     (let g = fl s;
          h = uint (regs s rH); l = uint (regs s rL);
          cbit = l AND 1;
          s = set_reg rL (u8 (shl (h AND 1) 7 OR shr l 1)) s;
          s = set_reg rH (u8 ((h AND 0x80) OR shr h 1)) s
      in ticks 7 (s\<lparr>fl := g\<lparr>ff := u16 ((uint (ff g) AND 255) OR shl cbit 8), fb := clear_hv g\<rparr>, fk := 0\<rparr>))"

section \<open>The comparison\<close>

lemma signed_less_int:
  fixes X Y R :: int
  assumes "0 \<le> X" "X < 65536" "0 \<le> Y" "Y < 65536" "R = (if X - Y < 0 then X - Y + 65536 else X - Y)"
  shows "((32768 \<le> R) \<noteq> ((32768 \<le> X) \<noteq> (32768 \<le> Y) \<and> (32768 \<le> X) \<noteq> (32768 \<le> R))) \<longleftrightarrow>
    X - (if 32768 \<le> X then 65536 else 0) < Y - (if 32768 \<le> Y then 65536 else 0)"
  using assms by (auto split: if_splits)

lemma k_flag:
  fixes x y :: "16 word"
  defines "r \<equiv> x - y"
  shows "(shr (uint r) 15 XOR shr ((uint x XOR uint y) AND (uint x XOR uint r)) 15) AND 1 = of_bool (x <s y)"
proof -
  have "uint r = (uint x - uint y) mod 65536" by (simp add: r_def uint_word_ariths)
  also have "\<dots> = (if uint x - uint y < 0 then uint x - uint y + 65536 else uint x - uint y)"
    using diff16_range [where x = x and y = y and c = False] by (intro mod_64k_neg) simp_all
  finally have s: "(bit r 15 \<noteq> ((bit x 15 \<noteq> bit y 15) \<and> (bit x 15 \<noteq> bit r 15))) \<longleftrightarrow> sint x < sint y"
    unfolding sint16 bit15_uint by (intro signed_less_int) (use uint16_bound [of x] uint16_bound [of y] in auto)
  have "bit (shr (uint r) 15 XOR shr ((uint x XOR uint y) AND (uint x XOR uint r)) 15) 0 \<longleftrightarrow> sint x < sint y"
    by (simp only: s [symmetric] bit_xor_iff bit_and_iff bit_drop_bit_eq o_apply bit_uint16) simp
  then show ?thesis
    by (simp only: bit_0 and_one_eq word_sless_alt odd_iff_mod_2_eq_one) (auto simp: mod_2_eq_odd)
qed

lemma put_hl_fl:
  "fl (put_hl v B s) = \<lparr>ff = u16 (shr v 8), fr = pair16 (u8 v) (u8 (shr v 8)), fa = u16 (uint (regs s rH)), fb = B\<rparr>"
  "regs (put_hl v B s) = (regs s)(rH := u8 (shr v 8), rL := u8 v)"
  by (simp_all add: put_hl_def Let_def set_reg_def pair16_def u8_uint_u16 [simplified])

lemma i8085_SUBHLRR_eq:
  fixes hi lo :: "8 word" and s :: cpu
  defines "x \<equiv> pair rH rL s" and "y \<equiv> pair16 hi lo"
  shows "i8085_SUBHLRR (uint hi) (uint lo) s =
    (put_hl (uint x - uint y) (u16 (NOT (uint hi))) s)\<lparr>fk := of_bool (x <s y)\<rparr>"
proof -
  have m: "uint w AND 0xff = uint w" for w :: "8 word"
    using take_bit_eq_mask [of 8 "uint w"] uint8_bound [of w]
    by (simp add: mask_eq_exp_minus_1 take_bit_eq_mod mod_pos_pos_trivial)
  have or: "shl (uint a) 8 OR uint b = uint (pair16 a b)" for a b :: "8 word"
    by (simp only: uint_pair16 or.commute [of "shl _ _"] byte_add_shl [symmetric] order_refl) (simp add: push_bit_eq_mult)
  have d: "uint (regs s rL) - uint lo + shl (uint (regs s rH) - uint hi) 8 = uint x - uint y"
    by (simp add: x_def y_def pair_def uint_pair16 push_bit_eq_mult algebra_simps)
  have r: "(uint x - uint y) AND 0xffff = uint (x - y)"
    using take_bit_eq_mask [of 16 "uint x - uint y"] by (simp add: mask_eq_exp_minus_1 uint_word_ariths take_bit_eq_mod)
  show ?thesis
    by (simp only: i8085_SUBHLRR_def Let_def m or d r k_flag flip: y_def pair_def x_def)
      (simp add: put_hl_def Let_def set_reg_def)
qed

lemma sub_hl_bc_state:
  fixes s :: cpu
  defines "x \<equiv> pair rH rL s" and "y \<equiv> pair rB rC s" and "s' \<equiv> i8085_sub_hl_bc s"
  shows "regs s' = (regs s)(rH := hi8 (x - y), rL := lo8 (x - y))" "fk s' = of_bool (x <s y)"
    "bit (ff (fl s')) 8 = (x < y)" "bit (ff (fl s')) 7 = bit (x - y) 15" "fr (fl s') = 0 \<longleftrightarrow> x = y"
proof -
  obtain w where w: "w = uint x - uint y" by simp
  have e: "s' = ticks 10 ((put_hl w (u16 (NOT (uint (regs s rB)))) s)\<lparr>fk := of_bool (x <s y)\<rparr>)"
    unfolding s'_def i8085_sub_hl_bc_def i8085_SUBHLRR_eq w x_def y_def pair_def ..
  have r: "u16 w = x - y" by (simp add: w)
  have h: "u8 (shr w 8) = hi8 (x - y)" and l: "u8 w = lo8 (x - y)"
    using pair16_hi_lo [of w] hi8_pair16 [of "u8 (shr w 8)" "u8 w"] lo8_pair16 [of "u8 (shr w 8)" "u8 w"] r by simp_all
  show "regs s' = (regs s)(rH := hi8 (x - y), rL := lo8 (x - y))" "fk s' = of_bool (x <s y)"
    by (simp_all only: e ticks_def) (simp_all add: put_hl_fl h l)
  have f: "fl s' = fl (put_hl w (u16 (NOT (uint (regs s rB)))) s)" by (simp add: e ticks_def)
  have "bit (ff (fl s')) 8 = bit w 16" "bit (ff (fl s')) 7 = bit w 15"
    by (simp_all only: f put_hl_fl flg.simps bit_u16 bit_drop_bit_eq o_apply) simp_all
  moreover have "bit w 16 = (x < y)"
    using bit16_diff [of w] diff16_range [where x = x and y = y and c = False] by (simp add: w word_less_def)
  moreover have "bit w 15 = bit (x - y) 15" unfolding r [symmetric] by (simp only: bit_u16) simp
  ultimately show "bit (ff (fl s')) 8 = (x < y)" "bit (ff (fl s')) 7 = bit (x - y) 15" by simp_all
  have "pair16 (lo8 (x - y)) (hi8 (x - y)) = 0 \<longleftrightarrow> x - y = 0"
    using pair16_eq_iff [of "lo8 (x - y)" "hi8 (x - y)" 0 0] pair16_eq_iff [of "hi8 (x - y)" "lo8 (x - y)" 0 0]
      pair16_hi8_lo8 [of "x - y"] by (auto simp: word_uint_eq_iff uint_pair16)
  then show "fr (fl s') = 0 \<longleftrightarrow> x = y" by (simp only: f put_hl_fl flg.simps h l) simp
qed

text \<open>The 8085's DSUB leaves HL - BC in HL and a flag byte whose C is the unsigned, whose K is the
  signed comparison of HL with BC, whose Z is their equality and whose S the sign of the difference:
  \<open>JP K\<close> branches on signed less-than also where the difference overflows.\<close>

lemma dsub_compares:
  "let x = pair rH rL s; y = pair rB rC s; s' = i8085_sub_hl_bc s; f = f_i8085 (fl s') (fk s') in
    regs s' = (regs s)(rH := hi8 (x - y), rL := lo8 (x - y)) \<and>
    bit f 0 = (x < y) \<and> bit f 5 = (x <s y) \<and> bit f 6 = (x = y) \<and> bit f 7 = bit (x - y) 15 \<and>
    (fk s' \<noteq> 0) = (x <s y)"
proof -
  let ?s = "i8085_sub_hl_bc s"
  have k: "bit (fk ?s) n \<longleftrightarrow> n = 0 \<and> pair rH rL s <s pair rB rC s" for n
    unfolding sub_hl_bc_state by (auto simp: bit_of_bool_iff)
  then have "bit (f_i8085 (fl ?s) (fk ?s)) 0 = bit (ff (fl ?s)) 8" "bit (f_i8085 (fl ?s) (fk ?s)) 5 = bit (fk ?s) 0"
    "bit (f_i8085 (fl ?s) (fk ?s)) 6 = (fr (fl ?s) = 0)" "bit (f_i8085 (fl ?s) (fk ?s)) 7 = bit (ff (fl ?s)) 7"
    by (simp_all only: f_i8085_def bit_int_ops bit_of_bool_int bit_pv_mask bit_h_mask bit_uint16 o_apply)
      (simp_all add: bit_masks bit_1_iff k)
  then show ?thesis by (simp add: Let_def sub_hl_bc_state bit_of_bool_iff)
qed

end
