(* ===== verification/Ticks_Vm1.thy ===== *)
theory Ticks_Vm1
  imports Ticks_Zilog
begin

text \<open>
  The KR580VM1 additions to the 8080: \<open>src/src/ticks/vm1_inst.c\<close>. The bank select \<open>vm1_bank_select\<close>
  is in Ticks_Memory.
\<close>

section \<open>Arithmetic\<close>

definition VM1_CY :: int where "VM1_CY = 0x01"
definition VM1_P :: int where "VM1_P = 0x04"
definition VM1_OF :: int where "VM1_OF = 0x20"
definition VM1_Z :: int where "VM1_Z = 0x40"
definition VM1_S :: int where "VM1_S = 0x80"

definition vm1_setflags :: "int \<Rightarrow> int \<Rightarrow> cpu \<Rightarrow> cpu" where
  "vm1_setflags m val s = setf ((f_flags s AND NOT m) OR (val AND m)) s"

definition vm1_carry :: "cpu \<Rightarrow> int" where
  "vm1_carry s = f_flags s AND VM1_CY"

text \<open>HL minus the pair, and minus the carry after a CS prefix.\<close>

definition vm1_diff :: "8 word \<Rightarrow> 8 word \<Rightarrow> cpu \<Rightarrow> int" where
  "vm1_diff rh rl s =
     (shl (uint (regs s rH)) 8 OR uint (regs s rL)) - (shl (uint rh) 8 OR uint rl) -
     (if vm1_mb s \<noteq> 0 then (if vm1_carry s \<noteq> 0 then 1 else 0) else 0)"

definition vm1_diff_flags :: "int \<Rightarrow> int" where
  "vm1_diff_flags res =
     (if res AND 0x8000 \<noteq> 0 then VM1_S else 0) OR (if res AND 0xffff = 0 then VM1_Z else 0) OR
     (if res < 0 then VM1_CY else 0)"

definition vm1_dsub :: "8 word \<Rightarrow> 8 word \<Rightarrow> cpu \<Rightarrow> cpu" where
  "vm1_dsub rh rl s =
     (let res = vm1_diff rh rl s;
          s = set_reg rH (u8 (shr res 8 AND 0xff)) s;
          s = set_reg rL (u8 (res AND 0xff)) s
      in ticks 10 (vm1_setflags (VM1_S OR VM1_Z OR VM1_CY) (vm1_diff_flags res) s))"

definition vm1_dcmp :: "8 word \<Rightarrow> 8 word \<Rightarrow> cpu \<Rightarrow> cpu" where
  "vm1_dcmp rh rl s =
     (let res = vm1_diff rh rl s
      in ticks 10 (vm1_setflags (VM1_S OR VM1_Z OR VM1_CY) (vm1_diff_flags res) s))"

definition vm1_dadc :: "8 word \<Rightarrow> 8 word \<Rightarrow> cpu \<Rightarrow> cpu" where
  "vm1_dadc rh rl s =
     (let res = (shl (uint (regs s rH)) 8 OR uint (regs s rL)) + (shl (uint rh) 8 OR uint rl) +
            (if vm1_carry s \<noteq> 0 then 1 else 0);
          s = set_reg rH (u8 (shr res 8 AND 0xff)) s;
          s = set_reg rL (u8 (res AND 0xff)) s
      in ticks 10 (vm1_setflags VM1_CY (if res > 0xffff then VM1_CY else 0) s))"

definition vm1_memop :: "int \<Rightarrow> cpu \<Rightarrow> cpu" where
  "vm1_memop opcode s =
     (let addr = pair16 (regs s rH) (regs s rL);
          m = uint (get_memory_data (uint addr) s);
          a = uint (regs s rA);
          res = u8 (if opcode = 0x10 then m AND a else if opcode = 0x20 then m OR a else m XOR a);
          s = put_mem addr res s;
          r = uint res;
          flags = f_flags s AND NOT (VM1_S OR VM1_Z OR VM1_P OR VM1_CY);
          flags = flags OR (if r AND 0x80 \<noteq> 0 then VM1_S else 0);
          flags = flags OR (if r \<noteq> 0 then 0 else VM1_Z);
          flags = flags OR (if shr 0x9669 (nat ((r XOR shr r 4) AND 15)) AND 1 \<noteq> 0 then VM1_P else 0)
      in ticks 10 (setf flags s))"

section \<open>Loads, jump, bank select\<close>

definition vm1_lhlx :: "cpu \<Rightarrow> cpu" where
  "vm1_lhlx s =
     (let addr = uint (pair16 (regs s rD) (regs s rE));
          s = set_reg rL (get_memory_data addr s) s;
          s = set_reg rH (get_memory_data (addr + 1) s) s
      in ticks 10 s)"

definition vm1_shlx :: "cpu \<Rightarrow> cpu" where
  "vm1_shlx s =
     (let addr = pair16 (regs s rD) (regs s rE);
          s = put_mem addr (regs s rL) s;
          s = put_mem (addr + 1) (regs s rH) s
      in ticks 10 s)"

definition vm1_jof :: "cpu \<Rightarrow> cpu" where
  "vm1_jof s =
     (let target = inst16 s;
          s = (if f_flags s AND VM1_OF \<noteq> 0 then s\<lparr>pc := target, mp := target\<rparr> else s\<lparr>pc := pc s + 2\<rparr>)
      in ticks 10 s)"

definition vm1_smf :: "int \<Rightarrow> cpu \<Rightarrow> cpu" where
  "vm1_smf bank s = ticks (if bank \<noteq> 0 then 9 else 8) (s\<lparr>vm1_mf := bank, pc := pc s + 1\<rparr>)"

section \<open>Prefixes\<close>

definition vm1_swap_hl :: "cpu \<Rightarrow> cpu" where
  "vm1_swap_hl s =
     s\<lparr>regs := (regs s)(rH := regs s rH', rH' := regs s rH, rL := regs s rL', rL' := regs s rL)\<rparr>"

definition vm1_rs_prefix :: "cpu \<Rightarrow> cpu" where
  "vm1_rs_prefix s =
     ticks 4 (if get_memory_inst (uint (pc s)) s \<noteq> 0xeb \<and> vm1_rs s = 0 then (vm1_swap_hl s)\<lparr>vm1_rs := 2\<rparr> else s)"

definition vm1_mb_prefix :: "cpu \<Rightarrow> cpu" where
  "vm1_mb_prefix s = ticks 4 (s\<lparr>vm1_mb := 2\<rparr>)"

definition vm1_prefix_step :: "cpu \<Rightarrow> cpu" where
  "vm1_prefix_step s =
     (let s = (if vm1_rs s = 2 then s\<lparr>vm1_rs := 1\<rparr>
               else if vm1_rs s = 1 then (vm1_swap_hl s)\<lparr>vm1_rs := 0\<rparr> else s)
      in if vm1_mb s = 2 then s\<lparr>vm1_mb := 1\<rparr> else if vm1_mb s = 1 then s\<lparr>vm1_mb := 0\<rparr> else s)"

definition vm1_prefix_pending :: "cpu \<Rightarrow> bool" where
  "vm1_prefix_pending s \<longleftrightarrow> vm1_rs s \<noteq> 0 \<or> vm1_mb s \<noteq> 0"

section \<open>The prefix state machine\<close>

text \<open>
  A prefix is executed like any instruction: its opcode is fetched, its handler runs and
  \<open>vm1_prefix_step\<close> retires one instruction. \<open>prefixed s ps t\<close>: from \<open>s\<close>, the prefixes \<open>ps\<close>
  have been executed and \<open>t\<close> is the state before the next opcode.
\<close>

datatype prefix = RS | MB

inductive prefixed :: "cpu \<Rightarrow> prefix list \<Rightarrow> cpu \<Rightarrow> bool" where
  start: "prefixed s [] s"
| rs: "prefixed s ps t \<Longrightarrow> get_memory_inst (uint (pc t + 1)) t \<noteq> 0xeb \<Longrightarrow>
    prefixed s (ps @ [RS]) (vm1_prefix_step (vm1_rs_prefix (t\<lparr>pc := pc t + 1\<rparr>)))"
| mb: "prefixed s ps t \<Longrightarrow>
    prefixed s (ps @ [MB]) (vm1_prefix_step (vm1_mb_prefix (t\<lparr>pc := pc t + 1\<rparr>)))"

inductive_cases prefixed_NilE [elim!]: "prefixed s [] t"

lemma swap_hl_twice [simp]: "vm1_swap_hl (vm1_swap_hl s) = s"
proof -
  have "(regs s)(rH := regs s rH, rH' := regs s rH', rL := regs s rL, rL' := regs s rL') = regs s" by simp
  then show ?thesis by (simp add: vm1_swap_hl_def fun_upd_twist)
qed

lemma swap_hl_regs: "regs (vm1_swap_hl s) = (regs s)(rH := regs s rH', rH' := regs s rH, rL := regs s rL', rL' := regs s rL)"
  by (simp add: vm1_swap_hl_def)

text \<open>The number of RS at the end of the sequence.\<close>

definition trailing_rs :: "prefix list \<Rightarrow> nat" where
  "trailing_rs ps = length (takeWhile (\<lambda>p. p = RS) (rev ps))"

lemma trailing_rs_simps [simp]:
  "trailing_rs [] = 0" "trailing_rs (ps @ [RS]) = Suc (trailing_rs ps)" "trailing_rs (ps @ [MB]) = 0"
  by (simp_all add: trailing_rs_def)

text \<open>What one prefix does to the prefix state and to the registers.\<close>

lemma rs_step:
  assumes "vm1_rs s \<in> {0, 1}" "vm1_mb s \<in> {0, 1}" "get_memory_inst (uint (pc s)) s \<noteq> 0xeb"
  defines "t \<equiv> vm1_prefix_step (vm1_rs_prefix s)"
  shows "vm1_rs t = 1 - vm1_rs s" "vm1_mb t = 0" "regs t = regs (vm1_swap_hl s)" "mem t = mem s"
  using assms by (auto simp: t_def vm1_prefix_step_def vm1_rs_prefix_def vm1_swap_hl_def Let_def ticks_def)

lemma mb_step:
  assumes "vm1_rs s \<in> {0, 1}"
  defines "t \<equiv> vm1_prefix_step (vm1_mb_prefix s)"
  shows "vm1_rs t = 0" "vm1_mb t = 1" "regs t = (if vm1_rs s = 1 then regs (vm1_swap_hl s) else regs s)"
    "mem t = mem s"
  using assms by (auto simp: t_def vm1_prefix_step_def vm1_mb_prefix_def vm1_swap_hl_def Let_def ticks_def)

lemma regs_swap_cong: "regs s = regs t \<Longrightarrow> regs (vm1_swap_hl s) = regs (vm1_swap_hl t)"
  by (simp add: swap_hl_regs)

lemma prefixed_state:
  assumes "prefixed s ps t" "vm1_rs s = 0" "vm1_mb s = 0"
  shows "vm1_rs t = (if odd (trailing_rs ps) then 1 else 0) \<and> vm1_mb t = (if ps \<noteq> [] \<and> last ps = MB then 1 else 0) \<and>
    regs t = regs (if odd (trailing_rs ps) then vm1_swap_hl s else s) \<and> mem t = mem s"
  using assms
proof (induction rule: prefixed.induct)
  case (start s)
  then show ?case by simp
next
  case (rs s ps t)
  let ?t = "t\<lparr>pc := pc t + 1\<rparr>"
  have "get_memory_inst (uint (pc ?t)) ?t \<noteq> 0xeb" using rs.hyps by simp
  then have "vm1_rs ?t \<in> {0, 1}" "vm1_mb ?t \<in> {0, 1}" "get_memory_inst (uint (pc ?t)) ?t \<noteq> 0xeb"
    using rs by auto
  note st = rs_step [OF this]
  have "regs (vm1_swap_hl ?t) = regs (vm1_swap_hl t)" by (rule regs_swap_cong) simp
  then show ?case
    using rs st regs_swap_cong [of t s] regs_swap_cong [of t "vm1_swap_hl s"] by auto
next
  case (mb s ps t)
  let ?t = "t\<lparr>pc := pc t + 1\<rparr>"
  have "vm1_rs ?t \<in> {0, 1}" using mb by auto
  note st = mb_step [OF this]
  have "regs (vm1_swap_hl ?t) = regs (vm1_swap_hl t)" by (rule regs_swap_cong) simp
  then show ?case
    using mb st regs_swap_cong [of t "vm1_swap_hl s"] by auto
qed


end
