(* ===== verification/Ticks_Main1.thy ===== *)
theory Ticks_Main1
  imports Ticks_Z80n Ticks_Small Ticks_I8085 Ticks_Vm1
begin

text \<open>
  The main opcode page of \<open>cpu_run\<close> in \<open>src/src/ticks/ticks.c\<close>: opcodes 0x00 to 0x3f. Each group of
  cases is a function of the opcode; the states are those after the opcode byte has been fetched.

  The instructions of the Rabbit, eZ80 and KC160 extensions live in their own files. The pages call them
  through a \<open>handlers\<close> argument: \<open>H ''f'' args s\<close> is the call \<open>f(args)\<close> in state \<open>s\<close>. \<open>Ticks_Handlers\<close> ties
  the names to the models. Messages the code prints about illegal opcodes are not part of the state.
\<close>

type_synonym handlers = "string \<Rightarrow> int list \<Rightarrow> cpu \<Rightarrow> cpu"

section \<open>Common shapes\<close>

text \<open>\<open>ih=1;altd=0,alts=0;ioi=0;ioe=0;break;\<close>\<close>

definition fin :: "cpu \<Rightarrow> cpu" where
  "fin s = s\<lparr>ih := True, altd := False, alts := False, ioi := False, ioe := False\<rparr>"

text \<open>\<open>if( ih ) HL; else if( iy ) IY; else IX;\<close> and the form for index register halves.\<close>

definition xy :: "(cpu \<Rightarrow> cpu) \<Rightarrow> (cpu \<Rightarrow> cpu) \<Rightarrow> (cpu \<Rightarrow> cpu) \<Rightarrow> cpu \<Rightarrow> cpu" where
  "xy hl y x s = (if ih s then hl s else if iy s then y s else x s)"

definition xy_half :: "(cpu \<Rightarrow> cpu) \<Rightarrow> (cpu \<Rightarrow> cpu) \<Rightarrow> (cpu \<Rightarrow> cpu) \<Rightarrow> cpu \<Rightarrow> cpu" where
  "xy_half hl y x s =
     (if ih s then hl s else if iy s \<and> canixh s then y s else if canixh s then x s else s)"

definition PREFIX :: "cpu \<Rightarrow> int" where
  "PREFIX s = (if ih s then 0x00 else if iy s then 0xfd else 0xdd)"

definition of_flag :: "bool \<Rightarrow> int" where
  "of_flag b = (if b then 1 else 0)"

text \<open>\<open>get_memory_inst(pc++) | get_memory_inst(pc++)<<8\<close> in two steps.\<close>

definition fetch16 :: "cpu \<Rightarrow> 16 word \<times> cpu" where
  "fetch16 s = (let (x, s) = fetch s; (y, s) = fetch s in (u16 (uint x OR shl (uint y) 8), s))"

text \<open>\<open>isez80() ? 1 : israbbit() ? 2 : isz180() ? 3 : isr800() ? 1 : iskc160() ? 1 : 4\<close>\<close>

definition acc_TICKS :: "cpu \<Rightarrow> int" where
  "acc_TICKS s = (if isez80 s then 1 else if israbbit s then 2 else if isz180 s then 3
     else if isr800 s then 1 else if iskc160 s then 1 else 4)"

definition kc_extra :: "cpu \<Rightarrow> cpu" where
  "kc_extra s = ticks (if iskc160 s then 1 else 0) s"

section \<open>NOP, HALT\<close>

definition op_nop :: "cpu \<Rightarrow> cpu" where
  "op_nop s = fin (ticks (if israbbit s then 2 else if isz180 s then 3 else if iskc160 s then 1
     else if isr800 s then 1 else 4) s)"

definition op_halt :: "cpu \<Rightarrow> cpu" where
  "op_halt s =
     (if israbbit s then (ticks 2 s)\<lparr>altd := True, alts := False, ih := True\<rparr>
      else (ticks (if is8080 s \<or> isvm1 s then 7 else if is8085 s then 5 else if isz180 s then 3
              else if iskc160 s then 2 else 4) s)
           \<lparr>halted := True, pc := pc s - 1, altd := False, alts := False, ioi := False, ioe := False, ih := True\<rparr>)"

section \<open>16-bit loads\<close>

definition op_ld_rr_nn :: "handlers \<Rightarrow> int \<Rightarrow> cpu \<Rightarrow> cpu" where
  "op_ld_rr_nn H opc s = fin (
     if opc = 0x01 then (if altd s then LDRRIM rB' rC' s else LDRRIM rB rC s)
     else if opc = 0x11 then (if altd s then LDRRIM rD' rE' s else LDRRIM rD rE s)
     else if opc = 0x21 then
       xy (\<lambda>s. if altd s then LDRRIM rH' rL' s else LDRRIM rH rL s) (LDRRIM rYH rYL) (LDRRIM rXH rXL) s
     else \<comment> \<open>0x31\<close>
       (if isez80 s \<and> \<not> ih s then H ''ez80_ld_xy_ixyd'' [opc, PREFIX s] s
        else
          (let s = ticks (if israbbit s then 6 else if isgbz80 s then 12 else if isz180 s then 9
                 else if isez80 s then 3 else if isr800 s then 3 else if iskc160 s then 2 else 10) s;
               (nn, s) = fetch16 s
           in s\<lparr>sp := nn\<rparr>)))"

text \<open>\<open>long long save = st; ...; st = save + n;\<close>\<close>

definition timed :: "int \<Rightarrow> (cpu \<Rightarrow> cpu) \<Rightarrow> cpu \<Rightarrow> cpu" where
  "timed n f s = (f s)\<lparr>st := st s + n\<rparr>"

definition op_ld_nn_hl :: "cpu \<Rightarrow> cpu" where \<comment> \<open>0x22\<close>
  "op_ld_nn_hl s =
     (if isgbz80 s then timed 8 (\<lambda>s. INCW rH rL (LDPR rH rL rA s)) s
      else fin (xy
        (\<lambda>s. LDPNNRR rH rL (if isez80 s then 5 else if israbbit s then 13 else if iskc160 s then 3 else 16) s)
        (\<lambda>s. LDPNNRR rYH rYL (if isez80 s then 5 else if israbbit s then 13 else if iskc160 s then 4 else 16) s)
        (\<lambda>s. LDPNNRR rXH rXL (if isez80 s then 5 else if israbbit s then 13 else if iskc160 s then 4 else 16) s) s))"

definition op_ld_nn_a :: "handlers \<Rightarrow> int \<Rightarrow> cpu \<Rightarrow> cpu" where \<comment> \<open>0x32\<close>
  "op_ld_nn_a H opc s = fin (
     if isgbz80 s then timed 8 (\<lambda>s. DECW rH rL (LDPR rH rL rA s)) s
     else if israbbit6k s \<and> \<not> ih s then H ''r6k_swap_r32'' [opc, of_flag (iy s)] s
     else
       (let s = ticks (if isez80 s then 4 else if israbbit s then 10 else if isr800 s then 4
              else if iskc160 s then 3 else 13) s;
            (t, s) = fetch16 s;
            s = put_mem t (regs s rA) (s\<lparr>tt := t\<rparr>)
        in s\<lparr>mp := u16 (((uint t + 1) AND 255) OR shl (uint (regs s rA)) 8)\<rparr>))"

definition op_ld_hl_nn :: "cpu \<Rightarrow> cpu" where \<comment> \<open>0x2a\<close>
  "op_ld_hl_nn s =
     (if isgbz80 s then timed 8 (\<lambda>s. INCW rH rL (LDRP rH rL rA s)) s
      else fin (xy
        (\<lambda>s. if altd s then LDRRPNN rH' rL' 11 s
             else LDRRPNN rH rL (if isez80 s then 5 else if israbbit s then 11 else if isz180 s then 15
                    else if isr800 s then 5 else if iskc160 s then 3 else 16) s)
        (\<lambda>s. LDRRPNN rYH rYL (if isez80 s then 6 else if israbbit s then 11 else if isz180 s then 15
               else if isr800 s then 5 else if iskc160 s then 4 else 16) s)
        (\<lambda>s. LDRRPNN rXH rXL (if isez80 s then 6 else if israbbit s then 11 else if isz180 s then 15
               else if isr800 s then 5 else if iskc160 s then 5 else 16) s) s))"

definition op_ld_a_nn :: "cpu \<Rightarrow> cpu" where \<comment> \<open>0x3a\<close>
  "op_ld_a_nn s = fin (
     if isgbz80 s then timed 8 (\<lambda>s. DECW rH rL (LDRP rH rL rA s)) s
     else
       (let s = ticks (if isez80 s then 4 else if israbbit s then 9 else if isz180 s then 12
              else if isr800 s then 4 else if iskc160 s then 3 else 13) s;
            (m, s) = fetch16 s;
            s = s\<lparr>mp := m\<rparr>;
            s = set_reg (if altd s then rA' else rA) (get_memory_data (uint m) s) s
        in s\<lparr>mp := m + 1\<rparr>))"

definition op_ld_acc :: "handlers \<Rightarrow> int \<Rightarrow> cpu \<Rightarrow> cpu" where
  "op_ld_acc H opc s = fin (
     if opc = 0x02 then LDPR rB rC rA s
     else if opc = 0x12 then LDPR rD rE rA s
     else if opc = 0x0a then
       (if israbbit4k s \<and> \<not> ih s then H ''r4k_ldf_r32_ilmn'' [opc, of_flag (iy s)] s
        else if altd s then LDRP rB rC rA' s else LDRP rB rC rA s)
     else \<comment> \<open>0x1a\<close>
       (if israbbit4k s \<and> \<not> ih s then H ''r4k_ld_r32_ihl'' [opc, of_flag (iy s)] s
        else if altd s then LDRP rD rE rA' s else LDRP rD rE rA s))"

section \<open>INC and DEC\<close>

definition op_inc_rr :: "int \<Rightarrow> cpu \<Rightarrow> cpu" where
  "op_inc_rr opc s = fin (
     if opc = 0x03 then (if altd s then INCW rB' rC' s else INCW rB rC s)
     else if opc = 0x13 then (if altd s then INCW rD' rE' s else INCW rD rE s)
     else if opc = 0x23 then
       xy (\<lambda>s. if altd s then INCW rH' rL' s else INCW rH rL s) (INCW rYH rYL) (INCW rXH rXL) s
     else \<comment> \<open>0x33\<close>
       (let s = ticks (if isez80 s then 1 else if isgbz80 s then 8 else if is8080 s \<or> isvm1 s then 5
              else if isr800 s then 1 else if iskc160 s then 1 else 6) s
        in s\<lparr>sp := sp s + 1\<rparr>))"

definition op_dec_rr :: "handlers \<Rightarrow> int \<Rightarrow> cpu \<Rightarrow> cpu" where
  "op_dec_rr H opc s = fin (
     if opc = 0x0b then
       (if israbbit4k s \<and> \<not> ih s then H ''r4k_ldf_ilmn_r32'' [opc, of_flag (iy s)] s
        else if altd s then DECW rB' rC' s else DECW rB rC s)
     else if opc = 0x1b then
       (if israbbit4k s \<and> \<not> ih s then H ''r4k_ld_ihl_r32'' [opc, of_flag (iy s)] s
        else if altd s then DECW rD' rE' s else DECW rD rE s)
     else if opc = 0x2b then
       xy (\<lambda>s. if altd s then DECW rH' rL' s else DECW rH rL s) (DECW rYH rYL) (DECW rXH rXL) s
     else \<comment> \<open>0x3b\<close>
       (let s = ticks (if isez80 s then 1 else if israbbit s then 2 else if isgbz80 s then 8
              else if is8080 s \<or> isvm1 s then 5 else if isr800 s then 1 else if iskc160 s then 1 else 6) s
        in s\<lparr>sp := sp s - 1\<rparr>))"

text \<open>\<open>INC (HL)\<close> and \<open>DEC (HL)\<close>: no alternate flags, no KR580VM1 overflow flag.\<close>

definition op_step_hl :: "16 word \<Rightarrow> cpu \<Rightarrow> cpu" where
  "op_step_hl d s =
     (let s = ticks (if isez80 s then 4 else if israbbit s then 8 else if is808x s then 10
            else if isgbz80 s then 12 else if isr800 s then 4 else if iskc160 s then 5 else 11) s;
          t = pair16 (regs s rH) (regs s rL);
          (g, s) = step_mem t d (fl s) (s\<lparr>tt := t\<rparr>)
      in s\<lparr>fl := g\<rparr>)"

definition op_inc8 :: "handlers \<Rightarrow> int \<Rightarrow> cpu \<Rightarrow> cpu" where
  "op_inc8 H opc s = fin (
     if opc = 0x04 then INC rB rB' s
     else if opc = 0x0c then
       (if israbbit4k s \<and> \<not> ih s then H ''r4k_ld_r32_ipshl'' [opc, of_flag (iy s)] s else INC rC rC' s)
     else if opc = 0x14 then INC rD rD' s
     else if opc = 0x1c then
       (if israbbit4k s \<and> \<not> ih s then H ''r4k_ld_r32_ipshl'' [opc, of_flag (iy s)] s else INC rE rE' s)
     else if opc = 0x24 then xy_half (INC rH rH') (INC rYH rYH) (INC rXH rXH) s
     else if opc = 0x2c then
       (if israbbit4k s \<and> \<not> ih s then H ''r4k_ld_r32_ipshl'' [opc, of_flag (iy s)] s
        else xy_half (INC rL rL') (INC rYL rYL) (INC rXL rXL) s)
     else if opc = 0x34 then
       xy (op_step_hl 1) (\<lambda>s. kc_extra (INCPI rYH rYL s)) (\<lambda>s. kc_extra (INCPI rXH rXL s)) s
     else \<comment> \<open>0x3c\<close>
       (if israbbit4k s \<and> \<not> ih s then H ''r4k_ld_r32_ipshl'' [opc, of_flag (iy s)] s else INC rA rA' s))"

text \<open>\<open>DEC IXl\<close> (0x2d under DD) is not restricted to the CPUs that have index halves.\<close>

definition op_dec8 :: "handlers \<Rightarrow> int \<Rightarrow> cpu \<Rightarrow> cpu" where
  "op_dec8 H opc s = fin (
     if opc = 0x05 then DEC rB rB' s
     else if opc = 0x0d then
       (if israbbit4k s \<and> \<not> ih s then H ''r4k_ld_ipdhl_r32'' [opc, of_flag (iy s)] s else DEC rC rC' s)
     else if opc = 0x15 then DEC rD rD' s
     else if opc = 0x1d then
       (if israbbit4k s \<and> \<not> ih s then H ''r4k_ld_ipdhl_r32'' [opc, of_flag (iy s)] s else DEC rE rE' s)
     else if opc = 0x25 then xy_half (DEC rH rH') (DEC rYH rYH) (DEC rXH rXH) s
     else if opc = 0x2d then
       (if israbbit4k s \<and> \<not> ih s then H ''r4k_ld_ipdhl_r32'' [opc, of_flag (iy s)] s
        else if ih s then DEC rL rL' s else if iy s \<and> canixh s then DEC rYL rYL s else DEC rXL rXL s)
     else if opc = 0x35 then
       xy (op_step_hl (u16 (-1))) (\<lambda>s. kc_extra (DECPI rYH rYL s)) (\<lambda>s. kc_extra (DECPI rXH rXL s)) s
     else \<comment> \<open>0x3d\<close>
       (if israbbit4k s \<and> \<not> ih s then H ''r4k_ld_ipdhl_r32'' [opc, of_flag (iy s)] s else DEC rA rA' s))"

section \<open>8-bit immediate loads\<close>

definition op_ld_hl_n :: "cpu \<Rightarrow> cpu" where
  "op_ld_hl_n s =
     (let s = ticks (if israbbit s then 7 else if isgbz80 s then 12 else if isz180 s then 9
            else if isr800 s then 3 else if iskc160 s then 3 else 10) s;
          (n, s) = fetch s
      in put_mem (pair16 (regs s rH) (regs s rL)) n s)"

definition op_ld_r_n :: "handlers \<Rightarrow> int \<Rightarrow> cpu \<Rightarrow> cpu" where
  "op_ld_r_n H opc s = fin (
     if opc = 0x06 then
       (if israbbit4k s \<and> \<not> ih s \<and> iy s then H ''r4k_ld_a_ixya'' [opc, uint (regs s rYL), uint (regs s rYH)] s
        else if israbbit4k s \<and> \<not> ih s \<and> \<not> iy s then H ''r4k_ld_a_ixya'' [opc, uint (regs s rXL), uint (regs s rXH)] s
        else LDRIM rB rB' s)
     else if opc = 0x0e then
       (if israbbit4k s \<and> \<not> ih s then H ''r4k_ld_r32_ipsd'' [opc, of_flag (iy s)] s else LDRIM rC rC' s)
     else if opc = 0x16 then LDRIM rD rD' s
     else if opc = 0x1e then
       (if israbbit4k s \<and> \<not> ih s then H ''r4k_ld_r32_ipsd'' [opc, of_flag (iy s)] s else LDRIM rE rE' s)
     else if opc = 0x26 then xy_half (LDRIM rH rH') (LDRIM rYH rYH) (LDRIM rXH rXH) s
     else if opc = 0x2e then
       (if israbbit4k s \<and> \<not> ih s then H ''r4k_ld_r32_ipsd'' [opc, of_flag (iy s)] s
        else xy_half (LDRIM rL rL') (LDRIM rYL rYL) (LDRIM rXL rXL) s)
     else if opc = 0x36 then xy op_ld_hl_n (LDPIN rYH rYL) (LDPIN rXH rXL) s
     else \<comment> \<open>0x3e\<close>
       (if israbbit4k s \<and> \<not> ih s then H ''r4k_ld_r32_ipsd'' [opc, of_flag (iy s)] s
        else if isez80 s \<and> \<not> ih s then H ''ez80_ld_ixyd_xy'' [opc, PREFIX s] s
        else LDRIM rA rA' s))"

section \<open>Accumulator rotates and flag instructions\<close>

text \<open>The flags of RLCA to RRA: bits 5, 3 and the carry from \<open>t\<close>; H and N cleared.\<close>

definition rot_acc_group :: "16 word \<Rightarrow> flg \<Rightarrow> flg" where
  "rot_acc_group t g =
     g\<lparr>ff := u16 ((uint (ff g) AND 215) OR (uint t AND 296)),
       fb := u16 ((uint (fb g) AND 128) OR ((uint (fa g) XOR uint (fr g)) AND 16))\<rparr>"

text \<open>\<open>a = t = e(a, ff)\<close> on the selected set; on the SM83 the zero flag is cleared first.\<close>

definition rot_acc :: "(int \<Rightarrow> int \<Rightarrow> int) \<Rightarrow> cpu \<Rightarrow> cpu" where
  "rot_acc e s =
     (let s = ticks (acc_TICKS s) s in
      if altd s then
        (let t = u16 (e (uint (regs s rA')) (uint (ff (fl' s))));
             s = set_reg rA' (lo8 t) (s\<lparr>tt := t\<rparr>)
         in s\<lparr>fl' := rot_acc_group t (fl' s)\<rparr>)
      else
        (let t = u16 (e (uint (regs s rA)) (uint (ff (fl s))));
             s = set_reg rA (lo8 t) (s\<lparr>tt := t\<rparr>);
             g = (if isgbz80 s then (fl s)\<lparr>fr := 1\<rparr> else fl s)
         in s\<lparr>fl := rot_acc_group t g\<rparr>))"

definition op_rlca :: "handlers \<Rightarrow> int \<Rightarrow> cpu \<Rightarrow> cpu" where
  "op_rlca H opc s = fin (
     if isez80 s \<and> \<not> ih s then H ''ez80_ld_rr_ixyd'' [opc, PREFIX s] s
     else rot_acc (\<lambda>a f. shr (a * 257) 7) s)"

definition op_rrca :: "handlers \<Rightarrow> int \<Rightarrow> cpu \<Rightarrow> cpu" where
  "op_rrca H opc s = fin (
     if israbbit4k s \<and> \<not> ih s then H ''r4k_ld_ipdd_r32'' [opc, of_flag (iy s)] s
     else if isez80 s \<and> \<not> ih s then H ''ez80_ld_ixyd_rr'' [opc, PREFIX s] s
     else (rot_acc (\<lambda>a f. rrc_expr a) s)\<lparr>fk := 0\<rparr>)"

definition op_rla :: "handlers \<Rightarrow> int \<Rightarrow> cpu \<Rightarrow> cpu" where
  "op_rla H opc s = fin (
     if isez80 s \<and> \<not> ih s then H ''ez80_ld_rr_ixyd'' [opc, PREFIX s] s
     else (rot_acc (\<lambda>a f. shl a 1 OR (shr f 8 AND 1)) s)\<lparr>fk := 0\<rparr>)"

text \<open>RRA clears K only on the main set.\<close>

definition op_rra :: "handlers \<Rightarrow> int \<Rightarrow> cpu \<Rightarrow> cpu" where
  "op_rra H opc s = fin (
     if israbbit4k s \<and> \<not> ih s then H ''r4k_ld_ipdd_r32'' [opc, of_flag (iy s)] s
     else if isez80 s \<and> \<not> ih s then H ''ez80_ld_ixyd_rr'' [opc, PREFIX s] s
     else
       (let k = (if altd s then fk s else 0)
        in (rot_acc (\<lambda>a f. shr (a * 513 OR (f AND 256)) 1) s)\<lparr>fk := k\<rparr>))"

definition op_daa :: "handlers \<Rightarrow> int \<Rightarrow> cpu \<Rightarrow> cpu" where
  "op_daa H opc s = fin (
     if isez80 s \<and> \<not> ih s then H ''ez80_ld_rr_ixyd'' [opc, PREFIX s] s
     else if israbbit s then H ''rxk_add_sp_d'' [opc] s
     else zilog_daa s)"

definition op_cpl :: "handlers \<Rightarrow> int \<Rightarrow> cpu \<Rightarrow> cpu" where
  "op_cpl H opc s = fin (
     if israbbit4k s \<and> \<not> ih s then H ''r4k_ld_ipdd_r32'' [opc, of_flag (iy s)] s
     else if isez80 s \<and> \<not> ih s then H ''ez80_ld_ixyd_rr'' [opc, PREFIX s] s
     else
       (let s = ticks (acc_TICKS s) s;
            v = regs s rA XOR 255;
            g = fl s;
            s = set_reg (if altd s then rA' else rA) v s
        in s\<lparr>fl := g\<lparr>ff := u16 ((uint (ff g) AND -41) OR (uint v AND 40)),
                     fb := u16 (uint (fb g) OR -129),
                     fa := u16 ((uint (fa g) AND -17) OR (NOT (uint (fr g)) AND 16))\<rparr>\<rparr>))"

definition scf_group :: "8 word \<Rightarrow> flg \<Rightarrow> flg" where
  "scf_group a g =
     g\<lparr>fb := u16 ((uint (fb g) AND 128) OR ((uint (fr g) XOR uint (fa g)) AND 16)),
       ff := u16 (256 OR (uint (ff g) AND 128) OR (uint a AND 40))\<rparr>"

definition ccf_group :: "8 word \<Rightarrow> flg \<Rightarrow> flg" where
  "ccf_group a g =
     g\<lparr>fb := u16 ((uint (fb g) AND 128) OR ((shr (uint (ff g)) 4 XOR uint (fr g) XOR uint (fa g)) AND 16)),
       ff := u16 ((NOT (uint (ff g)) AND 256) OR (uint (ff g) AND 128) OR (uint a AND 40))\<rparr>"

definition op_scf :: "handlers \<Rightarrow> int \<Rightarrow> cpu \<Rightarrow> cpu" where
  "op_scf H opc s = fin (
     if isez80 s \<and> \<not> ih s then H ''ez80_ld_xy_ixyd'' [opc, PREFIX s] s
     else
       (let s = ticks (acc_TICKS s) s
        in if altd s then s\<lparr>fl' := scf_group (regs s rA') (fl' s)\<rparr> else s\<lparr>fl := scf_group (regs s rA) (fl s)\<rparr>))"

definition op_ccf :: "handlers \<Rightarrow> int \<Rightarrow> cpu \<Rightarrow> cpu" where
  "op_ccf H opc s = fin (
     if israbbit4k s \<and> \<not> ih s then H ''r4k_ld_ipdd_r32'' [opc, of_flag (iy s)] s
     else if isez80 s \<and> \<not> ih s then H ''ez80_ld_ixyd_xy'' [opc, PREFIX s] s
     else
       (let s = ticks (acc_TICKS s) s
        in if altd s then s\<lparr>fl' := ccf_group (regs s rA') (fl' s)\<rparr> else s\<lparr>fl := ccf_group (regs s rA) (fl s)\<rparr>))"

section \<open>ADD HL\<close>

text \<open>On the KR580VM1 a pending CS prefix turns DAD into an addition with carry. Two cases lack an
  \<open>else\<close>: \<open>ADD HL,DE\<close> and \<open>ADD IX,SP\<close> under \<open>altd\<close> add to the main pair as well.\<close>

definition add_alt :: "(cpu \<Rightarrow> cpu) \<Rightarrow> (cpu \<Rightarrow> cpu) \<Rightarrow> cpu \<Rightarrow> cpu" where
  "add_alt f g s = (if altd s then f s else g s)"

definition op_add_hl :: "int \<Rightarrow> cpu \<Rightarrow> cpu" where
  "op_add_hl opc s = fin (
     if opc = 0x09 then
       (if vm1_mb s \<noteq> 0 then vm1_dadc (regs s rB) (regs s rC) s
        else xy (add_alt (ADDRRRR_ALTD rH rL rB rC rH' rL') (ADDRRRR rH rL rB rC))
          (add_alt (ADDRRRR_ALTD rYH rYL rB rC rYH rYL) (ADDRRRR rYH rYL rB rC))
          (add_alt (ADDRRRR_ALTD rXH rXL rB rC rXH rXL) (ADDRRRR rXH rXL rB rC)) s)
     else if opc = 0x19 then
       (if vm1_mb s \<noteq> 0 then vm1_dadc (regs s rD) (regs s rE) s
        else xy (\<lambda>s. ADDRRRR rH rL rD rE (if altd s then ADDRRRR_ALTD rH rL rD rE rH' rL' s else s))
          (add_alt (ADDRRRR_ALTD rYH rYL rD rE rYH rYL) (ADDRRRR rYH rYL rD rE))
          (add_alt (ADDRRRR_ALTD rXH rXL rD rE rXH rXL) (ADDRRRR rXH rXL rD rE)) s)
     else if opc = 0x29 then
       (if vm1_mb s \<noteq> 0 then vm1_dadc (regs s rH) (regs s rL) s
        else xy (add_alt (ADDRRRR_ALTD rH rL rH rL rH' rL') (ADDRRRR rH rL rH rL))
          (add_alt (ADDRRRR_ALTD rYH rYL rYH rYL rYH rYL) (ADDRRRR rYH rYL rYH rYL))
          (add_alt (ADDRRRR_ALTD rXH rXL rXH rXL rXH rXL) (ADDRRRR rXH rXL rXH rXL)) s)
     else \<comment> \<open>0x39\<close>
       (if vm1_mb s \<noteq> 0 then vm1_dadc (hi8 (sp s)) (u8 (uint (sp s) AND 0xff)) s
        else xy (add_alt (ADDISP_ALTD rH rL rH' rL') (ADDISP rH rL))
          (add_alt (ADDISP_ALTD rYH rYL rYH rYL) (ADDISP rYH rYL))
          (\<lambda>s. ADDISP rXH rXL (if altd s then ADDISP_ALTD rXH rXL rXH rXL s else s)) s))"

section \<open>Relative jumps, EX AF,AF'\<close>

definition op_jr :: "cpu \<Rightarrow> cpu" where \<comment> \<open>0x18\<close>
  "op_jr s = fin (
     if isvm1 s then vm1_dsub (regs s rD) (regs s rE) s
     else if is8085 s then i8085_rl_de s
     else if is8080 s then ticks 4 s
     else
       (let s = rel_jump (ticks (if isez80 s then 3 else if israbbit4k s then 6 else if israbbit s then 5
              else if isgbz80 s then 8 else if isz180 s then 8 else if isr800 s then 3
              else if iskc160 s then 3 else 12) s)
        in s\<lparr>mp := pc s\<rparr>))"

definition op_jr_nz :: "int \<Rightarrow> cpu \<Rightarrow> cpu" where \<comment> \<open>0x20\<close>
  "op_jr_nz opc s =
     (if is8085 s then fin (i8085_rim s)
      else if isvm1 s then fin (vm1_memop opc s)
      else if is808x s then ticks 4 s
      else fin (JRCI (fr (fl s) \<noteq> 0) s))"

definition op_jr_z :: "cpu \<Rightarrow> cpu" where \<comment> \<open>0x28\<close>
  "op_jr_z s =
     (if is8085 s then fin (i8085_ld_de_hln s)
      else if isvm1 s then
        (let t = u16 (uint (get_memory_inst (uint (pc s)) s));
             s = s\<lparr>tt := t\<rparr>
         in if t = 0x00 \<or> t = 0x7f then fin (vm1_smf (if t = 0x00 then 0 else 1) s)
            else vm1_mb_prefix s)
      else if is8080 s then fin (ticks 4 s)
      else fin (JRC (fr (fl s) \<noteq> 0) s))"

definition op_jr_nc :: "int \<Rightarrow> cpu \<Rightarrow> cpu" where \<comment> \<open>0x30\<close>
  "op_jr_nc opc s = fin (
     if is8085 s then i8085_sim s
     else if isvm1 s then vm1_memop opc s
     else if is8080 s then ticks 4 s
     else JRC (uint (ff (fl s)) AND 256 \<noteq> 0) s)"

definition op_jr_c :: "cpu \<Rightarrow> cpu" where \<comment> \<open>0x38\<close>
  "op_jr_c s =
     (if is8085 s then fin (i8085_ld_de_spn s)
      else if isvm1 s then vm1_rs_prefix s
      else if is8080 s then fin (ticks 4 s)
      else fin (JRCI (uint (ff (fl s)) AND 256 \<noteq> 0) s))"

definition op_ex_af :: "cpu \<Rightarrow> cpu" where \<comment> \<open>0x08\<close>
  "op_ex_af s = fin (
     if is8085 s then i8085_sub_hl_bc s
     else if isvm1 s then vm1_dsub (regs s rB) (regs s rC) s
     else if is8080 s then ticks 4 s
     else if isgbz80 s then gbz80_ld_inm_sp s
     else
       (let s = ticks (if israbbit s then 2 else if isez80 s then 1 else if isr800 s then 1
              else if iskc160 s then 1 else 4) s
        in s\<lparr>regs := (regs s)(rA := regs s rA', rA' := regs s rA), fl := fl' s, fl' := fl s, tt := fb (fl' s)\<rparr>))"

text \<open>DJNZ. On the SM83 the opcode is STOP, which also ends the simulation (see \<open>cpu_step\<close>).\<close>

definition op_djnz :: "int \<Rightarrow> cpu \<Rightarrow> cpu" where \<comment> \<open>0x10\<close>
  "op_djnz opc s =
     (if is8080 s then ticks 4 s
      else if isvm1 s then vm1_memop opc s
      else if is8085 s then i8085_sra_hl s
      else if isgbz80 s then (let (t, s) = fetch s in ticks 4 (s\<lparr>tt := u16 (uint t)\<rparr>))
      else fin (
        let b = (if altd s then rB' else rB);
            s = set_reg b (regs s b - 1) s
        in if regs s b \<noteq> 0 then
             (let s = rel_jump (ticks (if isez80 s then 4 else if israbbit4k s then 6 else if israbbit s then 5
                    else if isr800 s then 3 else if iskc160 s then 4 else 13) s)
              in s\<lparr>mp := pc s\<rparr>)
           else
             (let s = ticks (if isez80 s then 2 else if israbbit4k s then 6 else if israbbit s then 5
                    else if isr800 s then 2 else if iskc160 s then 3 else 8) s
              in s\<lparr>pc := pc s + 1\<rparr>)))"

section \<open>Opcodes 0x00 to 0x3f\<close>

definition exec_00_3f :: "handlers \<Rightarrow> int \<Rightarrow> cpu \<Rightarrow> cpu" where
  "exec_00_3f H opc s =
     (if opc = 0x00 then op_nop s
      else if opc \<in> {0x01, 0x11, 0x21, 0x31} then op_ld_rr_nn H opc s
      else if opc \<in> {0x02, 0x12, 0x0a, 0x1a} then op_ld_acc H opc s
      else if opc = 0x22 then op_ld_nn_hl s
      else if opc = 0x32 then op_ld_nn_a H opc s
      else if opc = 0x2a then op_ld_hl_nn s
      else if opc = 0x3a then op_ld_a_nn s
      else if opc \<in> {0x03, 0x13, 0x23, 0x33} then op_inc_rr opc s
      else if opc \<in> {0x0b, 0x1b, 0x2b, 0x3b} then op_dec_rr H opc s
      else if opc \<in> {0x04, 0x0c, 0x14, 0x1c, 0x24, 0x2c, 0x34, 0x3c} then op_inc8 H opc s
      else if opc \<in> {0x05, 0x0d, 0x15, 0x1d, 0x25, 0x2d, 0x35, 0x3d} then op_dec8 H opc s
      else if opc \<in> {0x06, 0x0e, 0x16, 0x1e, 0x26, 0x2e, 0x36, 0x3e} then op_ld_r_n H opc s
      else if opc = 0x07 then op_rlca H opc s
      else if opc = 0x0f then op_rrca H opc s
      else if opc = 0x17 then op_rla H opc s
      else if opc = 0x1f then op_rra H opc s
      else if opc \<in> {0x09, 0x19, 0x29, 0x39} then op_add_hl opc s
      else if opc = 0x18 then op_jr s
      else if opc = 0x20 then op_jr_nz opc s
      else if opc = 0x28 then op_jr_z s
      else if opc = 0x30 then op_jr_nc opc s
      else if opc = 0x38 then op_jr_c s
      else if opc = 0x08 then op_ex_af s
      else if opc = 0x10 then op_djnz opc s
      else if opc = 0x27 then op_daa H opc s
      else if opc = 0x2f then op_cpl H opc s
      else if opc = 0x37 then op_scf H opc s
      else op_ccf H opc s)"

end
