(* ===== verification/Ticks_Page7f.thy ===== *)
theory Ticks_Page7f
  imports Ticks_Main1
begin

text \<open>
  The 8-bit operations with A itself that \<open>src/src/ticks/ticks.c\<close> writes out instead of using its
  macros, and the Rabbit 4000's page 0x7f (\<open>handle_r4k_7f_page\<close>), which holds the register loads and
  ALU operations the main page of that processor has given to other instructions.
\<close>

section \<open>Operations with A\<close>

text \<open>\<open>n\<close> is the tick count. None of these touches \<open>fk\<close>.\<close>

definition add_aa :: "int \<Rightarrow> cpu \<Rightarrow> cpu" where
  "add_aa n s = put_alu (alu_sum (regs s rA) (u16 (uint (regs s rA))) 0) (ticks n s)"

definition adc_aa :: "int \<Rightarrow> cpu \<Rightarrow> cpu" where
  "adc_aa n s = put_alu (alu_sum (regs s rA) (u16 (uint (regs s rA))) (carry_in s)) (ticks n s)"

definition sub_aa :: "int \<Rightarrow> cpu \<Rightarrow> cpu" where
  "sub_aa n s =
     (let a = uint (regs s rA)
      in put_alu (0, \<lparr>ff = 0, fr = 0, fa = u16 a, fb = u16 (NOT a)\<rparr>) (ticks n s))"

text \<open>\<open>fr = a = (ff = (ff & 256) / -256)\<close>: minus one when the carry is set.\<close>

definition sbc_aa :: "int \<Rightarrow> cpu \<Rightarrow> cpu" where
  "sbc_aa n s =
     (let a = uint (regs s rA);
          v = u16 (if uint (ff (grp s)) AND 256 = 0 then 0 else - 1);
          res = u8 (uint v)
      in put_alu (res, \<lparr>ff = v, fr = u16 (uint res), fa = u16 a, fb = u16 (NOT a)\<rparr>) (ticks n s))"

text \<open>\<open>AND A\<close> and \<open>OR A\<close> set the flags only; the former from \<open>a_\<close> under \<open>altd\<close>.\<close>

definition and_aa :: "int \<Rightarrow> cpu \<Rightarrow> cpu" where
  "and_aa n s =
     (let a = uint (regs s (dst_r rA rA' s))
      in set_grp \<lparr>ff = u16 a, fr = u16 a, fa = u16 (NOT a), fb = 0\<rparr> (ticks n s))"

definition xor_aa :: "int \<Rightarrow> cpu \<Rightarrow> cpu" where
  "xor_aa n s = put_alu (0, \<lparr>ff = 0, fr = 0, fa = 256, fb = 0\<rparr>) (ticks n s)"

definition or_aa :: "int \<Rightarrow> cpu \<Rightarrow> cpu" where
  "or_aa n s =
     (let a = uint (regs s rA)
      in set_grp \<lparr>ff = u16 a, fr = u16 a, fa = u16 (256 OR a), fb = 0\<rparr> (ticks n s))"

text \<open>\<open>CP A\<close>; \<open>x\<close> is the operand \<open>fa\<close> and \<open>fb\<close> keep. Bits 5 and 3 come from \<open>a\<close>.\<close>

definition cp_aa :: "8 word \<Rightarrow> int \<Rightarrow> cpu \<Rightarrow> cpu" where
  "cp_aa x n s =
     set_grp \<lparr>ff = u16 (uint (regs s rA) AND 40), fr = 0, fa = u16 (uint x), fb = u16 (NOT (uint x))\<rparr> (ticks n s)"

section \<open>Page 0x7f of the Rabbit 4000\<close>

definition field_reg :: "int \<Rightarrow> reg" where
  "field_reg z = [rB, rC, rD, rE, rH, rL, rA, rA] ! nat (z mod 8)"

definition field_reg' :: "int \<Rightarrow> reg" where
  "field_reg' z = [rB', rC', rD', rE', rH', rL', rA', rA'] ! nat (z mod 8)"

text \<open>0x40 to 0x7f: \<open>LDRR(r, r1, r_, r1_, 4)\<close>, with field 6 absent. \<open>LD B,E\<close> names \<open>e_\<close> as its alternate
  destination.\<close>

definition r4k_7f_ld :: "int \<Rightarrow> cpu \<Rightarrow> cpu" where
  "r4k_7f_ld opc s =
     (let d = opc div 8 mod 8; r = opc mod 8
      in if d = 6 \<or> r = 6 then ticks 4 s
         else if opc = 0x43 then LDRR rB rE rE' rE' 4 s
         else LDRR (field_reg d) (field_reg r) (field_reg' d) (field_reg' r) 4 s)"

definition r4k_7f_op :: "int \<Rightarrow> 8 word \<Rightarrow> int \<Rightarrow> cpu \<Rightarrow> cpu" where
  "r4k_7f_op k = [ADD, ADC, SUB, SBC, AND_op, XOR_op, OR_op, CP] ! nat (k mod 8)"

definition r4k_7f_self :: "int \<Rightarrow> int \<Rightarrow> cpu \<Rightarrow> cpu" where
  "r4k_7f_self k n s =
     ([add_aa, adc_aa, sub_aa, sbc_aa, and_aa, xor_aa, or_aa, cp_aa (src_a s)] ! nat (k mod 8)) n s"

text \<open>0x80 to 0xbf. The memory operand goes through \<open>w\<close>; \<open>SUB (HL)\<close> takes 7 ticks, the others 5.\<close>

definition r4k_7f_alu :: "int \<Rightarrow> cpu \<Rightarrow> cpu" where
  "r4k_7f_alu opc s =
     (let k = opc div 8 mod 8; r = opc mod 8
      in if r = 7 then r4k_7f_self k 4 s
         else if r = 6 then
           (let w = get_memory_data (if alts s then rp rH' rL' s else rp rH rL s) s
            in r4k_7f_op k w (if k = 2 then 7 else 5) (set_reg rW w s))
         else r4k_7f_op k (src_r (field_reg r) (field_reg' r) s) 4 s)"

definition handle_r4k_7f_page :: "cpu \<Rightarrow> cpu" where
  "handle_r4k_7f_page s =
     (if ih s then
        (let s = set_reg rR (regs s rR + 1) s;
             (opc, s) = fetch s
         in fin (if 0x40 \<le> opc \<and> opc < 0x80 then r4k_7f_ld (uint opc) s
                 else if 0x80 \<le> opc \<and> opc < 0xc0 then r4k_7f_alu (uint opc) s
                 else ticks 4 s))
      else s)"

end
