(* ===== verification/Ticks_Main2.thy ===== *)
theory Ticks_Main2
  imports Ticks_Page7f
begin

text \<open>
  Opcodes 0x40 to 0x7f of the main page: the register loads, HALT, and the Rabbit 4000 instructions
  that replace some of them.
\<close>

section \<open>Shapes\<close>

text \<open>\<open>RABBIT4k_UNDEFINED()\<close> prints a message and resets the prefixes; its \<open>break\<close> leaves only the
  macro's own \<open>do ... while (0)\<close>.\<close>

definition RABBIT4k_UNDEFINED :: "cpu \<Rightarrow> cpu" where
  "RABBIT4k_UNDEFINED = fin"

definition half_TICKS :: "cpu \<Rightarrow> int" where
  "half_TICKS s = (if isez80 s then 1 else if isr800 s then 1 else 4)"

definition LD_r_r :: "reg \<Rightarrow> reg \<Rightarrow> reg \<Rightarrow> reg \<Rightarrow> cpu \<Rightarrow> cpu" where
  "LD_r_r d s' d' s'' s = LDRR d s' d' s'' (LDrr_TICKS s) s"

definition LD_r_half :: "reg \<Rightarrow> reg \<Rightarrow> reg \<Rightarrow> reg \<Rightarrow> cpu \<Rightarrow> cpu" where
  "LD_r_half d s' d' s'' s = LDRR d s' d' s'' (half_TICKS s) s"

text \<open>A load the Rabbit 4000 does not have.\<close>

definition not_r4k :: "(cpu \<Rightarrow> cpu) \<Rightarrow> cpu \<Rightarrow> cpu" where
  "not_r4k f s = (if israbbit4k s then RABBIT4k_UNDEFINED s else f s)"

text \<open>A register load from \<open>(HL)\<close>, \<open>(IX+d)\<close> or \<open>(IY+d)\<close>, and the store.\<close>

definition LD_r_mem :: "reg \<Rightarrow> cpu \<Rightarrow> cpu" where
  "LD_r_mem r = xy (LDRP rH rL r) (LDRPI rYH rYL r) (LDRPI rXH rXL r)"

definition LD_r_mem_alt :: "reg \<Rightarrow> reg \<Rightarrow> cpu \<Rightarrow> cpu" where
  "LD_r_mem_alt r r' = xy (\<lambda>s. if altd s then LDRP rH rL r' s else LDRP rH rL r s) (LDRPI rYH rYL r) (LDRPI rXH rXL r)"

definition LD_mem_r :: "reg \<Rightarrow> cpu \<Rightarrow> cpu" where
  "LD_mem_r r = xy (LDPR rH rL r) (LDPRI rYH rYL r) (LDPRI rXH rXL r)"

definition r4k_pair_shift :: "(cpu \<Rightarrow> cpu) \<Rightarrow> cpu \<Rightarrow> cpu" where
  "r4k_pair_shift f s = timed 2 (\<lambda>s. if ih s then f s else s) s"

section \<open>Opcodes 0x40, 0x49, 0x52, 0x5b, 0x64, 0x6d, 0x7f\<close>

text \<open>These cases fall through into each other unless one of their branches leaves the switch. The
  undefined Rabbit 4000 codes do not leave it.\<close>

definition op_7f :: "handlers \<Rightarrow> int \<Rightarrow> cpu \<Rightarrow> cpu" where
  "op_7f H opc s =
     (if israbbit4k s then
        fin (if \<not> ih s then H ''r4k_rrb_a_r32'' [opc, of_flag (iy s)] s else handle_r4k_7f_page s)
      else if altd s then ticks 2 (set_reg rA' (regs s rA) s)
      else fin (ticks (LDrr_TICKS s) s))"

definition op_6d :: "handlers \<Rightarrow> int \<Rightarrow> cpu \<Rightarrow> cpu" where
  "op_6d H opc s =
     (if israbbit s \<and> \<not> ih s then H ''rxk_ldp_rr_inm'' [opc, PREFIX s] s
      else if israbbit4k s then fin (H ''r4k_handle_6d_page'' [] s)
      else if altd s then fin (ticks 2 (set_reg rL' (regs s rL) s))
      else op_7f H opc s)"

definition op_64 :: "handlers \<Rightarrow> int \<Rightarrow> cpu \<Rightarrow> cpu" where
  "op_64 H opc s =
     (if israbbit s \<and> \<not> ih s then fin (H ''rxk_ldp_irr_hl'' [opc, PREFIX s] s)
      else if israbbit6k s then (ticks 2 s)\<lparr>ih := True, altd := True, alts := True, ioi := False, ioe := False\<rparr>
      else if israbbit4k s then op_6d H opc (RABBIT4k_UNDEFINED s)
      else if altd s then fin (ticks 2 (set_reg rH' (regs s rH) s))
      else op_6d H opc s)"

definition op_5b :: "handlers \<Rightarrow> int \<Rightarrow> cpu \<Rightarrow> cpu" where
  "op_5b H opc s = (if altd s then fin (ticks 2 (set_reg rE' (regs s rE) s)) else op_64 H opc s)"

definition op_52 :: "handlers \<Rightarrow> int \<Rightarrow> cpu \<Rightarrow> cpu" where
  "op_52 H opc s =
     (if israbbit4k s then op_5b H opc (RABBIT4k_UNDEFINED s)
      else if altd s then fin (ticks 2 (set_reg rD' (regs s rD) s))
      else op_5b H opc s)"

definition op_49 :: "handlers \<Rightarrow> int \<Rightarrow> cpu \<Rightarrow> cpu" where
  "op_49 H opc s =
     (if israbbit4k s \<and> \<not> ih s then fin (H ''r4k_rlc_r32'' [opc, of_flag (iy s)] s)
      else if israbbit6k s then fin (H ''r6k_handle_49_page'' [] s)
      else if israbbit4k s then op_52 H opc (RABBIT4k_UNDEFINED s)
      else if altd s then fin (ticks 2 (set_reg rC' (regs s rC) s))
      else op_52 H opc s)"

definition op_40 :: "handlers \<Rightarrow> int \<Rightarrow> cpu \<Rightarrow> cpu" where
  "op_40 H opc s =
     (if israbbit6k s then (ticks 2 s)\<lparr>ih := True, altd := False, alts := True, ioi := False, ioe := False\<rparr>
      else if israbbit4k s then op_49 H opc (RABBIT4k_UNDEFINED s)
      else if altd s then fin (ticks 2 (set_reg rB' (regs s rB) s))
      else op_49 H opc s)"

section \<open>LD B,r\<close>

definition op_ld_b :: "handlers \<Rightarrow> int \<Rightarrow> cpu \<Rightarrow> cpu" where
  "op_ld_b H opc s = fin (
     if opc = 0x41 then not_r4k (LD_r_r rB rC rB' rC') s
     else if opc = 0x42 then
       (if israbbit4k s then r4k_pair_shift (\<lambda>s. RL (LReg rH) (LReg rH') (RL (LReg rL) (LReg rL') s)) s
        else LD_r_r rB rD rB' rD' s)
     else if opc = 0x43 then not_r4k (LD_r_r rB rE rB' rE') s
     else if opc = 0x44 then
       (if israbbit6k s then H ''r6k_ex_jkhl_bcde1'' [] s
        else not_r4k (xy_half (LD_r_r rB rH rB' rH') (LD_r_half rB rYH rB rYH) (LD_r_half rB rXH rB rXH)) s)
     else if opc = 0x45 then
       (if israbbit4k s then ticks 2 (SUBHLRR (uint (regs s rJ)) (uint (regs s rK)) s)
        else xy_half (LD_r_r rB rL rB' rL') (LD_r_half rB rYL rB rYL) (LD_r_half rB rXL rB rXL) s)
     else if opc = 0x46 then LD_r_mem_alt rB rB' s
     else LD_r_r rB rA rB' rA' s)"

section \<open>LD C,r\<close>

definition op_ld_c :: "handlers \<Rightarrow> int \<Rightarrow> cpu \<Rightarrow> cpu" where
  "op_ld_c H opc s = fin (
     if opc = 0x48 then
       (if israbbit4k s then
          (if \<not> ih s then H ''r4k_rlc_r32'' [opc, of_flag (iy s)] s else H ''r4k_cp_hl_d'' [opc] s)
        else LD_r_r rC rB rC' rB' s)
     else if opc = 0x4a then not_r4k (LD_r_r rC rD rC' rD') s
     else if opc = 0x4b then
       (if israbbit4k s \<and> \<not> ih s then H ''r4k_rlc_r32'' [opc, of_flag (iy s)] s
        else not_r4k (LD_r_r rC rE rC' rE') s)
     else if opc = 0x4c then
       (if israbbit4k s then H ''r4k_test_hlxy'' [opc, PREFIX s] s
        else xy_half (LD_r_r rC rH rC' rH') (LD_r_half rC rYH rC rYH) (LD_r_half rC rXH rC rXH) s)
     else if opc = 0x4d then
       (if israbbit4k s then
          (if \<not> ih s then H ''r4k_neg_r32'' [opc, of_flag (iy s)] s else H ''r4k_neg_hl'' [opc] s)
        else xy_half (LD_r_r rC rL rC' rL') (LD_r_half rC rYL rC rYL) (LD_r_half rC rXL rC rXL) s)
     else if opc = 0x4e then LD_r_mem_alt rC rC' s
     else
       (if israbbit4k s \<and> \<not> ih s then H ''r4k_rlc_r32'' [opc, of_flag (iy s)] s
        else LD_r_r rC rA rC' rA' s))"

section \<open>LD D,r\<close>

definition op_ld_d :: "handlers \<Rightarrow> int \<Rightarrow> cpu \<Rightarrow> cpu" where
  "op_ld_d H opc s = fin (
     if opc = 0x50 then
       (if israbbit4k s then r4k_pair_shift (\<lambda>s. RLC (LReg rD) (LReg rD') (RLC (LReg rE) (LReg rE') s)) s
        else LD_r_r rD rB rD' rB' s)
     else if opc = 0x51 then
       (if israbbit4k s then r4k_pair_shift (\<lambda>s. RRC (LReg rD) (LReg rD') (RRC (LReg rE) (LReg rE') s)) s
        else LD_r_r rD rC rD' rC' s)
     else if opc = 0x53 then not_r4k (LD_r_r rD rE rD' rE') s
     else if opc = 0x54 then
       (if israbbit4k s then H ''r4k_xor_hl_de'' [opc] s
        else xy_half (LD_r_r rD rH rD' rH') (LD_r_half rD rYH rD rYH) (LD_r_half rD rXH rD rXH) s)
     else if opc = 0x55 then
       (if israbbit4k s then ticks 2 (SUBHLRR (uint (regs s rD)) (uint (regs s rE)) s)
        else xy_half (LD_r_r rD rL rD' rL') (LD_r_half rD rYL rD rYL) (LD_r_half rD rXL rD rXL) s)
     else if opc = 0x56 then LD_r_mem rD s
     else LD_r_r rD rA rD' rA' s)"

section \<open>LD E,r\<close>

definition op_ld_e :: "handlers \<Rightarrow> int \<Rightarrow> cpu \<Rightarrow> cpu" where
  "op_ld_e H opc s = fin (
     if opc = 0x58 then
       (if israbbit4k s \<and> \<not> ih s then H ''r4k_rrc_r32'' [opc, of_flag (iy s)] s
        else not_r4k (LD_r_r rE rB rE' rB') s)
     else if opc = 0x59 then
       (if israbbit4k s \<and> \<not> ih s then H ''r4k_rrc_r32'' [opc, of_flag (iy s)] s
        else if israbbit6k s then H ''r6k_mul_hl_de'' [] s
        else not_r4k (LD_r_r rE rC rE' rC') s)
     else if opc = 0x5a then not_r4k (LD_r_r rE rD rE' rD') s
     else if opc = 0x5c then
       (if israbbit4k s then
          (if \<not> ih s then H ''r4k_test_r32'' [opc, of_flag (iy s)] s else RABBIT4k_UNDEFINED s)
        else xy_half (LD_r_r rE rH rE' rH') (LD_r_half rE rYH rE rYH) (LD_r_half rE rXH rE rXH) s)
     else if opc = 0x5d then
       not_r4k (xy_half (LD_r_r rE rL rE' rL') (LD_r_half rE rYL rE rYL) (LD_r_half rE rXL rE rXL)) s
     else if opc = 0x5e then LD_r_mem rE s
     else
       (if israbbit4k s \<and> \<not> ih s then H ''r4k_rrc_r32'' [opc, of_flag (iy s)] s
        else LD_r_r rE rA rE' rA' s))"

section \<open>LD H,r\<close>

text \<open>Two slips of the source are kept: RLC BC rotates C with \<open>b'\<close> as its alternate, and
  \<open>LD IXh,IXl\<close> reads IYl.\<close>

definition op_ld_h :: "handlers \<Rightarrow> int \<Rightarrow> cpu \<Rightarrow> cpu" where
  "op_ld_h H opc s = fin (
     if opc = 0x60 then
       (if israbbit4k s then r4k_pair_shift (\<lambda>s. RLC (LReg rB) (LReg rB') (RLC (LReg rC) (LReg rB') s)) s
        else xy_half (LD_r_r rH rB rH' rB') (LD_r_half rYH rB rYH rB') (LD_r_half rXH rB rXH rB') s)
     else if opc = 0x61 then
       (if israbbit4k s then r4k_pair_shift (\<lambda>s. RRC (LReg rB) (LReg rB') (RRC (LReg rC) (LReg rC') s)) s
        else xy_half (LD_r_r rH rC rH' rC') (LD_r_half rYH rC rYH rC') (LD_r_half rXH rC rXH rC') s)
     else if opc = 0x62 then
       (if israbbit4k s then r4k_pair_shift (\<lambda>s. RL (LReg rB) (LReg rB') (RL (LReg rC) (LReg rC') s)) s
        else xy_half (LD_r_r rH rD rH' rD') (LD_r_half rYH rD rYH rD') (LD_r_half rXH rD rXH rD') s)
     else if opc = 0x63 then
       (if israbbit4k s then r4k_pair_shift (\<lambda>s. RR (LReg rC) (LReg rC') (RR (LReg rB) (LReg rB') s)) s
        else xy_half (LD_r_r rH rE rH' rE') (LD_r_half rYH rE rYH rE') (LD_r_half rXH rE rXH rE') s)
     else if opc = 0x65 then
       (if israbbit s \<and> \<not> ih s then H ''rxk_ldp_inm_rr'' [opc, PREFIX s] s
        else if israbbit4k s then
          (if ih s then add_alt (ADDRRRR_ALTD rH rL rJ rK rH' rL') (ADDRRRR rH rL rJ rK) s else s)
        else xy_half (LD_r_r rH rL rH' rL') (LD_r_half rYH rYL rYH rYL) (LD_r_half rXH rYL rXH rYL) s)
     else if opc = 0x66 then LD_r_mem rH s
     else xy_half (LD_r_r rH rA rH' rA') (LD_r_half rYH rA rYH rA') (LD_r_half rXH rA rXH rA') s)"

section \<open>LD L,r\<close>

definition op_ld_l :: "handlers \<Rightarrow> int \<Rightarrow> cpu \<Rightarrow> cpu" where
  "op_ld_l H opc s = fin (
     if opc = 0x68 then
       (if israbbit4k s \<and> \<not> ih s then H ''r4k_rl_r32'' [opc, of_flag (iy s)] s
        else not_r4k (xy_half (LD_r_r rL rB rL' rB') (LD_r_half rYL rB rYL rB') (LD_r_half rXL rB rXL rB')) s)
     else if opc = 0x69 then
       (if israbbit4k s \<and> \<not> ih s then H ''r4k_rl_r32'' [opc, of_flag (iy s)] s
        else if israbbit6k s then H ''r6k_mulu_hl_de'' [] s
        else not_r4k (xy_half (LD_r_r rL rC rL' rC') (LD_r_half rYL rC rYL rC') (LD_r_half rXL rC rXL rC')) s)
     else if opc = 0x6a then
       (if israbbit4k s \<and> \<not> ih s then H ''r4k_rl_r32'' [opc, of_flag (iy s)] s
        else not_r4k (xy_half (LD_r_r rL rD rL' rD') (LD_r_half rYL rD rYL rD') (LD_r_half rXL rD rXL rD')) s)
     else if opc = 0x6b then
       not_r4k (xy_half (LD_r_r rL rE rL' rE') (LD_r_half rYL rE rYL rE') (LD_r_half rXL rE rXL rE')) s
     else if opc = 0x6c then
       (if israbbit s \<and> \<not> ih s then H ''rxk_ldp_hl_irr'' [opc, PREFIX s] s
        else not_r4k (xy_half (LD_r_r rL rH rL' rH') (LD_r_half rYL rYH rYL rYH) (LD_r_half rXL rXH rXL rXH)) s)
     else if opc = 0x6e then LD_r_mem rL s
     else
       (if israbbit4k s \<and> \<not> ih s then H ''r4k_rlb_a_r32'' [opc, of_flag (iy s)] s
        else xy_half (LD_r_r rL rA rL' rA') (LD_r_half rYL rA rYL rA') (LD_r_half rXL rA rXL rA') s))"

section \<open>LD (HL),r and LD A,r\<close>

definition op_ld_mem :: "int \<Rightarrow> cpu \<Rightarrow> cpu" where
  "op_ld_mem opc s = fin (
     if opc = 0x70 then LD_mem_r rB s
     else if opc = 0x71 then LD_mem_r rC s
     else if opc = 0x72 then LD_mem_r rD s
     else if opc = 0x73 then LD_mem_r rE s
     else if opc = 0x74 then LD_mem_r rH s
     else if opc = 0x75 then LD_mem_r rL s
     else LD_mem_r rA s)"

text \<open>Unlike the other half-register loads, those into A are not restricted to some CPUs.\<close>

definition op_ld_a :: "handlers \<Rightarrow> int \<Rightarrow> cpu \<Rightarrow> cpu" where
  "op_ld_a H opc s = fin (
     if opc = 0x78 then
       (if israbbit4k s \<and> \<not> ih s then H ''r4k_rr_r32'' [opc, of_flag (iy s)] s else LD_r_r rA rB rA' rB' s)
     else if opc = 0x79 then
       (if israbbit4k s \<and> \<not> ih s then H ''r4k_rr_r32'' [opc, of_flag (iy s)] s else LD_r_r rA rC rA' rC' s)
     else if opc = 0x7a then LD_r_r rA rD rA' rD' s
     else if opc = 0x7b then
       (if israbbit4k s \<and> \<not> ih s then H ''r4k_rr_r32'' [opc, of_flag (iy s)] s else LD_r_r rA rE rA' rE' s)
     else if opc = 0x7c then
       (if israbbit s \<and> \<not> ih s then H ''rxk_ld_hl_xy'' [opc, PREFIX s] s
        else xy (LD_r_r rA rH rA' rH') (LD_r_half rA rYH rA rYH) (LD_r_half rA rXH rA rXH) s)
     else if opc = 0x7d then
       (if israbbit s \<and> \<not> ih s then H ''rxk_ld_xy_hl'' [opc, PREFIX s] s
        else xy (LD_r_r rA rL rA' rL') (LD_r_half rA rYL rA rYL) (LD_r_half rA rXL rA rXL) s)
     else LD_r_mem rA s)"

section \<open>Opcodes 0x40 to 0x7f\<close>

definition exec_40_7f :: "handlers \<Rightarrow> int \<Rightarrow> cpu \<Rightarrow> cpu" where
  "exec_40_7f H opc s =
     (if opc = 0x40 then op_40 H opc s
      else if opc = 0x49 then op_49 H opc s
      else if opc = 0x52 then op_52 H opc s
      else if opc = 0x5b then op_5b H opc s
      else if opc = 0x64 then op_64 H opc s
      else if opc = 0x6d then op_6d H opc s
      else if opc = 0x7f then op_7f H opc s
      else if opc = 0x76 then op_halt s
      else if opc < 0x48 then op_ld_b H opc s
      else if opc < 0x50 then op_ld_c H opc s
      else if opc < 0x58 then op_ld_d H opc s
      else if opc < 0x60 then op_ld_e H opc s
      else if opc < 0x68 then op_ld_h H opc s
      else if opc < 0x70 then op_ld_l H opc s
      else if opc < 0x78 then op_ld_mem opc s
      else op_ld_a H opc s)"

end
