(* ===== verification/Ticks_Main3.thy ===== *)
theory Ticks_Main3
  imports Ticks_Main2
begin

text \<open>
  Opcodes 0x80 to 0xbf of the main page: the accumulator operations on registers, index halves and
  memory, and the Rabbit 4000 and 6000 instructions that replace some of them.
\<close>

section \<open>Operands\<close>

definition ALU_r :: "(8 word \<Rightarrow> int \<Rightarrow> cpu \<Rightarrow> cpu) \<Rightarrow> reg \<Rightarrow> cpu \<Rightarrow> cpu" where
  "ALU_r f r s = f (regs s r) (ALUr_TICKS s) s"

definition ALU_half :: "(8 word \<Rightarrow> int \<Rightarrow> cpu \<Rightarrow> cpu) \<Rightarrow> reg \<Rightarrow> cpu \<Rightarrow> cpu" where
  "ALU_half f r s = f (regs s r) (ALURxy_TICKS s) s"

text \<open>The operations with A itself.\<close>

definition ALU_self :: "(int \<Rightarrow> cpu \<Rightarrow> cpu) \<Rightarrow> cpu \<Rightarrow> cpu" where
  "ALU_self f s = f (ALUr_TICKS s) s"

text \<open>\<open>get_memory_data(l|h<<8)\<close> and \<open>get_memory_data(((get_memory_inst(pc++)^128)-128+(yl|yh<<8))&65535)\<close>.\<close>

definition ALU_hl :: "(8 word \<Rightarrow> int \<Rightarrow> cpu \<Rightarrow> cpu) \<Rightarrow> cpu \<Rightarrow> cpu" where
  "ALU_hl f s = f (get_memory_data (rp rH rL s) s) (ALUiHL_TICKS s) s"

definition ALU_indexed :: "(8 word \<Rightarrow> int \<Rightarrow> cpu \<Rightarrow> cpu) \<Rightarrow> reg \<Rightarrow> reg \<Rightarrow> cpu \<Rightarrow> cpu" where
  "ALU_indexed f hi lo s =
     (let (d, s) = fetch s in f (get_memory_data (indexed d hi lo s) s) (ALUiXY_TICKS s) s)"

definition ALU_h :: "(8 word \<Rightarrow> int \<Rightarrow> cpu \<Rightarrow> cpu) \<Rightarrow> cpu \<Rightarrow> cpu" where
  "ALU_h f = xy_half (ALU_r f rH) (ALU_half f rYH) (ALU_half f rXH)"

definition ALU_l :: "(8 word \<Rightarrow> int \<Rightarrow> cpu \<Rightarrow> cpu) \<Rightarrow> cpu \<Rightarrow> cpu" where
  "ALU_l f = xy_half (ALU_r f rL) (ALU_half f rYL) (ALU_half f rXL)"

definition ALU_mem :: "(8 word \<Rightarrow> int \<Rightarrow> cpu \<Rightarrow> cpu) \<Rightarrow> cpu \<Rightarrow> cpu" where
  "ALU_mem f = xy (ALU_hl f) (ALU_indexed f rYH rYL) (ALU_indexed f rXH rXL)"

section \<open>Rabbit shapes\<close>

text \<open>The loads between a 12-bit pointer register and a register pair, by prefix.\<close>

definition r4k_ldl_xy :: "handlers \<Rightarrow> int \<Rightarrow> (cpu \<Rightarrow> cpu) \<Rightarrow> cpu \<Rightarrow> cpu" where
  "r4k_ldl_xy H opc f s =
     (if ih s then f s
      else if iy s then H ''r4k_ldl_pd_rr'' [opc, uint (regs s rYL), uint (regs s rYH)] s
      else H ''r4k_ldl_pd_rr'' [opc, uint (regs s rXL), uint (regs s rXH)] s)"

definition r4k_ldl_hl_de :: "handlers \<Rightarrow> int \<Rightarrow> (cpu \<Rightarrow> cpu) \<Rightarrow> cpu \<Rightarrow> cpu" where
  "r4k_ldl_hl_de H opc f s =
     (if ih s then f s
      else if iy s then H ''r4k_ldl_pd_rr'' [opc, uint (regs s rL), uint (regs s rH)] s
      else H ''r4k_ldl_pd_rr'' [opc, uint (regs s rE), uint (regs s rD)] s)"

definition r4k_ld_pd :: "handlers \<Rightarrow> int \<Rightarrow> cpu \<Rightarrow> cpu" where
  "r4k_ld_pd H opc s =
     (if ih s then H ''r4k_ld_a_ipsd'' [opc] s else H ''r4k_ld_pd_r32'' [opc, of_flag (iy s)] s)"

definition r4k_r32_or :: "handlers \<Rightarrow> string \<Rightarrow> int \<Rightarrow> (cpu \<Rightarrow> cpu) \<Rightarrow> cpu \<Rightarrow> cpu" where
  "r4k_r32_or H f opc g s = (if \<not> ih s then H f [opc, of_flag (iy s)] s else g s)"

text \<open>\<open>JR cc,s8\<close> and \<open>JP cc,mn\<close>; the jump takes seven ticks in all and exists unprefixed only.\<close>

definition r4k_jr :: "bool \<Rightarrow> cpu \<Rightarrow> cpu" where
  "r4k_jr c s = (let s = ticks 5 s in if c then rel_jump s else s\<lparr>pc := pc s + 1\<rparr>)"

definition r4k_jp :: "bool \<Rightarrow> cpu \<Rightarrow> cpu" where
  "r4k_jp c s = (if ih s then timed 7 (JPCI c) s else s)"

text \<open>The Rabbit 6000 instruction first, then the Rabbit 4000 one, then the Z80 one.\<close>

definition rabbit64 :: "handlers \<Rightarrow> string \<Rightarrow> int \<Rightarrow> (cpu \<Rightarrow> cpu) \<Rightarrow> (cpu \<Rightarrow> cpu) \<Rightarrow> cpu \<Rightarrow> cpu" where
  "rabbit64 H f opc r4 z s =
     (if israbbit6k s \<and> \<not> ih s then H f [opc, of_flag (iy s)] s
      else if israbbit4k s then r4 s else z s)"

definition rabbit4 :: "(cpu \<Rightarrow> cpu) \<Rightarrow> (cpu \<Rightarrow> cpu) \<Rightarrow> cpu \<Rightarrow> cpu" where
  "rabbit4 r4 z s = (if israbbit4k s then r4 s else z s)"

definition rabbit4_ih :: "(cpu \<Rightarrow> cpu) \<Rightarrow> (cpu \<Rightarrow> cpu) \<Rightarrow> cpu \<Rightarrow> cpu" where
  "rabbit4_ih r4 z s = (if israbbit4k s \<and> ih s then r4 s else z s)"

section \<open>ADD A,r\<close>

definition op_add_a :: "handlers \<Rightarrow> int \<Rightarrow> cpu \<Rightarrow> cpu" where
  "op_add_a H opc s = fin (
     if opc = 0x80 then rabbit64 H ''r6k_alu_hl_xyd'' opc RABBIT4k_UNDEFINED (ALU_r ADD rB) s
     else if opc = 0x81 then rabbit64 H ''r6k_alu_hl_xyd'' opc (H ''r4k_ld_hl_bc'' [opc]) (ALU_r ADD rC) s
     else if opc = 0x82 then rabbit64 H ''r6k_alu_jkhl_xyd'' opc (H ''r4k_ldf_ilmn_hl'' [opc]) (ALU_r ADD rD) s
     else if opc = 0x83 then rabbit64 H ''r6k_alu_jkhl_xyd'' opc (H ''r4k_ld_imn_r32'' [opc, 0]) (ALU_r ADD rE) s
     else if opc = 0x84 then rabbit4 (H ''r4k_ld_imn_r32'' [opc, 1]) (ALU_h ADD) s
     else if opc = 0x85 then rabbit4 (H ''r4k_ld_hl_ipsd'' [opc]) (ALU_l ADD) s
     else if opc = 0x86 then rabbit4_ih (H ''r4k_ld_ipdd_hl'' [opc]) (ALU_mem ADD) s
     else rabbit4 (H ''r4k_lljp'' [opc, 1]) (ALU_self add_aa) s)"

section \<open>ADC A,r\<close>

text \<open>\<open>ADC A,H\<close> takes the time of a memory operand.\<close>

definition op_adc_a :: "handlers \<Rightarrow> int \<Rightarrow> cpu \<Rightarrow> cpu" where
  "op_adc_a H opc s = fin (
     if opc = 0x88 then
       (if israbbit4k s \<and> \<not> ih s then H ''r4k_sla_r32'' [opc, of_flag (iy s)] s else ALU_r ADC rB s)
     else if opc = 0x89 then rabbit4 (r4k_r32_or H ''r4k_sla_r32'' opc (LDPNNRR rJ rK 13)) (ALU_r ADC rC) s
     else if opc = 0x8a then rabbit4 (H ''r4k_ldf_ilmn_a'' [opc]) (ALU_r ADC rD) s
     else if opc = 0x8b then
       rabbit4 (r4k_r32_or H ''r4k_sla_r32'' opc (H ''r4k_ld_a_ipshl'' [opc])) (ALU_r ADC rE) s
     else if opc = 0x8c then
       rabbit4 (r4k_ldl_xy H opc (H ''r4k_ld_ipdhl_a'' [opc]))
         (xy_half (\<lambda>s. ADC (regs s rH) (ALUiHL_TICKS s) s) (ALU_half ADC rYH) (ALU_half ADC rXH)) s
     else if opc = 0x8d then rabbit4 (r4k_ld_pd H opc) (ALU_l ADC) s
     else if opc = 0x8e then rabbit4_ih (H ''r4k_ld_ipdd_a'' [opc]) (ALU_mem ADC) s
     else rabbit4 (r4k_ldl_hl_de H opc (H ''r4k_llcall'' [opc])) (ALU_self adc_aa) s)"

section \<open>SUB r\<close>

definition r4k_ld_bc_hl :: "cpu \<Rightarrow> cpu" where
  "r4k_ld_bc_hl s =
     (let sh = src_r rH rH' s; sl = src_r rL rL' s
      in ticks 2 (set_reg (dst_r rC rC' s) sl (set_reg (dst_r rB rB' s) sh s)))"

definition op_sub :: "handlers \<Rightarrow> int \<Rightarrow> cpu \<Rightarrow> cpu" where
  "op_sub H opc s = fin (
     if opc = 0x90 then rabbit64 H ''r6k_alu_hl_xyd'' opc RABBIT4k_UNDEFINED (ALU_r SUB rB) s
     else if opc = 0x91 then rabbit64 H ''r6k_alu_hl_xyd'' opc r4k_ld_bc_hl (ALU_r SUB rC) s
     else if opc = 0x92 then rabbit64 H ''r6k_alu_jkhl_xyd'' opc (H ''r4k_ldf_hl_ilmn'' [opc]) (ALU_r SUB rD) s
     else if opc = 0x93 then rabbit64 H ''r6k_alu_jkhl_xyd'' opc (H ''r4k_ld_r32_imn'' [opc, 0]) (ALU_r SUB rE) s
     else if opc = 0x94 then rabbit4 (H ''r4k_ld_r32_imn'' [opc, 1]) (ALU_h SUB) s
     else if opc = 0x95 then rabbit4 (H ''r4k_ld_hl_ipsd'' [opc]) (ALU_l SUB) s
     else if opc = 0x96 then rabbit4_ih (H ''r4k_ld_ipdd_hl'' [opc]) (ALU_mem SUB) s
     else rabbit4 (H ''r4k_ld_lxpc_hl'' [opc]) (ALU_self sub_aa) s)"

section \<open>SBC A,r\<close>

definition op_sbc_a :: "handlers \<Rightarrow> int \<Rightarrow> cpu \<Rightarrow> cpu" where
  "op_sbc_a H opc s = fin (
     if opc = 0x98 then rabbit4 (r4k_r32_or H ''r4k_sra_r32'' opc (H ''r4k_jre'' [opc, 1])) (ALU_r SBC rB) s
     else if opc = 0x99 then
       rabbit4 (r4k_r32_or H ''r4k_sra_r32'' opc (\<lambda>s. if altd s then LDRRPNN rJ' rK' 11 s else LDRRPNN rJ rK 11 s))
         (ALU_r SBC rC) s
     else if opc = 0x9a then rabbit4 (H ''r4k_ldf_a_ilmn'' [opc]) (ALU_r SBC rD) s
     else if opc = 0x9b then
       rabbit4 (r4k_r32_or H ''r4k_sra_r32'' opc (H ''r4k_ld_a_ipshl'' [opc])) (ALU_r SBC rE) s
     else if opc = 0x9c then rabbit4 (r4k_ldl_xy H opc (H ''r4k_ld_ipdhl_a'' [opc])) (ALU_h SBC) s
     else if opc = 0x9d then rabbit4 (r4k_ld_pd H opc) (ALU_l SBC) s
     else if opc = 0x9e then rabbit4_ih (H ''r4k_ld_ipdd_a'' [opc]) (ALU_mem SBC) s
     else rabbit4 (r4k_ldl_hl_de H opc (H ''r4k_ld_hl_lxpc'' [opc])) (ALU_self sbc_aa) s)"

section \<open>AND r\<close>

definition op_and :: "handlers \<Rightarrow> int \<Rightarrow> cpu \<Rightarrow> cpu" where
  "op_and H opc s = fin (
     if opc = 0xa0 then rabbit64 H ''r6k_alu_hl_xyd'' opc (\<lambda>s. r4k_jr (F_GT s (f_flags s)) s) (ALU_r AND_op rB) s
     else if opc = 0xa1 then rabbit64 H ''r6k_alu_hl_xyd'' opc (H ''r4k_ld_hl_de'' [opc]) (ALU_r AND_op rC) s
     else if opc = 0xa2 then rabbit64 H ''r6k_alu_jkhl_xyd'' opc (\<lambda>s. r4k_jp (F_GT s (f_flags s)) s) (ALU_r AND_op rD) s
     else if opc = 0xa3 then rabbit64 H ''r6k_alu_jkhl_xyd'' opc (H ''r4k_ld_r32_d'' [opc, 0]) (ALU_r AND_op rE) s
     else if opc = 0xa4 then rabbit4 (H ''r4k_ld_r32_d'' [opc, 1]) (ALU_h AND_op) s
     else if opc = 0xa5 then rabbit4 (H ''r4k_ld_hl_ipsd'' [opc]) (ALU_l AND_op) s
     else if opc = 0xa6 then rabbit4_ih (H ''r4k_ld_ipdd_hl'' [opc]) (ALU_mem AND_op) s
     else rabbit4 (\<lambda>s. if ih s then H ''r4k_mulu'' [opc] s else RABBIT4k_UNDEFINED s) (ALU_self and_aa) s)"

section \<open>XOR r\<close>

text \<open>\<open>XOR IXh\<close> is not restricted to some CPUs, and \<open>XOR H\<close> takes the time of an index half.\<close>

definition op_xor :: "handlers \<Rightarrow> int \<Rightarrow> cpu \<Rightarrow> cpu" where
  "op_xor H opc s = fin (
     if opc = 0xa8 then
       rabbit4 (r4k_r32_or H ''r4k_sll_r32'' opc (\<lambda>s. r4k_jr (F_GTU (f_flags s)) s)) (ALU_r XOR_op rB) s
     else if opc = 0xa9 then
       rabbit4 (r4k_r32_or H ''r4k_sll_r32'' opc (\<lambda>s. if altd s then LDRRIM rJ' rK' s else LDRRIM rJ rK s))
         (ALU_r XOR_op rC) s
     else if opc = 0xaa then rabbit4 (\<lambda>s. r4k_jp (F_GTU (f_flags s)) s) (ALU_r XOR_op rD) s
     else if opc = 0xab then
       rabbit4 (r4k_r32_or H ''r4k_sll_r32'' opc (H ''r4k_ld_a_ipshl'' [opc])) (ALU_r XOR_op rE) s
     else if opc = 0xac then
       rabbit4 (r4k_ldl_xy H opc (H ''r4k_ld_ipdhl_a'' [opc]))
         (xy (ALU_half XOR_op rH) (ALU_half XOR_op rYH) (ALU_half XOR_op rXH)) s
     else if opc = 0xad then rabbit4 (r4k_ld_pd H opc) (ALU_l XOR_op) s
     else if opc = 0xae then rabbit4_ih (H ''r4k_ld_ipdd_a'' [opc]) (ALU_mem XOR_op) s
     else
       (if israbbit4k s \<and> iy s then H ''r4k_ldl_pd_rr'' [opc, uint (regs s rL), uint (regs s rH)] s
        else if israbbit4k s \<and> \<not> ih s then H ''r4k_ldl_pd_rr'' [opc, uint (regs s rE), uint (regs s rD)] s
        else ALU_self xor_aa s))"

section \<open>OR r\<close>

definition op_or :: "handlers \<Rightarrow> int \<Rightarrow> cpu \<Rightarrow> cpu" where
  "op_or H opc s = fin (
     if opc = 0xb0 then rabbit64 H ''r6k_alu_hl_xyd'' opc (\<lambda>s. r4k_jr (F_LT s (f_flags s)) s) (ALU_r OR_op rB) s
     else if opc = 0xb1 then rabbit64 H ''r6k_alu_hl_xyd'' opc (H ''r4k_ld_de_hl'' [opc]) (ALU_r OR_op rC) s
     else if opc = 0xb2 then rabbit64 H ''r6k_alu_jkhl_xyd'' opc (\<lambda>s. r4k_jp (F_LT s (f_flags s)) s) (ALU_r OR_op rD) s
     else if opc = 0xb3 then rabbit64 H ''r6k_alu_jkhl_xyd'' opc (H ''r4k_ex_bc_hl'' [opc]) (ALU_r OR_op rE) s
     else if opc = 0xb4 then rabbit4 (H ''r4k_ex_jkhl_bcde'' [opc]) (ALU_h OR_op) s
     else if opc = 0xb5 then rabbit4 (H ''r4k_ld_hl_ipsd'' [opc]) (ALU_l OR_op) s
     else if opc = 0xb6 then rabbit4_ih (H ''r4k_ld_ipdd_hl'' [opc]) (ALU_mem OR_op) s
     else ALU_self or_aa s)"

section \<open>CP r\<close>

definition r4k_clr_hl :: "cpu \<Rightarrow> cpu" where
  "r4k_clr_hl s = ticks 2 (set_reg (dst_r rH rH' s) 0 (set_reg (dst_r rL rL' s) 0 s))"

text \<open>\<open>CP\<close> with memory goes through \<open>w\<close>. Opcode 0xbb passes \<open>pc\<close> where the others pass the opcode.\<close>

definition CP_w :: "8 word \<Rightarrow> int \<Rightarrow> cpu \<Rightarrow> cpu" where
  "CP_w b n s = CP b n (set_reg rW b s)"

definition op_cp :: "handlers \<Rightarrow> int \<Rightarrow> cpu \<Rightarrow> cpu" where
  "op_cp H opc s = fin (
     if opc = 0xb8 then
       rabbit4 (r4k_r32_or H ''r4k_srl_r32'' opc (\<lambda>s. r4k_jr (F_V s (f_flags s)) s)) (ALU_r CP rB) s
     else if opc = 0xb9 then
       rabbit4 (r4k_r32_or H ''r4k_srl_r32'' opc (H ''r4k_ex_jk_hl'' [opc])) (ALU_r CP rC) s
     else if opc = 0xba then rabbit4 (\<lambda>s. r4k_jp (F_V s (f_flags s)) s) (ALU_r CP rD) s
     else if opc = 0xbb then
       rabbit4 (\<lambda>s. r4k_r32_or H ''r4k_srl_r32'' (uint (pc s)) (H ''r4k_ld_a_ipshl'' [opc]) s) (ALU_r CP rE) s
     else if opc = 0xbc then rabbit4 (r4k_ldl_xy H opc (H ''r4k_ld_ipdhl_a'' [opc])) (ALU_h CP) s
     else if opc = 0xbd then
       rabbit4 (r4k_ld_pd H opc)
         (xy_half (ALU_r CP rL) (ALU_half CP rYL)
            (\<lambda>s. CP (regs s rXL) (if isez80 s then 1 else if isr800 s then 1 else 4) s)) s
     else if opc = 0xbe then rabbit4_ih (H ''r4k_ld_ipdd_a'' [opc]) (ALU_mem CP_w) s
     else rabbit4 (r4k_ldl_hl_de H opc r4k_clr_hl) (ALU_self (\<lambda>n s. cp_aa (regs s rA) n s)) s)"

section \<open>Opcodes 0x80 to 0xbf\<close>

definition exec_80_bf :: "handlers \<Rightarrow> int \<Rightarrow> cpu \<Rightarrow> cpu" where
  "exec_80_bf H opc s =
     (if opc < 0x88 then op_add_a H opc s
      else if opc < 0x90 then op_adc_a H opc s
      else if opc < 0x98 then op_sub H opc s
      else if opc < 0xa0 then op_sbc_a H opc s
      else if opc < 0xa8 then op_and H opc s
      else if opc < 0xb0 then op_xor H opc s
      else if opc < 0xb8 then op_or H opc s
      else op_cp H opc s)"

end
