(* ===== verification/Ticks_Ed.thy ===== *)
theory Ticks_Ed
  imports Ticks_Main3
begin

text \<open>
  The ED page, \<open>handle_ed_page\<close> of \<open>src/src/ticks/ticks.c\<close>. Most of its cases are a chain
  \<open>if (cpu1) op1 else if (cpu2) op2 ... else st += n\<close>; \<open>first_of\<close> is such a chain. The calls into the
  Rabbit, eZ80 and KC160 files and \<open>PatchZ80\<close> go to the \<open>handlers\<close> parameter.
\<close>

section \<open>Shapes\<close>

fun first_of :: "((cpu \<Rightarrow> bool) \<times> (cpu \<Rightarrow> cpu)) list \<Rightarrow> (cpu \<Rightarrow> cpu) \<Rightarrow> cpu \<Rightarrow> cpu" where
  "first_of [] d s = d s"
| "first_of ((c, f) # cs) d s = (if c s then f s else first_of cs d s)"

text \<open>\<open>st += 8\<close> and \<open>st += israbbit() ? 4 : 8\<close>.\<close>

definition nop8 :: "cpu \<Rightarrow> cpu" where
  "nop8 s = ticks 8 s"

definition nop48 :: "cpu \<Rightarrow> cpu" where
  "nop48 s = ticks (if israbbit s then 4 else 8) s"

definition r3k_or_r4k :: "cpu \<Rightarrow> bool" where
  "r3k_or_r4k s \<longleftrightarrow> cpu_is (CPU_R3K OR CPU_R4K) s"

definition ed_tst :: "reg \<Rightarrow> cpu \<Rightarrow> cpu" where
  "ed_tst r s = TEST (regs s r) (if isez80 s then 2 else 7) s"

text \<open>A handler that takes the opcode and a condition.\<close>

definition Hc :: "handlers \<Rightarrow> string \<Rightarrow> int \<Rightarrow> (cpu \<Rightarrow> int) \<Rightarrow> cpu \<Rightarrow> cpu" where
  "Hc H f opc c s = H f [opc, c s] s"

definition cc_nz :: "cpu \<Rightarrow> int" where "cc_nz s = uint (fr (fl s))"
definition cc_z :: "cpu \<Rightarrow> int" where "cc_z s = of_flag (fr (fl s) = 0)"
definition cc_nc :: "cpu \<Rightarrow> int" where "cc_nc s = of_flag (uint (ff (fl s)) AND 256 = 0)"
definition cc_c :: "cpu \<Rightarrow> int" where "cc_c s = of_flag (uint (ff (fl s)) AND 256 = 256)"
definition cc_gt :: "cpu \<Rightarrow> int" where "cc_gt s = of_flag (F_GT s (f_flags s))"
definition cc_gtu :: "cpu \<Rightarrow> int" where "cc_gtu s = of_flag (F_GTU (f_flags s))"
definition cc_lt :: "cpu \<Rightarrow> int" where "cc_lt s = of_flag (F_LT s (f_flags s))"
definition cc_v :: "cpu \<Rightarrow> int" where "cc_v s = of_flag (F_V s (f_flags s))"

section \<open>0x00 to 0x1f\<close>

definition ed_00_1f :: "handlers \<Rightarrow> int \<Rightarrow> cpu \<Rightarrow> cpu" where
  "ed_00_1f H opc = (let h = (\<lambda>f. H f [opc]) in
     if opc = 0x02 then first_of [(iskc160, h ''kc160_ld_ixysd_r24''), (israbbit4k, h ''r4k_sbox_a''), (isez80, h ''ez80_lea_rr_xyd'')] nop8
     else if opc = 0x03 then first_of [(iskc160, h ''kc160_ldf_ilmn_r24''), (israbbit4k, h ''r4k_ldl_pd_ispn''), (isez80, h ''ez80_lea_rr_xyd'')] nop8
     else if opc = 0x04 then first_of [(israbbit4k, h ''r4k_ld_pd_ispn''), (canz180, ed_tst rB)] nop8
     else if opc = 0x07 then first_of [(israbbit4k, h ''r4k_ld_ipdbc_hl''), (isez80, h ''ez80_ld_rr_ihl'')] nop8
     else if opc = 0x0c then first_of [(israbbit4k, h ''r4k_ld_pd_klmn''), (canz180, ed_tst rC)] nop8
     else if opc = 0x0f then first_of [(israbbit4k, h ''r4k_convd''), (isez80, h ''ez80_ld_ihl_rr'')] nop8
     else if opc = 0x12 then first_of [(iskc160, h ''kc160_ld_ixysd_r24''), (israbbit4k, h ''r4k_ibox_a''), (isez80, h ''ez80_lea_rr_xyd'')] nop8
     else if opc = 0x13 then first_of [(iskc160, h ''kc160_ldf_ilmn_r24''), (israbbit4k, h ''r4k_ldl_pd_ispn''), (isez80, h ''ez80_lea_rr_xyd'')] nop8
     else if opc = 0x14 then first_of [(israbbit4k, h ''r4k_ld_pd_ispn''), (canz180, ed_tst rD)] nop8
     else if opc = 0x17 then first_of [(israbbit4k, h ''r4k_ld_ipdbc_hl''), (isez80, h ''ez80_ld_rr_ihl'')] nop8
     else if opc = 0x1c then first_of [(israbbit4k, h ''r4k_ld_pd_klmn''), (canz180, ed_tst rE)] nop8
     else if opc = 0x1f then first_of [(israbbit4k, h ''r4k_convd''), (isez80, h ''ez80_ld_ihl_rr'')] nop8
     else if opc \<in> {0x0d, 0x1d} then first_of [(israbbit4k, h ''r4k_ldl_pd_mn'')] nop48
     else if opc \<in> {0x05, 0x15} then first_of [(israbbit4k, h ''r4k_ld_ispn_ps'')] nop48
     else if opc \<in> {0x06, 0x16} then first_of [(iskc160, h ''kc160_ld_hxy_sp''), (israbbit4k, h ''r4k_ld_hl_ipsbc'')] nop48
     else if opc \<in> {0x08, 0x18} then first_of [(iskc160, h ''kc160_ld_r24_ixysd''), (israbbit4k, h ''r4k_ldf_pd_ilmn''), (canz180, z180_in0)] nop48
     else if opc \<in> {0x09, 0x19} then first_of [(iskc160, h ''kc160_ld_r24_ixysd''), (israbbit4k, h ''r4k_ldf_ilmn_ps''), (canz180, z180_out0)] nop48
     else if opc \<in> {0x0a, 0x1a} then first_of [(iskc160, h ''kc160_ld_r24_ixysd''), (israbbit4k, h ''r4k_ldf_rr_ilmn'')] nop48
     else if opc \<in> {0x0b, 0x1b} then first_of [(iskc160, h ''kc160_ldf_r24_ilmn''), (israbbit4k, h ''r4k_ldf_ilmn_rr'')] nop48
     else if opc \<in> {0x0e, 0x1e} then first_of [(iskc160, h ''kc160_ld_r24_lmn''), (israbbit4k, h ''r4k_convc'')] nop48
     else if opc = 0x00 then first_of [(iskc160, h ''kc160_ld_ixysd_r24''), (israbbit4k, h ''r4k_cbm''), (canz180, z180_in0)] nop48
     else if opc \<in> {0x01, 0x11} then first_of [(iskc160, h ''kc160_ld_ixysd_r24''), (israbbit4k, h ''r4k_ld_pd_ihtrhl''), (canz180, z180_out0)] nop48
     else \<comment> \<open>0x10\<close> first_of [(iskc160, h ''kc160_ld_ixysd_r24''), (israbbit4k, h ''r4k_dwjnz''), (canz180, z180_in0)] nop48)"

section \<open>0x20 to 0x3f\<close>

text \<open>The Z80N's \<open>TST n\<close> adds 7 ticks in \<open>TEST\<close> and 11 more.\<close>

definition z80n_tst_n :: "cpu \<Rightarrow> cpu" where
  "z80n_tst_n s = (let (v, s) = fetch s in ticks 11 (TEST v 7 s))"

definition z180_tst_hl :: "cpu \<Rightarrow> cpu" where
  "z180_tst_hl s = TEST (get_memory_data (rp rH rL s) s) (if isez80 s then 3 else 10) s"

definition ed_20_3f :: "handlers \<Rightarrow> int \<Rightarrow> cpu \<Rightarrow> cpu" where
  "ed_20_3f H opc = (let h = (\<lambda>f. H f [opc]) in
     if opc = 0x22 then first_of [(iskc160, h ''kc160_ld_ixysd_r24''), (isez80, h ''ez80_lea_rr_xyd'')] nop8
     else if opc = 0x23 then first_of [(iskc160, h ''kc160_ldf_ilmn_r24''), (israbbit4k, h ''r4k_ldl_pd_ispn''), (isez80, h ''ez80_lea_rr_xyd''), (isz80n, SWAP (LReg rA))] nop8
     else if opc = 0x24 then first_of [(israbbit4k, h ''r4k_ld_pd_ispn''), (canz180, ed_tst rH), (isz80n, z80n_mirror)] nop8
     else if opc = 0x28 then first_of [(iskc160, h ''kc160_ld_r24_ixysd''), (israbbit4k, h ''r4k_ldf_pd_ilmn''), (isz80n, BSLA_DE_B)] nop8
     else if opc = 0x29 then first_of [(iskc160, h ''kc160_ld_r24_ixysd''), (israbbit4k, h ''r4k_ldf_ilmn_ps''), (canz180, z180_out0), (isz80n, BSRA_DE_B)] nop8
     else if opc = 0x2a then first_of [(iskc160, h ''kc160_ld_r24_ixysd''), (israbbit4k, h ''r4k_ldf_rr_ilmn''), (isz80n, BSRL_DE_B)] nop8
     else if opc = 0x2b then first_of [(iskc160, h ''kc160_ldf_r24_ilmn''), (israbbit4k, h ''r4k_ldf_ilmn_rr''), (isz80n, BSRF_DE_B)] nop8
     else if opc = 0x2c then first_of [(israbbit4k, h ''r4k_ld_pd_klmn''), (canz180, ed_tst rL), (isz80n, BRLC_DE_B)] nop8
     else if opc = 0x2f then first_of [(israbbit4k, h ''r4k_convd''), (isez80, h ''ez80_ld_ihl_rr'')] nop8
     else if opc = 0x32 then first_of [(isez80, h ''ez80_lea_xy_xd''), (isz80n, z80n_add_de_a)] nop8
     else if opc = 0x33 then first_of [(israbbit4k, h ''r4k_ldl_pd_ispn''), (isez80, h ''ez80_lea_xy_yd''), (isz80n, z80n_add_bc_a)] nop8
     else if opc = 0x3e then first_of [(israbbit4k, h ''r4k_convc''), (isez80, h ''ez80_ld_ihl_xy'')] nop8
     else if opc = 0x3f then first_of [(israbbit4k, h ''r4k_convd''), (isez80, h ''ez80_ld_ihl_xy'')] nop8
     else if opc = 0x2d then first_of [(israbbit4k, h ''r4k_ldl_pd_mn'')] nop48
     else if opc = 0x25 then first_of [(israbbit4k, h ''r4k_ld_ispn_ps'')] nop48
     else if opc = 0x3a then first_of [(israbbit4k, h ''r4k_ldf_rr_ilmn'')] nop48
     else if opc = 0x3b then first_of [(israbbit4k, h ''r4k_ldf_ilmn_rr'')] nop48
     else if opc = 0x2e then first_of [(iskc160, h ''kc160_ld_r24_lmn''), (israbbit4k, h ''r4k_convc'')] nop48
     else if opc = 0x21 then first_of [(iskc160, h ''kc160_ld_ixysd_r24''), (israbbit4k, h ''r4k_ld_pd_ihtrhl''), (canz180, z180_out0)] nop48
     else if opc = 0x20 then first_of [(iskc160, h ''kc160_ld_ixysd_r24''), (canz180, z180_in0)] nop48
     else if opc = 0x26 then first_of [(iskc160, h ''kc160_ld_hxy_sp''), (israbbit4k, h ''r4k_ld_hl_ipsbc'')] nop48
     else if opc = 0x27 then first_of [(israbbit4k, h ''r4k_ld_ipdbc_hl''), (isez80, h ''ez80_ld_rr_ihl''), (isz80n, z80n_tst_n)] nop8
     else if opc = 0x30 then first_of [(isz80n, z80n_mul_d_e)] nop8
     else if opc = 0x31 then first_of [(israbbit4k, h ''r4k_ld_pd_ihtrhl''), (isez80, h ''ez80_ld_xy_ihl''), (isz80n, z80n_add_hl_a)] nop8
     else if opc = 0x34 then first_of [(israbbit4k, h ''r4k_ld_pd_ispn''), (canz180, z180_tst_hl), (isz80n, z80n_add_hl_mn)] nop8
     else if opc = 0x35 then first_of [(israbbit4k, h ''r4k_ld_ispn_ps''), (isz80n, z80n_add_de_mn)] nop48
     else if opc = 0x36 then first_of [(israbbit4k, h ''r4k_ld_hl_ipsbc''), (isez80, h ''ez80_ld_xy_ihl''), (isz80n, z80n_add_bc_mn)] nop48
     else if opc = 0x37 then first_of [(israbbit4k, h ''r4k_ld_ipdbc_hl''), (isez80, h ''ez80_ld_xy_ihl'')] nop48
     else if opc = 0x38 then first_of [(israbbit4k, h ''r4k_ldf_pd_ilmn''), (canz180, z180_in0)] nop8
     else if opc = 0x39 then first_of [(israbbit4k, h ''r4k_ldf_ilmn_ps''), (canz180, z180_out0)] nop8
     else if opc = 0x3c then first_of [(israbbit4k, h ''r4k_ld_pd_klmn''), (canz180, ed_tst rA)] nop48
     else \<comment> \<open>0x3d\<close> first_of [(israbbit4k, h ''r4k_ldl_pd_mn'')] nop48)"

section \<open>0x40 to 0x7f\<close>

text \<open>\<open>b_ = alts ? d_ : d; c_ = alts ? e_ : e; st += 4\<close> and its siblings.\<close>

definition ld_alt_pair :: "reg \<Rightarrow> reg \<Rightarrow> reg \<Rightarrow> reg \<Rightarrow> reg \<Rightarrow> reg \<Rightarrow> cpu \<Rightarrow> cpu" where
  "ld_alt_pair dh dl sh sh' sl sl' s =
     (let s = set_reg dh (src_r sh sh' s) s;
          s = set_reg dl (src_r sl sl' s) s
      in ticks 4 s)"

definition not_rabbit :: "cpu \<Rightarrow> bool" where
  "not_rabbit s \<longleftrightarrow> \<not> israbbit s"

definition OUTR_r :: "reg \<Rightarrow> cpu \<Rightarrow> cpu" where
  "OUTR_r r s = OUTR (regs s r) s"

definition LDPNNRR_ed :: "reg \<Rightarrow> reg \<Rightarrow> cpu \<Rightarrow> cpu" where
  "LDPNNRR_ed a b s = LDPNNRR a b (if isez80 s then 6 else if israbbit s then 15 else if isz180 s then 19
     else if isr800 s then 6 else if iskc160 s then 5 else 20) s"

definition LDRRPNN_ed :: "reg \<Rightarrow> reg \<Rightarrow> cpu \<Rightarrow> cpu" where
  "LDRRPNN_ed a b s = LDRRPNN a b (if isez80 s then 6 else if israbbit s then 13 else if isz180 s then 18
     else if isr800 s then 6 else if iskc160 s then 5 else 20) s"

text \<open>The input, output and 16-bit arithmetic columns.\<close>

definition ed_io16 :: "handlers \<Rightarrow> int \<Rightarrow> cpu \<Rightarrow> cpu" where
  "ed_io16 H opc = (let h = (\<lambda>f. H f [opc]) in
     if opc = 0x40 then first_of [(israbbit4k, h ''r4k_ld_htr_a''), (not_rabbit, INR (LReg rB))] (ticks 2)
     else if opc = 0x48 then first_of [(israbbit4k, h ''r4k_cp_hl_de''), (not_rabbit, INR (LReg rC))] (ticks 2)
     else if opc = 0x50 then first_of [(israbbit4k, h ''r4k_ld_a_htr''), (not_rabbit, INR (LReg rD))] (ticks 2)
     else if opc = 0x58 then first_of [(israbbit4k, h ''r4k_cp_jkhl_bcde''), (not_rabbit, INR (LReg rE))] (ticks 2)
     else if opc = 0x60 then INR (LReg rH)
     else if opc = 0x68 then INR (LReg rL)
     else if opc = 0x70 then INR LT
     else if opc = 0x78 then INR (LReg rA)
     else if opc = 0x41 then first_of [(israbbit, ld_alt_pair rB' rC' rD rD' rE rE')] (OUTR_r rB)
     else if opc = 0x49 then first_of [(israbbit, ld_alt_pair rB' rC' rB rB' rC rC')] (OUTR_r rC)
     else if opc = 0x51 then first_of [(israbbit, ld_alt_pair rD' rE' rD rD' rE rE')] (OUTR_r rD)
     else if opc = 0x59 then first_of [(israbbit, ld_alt_pair rD' rE' rB rB' rC rC')] (OUTR_r rE)
     else if opc = 0x61 then first_of [(israbbit, ld_alt_pair rH' rL' rD rD' rE rE')] (OUTR_r rH)
     else if opc = 0x69 then first_of [(israbbit, ld_alt_pair rH' rL' rB rB' rC rC')] (OUTR_r rL)
     else if opc = 0x71 then OUTR 0
     else if opc = 0x79 then OUTR_r rA
     else if opc = 0x42 then (\<lambda>s. SBCHLRR (uint (regs s rB)) (uint (regs s rC)) s)
     else if opc = 0x52 then (\<lambda>s. SBCHLRR (uint (regs s rD)) (uint (regs s rE)) s)
     else if opc = 0x62 then (\<lambda>s. SBCHLRR (uint (regs s rH)) (uint (regs s rL)) s)
     else if opc = 0x72 then SBC_HL_SP
     else if opc = 0x4a then (\<lambda>s. ADCHLRR (uint (regs s rB)) (uint (regs s rC)) s)
     else if opc = 0x5a then (\<lambda>s. ADCHLRR (uint (regs s rD)) (uint (regs s rE)) s)
     else if opc = 0x6a then (\<lambda>s. ADCHLRR (uint (regs s rH)) (uint (regs s rL)) s)
     else if opc = 0x7a then ADC_HL_SP
     else if opc = 0x43 then LDPNNRR_ed rB rC
     else if opc = 0x53 then LDPNNRR_ed rD rE
     else if opc = 0x63 then LDPNNRR_ed rH rL
     else if opc = 0x73 then LD_NN_SP
     else if opc = 0x4b then LDRRPNN_ed rB rC
     else if opc = 0x5b then LDRRPNN_ed rD rE
     else if opc = 0x6b then LDRRPNN_ed rH rL
     else \<comment> \<open>0x7b\<close> LD_SP_NN)"

text \<open>\<open>NEG\<close>, \<open>RETN\<close>, \<open>IM\<close>, the interrupt registers and the digit rotates.\<close>

definition op_neg :: "cpu \<Rightarrow> cpu" where
  "op_neg s =
     (let s = ticks 8 s;
          B = u16 (NOT (uint (regs s rA)));
          F = u16 (uint B + 1);
          a = u8 (uint F)
      in set_reg rA a (s\<lparr>fl := \<lparr>ff = F, fr = u16 (uint a), fa = 0, fb = B\<rparr>\<rparr>))"

definition op_im :: "nat \<Rightarrow> cpu \<Rightarrow> cpu" where
  "op_im n s = (ticks 8 s)\<lparr>im := n\<rparr>"

definition z180_tst_n :: "cpu \<Rightarrow> cpu" where
  "z180_tst_n s = (let (v, s) = fetch s in TEST v (if isez80 s then 3 else 9) s)"

definition op_ld_i_a :: "cpu \<Rightarrow> cpu" where
  "op_ld_i_a s = LDRR rI rA rI rA (if israbbit s then 4 else if isz180 s then 6 else if isr800 s then 2
     else if iskc160 s then 2 else 9) s"

definition op_reti :: "cpu \<Rightarrow> cpu" where
  "op_reti s = RET (if israbbit s then 12 else if isz180 s then 12 else 14) s"

definition ed_misc :: "handlers \<Rightarrow> int \<Rightarrow> cpu \<Rightarrow> cpu" where
  "ed_misc H opc = (let h = (\<lambda>f. H f [opc]) in
     if opc = 0x4c then first_of [(iskc160, h ''kc160_call3''), (canz180, z180_mlt opc), (israbbit4k, H ''r4k_test_rp2'' [opc, 0])] UNDOCUMENTED_NEG
     else if opc = 0x5c then first_of [(iskc160, h ''kc160_ret3''), (canz180, z180_mlt opc), (israbbit6k, H ''r4k_test_rp2'' [opc, 1])] UNDOCUMENTED_NEG
     else if opc = 0x6c then first_of [(israbbit, H ''rxk_ldp_hl_irr'' [opc, 0xed]), (canz180, z180_mlt opc)] UNDOCUMENTED_NEG
     else if opc = 0x7c then first_of [(iskc160, h ''kc160_divs_hl_a''), (israbbit4k, h ''r4k_ex_jk1_hl''), (canz180, z180_mlt opc)] UNDOCUMENTED_NEG
     else if opc = 0x64 then first_of [(israbbit, H ''rxk_ldp_irr_hl'' [opc, 0xed]), (canz180, z180_tst_n)] UNDOCUMENTED_NEG
     else if opc = 0x7f then first_of [(iskc160, h ''kc160_muls_de_hl''), (r3k_or_r4k, h ''r3k_rdmode'')] nop48
     else if opc = 0x44 then op_neg
     else if opc = 0x45 then first_of [(israbbit, h ''rxk_lret'')] (\<lambda>s. RET (if isz180 s then 12 else 14) s)
     else if opc = 0x46 then first_of [(israbbit, h ''rxk_ipset'')] (op_im 0)
     else if opc = 0x47 then first_of [(israbbit, h ''rxk_ld_eir_a'')] op_ld_i_a
     else if opc = 0x4d then op_reti
     else if opc = 0x4e then first_of [(iskc160, h ''kc160_im3''), (israbbit, h ''rxk_ipset'')] UNDOCUMENTED_IM0
     else if opc = 0x4f then first_of [(israbbit, h ''rxk_ld_iir_a'')] LD_R_A
     else if opc = 0x54 then first_of [(iskc160, h ''kc160_tra''), (israbbit, \<lambda>s. ticks 4 (EXSPI rH rL s)), (isez80, h ''ez80_lea_xy_yd'')] UNDOCUMENTED_NEG
     else if opc = 0x55 then first_of [(iskc160, h ''kc160_retn3''), (israbbit4k, h ''r4k_fsyscall''), (isez80, h ''ez80_lea_xy_xd'')] UNDOCUMENTED_RETN
     else if opc = 0x56 then first_of [(israbbit, h ''rxk_ipset'')] (op_im 1)
     else if opc = 0x57 then first_of [(israbbit, h ''rxk_ld_a_eir'')] LD_A_I
     else if opc = 0x5d then first_of [(israbbit, h ''rxk_ipres'')] UNDOCUMENTED_RETN
     else if opc = 0x5e then first_of [(israbbit, h ''rxk_ipset'')] (op_im 2)
     else if opc = 0x5f then first_of [(israbbit, h ''rxk_ld_a_iir'')] LD_A_R
     else if opc = 0x65 then first_of [(israbbit, H ''rxk_ldp_inm_rr'' [opc, 0xed]), (isez80, h ''ez80_pea_xyd'')] UNDOCUMENTED_RETN
     else if opc = 0x66 then first_of [(isez80, h ''ez80_pea_xyd''), (r3k_or_r4k, h ''r3k_push_su'')] UNDOCUMENTED_IM0
     else if opc = 0x67 then first_of [(israbbit, h ''rxk_ld_xpc_a'')] zilog_rrd
     else if opc = 0x6d then first_of [(isez80, h ''ez80_ld_mb_a''), (israbbit, H ''rxk_ldp_rr_inm'' [opc, 0xed])] UNDOCUMENTED_RETN
     else if opc = 0x6e then first_of [(isez80, h ''ez80_ld_a_mb''), (r3k_or_r4k, h ''r3k_pop_su'')] UNDOCUMENTED_IM0
     else if opc = 0x6f then first_of [(r3k_or_r4k, h ''r3k_setusr''), (not_rabbit, zilog_rld)] (\<lambda>s. s)
     else if opc = 0x74 then first_of [(iskc160, h ''kc160_div_hl_a'')] UNDOCUMENTED_NEG
     else if opc = 0x75 then first_of [(iskc160, h ''kc160_div_dehl_bc''), (israbbit4k, h ''r4k_syscall'')] UNDOCUMENTED_RETN
     else if opc = 0x76 then first_of [(iskc160, h ''kc160_mul_hl''), (canz180, z180_slp), (israbbit, h ''rxk_push_ip'')] UNDOCUMENTED_IM1
     else if opc = 0x77 then first_of [(iskc160, h ''kc160_mul_de_hl''), (israbbit, h ''rxk_ld_a_xpc'')] nop8
     else if opc = 0x7d then first_of [(iskc160, h ''kc160_divs_dehl_bc''), (isez80, h ''ez80_stmix''), (r3k_or_r4k, h ''r3k_sures'')] UNDOCUMENTED_RETN
     else \<comment> \<open>0x7e\<close> first_of [(iskc160, h ''kc160_muls_hl''), (isez80, h ''ez80_rsmix''), (israbbit, h ''rxk_pop_ip'')] UNDOCUMENTED_IM2)"

section \<open>0x80 to 0xbf\<close>

text \<open>\<open>RABBIT_UNDEFINED\<close> prints and takes time.\<close>

definition RABBIT_UNDEFINED :: "int \<Rightarrow> cpu \<Rightarrow> cpu" where
  "RABBIT_UNDEFINED t s = ticks t s"

definition ed_80_9f :: "handlers \<Rightarrow> int \<Rightarrow> cpu \<Rightarrow> cpu" where
  "ed_80_9f H opc = (let h = (\<lambda>f. H f [opc]) in
     if opc = 0x90 then first_of [(iskc160, h ''kc160_ld_ixysd_xy''), (r3k_or_r4k, h ''r3k_ldisr''), (isz80n, z80n_outinb)] nop8
     else if opc = 0x91 then first_of [(iskc160, h ''kc160_ld_ixysd_xy''), (isz80n, z80n_nextreg_8_8)] nop8
     else if opc = 0x92 then first_of [(iskc160, h ''kc160_ld_ixysd_xy''), (isez80, h ''ez80_inimr''), (isz80n, z80n_nextreg_8_a)] nop8
     else if opc = 0x83 then first_of [(iskc160, h ''kc160_ldf_ilmn_xy''), (israbbit4k, h ''r4k_sysret''), (canz180, z180_otim)] nop48
     else if opc = 0x8b then (\<lambda>s. ticks 8 (first_of [(iskc160, h ''kc160_ldf_xy_ilmn''), (israbbit4k, h ''r4k_llret''), (canz180, z180_otdm)] nop48 s))
     else if opc = 0x93 then first_of [(iskc160, h ''kc160_ldf_ilmn_xy''), (canz180, z180_otimr)] nop48
     else if opc = 0x9b then first_of [(iskc160, h ''kc160_ldf_xy_ilmn''), (canz180, z180_otdmr)] nop48
     else if opc = 0x80 then first_of [(iskc160, h ''kc160_ld_ixysd_xy''), (israbbit4k, h ''r4k_copy'')] nop48
     else if opc = 0x88 then first_of [(iskc160, h ''kc160_ld_xy_ixysd''), (israbbit4k, h ''r4k_copyr'')] nop48
     else if opc = 0x98 then first_of [(iskc160, h ''kc160_ld_xy_ixysd''), (r3k_or_r4k, h ''r3k_lddsr'')] nop48
     else if opc = 0x82 then first_of [(iskc160, h ''kc160_ld_ixysd_xy''), (isez80, h ''ez80_inim'')] nop48
     else if opc = 0x8c then first_of [(iskc160, h ''kc160_ld_rr_ixysd''), (isez80, h ''ez80_ind2'')] nop48
     else if opc = 0x84 then first_of [(iskc160, h ''kc160_ld_ixysd_rr''), (isez80, h ''ez80_ini2'')] nop48
     else if opc = 0x94 then first_of [(iskc160, h ''kc160_ld_ixysd_rr''), (isez80, h ''ez80_ini2r'')] nop48
     else if opc = 0x9a then first_of [(iskc160, h ''kc160_ld_xy_ixysd''), (isez80, h ''ez80_indm'')] nop48
     else if opc = 0x9c then first_of [(iskc160, h ''kc160_ld_rr_ixysd''), (isez80, h ''ez80_ind2'')] nop48
     else if opc = 0x81 then first_of [(iskc160, h ''kc160_ld_ixysd_xy'')] nop8
     else if opc \<in> {0x86, 0x96} then first_of [(israbbit6k, h ''r6k_tstnull_ps''), (iskc160, h ''kc160_ld_ixysd_rr'')] nop8
     else if opc \<in> {0x85, 0x95} then first_of [(iskc160, h ''kc160_ld_ixysd_rr'')] nop8
     else if opc \<in> {0x87, 0x97} then first_of [(israbbit6k, h ''r6k_swap_r''), (iskc160, h ''kc160_ldf_ilmn_rr'')] nop8
     else if opc \<in> {0x89, 0x99} then first_of [(iskc160, h ''kc160_ld_xy_ixysd'')] nop8
     else if opc \<in> {0x8d, 0x8e, 0x9d, 0x9e} then first_of [(iskc160, h ''kc160_ld_rr_ixysd'')] nop8
     else if opc \<in> {0x8f, 0x9f} then first_of [(iskc160, h ''kc160_ldf_rr_ilmn'')] nop8
     else \<comment> \<open>0x8a\<close> first_of [(iskc160, h ''kc160_ld_xy_ixysd''), (isez80, h ''ez80_indm''), (isz80n, z80n_push_mn)] nop8)"

definition ed_block :: "handlers \<Rightarrow> string \<Rightarrow> (cpu \<Rightarrow> int) \<Rightarrow> int \<Rightarrow> (cpu \<Rightarrow> cpu) \<Rightarrow> cpu \<Rightarrow> cpu" where
  "ed_block H f c opc z = first_of [(israbbit4k, Hc H f opc c), (israbbit, RABBIT_UNDEFINED 4)] z"

definition ed_a0_bf :: "handlers \<Rightarrow> int \<Rightarrow> cpu \<Rightarrow> cpu" where
  "ed_a0_bf H opc = (let h = (\<lambda>f. H f [opc]) in
     if opc = 0xa5 then first_of [(iskc160, h ''kc160_ld_ixysd_rr''), (israbbit4k, h ''r4k_push_mn''), (isz80n, z80n_ldws)] nop8
     else if opc = 0xb7 then first_of [(israbbit6k, h ''r6k_swap_r''), (iskc160, h ''kc160_ldf_ilmn_rr''), (isz80n, z80n_ldpirx)] nop8
     else if opc = 0xa4 then first_of [(iskc160, h ''kc160_ld_ixysd_rr''), (isez80, h ''ez80_outi2''), (israbbit4k, Hc H ''r4k_flag_cc_hl'' opc cc_gt), (isz80n, z80n_ldix)] nop8
     else if opc = 0xac then first_of [(iskc160, h ''kc160_ld_rr_ixysd''), (isez80, h ''ez80_outd2''), (israbbit4k, Hc H ''r4k_flag_cc_hl'' opc cc_gtu), (isz80n, z80n_lddx)] nop8
     else if opc = 0xb4 then first_of [(iskc160, h ''kc160_ld_ixysd_rr''), (isez80, h ''ez80_oti2r''), (israbbit4k, Hc H ''r4k_flag_cc_hl'' opc cc_lt), (isz80n, z80n_ldirx)] nop8
     else if opc = 0xbc then first_of [(iskc160, h ''kc160_ld_rr_ixysd''), (isez80, h ''ez80_otd2r''), (israbbit4k, Hc H ''r4k_flag_cc_hl'' opc cc_v), (isz80n, z80n_lddrx)] nop8
     else if opc \<in> {0xa6, 0xb6} then first_of [(israbbit6k, h ''r6k_tstnull_ps''), (iskc160, h ''kc160_ld_ixysd_rr'')] nop8
     else if opc = 0xa7 then first_of [(israbbit6k, h ''r6k_swap_r''), (iskc160, h ''kc160_ldf_ilmn_rr'')] nop8
     else if opc \<in> {0xad, 0xae, 0xbd, 0xbe} then first_of [(iskc160, h ''kc160_ld_rr_ixysd'')] nop8
     else if opc \<in> {0xaf, 0xbf} then first_of [(iskc160, h ''kc160_ldf_rr_ilmn'')] nop8
     else if opc = 0xa0 then LDI
     else if opc = 0xa8 then LDD
     else if opc = 0xb0 then LDIR
     else if opc = 0xb8 then LDDR
     else if opc = 0xa1 then first_of [(israbbit, RABBIT_UNDEFINED 4)] zilog_cpi
     else if opc = 0xa9 then first_of [(israbbit, RABBIT_UNDEFINED 4)] zilog_cpd
     else if opc = 0xb1 then first_of [(israbbit4k, h ''r4k_setsysp_mn''), (israbbit, RABBIT_UNDEFINED 4)] zilog_cpir
     else if opc = 0xb9 then first_of [(israbbit, RABBIT_UNDEFINED 4)] zilog_cpdr
     else if opc = 0xa2 then ed_block H ''r4k_lljp'' cc_gt opc zilog_ini
     else if opc = 0xaa then ed_block H ''r4k_lljp'' cc_gtu opc zilog_ind
     else if opc = 0xb2 then ed_block H ''r4k_lljp'' cc_lt opc zilog_inir
     else if opc = 0xba then ed_block H ''r4k_lljp'' cc_v opc zilog_indr
     else if opc = 0xa3 then ed_block H ''r4k_jre'' cc_gt opc zilog_outi
     else if opc = 0xab then ed_block H ''r4k_jre'' cc_gtu opc zilog_outd
     else if opc = 0xb3 then ed_block H ''r4k_jre'' cc_lt opc zilog_otir
     else if opc = 0xbb then ed_block H ''r4k_jre'' cc_v opc zilog_otdr
     else \<comment> \<open>0xb5\<close> first_of [(iskc160, h ''kc160_ld_ixysd_rr''), (israbbit4k, h ''r4k_setusrp_mn'')] nop8)"

section \<open>0xc0 to 0xff\<close>

text \<open>\<open>CALL (HL)\<close> of the Rabbit 4000.\<close>

definition r4k_call_hl :: "cpu \<Rightarrow> cpu" where
  "r4k_call_hl s =
     (let s = ticks 12 s;
          s = push8 (lo8 (pc s)) (push8 (hi8 (pc s)) s);
          m = u16 (rp rH rL s)
      in s\<lparr>pc := m, mp := m\<rparr>)"

text \<open>Opcode 0xc3 has no \<open>else\<close> after the KC160's \<open>JP3\<close>, which goes on to \<open>st += 8\<close>.\<close>

definition ed_c3 :: "handlers \<Rightarrow> int \<Rightarrow> cpu \<Rightarrow> cpu" where
  "ed_c3 H opc s =
     (let s = (if iskc160 s then H ''kc160_jp3'' [opc, 1] s else s)
      in first_of [(israbbit4k, Hc H ''r4k_jre'' opc cc_nz), (isr800, r800_muluw opc)] nop8 s)"

definition ed_c0_df :: "handlers \<Rightarrow> int \<Rightarrow> cpu \<Rightarrow> cpu" where
  "ed_c0_df H opc = (let h = (\<lambda>f. H f [opc]) in
     if opc = 0xc1 then first_of [(israbbit4k, h ''r4k_pop_pd''), (isr800, r800_mulub opc)] nop8
     else if opc = 0xc9 then first_of [(isr800, r800_mulub opc)] nop8
     else if opc = 0xd1 then first_of [(israbbit4k, h ''r4k_pop_pd''), (isr800, r800_mulub opc)] nop8
     else if opc = 0xd9 then first_of [(israbbit4k, h ''r4k_exp''), (isr800, r800_mulub opc)] nop8
     else if opc = 0xc3 then ed_c3 H opc
     else if opc = 0xd3 then first_of [(israbbit4k, Hc H ''r4k_jre'' opc cc_nc), (isr800, r800_muluw opc)] nop8
     else if opc = 0xc4 then first_of [(iskc160, h ''kc160_ld_pp_pp''), (israbbit4k, Hc H ''r4k_flag_cc_hl'' opc cc_nz)] nop8
     else if opc = 0xcc then first_of [(iskc160, h ''kc160_ld_pp_pp''), (israbbit4k, Hc H ''r4k_flag_cc_hl'' opc cc_z)] nop8
     else if opc = 0xd4 then first_of [(iskc160, h ''kc160_ld_pp_pp''), (israbbit4k, Hc H ''r4k_flag_cc_hl'' opc cc_nc)] nop8
     else if opc = 0xdc then first_of [(iskc160, h ''kc160_ld_pp_pp''), (israbbit4k, Hc H ''r4k_flag_cc_hl'' opc cc_c)] nop8
     else if opc \<in> {0xc5, 0xd5} then first_of [(iskc160, h ''kc160_ld_pp_pp''), (israbbit4k, h ''r4k_push_ps'')] nop48
     else if opc = 0xcb then first_of [(israbbit4k, Hc H ''r4k_jre'' opc cc_z)] nop48
     else if opc = 0xdb then first_of [(israbbit4k, Hc H ''r4k_jre'' opc cc_c)] nop48
     else if opc = 0xc0 then first_of [(r3k_or_r4k, h ''r3k_uma'')] nop48
     else if opc = 0xc8 then first_of [(r3k_or_r4k, h ''r3k_ums'')] nop48
     else if opc = 0xd0 then first_of [(r3k_or_r4k, h ''r3k_lsidr'')] nop48
     else if opc = 0xd8 then first_of [(r3k_or_r4k, h ''r3k_lsddr'')] nop48
     else if opc \<in> {0xc6, 0xd6} then first_of [(israbbit4k, h ''r4k_alu_jkhl_bcde'')] nop48
     else if opc \<in> {0xce, 0xde} then first_of [(israbbit6k, h ''r4k_alu_jkhl_bcde'')] nop48
     else if opc = 0xc2 then first_of [(iskc160, Hc H ''kc160_jp3'' opc cc_nz), (israbbit4k, Hc H ''r4k_lljp'' opc cc_nz)] nop48
     else if opc = 0xca then first_of [(iskc160, Hc H ''kc160_jp3'' opc cc_z), (israbbit4k, Hc H ''r4k_lljp'' opc cc_z)] nop48
     else if opc = 0xd2 then first_of [(iskc160, Hc H ''kc160_jp3'' opc cc_nc), (israbbit4k, Hc H ''r4k_lljp'' opc cc_nc)] nop48
     else if opc = 0xda then first_of [(iskc160, Hc H ''kc160_jp3'' opc cc_c), (israbbit4k, Hc H ''r4k_lljp'' opc cc_c)] nop48
     else if opc \<in> {0xc7, 0xd7} then first_of [(israbbit6k, h ''r6k_swap_r''),
         (isez80, h (if opc = 0xc7 then ''ez80_ld_i_hl'' else ''ez80_ld_hl_i''))] nop48
     else if opc \<in> {0xcd, 0xdd} then nop8
     else \<comment> \<open>0xcf, 0xdf\<close> first_of [(israbbit6k, h ''r6k_swap_rp2'')] nop8)"

definition ed_e0_ff :: "handlers \<Rightarrow> int \<Rightarrow> cpu \<Rightarrow> cpu" where
  "ed_e0_ff H opc = (let h = (\<lambda>f. H f [opc]) in
     if opc = 0xe1 then first_of [(iskc160, h ''kc160_cpi_x''), (israbbit4k, h ''r4k_pop_pd''), (isr800, r800_mulub opc)] nop8
     else if opc = 0xe9 then first_of [(iskc160, h ''kc160_cpd_x''), (isr800, r800_mulub opc)] nop8
     else if opc = 0xf9 then first_of [(iskc160, h ''kc160_cpdr_x''), (isr800, r800_mulub opc)] nop8
     else if opc = 0xe3 then first_of [(iskc160, h ''kc160_outi_x''), (isr800, r800_muluw opc)] nop8
     else if opc = 0xf3 then first_of [(iskc160, h ''kc160_otir_x''), (isr800, r800_muluw opc)] nop8
     else if opc \<in> {0xe5, 0xf5} then first_of [(iskc160, h ''kc160_ld_pp_pp''), (israbbit4k, h ''r4k_push_ps'')] nop48
     else if opc = 0xf1 then first_of [(iskc160, h ''kc160_cpir_x''), (israbbit4k, h ''r4k_pop_pd'')] nop48
     else if opc = 0xf0 then first_of [(iskc160, h ''kc160_ldir_xy''), (r3k_or_r4k, h ''r3k_lsir'')] nop48
     else if opc = 0xf8 then first_of [(iskc160, h ''kc160_lddr_xy''), (r3k_or_r4k, h ''r3k_lsdr'')] nop48
     else if opc \<in> {0xe6, 0xee, 0xf6} then first_of [(israbbit4k, h ''r4k_alu_jkhl_bcde'')] nop48
     else if opc = 0xfa then first_of [(iskc160, h ''kc160_indr_x''), (israbbit4k, h ''r4k_llcall_jkhl'')] nop48
     else if opc = 0xe0 then first_of [(iskc160, h ''kc160_ldi_xy'')] nop8
     else if opc = 0xe2 then first_of [(iskc160, h ''kc160_ini_x'')] nop8
     else if opc = 0xe8 then first_of [(iskc160, h ''kc160_ldd_xy'')] nop8
     else if opc = 0xeb then first_of [(iskc160, h ''kc160_outd_x'')] nop8
     else if opc = 0xf2 then first_of [(iskc160, h ''kc160_inir_x'')] nop8
     else if opc = 0xfb then first_of [(iskc160, h ''kc160_otdr_x'')] nop8
     else if opc \<in> {0xe4, 0xf4, 0xec, 0xfc} then first_of [(iskc160, h ''kc160_ld_pp_pp'')] nop8
     else if opc = 0xed then nop8
     else if opc \<in> {0xe7, 0xf7} then first_of [(israbbit6k, h ''r6k_swap_r'')] nop8
     else if opc = 0xea then first_of [(iskc160, h ''kc160_ind_x''), (israbbit4k, r4k_call_hl)] nop8
     else if opc \<in> {0xef, 0xff} then first_of [(israbbit6k, h ''r6k_swap_rp2'')] nop8
     else if opc = 0xfd then H ''PatchZ80'' []
     else \<comment> \<open>0xfe\<close> first_of [(israbbit4k, h ''r4k_ld_hl_isphl'')] (H ''PatchZ80'' []))"

section \<open>The page\<close>

definition ed_page :: "handlers \<Rightarrow> int \<Rightarrow> cpu \<Rightarrow> cpu" where
  "ed_page H opc =
     (if opc < 0x20 then ed_00_1f H opc
      else if opc < 0x40 then ed_20_3f H opc
      else if opc < 0x80 then (if opc mod 8 < 4 then ed_io16 H opc else ed_misc H opc)
      else if opc < 0xa0 then ed_80_9f H opc
      else if opc < 0xc0 then ed_a0_bf H opc
      else if opc < 0xe0 then ed_c0_df H opc
      else ed_e0_ff H opc)"

definition handle_ed_page :: "handlers \<Rightarrow> cpu \<Rightarrow> cpu" where
  "handle_ed_page H s =
     (let s = set_reg rR (regs s rR + 1) s;
          (opc, s) = fetch s
      in ed_page H (uint opc) s)"

end
