(* ===== verification/Ticks_Main4.thy ===== *)
theory Ticks_Main4
  imports Ticks_Ed Ticks_Cb Ticks_Devices
begin

text \<open>
  Opcodes 0xc0 to 0xff of the main page: returns, jumps, calls, the stack, immediate operands,
  exchanges, ports, interrupts and the four prefixes.
\<close>

section \<open>Conditions\<close>

text \<open>\<open>fa&256?38505>>((fr^fr>>4)&15)&1:(fr^fa)&(fr^fb)&128\<close>: parity odd, or no overflow.\<close>

definition pv_cond :: "flg \<Rightarrow> bool" where
  "pv_cond g =
     (if uint (fa g) AND 256 \<noteq> 0
      then shr 38505 (nat ((uint (fr g) XOR shr (uint (fr g)) 4) AND 15)) AND 1 \<noteq> 0
      else (uint (fr g) XOR uint (fa g)) AND (uint (fr g) XOR uint (fb g)) AND 128 \<noteq> 0)"

definition nz :: "flg \<Rightarrow> bool" where "nz g \<longleftrightarrow> fr g \<noteq> 0"
definition cy :: "flg \<Rightarrow> bool" where "cy g \<longleftrightarrow> uint (ff g) AND 256 \<noteq> 0"
definition neg :: "flg \<Rightarrow> bool" where "neg g \<longleftrightarrow> uint (ff g) AND 128 \<noteq> 0"

section \<open>RET\<close>

definition gbz80_ldh_n_a :: "cpu \<Rightarrow> cpu" where
  "gbz80_ldh_n_a s =
     (let (x, s) = fetch s;
          t = u16 (uint x);
          s = put_mem (0xff00 + t) (regs s rA) (s\<lparr>tt := t\<rparr>)
      in ticks 12 s)"

definition gbz80_ldh_a_n :: "cpu \<Rightarrow> cpu" where
  "gbz80_ldh_a_n s =
     (let (x, s) = fetch s;
          t = u16 (uint x);
          s = s\<lparr>tt := t\<rparr>;
          s = set_reg rA (get_memory_data (0xff00 + uint t) s) s
      in ticks 12 s)"

text \<open>The parity conditions are not taken from the alternate flags under \<open>altd\<close>.\<close>

definition op_ret :: "int \<Rightarrow> cpu \<Rightarrow> cpu" where
  "op_ret opc s = fin (
     if opc = 0xc9 then
       RET (if isez80 s then 5 else if israbbit s then 8 else if isz180 s then 9 else if isgbz80 s then 8
         else if isr800 s then 3 else if iskc160 s then 4 else 10) s
     else if opc = 0xc0 then RETCI (nz (grp s)) s
     else if opc = 0xc8 then RETC (nz (grp s)) s
     else if opc = 0xd0 then RETC (cy (grp s)) s
     else if opc = 0xd8 then RETCI (cy (grp s)) s
     else if opc = 0xe0 then (if isgbz80 s then gbz80_ldh_n_a s else RETC (pv_cond (fl s)) s)
     else if opc = 0xe8 then (if isgbz80 s then gbz80_add_sp_d s else RETCI (pv_cond (fl s)) s)
     else if opc = 0xf0 then (if isgbz80 s then gbz80_ldh_a_n s else RETC (neg (grp s)) s)
     else \<comment> \<open>0xf8\<close> (if isgbz80 s then gbz80_ld_hl_spd s else RETCI (neg (grp s)) s))"

section \<open>POP, PUSH\<close>

definition pop_af :: "cpu \<Rightarrow> cpu" where
  "pop_af s =
     (let (flags, s) = pop8 s;
          s = ticks (if isez80 s then 3 else if isgbz80 s then 12 else if israbbit s then 7
            else if isz180 s then 9 else if isr800 s then 3 else if iskc160 s then 2 else 10) s;
          s = setf (uint flags) s;
          (x, s) = pop8 s
      in set_reg rA x s)"

definition op_pop :: "handlers \<Rightarrow> int \<Rightarrow> cpu \<Rightarrow> cpu" where
  "op_pop H opc s = fin (
     if opc = 0xc1 then POP rB rC rB' rC' s
     else if opc = 0xd1 then POP rD rE rD' rE' s
     else if opc = 0xe1 then
       xy (POP rH rL rH' rL') (\<lambda>s. kc_extra (POP rYH rYL rYH rYL s)) (\<lambda>s. kc_extra (POP rXH rXL rXH rXL s)) s
     else \<comment> \<open>0xf1\<close>
       (if israbbit4k s \<and> \<not> ih s then H ''r4k_pop_r32'' [opc, of_flag (iy s)] s else pop_af s))"

definition PUSH_r :: "reg \<Rightarrow> reg \<Rightarrow> reg \<Rightarrow> reg \<Rightarrow> cpu \<Rightarrow> cpu" where
  "PUSH_r a b a' b' s = PUSH (regs s a) (regs s b) (regs s a') (regs s b') s"

definition op_push :: "handlers \<Rightarrow> int \<Rightarrow> cpu \<Rightarrow> cpu" where
  "op_push H opc s = fin (
     if opc = 0xc5 then
       (if israbbit6k s \<and> \<not> ih s then H ''r6k_add_xy_d'' [opc, of_flag (iy s)] s else PUSH_r rB rC rB' rC' s)
     else if opc = 0xd5 then PUSH_r rD rE rD' rE' s
     else if opc = 0xe5 then xy (PUSH_r rH rL rH' rL') (PUSH_r rYH rYL rYH rYL) (PUSH_r rXH rXL rXH rXL) s
     else \<comment> \<open>0xf5\<close>
       (if israbbit4k s \<and> \<not> ih s then H ''r4k_push_r32'' [opc, of_flag (iy s)] s
        else PUSH (regs s rA) (u8 (f_flags s)) (regs s rA') (u8 (f_alt s)) s))"

section \<open>JP\<close>

definition jp_nn :: "cpu \<Rightarrow> cpu" where
  "jp_nn s =
     (let s = no_io (ticks (if isez80 s then 4 else if israbbit s then 7 else if isz180 s then 9
            else if isgbz80 s then 12 else if isr800 s then 3 else if iskc160 s then 3 else 10) s);
          m = inst16 s
      in s\<lparr>pc := m, mp := m\<rparr>)"

text \<open>\<open>JP (HL)\<close>.\<close>

definition jp_hl :: "cpu \<Rightarrow> cpu" where
  "jp_hl s =
     (let s = ticks (if isez80 s then 3 else if isz180 s then 3 else if is8085 s then 6
            else if is8080 s \<or> isvm1 s then 5 else if isr800 s then 1 else if iskc160 s then 2 else 4) s
      in s\<lparr>pc := u16 (if ih s then rp rH rL s else if iy s then rp rYH rYL s else rp rXH rXL s)\<rparr>)"

definition op_jp :: "handlers \<Rightarrow> int \<Rightarrow> cpu \<Rightarrow> cpu" where
  "op_jp H opc s = fin (
     if opc = 0xc3 then jp_nn s
     else if opc = 0xc2 then JPCI (nz (fl s)) s
     else if opc = 0xca then JPC (nz (fl s)) s
     else if opc = 0xd2 then JPC (cy (fl s)) s
     else if opc = 0xda then JPCI (cy (fl s)) s
     else if opc = 0xe2 then
       (if isgbz80 s then ticks 8 (put_mem (0xff00 + u16 (uint (regs s rC))) (regs s rA) s)
        else JPC (pv_cond (fl s)) s)
     else if opc = 0xea then
       (if israbbit4k s \<and> \<not> ih s then H ''r4k_callxy'' [opc, of_flag (iy s)] s
        else if isgbz80 s then gbz80_ld_inm_a s
        else JPCI (pv_cond (fl s)) s)
     else if opc = 0xf2 then
       (if isgbz80 s then ticks 8 (set_reg rA (get_memory_data (0xff00 + uint (regs s rC)) s) s)
        else JPC (neg (fl s)) s)
     else if opc = 0xfa then (if isgbz80 s then gbz80_ld_a_inm s else JPCI (neg (fl s)) s)
     else \<comment> \<open>0xe9\<close> jp_hl s)"

section \<open>CALL\<close>

definition op_call_nn :: "cpu \<Rightarrow> cpu" where
  "op_call_nn s = call_nn (no_io (ticks (if isez80 s then 5 else if israbbit s then 12
     else if isz180 s then 16 else if is8085 s then 18 else if isgbz80 s then 12
     else if isr800 s then 5 else if iskc160 s then 5 else 17) s))"

text \<open>On a Rabbit the conditional calls are other instructions; three have no effect on the SM83.\<close>

definition op_call :: "handlers \<Rightarrow> int \<Rightarrow> cpu \<Rightarrow> cpu" where
  "op_call H opc s = (let p = [opc, of_flag (ih s), of_flag (iy s)] in fin (
     if opc = 0xcd then
       (if israbbit4k s \<and> \<not> ih s then H ''r4k_ld_r32_ps'' [opc, of_flag (iy s)] s else op_call_nn s)
     else if opc = 0xc4 then (if israbbit s then H ''rxk_ld_hl_ispn'' p s else CALLCI (nz (fl s)) s)
     else if opc = 0xcc then (if israbbit s then H ''rxk_bool'' p s else CALLC (nz (fl s)) s)
     else if opc = 0xd4 then (if israbbit s then H ''rxk_ld_ispn_hl'' p s else CALLC (cy (fl s)) s)
     else if opc = 0xdc then (if israbbit s then H ''rxk_and_hlxy_de'' p s else CALLCI (cy (fl s)) s)
     else if opc = 0xe4 then
       (if israbbit s then H ''rxk_ld_hl_ihlxyd'' [opc, PREFIX s] s
        else if isgbz80 s then s else CALLC (pv_cond (fl s)) s)
     else if opc = 0xec then
       (if israbbit s then H ''rxk_or_hlxy_de'' p s else if isgbz80 s then s else CALLCI (pv_cond (fl s)) s)
     else if opc = 0xf4 then
       (if israbbit s then H ''rxk_ld_ihlxyd_hl'' [opc, PREFIX s] s
        else if isgbz80 s then s else CALLC (neg (fl s)) s)
     else \<comment> \<open>0xfc\<close>
       (if israbbit s then
          timed 2 (xy (\<lambda>s. RR (LReg rL) (LReg rL') (RR (LReg rH) (LReg rH') s))
            (\<lambda>s. RR (LReg rYL) (LReg rYL) (RR (LReg rYH) (LReg rYH) s))
            (\<lambda>s. RR (LReg rXL) (LReg rXL) (RR (LReg rXH) (LReg rXH) s))) s
        else if isgbz80 s then s else CALLCI (neg (fl s)) s)))"

section \<open>ALU A,n and RST\<close>

definition ALU_n :: "(8 word \<Rightarrow> int \<Rightarrow> cpu \<Rightarrow> cpu) \<Rightarrow> cpu \<Rightarrow> cpu" where
  "ALU_n f s = (let (n, s) = fetch s in f n (ALUn_TICKS s) s)"

text \<open>The Rabbit 4000's 32-bit loads take the opcode's place under a prefix.\<close>

definition r4k_under :: "(cpu \<Rightarrow> cpu) \<Rightarrow> (cpu \<Rightarrow> cpu) \<Rightarrow> cpu \<Rightarrow> cpu" where
  "r4k_under r4 z s = (if israbbit4k s \<and> \<not> ih s then r4 s else z s)"

definition op_alu_n :: "handlers \<Rightarrow> int \<Rightarrow> cpu \<Rightarrow> cpu" where
  "op_alu_n H opc s = (let y = of_flag (iy s) in fin (
     if opc = 0xc6 then ALU_n ADD s
     else if opc = 0xce then
       r4k_under (H ''r4k_ld_r32_ixyd'' [opc, uint (regs s rXL), uint (regs s rXH), y]) (ALU_n ADC) s
     else if opc = 0xd6 then ALU_n SUB s
     else if opc = 0xde then
       r4k_under (H ''r4k_ld_r32_ixyd'' [opc, uint (regs s rYL), uint (regs s rYH), y]) (ALU_n SBC) s
     else if opc = 0xe6 then ALU_n AND_op s
     else if opc = 0xee then r4k_under (H ''r4k_ld_r32_ispn'' [opc, y]) (ALU_n XOR_op) s
     else if opc = 0xf6 then ALU_n OR_op s
     else \<comment> \<open>0xfe\<close> r4k_under (H ''r4k_ld_r32_isphl'' [opc, y]) (ALU_n CP_w) s))"

definition op_rst :: "handlers \<Rightarrow> int \<Rightarrow> cpu \<Rightarrow> cpu" where
  "op_rst H opc s = (let y = of_flag (iy s) in fin (
     if opc = 0xc7 then (if israbbit s then H ''rxk_ljp'' [opc] s else RST 0 s)
     else if opc = 0xcf then
       (if israbbit s \<and> ih s then H ''rxk_lcall'' [opc] s
        else r4k_under (H ''r4k_ld_ixyd_r32'' [opc, uint (regs s rXL), uint (regs s rXH), y]) (RST 8) s)
     else if opc = 0xd7 then RST 0x10 s
     else if opc = 0xdf then
       r4k_under (H ''r4k_ld_ixyd_r32'' [opc, uint (regs s rXL), uint (regs s rXH), y]) (RST 0x18) s
     else if opc = 0xe7 then RST 0x20 s
     else if opc = 0xef then r4k_under (H ''r4k_ld_ispn_r32'' [opc, y]) (RST 0x28) s
     else if opc = 0xf7 then (if israbbit s then H ''rxk_mul'' [opc] s else RST 0x30 s)
     else \<comment> \<open>0xff\<close> r4k_under (H ''r4k_ld_isphl_r32'' [opc, y]) (RST 0x38) s))"

section \<open>Ports and interrupts\<close>

text \<open>\<open>mp = mp&65280 | ++mp\<close> modifies and reads \<open>mp\<close> without a sequence point; the operands are taken
  from left to right. The SM83 has neither instruction, and no branch resets the prefixes there.\<close>

definition op_out_n :: "cpu \<Rightarrow> cpu" where \<comment> \<open>0xd3\<close>
  "op_out_n s =
     (if isgbz80 s then s
      else if israbbit s then ticks 2 (s\<lparr>ioi := True\<rparr>)
      else
        (let s = ticks (if is808x s then 10 else if isr800 s then 3 else if iskc160 s then 5 else 11) s;
             (n, s) = fetch s;
             s = s\<lparr>mp := u16 (uint n OR shl (uint (regs s rA)) 8)\<rparr>;
             s = out_port (uint (mp s)) (uint (regs s rA)) s;
             m = uint (mp s) AND 65280
         in fin (s\<lparr>mp := u16 (m OR uint (mp s + 1))\<rparr>)))"

definition op_in_n :: "cpu \<Rightarrow> cpu" where \<comment> \<open>0xdb\<close>
  "op_in_n s =
     (if isgbz80 s then s
      else if israbbit s then ticks 2 (s\<lparr>ioe := True\<rparr>)
      else
        (let s = ticks (if is808x s then 10 else if isr800 s then 3 else if iskc160 s then 4 else 11) s;
             (n, s) = fetch s;
             s = s\<lparr>mp := u16 (uint n OR shl (uint (regs s rA)) 8)\<rparr>;
             (v, s) = in_port (uint (mp s)) s;
             s = set_reg rA (u8 v) s
         in fin (s\<lparr>mp := mp s + 1\<rparr>)))"

definition EI_TICKS :: "cpu \<Rightarrow> int" where
  "EI_TICKS s = (if isez80 s then 1 else if isz180 s then 3 else if isr800 s then 2 else if iskc160 s then 1 else 4)"

definition op_di :: "cpu \<Rightarrow> cpu" where \<comment> \<open>0xf3\<close>
  "op_di s = fin (
     if israbbit s then timed 2 (\<lambda>s. RL (LReg rD) (LReg rD') (RL (LReg rE) (LReg rE') s)) s
     else (ticks (EI_TICKS s) s)\<lparr>iff := False\<rparr>)"

definition op_ei :: "cpu \<Rightarrow> cpu" where \<comment> \<open>0xfb\<close>
  "op_ei s = fin (
     if israbbit s then timed 2 (\<lambda>s. RR (LReg rE) (LReg rE') (RR (LReg rD) (LReg rD') s)) s
     else (ticks (EI_TICKS s) s)\<lparr>iff := True\<rparr>)"

section \<open>Exchanges, LD SP,HL\<close>

text \<open>\<open>t = x; x = y; y = t\<close>\<close>

definition exchange :: "reg \<Rightarrow> reg \<Rightarrow> cpu \<Rightarrow> cpu" where
  "exchange x y s =
     (let t = regs s x; s = s\<lparr>tt := u16 (uint t)\<rparr>; s = set_reg x (regs s y) s in set_reg y t s)"

definition EX_TICKS :: "cpu \<Rightarrow> int" where
  "EX_TICKS s = (if isez80 s then 1 else if israbbit s then 2 else if isz180 s then 3
     else if isr800 s then 1 else if iskc160 s then 1 else 4)"

definition op_ex_de_hl :: "cpu \<Rightarrow> cpu" where \<comment> \<open>0xeb\<close>
  "op_ex_de_hl s =
     (let s = ticks (EX_TICKS s) s
      in fin (if altd s then exchange rE rL' (exchange rD rH' s) else exchange rE rL (exchange rD rH s)))"

definition op_exx :: "cpu \<Rightarrow> cpu" where \<comment> \<open>0xd9\<close>
  "op_exx s = fin (
     if is8085 s then i8085_ld_ide_hl s
     else if isvm1 s then vm1_shlx s
     else if is8080 s then s
     else if isgbz80 s then RET 8 s
     else
       (let s = ticks (EX_TICKS s) s;
            s = exchange rB rB' s; s = exchange rC rC' s; s = exchange rD rD' s;
            s = exchange rE rE' s; s = exchange rH rH' s
        in exchange rL rL' s))"

definition op_ex_sp_hl :: "cpu \<Rightarrow> cpu" where \<comment> \<open>0xe3\<close>
  "op_ex_sp_hl s = fin (
     if isgbz80 s then s
     else if israbbit s \<and> ih s then
       ticks 2 (if altd s then exchange rL' rE' (exchange rH' rD' s) else exchange rL rE' (exchange rH rD' s))
     else xy (EXSPI rH rL) (EXSPI rYH rYL) (EXSPI rXH rXL) s)"

definition op_ld_sp_hl :: "cpu \<Rightarrow> cpu" where \<comment> \<open>0xf9\<close>
  "op_ld_sp_hl s =
     (let s = ticks (if isez80 s then 1 else if israbbit s then 2 else if isz180 s then 4 else if is8085 s then 6
            else if is8080 s \<or> isvm1 s then 5 else if isgbz80 s then 8 else if isr800 s then 1
            else if iskc160 s then 1 else 6) s
      in fin (s\<lparr>sp := u16 (if ih s then uint (src_r rL rL' s) OR shl (uint (src_r rH rH' s)) 8
            else if iy s then rp rYH rYL s else rp rXH rXL s)\<rparr>))"

section \<open>Prefixes\<close>

text \<open>DD and FD leave \<open>ih\<close> cleared for the next opcode and keep the other prefixes. Where the
  opcode is illegal nothing happens, not even time passes.\<close>

definition op_dd :: "handlers \<Rightarrow> int \<Rightarrow> cpu \<Rightarrow> cpu" where
  "op_dd H opc s =
     (if is8085 s then JPC (fk s \<noteq> 0) s
      else if isvm1 s then vm1_dcmp (regs s rD) (regs s rE) s
      else if is8080 s then s
      else if isgbz80 s then s
      else if israbbit4k s \<and> \<not> ih s then H ''r4k_ld_r32_ps'' [opc, of_flag (iy s)] s
      else (ticks (EX_TICKS s) s)\<lparr>ih := False, iy := False\<rparr>)"

definition op_fd :: "handlers \<Rightarrow> int \<Rightarrow> cpu \<Rightarrow> cpu" where
  "op_fd H opc s =
     (if is8085 s then JPCI (fk s \<noteq> 0) s
      else if isvm1 s then vm1_jof s
      else if is808x s then s
      else if isgbz80 s then s
      else if israbbit4k s \<and> \<not> ih s then H ''r4k_ld_r32_ps'' [opc, of_flag (iy s)] s
      else (ticks (EX_TICKS s) s)\<lparr>ih := False, iy := True\<rparr>)"

definition op_cb :: "cpu \<Rightarrow> cpu" where
  "op_cb s = fin (
     if is8085 s then i8085_rstv s
     else if isvm1 s then vm1_dcmp (regs s rB) (regs s rC) s
     else if is808x s then s
     else handle_cb_page s)"

definition op_ed :: "handlers \<Rightarrow> int \<Rightarrow> cpu \<Rightarrow> cpu" where
  "op_ed H opc s = (let next = get_memory_inst (uint (pc s)) s in fin (
     if is8085 s then (if next \<noteq> 0xfe then i8085_ld_hl_ide s else handle_ed_page H s)
     else if isvm1 s then (if next \<noteq> 0xfe then vm1_lhlx s else handle_ed_page H s)
     else if is8080 s then (if next = 0xfe then handle_ed_page H s else s)
     else if isgbz80 s then (if next = 0xfe then handle_ed_page H s else s)
     else if israbbit4k s \<and> \<not> ih s then H ''r4k_ld_r32_ps'' [opc, of_flag (iy s)] s
     else handle_ed_page H s))"

section \<open>Opcodes 0xc0 to 0xff\<close>

definition exec_c0_ff :: "handlers \<Rightarrow> int \<Rightarrow> cpu \<Rightarrow> cpu" where
  "exec_c0_ff H opc s =
     (if opc \<in> {0xc0, 0xc8, 0xc9, 0xd0, 0xd8, 0xe0, 0xe8, 0xf0, 0xf8} then op_ret opc s
      else if opc \<in> {0xc1, 0xd1, 0xe1, 0xf1} then op_pop H opc s
      else if opc \<in> {0xc5, 0xd5, 0xe5, 0xf5} then op_push H opc s
      else if opc \<in> {0xc2, 0xc3, 0xca, 0xd2, 0xda, 0xe2, 0xe9, 0xea, 0xf2, 0xfa} then op_jp H opc s
      else if opc \<in> {0xc4, 0xcc, 0xcd, 0xd4, 0xdc, 0xe4, 0xec, 0xf4, 0xfc} then op_call H opc s
      else if opc \<in> {0xc6, 0xce, 0xd6, 0xde, 0xe6, 0xee, 0xf6, 0xfe} then op_alu_n H opc s
      else if opc \<in> {0xc7, 0xcf, 0xd7, 0xdf, 0xe7, 0xef, 0xf7, 0xff} then op_rst H opc s
      else if opc = 0xd3 then op_out_n s
      else if opc = 0xdb then op_in_n s
      else if opc = 0xf3 then op_di s
      else if opc = 0xfb then op_ei s
      else if opc = 0xeb then op_ex_de_hl s
      else if opc = 0xd9 then op_exx s
      else if opc = 0xe3 then op_ex_sp_hl s
      else if opc = 0xf9 then op_ld_sp_hl s
      else if opc = 0xdd then op_dd H opc s
      else if opc = 0xfd then op_fd H opc s
      else if opc = 0xcb then op_cb s
      else op_ed H opc s)"

end
