(* ===== verification/Ticks_Run.thy ===== *)
theory Ticks_Run
  imports Ticks_Main4
begin

text \<open>
  The loop of \<open>cpu_run\<close> in \<open>src/src/ticks/ticks.c\<close>: the start address that resets the clock, interrupt
  acceptance between instructions, fetch, dispatch over the four quarters of the opcode space and the
  KR580VM1 prefix countdown. The debugger is not part of the model: a run without breakpoints.
\<close>

section \<open>Dispatch\<close>

definition exec_main :: "handlers \<Rightarrow> int \<Rightarrow> cpu \<Rightarrow> cpu" where
  "exec_main H opc s =
     (if opc < 0x40 then exec_00_3f H opc s
      else if opc < 0x80 then exec_40_7f H opc s
      else if opc < 0xc0 then exec_80_bf H opc s
      else exec_c0_ff H opc s)"

section \<open>Interrupts\<close>

text \<open>The variables of \<open>cpu_run\<close> beside the machine: the tick count of the next interrupt and the
  address the run stops at.\<close>

record sim =
  cpu :: cpu
  stint :: int
  end_pc :: int

text \<open>Modes 0 and 1 both continue at 56, the first one tick earlier.\<close>

definition take_interrupt :: "cpu \<Rightarrow> cpu" where
  "take_interrupt s =
     (let s = (if halted s then s\<lparr>pc := pc s + 1, halted := False\<rparr> else s);
          s = s\<lparr>iff := False\<rparr>;
          s = push8 (lo8 (pc s)) (push8 (hi8 (pc s)) s);
          s = set_reg rR (regs s rR + 1) s
      in if im s = 1 then (ticks 13 s)\<lparr>pc := 56\<rparr>
         else if im s = 0 then (ticks 12 s)\<lparr>pc := 56\<rparr>
         else
           (let t = u16 (255 OR shl (uint (regs s rI)) 8);
                lo = get_memory_data (uint t) s;
                hi = get_memory_data (uint (t + 1)) s
            in (ticks 19 s)\<lparr>tt := t + 1, pc := pair16 hi lo\<rparr>))"

definition interrupt_due :: "int \<Rightarrow> sim \<Rightarrow> bool" where
  "interrupt_due intr r \<longleftrightarrow>
     (let s = cpu r in intr \<noteq> 0 \<and> st s > stint r \<and> ih s \<and> \<not> alts s \<and> \<not> altd s \<and> \<not> ioi s \<and> \<not> ioe s
        \<and> \<not> vm1_prefix_pending s)"

definition poll_interrupt :: "int \<Rightarrow> sim \<Rightarrow> sim" where
  "poll_interrupt intr r =
     (if interrupt_due intr r then
        r\<lparr>stint := st (cpu r) + intr, cpu := (if iff (cpu r) then take_interrupt (cpu r) else cpu r)\<rparr>
      else r)"

section \<open>One iteration\<close>

definition at_start :: "int \<Rightarrow> int \<Rightarrow> sim \<Rightarrow> sim" where
  "at_start intr start r =
     (if uint (pc (cpu r)) = start then r\<lparr>cpu := (cpu r)\<lparr>st := 0\<rparr>, stint := intr\<rparr> else r)"

text \<open>\<open>r++; switch ((opc = get_memory_inst(pc++))) ...; if (isvm1()) vm1_prefix_step();\<close>\<close>

definition fetch_opcode :: "cpu \<Rightarrow> int \<times> cpu" where
  "fetch_opcode s =
     (let s = set_reg rR (regs s rR + 1) s; (opc, s) = fetch s in (uint opc, s))"

definition instruction :: "handlers \<Rightarrow> cpu \<Rightarrow> cpu" where
  "instruction H s =
     (let (opc, s) = fetch_opcode s;
          s = exec_main H opc s
      in if isvm1 s then vm1_prefix_step s else s)"

text \<open>STOP of the SM83 (opcode 0x10) moves the stop address to the next instruction.\<close>

definition is_stop :: "cpu \<Rightarrow> bool" where
  "is_stop s \<longleftrightarrow> fst (fetch_opcode s) = 0x10 \<and> isgbz80 s \<and> \<not> is8080 s \<and> \<not> isvm1 s \<and> \<not> is8085 s"

definition cpu_step :: "handlers \<Rightarrow> int \<Rightarrow> int \<Rightarrow> sim \<Rightarrow> sim" where
  "cpu_step H intr start r =
     (let r = poll_interrupt intr (at_start intr start r);
          s = instruction H (cpu r)
      in r\<lparr>cpu := s, end_pc := (if is_stop (cpu r) then uint (pc s) else end_pc r)\<rparr>)"

text \<open>\<open>while (pc != end && st < counter)\<close>, unless the process has ended in the instruction.\<close>

definition continues :: "int \<Rightarrow> sim \<Rightarrow> bool" where
  "continues counter r \<longleftrightarrow>
     uint (pc (cpu r)) \<noteq> end_pc r \<and> st (cpu r) < counter \<and> stopped (host (cpu r)) = None"

section \<open>The loop\<close>

text \<open>\<open>do ... while (pc != end && st < counter)\<close>; \<open>None\<close> is a run that does not stop.\<close>

partial_function (option) cpu_run :: "handlers \<Rightarrow> int \<Rightarrow> int \<Rightarrow> int \<Rightarrow> sim \<Rightarrow> sim option" where
  "cpu_run H counter intr start r =
     (let r = cpu_step H intr start r
      in if continues counter r then cpu_run H counter intr start r else Some r)"

text \<open>The states a run passes through at the top of the loop.\<close>

inductive reached :: "handlers \<Rightarrow> int \<Rightarrow> int \<Rightarrow> sim \<Rightarrow> sim \<Rightarrow> bool" for H intr start r0 where
  initial: "reached H intr start r0 r0"
| step: "reached H intr start r0 r \<Longrightarrow> reached H intr start r0 (cpu_step H intr start r)"

end
