(* ===== verification/Ticks_Time.thy ===== *)
theory Ticks_Time
  imports Ticks_Run
begin

text \<open>
  What every operation does to the clock and to the CPU selection when the CPU is a Z80: one rewrite
  rule for each macro, page and device access. \<open>c_cpu\<close> is only assigned when the emulator starts; the
  clock moves by the T-states of the operation.
\<close>

section \<open>Helpers\<close>

named_theorems time_simps \<open>the clock and the CPU selection after an operation\<close>

lemma time_basic [time_simps]:
  "st (set_reg r v s) = st s" "c_cpu (set_reg r v s) = c_cpu s"
  "st (set_grp g s) = st s" "c_cpu (set_grp g s) = c_cpu s"
  "st (put_alu p s) = st s" "c_cpu (put_alu p s) = c_cpu s"
  "st (VM1_OF_ARITH s) = st s" "c_cpu (VM1_OF_ARITH s) = c_cpu s"
  "st (VM1_OF_LOGIC s) = st s" "c_cpu (VM1_OF_LOGIC s) = c_cpu s"
  "st (VM1_OF_ONLY s) = st s" "c_cpu (VM1_OF_ONLY s) = c_cpu s"
  "st (ticks n s) = st s + n" "c_cpu (ticks n s) = c_cpu s"
  "st (snd (fetch s)) = st s" "c_cpu (snd (fetch s)) = c_cpu s"
  "st (snd (pop8 s)) = st s" "c_cpu (snd (pop8 s)) = c_cpu s"
  "st (push8 v s) = st s" "c_cpu (push8 v s) = c_cpu s"
  "st (no_io s) = st s" "c_cpu (no_io s) = c_cpu s"
  "st (setf n s) = st s" "c_cpu (setf n s) = c_cpu s"
  "st (set_lv lv n s) = st s" "c_cpu (set_lv lv n s) = c_cpu s"
  "st (fin s) = st s" "c_cpu (fin s) = c_cpu s"
  "st (rel_jump s) = st s" "c_cpu (rel_jump s) = c_cpu s"
  "st (exchange x y s) = st s" "c_cpu (exchange x y s) = c_cpu s"
  "st (step_rr up x y s) = st s" "c_cpu (step_rr up x y s) = c_cpu s"
  "st (dec_rr x y s) = st s" "c_cpu (dec_rr x y s) = c_cpu s"
  "st (put_hl n m s) = st s" "c_cpu (put_hl n m s) = c_cpu s"
  "st (put_hl_sp n k s) = st s" "c_cpu (put_hl_sp n k s) = c_cpu s"
  by (simp_all add: set_reg_def set_grp_def put_alu_def VM1_OF_ARITH_def VM1_OF_LOGIC_def VM1_OF_ONLY_def ticks_def
      fetch_def pop8_def push8_def no_io_def setf_def set_lv_def fin_def rel_jump_def exchange_def step_rr_def inc_rr_def
      dec_rr_def put_hl_def put_hl_sp_def Let_def split: lval.splits)

lemma time_compound [time_simps]:
  "st (pop_pc s) = st s" "c_cpu (pop_pc s) = c_cpu s"
  "st (call_nn s) = st s" "c_cpu (call_nn s) = c_cpu s"
  "st (snd (fetch16 s)) = st s" "c_cpu (snd (fetch16 s)) = c_cpu s"
  "st (snd (step_mem t d g s)) = st s" "c_cpu (snd (step_mem t d g s)) = c_cpu s"
  "st (ld_pv l s) = st s" "c_cpu (ld_pv l s) = c_cpu s"
  "st (ld_step u s) = st s" "c_cpu (ld_step u s) = c_cpu s"
  by (simp_all add: pop_pc_def call_nn_def fetch16_def step_mem_def put_memory_def put_mem_def ld_pv_def ld_step_def Let_def case_prod_beta time_simps split: option.split)

section \<open>Macros\<close>

lemma z80_preds [time_simps]:
  assumes "c_cpu s = CPU_Z80"
  shows "is8080 s = False" "is8085 s = False" "is808x s = False" "isvm1 s = False" "isgbz80 s = False"
    "isr800 s = False" "israbbit s = False" "isz180 s = False" "isez80 s = False" "isz80n s = False"
    "iskc160 s = False" "israbbit4k s = False" "israbbit6k s = False" "canixh s = True" "cansll s = True"
    "cancbundoc s = True" "canz180 s = False" "canindex s = True"
  using assms by (simp_all add: cpu_preds cpu_codes israbbit4k_def israbbit6k_def)

lemma time_alu [time_simps]:
  "st (ADD b n s) = st s + n" "c_cpu (ADD b n s) = c_cpu s"
  "st (ADC b n s) = st s + n" "c_cpu (ADC b n s) = c_cpu s"
  "st (SUB b n s) = st s + n" "c_cpu (SUB b n s) = c_cpu s"
  "st (SBC b n s) = st s + n" "c_cpu (SBC b n s) = c_cpu s"
  "st (AND_op b n s) = st s + n" "c_cpu (AND_op b n s) = c_cpu s"
  "st (XOR_op b n s) = st s + n" "c_cpu (XOR_op b n s) = c_cpu s"
  "st (OR_op b n s) = st s + n" "c_cpu (OR_op b n s) = c_cpu s"
  "st (CP b n s) = st s + n" "c_cpu (CP b n s) = c_cpu s"
  "st (CP_w b n s) = st s + n" "c_cpu (CP_w b n s) = c_cpu s"
  "st (add_aa n s) = st s + n" "c_cpu (add_aa n s) = c_cpu s"
  "st (adc_aa n s) = st s + n" "c_cpu (adc_aa n s) = c_cpu s"
  "st (sub_aa n s) = st s + n" "c_cpu (sub_aa n s) = c_cpu s"
  "st (sbc_aa n s) = st s + n" "c_cpu (sbc_aa n s) = c_cpu s"
  "st (and_aa n s) = st s + n" "c_cpu (and_aa n s) = c_cpu s"
  "st (xor_aa n s) = st s + n" "c_cpu (xor_aa n s) = c_cpu s"
  "st (or_aa n s) = st s + n" "c_cpu (or_aa n s) = c_cpu s"
  "st (cp_aa x n s) = st s + n" "c_cpu (cp_aa x n s) = c_cpu s"
  by (simp_all only: ADD_def ADC_def SUB_def SBC_def AND_op_def XOR_op_def OR_op_def CP_def CP_w_def add_aa_def adc_aa_def
      sub_aa_def sbc_aa_def and_aa_def xor_aa_def or_aa_def cp_aa_def Let_def time_basic)

lemma time_incdec [time_simps]:
  assumes "c_cpu s = CPU_Z80"
  shows "st (INC r r' s) = st s + 4" "st (DEC r r' s) = st s + 4" "c_cpu (INC r r' s) = CPU_Z80" "c_cpu (DEC r r' s) = CPU_Z80"
  "st (op_step_hl d s) = st s + 11" "c_cpu (op_step_hl d s) = CPU_Z80"
  using assms by (simp_all add: INC_def DEC_def op_step_hl_def INC_TICKS_def Let_def case_prod_beta time_simps)

lemma time_load [time_simps]:
  assumes "c_cpu s = CPU_Z80"
  shows "st (LDRIM r r' s) = st s + 7" "c_cpu (LDRIM r r' s) = CPU_Z80"
  "st (LDRRIM a b s) = st s + 10" "c_cpu (LDRRIM a b s) = CPU_Z80"
  "st (LDRP a b r s) = st s + 7" "c_cpu (LDRP a b r s) = CPU_Z80"
  "st (LDRPI a b r s) = st s + 15" "c_cpu (LDRPI a b r s) = CPU_Z80"
  "st (LDPR a b r s) = st s + 7" "c_cpu (LDPR a b r s) = CPU_Z80"
  "st (LDPRI a b r s) = st s + 15" "c_cpu (LDPRI a b r s) = CPU_Z80"
  "st (LDRR a b a' b' n s) = st s + n" "c_cpu (LDRR a b a' b' n s) = CPU_Z80"
  "st (LDPNNRR a b n s) = st s + n" "c_cpu (LDPNNRR a b n s) = CPU_Z80"
  "st (LDPIN a b s) = st s + 15" "c_cpu (LDPIN a b s) = CPU_Z80"
  "st (LDRRPNN a b n s) = st s + n" "c_cpu (LDRRPNN a b n s) = CPU_Z80"
  "st (INCW a b s) = st s + 6" "c_cpu (INCW a b s) = CPU_Z80"
  "st (DECW a b s) = st s + 6" "c_cpu (DECW a b s) = CPU_Z80"
  "st (INCPI a b s) = st s + 19" "c_cpu (INCPI a b s) = CPU_Z80"
  "st (DECPI a b s) = st s + 19" "c_cpu (DECPI a b s) = CPU_Z80"
  "st (ADDRRRR a b c d s) = st s + 11" "c_cpu (ADDRRRR a b c d s) = CPU_Z80"
  "st (ADDISP a b s) = st s + 11" "c_cpu (ADDISP a b s) = CPU_Z80"
  "st (SBCHLRR x y s) = st s + 15" "c_cpu (SBCHLRR x y s) = CPU_Z80"
  "st (ADCHLRR x y s) = st s + 15" "c_cpu (ADCHLRR x y s) = CPU_Z80"
  "st (SBC_HL_SP s) = st s + 15" "c_cpu (SBC_HL_SP s) = CPU_Z80"
  "st (ADC_HL_SP s) = st s + 15" "c_cpu (ADC_HL_SP s) = CPU_Z80"
  "st (LD_NN_SP s) = st s + 20" "c_cpu (LD_NN_SP s) = CPU_Z80"
  "st (LD_SP_NN s) = st s + 20" "c_cpu (LD_SP_NN s) = CPU_Z80"
  using assms
  by (simp_all add: LDRIM_def LDRRIM_def LDRP_def LDRPI_def LDPR_def LDPRI_def LDRR_def LDPNNRR_def LDPIN_def LDRRPNN_def
      INCW_def DECW_def INCPI_def DECPI_def stepPI_def INCW_TICKS_def INCPI_TICKS_def ADDRRRR_def ADDRRRR_TICKS_def
      ADDISP_def SBCHLRR_def ADCHLRR_def HL_TICKS_def SBC_HL_SP_def ADC_HL_SP_def LD_NN_SP_def LD_SP_NN_def
      Let_def case_prod_beta time_simps)

lemma time_control [time_simps]:
  assumes "c_cpu s = CPU_Z80"
  shows "st (JRCI c s) = st s + (if c then 12 else 7)" "c_cpu (JRCI c s) = CPU_Z80"
  "st (JRC c s) = st s + (if c then 7 else 12)" "c_cpu (JRC c s) = CPU_Z80"
  "st (JPCI c s) = st s + 10" "c_cpu (JPCI c s) = CPU_Z80"
  "st (JPC c s) = st s + 10" "c_cpu (JPC c s) = CPU_Z80"
  "st (PUSH x y x' y' s) = st s + 11" "c_cpu (PUSH x y x' y' s) = CPU_Z80"
  "st (POP a b a' b' s) = st s + 10" "c_cpu (POP a b a' b' s) = CPU_Z80"
  "st (RET n s) = st s + n" "c_cpu (RET n s) = CPU_Z80"
  "st (RETC c s) = st s + (if c then 5 else 11)" "c_cpu (RETC c s) = CPU_Z80"
  "st (RETCI c s) = st s + (if c then 11 else 5)" "c_cpu (RETCI c s) = CPU_Z80"
  "st (CALLC c s) = st s + (if c then 10 else 17)" "c_cpu (CALLC c s) = CPU_Z80"
  "st (CALLCI c s) = st s + (if c then 17 else 10)" "c_cpu (CALLCI c s) = CPU_Z80"
  "st (RST n s) = st s + 11" "c_cpu (RST n s) = CPU_Z80"
  "st (EXSPI a b s) = st s + 19" "c_cpu (EXSPI a b s) = CPU_Z80"
  using assms
  by (simp_all add: JRCI_def JRC_def JR_taken_TICKS_def JR_not_taken_TICKS_def JPCI_def JPC_def JPC_TICKS_def
      JPC_taken_TICKS_def PUSH_def PUSH_TICKS_def POP_def POP_TICKS_def RET_def RETC_def RETCI_def
      RET_not_taken_TICKS_def RET_taken_TICKS_def CALLC_def CALLCI_def CALL_taken_TICKS_def CALL_not_taken_TICKS_def
      RST_def RST_TICKS_def EXSPI_def EXSPI_TICKS_def Let_def case_prod_beta time_simps)

section \<open>The CB page\<close>

lemma time_cb [time_simps]:
  assumes "c_cpu s = CPU_Z80"
  shows "st (rot e a b s) = st s + 8" "c_cpu (rot e a b s) = CPU_Z80"
  "st (SLL a s) = st s + 8" "c_cpu (SLL a s) = CPU_Z80"
  "st (SWAP a s) = st s + 8" "c_cpu (SWAP a s) = CPU_Z80"
  "st (RRC a b s) = st s + 8" "c_cpu (RRC a b s) = CPU_Z80"
  "st (BIT n r r' s) = st s + 8" "c_cpu (BIT n r r' s) = CPU_Z80"
  "st (BITHL n s) = st s + 12" "c_cpu (BITHL n s) = CPU_Z80"
  "st (BITI n s) = st s + 5" "c_cpu (BITI n s) = CPU_Z80"
  "st (RES n a b s) = st s + 8" "c_cpu (RES n a b s) = CPU_Z80"
  "st (SET n a b s) = st s + 8" "c_cpu (SET n a b s) = CPU_Z80"
  "st (RESHL n s) = st s + 15" "c_cpu (RESHL n s) = CPU_Z80"
  "st (SETHL n s) = st s + 15" "c_cpu (SETHL n s) = CPU_Z80"
  using assms
  by (simp_all add: rot_def SLL_def SWAP_def RRC_def BIT_def BITHL_def BITI_def RES_def SET_def RESHL_def SETHL_def
      RESHL_TICKS_def CBr_TICKS_def BIT_TICKS_def Let_def case_prod_beta time_simps)

lemma time_cb_shift [time_simps]:
  assumes "c_cpu s = CPU_Z80"
  shows "st (cb_shift y a b s) = st s + 8" "c_cpu (cb_shift y a b s) = CPU_Z80"
proof -
  have "y mod 8 = 0 \<or> y mod 8 = 1 \<or> y mod 8 = 2 \<or> y mod 8 = 3 \<or> y mod 8 = 4 \<or> y mod 8 = 5 \<or> y mod 8 = 6 \<or> y mod 8 = 7"
    by presburger
  then show "st (cb_shift y a b s) = st s + 8" "c_cpu (cb_shift y a b s) = CPU_Z80"
    using assms by (auto simp: cb_shift_def RLC_def RL_def RR_def SLA_def SRA_def SRL_def time_simps)
qed

lemma time_cb_mem [time_simps]:
  assumes "c_cpu s = CPU_Z80" "\<And>s. c_cpu s = CPU_Z80 \<Longrightarrow> st (f s) = st s + n" "\<And>s. c_cpu s = CPU_Z80 \<Longrightarrow> c_cpu (f s) = CPU_Z80"
  shows "st (cb_mem f s) = st s + n" "c_cpu (cb_mem f s) = CPU_Z80"
  using assms by (simp_all add: cb_mem_def Let_def time_simps)

text \<open>T-states of a CB opcode.\<close>

definition cb_cycles :: "nat \<Rightarrow> int" where
  "cb_cycles opc = (if opc mod 8 \<noteq> 6 then 8 else if opc div 64 = 1 then 12 else 15)"

lemma time_cb_page [time_simps]:
  assumes "c_cpu s = CPU_Z80" "opc < 256"
  shows "st (cb_page opc s) = st s + cb_cycles opc" "c_cpu (cb_page opc s) = CPU_Z80"
  using assms
  by (simp_all add: cb_page_def cb_rot_def cb_bit_def cb_res_def cb_set_def cb_cycles_def cb_hl_TICKS_def time_simps Let_def)

lemma time_cbi_page:
  assumes "c_cpu s = CPU_Z80"
  shows "st s + 5 \<le> st (cbi_page opc s)" "c_cpu (cbi_page opc s) = CPU_Z80"
  using assms
  by (simp_all add: cbi_page_def cbi_rot_def cbi_bit_def cbi_res_def cbi_set_def cbi_fix_def cbi_put_def Let_def time_simps)

section \<open>Devices and small operations\<close>

lemma time_console:
  "st (snd (getch s)) = st s" "c_cpu (snd (getch s)) = c_cpu s"
  "st (snd (kbhit s)) = st s" "c_cpu (snd (kbhit s)) = c_cpu s"
  "st (fputc v s) = st s" "c_cpu (fputc v s) = c_cpu s"
  by (simp_all add: getch_def kbhit_def fputc_def Let_def case_prod_beta split: option.split list.split)

lemma time_paging:
  "st (memory_handle_paging p v s) = st s" "c_cpu (memory_handle_paging p v s) = c_cpu s"
  by (cases "model (mem s)";
      simp add: memory_handle_paging_def zxn_handle_out_def zx_handle_out_def z180_handle_out_def msx_handle_out_def Let_def)+

lemma time_hook_in: "st (snd (hook_console_in p s)) = st s" "c_cpu (snd (hook_console_in p s)) = c_cpu s"
  by (simp_all add: hook_console_in_def time_console)

lemma time_apu_in: "st (snd (apu_in p s)) = st s" "c_cpu (snd (apu_in p s)) = c_cpu s"
  by (simp_all add: apu_in_def apu_read_data_def case_prod_beta Let_def)

lemma time_acia_in: "st (snd (acia_in p s)) = st s" "c_cpu (snd (acia_in p s)) = c_cpu s"
  by (simp_all add: acia_in_def time_console case_prod_beta)

lemma time_in_port [time_simps]:
  "st (snd (in_port p s)) = st s" "c_cpu (snd (in_port p s)) = c_cpu s"
  by (simp_all add: in_port_def case_prod_beta time_hook_in time_apu_in time_acia_in if_distrib [of snd] cong: if_cong)

lemma cpu_out_port [time_simps]: "c_cpu (out_port p v s) = c_cpu s"
  by (auto simp: out_port_def hook_console_out_def apu_out_def apu_write_command_def apu_write_data_def acia_out_def
      time_console time_paging case_prod_beta split: option.split)

lemma time_misc [time_simps]:
  assumes "c_cpu s = CPU_Z80"
  shows "st (zilog_daa s) = st s + 4" "c_cpu (zilog_daa s) = CPU_Z80"
    "st (rot_acc e s) = st s + 4" "c_cpu (rot_acc e s) = CPU_Z80"
    "st (op_ld_hl_n s) = st s + 10" "c_cpu (op_ld_hl_n s) = CPU_Z80"
    "st (PUSH_r a b a' b' s) = st s + 11" "c_cpu (PUSH_r a b a' b' s) = CPU_Z80"
    "st (pop_af s) = st s + 10" "c_cpu (pop_af s) = CPU_Z80"
    "st (jp_nn s) = st s + 10" "c_cpu (jp_nn s) = CPU_Z80"
    "st (jp_hl s) = st s + 4" "c_cpu (jp_hl s) = CPU_Z80"
    "st (op_call_nn s) = st s + 17" "c_cpu (op_call_nn s) = CPU_Z80"
    "st (kc_extra s) = st s" "c_cpu (kc_extra s) = CPU_Z80"
    "st (op_in_n s) = st s + 11" "c_cpu (op_in_n s) = CPU_Z80"
    "c_cpu (op_out_n s) = CPU_Z80"
    "st (op_halt s) = st s + 4" "c_cpu (op_halt s) = CPU_Z80"
    "st (op_ex_de_hl s) = st s + 4" "c_cpu (op_ex_de_hl s) = CPU_Z80"
    "st (op_exx s) = st s + 4" "c_cpu (op_exx s) = CPU_Z80"
    "st (op_ld_sp_hl s) = st s + 6" "c_cpu (op_ld_sp_hl s) = CPU_Z80"
    "st (op_ex_af s) = st s + 4" "c_cpu (op_ex_af s) = CPU_Z80"
    "st (op_di s) = st s + 4" "c_cpu (op_di s) = CPU_Z80"
    "st (op_ei s) = st s + 4" "c_cpu (op_ei s) = CPU_Z80"
  using assms
  by (simp_all add: zilog_daa_def DAA_TICKS_def rot_acc_def acc_TICKS_def op_ld_hl_n_def PUSH_r_def pop_af_def jp_nn_def
      jp_hl_def op_call_nn_def kc_extra_def op_in_n_def op_out_n_def op_halt_def op_ex_de_hl_def EX_TICKS_def op_exx_def
      op_ld_sp_hl_def op_ex_af_def op_di_def op_ei_def EI_TICKS_def time_simps Let_def case_prod_beta)

lemma time_alu_operand [time_simps]:
  assumes "c_cpu s = CPU_Z80" and f: "\<And>b n s. st (f b n s) = st s + n" "\<And>b n s. c_cpu (f b n s) = c_cpu s"
  shows "st (ALU_r f r s) = st s + 4" "c_cpu (ALU_r f r s) = CPU_Z80"
    "st (ALU_half f r s) = st s + 4" "c_cpu (ALU_half f r s) = CPU_Z80"
    "st (ALU_hl f s) = st s + 7" "c_cpu (ALU_hl f s) = CPU_Z80"
    "st (ALU_indexed f a b s) = st s + 15" "c_cpu (ALU_indexed f a b s) = CPU_Z80"
    "st (ALU_n f s) = st s + 7" "c_cpu (ALU_n f s) = CPU_Z80"
  using assms
  by (simp_all add: ALU_r_def ALU_half_def ALU_hl_def ALU_indexed_def ALU_n_def ALUr_TICKS_def ALURxy_TICKS_def
      ALUiHL_TICKS_def ALUiXY_TICKS_def ALUn_TICKS_def time_simps Let_def case_prod_beta)

lemma time_add_alt [time_simps]:
  "st (add_alt f g s) = (if altd s then st (f s) else st (g s))"
  "c_cpu (add_alt f g s) = (if altd s then c_cpu (f s) else c_cpu (g s))"
  by (simp_all add: add_alt_def)

lemma time_vm1_dadc [time_simps]: "st (vm1_dadc x y s) = st s + 10" "c_cpu (vm1_dadc x y s) = c_cpu s"
  by (simp_all add: vm1_dadc_def vm1_setflags_def time_simps Let_def)

section \<open>The APU's clocks and the ED page\<close>

lemma apu_clocks: "0 \<le> snd (apu_command L cmd a)"
proof -
  have "0 \<le> snd (apu_fix16_op cmd a)" "0 \<le> snd (apu_fix32_op cmd a)" "0 \<le> snd (apu_float_op L cmd a)"
      "0 \<le> snd (apu_convert_op L cmd a)" "0 \<le> snd (apu_stack_op cmd a)" for a
    by (simp_all add: apu_fix16_op_def apu_fix32_op_def apu_float_op_def apu_convert_op_def apu_stack_op_def Let_def
        case_prod_beta)
  moreover have "0 \<le> snd (apu_derived_op L cmd a)" for a
    by (simp add: apu_derived_op_def Let_def case_prod_beta)
  ultimately show ?thesis by (simp add: apu_command_def Let_def)
qed

lemma time_out_port: "st s \<le> st (out_port p v s)"
  using apu_clocks
  by (auto simp: out_port_def hook_console_out_def apu_out_def apu_write_command_def apu_write_data_def acia_out_def
      time_console time_paging case_prod_beta split: option.split)

lemma less_out_port [time_simps]: "m < st s \<Longrightarrow> m < st (out_port p v s)" "m < st s \<Longrightarrow> m < st (out_port p v s) + 5"
  using time_out_port [of s p v] by linarith+

lemma time_out_n: "c_cpu s = CPU_Z80 \<Longrightarrow> st s < st (op_out_n s)"
  by (simp add: op_out_n_def time_simps Let_def case_prod_beta)

text \<open>The ED page.\<close>

lemma time_block [time_simps]:
  assumes "c_cpu s = CPU_Z80"
  shows "st s < st (cp_block up rep s)" "c_cpu (cp_block up rep s) = CPU_Z80"
    "st s < st (in_block up rep s)" "c_cpu (in_block up rep s) = CPU_Z80"
    "st s < st (out_block up rep s)" "c_cpu (out_block up rep s) = CPU_Z80"
    "st s < st (ld_once up s)" "c_cpu (ld_once up s) = CPU_Z80"
    "st s < st (ld_repeat up s)" "c_cpu (ld_repeat up s) = CPU_Z80"
  using assms
  by (simp_all add: cp_block_def in_block_def out_block_def ld_once_def ld_repeat_def repeat_insn_def LDI_TICKS_def
      LDIR_TICKS_def Let_def case_prod_beta time_simps)

lemma time_ed [time_simps]:
  assumes "c_cpu s = CPU_Z80"
  shows "st (nop8 s) = st s + 8" "c_cpu (nop8 s) = CPU_Z80"
    "st (nop48 s) = st s + 8" "c_cpu (nop48 s) = CPU_Z80"
    "st (INR v s) = st s + 12" "c_cpu (INR v s) = CPU_Z80"
    "st s < st (OUTR x s)" "c_cpu (OUTR x s) = CPU_Z80"
    "st s < st (OUTR_r r s)" "c_cpu (OUTR_r r s) = CPU_Z80"
    "st (zilog_rld s) = st s + 18" "c_cpu (zilog_rld s) = CPU_Z80"
    "st (zilog_rrd s) = st s + 18" "c_cpu (zilog_rrd s) = CPU_Z80"
    "st (UNDOCUMENTED_NEG s) = st s + 8" "c_cpu (UNDOCUMENTED_NEG s) = CPU_Z80"
    "st (UNDOCUMENTED_IM0 s) = st s + 8" "c_cpu (UNDOCUMENTED_IM0 s) = CPU_Z80"
    "st (UNDOCUMENTED_IM1 s) = st s + 8" "c_cpu (UNDOCUMENTED_IM1 s) = CPU_Z80"
    "st (UNDOCUMENTED_IM2 s) = st s + 8" "c_cpu (UNDOCUMENTED_IM2 s) = CPU_Z80"
    "st (UNDOCUMENTED_RETN s) = st s + 14" "c_cpu (UNDOCUMENTED_RETN s) = CPU_Z80"
    "st (op_neg s) = st s + 8" "c_cpu (op_neg s) = CPU_Z80"
    "st (op_im k s) = st s + 8" "c_cpu (op_im k s) = CPU_Z80"
    "st (op_ld_i_a s) = st s + 9" "c_cpu (op_ld_i_a s) = CPU_Z80"
    "st (op_reti s) = st s + 14" "c_cpu (op_reti s) = CPU_Z80"
    "st (LD_R_A s) = st s + 9" "c_cpu (LD_R_A s) = CPU_Z80"
    "st (LD_A_I s) = st s + 9" "c_cpu (LD_A_I s) = CPU_Z80"
    "st (LD_A_R s) = st s + 9" "c_cpu (LD_A_R s) = CPU_Z80"
    "st (LDPNNRR_ed a b s) = st s + 20" "c_cpu (LDPNNRR_ed a b s) = CPU_Z80"
    "st (LDRRPNN_ed a b s) = st s + 20" "c_cpu (LDRRPNN_ed a b s) = CPU_Z80"
    "r3k_or_r4k s = False" "not_rabbit s = True"
  using assms
  by (simp_all add: nop8_def nop48_def INR_def OUTR_def OUTR_r_def zilog_rld_def zilog_rrd_def fast_TICKS_def
      UNDOCUMENTED_NEG_def UNDOCUMENTED_IM0_def UNDOCUMENTED_IM1_def UNDOCUMENTED_IM2_def UNDOCUMENTED_RETN_def op_neg_def
      op_im_def op_ld_i_a_def op_reti_def LD_R_A_def LD_A_I_def LD_A_R_def LDAR_TICKS_def ld_a_special_def LDPNNRR_ed_def
      LDRRPNN_ed_def r3k_or_r4k_def not_rabbit_def Let_def case_prod_beta time_simps)
    (simp_all add: cpu_is_def cpu_codes)

lemmas time_block_defs =
  zilog_cpi_def zilog_cpd_def zilog_cpir_def zilog_cpdr_def zilog_ini_def zilog_ind_def zilog_inir_def zilog_indr_def
  zilog_outi_def zilog_outd_def zilog_otir_def zilog_otdr_def LDI_def LDD_def LDIR_def LDDR_def

lemmas z80_ed =
  ed_page_def ed_00_1f_def ed_20_3f_def ed_io16_def ed_misc_def ed_80_9f_def ed_a0_bf_def ed_c0_df_def ed_e0_ff_def
  ed_c3_def ed_block_def time_block_defs


end
