(* ===== verification/Ticks_Cycles.thy ===== *)
theory Ticks_Cycles
  imports Ticks_Time
begin

text \<open>
  The emulator's clock on a Z80: the unprefixed and CB opcodes take the T-states of the Z80 manual, and
  every instruction but a hook call takes time.
\<close>

section \<open>The main page of the Z80\<close>

text \<open>T-states of the unprefixed opcodes, from the Z80 manual: the time when a condition fails, and the
  extra time when it holds. The prefixes CB, DD, ED and FD count as an M1 cycle of their own.\<close>

definition z80_table :: "int list" where
  "z80_table =
     [4, 10, 7, 6, 4, 4, 7, 4, 4, 11, 7, 6, 4, 4, 7, 4,
      8, 10, 7, 6, 4, 4, 7, 4, 12, 11, 7, 6, 4, 4, 7, 4,
      7, 10, 16, 6, 4, 4, 7, 4, 7, 11, 16, 6, 4, 4, 7, 4,
      7, 10, 13, 6, 11, 11, 10, 4, 7, 11, 13, 6, 4, 4, 7, 4,
      4, 4, 4, 4, 4, 4, 7, 4, 4, 4, 4, 4, 4, 4, 7, 4,
      4, 4, 4, 4, 4, 4, 7, 4, 4, 4, 4, 4, 4, 4, 7, 4,
      4, 4, 4, 4, 4, 4, 7, 4, 4, 4, 4, 4, 4, 4, 7, 4,
      7, 7, 7, 7, 7, 7, 4, 7, 4, 4, 4, 4, 4, 4, 7, 4,
      4, 4, 4, 4, 4, 4, 7, 4, 4, 4, 4, 4, 4, 4, 7, 4,
      4, 4, 4, 4, 4, 4, 7, 4, 4, 4, 4, 4, 4, 4, 7, 4,
      4, 4, 4, 4, 4, 4, 7, 4, 4, 4, 4, 4, 4, 4, 7, 4,
      4, 4, 4, 4, 4, 4, 7, 4, 4, 4, 4, 4, 4, 4, 7, 4,
      5, 10, 10, 10, 10, 11, 7, 11, 5, 10, 10, 4, 10, 17, 7, 11,
      5, 10, 10, 11, 10, 11, 7, 11, 5, 4, 10, 11, 10, 4, 7, 11,
      5, 10, 10, 19, 10, 11, 7, 11, 5, 4, 10, 4, 10, 4, 7, 11,
      5, 10, 10, 4, 10, 11, 7, 11, 5, 6, 10, 4, 10, 4, 7, 11]"

definition z80_extra :: "int \<Rightarrow> int" where
  "z80_extra opc =
     (if opc < 0x40 then 5 else if opc mod 8 = 0 then 6 else if opc mod 8 = 4 then 7 else 0)"

text \<open>The condition of a conditional opcode: its field selects NZ Z NC C PO PE P M;
  JR has the first four.\<close>

definition z80_cc :: "int \<Rightarrow> cpu \<Rightarrow> bool" where
  "z80_cc y s =
     [nz (fl s), \<not> nz (fl s), \<not> cy (fl s), cy (fl s), \<not> pv_cond (fl s), pv_cond (fl s), \<not> neg (fl s), neg (fl s)]
       ! nat (y mod 8)"

definition z80_taken :: "int \<Rightarrow> cpu \<Rightarrow> bool" where
  "z80_taken opc s =
     (if opc = 0x10 then regs s rB \<noteq> 1
      else if opc \<in> {0x20, 0x28, 0x30, 0x38} then z80_cc (opc div 8 - 4) s
      else opc \<ge> 0xc0 \<and> opc mod 8 \<in> {0, 2, 4} \<and> z80_cc (opc div 8) s)"

definition z80_cycles :: "int \<Rightarrow> cpu \<Rightarrow> int" where
  "z80_cycles opc s = z80_table ! nat opc + (if z80_taken opc s then z80_extra opc else 0)"

lemmas z80_exec_00 =
  exec_00_3f_def op_nop_def op_ld_rr_nn_def op_ld_acc_def op_ld_nn_hl_def op_ld_nn_a_def op_ld_hl_nn_def op_ld_a_nn_def
  op_inc_rr_def op_dec_rr_def op_inc8_def op_dec8_def op_ld_r_n_def op_rlca_def op_rrca_def op_rla_def op_rra_def
  op_add_hl_def op_jr_def op_jr_nz_def op_jr_z_def op_jr_nc_def op_jr_c_def op_djnz_def op_daa_def op_cpl_def op_scf_def
  op_ccf_def xy_def xy_half_def acc_TICKS_def

lemma set_reg_same: "regs (set_reg r v s) r = v"
  by (simp add: set_reg_def)

lemmas z80_exec_40 =
  exec_40_7f_def op_40_def op_49_def op_52_def op_5b_def op_64_def op_6d_def op_7f_def op_ld_b_def op_ld_c_def op_ld_d_def
  op_ld_e_def op_ld_h_def op_ld_l_def op_ld_mem_def op_ld_a_def xy_def xy_half_def not_r4k_def LD_r_r_def LD_r_half_def
  half_TICKS_def LD_r_mem_def LD_r_mem_alt_def LD_mem_r_def LDrr_TICKS_def

lemmas z80_exec_80 =
  exec_80_bf_def op_add_a_def op_adc_a_def op_sub_def op_sbc_a_def op_and_def op_xor_def op_or_def op_cp_def rabbit64_def
  rabbit4_def rabbit4_ih_def ALU_h_def ALU_l_def ALU_mem_def ALU_self_def xy_def xy_half_def ALUr_TICKS_def ALUiHL_TICKS_def

lemmas z80_exec_c0 =
  exec_c0_ff_def op_ret_def op_pop_def op_push_def op_jp_def op_call_def op_alu_n_def op_rst_def r4k_under_def
  op_ex_sp_hl_def xy_def

lemmas z80_cycles_defs = z80_cycles_def z80_table_def z80_taken_def z80_extra_def z80_cc_def nz_def cy_def neg_def grp_def set_reg_same

section \<open>The opcodes one by one\<close>

lemma byte_in:
  assumes "0 \<le> (x :: int)" "x < 64"
  shows "x \<in> {0, 1, 2, 3, 4, 5, 6, 7, 8, 9, 10, 11, 12, 13, 14, 15, 16, 17, 18, 19, 20, 21, 22, 23, 24, 25, 26,
      27, 28, 29, 30, 31, 32, 33, 34, 35, 36, 37, 38, 39, 40, 41, 42, 43, 44, 45, 46, 47, 48, 49, 50, 51,
      52, 53, 54, 55, 56, 57, 58, 59, 60, 61, 62, 63}"
proof -
  have "x \<in> int ` {..<64}" using assms by (intro image_eqI [where x = "nat x"]) auto
  then show ?thesis by (elim imageE) (simp add: lessThan_nat_numeral lessThan_Suc, elim disjE; simp)
qed

lemma quarter:
  assumes "(a :: int) \<le> x" "x < a + 64"
  shows "x \<in> (\<lambda>k. a + k) ` {0, 1, 2, 3, 4, 5, 6, 7, 8, 9, 10, 11, 12, 13, 14, 15, 16, 17, 18, 19, 20, 21, 22, 23, 24, 25, 26,
      27, 28, 29, 30, 31, 32, 33, 34, 35, 36, 37, 38, 39, 40, 41, 42, 43, 44, 45, 46, 47, 48, 49, 50, 51,
      52, 53, 54, 55, 56, 57, 58, 59, 60, 61, 62, 63}"
  using assms by (intro image_eqI [where x = "x - a"] byte_in) auto

lemma cycles_00_3f:
  assumes "0 \<le> opc" "opc < 64" "c_cpu s = CPU_Z80" "ih s" "\<not> altd s" "vm1_mb s = 0"
  shows "st (exec_00_3f H opc s) = st s + z80_cycles opc s"
  using quarter [of 0 opc, simplified, OF assms(1,2)]
  by (elim disjE)
    (use assms(3-) in \<open>simp_all add: z80_exec_00 z80_cycles_defs time_simps Let_def case_prod_beta\<close>)

lemma cycles_40_7f:
  assumes "64 \<le> opc" "opc < 128" "c_cpu s = CPU_Z80" "ih s" "\<not> altd s" "vm1_mb s = 0"
  shows "st (exec_40_7f H opc s) = st s + z80_cycles opc s"
  using quarter [of 64 opc, simplified, OF assms(1,2)]
  by (elim disjE)
    (use assms(3-) in \<open>simp_all add: z80_exec_40 z80_cycles_defs time_simps Let_def case_prod_beta\<close>)

lemma cycles_80_bf:
  assumes "128 \<le> opc" "opc < 192" "c_cpu s = CPU_Z80" "ih s" "\<not> altd s" "vm1_mb s = 0" "opc \<noteq> 0x8c"
  shows "st (exec_80_bf H opc s) = st s + z80_cycles opc s"
  using quarter [of 128 opc, simplified, OF assms(1,2)]
  by (elim disjE)
    (use assms(3-) in \<open>simp_all add: z80_exec_80 z80_cycles_defs time_simps Let_def case_prod_beta\<close>)

lemma cycles_c0_ff:
  assumes "192 \<le> opc" "opc < 256" "c_cpu s = CPU_Z80" "ih s" "\<not> altd s" "vm1_mb s = 0"
    "opc \<notin> {0xcb, 0xdd, 0xed, 0xfd}" "opc \<noteq> 0xd3"
  shows "st (exec_c0_ff H opc s) = st s + z80_cycles opc s"
  using quarter [of 192 opc, simplified, OF assms(1,2)]
  by (elim disjE)
    (use assms(3-) in \<open>simp_all add: z80_exec_c0 z80_cycles_defs time_simps Let_def case_prod_beta\<close>)

section \<open>Every instruction takes time\<close>

lemma altd_simps: "altd (fin s) = False" "altd (ticks n s) = altd s" "altd (timed n f s) = altd (f s)"
    "altd (op_in_n s) = (if isgbz80 s \<or> israbbit s then altd s else False)"
    "altd (op_out_n s) = (if isgbz80 s \<or> israbbit s then altd s else False)"
    "altd (op_di s) = False" "altd (op_ei s) = False" "altd (op_exx s) = False" "altd (op_ex_de_hl s) = False"
    "altd (op_ld_sp_hl s) = False" "altd (op_ex_af s) = False"
    "altd (op_halt s) = (if israbbit s then True else False)"
  by (simp_all add: fin_def ticks_def timed_def op_in_n_def op_out_n_def op_di_def op_ei_def op_exx_def op_ex_de_hl_def
      op_ld_sp_hl_def op_ex_af_def op_halt_def Let_def case_prod_beta)

lemma progress_cb: "c_cpu s = CPU_Z80 \<Longrightarrow> st s < st (handle_cb_page s) \<and> c_cpu (handle_cb_page s) = CPU_Z80"
proof -
  assume z: "c_cpu s = CPU_Z80"
  have i: "m < st s' \<Longrightarrow> c_cpu s' = CPU_Z80 \<Longrightarrow> m < st (cbi_page n s')" for m n s'
    using time_cbi_page [of s' n] by linarith
  show ?thesis
    using z unat8_bound by (simp add: handle_cb_page_def Let_def case_prod_beta time_simps time_cbi_page i) (simp add: cb_cycles_def)
qed

lemma progress_ed_00:
  assumes "0 \<le> opc" "opc < 64" "c_cpu s = CPU_Z80"
  shows "st s < st (ed_page H opc s) \<and> c_cpu (ed_page H opc s) = CPU_Z80"
  using quarter [of 0 opc, simplified, OF assms(1,2)]
  by (elim disjE) (use assms(3-) in \<open>simp_all add: z80_ed time_simps\<close>)

lemma progress_ed_40:
  assumes "64 \<le> opc" "opc < 128" "c_cpu s = CPU_Z80"
  shows "st s < st (ed_page H opc s) \<and> c_cpu (ed_page H opc s) = CPU_Z80"
  using quarter [of 64 opc, simplified, OF assms(1,2)]
  by (elim disjE) (use assms(3-) in \<open>simp_all add: z80_ed time_simps\<close>)

lemma progress_ed_80:
  assumes "128 \<le> opc" "opc < 192" "c_cpu s = CPU_Z80"
  shows "st s < st (ed_page H opc s) \<and> c_cpu (ed_page H opc s) = CPU_Z80"
  using quarter [of 128 opc, simplified, OF assms(1,2)]
  by (elim disjE) (use assms(3-) in \<open>simp_all add: z80_ed time_simps\<close>)

lemma progress_ed_c0:
  assumes "192 \<le> opc" "opc < 256" "c_cpu s = CPU_Z80" "opc \<notin> {0xfd, 0xfe}"
  shows "st s < st (ed_page H opc s) \<and> c_cpu (ed_page H opc s) = CPU_Z80"
  using quarter [of 192 opc, simplified, OF assms(1,2)]
  by (elim disjE) (use assms(3-) in \<open>simp_all add: z80_ed time_simps\<close>)

lemma progress_00_3f:
  assumes "0 \<le> opc" "opc < 64" "c_cpu s = CPU_Z80" "\<not> altd s"
  shows "st s < st (exec_00_3f H opc s) \<and> c_cpu (exec_00_3f H opc s) = CPU_Z80 \<and> \<not> altd (exec_00_3f H opc s)"
  using quarter [of 0 opc, simplified, OF assms(1,2)]
  by (elim disjE)
    (use assms(3-) in \<open>simp_all add: z80_exec_00 time_simps altd_simps Let_def case_prod_beta split: if_splits\<close>)

lemma progress_40_7f:
  assumes "64 \<le> opc" "opc < 128" "c_cpu s = CPU_Z80" "\<not> altd s"
  shows "st s < st (exec_40_7f H opc s) \<and> c_cpu (exec_40_7f H opc s) = CPU_Z80 \<and> \<not> altd (exec_40_7f H opc s)"
  using quarter [of 64 opc, simplified, OF assms(1,2)]
  by (elim disjE)
    (use assms(3-) in \<open>simp_all add: z80_exec_40 time_simps altd_simps Let_def case_prod_beta split: if_splits\<close>)

lemma progress_80_bf:
  assumes "128 \<le> opc" "opc < 192" "c_cpu s = CPU_Z80" "\<not> altd s"
  shows "st s < st (exec_80_bf H opc s) \<and> c_cpu (exec_80_bf H opc s) = CPU_Z80 \<and> \<not> altd (exec_80_bf H opc s)"
  using quarter [of 128 opc, simplified, OF assms(1,2)]
  by (elim disjE)
    (use assms(3-) in \<open>simp_all add: z80_exec_80 time_simps altd_simps Let_def case_prod_beta split: if_splits\<close>)

lemma progress_c0_ff:
  assumes "192 \<le> opc" "opc < 256" "c_cpu s = CPU_Z80" "\<not> altd s" "opc \<noteq> 0xed"
  shows "st s < st (exec_c0_ff H opc s) \<and> c_cpu (exec_c0_ff H opc s) = CPU_Z80 \<and> \<not> altd (exec_c0_ff H opc s)"
  using quarter [of 192 opc, simplified, OF assms(1,2)]
  by (elim disjE)
    (use assms(3-) in \<open>simp_all add: z80_exec_c0 op_cb_def progress_cb op_dd_def op_fd_def EX_TICKS_def time_out_n time_simps altd_simps Let_def case_prod_beta split: if_splits\<close>)

text \<open>The hook instruction, \<open>ED FE\<close> or \<open>ED FD\<close>, calls into the host and takes no time.\<close>

definition hook_insn :: "cpu \<Rightarrow> bool" where
  "hook_insn s \<longleftrightarrow>
     get_memory_inst (uint (pc s)) s = 0xed \<and> get_memory_inst (uint (pc s + 1)) s \<in> {0xfd, 0xfe}"

lemma progress_ed:
  assumes "c_cpu s = CPU_Z80" "get_memory_inst (uint (pc s)) s \<notin> {0xfd, 0xfe}"
  shows "st s < st (handle_ed_page H s) \<and> c_cpu (handle_ed_page H s) = CPU_Z80"
proof -
  define s1 where "s1 = set_reg rR (regs s rR + 1) s"
  have s1: "c_cpu s1 = CPU_Z80" "st s1 = st s" "pc s1 = pc s" "get_memory_inst a s1 = get_memory_inst a s" for a
    using assms(1) by (simp_all add: s1_def set_reg_def)
  let ?o = "uint (get_memory_inst (uint (pc s)) s)" and ?s = "snd (fetch s1)"
  have z: "c_cpu ?s = CPU_Z80" "st ?s = st s" using s1 by (simp_all add: time_simps)
  have b: "0 \<le> ?o" "?o < 256" using uint8_bound by auto
  have n: "?o \<notin> {0xfd, 0xfe}" using assms(2) by (auto simp: word_uint_eq_iff)
  have "st ?s < st (ed_page H ?o ?s) \<and> c_cpu (ed_page H ?o ?s) = CPU_Z80"
    using progress_ed_00 [OF _ _ z(1)] progress_ed_40 [OF _ _ z(1)] progress_ed_80 [OF _ _ z(1)]
      progress_ed_c0 [OF _ _ z(1) n] b by (meson not_le)
  moreover have "handle_ed_page H s = ed_page H ?o ?s"
    using s1 by (simp add: handle_ed_page_def Let_def fetch_def flip: s1_def)
  ultimately show ?thesis using z by simp
qed

lemma altd_ed: "altd (op_ed H opc s) = False"
  by (simp add: op_ed_def Let_def altd_simps)

lemma progress_instruction:
  assumes "c_cpu s = CPU_Z80" "\<not> altd s" "\<not> hook_insn s"
  shows "st s < st (instruction H s) \<and> c_cpu (instruction H s) = CPU_Z80 \<and> \<not> altd (instruction H s)"
proof -
  define s1 where "s1 = (set_reg rR (regs s rR + 1) s)\<lparr>pc := pc s + 1\<rparr>"
  have s1: "c_cpu s1 = CPU_Z80" "st s1 = st s" "\<not> altd s1" "pc s1 = pc s + 1" "get_memory_inst a s1 = get_memory_inst a s" for a
    using assms by (simp_all add: s1_def set_reg_def)
  let ?o = "uint (get_memory_inst (uint (pc s)) s)"
  have f: "fetch_opcode s = (?o, s1)" by (simp add: fetch_opcode_def Let_def fetch_def s1_def set_reg_def)
  have b: "0 \<le> ?o" "?o < 256" using uint8_bound by auto
  have ed: "st s1 < st (exec_c0_ff H 0xed s1) \<and> c_cpu (exec_c0_ff H 0xed s1) = CPU_Z80 \<and> \<not> altd (exec_c0_ff H 0xed s1)"
    if "?o = 0xed"
  proof -
    have "get_memory_inst (uint (pc s)) s = 0xed" using that by (simp add: word_uint_eq_iff)
    then have "get_memory_inst (uint (pc s1)) s1 \<notin> {0xfd, 0xfe}" using assms(3) s1 by (simp add: hook_insn_def)
    then show ?thesis
      using progress_ed [OF s1(1)] s1 by (simp add: exec_c0_ff_def altd_ed) (simp add: op_ed_def Let_def time_simps)
  qed
  have "st s1 < st (exec_main H ?o s1) \<and> c_cpu (exec_main H ?o s1) = CPU_Z80 \<and> \<not> altd (exec_main H ?o s1)"
    using progress_00_3f [OF _ _ s1(1,3)] progress_40_7f [OF _ _ s1(1,3)] progress_80_bf [OF _ _ s1(1,3)]
      progress_c0_ff [OF _ _ s1(1,3)] ed b by (cases "?o = 0xed") (simp_all add: exec_main_def)
  then show ?thesis using s1 by (simp add: instruction_def f time_simps)
qed

section \<open>The T-states of an instruction\<close>

lemma cycles_cb:
  assumes "c_cpu s = CPU_Z80" "ih s"
  shows "st (exec_main H 0xcb s) = st s + cb_cycles (unat (get_memory_inst (uint (pc s)) s))"
proof -
  have "get_memory_inst a (set_reg rR v s) = get_memory_inst a s" for a v by (simp add: set_reg_def)
  moreover have "pc (set_reg rR v s) = pc s" "ih (set_reg rR v s)" for v using assms by (simp_all add: set_reg_def)
  ultimately show ?thesis
    using assms unat8_bound
    by (simp add: exec_main_def exec_c0_ff_def op_cb_def time_simps handle_cb_page_def Let_def fetch_def)
qed



lemma fin_id: "ih s \<Longrightarrow> \<not> altd s \<Longrightarrow> \<not> alts s \<Longrightarrow> \<not> ioi s \<Longrightarrow> \<not> ioe s \<Longrightarrow> fin s = s"
  by (cases s) (simp add: fin_def)

end
