(* ===== verification/Ticks_Decode.thy ===== *)
theory Ticks_Decode
  imports Ticks_Cycles
begin

text \<open>
  The switch of \<open>cpu_run\<close> spells out every opcode. The Z80 has a regular decoding for half of them:
  \<open>01dddsss\<close> loads one operand into another, \<open>10kkksss\<close> applies an accumulator operation, and a DD or
  FD prefix replaces H, L and (HL) by the halves and the indexed cell of IX or IY. The decoding is
  stated here as a reference and the switch is compared with it.
\<close>

section \<open>The reference\<close>

definition idx_reg :: "cpu \<Rightarrow> int \<Rightarrow> reg" where
  "idx_reg s z = (if ih s \<or> z \<notin> {4, 5} then field_reg z
     else if iy s then (if z = 4 then rYH else rYL) else (if z = 4 then rXH else rXL))"

text \<open>The address of operand 6, and its extra time over a register operand.\<close>

definition idx_addr :: "cpu \<Rightarrow> int \<times> cpu" where
  "idx_addr s =
     (if ih s then (rp rH rL s, s)
      else (let (d, s) = fetch s in (if iy s then indexed d rYH rYL s else indexed d rXH rXL s, s)))"

definition mem_cycles :: "cpu \<Rightarrow> int" where
  "mem_cycles s = (if ih s then 7 else 15)"

definition decode_ld :: "int \<Rightarrow> cpu \<Rightarrow> cpu" where
  "decode_ld opc s =
     (let d = opc div 8 mod 8; r = opc mod 8; n = mem_cycles s in
      if r = 6 then (let (a, s) = idx_addr (ticks n s) in set_reg (field_reg d) (get_memory_data a s) s)
      else if d = 6 then (let (a, s) = idx_addr (ticks n s) in put_mem (u16 a) (regs s (field_reg r)) s)
      else set_reg (idx_reg s d) (regs s (idx_reg s r)) (ticks 4 s))"

definition decode_alu :: "int \<Rightarrow> cpu \<Rightarrow> cpu" where
  "decode_alu opc s =
     (let f = r4k_7f_op (opc div 8); r = opc mod 8; n = mem_cycles s in
      if r = 6 then (let (a, s) = idx_addr s in f (get_memory_data a s) n s)
      else f (regs s (idx_reg s r)) 4 s)"

definition decode :: "int \<Rightarrow> cpu \<Rightarrow> cpu" where
  "decode opc s = fin (if opc < 0x80 then decode_ld opc s else decode_alu opc s)"

text \<open>What a program can see: not the scratch variables, not \<open>fk\<close>, which the Z80's F does not show.\<close>

definition visible :: "cpu \<Rightarrow> cpu" where
  "visible s = s\<lparr>mp := 0, tt := 0, fk := 0, regs := (regs s)(rW := 0)\<rparr>"

lemma field_reg_simps [simp]:
  "field_reg 0 = rB" "field_reg 1 = rC" "field_reg 2 = rD" "field_reg 3 = rE" "field_reg 4 = rH" "field_reg 5 = rL"
  "field_reg 7 = rA"
  by (simp_all add: field_reg_def)

lemma uint_u16_rp [simp]: "uint (u16 (rp a b s)) = rp a b s"
  unfolding rp_eq by simp

lemma rp_upd [simp]:
  "rp a b (s\<lparr>st := n\<rparr>) = rp a b s" "rp a b (s\<lparr>pc := x\<rparr>) = rp a b s" "rp a b (s\<lparr>mp := x\<rparr>) = rp a b s"
  "rp a b (s\<lparr>tt := x\<rparr>) = rp a b s"
  by (simp_all add: rp_def)

lemma indexed_upd [simp]:
  "indexed d a b (s\<lparr>st := n\<rparr>) = indexed d a b s" "indexed d a b (s\<lparr>pc := x\<rparr>) = indexed d a b s"
  by (simp_all add: indexed_def)

section \<open>Loads\<close>

lemmas load_macros =
  LDRR_def LDRP_def LDRPI_def LDPR_def LDPRI_def dst_r_def src_r_def fetch_def ticks_def set_reg_def

lemmas decode_defs =
  decode_def decode_ld_def decode_alu_def idx_reg_def idx_addr_def mem_cycles_def visible_def fin_def

lemma decode_load:
  assumes "64 \<le> opc" "opc < 128" "c_cpu s = CPU_Z80" "\<not> altd s" "\<not> alts s" "opc \<noteq> 0x76"
    "\<not> (opc = 0x65 \<and> \<not> ih s \<and> \<not> iy s)"
  shows "visible (exec_40_7f H opc s) = visible (decode opc s)"
  using quarter [of 64 opc, simplified, OF assms(1,2)]
  by (elim disjE)
    (use assms(3-) in \<open>simp_all add: z80_exec_40 decode_defs time_simps load_macros Let_def case_prod_beta\<close>, blast)

section \<open>Operations with A\<close>

lemma sub_self: "alu_sum x (u16 (NOT (uint x))) 1 = (0, \<lparr>ff = 0, fr = 0, fa = u16 (uint x), fb = u16 (NOT (uint x))\<rparr>)"
  by (simp add: alu_sum_def Let_def uint_u16_not)

lemma sbc_self:
  "alu_sum x (u16 (NOT (uint x))) (carry_in s XOR 1) =
    (let v = u16 (if uint (ff (grp s)) AND 256 = 0 then 0 else - 1); res = u8 (uint v)
     in (res, \<lparr>ff = v, fr = u16 (uint res), fa = u16 (uint x), fb = u16 (NOT (uint x))\<rparr>))"
proof -
  have "uint (ff (grp s)) AND 2 ^ 8 = 0 \<longleftrightarrow> \<not> bit (ff (grp s)) 8"
    by (simp only: and_exp_eq_0_iff_not_bit bit_uint16)
  then have "uint (ff (grp s)) AND 256 = 0 \<longleftrightarrow> carry_in s = 0"
    by (simp add: carry_in_eq carry_def)
  moreover have "carry_in s = 0 \<or> carry_in s = 1" by (simp add: carry_in_eq)
  moreover have "ucast (- 1 :: 8 word) = (255 :: 16 word)" "ucast (- 1 :: 16 word) = (255 :: 8 word)"
    "ucast (- 1 :: 16 word) = (65535 :: 16 word)"
    by code_simp+
  ultimately show ?thesis
    by (elim disjE) (simp_all add: alu_sum_def Let_def uint_u16_not)
qed

lemma self_ops:
  assumes "c_cpu s = CPU_Z80" "\<not> altd s" "\<not> alts s"
  defines "a \<equiv> regs s rA"
  shows "ADD a n s = (add_aa n s)\<lparr>fk := 0\<rparr>" "ADC a n s = (adc_aa n s)\<lparr>fk := 0\<rparr>"
    "SUB a n s = (sub_aa n s)\<lparr>fk := 0\<rparr>" "SBC a n s = (sbc_aa n s)\<lparr>fk := 0\<rparr>"
  using assms
  by (simp_all add: ADD_def ADC_def SUB_def SBC_def add_aa_def adc_aa_def sub_aa_def sbc_aa_def sub_self sbc_self
      VM1_OF_ARITH_def src_a_def a_def Let_def put_alu_def set_grp_def set_reg_def ticks_def time_simps)

lemma word8_16: "ucast (ucast x :: 16 word) = (x :: 8 word)" "uint (ucast (x :: 8 word) :: 16 word) = uint x"
  by (simp_all add: ucast_up_ucast_id is_up uint_up_ucast)

lemma self_logic:
  assumes "c_cpu s = CPU_Z80" "\<not> altd s" "\<not> alts s"
  defines "a \<equiv> regs s rA"
  shows "AND_op a n s = (and_aa n s)\<lparr>fk := 0\<rparr>" "XOR_op a n s = (xor_aa n s)\<lparr>fk := 0\<rparr>"
    "OR_op a n s = (or_aa n s)\<lparr>fk := 0\<rparr>" "CP a n s = cp_aa a n s"
  using assms
  by (simp_all add: AND_op_def XOR_op_def OR_op_def CP_def and_aa_def xor_aa_def or_aa_def cp_aa_def 
      VM1_OF_LOGIC_def VM1_OF_ONLY_def src_a_def a_def Let_def put_alu_def set_grp_def set_reg_def ticks_def dst_r_def time_simps word8_16)

section \<open>Accumulator operations\<close>

lemma visible_fin_fk: "visible (fin (s\<lparr>fk := k\<rparr>)) = visible (fin s)"
  by (simp add: visible_def fin_def)

lemma visible_CP_w:
  "c_cpu s = CPU_Z80 \<Longrightarrow> \<not> altd s \<Longrightarrow> \<not> alts s \<Longrightarrow> visible (fin (CP_w b n s)) = visible (fin (CP b n s))"
  by (simp add: CP_w_def CP_def Let_def VM1_OF_ONLY_def set_grp_def set_reg_def ticks_def src_a_def visible_def fin_def time_simps)

lemmas alu_operands =
  ALU_r_def ALU_half_def ALU_hl_def ALU_indexed_def ALUr_TICKS_def ALUiHL_TICKS_def ALUiXY_TICKS_def ALURxy_TICKS_def fetch_def

lemma decode_accumulator:
  assumes "128 \<le> opc" "opc < 192" "c_cpu s = CPU_Z80" "\<not> altd s" "\<not> alts s" "\<not> (opc = 0x8c \<and> ih s)"
  shows "visible (exec_80_bf H opc s) = visible (decode opc s)"
  using quarter [of 128 opc, simplified, OF assms(1,2)]
  by (elim disjE)
    (use assms(3-) in \<open>simp_all add: z80_exec_80 decode_def decode_alu_def r4k_7f_op_def idx_reg_def idx_addr_def
      mem_cycles_def alu_operands time_simps self_ops self_logic visible_fin_fk visible_CP_w Let_def case_prod_beta\<close>)

lemma ADC_ticks:
  assumes "c_cpu s = CPU_Z80" "\<not> altd s" "\<not> alts s"
  shows "visible (fin (ADC b 7 s)) = visible (ticks 3 (fin (ADC b 4 s)))"
  using assms
  by (simp add: ADC_def VM1_OF_ARITH_def visible_def fin_def set_grp_def put_alu_def set_reg_def ticks_def src_a_def dst_r_def time_simps)

text \<open>C3: on a Z80 without ALTD the opcodes 0x40 to 0xbf (HALT aside) are those of the regular decoding, under
  no prefix and under DD and FD, flags, memory, clock and program counter included. Two cases of the switch
  differ: under DD, 0x65 loads IXh from IYl instead of IXl, and ADC A,H takes three ticks more.\<close>

theorem z80_regular_decoding:
  assumes "c_cpu s = CPU_Z80" "\<not> altd s" "\<not> alts s" "0x40 \<le> opc" "opc < 0xc0" "opc \<noteq> 0x76"
  shows "visible (exec_main H opc s) =
    visible (if opc = 0x65 \<and> \<not> ih s \<and> \<not> iy s then fin (set_reg rXH (regs s rYL) (ticks 4 s))
             else if opc = 0x8c \<and> ih s then ticks 3 (decode opc s)
             else decode opc s)"
proof -
  consider "opc = 0x65" "\<not> ih s" "\<not> iy s" | "opc = 0x8c" "ih s"
    | "\<not> (opc = 0x65 \<and> \<not> ih s \<and> \<not> iy s)" "\<not> (opc = 0x8c \<and> ih s)" by blast
  then show ?thesis
  proof cases
    case 1
    then show ?thesis
      using assms by (simp add: exec_main_def z80_exec_40 decode_defs time_simps load_macros)
  next
    case 2
    then show ?thesis
      using assms by (simp add: exec_main_def z80_exec_80 decode_def decode_alu_def r4k_7f_op_def idx_reg_def alu_operands
          ADC_ticks time_simps)
  next
    case 3
    then show ?thesis
      using decode_load [OF _ _ assms(1-3,6) 3(1), of H] decode_accumulator [OF _ _ assms(1-3) 3(2), of H] assms(4,5)
      by (auto simp: exec_main_def)
  qed
qed

text \<open>\<open>LD (IX+d),B\<close> on a running machine.\<close>

theorem z80_regular_decoding_witness:
  "visible (exec_main (\<lambda>f args s. s) 0x70 ((boot CPU_Z80 (\<lambda>_. 5))\<lparr>ih := False\<rparr>)) =
    visible (decode 0x70 ((boot CPU_Z80 (\<lambda>_. 5))\<lparr>ih := False\<rparr>))"
  using z80_regular_decoding [of "(boot CPU_Z80 (\<lambda>_. 5))\<lparr>ih := False\<rparr>" "0x70" "\<lambda>f args s. s"]
  by (simp add: boot_def power_on_def)

end
