(* ===== verification/Ticks_Invariant.thy ===== *)
theory Ticks_Invariant
  imports Ticks_Run
begin

text \<open>
  Invariants of the machine that depend on memory and configuration only. The locale asks for these
  laws: the property ignores the registers, flags, clock and devices and all of the host but whether the
  process has ended, and \<open>put_memory\<close> and the paging ports keep it. Inside the locale every operation of the emulator, up to a whole run, keeps it.
\<close>

named_theorems keeps \<open>the invariant after an operation\<close>

section \<open>The contract\<close>

lemma nth_list_all: "list_all Q xs \<Longrightarrow> i < length xs \<Longrightarrow> Q (xs ! i)"
  by (simp add: list_all_length)

text \<open>The result of a run is a state the run reached.\<close>

lemma reached_trans: "reached H intr start r1 r2 \<Longrightarrow> reached H intr start r0 r1 \<Longrightarrow> reached H intr start r0 r2"
  by (induction rule: reached.induct) (auto intro: reached.step)

lemma cpu_run_reached: "cpu_run H counter intr start r = Some r' \<Longrightarrow> reached H intr start r r'"
proof (erule cpu_run.raw_induct [where P = "\<lambda>H counter intr start r r'. reached H intr start r r'", rotated])
  fix run :: "handlers \<Rightarrow> int \<Rightarrow> int \<Rightarrow> int \<Rightarrow> sim \<Rightarrow> sim option" and H counter intr start r y
  assume "\<And>H counter intr start r y. run H counter intr start r = Some y \<Longrightarrow> reached H intr start r y"
    and "(let r = cpu_step H intr start r
      in if continues counter r then run H counter intr start r else Some r) = Some y"
  moreover have first: "reached H intr start r (cpu_step H intr start r)"
    by (intro reached.intros)
  ultimately show "reached H intr start r y"
    by (auto simp: Let_def first intro: reached_trans [OF _ first] split: if_splits)
qed

locale state_invariant =
  fixes P :: "cpu \<Rightarrow> bool"
  assumes fields:
    "P (s\<lparr>regs := x_regs\<rparr>) = P s" "P (s\<lparr>pregs := x_pregs\<rparr>) = P s" "P (s\<lparr>fl := x_fl\<rparr>) = P s"
    "P (s\<lparr>fl' := x_fl2\<rparr>) = P s" "P (s\<lparr>fk := x_fk\<rparr>) = P s" "P (s\<lparr>pc := x_pc\<rparr>) = P s"
    "P (s\<lparr>sp := x_sp\<rparr>) = P s" "P (s\<lparr>mp := x_mp\<rparr>) = P s" "P (s\<lparr>tt := x_tt\<rparr>) = P s"
    "P (s\<lparr>uu := x_uu\<rparr>) = P s" "P (s\<lparr>st := x_st\<rparr>) = P s" "P (s\<lparr>ih := x_ih\<rparr>) = P s"
    "P (s\<lparr>iy := x_iy\<rparr>) = P s" "P (s\<lparr>altd := x_altd\<rparr>) = P s" "P (s\<lparr>alts := x_alts\<rparr>) = P s"
    "P (s\<lparr>ioi := x_ioi\<rparr>) = P s" "P (s\<lparr>ioe := x_ioe\<rparr>) = P s" "P (s\<lparr>iff := x_iff\<rparr>) = P s"
    "P (s\<lparr>halted := x_halted\<rparr>) = P s" "P (s\<lparr>im := x_im\<rparr>) = P s" "P (s\<lparr>ear := x_ear\<rparr>) = P s"
    "P (s\<lparr>vm1_mf := x_vm1_mf\<rparr>) = P s" "P (s\<lparr>vm1_mb := x_vm1_mb\<rparr>) = P s" "P (s\<lparr>vm1_rs := x_vm1_rs\<rparr>) = P s"
    "P (s\<lparr>apu := x_apu\<rparr>) = P s"
    and terminal: "stopped h = stopped (host s) \<Longrightarrow> P (s\<lparr>host := h\<rparr>) = P s"
    and store: "P s \<Longrightarrow> P (put_mem a v s)"
    and paging: "P s \<Longrightarrow> P (memory_handle_paging port val s)"
begin

lemmas basic [keeps] = fields terminal store paging

lemma keeps_if [keeps]: "P (if c then s else s') = (if c then P s else P s')"
  by simp

lemma keeps_put_memory [keeps]: "P s \<Longrightarrow> P (snd (put_memory a v s))"
  using store [of s a v] by (simp add: put_mem_def)

lemma keeps_Flags_1 [keeps]:
  assumes "P s"
  shows "P (setf n0 s)"
  using assms by (simp_all add: setf_def
      Let_def case_prod_beta keeps split: option.split)

lemma keeps_Alu_1 [keeps]:
  assumes "P s"
  shows "P (ticks n0 s)" "P (set_reg r0 b1 s)" "P (set_grp f0 s)" "P (VM1_OF_ARITH s)" "P (VM1_OF_LOGIC s)"
    "P (VM1_OF_ONLY s)"
  using assms by (simp_all add: ticks_def set_reg_def set_grp_def VM1_OF_ARITH_def VM1_OF_LOGIC_def VM1_OF_ONLY_def
      Let_def case_prod_beta keeps split: option.split)

lemma keeps_Alu_2 [keeps]:
  assumes "P s"
  shows "P (put_alu z8wordflg0 s)" "P (CP b0 n1 s)" "P (INC r0 r1 s)" "P (DEC r0 r1 s)"
  using assms by (simp_all add: put_alu_def CP_def INC_def DEC_def
      Let_def case_prod_beta keeps split: option.split)

lemma keeps_Alu_3 [keeps]:
  assumes "P s"
  shows "P (ADD b0 n1 s)" "P (ADC b0 n1 s)" "P (SUB b0 n1 s)" "P (SBC b0 n1 s)" "P (AND_op b0 n1 s)"
    "P (XOR_op b0 n1 s)" "P (OR_op b0 n1 s)"
  using assms by (simp_all add: ADD_def ADC_def SUB_def SBC_def AND_op_def XOR_op_def OR_op_def
      Let_def case_prod_beta keeps split: option.split)

lemma keeps_Alu_4 [keeps]:
  assumes "P s"
  shows "P (TEST b0 n1 s)"
  using assms by (simp_all add: TEST_def
      Let_def case_prod_beta keeps split: option.split)

lemma keeps_set_lv [keeps]: "P s \<Longrightarrow> P (set_lv l n s)"
  by (simp add: set_lv_def keeps split: lval.split)

lemma keeps_Shift_1 [keeps]:
  assumes "P s"
  shows "P (BIT n0 r1 r2 s)" "P (BITHL n0 s)" "P (BITI n0 s)" "P (RESHL n0 s)" "P (SETHL n0 s)"
  using assms by (simp_all add: BIT_def BITHL_def BITI_def RESHL_def SETHL_def
      Let_def case_prod_beta keeps split: option.split)

lemma keeps_Shift_2 [keeps]:
  assumes "P s"
  shows "P (SLL l0 s)" "P (SWAP l0 s)" "P (RES n0 l1 l2 s)" "P (SET n0 l1 l2 s)"
  using assms by (simp_all add: SLL_def SWAP_def RES_def SET_def
      Let_def case_prod_beta keeps split: option.split)

lemma keeps_rot [keeps]:
  assumes "P s"
  shows "P (rot g0 l1 l2 s)"
  using assms by (simp add: rot_def Let_def case_prod_beta keeps)

lemma keeps_Shift_3 [keeps]:
  assumes "P s"
  shows "P (RLC l0 l1 s)" "P (RRC l0 l1 s)" "P (RL l0 l1 s)" "P (RR l0 l1 s)" "P (SLA l0 l1 s)" "P (SRA l0 l1 s)"
    "P (SRL l0 l1 s)"
  using assms by (simp_all add: RLC_def RRC_def RL_def RR_def SLA_def SRA_def SRL_def
      Let_def case_prod_beta keeps split: option.split)

lemma keeps_Load_1 [keeps]:
  assumes "P s"
  shows "P (snd (fetch s))" "P (LDRP r0 r1 r2 s)" "P (LDPR r0 r1 r2 s)" "P (LDRR r0 r1 r2 r3 n4 s)"
    "P (INCW r0 r1 s)" "P (DECW r0 r1 s)" "P (snd (step_mem w0 w1 f2 s))" "P (ADDRRRR r0 r1 r2 r3 s)"
    "P (ADDRRRR_ALTD r0 r1 r2 r3 r4 r5 s)" "P (ADDISP r0 r1 s)" "P (ADDISP_ALTD r0 r1 r2 r3 s)"
    "P (put_hl n0 w1 s)"
  using assms by (simp_all add: fetch_def LDRP_def LDPR_def LDRR_def INCW_def DECW_def step_mem_def ADDRRRR_def ADDRRRR_ALTD_def ADDISP_def ADDISP_ALTD_def put_hl_def
      Let_def case_prod_beta keeps split: option.split)

lemma keeps_Load_2 [keeps]:
  assumes "P s"
  shows "P (LDRIM r0 r1 s)" "P (LDRRIM r0 r1 s)" "P (LDRPI r0 r1 r2 s)" "P (LDPRI r0 r1 r2 s)"
    "P (LDPNNRR r0 r1 n2 s)" "P (LDPIN r0 r1 s)" "P (LDRRPNN r0 r1 n2 s)" "P (stepPI w0 r1 r2 s)"
    "P (SBCHLRR n0 n1 s)" "P (ADCHLRR n0 n1 s)" "P (SUBHLRR n0 n1 s)"
  using assms by (simp_all add: LDRIM_def LDRRIM_def LDRPI_def LDPRI_def LDPNNRR_def LDPIN_def LDRRPNN_def stepPI_def SBCHLRR_def ADCHLRR_def SUBHLRR_def
      Let_def case_prod_beta keeps split: option.split)

lemma keeps_Load_3 [keeps]:
  assumes "P s"
  shows "P (INCPI r0 r1 s)" "P (DECPI r0 r1 s)"
  using assms by (simp_all add: INCPI_def DECPI_def
      Let_def case_prod_beta keeps split: option.split)

lemma keeps_Control_1 [keeps]:
  assumes "P s"
  shows "P (rel_jump s)" "P (no_io s)" "P (push8 b0 s)" "P (snd (pop8 s))"
  using assms by (simp_all add: rel_jump_def no_io_def push8_def pop8_def
      Let_def case_prod_beta keeps split: option.split)

lemma keeps_Control_2 [keeps]:
  assumes "P s"
  shows "P (JRCI c0 s)" "P (JRC c0 s)" "P (JPCI c0 s)" "P (JPC c0 s)" "P (PUSH b0 b1 b2 b3 s)"
    "P (POP r0 r1 r2 r3 s)" "P (pop_pc s)" "P (call_nn s)" "P (RST n0 s)" "P (EXSPI r0 r1 s)"
  using assms by (simp_all add: JRCI_def JRC_def JPCI_def JPC_def PUSH_def POP_def pop_pc_def call_nn_def RST_def EXSPI_def
      Let_def case_prod_beta keeps split: option.split)

lemma keeps_Control_3 [keeps]:
  assumes "P s"
  shows "P (RET n0 s)" "P (RETC c0 s)" "P (RETCI c0 s)" "P (CALLC c0 s)" "P (CALLCI c0 s)"
  using assms by (simp_all add: RET_def RETC_def RETCI_def CALLC_def CALLCI_def
      Let_def case_prod_beta keeps split: option.split)

lemma keeps_cb_shift [keeps]: "P s \<Longrightarrow> P (cb_shift k l l' s)"
  unfolding cb_shift_def by (rule nth_list_all [where Q = "\<lambda>f. P (f l l' s)"]) (simp_all add: keeps)

lemma keeps_Cb_1 [keeps]:
  assumes "P s"
  shows "P (cb_bit k0 s)" "P (cb_res k0 s)" "P (cb_set k0 s)" "P (cbi_put k0 s)" "P (cbi_bit k0 s)"
    "P (cbi_fix k0 s)"
  using assms by (simp_all add: cb_bit_def cb_res_def cb_set_def cbi_put_def cbi_bit_def cbi_fix_def
      Let_def case_prod_beta keeps split: option.split)

lemma keeps_cb_mem [keeps]:
  assumes "P s" "\<And> s. P s \<Longrightarrow> P (g0 s)"
  shows "P (cb_mem g0 s)"
  using assms by (simp add: cb_mem_def Let_def case_prod_beta keeps)

lemma keeps_Cb_2 [keeps]:
  assumes "P s"
  shows "P (cb_rot k0 s)" "P (cbi_rot k0 s)" "P (cbi_res k0 s)" "P (cbi_set k0 s)"
  using assms by (simp_all add: cb_rot_def cbi_rot_def cbi_res_def cbi_set_def
      Let_def case_prod_beta keeps split: option.split)

lemma keeps_Cb_3 [keeps]:
  assumes "P s"
  shows "P (cb_page k0 s)" "P (cbi_page k0 s)"
  using assms by (simp_all add: cb_page_def cbi_page_def
      Let_def case_prod_beta keeps split: option.split)

lemma keeps_Cb_4 [keeps]:
  assumes "P s"
  shows "P (handle_cb_page s)"
  using assms by (simp_all add: handle_cb_page_def
      Let_def case_prod_beta keeps split: option.split)

lemma keeps_Am9511_1 [keeps]:
  assumes "P s"
  shows "P (apu_write_command b0 s)" "P (apu_write_data b0 s)" "P (snd (apu_read_data s))"
  using assms by (simp_all add: apu_write_command_def apu_write_data_def apu_read_data_def
      Let_def case_prod_beta keeps split: option.split)

lemma keeps_Am9511_2 [keeps]:
  assumes "P s"
  shows "P (snd (apu_in n0 s))"
  using assms by (simp_all add: apu_in_def
      Let_def case_prod_beta keeps split: option.split)

lemma keeps_console [keeps]:
  assumes "P s"
  shows "P (snd (getch s))" "P (snd (kbhit s))"
  using assms by (simp_all add: getch_def kbhit_def Let_def case_prod_beta keeps split: option.split list.split)

lemma keeps_device_out:
  assumes "P s"
  shows "acia_out n m s = Some s' \<Longrightarrow> P s'" "apu_out n m s = Some s' \<Longrightarrow> P s'" "hook_console_out n m s = Some s' \<Longrightarrow> P s'"
  using assms
  by (auto simp: acia_out_def apu_out_def hook_console_out_def fputc_def Let_def case_prod_beta keeps split: if_splits)

lemma keeps_out_port [keeps]: "P s \<Longrightarrow> P (out_port n m s)"
  by (auto simp: out_port_def Let_def keeps split: option.split dest: keeps_device_out)

lemma keeps_Devices_1 [keeps]:
  assumes "P s"
  shows "P (fputc n0 s)" "P (SET_ERROR n0 s)"
  using assms by (simp_all add: fputc_def SET_ERROR_def
      Let_def case_prod_beta keeps split: option.split)

lemma keeps_Devices_2 [keeps]:
  assumes "P s"
  shows "P (snd (hook_console_in n0 s))" "P (cmd_printchar s)" "P (cmd_readkey s)" "P (cmd_pollkey s)"
    "P (snd (acia_in n0 s))"
  using assms by (simp_all add: hook_console_in_def cmd_printchar_def cmd_readkey_def cmd_pollkey_def acia_in_def
      Let_def case_prod_beta keeps split: option.split)

lemma keeps_Devices_3 [keeps]:
  assumes "P s"
  shows "P (snd (in_port n0 s))"
  using assms by (simp_all add: in_port_def
      Let_def case_prod_beta keeps split: option.split)

lemma keeps_Zilog_1 [keeps]:
  assumes "P s"
  shows "P (inc_rr r0 r1 s)" "P (dec_rr r0 r1 s)" "P (repeat_insn n0 s)" "P (zilog_daa s)" "P (zilog_rld s)"
    "P (zilog_rrd s)" "P (ld_pv c0 s)" "P (INR l0 s)" "P (OUTR b0 s)" "P (UNDOCUMENTED_NEG s)"
    "P (UNDOCUMENTED_IM0 s)" "P (UNDOCUMENTED_IM1 s)" "P (UNDOCUMENTED_IM2 s)" "P (UNDOCUMENTED_RETN s)"
    "P (ld_a_special n0 n1 s)" "P (LD_R_A s)" "P (put_hl_sp n0 n1 s)" "P (LD_NN_SP s)" "P (LD_SP_NN s)"
  using assms by (simp_all add: inc_rr_def dec_rr_def repeat_insn_def zilog_daa_def zilog_rld_def zilog_rrd_def ld_pv_def INR_def OUTR_def UNDOCUMENTED_NEG_def UNDOCUMENTED_IM0_def UNDOCUMENTED_IM1_def UNDOCUMENTED_IM2_def UNDOCUMENTED_RETN_def ld_a_special_def LD_R_A_def put_hl_sp_def LD_NN_SP_def LD_SP_NN_def
      Let_def case_prod_beta keeps split: option.split)

lemma keeps_Zilog_2 [keeps]:
  assumes "P s"
  shows "P (step_rr c0 r1 r2 s)" "P (LD_A_I s)" "P (LD_A_R s)" "P (SBC_HL_SP s)" "P (ADC_HL_SP s)"
  using assms by (simp_all add: step_rr_def LD_A_I_def LD_A_R_def SBC_HL_SP_def ADC_HL_SP_def
      Let_def case_prod_beta keeps split: option.split)

lemma keeps_Zilog_3 [keeps]:
  assumes "P s"
  shows "P (cp_block c0 c1 s)" "P (in_block c0 c1 s)" "P (out_block c0 c1 s)" "P (ld_step c0 s)"
  using assms by (simp_all add: cp_block_def in_block_def out_block_def ld_step_def
      Let_def case_prod_beta keeps split: option.split)

lemma keeps_Zilog_4 [keeps]:
  assumes "P s"
  shows "P (zilog_cpi s)" "P (zilog_cpd s)" "P (zilog_cpir s)" "P (zilog_cpdr s)" "P (zilog_ini s)"
    "P (zilog_ind s)" "P (zilog_inir s)" "P (zilog_indr s)" "P (zilog_outi s)" "P (zilog_outd s)"
    "P (zilog_otir s)" "P (zilog_otdr s)" "P (ld_once c0 s)" "P (ld_repeat c0 s)"
  using assms by (simp_all add: zilog_cpi_def zilog_cpd_def zilog_cpir_def zilog_cpdr_def zilog_ini_def zilog_ind_def zilog_inir_def zilog_indr_def zilog_outi_def zilog_outd_def zilog_otir_def zilog_otdr_def ld_once_def ld_repeat_def
      Let_def case_prod_beta keeps split: option.split)

lemma keeps_Zilog_5 [keeps]:
  assumes "P s"
  shows "P (LDI s)" "P (LDD s)" "P (LDIR s)" "P (LDDR s)"
  using assms by (simp_all add: LDI_def LDD_def LDIR_def LDDR_def
      Let_def case_prod_beta keeps split: option.split)

lemma keeps_barrel [keeps]:
  assumes "P s" and step: "\<And>s. P s \<Longrightarrow> P (f s)"
  shows "P (barrel f n s)"
proof -
  have "P ((f ^^ k) s)" for k
    using assms(1) by (induction k) (simp_all add: step)
  then show ?thesis using assms(1) by (simp add: barrel_def Let_def keeps)
qed

lemma keeps_Z80n_1 [keeps]:
  assumes "P s"
  shows "P (z80n_mirror s)" "P (z80n_outinb s)" "P (z80n_nextreg_8_8 s)" "P (z80n_nextreg_8_a s)"
    "P (z80n_ldws s)" "P (z80n_ldpirx s)" "P (ldx_step c0 s)" "P (put_pair r0 r1 n2 s)" "P (z80n_push_mn s)"
  using assms by (simp_all add: z80n_mirror_def z80n_outinb_def z80n_nextreg_8_8_def z80n_nextreg_8_a_def z80n_ldws_def z80n_ldpirx_def ldx_step_def put_pair_def z80n_push_mn_def
      Let_def case_prod_beta keeps split: option.split)

lemma keeps_Z80n_2 [keeps]:
  assumes "P s"
  shows "P (ldx_once c0 s)" "P (ldx_repeat c0 s)" "P (z80n_mul_d_e s)" "P (z80n_add_rr_a r0 r1 s)"
    "P (z80n_add_rr_mn r0 r1 s)" "P (BSLA_DE_B s)" "P (BSRA_DE_B s)" "P (BSRL_DE_B s)" "P (BSRF_DE_B s)"
    "P (BRLC_DE_B s)"
  using assms by (simp_all add: ldx_once_def ldx_repeat_def z80n_mul_d_e_def z80n_add_rr_a_def z80n_add_rr_mn_def BSLA_DE_B_def BSRA_DE_B_def BSRL_DE_B_def BSRF_DE_B_def BRLC_DE_B_def
      Let_def case_prod_beta keeps split: option.split)

lemma keeps_Z80n_3 [keeps]:
  assumes "P s"
  shows "P (z80n_ldix s)" "P (z80n_lddx s)" "P (z80n_ldirx s)" "P (z80n_lddrx s)" "P (z80n_add_hl_a s)"
    "P (z80n_add_de_a s)" "P (z80n_add_bc_a s)" "P (z80n_add_hl_mn s)" "P (z80n_add_de_mn s)"
    "P (z80n_add_bc_mn s)"
  using assms by (simp_all add: z80n_ldix_def z80n_lddx_def z80n_ldirx_def z80n_lddrx_def z80n_add_hl_a_def z80n_add_de_a_def z80n_add_bc_a_def z80n_add_hl_mn_def z80n_add_de_mn_def z80n_add_bc_mn_def
      Let_def case_prod_beta keeps split: option.split)

lemma keeps_Small_1 [keeps]:
  assumes "P s"
  shows "P (gbz80_ld_inm_sp s)" "P (gbz80_add_sp_d s)" "P (gbz80_ld_hl_spd s)" "P (gbz80_ld_inm_a s)"
    "P (gbz80_ld_a_inm s)" "P (mlt_pair r0 r1 s)" "P (z180_otim s)" "P (z180_otdm s)" "P (z180_otimr s)"
    "P (z180_otdmr s)" "P (z180_slp s)" "P (z180_in0 s)" "P (z180_out0 s)" "P (r800_mulub n0 s)"
    "P (r800_muluw n0 s)"
  using assms by (simp_all add: gbz80_ld_inm_sp_def gbz80_add_sp_d_def gbz80_ld_hl_spd_def gbz80_ld_inm_a_def gbz80_ld_a_inm_def mlt_pair_def z180_otim_def z180_otdm_def z180_otimr_def z180_otdmr_def z180_slp_def z180_in0_def z180_out0_def r800_mulub_def r800_muluw_def
      Let_def case_prod_beta keeps split: option.split)

lemma keeps_Small_2 [keeps]:
  assumes "P s"
  shows "P (z180_mlt n0 s)"
  using assms by (simp_all add: z180_mlt_def
      Let_def case_prod_beta keeps split: option.split)

lemma keeps_I8085_1 [keeps]:
  assumes "P s"
  shows "P (i8085_SUBHLRR n0 n1 s)" "P (i8085_rim s)" "P (i8085_sim s)" "P (i8085_rstv s)" "P (i8085_ld_de_hln s)"
    "P (i8085_ld_de_spn s)" "P (i8085_ld_hl_ide s)" "P (i8085_ld_ide_hl s)" "P (i8085_rl_de s)"
    "P (i8085_sra_hl s)"
  using assms by (simp_all add: i8085_SUBHLRR_def i8085_rim_def i8085_sim_def i8085_rstv_def i8085_ld_de_hln_def i8085_ld_de_spn_def i8085_ld_hl_ide_def i8085_ld_ide_hl_def i8085_rl_de_def i8085_sra_hl_def
      Let_def case_prod_beta keeps split: option.split)

lemma keeps_I8085_2 [keeps]:
  assumes "P s"
  shows "P (i8085_sub_hl_bc s)"
  using assms by (simp_all add: i8085_sub_hl_bc_def
      Let_def case_prod_beta keeps split: option.split)

lemma keeps_Vm1_1 [keeps]:
  assumes "P s"
  shows "P (vm1_setflags n0 n1 s)" "P (vm1_memop n0 s)" "P (vm1_lhlx s)" "P (vm1_shlx s)" "P (vm1_jof s)"
    "P (vm1_smf n0 s)" "P (vm1_swap_hl s)" "P (vm1_mb_prefix s)"
  using assms by (simp_all add: vm1_setflags_def vm1_memop_def vm1_lhlx_def vm1_shlx_def vm1_jof_def vm1_smf_def vm1_swap_hl_def vm1_mb_prefix_def
      Let_def case_prod_beta keeps split: option.split)

lemma keeps_Vm1_2 [keeps]:
  assumes "P s"
  shows "P (vm1_dsub b0 b1 s)" "P (vm1_dcmp b0 b1 s)" "P (vm1_dadc b0 b1 s)" "P (vm1_rs_prefix s)"
    "P (vm1_prefix_step s)"
  using assms by (simp_all add: vm1_dsub_def vm1_dcmp_def vm1_dadc_def vm1_rs_prefix_def vm1_prefix_step_def
      Let_def case_prod_beta keeps split: option.split)

lemma keeps_Main1_1 [keeps]:
  assumes "P s"
  shows "P (fin s)" "P (snd (fetch16 s))" "P (kc_extra s)" "P (op_halt s)" "P (op_step_hl w0 s)"
    "P (op_ld_hl_n s)"
  using assms by (simp_all add: fin_def fetch16_def kc_extra_def op_halt_def op_step_hl_def op_ld_hl_n_def
      Let_def case_prod_beta keeps split: option.split)

lemma keeps_xy [keeps]:
  assumes "P s" "\<And> s. P s \<Longrightarrow> P (g0 s)" "\<And> s. P s \<Longrightarrow> P (g1 s)" "\<And> s. P s \<Longrightarrow> P (g2 s)"
  shows "P (xy g0 g1 g2 s)"
  using assms by (simp add: xy_def Let_def case_prod_beta keeps)

lemma keeps_xy_half [keeps]:
  assumes "P s" "\<And> s. P s \<Longrightarrow> P (g0 s)" "\<And> s. P s \<Longrightarrow> P (g1 s)" "\<And> s. P s \<Longrightarrow> P (g2 s)"
  shows "P (xy_half g0 g1 g2 s)"
  using assms by (simp add: xy_half_def Let_def case_prod_beta keeps)

lemma keeps_timed [keeps]:
  assumes "P s" "\<And> s. P s \<Longrightarrow> P (g1 s)"
  shows "P (timed n0 g1 s)"
  using assms by (simp add: timed_def Let_def case_prod_beta keeps)

lemma keeps_rot_acc [keeps]:
  assumes "P s"
  shows "P (rot_acc g0 s)"
  using assms by (simp add: rot_acc_def Let_def case_prod_beta keeps)

lemma keeps_add_alt [keeps]:
  assumes "P s" "\<And> s. P s \<Longrightarrow> P (g0 s)" "\<And> s. P s \<Longrightarrow> P (g1 s)"
  shows "P (add_alt g0 g1 s)"
  using assms by (simp add: add_alt_def Let_def case_prod_beta keeps)

lemma keeps_Main1_2 [keeps]:
  assumes "P s"
  shows "P (op_nop s)" "P (op_ld_nn_hl s)" "P (op_ld_hl_nn s)" "P (op_ld_a_nn s)" "P (op_inc_rr n0 s)"
    "P (op_add_hl n0 s)" "P (op_jr s)" "P (op_jr_nz n0 s)" "P (op_jr_z s)" "P (op_jr_nc n0 s)" "P (op_jr_c s)"
    "P (op_ex_af s)" "P (op_djnz n0 s)"
  using assms by (simp_all add: op_nop_def op_ld_nn_hl_def op_ld_hl_nn_def op_ld_a_nn_def op_inc_rr_def op_add_hl_def op_jr_def op_jr_nz_def op_jr_z_def op_jr_nc_def op_jr_c_def op_ex_af_def op_djnz_def
      Let_def case_prod_beta keeps split: option.split)

lemma keeps_r4k_7f_op [keeps]: "P s \<Longrightarrow> P (r4k_7f_op k b n s)"
  unfolding r4k_7f_op_def by (rule nth_list_all [where Q = "\<lambda>f. P (f b n s)"]) (simp_all add: keeps nat_less_iff)

lemma keeps_Page7f_1 [keeps]:
  assumes "P s"
  shows "P (add_aa n0 s)" "P (adc_aa n0 s)" "P (sub_aa n0 s)" "P (sbc_aa n0 s)" "P (and_aa n0 s)"
    "P (xor_aa n0 s)" "P (or_aa n0 s)" "P (cp_aa b0 n1 s)" "P (r4k_7f_ld n0 s)"
  using assms by (simp_all add: add_aa_def adc_aa_def sub_aa_def sbc_aa_def and_aa_def xor_aa_def or_aa_def cp_aa_def r4k_7f_ld_def
      Let_def case_prod_beta keeps split: option.split)

lemma keeps_r4k_7f_self [keeps]: "P s \<Longrightarrow> P (r4k_7f_self k n s)"
  unfolding r4k_7f_self_def by (rule nth_list_all [where Q = "\<lambda>f. P (f n s)"]) (simp_all add: keeps nat_less_iff)

lemma keeps_Page7f_3 [keeps]:
  assumes "P s"
  shows "P (r4k_7f_alu n0 s)"
  using assms by (simp_all add: r4k_7f_alu_def
      Let_def case_prod_beta keeps split: option.split)

lemma keeps_Page7f_4 [keeps]:
  assumes "P s"
  shows "P (handle_r4k_7f_page s)"
  using assms by (simp_all add: handle_r4k_7f_page_def
      Let_def case_prod_beta keeps split: option.split)

lemma keeps_Main2_1 [keeps]:
  assumes "P s"
  shows "P (RABBIT4k_UNDEFINED s)" "P (LD_r_r r0 r1 r2 r3 s)" "P (LD_r_half r0 r1 r2 r3 s)" "P (LD_r_mem r0 s)"
    "P (LD_r_mem_alt r0 r1 s)" "P (LD_mem_r r0 s)"
  using assms by (simp_all add: RABBIT4k_UNDEFINED_def LD_r_r_def LD_r_half_def LD_r_mem_def LD_r_mem_alt_def LD_mem_r_def
      Let_def case_prod_beta keeps split: option.split)

lemma keeps_r4k_pair_shift [keeps]:
  assumes "P s" "\<And> s. P s \<Longrightarrow> P (g0 s)"
  shows "P (r4k_pair_shift g0 s)"
  using assms by (simp add: r4k_pair_shift_def Let_def case_prod_beta keeps)

lemma keeps_Main2_2 [keeps]:
  assumes "P s"
  shows "P (op_ld_mem n0 s)"
  using assms by (simp_all add: op_ld_mem_def
      Let_def case_prod_beta keeps split: option.split)

lemma keeps_not_r4k [keeps]:
  assumes "P s" "\<And> s. P s \<Longrightarrow> P (g0 s)"
  shows "P (not_r4k g0 s)"
  using assms by (simp add: not_r4k_def Let_def case_prod_beta keeps)

lemma keeps_Main3_1 [keeps]:
  assumes "P s"
  shows "P (r4k_jr c0 s)" "P (r4k_jp c0 s)" "P (r4k_ld_bc_hl s)" "P (r4k_clr_hl s)" "P (CP_w b0 n1 s)"
  using assms by (simp_all add: r4k_jr_def r4k_jp_def r4k_ld_bc_hl_def r4k_clr_hl_def CP_w_def
      Let_def case_prod_beta keeps split: option.split)

lemma keeps_ALU_r [keeps]:
  assumes "P s" "\<And>y0 y1 s. P s \<Longrightarrow> P (g0 y0 y1 s)"
  shows "P (ALU_r g0 r1 s)"
  using assms by (simp add: ALU_r_def Let_def case_prod_beta keeps)

lemma keeps_ALU_half [keeps]:
  assumes "P s" "\<And>y0 y1 s. P s \<Longrightarrow> P (g0 y0 y1 s)"
  shows "P (ALU_half g0 r1 s)"
  using assms by (simp add: ALU_half_def Let_def case_prod_beta keeps)

lemma keeps_ALU_self [keeps]:
  assumes "P s" "\<And>y0 s. P s \<Longrightarrow> P (g0 y0 s)"
  shows "P (ALU_self g0 s)"
  using assms by (simp add: ALU_self_def Let_def case_prod_beta keeps)

lemma keeps_ALU_hl [keeps]:
  assumes "P s" "\<And>y0 y1 s. P s \<Longrightarrow> P (g0 y0 y1 s)"
  shows "P (ALU_hl g0 s)"
  using assms by (simp add: ALU_hl_def Let_def case_prod_beta keeps)

lemma keeps_ALU_indexed [keeps]:
  assumes "P s" "\<And>y0 y1 s. P s \<Longrightarrow> P (g0 y0 y1 s)"
  shows "P (ALU_indexed g0 r1 r2 s)"
  using assms by (simp add: ALU_indexed_def Let_def case_prod_beta keeps)

lemma keeps_rabbit4 [keeps]:
  assumes "P s" "\<And> s. P s \<Longrightarrow> P (g0 s)" "\<And> s. P s \<Longrightarrow> P (g1 s)"
  shows "P (rabbit4 g0 g1 s)"
  using assms by (simp add: rabbit4_def Let_def case_prod_beta keeps)

lemma keeps_rabbit4_ih [keeps]:
  assumes "P s" "\<And> s. P s \<Longrightarrow> P (g0 s)" "\<And> s. P s \<Longrightarrow> P (g1 s)"
  shows "P (rabbit4_ih g0 g1 s)"
  using assms by (simp add: rabbit4_ih_def Let_def case_prod_beta keeps)

lemma keeps_ALU_h [keeps]:
  assumes "P s" "\<And>y0 y1 s. P s \<Longrightarrow> P (g0 y0 y1 s)"
  shows "P (ALU_h g0 s)"
  using assms by (simp add: ALU_h_def Let_def case_prod_beta keeps)

lemma keeps_ALU_l [keeps]:
  assumes "P s" "\<And>y0 y1 s. P s \<Longrightarrow> P (g0 y0 y1 s)"
  shows "P (ALU_l g0 s)"
  using assms by (simp add: ALU_l_def Let_def case_prod_beta keeps)

lemma keeps_ALU_mem [keeps]:
  assumes "P s" "\<And>y0 y1 s. P s \<Longrightarrow> P (g0 y0 y1 s)"
  shows "P (ALU_mem g0 s)"
  using assms by (simp add: ALU_mem_def Let_def case_prod_beta keeps)

lemma keeps_Ed_1 [keeps]:
  assumes "P s"
  shows "P (nop8 s)" "P (nop48 s)" "P (ed_tst r0 s)" "P (z80n_tst_n s)" "P (z180_tst_hl s)"
    "P (ld_alt_pair r0 r1 r2 r3 r4 r5 s)" "P (OUTR_r r0 s)" "P (LDPNNRR_ed r0 r1 s)" "P (LDRRPNN_ed r0 r1 s)"
    "P (op_neg s)" "P (op_im k0 s)" "P (z180_tst_n s)" "P (op_ld_i_a s)" "P (op_reti s)"
    "P (RABBIT_UNDEFINED n0 s)" "P (r4k_call_hl s)"
  using assms by (simp_all add: nop8_def nop48_def ed_tst_def z80n_tst_n_def z180_tst_hl_def ld_alt_pair_def OUTR_r_def LDPNNRR_ed_def LDRRPNN_ed_def op_neg_def op_im_def z180_tst_n_def op_ld_i_a_def op_reti_def RABBIT_UNDEFINED_def r4k_call_hl_def
      Let_def case_prod_beta keeps split: option.split)

lemma keeps_Main4_1 [keeps]:
  assumes "P s"
  shows "P (gbz80_ldh_n_a s)" "P (gbz80_ldh_a_n s)" "P (pop_af s)" "P (PUSH_r r0 r1 r2 r3 s)" "P (jp_nn s)"
    "P (jp_hl s)" "P (op_call_nn s)" "P (op_out_n s)" "P (op_in_n s)" "P (op_di s)" "P (op_ei s)"
    "P (exchange r0 r1 s)" "P (op_ld_sp_hl s)" "P (op_cb s)"
  using assms by (simp_all add: gbz80_ldh_n_a_def gbz80_ldh_a_n_def pop_af_def PUSH_r_def jp_nn_def jp_hl_def op_call_nn_def op_out_n_def op_in_n_def op_di_def op_ei_def exchange_def op_ld_sp_hl_def op_cb_def
      Let_def case_prod_beta keeps split: option.split)

lemma keeps_ALU_n [keeps]:
  assumes "P s" "\<And>y0 y1 s. P s \<Longrightarrow> P (g0 y0 y1 s)"
  shows "P (ALU_n g0 s)"
  using assms by (simp add: ALU_n_def Let_def case_prod_beta keeps)

lemma keeps_r4k_under [keeps]:
  assumes "P s" "\<And> s. P s \<Longrightarrow> P (g0 s)" "\<And> s. P s \<Longrightarrow> P (g1 s)"
  shows "P (r4k_under g0 g1 s)"
  using assms by (simp add: r4k_under_def Let_def case_prod_beta keeps)

lemma keeps_Main4_2 [keeps]:
  assumes "P s"
  shows "P (op_ret n0 s)" "P (op_ex_de_hl s)" "P (op_exx s)" "P (op_ex_sp_hl s)"
  using assms by (simp_all add: op_ret_def op_ex_de_hl_def op_exx_def op_ex_sp_hl_def
      Let_def case_prod_beta keeps split: option.split)

lemma keeps_Run_1 [keeps]:
  assumes "P s"
  shows "P (take_interrupt s)" "P (snd (fetch_opcode s))"
  using assms by (simp_all add: take_interrupt_def fetch_opcode_def
      Let_def case_prod_beta keeps split: option.split)

end

section \<open>With the instruction files\<close>

locale machine_invariant = state_invariant +
  fixes H :: handlers
  assumes handlers: "P s \<Longrightarrow> P (H f args s)"
begin

lemmas handlers_keep [keeps] = handlers

lemma keeps_Main1_2h [keeps]:
  assumes "P s"
  shows "P (op_ld_rr_nn H n1 s)" "P (op_ld_nn_a H n1 s)" "P (op_ld_acc H n1 s)" "P (op_dec_rr H n1 s)"
    "P (op_inc8 H n1 s)" "P (op_dec8 H n1 s)" "P (op_ld_r_n H n1 s)" "P (op_rlca H n1 s)" "P (op_rrca H n1 s)"
    "P (op_rla H n1 s)" "P (op_rra H n1 s)" "P (op_daa H n1 s)" "P (op_cpl H n1 s)" "P (op_scf H n1 s)"
    "P (op_ccf H n1 s)"
  using assms by (simp_all add: op_ld_rr_nn_def op_ld_nn_a_def op_ld_acc_def op_dec_rr_def op_inc8_def op_dec8_def op_ld_r_n_def op_rlca_def op_rrca_def op_rla_def op_rra_def op_daa_def op_cpl_def op_scf_def op_ccf_def
      Let_def case_prod_beta keeps split: option.split)

lemma keeps_Main1_3h [keeps]:
  assumes "P s"
  shows "P (exec_00_3f H n1 s)"
  using assms by (simp_all add: exec_00_3f_def
      Let_def case_prod_beta keeps split: option.split)

lemma keeps_Main2_1h [keeps]:
  assumes "P s"
  shows "P (op_7f H n1 s)"
  using assms by (simp_all add: op_7f_def
      Let_def case_prod_beta keeps split: option.split)

lemma keeps_Main2_2h [keeps]:
  assumes "P s"
  shows "P (op_6d H n1 s)" "P (op_ld_h H n1 s)" "P (op_ld_a H n1 s)"
  using assms by (simp_all add: op_6d_def op_ld_h_def op_ld_a_def
      Let_def case_prod_beta keeps split: option.split)

lemma keeps_Main2_3h [keeps]:
  assumes "P s"
  shows "P (op_64 H n1 s)" "P (op_ld_b H n1 s)" "P (op_ld_c H n1 s)" "P (op_ld_d H n1 s)" "P (op_ld_e H n1 s)"
    "P (op_ld_l H n1 s)"
  using assms by (simp_all add: op_64_def op_ld_b_def op_ld_c_def op_ld_d_def op_ld_e_def op_ld_l_def
      Let_def case_prod_beta keeps split: option.split)

lemma keeps_Main2_4h [keeps]:
  assumes "P s"
  shows "P (op_5b H n1 s)"
  using assms by (simp_all add: op_5b_def
      Let_def case_prod_beta keeps split: option.split)

lemma keeps_Main2_5h [keeps]:
  assumes "P s"
  shows "P (op_52 H n1 s)"
  using assms by (simp_all add: op_52_def
      Let_def case_prod_beta keeps split: option.split)

lemma keeps_Main2_6h [keeps]:
  assumes "P s"
  shows "P (op_49 H n1 s)"
  using assms by (simp_all add: op_49_def
      Let_def case_prod_beta keeps split: option.split)

lemma keeps_Main2_7h [keeps]:
  assumes "P s"
  shows "P (op_40 H n1 s)"
  using assms by (simp_all add: op_40_def
      Let_def case_prod_beta keeps split: option.split)

lemma keeps_Main2_8h [keeps]:
  assumes "P s"
  shows "P (exec_40_7f H n1 s)"
  using assms by (simp_all add: exec_40_7f_def
      Let_def case_prod_beta keeps split: option.split)

lemma keeps_Main3_1h [keeps]:
  assumes "P s"
  shows "P (r4k_ld_pd H n1 s)"
  using assms by (simp_all add: r4k_ld_pd_def
      Let_def case_prod_beta keeps split: option.split)

lemma keeps_r4k_ldl_xy [keeps]:
  assumes "P s" "\<And> s. P s \<Longrightarrow> P (g2 s)"
  shows "P (r4k_ldl_xy H n1 g2 s)"
  using assms by (simp add: r4k_ldl_xy_def Let_def case_prod_beta keeps)

lemma keeps_r4k_ldl_hl_de [keeps]:
  assumes "P s" "\<And> s. P s \<Longrightarrow> P (g2 s)"
  shows "P (r4k_ldl_hl_de H n1 g2 s)"
  using assms by (simp add: r4k_ldl_hl_de_def Let_def case_prod_beta keeps)

lemma keeps_r4k_r32_or [keeps]:
  assumes "P s" "\<And> s. P s \<Longrightarrow> P (g3 s)"
  shows "P (r4k_r32_or H q1 n2 g3 s)"
  using assms by (simp add: r4k_r32_or_def Let_def case_prod_beta keeps)

lemma keeps_rabbit64 [keeps]:
  assumes "P s" "\<And> s. P s \<Longrightarrow> P (g3 s)" "\<And> s. P s \<Longrightarrow> P (g4 s)"
  shows "P (rabbit64 H q1 n2 g3 g4 s)"
  using assms by (simp add: rabbit64_def Let_def case_prod_beta keeps)

lemma keeps_Main3_3h [keeps]:
  assumes "P s"
  shows "P (op_add_a H n1 s)" "P (op_adc_a H n1 s)" "P (op_sub H n1 s)" "P (op_sbc_a H n1 s)" "P (op_and H n1 s)"
    "P (op_xor H n1 s)" "P (op_or H n1 s)" "P (op_cp H n1 s)"
  using assms by (simp_all add: op_add_a_def op_adc_a_def op_sub_def op_sbc_a_def op_and_def op_xor_def op_or_def op_cp_def
      Let_def case_prod_beta keeps split: option.split)

lemma keeps_Main3_4h [keeps]:
  assumes "P s"
  shows "P (exec_80_bf H n1 s)"
  using assms by (simp_all add: exec_80_bf_def
      Let_def case_prod_beta keeps split: option.split)

lemma keeps_Hc [keeps]:
  assumes "P s"
  shows "P (Hc H q1 n2 g3 s)"
  using assms by (simp add: Hc_def Let_def case_prod_beta keeps)

lemma keeps_Ed_2h [keeps]:
  assumes "P s"
  shows "P (ed_00_1f H n1 s)" "P (ed_20_3f H n1 s)" "P (ed_io16 H n1 s)" "P (ed_misc H n1 s)"
    "P (ed_80_9f H n1 s)" "P (ed_c3 H n1 s)" "P (ed_e0_ff H n1 s)"
  using assms by (simp_all add: ed_00_1f_def ed_20_3f_def ed_io16_def ed_misc_def ed_80_9f_def ed_c3_def ed_e0_ff_def
      Let_def case_prod_beta keeps split: option.split)

lemma keeps_ed_block [keeps]:
  assumes "P s" "\<And> s. P s \<Longrightarrow> P (g4 s)"
  shows "P (ed_block H q1 g2 n3 g4 s)"
  using assms by (simp add: ed_block_def Let_def case_prod_beta keeps)

lemma keeps_Ed_3h [keeps]:
  assumes "P s"
  shows "P (ed_a0_bf H n1 s)" "P (ed_c0_df H n1 s)"
  using assms by (simp_all add: ed_a0_bf_def ed_c0_df_def
      Let_def case_prod_beta keeps split: option.split)

lemma keeps_Ed_4h [keeps]:
  assumes "P s"
  shows "P (ed_page H n1 s)"
  using assms by (simp_all add: ed_page_def
      Let_def case_prod_beta keeps split: option.split)

lemma keeps_Ed_5h [keeps]:
  assumes "P s"
  shows "P (handle_ed_page H s)"
  using assms by (simp_all add: handle_ed_page_def
      Let_def case_prod_beta keeps split: option.split)

lemma keeps_Main4_1h [keeps]:
  assumes "P s"
  shows "P (op_dd H n1 s)" "P (op_fd H n1 s)" "P (op_ed H n1 s)"
  using assms by (simp_all add: op_dd_def op_fd_def op_ed_def
      Let_def case_prod_beta keeps split: option.split)

lemma keeps_Main4_2h [keeps]:
  assumes "P s"
  shows "P (op_pop H n1 s)" "P (op_push H n1 s)" "P (op_jp H n1 s)" "P (op_call H n1 s)" "P (op_alu_n H n1 s)"
    "P (op_rst H n1 s)"
  using assms by (simp_all add: op_pop_def op_push_def op_jp_def op_call_def op_alu_n_def op_rst_def
      Let_def case_prod_beta keeps split: option.split)

lemma keeps_Main4_3h [keeps]:
  assumes "P s"
  shows "P (exec_c0_ff H n1 s)"
  using assms by (simp_all add: exec_c0_ff_def
      Let_def case_prod_beta keeps split: option.split)

lemma keeps_Run_1h [keeps]:
  assumes "P s"
  shows "P (exec_main H n1 s)"
  using assms by (simp_all add: exec_main_def
      Let_def case_prod_beta keeps split: option.split)

lemma keeps_Run_2h [keeps]:
  assumes "P s"
  shows "P (instruction H s)"
  using assms by (simp_all add: instruction_def
      Let_def case_prod_beta keeps split: option.split)

section \<open>Runs\<close>

lemma keeps_interrupt [keeps]: "P s \<Longrightarrow> P (take_interrupt s)"
  by (simp add: take_interrupt_def Let_def keeps)

lemma keeps_poll: "P (cpu r) \<Longrightarrow> P (cpu (poll_interrupt intr (at_start intr start r)))"
  by (simp add: poll_interrupt_def at_start_def keeps)

lemma keeps_cpu_step: "P (cpu r) \<Longrightarrow> P (cpu (cpu_step H intr start r))"
  by (simp add: cpu_step_def keeps_poll keeps Let_def)

lemma keeps_reached: "reached H intr start r r' \<Longrightarrow> P (cpu r) \<Longrightarrow> P (cpu r')"
  by (induction rule: reached.induct) (simp_all add: keeps_cpu_step)

lemma keeps_run: "cpu_run H counter intr start r = Some r' \<Longrightarrow> P (cpu r) \<Longrightarrow> P (cpu r')"
  by (blast intro: keeps_reached cpu_run_reached)

end

end
