(* ===== verification/Ticks_Ends.thy ===== *)
theory Ticks_Ends
  imports Ticks_Cycles Ticks_Invariant
begin

text \<open>
  On a Z80 the tick limit of \<open>cpu_run\<close> ends every run: every instruction but a hook call takes time, and
  none of them calls a function of another processor's instruction file.
\<close>

section \<open>The Z80 stays in its own file\<close>

lemma same_00_3f:
  assumes "0 \<le> opc" "opc < 64" "c_cpu s = CPU_Z80"
  shows "exec_00_3f H opc s = exec_00_3f H' opc s"
  using quarter [of 0 opc, simplified, OF assms(1,2)]
  by (elim disjE) (use assms(3-) in \<open>simp_all add: z80_exec_00 time_simps\<close>)

lemma same_40_7f:
  assumes "64 \<le> opc" "opc < 128" "c_cpu s = CPU_Z80"
  shows "exec_40_7f H opc s = exec_40_7f H' opc s"
  using quarter [of 64 opc, simplified, OF assms(1,2)]
  by (elim disjE) (use assms(3-) in \<open>simp_all add: z80_exec_40 time_simps\<close>)

lemma same_80_bf:
  assumes "128 \<le> opc" "opc < 192" "c_cpu s = CPU_Z80"
  shows "exec_80_bf H opc s = exec_80_bf H' opc s"
  using quarter [of 128 opc, simplified, OF assms(1,2)]
  by (elim disjE) (use assms(3-) in \<open>simp_all add: z80_exec_80 time_simps\<close>)

lemma same_c0_ff:
  assumes "192 \<le> opc" "opc < 256" "c_cpu s = CPU_Z80" "opc \<noteq> 0xed"
  shows "exec_c0_ff H opc s = exec_c0_ff H' opc s"
  using quarter [of 192 opc, simplified, OF assms(1,2)]
  by (elim disjE) (use assms(3-) in \<open>simp_all add: z80_exec_c0 op_dd_def op_fd_def time_simps\<close>)

lemma same_ed_00:
  assumes "0 \<le> opc" "opc < 64" "c_cpu s = CPU_Z80"
  shows "ed_page H opc s = ed_page H' opc s"
  using quarter [of 0 opc, simplified, OF assms(1,2)]
  by (elim disjE) (use assms(3-) in \<open>simp_all add: z80_ed time_simps\<close>)

lemma same_ed_40:
  assumes "64 \<le> opc" "opc < 128" "c_cpu s = CPU_Z80"
  shows "ed_page H opc s = ed_page H' opc s"
  using quarter [of 64 opc, simplified, OF assms(1,2)]
  by (elim disjE) (use assms(3-) in \<open>simp_all add: z80_ed time_simps\<close>)

lemma same_ed_80:
  assumes "128 \<le> opc" "opc < 192" "c_cpu s = CPU_Z80"
  shows "ed_page H opc s = ed_page H' opc s"
  using quarter [of 128 opc, simplified, OF assms(1,2)]
  by (elim disjE) (use assms(3-) in \<open>simp_all add: z80_ed time_simps\<close>)

lemma same_ed_c0:
  assumes "192 \<le> opc" "opc < 256" "c_cpu s = CPU_Z80" "opc \<notin> {0xfd, 0xfe}"
  shows "ed_page H opc s = ed_page H' opc s"
  using quarter [of 192 opc, simplified, OF assms(1,2)]
  by (elim disjE) (use assms(3-) in \<open>simp_all add: z80_ed time_simps\<close>)

lemma same_ed:
  assumes "c_cpu s = CPU_Z80" "get_memory_inst (uint (pc s)) s \<notin> {0xfd, 0xfe}"
  shows "handle_ed_page H s = handle_ed_page H' s"
proof -
  let ?o = "uint (get_memory_inst (uint (pc s)) s)"
  define s1 where "s1 = snd (fetch (set_reg rR (regs s rR + 1) s))"
  have z: "c_cpu s1 = CPU_Z80" using assms(1) by (simp add: s1_def fetch_def set_reg_def Let_def)
  have b: "0 \<le> ?o" "?o < 256" using uint8_bound by auto
  have n: "?o \<notin> {0xfd, 0xfe}" using assms(2) by (auto simp: word_uint_eq_iff)
  have "ed_page H ?o s1 = ed_page H' ?o s1"
    using same_ed_00 [OF _ _ z] same_ed_40 [OF _ _ z] same_ed_80 [OF _ _ z] same_ed_c0 [OF _ _ z n] b by (meson not_le)
  then show ?thesis by (simp add: handle_ed_page_def Let_def fetch_def set_reg_def s1_def)
qed

lemma same_instruction:
  assumes "c_cpu s = CPU_Z80" "\<not> hook_insn s"
  shows "instruction H s = instruction H' s"
proof -
  define s1 where "s1 = (set_reg rR (regs s rR + 1) s)\<lparr>pc := pc s + 1\<rparr>"
  have s1: "c_cpu s1 = CPU_Z80" "pc s1 = pc s + 1" "get_memory_inst a s1 = get_memory_inst a s" for a
    using assms by (simp_all add: s1_def set_reg_def)
  let ?o = "uint (get_memory_inst (uint (pc s)) s)"
  have f: "fetch_opcode s = (?o, s1)" by (simp add: fetch_opcode_def Let_def fetch_def s1_def set_reg_def)
  have b: "0 \<le> ?o" "?o < 256" using uint8_bound by auto
  have ed: "exec_c0_ff H 0xed s1 = exec_c0_ff H' 0xed s1" if "?o = 0xed"
  proof -
    have "get_memory_inst (uint (pc s)) s = 0xed" using that by (simp add: word_uint_eq_iff)
    then have "get_memory_inst (uint (pc s1)) s1 \<notin> {0xfd, 0xfe}" using assms(2) s1 by (simp add: hook_insn_def)
    from same_ed [OF s1(1) this, of H H'] show ?thesis using s1(1) by (simp add: exec_c0_ff_def op_ed_def Let_def time_simps)
  qed
  have "exec_main H ?o s1 = exec_main H' ?o s1"
    using same_00_3f [OF _ _ s1(1)] same_40_7f [OF _ _ s1(1)] same_80_bf [OF _ _ s1(1)]
      same_c0_ff [OF _ _ s1(1)] ed b by (cases "?o = 0xed") (simp_all add: exec_main_def)
  then show ?thesis by (simp add: instruction_def f)
qed

text \<open>So no instruction of a Z80 but the hook ends the process: the contract of \<open>Ticks_Invariant\<close>, met by
  \<open>stopped = None\<close> with no instruction file at all.\<close>

definition running :: "cpu \<Rightarrow> bool" where
  "running s \<longleftrightarrow> stopped (host s) = None"

lemma paging_host: "host (memory_handle_paging port v s) = host s"
  by (simp add: memory_handle_paging_def zxn_handle_out_def zx_handle_out_def z180_handle_out_def msx_handle_out_def
      Let_def split: mem_model.split)

interpretation alone: machine_invariant running "\<lambda>f args s. s"
  by unfold_locales (simp_all add: running_def paging_host)

section \<open>Runs end\<close>

lemma at_start_cpu: "c_cpu (cpu (at_start i a r)) = c_cpu (cpu r)" "altd (cpu (at_start i a r)) = altd (cpu r)"
  "end_pc (at_start i a r) = end_pc r" "uint (pc (cpu r)) \<noteq> a \<Longrightarrow> at_start i a r = r"
  by (simp_all add: at_start_def)

lemma take_interrupt_cpu: "c_cpu (take_interrupt s) = c_cpu s" "altd (take_interrupt s) = altd s" "st s < st (take_interrupt s)"
  by (simp_all add: take_interrupt_def push8_def set_reg_def ticks_def Let_def)

lemma poll_cpu: "c_cpu (cpu (poll_interrupt i r)) = c_cpu (cpu r)" "altd (cpu (poll_interrupt i r)) = altd (cpu r)"
  "end_pc (poll_interrupt i r) = end_pc r" "st (cpu r) \<le> st (cpu (poll_interrupt i r))"
  by (simp_all add: poll_interrupt_def take_interrupt_cpu less_imp_le [OF take_interrupt_cpu(3)])

text \<open>The machine at the fetch of an iteration.\<close>

definition at_fetch :: "int \<Rightarrow> int \<Rightarrow> sim \<Rightarrow> cpu" where
  "at_fetch intr start r = cpu (poll_interrupt intr (at_start intr start r))"

lemma step_z80:
  fixes H :: handlers
  assumes "c_cpu (cpu r) = CPU_Z80" "\<not> altd (cpu r)" "\<not> hook_insn (at_fetch intr start r)"
  defines "r' \<equiv> cpu_step H intr start r"
  shows "c_cpu (cpu r') = CPU_Z80" "\<not> altd (cpu r')" "end_pc r' = end_pc r"
    "uint (pc (cpu r)) \<noteq> start \<Longrightarrow> st (cpu r) < st (cpu r')"
proof -
  let ?s = "at_fetch intr start r"
  have s: "c_cpu ?s = CPU_Z80" "\<not> altd ?s" using assms(1,2) by (simp_all add: at_fetch_def poll_cpu at_start_cpu)
  note p = progress_instruction [OF s assms(3)]
  have c: "cpu r' = instruction H ?s" by (simp add: r'_def cpu_step_def Let_def at_fetch_def)
  show "c_cpu (cpu r') = CPU_Z80" "\<not> altd (cpu r')" unfolding c using p by auto
  show "end_pc r' = end_pc r"
    using s(1) by (simp add: r'_def cpu_step_def Let_def is_stop_def poll_cpu at_start_cpu z80_preds flip: at_fetch_def)
  show "st (cpu r) < st (cpu r')" if "uint (pc (cpu r)) \<noteq> start"
    using p [of H] poll_cpu(4) [of r intr] at_start_cpu(4) [OF that, of intr] unfolding c by (simp add: at_fetch_def)
qed

text \<open>What every instruction keeps that calls no other file, and interrupts keep, a run keeps.\<close>

lemma reached_alone:
  assumes "reached H intr start r r'" "c_cpu (cpu r) = CPU_Z80" "\<not> altd (cpu r)" "Q (cpu r)"
    and no_hook: "\<And>r'. reached H intr start r r' \<Longrightarrow> \<not> hook_insn (at_fetch intr start r')"
    and step: "\<And>s. Q s \<Longrightarrow> Q (instruction (\<lambda>f args s. s) s)"
    and poll: "\<And>r. Q (cpu r) \<Longrightarrow> Q (at_fetch intr start r)"
  shows "c_cpu (cpu r') = CPU_Z80 \<and> \<not> altd (cpu r') \<and> Q (cpu r')"
  using assms(1-4)
proof (induction rule: reached.induct)
  case initial
  then show ?case by simp
next
  case (step r')
  then have z: "c_cpu (cpu r') = CPU_Z80" "\<not> altd (cpu r')" "Q (cpu r')" by auto
  note h = no_hook [OF step.hyps]
  have f: "c_cpu (at_fetch intr start r') = CPU_Z80" using z by (simp add: at_fetch_def poll_cpu at_start_cpu)
  have "cpu (cpu_step H intr start r') = instruction H (at_fetch intr start r')"
    by (simp add: cpu_step_def Let_def at_fetch_def)
  then have "Q (cpu (cpu_step H intr start r'))"
    using assms(6) [OF poll [OF z(3)]] same_instruction [OF f h, of H "\<lambda>f args s. s"] by simp
  then show ?case using step_z80 [OF z(1,2) h] by simp
qed

lemma not_start: "start < 0 \<or> start = e \<Longrightarrow> uint (x :: 16 word) \<noteq> e \<Longrightarrow> uint x \<noteq> start"
  using uint16_bound(1) [of x] by (elim disjE) linarith+

lemma run_ends:
  assumes "c_cpu (cpu r) = CPU_Z80" "\<not> altd (cpu r)" "uint (pc (cpu r)) \<noteq> start" "start < 0 \<or> start = end_pc r"
    and "\<And>r'. reached H intr start r0 r' \<Longrightarrow> \<not> hook_insn (at_fetch intr start r')" "reached H intr start r0 r"
  shows "\<exists>r'. cpu_run H counter intr start r = Some r' \<and> reached H intr start r0 r' \<and> \<not> continues counter r'"
  using assms
proof (induction "nat (counter - st (cpu r))" arbitrary: r rule: less_induct)
  case less
  let ?r = "cpu_step H intr start r"
  note h = less.prems(5) [OF less.prems(6)]
  note s = step_z80 [OF less.prems(1,2) h, where H = H]
  have R: "reached H intr start r0 ?r" by (rule reached.step [OF less.prems(6)])
  show ?case
  proof (cases "continues counter ?r")
    case False
    then show ?thesis using R by (subst cpu_run.simps) (simp add: Let_def)
  next
    case True
    then have "uint (pc (cpu ?r)) \<noteq> end_pc r" "st (cpu ?r) < counter" using s(3) by (simp_all add: continues_def)
    moreover have "uint (pc (cpu ?r)) \<noteq> start" by (rule not_start [OF less.prems(4) calculation(1)])
    moreover have "nat (counter - st (cpu ?r)) < nat (counter - st (cpu r))"
      using s(4) [OF less.prems(3)] calculation(2) by linarith
    ultimately obtain r' where "cpu_run H counter intr start ?r = Some r'" "reached H intr start r0 r'" "\<not> continues counter r'"
      using less.hyps [of ?r] s(1-3) less.prems(4,5) R by auto
    then show ?thesis using True by (subst cpu_run.simps) (auto simp: Let_def)
  qed
qed


text \<open>A memory of NOPs.\<close>

abbreviation nops :: cpu where
  "nops \<equiv> boot CPU_Z80 (\<lambda>_. 0)"

lemma nop_instruction: "instruction H (nops\<lparr>regs := x, pc := y, st := z\<rparr>) = nops\<lparr>regs := x(rR := x rR + 1), pc := y + 1, st := z + 4\<rparr>"
proof -
  have "\<not> ioi nops" "\<not> ioe nops" by (simp_all add: boot_def power_on_def)
  moreover have "get_memory_inst (uint y) nops = 0" using uint16_bound by simp
  ultimately show ?thesis
    by (simp add: instruction_def fetch_opcode_def fetch_def set_reg_def Let_def exec_main_def exec_00_3f_def op_nop_def
        fin_id ticks_def time_simps)
qed

lemma nop_reached:
  "reached H 0 (-1) \<lparr>cpu = nops, stint = 0, end_pc = 0\<rparr> r \<Longrightarrow> \<exists>x y z. cpu r = nops\<lparr>regs := x, pc := y, st := z\<rparr>"
proof (induction rule: reached.induct)
  case initial
  have "nops = nops\<lparr>regs := regs nops, pc := pc nops, st := st nops\<rparr>" by simp
  then show ?case by (simp only: sim.simps) blast
next
  case (step r)
  then obtain x y z where "cpu r = nops\<lparr>regs := x, pc := y, st := z\<rparr>" by blast
  moreover have "at_start 0 (-1) r = r" using uint16_bound(1) [of "pc (cpu r)"] by (intro at_start_cpu(4)) linarith
  ultimately show ?case
    by (auto simp: cpu_step_def poll_interrupt_def interrupt_due_def Let_def nop_instruction)
qed


section \<open>ROM\<close>

text \<open>The bytes below \<open>c_rom_size\<close> in the unbanked model.\<close>

definition rom_is :: "nat \<Rightarrow> (nat \<Rightarrow> 8 word) \<Rightarrow> cpu \<Rightarrow> bool" where
  "rom_is n rom s \<longleftrightarrow> model (mem s) = Standard \<and> \<not> vm1_alloc (mem s) \<and> c_rom_size s = int n \<and>
     (\<forall>i<n. store (mem s) Mem i = rom i)"

lemma rom_put_mem:
  assumes "rom_is n rom s"
  shows "rom_is n rom (put_mem a v s)"
proof -
  have p: "get_memory_addr (uint a) MEM_TYPE_DATA s = Some (Mem, nat (uint a))"
    using assms uint16_bound [of a]
    by (simp add: rom_is_def get_memory_addr_def standard_get_memory_addr_def at_def array_size_def Let_def)
  have "i \<noteq> nat (uint a)" if "\<not> uint a < int n" "i < n" for i
  proof
    assume "i = nat (uint a)"
    then have "int i = uint a" by simp
    with that show False by linarith
  qed
  then show ?thesis
    using assms by (auto simp: rom_is_def put_mem_def put_memory_def p Let_def store_at_def)
qed

lemma rom_paging: "rom_is n rom s \<Longrightarrow> rom_is n rom (memory_handle_paging port v s)"
  by (simp add: rom_is_def memory_handle_paging_def)

interpretation rom: machine_invariant "rom_is n rom" "\<lambda>f args s. s" for n rom
  by unfold_locales (simp_all add: rom_put_mem rom_paging, simp_all add: rom_is_def)

text \<open>
  C6: the ROM limit protects: whatever a program does on a Z80 with the unbanked memory model, short of
  calling the host, the bytes below the limit stay what they were.
\<close>

theorem rom_protected:
  assumes "c_cpu (cpu r) = CPU_Z80" "\<not> altd (cpu r)" "model (mem (cpu r)) = Standard" "\<not> vm1_alloc (mem (cpu r))"
    and "\<And>r'. reached H intr start r r' \<Longrightarrow> \<not> hook_insn (at_fetch intr start r')"
    and "reached H intr start r r'" "0 \<le> a" "a < c_rom_size (cpu r)" "a < 65536"
  shows "get_memory_data a (cpu r') = get_memory_data a (cpu r) \<and> c_rom_size (cpu r') = c_rom_size (cpu r)"
proof -
  let ?n = "nat (c_rom_size (cpu r))" and ?rom = "store (mem (cpu r)) Mem"
  have n: "int ?n = c_rom_size (cpu r)" using assms(7,8) by simp
  then have "rom_is ?n ?rom (cpu r)" using assms(3,4) by (simp add: rom_is_def)
  then have r: "rom_is ?n ?rom (cpu r')"
    using reached_alone [OF assms(6,1,2), of "rom_is ?n ?rom"] assms(5) rom.keeps_Run_2h rom.keeps_poll
    by (simp add: at_fetch_def)
  have a: "nat a < ?n" "a AND 65535 = a" using assms(7-9) n by (auto simp: nat_less_iff and_mask16)
  have "get_memory_data a s = store (mem s) Mem (nat a)" if "model (mem s) = Standard" "\<not> vm1_alloc (mem s)" for s
    using that a(2) assms(7,9)
    by (simp add: get_memory_def get_memory_addr_def standard_get_memory_addr_def at_def array_size_def load_def)
  then show ?thesis using r assms(3,4) a(1) n by (simp add: rom_is_def)
qed

text \<open>A memory of \<open>LD (HL),A\<close>, the lower 8K of it ROM.\<close>

abbreviation stores :: cpu where
  "stores \<equiv> (boot CPU_Z80 (\<lambda>_. 0x77))\<lparr>c_rom_size := 0x2000, mp := 1\<rparr>"

lemma stores_mem:
  "get_memory_inst (uint (y :: 16 word)) ((boot CPU_Z80 (\<lambda>_. 0x77))\<lparr>c_rom_size := 0x2000\<rparr>) = 0x77"
  using uint16_bound [of y]
  by (simp add: get_memory_def get_memory_addr_def boot_def memory_reset_state_def
      standard_get_memory_addr_def load_def at_def array_size_def)

lemma stores_instruction:
  assumes "x rH = 0" "x rL = 0"
  shows "instruction H (stores\<lparr>regs := x, pc := y, st := z\<rparr>) = stores\<lparr>regs := x(rR := x rR + 1), pc := y + 1, st := z + 7\<rparr>"
proof -
  let ?s = "stores\<lparr>regs := x(rR := x rR + 1), pc := y + 1, st := z\<rparr>"
  have io: "\<not> ioi stores" "\<not> ioe stores" "vm1_mb stores = 0" by (simp_all add: boot_def power_on_def)
  have z: "\<not> isvm1 stores" "\<not> isgbz80 stores" "\<not> is808x stores" by (simp_all add: cpu_preds cpu_codes)
  have "fetch_opcode (stores\<lparr>regs := x, pc := y, st := z\<rparr>) = (0x77, ?s)"
    using stores_mem [of y] by (simp add: fetch_opcode_def fetch_def set_reg_def Let_def)
  moreover have "exec_main H 0x77 ?s = fin (LDPR rH rL rA ?s)"
    using z by (simp add: exec_main_def exec_40_7f_def op_ld_mem_def LD_mem_r_def xy_def)
  moreover have "LDPR rH rL rA ?s = ?s\<lparr>st := z + 7\<rparr>"
  proof -
    have "put_mem 0 v s = s" if "0 < c_rom_size s" for v s
      using that by (simp add: put_mem_def put_memory_def)
    then show ?thesis using assms by (simp add: LDPR_def ticks_def rp_def Let_def cpu_preds cpu_codes)
  qed
  moreover have "fin (?s\<lparr>st := z + 7\<rparr>) = ?s\<lparr>st := z + 7\<rparr>" using io by (intro fin_id) simp_all
  ultimately show ?thesis by (simp add: instruction_def cpu_preds cpu_codes)
qed

lemma stores_reached:
  "reached H 0 (-1) \<lparr>cpu = stores, stint = 0, end_pc = 0\<rparr> r \<Longrightarrow>
    \<exists>x y z. cpu r = stores\<lparr>regs := x, pc := y, st := z\<rparr> \<and> x rH = 0 \<and> x rL = 0"
proof (induction rule: reached.induct)
  case initial
  have "stores = stores\<lparr>regs := regs stores, pc := pc stores, st := st stores\<rparr>" by simp
  moreover have "regs stores rH = 0" "regs stores rL = 0" by (simp_all add: boot_def power_on_def)
  ultimately show ?case by (simp only: sim.simps) blast
next
  case (step r)
  then obtain x y z where "cpu r = stores\<lparr>regs := x, pc := y, st := z\<rparr>" "x rH = 0" "x rL = 0" by blast
  moreover have "at_start 0 (-1) r = r" using uint16_bound(1) [of "pc (cpu r)"] by (intro at_start_cpu(4)) linarith
  ultimately have "cpu (cpu_step H 0 (-1) r) = stores\<lparr>regs := x(rR := x rR + 1), pc := y + 1, st := z + 7\<rparr>"
    by (simp add: cpu_step_def poll_interrupt_def interrupt_due_def Let_def stores_instruction)
  moreover have "(x(rR := x rR + 1)) rH = 0" "(x(rR := x rR + 1)) rL = 0" using \<open>x rH = 0\<close> \<open>x rL = 0\<close> by simp_all
  ultimately show ?case by blast
qed

theorem rom_protected_witness:
  "let r = \<lparr>cpu = stores, stint = 0, end_pc = 0\<rparr> in
     get_memory_data 0 (cpu (cpu_step (\<lambda>f args s. s) 0 (-1) r)) = 0x77"
proof -
  let ?r = "\<lparr>cpu = stores, stint = 0, end_pc = 0\<rparr>" and ?H = "\<lambda>f args s. s"
  have "\<not> hook_insn (at_fetch 0 (-1) r)" if R: "reached ?H 0 (-1) ?r r" for r
  proof -
    obtain x y z where "cpu r = stores\<lparr>regs := x, pc := y, st := z\<rparr>" using stores_reached [OF R] by blast
    moreover have "at_start 0 (-1) r = r" using uint16_bound(1) [of "pc (cpu r)"] by (intro at_start_cpu(4)) linarith
    ultimately show ?thesis
      by (simp add: at_fetch_def poll_interrupt_def interrupt_due_def hook_insn_def stores_mem)
  qed
  moreover have "reached ?H 0 (-1) ?r (cpu_step ?H 0 (-1) ?r)" by (intro reached.intros)
  moreover have "get_memory_data 0 stores = 0x77"
    by (simp add: boot_def power_on_def memory_reset_state_def get_memory_def get_memory_addr_def
        standard_get_memory_addr_def at_def array_size_def load_def)
  moreover have "model (mem stores) = Standard" "\<not> vm1_alloc (mem stores)"
    by (simp_all add: boot_def memory_reset_state_def)
  ultimately show ?thesis
    using rom_protected [of ?r ?H 0 "-1" "cpu_step ?H 0 (-1) ?r" 0] by (simp add: Let_def)
qed

end
