(* ===== verification/Ticks_Hooks.thy ===== *)
theory Ticks_Hooks
  imports Ticks_Devices
begin

text \<open>
  The hook instruction: \<open>PatchZ80\<close> of \<open>hook.c\<close> and the functions it calls, the z88dk test target of
  \<open>hook_io.c\<close> and \<open>hook_misc.c\<close>, the CP/M BDOS of \<open>hook_cpm.c\<close> and the RC2014 traps of
  \<open>hook_rc2014.c\<close>. The operating system is the list of replies in the \<open>host\<close> component: a call takes the
  next one and is recorded. What POSIX fixes is not left to the replies: a call on descriptor -1 fails with
  EBADF, and a read stores at most as many bytes as it was asked for.
\<close>

section \<open>System calls\<close>

definition syscall :: "os_call \<Rightarrow> cpu \<Rightarrow> os_reply \<times> cpu" where
  "syscall c s =
     (case replies (host s) of
        [] \<Rightarrow> (\<lparr>ret = -1, aux = 0, errno = E_OTHER, payload = []\<rparr>, s\<lparr>host := (host s)\<lparr>calls := c # calls (host s)\<rparr>\<rparr>)
      | r # rest \<Rightarrow> (r, s\<lparr>host := (host s)\<lparr>replies := rest, calls := c # calls (host s)\<rparr>\<rparr>))"

text \<open>\<open>n\<close> bytes behind a pointer into an array, and a block stored there; \<open>None\<close> where the array ends before.\<close>

definition host_bytes :: "loc option \<Rightarrow> nat \<Rightarrow> cpu \<Rightarrow> 8 word list option" where
  "host_bytes p n s = (case p of
     None \<Rightarrow> None
   | Some (arr, i) \<Rightarrow> if i + n \<le> array_size arr then Some (map (\<lambda>k. store (mem s) arr (i + k)) [0..<n]) else None)"

fun store_bytes :: "array_id \<Rightarrow> nat \<Rightarrow> 8 word list \<Rightarrow> cpu \<Rightarrow> cpu" where
  "store_bytes arr i [] s = s"
| "store_bytes arr i (v # vs) s = store_bytes arr (Suc i) vs (store_at (Some (arr, i)) v s)"

text \<open>The C string behind a pointer, \<open>n\<close> bytes away from the end of its array.\<close>

fun c_string :: "nat \<Rightarrow> (nat \<Rightarrow> 8 word) \<Rightarrow> nat \<Rightarrow> 8 word list option" where
  "c_string 0 f i = None"
| "c_string (Suc n) f i = (if f i = 0 then Some [] else map_option ((#) (f i)) (c_string n f (Suc i)))"

definition sys_write :: "int \<Rightarrow> loc option \<Rightarrow> nat \<Rightarrow> cpu \<Rightarrow> int \<times> os_errno \<times> cpu" where
  "sys_write fd p n s =
     (if fd = -1 then (-1, EBADF, s)
      else case host_bytes p n s of
        None \<Rightarrow> (-1, E_OK, stop_run Undefined s)
      | Some bs \<Rightarrow> (let (r, s) = syscall (OsWrite fd bs) s in (ret r, errno r, s)))"

definition sys_read :: "int \<Rightarrow> loc option \<Rightarrow> nat \<Rightarrow> cpu \<Rightarrow> int \<times> os_errno \<times> cpu" where
  "sys_read fd p n s =
     (if fd = -1 then (-1, EBADF, s)
      else
        (let (r, s) = syscall (OsRead fd n) s; bs = take n (payload r) in
         if ret r < 0 then (-1, errno r, s)
         else case p of
           None \<Rightarrow> (-1, E_OK, stop_run Undefined s)
         | Some (arr, i) \<Rightarrow>
             if i + length bs \<le> array_size arr then (int (length bs), errno r, store_bytes arr i bs s)
             else (-1, E_OK, stop_run Undefined s)))"

definition sys_seek :: "int \<Rightarrow> int \<Rightarrow> whence \<Rightarrow> cpu \<Rightarrow> int \<times> os_errno \<times> cpu" where
  "sys_seek fd offset w s =
     (if fd = -1 then (-1, EBADF, s)
      else (let (r, s) = syscall (OsSeek fd offset w) s in (ret r, errno r, s)))"

section \<open>Files of the test target\<close>

definition normalise_errno :: "os_errno \<Rightarrow> int" where
  "normalise_errno e = (case e of
     EINVAL \<Rightarrow> 4 | EBADF \<Rightarrow> 2 | EACCES \<Rightarrow> 1 | ENFILE \<Rightarrow> 5 | ENOMEM \<Rightarrow> 6 | E_OK \<Rightarrow> 0
   | E_OTHER \<Rightarrow> 22)" \<comment> \<open>the host's own \<open>EINVAL\<close>\<close>

definition upd_host :: "(host \<Rightarrow> host) \<Rightarrow> cpu \<Rightarrow> cpu" where
  "upd_host g s = s\<lparr>host := g (host s)\<rparr>"

text \<open>\<open>find_slot\<close> of either file.\<close>

definition find_slot :: "nat \<Rightarrow> (nat \<Rightarrow> int) \<Rightarrow> nat option" where
  "find_slot n slots = find (\<lambda>i. slots i = -1) [0..<n]"

text \<open>\<open>l = v % 256; h = v / 256;\<close>, and the operands read as register pairs.\<close>

definition set_lh :: "int \<Rightarrow> cpu \<Rightarrow> cpu" where
  "set_lh v s = set_reg rH (u8 (v sdiv 256)) (set_reg rL (u8 (v smod 256)) s)"

definition hook_pair :: "reg \<Rightarrow> reg \<Rightarrow> cpu \<Rightarrow> int" where
  "hook_pair hi lo s = uint (regs s lo) OR shl (uint (regs s hi)) 8"

text \<open>The macro \<open>CHECK_FD\<close> sets the error and goes on.\<close>

definition io_fd :: "cpu \<Rightarrow> int" where
  "io_fd s = io_slots (host s) (unat (regs s rB))"

definition CHECK_FD :: "cpu \<Rightarrow> cpu" where
  "CHECK_FD s = (if io_fd s = -1 then set_reg rL 255 (set_reg rH 255 (SET_ERROR 2 s)) else s)"

definition open_flags :: "int \<Rightarrow> open_flag list" where
  "open_flags z =
     (if z AND 2 \<noteq> 0 then O_RDWR else if z AND 1 \<noteq> 0 then O_WRONLY else O_RDONLY)
     # (if z AND 512 \<noteq> 0 then [O_TRUNC] else []) @ (if z AND 256 \<noteq> 0 then [O_APPEND] else [])
     @ (if z AND 1024 \<noteq> 0 then [O_CREAT] else [])"

definition cmd_openfile :: "cpu \<Rightarrow> cpu" where
  "cmd_openfile s =
     (let name = (case get_memory_addr (hook_pair rH rL s) MEM_TYPE_INST s of
            None \<Rightarrow> None
          | Some (arr, i) \<Rightarrow> c_string (array_size arr - i) (store (mem s) arr) i);
          flags = open_flags (hook_pair rD rE s);
          s = set_reg rL 255 (set_reg rH 255 s)
      in case find_slot 256 (io_slots (host s)) of
           None \<Rightarrow> SET_ERROR 5 s
         | Some slot \<Rightarrow> (case name of
             None \<Rightarrow> stop_run Undefined s
           | Some path \<Rightarrow>
               (let (r, s) = syscall (OsOpen path flags) s in
                if ret r \<noteq> -1 then
                  SET_ERROR 0 (set_lh (int slot) (upd_host (\<lambda>h. h\<lparr>io_slots := (io_slots h)(slot := ret r)\<rparr>) s))
                else SET_ERROR 5 s)))"

definition cmd_closefile :: "cpu \<Rightarrow> cpu" where
  "cmd_closefile s =
     (let s = CHECK_FD s;
          fd = io_fd s;
          s = (if fd = -1 then s else snd (syscall (OsClose fd) s));
          s = upd_host (\<lambda>h. h\<lparr>io_slots := (io_slots h)(unat (regs s rB) := -1)\<rparr>) s
      in SET_ERROR 0 (set_reg rL 0 (set_reg rH 0 s)))"

text \<open>The byte comes from a local variable, outside the emulated memory.\<close>

definition cmd_writebyte :: "cpu \<Rightarrow> cpu" where
  "cmd_writebyte s =
     (let val = regs s rL;
          s = CHECK_FD s;
          (result, s) = (if io_fd s = -1 then (-1, s)
                         else (let (r, s) = syscall (OsWrite (io_fd s) [val]) s in (ret r, s)))
      in SET_ERROR 0 (set_lh result s))"

text \<open>\<open>char val\<close> is signed.\<close>

definition cmd_readbyte :: "cpu \<Rightarrow> cpu" where
  "cmd_readbyte s =
     (let s = CHECK_FD s in
      if io_fd s = -1 then set_lh 65535 (SET_ERROR (normalise_errno EBADF) s)
      else
        (let (r, s) = syscall (OsRead (io_fd s) 1) s in
         case payload r of
           v # _ \<Rightarrow> if ret r \<ge> 0 then set_lh (sint v) (SET_ERROR 0 s)
                   else set_lh 65535 (SET_ERROR (normalise_errno (errno r)) s)
         | [] \<Rightarrow> set_lh 65535 (SET_ERROR (normalise_errno (errno r)) s)))"

definition cmd_writeblock :: "cpu \<Rightarrow> cpu" where
  "cmd_writeblock s =
     (let s = CHECK_FD s;
          (r, e, s) = sys_write (io_fd s) (get_memory_addr (hook_pair rD rE s) MEM_TYPE_INST s)
            (nat (hook_pair rH rL s)) s
      in if r \<noteq> -1 then set_lh r (SET_ERROR 0 s) else set_lh 65535 (SET_ERROR (normalise_errno e) s))"

definition cmd_readblock :: "cpu \<Rightarrow> cpu" where
  "cmd_readblock s =
     (let s = CHECK_FD s;
          (r, e, s) = sys_read (io_fd s) (get_memory_addr (hook_pair rD rE s) MEM_TYPE_INST s)
            (nat (hook_pair rH rL s)) s
      in set_lh r (if r \<noteq> -1 then SET_ERROR 0 s else SET_ERROR (normalise_errno e) s))"

text \<open>The offset is computed in a 32-bit \<open>int\<close>.\<close>

definition cmd_seek :: "cpu \<Rightarrow> cpu" where
  "cmd_seek s =
     (let dest = sint (u32 (shl (hook_pair rD rE s) 16 OR hook_pair rH rL s));
          s = CHECK_FD s;
          c = regs s rC
      in if c \<notin> {0, 1, 2} then SET_ERROR 4 s
         else
           (let (r, e, s) = sys_seek (io_fd s) dest (if c = 0 then SEEK_SET else if c = 2 then SEEK_CUR else SEEK_END) s
            in if r \<noteq> -1 then
                 (let t = shr r 16 AND 0xffff;
                      s = set_reg rD (u8 (t div 256)) (set_reg rE (u8 (t mod 256)) s);
                      t = r AND 0xffff
                  in SET_ERROR 0 (set_reg rH (u8 (t div 256)) (set_reg rL (u8 (t mod 256)) s)))
               else SET_ERROR (normalise_errno e) s))"

section \<open>The IDE device\<close>

definition cmd_ide_identify :: "cpu \<Rightarrow> cpu" where
  "cmd_ide_identify s = s"

definition cmd_ide_select :: "cpu \<Rightarrow> cpu" where
  "cmd_ide_select s = SET_ERROR 0 (upd_host (\<lambda>h. h\<lparr>selected_unit := nat (uint (regs s rL) AND 1)\<rparr>) s)"

definition ide_fd :: "cpu \<Rightarrow> int" where
  "ide_fd s = devices (host s) (selected_unit (host s))"

text \<open>Sector number times 512, in a 32-bit \<open>int\<close>.\<close>

definition ide_dest :: "cpu \<Rightarrow> int" where
  "ide_dest s = sint (u32 (sint (u32 (shl (hook_pair rB rC s) 16 OR hook_pair rH rL s)) * 512))"

definition cmd_ide_read :: "cpu \<Rightarrow> cpu" where
  "cmd_ide_read s =
     (let dest = ide_dest s;
          (r, e, s) = sys_seek (ide_fd s) dest SEEK_SET s
      in if r \<noteq> dest then SET_ERROR (normalise_errno e) s
         else
           (let (r, e, s) = sys_read (ide_fd s) (get_memory_addr (hook_pair rD rE s) MEM_TYPE_INST s) 512 s
            in SET_ERROR 0 (if r \<noteq> 512 then SET_ERROR (normalise_errno e) s else s)))"

definition cmd_ide_write :: "cpu \<Rightarrow> cpu" where
  "cmd_ide_write s =
     (let dest = ide_dest s;
          (r, e, s) = sys_seek (ide_fd s) dest SEEK_SET s
      in if r \<noteq> dest then SET_ERROR (normalise_errno e) s
         else
           (let (r, e, s) = sys_write (ide_fd s) (get_memory_addr (hook_pair rD rE s) MEM_TYPE_INST s) 512 s
            in SET_ERROR 0 (if r \<noteq> 512 then SET_ERROR (normalise_errno e) s else s)))"

section \<open>Clock\<close>

definition set_dehl :: "int \<Rightarrow> cpu \<Rightarrow> cpu" where
  "set_dehl v s =
     (let t = v smod 65536;
          s = set_reg rH (u8 (t sdiv 256)) (set_reg rL (u8 (t smod 256)) s);
          t = sint (u32 (v sdiv 65536))
      in set_reg rD (u8 (t sdiv 256)) (set_reg rE (u8 (t smod 256)) s))"

definition cmd_gettime :: "cpu \<Rightarrow> cpu" where
  "cmd_gettime s = (let (r, s) = syscall OsTime s in SET_ERROR 0 (set_dehl (ret r) s))"

definition cmd_getclock :: "cpu \<Rightarrow> cpu" where
  "cmd_getclock s =
     (let (r, s) = syscall OsTime s;
          tim = uint (u32 ((ret r - start_time (host s)) * 1000 + aux r div 1000))
      in SET_ERROR 0 (set_dehl tim s))"

section \<open>CP/M: file control blocks\<close>

text \<open>\<open>isspace\<close> and \<open>tolower\<close> of the C locale.\<close>

definition isspace :: "int \<Rightarrow> bool" where
  "isspace c \<longleftrightarrow> c = 32 \<or> 9 \<le> c \<and> c \<le> 13"

definition tolower :: "int \<Rightarrow> int" where
  "tolower c = (if 65 \<le> c \<and> c \<le> 90 then c + 32 else c)"

definition GET_FCB :: "cpu \<Rightarrow> int" where
  "GET_FCB s = hook_pair rD rE s"

text \<open>-1 past the last record.\<close>

definition get_random :: "int \<Rightarrow> cpu \<Rightarrow> int" where
  "get_random fcb s =
     (let r0 = uint (get_memory_data (fcb + 33) s);
          r1 = uint (get_memory_data (fcb + 34) s);
          r2 = uint (get_memory_data (fcb + 35) s)
      in if r2 > 1 \<or> r2 = 1 \<and> (r0 \<noteq> 0 \<or> r1 \<noteq> 0) then -1
         else (shl r2 16 OR shl r1 8 OR r0) * 128)"

text \<open>The bytes are stored through the pointer, not by \<open>put_memory\<close>.\<close>

definition poke :: "int \<Rightarrow> int \<Rightarrow> cpu \<Rightarrow> cpu" where
  "poke a v s = store_at (get_memory_addr a MEM_TYPE_DATA s) (u8 v) s"

definition set_offset :: "int \<Rightarrow> int \<Rightarrow> cpu \<Rightarrow> cpu" where
  "set_offset fcb offset s =
     poke (fcb + 14) (shr offset 12) (poke (fcb + 12) (shr offset 7 AND 0x1f) (poke (fcb + 32) (offset AND 0x7f) s))"

text \<open>The name up to its first blank, a dot if the type starts with a character, the characters of the type.
  With no character at all the caller's buffer stays uninitialised.\<close>

definition get_filename :: "int \<Rightarrow> int \<Rightarrow> cpu \<Rightarrow> 8 word list option" where
  "get_filename fcb offset s =
     (let c = (\<lambda>i. uint (get_memory_data (fcb + i) s) AND 0x7f);
          name = takeWhile (\<lambda>c. \<not> isspace c) (map (\<lambda>k. c (offset + int k)) [0..<8]);
          type = map (\<lambda>k. c (offset + 8 + int k)) [0..<3];
          chars = map tolower name @ (if isspace (type ! 0) then [] else [46])
            @ map tolower (filter (\<lambda>c. \<not> isspace c) type)
      in if chars = [] then None else Some (takeWhile (\<lambda>v. v \<noteq> 0) (map u8 chars)))"

section \<open>CP/M: files\<close>

text \<open>The label \<open>fail:\<close>, \<open>l = a; h = b = 0;\<close>, with a result in A.\<close>

definition bdos_result :: "8 word \<Rightarrow> cpu \<Rightarrow> cpu" where
  "bdos_result v s = set_reg rB 0 (set_reg rH 0 (set_reg rL v (set_reg rA v s)))"

text \<open>\<open>bdos_open_file\<close> and \<open>bdos_create_file\<close> differ in the flags.\<close>

definition bdos_open :: "open_flag list \<Rightarrow> cpu \<Rightarrow> cpu" where
  "bdos_open flags s =
     (let fcb = GET_FCB s in
      if uint (get_memory_data (fcb + 12) s) > 31 then bdos_result 255 s
      else
        (let s = put_mem (u16 (fcb + 14)) 0 s in
         case get_filename fcb 1 s of
           None \<Rightarrow> stop_run Undefined s
         | Some name \<Rightarrow>
             (let (r, s) = syscall (OsOpen name flags) s in
              if ret r = -1 then bdos_result 255 s
              else case find_slot 16 (cpm_slots (host s)) of
                None \<Rightarrow> stop_run Undefined s
              | Some slot \<Rightarrow>
                  bdos_result 0 (put_mem (u16 (fcb + 16)) (u8 (int slot))
                    (upd_host (\<lambda>h. h\<lparr>cpm_slots := (cpm_slots h)(slot := ret r)\<rparr>) s)))))"

definition bdos_open_file :: "cpu \<Rightarrow> cpu" where
  "bdos_open_file = bdos_open [O_RDWR]"

definition bdos_create_file :: "cpu \<Rightarrow> cpu" where
  "bdos_create_file = bdos_open [O_RDWR, O_CREAT]"

text \<open>The loop variable of \<open>bdos_delete_file\<close> is the global \<open>i\<close>, the interrupt register.\<close>

definition bdos_delete_file :: "cpu \<Rightarrow> cpu" where
  "bdos_delete_file s =
     (case get_filename (GET_FCB s) 1 s of
        None \<Rightarrow> stop_run Undefined s
      | Some name \<Rightarrow> bdos_result 0 (set_reg rI 12 (snd (syscall (OsUnlink name) s))))"

definition bdos_rename_file :: "cpu \<Rightarrow> cpu" where
  "bdos_rename_file s =
     (case (get_filename (GET_FCB s) 1 s, get_filename (GET_FCB s) 17 s) of
        (Some name1, Some name2) \<Rightarrow>
          (let (r, s) = syscall (OsRename name1 name2) s in bdos_result (if ret r = 0 then 0 else 255) s)
      | _ \<Rightarrow> stop_run Undefined s)"

text \<open>Descriptor numbers come from the FCB and are not checked against the sixteen slots.\<close>

definition cpm_fd :: "8 word \<Rightarrow> cpu \<Rightarrow> int option" where
  "cpm_fd slot s = (if unat slot < 16 then Some (cpm_slots (host s) (unat slot)) else None)"

definition bdos_close_file :: "cpu \<Rightarrow> cpu" where
  "bdos_close_file s =
     (let slot = get_memory_data (GET_FCB s + 16) s; s = set_reg rA 0xff s in
      if slot = 0xff then s
      else case cpm_fd slot s of
        None \<Rightarrow> stop_run Undefined s
      | Some fd \<Rightarrow>
          if fd = -1 then s
          else upd_host (\<lambda>h. h\<lparr>cpm_slots := (cpm_slots h)(unat slot := -1)\<rparr>)
            (set_reg rA 0 (snd (syscall (OsClose fd) s))))"

text \<open>\<open>bdos_read_rand\<close> and \<open>bdos_write_rand\<close> differ in the call that moves the record.\<close>

definition bdos_rand ::
  "(int \<Rightarrow> loc option \<Rightarrow> nat \<Rightarrow> cpu \<Rightarrow> int \<times> os_errno \<times> cpu) \<Rightarrow> cpu \<Rightarrow> cpu" where
  "bdos_rand transfer s =
     (let fcb = GET_FCB s in
      case cpm_fd (get_memory_data (fcb + 16) s) s of
        None \<Rightarrow> stop_run Undefined s
      | Some fd \<Rightarrow>
          if fd = -1 then bdos_result 1 s
          else
            (let posn = get_random fcb s in
             if posn = -1 then bdos_result 6 s
             else
               (let (r, e, s) = sys_seek fd posn SEEK_SET s in
                if r = -1 then bdos_result 1 s
                else
                  (let (n, e, s) = transfer fd (get_memory_addr (dma_address (host s)) MEM_TYPE_DATA s) 128 s in
                   if n \<le> 0 then bdos_result 1 s
                   else bdos_result 0 (set_offset fcb posn s)))))"

definition bdos_read_rand :: "cpu \<Rightarrow> cpu" where
  "bdos_read_rand = bdos_rand sys_read"

definition bdos_write_rand :: "cpu \<Rightarrow> cpu" where
  "bdos_write_rand = bdos_rand sys_write"

definition bdos_set_dma :: "cpu \<Rightarrow> cpu" where
  "bdos_set_dma s = bdos_result 0 (upd_host (\<lambda>h. h\<lparr>dma_address := hook_pair rD rE s\<rparr>) s)"

text \<open>The size in records of 128 bytes, computed in a 32-bit \<open>int\<close>.\<close>

definition bdos_file_size :: "cpu \<Rightarrow> cpu" where
  "bdos_file_size s =
     (let fcb = GET_FCB s in
      case get_filename fcb 1 s of
        None \<Rightarrow> stop_run Undefined s
      | Some name \<Rightarrow>
          (let s = put_mem (u16 (fcb + 0x21)) 0 s;
               s = put_mem (u16 (fcb + 0x22)) 0 s;
               s = put_mem (u16 (fcb + 0x23)) 0 s;
               (r, s) = syscall (OsStat name) s;
               size = sint (u32 (aux r));
               numsec = sint (u32 (aux r sdiv 128)) + (if size smod 128 \<noteq> 0 then 1 else 0);
               s = (if ret r = 0 then
                      put_mem (u16 (fcb + 0x22)) (u8 (numsec sdiv 256)) (put_mem (u16 (fcb + 0x21)) (u8 (numsec smod 256)) s)
                    else s)
           in bdos_result 0 s))"

section \<open>CP/M: the call\<close>

definition set_al :: "int \<Rightarrow> cpu \<Rightarrow> cpu" where
  "set_al v s = set_reg rA (u8 v) (set_reg rL (u8 v) s)"

text \<open>Function 9 writes up to a dollar sign or a zero byte. Every address map repeats after 65536 bytes at the
  latest (or ends), so twice as many steps without a terminator go on for ever.\<close>

fun write_string :: "nat \<Rightarrow> int \<Rightarrow> cpu \<Rightarrow> cpu" where
  "write_string 0 addr s = stop_run Hang s"
| "write_string (Suc n) addr s =
     (case get_memory_addr addr MEM_TYPE_INST s of
        None \<Rightarrow> stop_run Undefined s
      | Some p \<Rightarrow>
          (let tp = load (Some p) s in
           if tp = 0 \<or> tp = 36 then s else write_string n (addr + 1) (fputc (uint tp) s)))"

definition putchar_e :: "cpu \<Rightarrow> cpu" where
  "putchar_e s = (if regs s rE \<noteq> 12 then fputc (uint (regs s rE)) s else s)"

definition drv_get :: "cpu \<Rightarrow> cpu" where
  "drv_get s = set_al (if regs s rE = 0 then 0 else 0xff) s"

definition cpm_rawio :: "cpu \<Rightarrow> cpu" where
  "cpm_rawio s =
     (if regs s rE = 0xff then
        (let (val, s) = getch s
         in set_al (if val = -1 then 0 else if val = 10 then 13 else if val = 13 then 10 else val) s)
      else if regs s rE = 0xfe then
        (let (val, s) = kbhit s in set_al (if val = -1 \<or> val = 0 then 0 else 0xff) s)
      else putchar_e s)"

definition cpm_usernum :: "cpu \<Rightarrow> cpu" where
  "cpm_usernum s =
     (if regs s rE = 0xff then set_al (user_num (host s)) s
      else if unat (regs s rE) < 16 then upd_host (\<lambda>h. h\<lparr>user_num := uint (regs s rE)\<rparr>) s else s)"

text \<open>After F_RENAME (0x17) there is no \<open>break\<close>. An unsupported call is reported on \<open>stderr\<close>.\<close>

definition hook_cpm :: "cpu \<Rightarrow> cpu" where
  "hook_cpm s =
     (let c = regs s rC in
      if c = 0x01 then (let (val, s) = getch s in set_al val s)
      else if c = 0x02 then putchar_e s
      else if c = 0x06 then cpm_rawio s
      else if c = 0x09 then write_string 131072 (hook_pair rD rE s) s
      else if c = 0x0b then (let (val, s) = kbhit s in set_al (if val = -1 then 0 else val) s)
      else if c = 0x0c then set_al 0x22 (set_reg rB 0 (set_reg rH 0 s))
      else if c = 0x0e then drv_get s
      else if c = 0x0f then bdos_open_file s
      else if c = 0x10 then bdos_close_file s
      else if c = 0x13 then bdos_delete_file s
      else if c = 0x16 then bdos_create_file s
      else if c = 0x17 then drv_get (bdos_rename_file s)
      else if c = 0x19 then drv_get s
      else if c = 0x1a then bdos_set_dma s
      else if c = 0x20 then cpm_usernum s
      else if c = 0x21 then bdos_read_rand s
      else if c = 0x22 then bdos_write_rand s
      else if c = 0x23 then bdos_file_size s
      else s)"

section \<open>RC2014\<close>

text \<open>\<open>kbhit()\<close> never returns 0.\<close>

definition hook_rc2014 :: "cpu \<Rightarrow> cpu" where
  "hook_rc2014 s =
     (if pc s = 0x0a then fputc (uint (regs s rA)) s
      else if pc s = 0x12 then
        (let (val, s) = getch s; a = u8 val
         in set_reg rA (if a = 10 then 13 else if a = 127 then 8 else a) s)
      else if pc s = 0x1a then (let (v, s) = kbhit s in set_reg rA (if v \<noteq> 0 then 1 else 0) s)
      else s)"

section \<open>The dispatch\<close>

definition cmd_exit :: "cpu \<Rightarrow> cpu" where
  "cmd_exit s = stop_run (Exit (uint (regs s rL))) s"

text \<open>The table \<open>hooks\<close> after \<open>hook_init\<close>.\<close>

definition hooks :: "(int \<times> (cpu \<Rightarrow> cpu)) list" where
  "hooks = [(0, cmd_exit), (1, cmd_printchar), (2, cmd_readkey), (3, cmd_pollkey), (4, cmd_openfile),
     (5, cmd_closefile), (6, cmd_writebyte), (7, cmd_readbyte), (8, cmd_writeblock), (9, cmd_readblock),
     (10, cmd_seek), (30, cmd_gettime), (31, cmd_getclock), (40, cmd_ide_select), (41, cmd_ide_identify),
     (42, cmd_ide_read), (43, cmd_ide_write)]"

definition PatchZ80 :: "cpu \<Rightarrow> cpu" where
  "PatchZ80 s =
     (if rc2014_mode (host s) \<and> (pc s = 0x0a \<or> pc s = 0x12 \<or> pc s = 0x1a) then hook_rc2014 s
      else if pc s = 7 then hook_cpm s
      else if pc s = 10 then (let (k, s) = kbhit s in set_reg rA (if k = 1 then 1 else 0) s)
      else if pc s = 13 then (let (ch, s) = getch s in set_reg rA (u8 ch) s)
      else case map_of hooks (uint (regs s rA)) of
        Some f \<Rightarrow> f s
      | None \<Rightarrow> stop_run (Exit 1) s)"

end
