(* ===== verification/Ticks_Rabbit.thy ===== *)
theory Ticks_Rabbit
  imports Ticks_Zilog
begin

text \<open>
  The instructions all Rabbit CPUs share, \<open>rxk_inst.c\<close>. The functions take the opcode and the prefix, or
  the prefix flags, as arguments. Most of the system-mode instructions only print a message and count
  clocks.
\<close>

section \<open>Loads through SP and index registers\<close>

text \<open>The pair \<open>if (ih) ... else if (iy) ... else ...\<close> selects.\<close>

definition hlxy :: "bool \<Rightarrow> bool \<Rightarrow> reg \<times> reg" where
  "hlxy is_hl is_iy = (if is_hl then (rH, rL) else if is_iy then (rYH, rYL) else (rXH, rXL))"

definition rxk_ld_hl_ispn :: "bool \<Rightarrow> bool \<Rightarrow> cpu \<Rightarrow> cpu" where
  "rxk_ld_hl_ispn is_hl is_iy s =
     (let s = no_io s;
          (n, s) = fetch s;
          offset = uint (sp s) + uint n;
          s = ticks 9 s;
          (hi, lo) = hlxy is_hl is_iy;
          s = set_reg lo (get_memory_data offset s) s
      in set_reg hi (get_memory_data (offset + 1) s) s)"

definition rxk_ld_ispn_hl :: "bool \<Rightarrow> bool \<Rightarrow> cpu \<Rightarrow> cpu" where
  "rxk_ld_ispn_hl is_hl is_iy s =
     (let s = ticks 9 (no_io s);
          (n, s) = fetch s;
          offset = uint (sp s) + uint n;
          (hi, lo) = hlxy is_hl is_iy;
          s = put_mem (u16 offset) (regs s lo) s
      in put_mem (u16 (offset + 1)) (regs s hi) s)"

text \<open>The base of the word loads by prefix: IX, IY under FD, HL under DD.\<close>

definition ihlxy_base :: "int \<Rightarrow> reg \<times> reg" where
  "ihlxy_base prefix = (if prefix = 0x00 then (rXH, rXL) else if prefix = 0xfd then (rYH, rYL) else (rH, rL))"

definition rxk_ld_hl_ihlxyd :: "int \<Rightarrow> cpu \<Rightarrow> cpu" where
  "rxk_ld_hl_ihlxyd prefix s =
     (let (d, s) = fetch s;
          t = u16 (sdisp d);
          (hi, lo) = ihlxy_base prefix;
          lt = get_memory_data (uint t + rp hi lo s) s;
          ht = get_memory_data (uint t + rp hi lo s + 1) s;
          s = set_reg (dst_r rL rL' s) lt (set_reg (dst_r rH rH' s) ht s)
      in ticks (if israbbit6k s then 10 else 9) s)"

definition rxk_ld_ihlxyd_hl :: "int \<Rightarrow> cpu \<Rightarrow> cpu" where
  "rxk_ld_ihlxyd_hl prefix s =
     (let (d, s) = fetch s;
          (hi, lo) = ihlxy_base prefix;
          a = u16 (uint (u16 (sdisp d)) + rp hi lo s);
          s = put_mem a (regs s rL) s;
          s = put_mem (a + 1) (regs s rH) s
      in ticks (if israbbit6k s then 12 else 11) s)"

definition rxk_ld_hl_xy :: "int \<Rightarrow> cpu \<Rightarrow> cpu" where
  "rxk_ld_hl_xy prefix s =
     (let (hi, lo) = (if prefix = 0xfd then (rYH, rYL) else (rXH, rXL));
          s = set_reg (dst_r rH rH' s) (regs s hi) s;
          s = set_reg (dst_r rL rL' s) (regs s lo) s
      in ticks 4 s)"

definition rxk_ld_xy_hl :: "int \<Rightarrow> cpu \<Rightarrow> cpu" where
  "rxk_ld_xy_hl prefix s =
     (let (hi, lo) = (if prefix = 0xfd then (rYH, rYL) else (rXH, rXL));
          s = set_reg lo (src_r rL rL' s) s;
          s = set_reg hi (src_r rH rH' s) s
      in ticks 4 s)"

section \<open>Arithmetic and logic\<close>

text \<open>The macro \<open>BOOL(hi, lo, hia, loa)\<close>: zero stays zero, everything else becomes 1; the carry is cleared.\<close>

definition BOOL :: "reg \<Rightarrow> reg \<Rightarrow> reg \<Rightarrow> reg \<Rightarrow> cpu \<Rightarrow> cpu" where
  "BOOL hi lo hia loa s =
     (let v = (if uint (regs s hi) OR uint (regs s lo) = 0 then 0 else 1 :: int);
          g = (grp s)\<lparr>fr := u16 v, ff := u16 (uint (ff (grp s)) AND NOT 256)\<rparr>
      in set_grp g (set_reg (dst_r hi hia s) 0 (set_reg (dst_r lo loa s) (u8 v) s)))"

definition rxk_bool :: "bool \<Rightarrow> bool \<Rightarrow> cpu \<Rightarrow> cpu" where
  "rxk_bool is_hl is_iy s =
     ticks 2 (if is_hl then (if alts s then BOOL rH' rL' rH' rL' s else BOOL rH rL rH' rL' s)
              else if is_iy then BOOL rYH rYL rYH rYL s else BOOL rXH rXL rXH rXL s)"

text \<open>\<open>AND2(r1, r2, ra)\<close> and \<open>OR2(r1, r2, ra)\<close>; under ALTD the latter ORs \<open>ra\<close> into \<open>r1\<close>.\<close>

definition AND2 :: "reg \<Rightarrow> reg \<Rightarrow> reg \<Rightarrow> cpu \<Rightarrow> cpu" where
  "AND2 r1 r2 ra s =
     (let v = uint (regs s r1) AND uint (regs s r2)
      in (set_grp \<lparr>ff = u16 v, fr = u16 v, fa = u16 (NOT v), fb = 0\<rparr> (set_reg (dst_r r1 ra s) (u8 v) s))
           \<lparr>fk := 0\<rparr>)"

definition OR2 :: "reg \<Rightarrow> reg \<Rightarrow> reg \<Rightarrow> cpu \<Rightarrow> cpu" where
  "OR2 r1 r2 ra s =
     (let v = uint (regs s r1) OR uint (regs s (dst_r r2 ra s))
      in (set_grp \<lparr>ff = u16 v, fr = u16 v, fa = u16 (256 OR v), fb = 0\<rparr> (set_reg r1 (u8 v) s))\<lparr>fk := 0\<rparr>)"

definition rxk_and_hlxy_de :: "bool \<Rightarrow> bool \<Rightarrow> cpu \<Rightarrow> cpu" where
  "rxk_and_hlxy_de is_hl is_iy s =
     ticks 2 (if is_hl then AND2 rL rE rE' (AND2 rH rD rH' s)
              else if is_iy then AND2 rYL rE rYL (AND2 rYH rD rYH s)
              else AND2 rXL rE rXL (AND2 rXH rD rXH s))"

definition rxk_or_hlxy_de :: "bool \<Rightarrow> bool \<Rightarrow> cpu \<Rightarrow> cpu" where
  "rxk_or_hlxy_de is_hl is_iy s =
     ticks 2 (if is_hl then OR2 rL rE rE' (OR2 rH rD rH' s)
              else if is_iy then OR2 rYL rE rYL (OR2 rYH rD rYH s)
              else OR2 rXL rE rXL (OR2 rXH rD rXH s))"

definition rxk_add_sp_d :: "cpu \<Rightarrow> cpu" where
  "rxk_add_sp_d s =
     (let s = ticks 4 s;
          (d, s) = fetch s;
          v = uint (u32 (uint (sp s) + sdisp d));
          s = s\<lparr>sp := u16 (v AND 0xffff)\<rparr>;
          g = fl s
      in s\<lparr>fl := g\<lparr>ff := u16 (if shr v 16 \<noteq> 0 then uint (ff g) OR 256 else uint (ff g) AND NOT 256)\<rparr>\<rparr>)"

text \<open>\<open>HL:BC = BC * DE\<close>, signed.\<close>

definition rxk_mul :: "cpu \<Rightarrow> cpu" where
  "rxk_mul s =
     (let R = (\<lambda>r. uint (regs s r));
          v = (sint (regs s rD) * 256 + R rE) * (sint (regs s rB) * 256 + R rC);
          s = set_reg rH (u8 (shr v 24 AND 0xff)) s;
          s = set_reg rL (u8 (shr v 16 AND 0xff)) s;
          s = set_reg rB (u8 (shr v 8 AND 0xff)) s;
          s = set_reg rC (u8 (v AND 0xff)) s
      in ticks 12 s)"

section \<open>Instructions that are not implemented\<close>

text \<open>They print a message and take time.\<close>

definition rxk_ld_xpc_a :: "cpu \<Rightarrow> cpu" where "rxk_ld_xpc_a = ticks 4"
definition rxk_ld_a_xpc :: "cpu \<Rightarrow> cpu" where "rxk_ld_a_xpc = ticks 4"
definition rxk_push_ip :: "cpu \<Rightarrow> cpu" where "rxk_push_ip = ticks 9"
definition rxk_pop_ip :: "cpu \<Rightarrow> cpu" where "rxk_pop_ip = ticks 7"
definition rxk_ldp_hl_irr :: "cpu \<Rightarrow> cpu" where "rxk_ldp_hl_irr = ticks 10"
definition rxk_ldp_rr_inm :: "cpu \<Rightarrow> cpu" where "rxk_ldp_rr_inm = ticks 13"
definition rxk_ldp_inm_rr :: "cpu \<Rightarrow> cpu" where "rxk_ldp_inm_rr = ticks 15"
definition rxk_ldp_irr_hl :: "cpu \<Rightarrow> cpu" where "rxk_ldp_irr_hl = ticks 12"
definition rxk_lret :: "cpu \<Rightarrow> cpu" where "rxk_lret = ticks 13"
definition rxk_lcall :: "cpu \<Rightarrow> cpu" where "rxk_lcall = ticks 19"
definition rxk_ljp :: "cpu \<Rightarrow> cpu" where "rxk_ljp = ticks 10"
definition rxk_ipres :: "cpu \<Rightarrow> cpu" where "rxk_ipres = ticks 4"
definition rxk_ipset :: "cpu \<Rightarrow> cpu" where "rxk_ipset = ticks 4"
definition rxk_ld_eir_a :: "cpu \<Rightarrow> cpu" where "rxk_ld_eir_a = ticks 4"
definition rxk_ld_iir_a :: "cpu \<Rightarrow> cpu" where "rxk_ld_iir_a = ticks 4"
definition rxk_ld_a_eir :: "cpu \<Rightarrow> cpu" where "rxk_ld_a_eir = ticks 4"
definition rxk_ld_a_iir :: "cpu \<Rightarrow> cpu" where "rxk_ld_a_iir = ticks 4"
definition r3k_push_su :: "cpu \<Rightarrow> cpu" where "r3k_push_su = ticks 9"
definition r3k_pop_su :: "cpu \<Rightarrow> cpu" where "r3k_pop_su = ticks 9"
definition r3k_setusr :: "cpu \<Rightarrow> cpu" where "r3k_setusr = ticks 4"
definition r3k_rdmode :: "cpu \<Rightarrow> cpu" where "r3k_rdmode = ticks 4"
definition r3k_sures :: "cpu \<Rightarrow> cpu" where "r3k_sures = ticks 4"

text \<open>The block instructions of the Rabbit 3000 take no time either.\<close>

definition r3k_ldisr :: "cpu \<Rightarrow> cpu" where "r3k_ldisr s = s"
definition r3k_lddsr :: "cpu \<Rightarrow> cpu" where "r3k_lddsr s = s"
definition r3k_uma :: "cpu \<Rightarrow> cpu" where "r3k_uma s = s"
definition r3k_ums :: "cpu \<Rightarrow> cpu" where "r3k_ums s = s"
definition r3k_lsidr :: "cpu \<Rightarrow> cpu" where "r3k_lsidr s = s"
definition r3k_lsddr :: "cpu \<Rightarrow> cpu" where "r3k_lsddr s = s"
definition r3k_lsir :: "cpu \<Rightarrow> cpu" where "r3k_lsir s = s"
definition r3k_lsdr :: "cpu \<Rightarrow> cpu" where "r3k_lsdr s = s"

end
