(* ===== verification/Ticks_Ez80.thy ===== *)
theory Ticks_Ez80
  imports Ticks_Zilog
begin

text \<open>
  The eZ80 instructions, \<open>ez80_inst.c\<close>: word loads, address arithmetic, and the block input and output
  instructions that only print a message.
\<close>

section \<open>Register pairs\<close>

text \<open>\<open>get_rr_from_reg(r)\<close>, low register first. It is called with 0, 1 and 2 only.\<close>

definition ez80_rr :: "int \<Rightarrow> reg \<times> reg" where
  "ez80_rr r = (if r = 0 then (rC, rB) else if r = 1 then (rE, rD) else (rL, rH))"

definition opcode_rr :: "int \<Rightarrow> reg \<times> reg" where
  "opcode_rr opcode = ez80_rr (shr opcode 4 AND 0x03)"

text \<open>A word load and store at a 16-bit address; the read of the second byte does not wrap.\<close>

definition ld_rr_at :: "reg \<times> reg \<Rightarrow> 16 word \<Rightarrow> cpu \<Rightarrow> cpu" where
  "ld_rr_at r addr s =
     (let s = set_reg (fst r) (get_memory_data (uint addr) s) s
      in set_reg (snd r) (get_memory_data (uint addr + 1) s) s)"

definition ld_at_rr :: "reg \<times> reg \<Rightarrow> 16 word \<Rightarrow> cpu \<Rightarrow> cpu" where
  "ld_at_rr r addr s =
     (let s = put_mem addr (regs s (fst r)) s
      in put_mem (addr + 1) (regs s (snd r)) s)"

definition set_rr :: "reg \<times> reg \<Rightarrow> 16 word \<Rightarrow> cpu \<Rightarrow> cpu" where
  "set_rr r v s = set_reg (snd r) (hi8 v) (set_reg (fst r) (lo8 v) s)"

section \<open>The ED page\<close>

definition ez80_lea_rr_xyd :: "int \<Rightarrow> cpu \<Rightarrow> cpu" where
  "ez80_lea_rr_xyd opcode s =
     (let base = (if opcode AND 0x03 = 0x03 then rp rYH rYL s else rp rXH rXL s);
          (d, s) = fetch s;
          offs = u16 (uint (u16 base) + sdisp d)
      in ticks 3 (set_rr (opcode_rr opcode) offs s))"

definition ez80_ld_rr_ihl :: "int \<Rightarrow> cpu \<Rightarrow> cpu" where
  "ez80_ld_rr_ihl opcode s = ticks 4 (ld_rr_at (opcode_rr opcode) (u16 (rp rH rL s)) s)"

definition ez80_ld_ihl_rr :: "int \<Rightarrow> cpu \<Rightarrow> cpu" where
  "ez80_ld_ihl_rr opcode s = ticks 4 (ld_at_rr (opcode_rr opcode) (u16 (rp rH rL s)) s)"

text \<open>\<open>(inst^128)-128 + (xh<<8)|xl\<close>: the \<open>|\<close> binds weaker than the \<open>+\<close>.\<close>

definition lea_addr :: "8 word \<Rightarrow> reg \<Rightarrow> reg \<Rightarrow> cpu \<Rightarrow> 16 word" where
  "lea_addr d hi lo s = u16 ((sdisp d + shl (uint (regs s hi)) 8) OR uint (regs s lo))"

definition ez80_lea_xy_xd :: "int \<Rightarrow> cpu \<Rightarrow> cpu" where
  "ez80_lea_xy_xd opcode s =
     (let (d, s) = fetch s
      in ticks 3 (set_rr (if opcode = 0x32 then (rXL, rXH) else (rYL, rYH)) (lea_addr d rXH rXL s) s))"

definition ez80_lea_xy_yd :: "int \<Rightarrow> cpu \<Rightarrow> cpu" where
  "ez80_lea_xy_yd opcode s =
     (let (d, s) = fetch s
      in ticks 3 (set_rr (if opcode = 0x54 then (rXL, rXH) else (rYL, rYH)) (lea_addr d rYH rYL s) s))"

definition ez80_pea_xyd :: "int \<Rightarrow> cpu \<Rightarrow> cpu" where
  "ez80_pea_xyd opcode s =
     (let (d, s) = fetch s;
          addr = (if opcode = 0x65 then indexed d rXH rXL s else indexed d rYH rYL s);
          s = push8 (u8 (addr div 256)) s;
          s = push8 (u8 (addr mod 256)) s
      in ticks 5 s)"

definition ez80_ld_xy_ihl :: "int \<Rightarrow> cpu \<Rightarrow> cpu" where
  "ez80_ld_xy_ihl opcode s =
     ticks 4 (ld_rr_at (if opcode = 0x37 then (rXL, rXH) else (rYL, rYH)) (u16 (rp rH rL s)) s)"

definition ez80_ld_ihl_xy :: "int \<Rightarrow> cpu \<Rightarrow> cpu" where
  "ez80_ld_ihl_xy opcode s =
     ticks 4 (ld_at_rr (if opcode = 0x3f then (rXL, rXH) else (rYL, rYH)) (u16 (rp rH rL s)) s)"

section \<open>The DD and FD pages\<close>

definition ixyd_addr :: "int \<Rightarrow> cpu \<Rightarrow> 16 word \<times> cpu" where
  "ixyd_addr prefix s =
     (let base = (if prefix = 0xfd then rp rYH rYL s else rp rXH rXL s);
          (d, s) = fetch s
      in (u16 (base + sdisp d), s))"

definition ez80_ld_rr_ixyd :: "int \<Rightarrow> int \<Rightarrow> cpu \<Rightarrow> cpu" where
  "ez80_ld_rr_ixyd opcode prefix s =
     (let (addr, s) = ixyd_addr prefix s in ticks 4 (ld_rr_at (opcode_rr opcode) addr s))"

definition ez80_ld_ixyd_rr :: "int \<Rightarrow> int \<Rightarrow> cpu \<Rightarrow> cpu" where
  "ez80_ld_ixyd_rr opcode prefix s =
     (let (addr, s) = ixyd_addr prefix s in ticks 4 (ld_at_rr (opcode_rr opcode) addr s))"

text \<open>Under FD opcode 0x37 (0x3f) names IY and 0x31 (0x3e) IX, under DD the other way round.\<close>

definition ez80_ld_xy_ixyd :: "int \<Rightarrow> int \<Rightarrow> cpu \<Rightarrow> cpu" where
  "ez80_ld_xy_ixyd opcode prefix s =
     (let r = (if opcode = (if prefix = 0xfd then 0x37 else 0x31) then (rYL, rYH) else (rXL, rXH));
          (addr, s) = ixyd_addr prefix s
      in ticks 4 (ld_rr_at r addr s))"

definition ez80_ld_ixyd_xy :: "int \<Rightarrow> int \<Rightarrow> cpu \<Rightarrow> cpu" where
  "ez80_ld_ixyd_xy opcode prefix s =
     (let r = (if opcode = (if prefix = 0xfd then 0x3f else 0x3e) then (rYL, rYH) else (rXL, rXH));
          (addr, s) = ixyd_addr prefix s
      in ticks 4 (ld_at_rr r addr s))"

section \<open>Instructions that are not implemented\<close>

text \<open>They print a message and take no time.\<close>

definition ez80_otd2r :: "cpu \<Rightarrow> cpu" where "ez80_otd2r s = s"
definition ez80_stmix :: "cpu \<Rightarrow> cpu" where "ez80_stmix s = s"
definition ez80_rsmix :: "cpu \<Rightarrow> cpu" where "ez80_rsmix s = s"
definition ez80_ini2 :: "cpu \<Rightarrow> cpu" where "ez80_ini2 s = s"
definition ez80_ini2r :: "cpu \<Rightarrow> cpu" where "ez80_ini2r s = s"
definition ez80_outi2 :: "cpu \<Rightarrow> cpu" where "ez80_outi2 s = s"
definition ez80_oti2r :: "cpu \<Rightarrow> cpu" where "ez80_oti2r s = s"
definition ez80_ind2 :: "cpu \<Rightarrow> cpu" where "ez80_ind2 s = s"
definition ez80_outd2 :: "cpu \<Rightarrow> cpu" where "ez80_outd2 s = s"
definition ez80_ld_mb_a :: "cpu \<Rightarrow> cpu" where "ez80_ld_mb_a s = s"
definition ez80_ld_a_mb :: "cpu \<Rightarrow> cpu" where "ez80_ld_a_mb s = s"
definition ez80_ld_i_hl :: "cpu \<Rightarrow> cpu" where "ez80_ld_i_hl s = s"
definition ez80_ld_hl_i :: "cpu \<Rightarrow> cpu" where "ez80_ld_hl_i s = s"
definition ez80_inim :: "cpu \<Rightarrow> cpu" where "ez80_inim s = s"
definition ez80_inimr :: "cpu \<Rightarrow> cpu" where "ez80_inimr s = s"
definition ez80_indm :: "cpu \<Rightarrow> cpu" where "ez80_indm s = s"

end
