(* ===== verification/Ticks_Kc160.thy ===== *)
theory Ticks_Kc160
  imports Ticks_Zilog "HOL-Library.Signed_Division"
begin

text \<open>
  The KC160 instructions, \<open>kc160_inst.c\<close>. \<open>None\<close> is a division the host
  traps: a zero divisor, or the one signed quotient that does not fit.
\<close>

section \<open>Register selection\<close>

text \<open>\<open>get_rr_from_reg\<close>, low register first; for SP the halves are copied to \<open>spl\<close> and \<open>sph\<close>.\<close>

definition kc_rr :: "int \<Rightarrow> cpu \<Rightarrow> (reg \<times> reg) \<times> cpu" where
  "kc_rr r s =
     (if r = 0 then ((rC, rB), s) else if r = 1 then ((rE, rD), s) else if r = 2 then ((rL, rH), s)
      else ((rSPL, rSPH), set_reg rSPH (hi8 (sp s)) (set_reg rSPL (lo8 (sp s)) s)))"

text \<open>\<open>get_r24_from_reg\<close>, called with 0 to 2.\<close>

definition kc_r24 :: "int \<Rightarrow> reg \<times> reg \<times> reg" where
  "kc_r24 r = (if r = 0 then (rXL, rXH, rXP) else if r = 1 then (rYL, rYH, rYP) else (rL, rH, rA))"

definition kc_pp :: "int \<Rightarrow> reg" where
  "kc_pp r = [rA, rXP, rYP, rZP] ! nat (r AND 0x03)"

definition kc_z :: "int \<Rightarrow> cpu \<Rightarrow> int" where
  "kc_z z s = (if z = 0 then rp rYH rYL s else if z = 1 then rp rXH rXL s else uint (sp s))"

definition opcode_p :: "int \<Rightarrow> int" where
  "opcode_p opcode = shr opcode 4 AND 0x03"

text \<open>\<open>get_addr_from_z(z) + (get_memory_inst(pc++)^128)-128\<close>\<close>

definition kc_addr :: "int \<Rightarrow> cpu \<Rightarrow> 16 word \<times> cpu" where
  "kc_addr z s = (let base = kc_z z s; (d, s) = fetch s in (u16 (base + sdisp d), s))"

text \<open>The 24-bit operand; the program counter stays.\<close>

definition kc_lmn :: "cpu \<Rightarrow> int" where
  "kc_lmn s =
     (let b = (\<lambda>i. uint (get_memory_inst (uint (pc s) + i) s)) in b 0 OR shl (b 1) 8 OR shl (b 2) 16)"

definition kc_sp_back :: "int \<Rightarrow> cpu \<Rightarrow> cpu" where
  "kc_sp_back r s = (if r = 3 then s\<lparr>sp := pair16 (regs s rSPH) (regs s rSPL)\<rparr> else s)"

section \<open>Word loads\<close>

definition kc160_ld_rr_ixysd :: "int \<Rightarrow> cpu \<Rightarrow> cpu" where
  "kc160_ld_rr_ixysd opcode s =
     (let ((lo, hi), s) = kc_rr (opcode_p opcode) s;
          (addr, s) = kc_addr ((opcode AND 0x0f) - 0x0c) s;
          s = set_reg lo (get_memory_data (uint addr) s) s;
          s = set_reg hi (get_memory_data (uint addr + 1) s) s
      in ticks 4 (kc_sp_back (opcode_p opcode) s))"

definition kc160_ld_ixysd_rr :: "int \<Rightarrow> cpu \<Rightarrow> cpu" where
  "kc160_ld_ixysd_rr opcode s =
     (let ((lo, hi), s) = kc_rr (opcode_p opcode) s;
          (addr, s) = kc_addr ((opcode AND 0x0f) - 0x04) s;
          s = put_mem addr (regs s lo) s;
          s = put_mem (addr + 1) (regs s hi) s
      in ticks 4 s)"

definition kc_xy :: "bool \<Rightarrow> reg \<times> reg" where
  "kc_xy is_x = (if is_x then (rXL, rXH) else (rYL, rYH))"

definition kc160_ld_xy_ixysd :: "int \<Rightarrow> cpu \<Rightarrow> cpu" where
  "kc160_ld_xy_ixysd opcode s =
     (let (addr, s) = kc_addr ((opcode AND 0x0f) - 0x08) s;
          (lo, hi) = kc_xy (opcode AND 0xf0 = 0x80);
          s = set_reg lo (get_memory_data (uint addr) s) s;
          s = set_reg hi (get_memory_data (uint addr + 1) s) s
      in ticks 4 s)"

definition kc160_ld_ixysd_xy :: "int \<Rightarrow> cpu \<Rightarrow> cpu" where
  "kc160_ld_ixysd_xy opcode s =
     (let (addr, s) = kc_addr (opcode AND 0x0f) s;
          (lo, hi) = kc_xy (opcode AND 0xf0 = 0x80);
          s = put_mem addr (regs s lo) s;
          s = put_mem (addr + 1) (regs s hi) s
      in ticks 4 s)"

section \<open>Loads at 24-bit addresses\<close>

definition kc160_ldf_ilmn_rr :: "int \<Rightarrow> cpu \<Rightarrow> cpu" where
  "kc160_ldf_ilmn_rr opcode s =
     (let ((lo, hi), s) = kc_rr (opcode_p opcode) s;
          addr = kc_lmn s;
          s = put_physical addr (regs s lo) s;
          s = put_physical (addr + 1) (regs s hi) s
      in ticks 5 s)"

definition kc160_ldf_rr_ilmn :: "int \<Rightarrow> cpu \<Rightarrow> cpu" where
  "kc160_ldf_rr_ilmn opcode s =
     (let ((lo, hi), s) = kc_rr (opcode_p opcode) s;
          addr = kc_lmn s;
          s = set_reg lo (get_physical addr s) s;
          s = set_reg hi (get_physical (addr + 1) s) s
      in ticks 5 (kc_sp_back (opcode_p opcode) s))"

definition kc160_ldf_ilmn_xy :: "int \<Rightarrow> cpu \<Rightarrow> cpu" where
  "kc160_ldf_ilmn_xy opcode s =
     (let addr = kc_lmn s;
          (lo, hi) = kc_xy (opcode AND 0xf0 \<noteq> 0x90);
          s = put_physical addr (regs s lo) s;
          s = put_physical (addr + 1) (regs s hi) s
      in ticks 5 s)"

definition kc160_ldf_xy_ilmn :: "int \<Rightarrow> cpu \<Rightarrow> cpu" where
  "kc160_ldf_xy_ilmn opcode s =
     (let addr = kc_lmn s;
          (lo, hi) = kc_xy (opcode AND 0xf0 \<noteq> 0x90);
          s = set_reg lo (get_physical addr s) s;
          s = set_reg hi (get_physical (addr + 1) s) s
      in ticks 5 s)"

text \<open>The 24-bit jump is not implemented: it skips its operand.\<close>

definition kc160_jp3 :: "cpu \<Rightarrow> cpu" where
  "kc160_jp3 s = ticks 5 (s\<lparr>pc := pc s + 3\<rparr>)"

definition kc160_ld_hxy_sp :: "int \<Rightarrow> cpu \<Rightarrow> cpu" where
  "kc160_ld_hxy_sp opcode s =
     ticks 2
      (let k = opcode AND 0xf0 in
       if k = 0x00 then set_reg rXL (lo8 (sp s)) (set_reg rXH (hi8 (sp s)) s)
       else if k = 0x10 then set_reg rYL (lo8 (sp s)) (set_reg rYH (hi8 (sp s)) s)
       else if k = 0x20 then set_reg rL (lo8 (sp s)) (set_reg rH (hi8 (sp s)) s)
       else s)"

text \<open>In column 5 the source pointer is computed and dropped, so \<open>src\<close> is never assigned.\<close>

definition kc160_ld_pp_pp :: "int \<Rightarrow> cpu \<Rightarrow> cpu" where
  "kc160_ld_pp_pp opcode s =
     (let z = opcode AND 0x0f;
          q = shr opcode 3 AND 0x1;
          p = opcode_p opcode;
          v = regs s (if q = 0 \<and> z = 4 then kc_pp (3 - p) else kc_pp ((p + 2) mod 4))
      in if q = 0 \<and> z = 5 then stop_run Undefined s else ticks 2 (set_reg (kc_pp p) v s))"

section \<open>24-bit registers\<close>

definition kc160_ld_ixysd_r24 :: "int \<Rightarrow> cpu \<Rightarrow> cpu" where
  "kc160_ld_ixysd_r24 opcode s =
     (let (r0, r1, r2) = kc_r24 (opcode_p opcode);
          (addr, s) = kc_addr (opcode AND 0x0f) s;
          s = put_mem addr (regs s r0) s;
          s = put_mem (addr + 1) (regs s r1) s;
          s = put_mem (addr + 2) (regs s r2) s
      in ticks 6 s)"

definition kc160_ld_r24_ixysd :: "int \<Rightarrow> cpu \<Rightarrow> cpu" where
  "kc160_ld_r24_ixysd opcode s =
     (let (r0, r1, r2) = kc_r24 (opcode_p opcode);
          (addr, s) = kc_addr (opcode AND 0x0f) s;
          s = set_reg r0 (get_memory_data (uint addr) s) s;
          s = set_reg r1 (get_memory_data (uint addr + 1) s) s;
          s = set_reg r2 (get_memory_data (uint addr + 2) s) s
      in ticks 6 s)"

definition kc160_ld_r24_lmn :: "int \<Rightarrow> cpu \<Rightarrow> cpu" where
  "kc160_ld_r24_lmn opcode s =
     (let (r0, r1, r2) = kc_r24 (opcode_p opcode);
          (x, s) = fetch s; s = set_reg r0 x s;
          (x, s) = fetch s; s = set_reg r1 x s;
          (x, s) = fetch s; s = set_reg r2 x s
      in ticks 4 s)"

definition kc160_ldf_ilmn_r24 :: "int \<Rightarrow> cpu \<Rightarrow> cpu" where
  "kc160_ldf_ilmn_r24 opcode s =
     (let (r0, r1, r2) = kc_r24 (opcode_p opcode);
          addr = kc_lmn s;
          s = put_physical addr (regs s r0) s;
          s = put_physical (addr + 1) (regs s r1) s;
          s = put_physical (addr + 2) (regs s r2) s
      in ticks 7 s)"

definition kc160_ldf_r24_ilmn :: "int \<Rightarrow> cpu \<Rightarrow> cpu" where
  "kc160_ldf_r24_ilmn opcode s =
     (let (r0, r1, r2) = kc_r24 (opcode_p opcode);
          addr = kc_lmn s;
          s = set_reg r0 (get_physical addr s) s;
          s = set_reg r1 (get_physical (addr + 1) s) s;
          s = set_reg r2 (get_physical (addr + 2) s) s
      in ticks 7 s)"

section \<open>Multiplication and division\<close>

text \<open>Four registers from a 32-bit value, most significant first, and back.\<close>

definition set_quad :: "reg \<Rightarrow> reg \<Rightarrow> reg \<Rightarrow> reg \<Rightarrow> int \<Rightarrow> cpu \<Rightarrow> cpu" where
  "set_quad r3 r2 r1 r0 v s =
     (let s = set_reg r3 (u8 (shr v 24 AND 0xff)) s;
          s = set_reg r2 (u8 (shr v 16 AND 0xff)) s;
          s = set_reg r1 (u8 (shr v 8 AND 0xff)) s
      in set_reg r0 (u8 (v AND 0xff)) s)"

definition quad :: "reg \<Rightarrow> reg \<Rightarrow> reg \<Rightarrow> reg \<Rightarrow> cpu \<Rightarrow> int" where
  "quad r3 r2 r1 r0 s =
     (let R = (\<lambda>r. uint (regs s r)) in shl (R r3) 24 OR shl (R r2) 16 OR shl (R r1) 8 OR R r0)"

definition srp :: "reg \<Rightarrow> reg \<Rightarrow> cpu \<Rightarrow> int" where
  "srp hi lo s = sint (pair16 (regs s hi) (regs s lo))"

definition kc160_div_hl_a :: "cpu \<Rightarrow> cpu option" where
  "kc160_div_hl_a s =
     (let hl = rp rH rL s; a = uint (regs s rA) in
      if a = 0 then None
      else Some (ticks 12 (set_reg rH (u8 (hl mod a)) (set_reg rL (u8 (hl div a)) s))))"

definition kc160_divs_hl_a :: "cpu \<Rightarrow> cpu option" where
  "kc160_divs_hl_a s =
     (let hl = srp rH rL s; a = sint (regs s rA) in
      if a = 0 then None
      else Some (ticks 12 (set_reg rH (u8 ((hl smod a) AND 0xff)) (set_reg rL (u8 ((hl sdiv a) AND 0xff)) s))))"

text \<open>Quotient and remainder pass through 16-bit variables.\<close>

definition set_quot :: "int \<Rightarrow> int \<Rightarrow> cpu \<Rightarrow> cpu" where
  "set_quot q r s =
     (let s = set_reg rH (hi8 (u16 q)) s; s = set_reg rL (lo8 (u16 q)) s;
          s = set_reg rD (hi8 (u16 r)) s; s = set_reg rE (lo8 (u16 r)) s
      in ticks 21 s)"

definition kc160_div_dehl_bc :: "cpu \<Rightarrow> cpu option" where
  "kc160_div_dehl_bc s =
     (let v = quad rD rE rH rL s; d = rp rB rC s in
      if d = 0 then None else Some (set_quot (v div d) (v mod d) s))"

definition kc160_divs_dehl_bc :: "cpu \<Rightarrow> cpu option" where
  "kc160_divs_dehl_bc s =
     (let v = sint (u32 (quad rD rE rH rL s)); d = srp rB rC s in
      if d = 0 \<or> v = - (2 ^ 31) \<and> d = -1 then None else Some (set_quot (v sdiv d) (v smod d) s))"

definition kc160_mul_hl :: "cpu \<Rightarrow> cpu" where
  "kc160_mul_hl s =
     (let v = u16 (uint (regs s rH) * uint (regs s rL))
      in ticks 11 (set_reg rL (lo8 v) (set_reg rH (hi8 v) s)))"

definition kc160_muls_hl :: "cpu \<Rightarrow> cpu" where
  "kc160_muls_hl s =
     (let v = u16 (sint (regs s rH) * sint (regs s rL))
      in ticks 11 (set_reg rL (lo8 v) (set_reg rH (hi8 v) s)))"

definition kc160_mul_de_hl :: "cpu \<Rightarrow> cpu" where
  "kc160_mul_de_hl s =
     ticks 19 (set_quad rD rE rH rL (uint (u32 (rp rD rE s * rp rH rL s))) s)"

definition kc160_muls_de_hl :: "cpu \<Rightarrow> cpu" where
  "kc160_muls_de_hl s = ticks 19 (set_quad rD rE rH rL (srp rD rE s * srp rH rL s) s)"

section \<open>Instructions that are not implemented\<close>

text \<open>They print a message and take no time.\<close>

definition kc160_tra :: "cpu \<Rightarrow> cpu" where "kc160_tra s = s"
definition kc160_im3 :: "cpu \<Rightarrow> cpu" where "kc160_im3 s = s"
definition kc160_call3 :: "cpu \<Rightarrow> cpu" where "kc160_call3 s = s"
definition kc160_ret3 :: "cpu \<Rightarrow> cpu" where "kc160_ret3 s = s"
definition kc160_retn3 :: "cpu \<Rightarrow> cpu" where "kc160_retn3 s = s"
definition kc160_ldi_xy :: "cpu \<Rightarrow> cpu" where "kc160_ldi_xy s = s"
definition kc160_ldir_xy :: "cpu \<Rightarrow> cpu" where "kc160_ldir_xy s = s"
definition kc160_ldd_xy :: "cpu \<Rightarrow> cpu" where "kc160_ldd_xy s = s"
definition kc160_lddr_xy :: "cpu \<Rightarrow> cpu" where "kc160_lddr_xy s = s"
definition kc160_cpi_x :: "cpu \<Rightarrow> cpu" where "kc160_cpi_x s = s"
definition kc160_cpir_x :: "cpu \<Rightarrow> cpu" where "kc160_cpir_x s = s"
definition kc160_cpd_x :: "cpu \<Rightarrow> cpu" where "kc160_cpd_x s = s"
definition kc160_cpdr_x :: "cpu \<Rightarrow> cpu" where "kc160_cpdr_x s = s"
definition kc160_ini_x :: "cpu \<Rightarrow> cpu" where "kc160_ini_x s = s"
definition kc160_inir_x :: "cpu \<Rightarrow> cpu" where "kc160_inir_x s = s"
definition kc160_ind_x :: "cpu \<Rightarrow> cpu" where "kc160_ind_x s = s"
definition kc160_indr_x :: "cpu \<Rightarrow> cpu" where "kc160_indr_x s = s"
definition kc160_outi_x :: "cpu \<Rightarrow> cpu" where "kc160_outi_x s = s"
definition kc160_otir_x :: "cpu \<Rightarrow> cpu" where "kc160_otir_x s = s"
definition kc160_outd_x :: "cpu \<Rightarrow> cpu" where "kc160_outd_x s = s"
definition kc160_otdr_x :: "cpu \<Rightarrow> cpu" where "kc160_otdr_x s = s"

end
