(* ===== verification/Ticks_R4kLoad.thy ===== *)
theory Ticks_R4kLoad
  imports Ticks_Zilog
begin

text \<open>
  The Rabbit 4000 loads of \<open>r4k_inst.c\<close>: the pointer registers PW, PX, PY, PZ, the 32-bit registers BCDE
  and JKHL, and their transfers with logical and physical memory and the stack.
\<close>

section \<open>Register selection\<close>

definition set_preg :: "preg \<Rightarrow> 32 word \<Rightarrow> cpu \<Rightarrow> cpu" where
  "set_preg r v s = s\<lparr>pregs := (pregs s)(r := v)\<rparr>"

text \<open>\<open>read_ps(reg)\<close>: under ALTS index 3 reads \<open>py_\<close>.\<close>

definition read_ps :: "int \<Rightarrow> cpu \<Rightarrow> 32 word" where
  "read_ps r s = pregs s ((if alts s then [PW', PX', PY', PY'] else [PW, PX, PY, PZ]) ! nat r)"

definition write_pd :: "int \<Rightarrow> cpu \<Rightarrow> preg" where
  "write_pd r s = (if altd s then [PW', PX', PY', PZ'] else [PW, PX, PY, PZ]) ! nat r"

text \<open>Bits 4 and 5, and 6 and 7, of the opcode.\<close>

definition fld4 :: "int \<Rightarrow> int" where
  "fld4 opcode = shr opcode 4 AND 0x03"

definition fld6 :: "int \<Rightarrow> int" where
  "fld6 opcode = shr opcode 6 AND 0x03"

text \<open>The bytes of BCDE or JKHL, least significant first; \<open>reg32[2]\<close> of JKHL is J and \<open>reg32[3]\<close> is K.\<close>

type_synonym reg32 = "reg \<times> reg \<times> reg \<times> reg"

definition r32_regs :: "bool \<Rightarrow> bool \<Rightarrow> reg32" where
  "r32_regs isjkhl alt =
     (if isjkhl then (if alt then (rL', rH', rJ', rK') else (rL, rH, rJ, rK))
      else (if alt then (rE', rD', rC', rB') else (rE, rD, rC, rB)))"

definition r32_source :: "bool \<Rightarrow> cpu \<Rightarrow> reg32" where
  "r32_source isjkhl s = r32_regs isjkhl (alts s)"

definition r32_dest :: "bool \<Rightarrow> cpu \<Rightarrow> reg32" where
  "r32_dest isjkhl s = r32_regs isjkhl (altd s)"

text \<open>\<open>*reg32[0] = f(0); ... *reg32[3] = f(3);\<close> and the value \<open>reg32[3]<<24 | ... | reg32[0]\<close>.\<close>

definition set_r32 :: "reg32 \<Rightarrow> (nat \<Rightarrow> 8 word) \<Rightarrow> cpu \<Rightarrow> cpu" where
  "set_r32 r f s =
     (case r of (r0, r1, r2, r3) \<Rightarrow> set_reg r3 (f 3) (set_reg r2 (f 2) (set_reg r1 (f 1) (set_reg r0 (f 0) s))))"

definition get_r32 :: "reg32 \<Rightarrow> cpu \<Rightarrow> int" where
  "get_r32 r s =
     (case r of (r0, r1, r2, r3) \<Rightarrow>
        let R = (\<lambda>r. uint (regs s r)) in shl (R r3) 24 OR shl (R r2) 16 OR shl (R r1) 8 OR R r0)"

text \<open>Byte \<open>i\<close> of a 32-bit value, \<open>(v >> 8*i) & 0xff\<close>, and four bytes put together.\<close>

definition byte_of :: "int \<Rightarrow> nat \<Rightarrow> 8 word" where
  "byte_of v i = u8 (shr v (8 * i) AND 0xff)"

definition word32 :: "(nat \<Rightarrow> 8 word) \<Rightarrow> 32 word" where
  "word32 f = u32 (shl (uint (f 3)) 24 OR shl (uint (f 2)) 16 OR shl (uint (f 1)) 8 OR uint (f 0))"

text \<open>The four calls \<open>p(0, *reg32[0]); ... p(3, *reg32[3])\<close> of a store.\<close>

definition put_r32 :: "reg32 \<Rightarrow> (nat \<Rightarrow> 8 word \<Rightarrow> cpu \<Rightarrow> cpu) \<Rightarrow> cpu \<Rightarrow> cpu" where
  "put_r32 r p s =
     (case r of (r0, r1, r2, r3) \<Rightarrow>
        let s = p 0 (regs s r0) s; s = p 1 (regs s r1) s; s = p 2 (regs s r2) s in p 3 (regs s r3) s)"

definition put_bytes :: "(nat \<Rightarrow> 8 word) \<Rightarrow> (nat \<Rightarrow> 8 word \<Rightarrow> cpu \<Rightarrow> cpu) \<Rightarrow> cpu \<Rightarrow> cpu" where
  "put_bytes f p s = p 3 (f 3) (p 2 (f 2) (p 1 (f 1) (p 0 (f 0) s)))"

text \<open>\<open>get_rr_msb_ptr\<close>, \<open>get_rr_lsb_ptr\<close> (BC, DE, IX, IY) and \<open>get_rp2_...\<close> (BC, DE, HL, JK).\<close>

definition rr_msb :: "int \<Rightarrow> bool \<Rightarrow> reg" where
  "rr_msb r alt = (if alt then [rB', rD', rXH, rYH] else [rB, rD, rXH, rYH]) ! nat r"

definition rr_lsb :: "int \<Rightarrow> bool \<Rightarrow> reg" where
  "rr_lsb r alt = (if alt then [rC', rE', rXL, rYL] else [rC, rE, rXL, rYL]) ! nat r"

definition rp2_msb :: "int \<Rightarrow> bool \<Rightarrow> reg" where
  "rp2_msb r alt = (if alt then [rB', rD', rH', rJ'] else [rB, rD, rH, rJ]) ! nat r"

definition rp2_lsb :: "int \<Rightarrow> bool \<Rightarrow> reg" where
  "rp2_lsb r alt = (if alt then [rC', rE', rL', rK'] else [rC, rE, rL, rK]) ! nat r"

section \<open>Addresses\<close>

text \<open>\<open>ps16se\<close> and \<open>ps8se\<close>: the pointer plus a sign-extended offset. For a logical address (the upper half
  all ones) they set the upper half of \<open>px\<close>, not of the result.\<close>

definition ps_offset :: "32 word \<Rightarrow> int \<Rightarrow> cpu \<Rightarrow> 32 word \<times> cpu" where
  "ps_offset ps offset s =
     (u32 (uint ps + offset),
      if uint ps AND 0xffff0000 = 0xffff0000 then set_preg PX (u32 (uint (pregs s PX) OR 0xffff0000)) s else s)"

definition ps16se :: "32 word \<Rightarrow> 16 word \<Rightarrow> cpu \<Rightarrow> 32 word \<times> cpu" where
  "ps16se ps offs s = ps_offset ps (sint offs) s"

definition ps8se :: "32 word \<Rightarrow> 8 word \<Rightarrow> cpu \<Rightarrow> 32 word \<times> cpu" where
  "ps8se ps offs s = ps_offset ps (sint offs) s"

text \<open>\<open>get_memory(ps8se(addr, i), MEM_TYPE_PHYSICAL)\<close> and \<open>put_memory_physical(ps8se(addr, i), v)\<close>.\<close>

definition get_ps :: "32 word \<Rightarrow> nat \<Rightarrow> cpu \<Rightarrow> 8 word \<times> cpu" where
  "get_ps addr i s = (let (a, s) = ps8se addr (of_nat i) s in (get_physical (uint a) s, s))"

definition put_ps :: "32 word \<Rightarrow> nat \<Rightarrow> 8 word \<Rightarrow> cpu \<Rightarrow> cpu" where
  "put_ps addr i v s = (let (a, s) = ps8se addr (of_nat i) s in put_physical (uint a) v s)"

text \<open>Four physical bytes into a 32-bit register; \<open>px\<close> changes with each call.\<close>

definition ld_r32_ps_mem :: "reg32 \<Rightarrow> 32 word \<Rightarrow> cpu \<Rightarrow> cpu" where
  "ld_r32_ps_mem r addr s =
     (case r of (r0, r1, r2, r3) \<Rightarrow>
        let (x, s) = get_ps addr 0 s; s = set_reg r0 x s;
            (x, s) = get_ps addr 1 s; s = set_reg r1 x s;
            (x, s) = get_ps addr 2 s; s = set_reg r2 x s;
            (x, s) = get_ps addr 3 s
        in set_reg r3 x s)"

text \<open>Four physical bytes into a pointer register.\<close>

definition ld_pd_ps_mem :: "preg \<Rightarrow> 32 word \<Rightarrow> cpu \<Rightarrow> cpu" where
  "ld_pd_ps_mem r addr s =
     (let (x3, s) = get_ps addr 3 s; (x2, s) = get_ps addr 2 s; (x1, s) = get_ps addr 1 s; (x0, s) = get_ps addr 0 s
      in set_preg r (word32 (\<lambda>i. [x0, x1, x2, x3] ! i)) s)"

text \<open>\<open>ps8se(ps, get_memory_inst(pc++))\<close> and \<open>ps16se(ps, h<<8|l)\<close>.\<close>

definition ps_d :: "32 word \<Rightarrow> cpu \<Rightarrow> 32 word \<times> cpu" where
  "ps_d ps s = (let (d, s) = fetch s in ps8se ps d s)"

definition ps_rr :: "32 word \<Rightarrow> reg \<Rightarrow> reg \<Rightarrow> cpu \<Rightarrow> 32 word \<times> cpu" where
  "ps_rr ps hi lo s = ps16se ps (pair16 (regs s hi) (regs s lo)) s"

text \<open>The \<open>lmn\<close> operand: the middle byte is not shifted.\<close>

definition lmn :: "cpu \<Rightarrow> 32 word \<times> cpu" where
  "lmn s =
     (let b = (\<lambda>i. uint (get_memory_inst (uint (pc s) + i) s))
      in (u32 (b 0 OR b 1 OR shl (b 2) 16), s\<lparr>pc := pc s + 3\<rparr>))"

definition imn :: "cpu \<Rightarrow> 16 word \<times> cpu" where
  "imn s =
     (u16 (uint (get_memory_inst (uint (pc s)) s) OR shl (uint (get_memory_inst (uint (pc s) + 1) s)) 8),
      s\<lparr>pc := pc s + 2\<rparr>)"

text \<open>\<open>(msb << 8|lsb) + (get_memory_inst(pc++)^128)-128\<close>\<close>

definition ixyd :: "int \<Rightarrow> int \<Rightarrow> cpu \<Rightarrow> 16 word \<times> cpu" where
  "ixyd lsb msb s = (let (d, s) = fetch s in (u16 ((shl msb 8 OR lsb) + sdisp d), s))"

definition sp_n :: "cpu \<Rightarrow> 16 word \<times> cpu" where
  "sp_n s = (let (n, s) = fetch s in (u16 (uint (sp s) + uint n), s))"

definition get_stack :: "int \<Rightarrow> cpu \<Rightarrow> 8 word" where
  "get_stack a s = get_memory a MEM_TYPE_STACK s"

definition no_altd :: "cpu \<Rightarrow> cpu" where
  "no_altd s = s\<lparr>altd := False\<rparr>"

section \<open>A and HL\<close>

definition r4k_exp :: "cpu \<Rightarrow> cpu" where
  "r4k_exp s =
     (let P = pregs s
      in ticks 4 (s\<lparr>pregs := (\<lambda>r. case r of PW \<Rightarrow> P PW' | PW' \<Rightarrow> P PW | PX \<Rightarrow> P PX' | PX' \<Rightarrow> P PX
           | PY \<Rightarrow> P PY' | PY' \<Rightarrow> P PY | PZ \<Rightarrow> P PZ' | PZ' \<Rightarrow> P PZ)\<rparr>))"

definition r4k_ld_a_ipshl :: "int \<Rightarrow> cpu \<Rightarrow> cpu" where
  "r4k_ld_a_ipshl opcode s =
     (let (addr, s) = ps_rr (read_ps (fld4 opcode) s) rH rL s
      in ticks 6 (set_reg (dst_r rA rA' s) (get_physical (uint addr) s) s))"

definition r4k_ld_ipdhl_a :: "int \<Rightarrow> cpu \<Rightarrow> cpu" where
  "r4k_ld_ipdhl_a opcode s =
     (let (addr, s) = ps_rr (read_ps (fld4 opcode) s) rH rL s
      in ticks 6 (put_physical (uint addr) (regs s rA) s))"

definition r4k_ld_a_ipsd :: "int \<Rightarrow> cpu \<Rightarrow> cpu" where
  "r4k_ld_a_ipsd opcode s =
     (let (addr, s) = ps_d (read_ps (fld4 opcode) s) s
      in ticks 7 (set_reg (dst_r rA rA' s) (get_physical (uint addr) s) s))"

definition r4k_ld_ipdd_a :: "int \<Rightarrow> cpu \<Rightarrow> cpu" where
  "r4k_ld_ipdd_a opcode s =
     (let (addr, s) = ps_d (read_ps (fld4 opcode) s) s
      in ticks 7 (put_physical (uint addr) (regs s rA) s))"

text \<open>\<open>*dl = get_memory(addr); *dh = get_memory(ps8se(addr, 1));\<close> and the store.\<close>

definition ld_pair_ps :: "reg \<Rightarrow> reg \<Rightarrow> 32 word \<Rightarrow> cpu \<Rightarrow> cpu" where
  "ld_pair_ps dh dl addr s =
     (let s = set_reg dl (get_physical (uint addr) s) s;
          (x, s) = get_ps addr 1 s
      in set_reg dh x s)"

definition ld_ps_pair :: "reg \<Rightarrow> reg \<Rightarrow> 32 word \<Rightarrow> cpu \<Rightarrow> cpu" where
  "ld_ps_pair sh sl addr s = put_ps addr 1 (regs s sh) (put_physical (uint addr) (regs s sl) s)"

definition r4k_ld_hl_ipsd :: "int \<Rightarrow> cpu \<Rightarrow> cpu" where
  "r4k_ld_hl_ipsd opcode s =
     (let (addr, s) = ps_d (read_ps (fld4 opcode) s) s
      in ticks 11 (ld_pair_ps (dst_r rH rH' s) (dst_r rL rL' s) addr s))"

definition r4k_ld_ipdd_hl :: "int \<Rightarrow> cpu \<Rightarrow> cpu" where
  "r4k_ld_ipdd_hl opcode s =
     (let (addr, s) = ps_d (read_ps (fld4 opcode) s) s in ticks 11 (ld_ps_pair rH rL addr s))"

definition r4k_ld_hl_ipsbc :: "int \<Rightarrow> cpu \<Rightarrow> cpu" where
  "r4k_ld_hl_ipsbc opcode s =
     (let (addr, s) = ps_rr (read_ps (fld4 opcode) s) rB rC s
      in ticks 11 (ld_pair_ps (dst_r rH rH' s) (dst_r rL rL' s) addr s))"

definition r4k_ld_ipdbc_hl :: "int \<Rightarrow> cpu \<Rightarrow> cpu" where
  "r4k_ld_ipdbc_hl opcode s =
     (let (addr, s) = ps_rr (read_ps (fld4 opcode) s) rB rC s in ticks 11 (ld_ps_pair rH rL addr s))"

definition r4k_ld_a_ixya :: "int \<Rightarrow> int \<Rightarrow> cpu \<Rightarrow> cpu" where
  "r4k_ld_a_ixya lsb msb s =
     (let addr = u16 ((shl msb 8 OR lsb) + uint (regs s rA))
      in ticks 8 (set_reg (dst_r rA rA' s) (get_memory_data (uint addr) s) s))"

definition r4k_ld_hl_isphl :: "cpu \<Rightarrow> cpu" where
  "r4k_ld_hl_isphl s =
     (let s = no_io s;
          R = (\<lambda>r. uint (regs s r));
          offset = uint (sp s) + (if altd s then R rH' * 256 + R rL' else R rH * 256 + R rL);
          s = set_reg rL' (get_memory_data offset s) s
      in ticks 4 (set_reg rH' (get_memory_data (offset + 1) s) s))"

section \<open>Register pairs\<close>

definition r4k_ld_rr_ipsd :: "int \<Rightarrow> cpu \<Rightarrow> cpu" where
  "r4k_ld_rr_ipsd opcode s =
     (let (addr, s) = ps_d (read_ps (fld4 opcode) s) s
      in ticks 19 (ld_pair_ps (rr_msb (fld6 opcode) (altd s)) (rr_lsb (fld6 opcode) (altd s)) addr s))"

text \<open>This store clears ALTD first and then selects by it, so it always reads the main registers.\<close>

definition r4k_ld_ipdd_rr :: "int \<Rightarrow> cpu \<Rightarrow> cpu" where
  "r4k_ld_ipdd_rr opcode s =
     (let (addr, s) = ps_d (read_ps (fld4 opcode) s) s;
          s = no_altd s
      in ticks 19 (ld_ps_pair (rr_msb (fld6 opcode) (altd s)) (rr_lsb (fld6 opcode) (altd s)) addr s))"

definition r4k_ld_rr_ipshl :: "int \<Rightarrow> cpu \<Rightarrow> cpu" where
  "r4k_ld_rr_ipshl opcode s =
     (let (addr, s) = ps_rr (read_ps (fld4 opcode) s) rH rL s
      in ticks 19 (ld_pair_ps (rr_msb (fld6 opcode) (altd s)) (rr_lsb (fld6 opcode) (altd s)) addr s))"

definition r4k_ld_ipdhl_rr :: "int \<Rightarrow> cpu \<Rightarrow> cpu" where
  "r4k_ld_ipdhl_rr opcode s =
     (let (addr, s) = ps_rr (read_ps (fld4 opcode) s) rH rL s;
          s = no_altd s
      in ticks 19 (ld_ps_pair (rr_msb (fld6 opcode) (alts s)) (rr_lsb (fld6 opcode) (alts s)) addr s))"

definition r4k_ldf_rr_ilmn :: "int \<Rightarrow> cpu \<Rightarrow> cpu" where
  "r4k_ldf_rr_ilmn opcode s =
     (let (addr, s) = lmn s
      in ticks 15 (ld_pair_ps (rr_msb (fld4 opcode) (altd s)) (rr_lsb (fld4 opcode) (altd s)) addr s))"

text \<open>The stores to \<open>(lmn)\<close> write both bytes to the same address.\<close>

definition ldf_pair :: "reg \<Rightarrow> reg \<Rightarrow> 32 word \<Rightarrow> cpu \<Rightarrow> cpu" where
  "ldf_pair sh sl addr s = put_physical (uint addr) (regs s sh) (put_physical (uint addr) (regs s sl) s)"

definition r4k_ldf_ilmn_rr :: "int \<Rightarrow> cpu \<Rightarrow> cpu" where
  "r4k_ldf_ilmn_rr opcode s =
     (let s = no_altd s;
          (addr, s) = lmn s
      in ticks 17 (ldf_pair (rr_msb (fld4 opcode) (alts s)) (rr_lsb (fld4 opcode) (alts s)) addr s))"

definition r4k_ldf_a_ilmn :: "cpu \<Rightarrow> cpu" where
  "r4k_ldf_a_ilmn s =
     (let (addr, s) = lmn s in ticks 11 (set_reg (dst_r rA rA' s) (get_physical (uint addr) s) s))"

definition r4k_ldf_ilmn_a :: "cpu \<Rightarrow> cpu" where
  "r4k_ldf_ilmn_a s = (let (addr, s) = lmn s in ticks 12 (put_physical (uint addr) (regs s rA) s))"

definition r4k_ldf_hl_ilmn :: "cpu \<Rightarrow> cpu" where
  "r4k_ldf_hl_ilmn s =
     (let (addr, s) = lmn s in ticks 13 (ld_pair_ps (dst_r rH rH' s) (dst_r rL rL' s) addr s))"

definition r4k_ldf_ilmn_hl :: "cpu \<Rightarrow> cpu" where
  "r4k_ldf_ilmn_hl s = (let (addr, s) = lmn s in ticks 15 (ldf_pair rH rL addr s))"

section \<open>Pointer registers\<close>

definition r4k_ld_pd_psrr :: "int \<Rightarrow> int \<Rightarrow> int \<Rightarrow> cpu \<Rightarrow> cpu" where
  "r4k_ld_pd_psrr opcode lsb msb s =
     (let pd = write_pd (fld6 opcode) s;
          (addr, s) = ps16se (read_ps (fld4 opcode) s) (u16 (shl msb 8 OR lsb)) s
      in ticks 4 (set_preg pd addr s))"

definition r4k_ld_pd_ps :: "int \<Rightarrow> cpu \<Rightarrow> cpu" where
  "r4k_ld_pd_ps opcode s = ticks 4 (set_preg (write_pd (fld6 opcode) s) (read_ps (fld4 opcode) s) s)"

definition r4k_ld_pd_ipsd :: "int \<Rightarrow> cpu \<Rightarrow> cpu" where
  "r4k_ld_pd_ipsd opcode s =
     (let pd = write_pd (fld6 opcode) s;
          (addr, s) = ps_d (read_ps (fld4 opcode) s) s
      in ticks 15 (ld_pd_ps_mem pd addr s))"

definition r4k_ld_ipdd_ps :: "int \<Rightarrow> cpu \<Rightarrow> cpu" where
  "r4k_ld_ipdd_ps opcode s =
     (let pd = write_pd (fld6 opcode) s;
          ps = uint (read_ps (fld4 opcode) s);
          (addr, s) = ps_d (pregs s pd) s;
          s = put_physical (uint addr) (byte_of ps 0) s;
          s = put_ps addr 1 (byte_of ps 1) s;
          s = put_ps addr 2 (byte_of ps 2) s
      in ticks 15 (put_ps addr 3 (byte_of ps 3) s))"

definition r4k_ld_pd_ipsrr :: "int \<Rightarrow> int \<Rightarrow> int \<Rightarrow> cpu \<Rightarrow> cpu" where
  "r4k_ld_pd_ipsrr opcode lsb msb s =
     (let pd = write_pd (fld6 opcode) s;
          (addr, s) = ps16se (read_ps (fld4 opcode) s) (u16 (shl msb 8 OR lsb)) s
      in ticks 15 (ld_pd_ps_mem pd addr s))"

definition r4k_ld_pd_ipshl :: "int \<Rightarrow> cpu \<Rightarrow> cpu" where
  "r4k_ld_pd_ipshl opcode s = r4k_ld_pd_ipsrr opcode (uint (regs s rL)) (uint (regs s rH)) s"

definition r4k_ld_ipdrr :: "int \<Rightarrow> int \<Rightarrow> int \<Rightarrow> cpu \<Rightarrow> cpu" where
  "r4k_ld_ipdrr opcode lsb msb s =
     (let ps = uint (read_ps (fld4 opcode) s);
          s = no_altd s;
          pd = write_pd (fld6 opcode) s;
          (addr, s) = ps16se (pregs s pd) (u16 (shl msb 8 OR lsb)) s;
          s = put_physical (uint addr) (byte_of ps 0) s;
          s = put_ps addr 1 (byte_of ps 1) s;
          s = put_ps addr 2 (byte_of ps 2) s
      in ticks 15 (put_ps addr 3 (byte_of ps 3) s))"

definition r4k_ld_ipdhl_ps :: "int \<Rightarrow> cpu \<Rightarrow> cpu" where
  "r4k_ld_ipdhl_ps opcode s = r4k_ld_ipdrr opcode (uint (regs s rL)) (uint (regs s rH)) s"

definition r4k_ld_pd_psd :: "int \<Rightarrow> cpu \<Rightarrow> cpu" where
  "r4k_ld_pd_psd opcode s =
     (let pd = write_pd (fld6 opcode) s;
          (addr, s) = ps_d (read_ps (fld4 opcode) s) s
      in ticks 6 (set_preg pd addr s))"

definition r4k_ld_pd_ispn :: "int \<Rightarrow> cpu \<Rightarrow> cpu" where
  "r4k_ld_pd_ispn opcode s =
     (let pd = write_pd (fld4 opcode) s;
          (a, s) = sp_n s
      in ticks 15 (set_preg pd (word32 (\<lambda>i. get_stack (uint a + int i) s)) s))"

definition r4k_ld_ispn_ps :: "int \<Rightarrow> cpu \<Rightarrow> cpu" where
  "r4k_ld_ispn_ps opcode s =
     (let ps = uint (read_ps (fld4 opcode) s);
          (d, s) = sp_n s
      in ticks 19 (put_bytes (byte_of ps) (\<lambda>i. put_mem (d + of_nat i)) s))"

text \<open>The four bytes are shifted by 0, 16, 24 and 24.\<close>

definition r4k_ld_pd_klmn :: "int \<Rightarrow> cpu \<Rightarrow> cpu" where
  "r4k_ld_pd_klmn opcode s =
     (let b = (\<lambda>i. uint (get_memory_inst (uint (pc s) + i) s));
          v = u32 (b 0 OR shl (b 1) 16 OR shl (b 2) 24 OR shl (b 3) 24);
          s = set_preg (write_pd (fld4 opcode) s) v s
      in ticks 12 (s\<lparr>pc := pc s + 4\<rparr>))"

definition logical :: "int \<Rightarrow> 32 word" where
  "logical v = u32 (v OR 0xffff0000)"

definition r4k_ldl_pd_mn :: "int \<Rightarrow> cpu \<Rightarrow> cpu" where
  "r4k_ldl_pd_mn opcode s =
     (let pd = write_pd (fld4 opcode) s; (v, s) = imn s in ticks 8 (set_preg pd (logical (uint v)) s))"

definition r4k_ldl_pd_ispn :: "int \<Rightarrow> cpu \<Rightarrow> cpu" where
  "r4k_ldl_pd_ispn opcode s =
     (let pd = write_pd (fld4 opcode) s;
          (a, s) = sp_n s;
          v = uint (get_stack (uint a) s) OR shl (uint (get_stack (uint a + 1) s)) 8
      in ticks 11 (set_preg pd (logical v) s))"

definition r4k_ldl_pd_rr :: "int \<Rightarrow> int \<Rightarrow> int \<Rightarrow> cpu \<Rightarrow> cpu" where
  "r4k_ldl_pd_rr opcode lsb msb s = ticks 2 (set_preg (write_pd (fld4 opcode) s) (logical (lsb OR shl msb 8)) s)"

definition r4k_ldf_pd_ilmn :: "int \<Rightarrow> cpu \<Rightarrow> cpu" where
  "r4k_ldf_pd_ilmn opcode s =
     (let pd = write_pd (fld4 opcode) s;
          (addr, s) = lmn s
      in ticks 19 (set_preg pd (word32 (\<lambda>i. get_physical (uint (addr + of_nat i)) s)) s))"

definition r4k_ldf_ilmn_ps :: "int \<Rightarrow> cpu \<Rightarrow> cpu" where
  "r4k_ldf_ilmn_ps opcode s =
     (let ps = uint (read_ps (fld4 opcode) s);
          (addr, s) = lmn s
      in ticks 23 (put_bytes (byte_of ps) (\<lambda>i. put_physical (uint (addr + of_nat i))) s))"

definition r4k_push_ps :: "int \<Rightarrow> cpu \<Rightarrow> cpu" where
  "r4k_push_ps opcode s =
     (let ps = uint (read_ps (fld4 opcode) s)
      in ticks 18 (push8 (byte_of ps 0) (push8 (byte_of ps 1) (push8 (byte_of ps 2) (push8 (byte_of ps 3) s)))))"

definition r4k_pop_pd :: "int \<Rightarrow> cpu \<Rightarrow> cpu" where
  "r4k_pop_pd opcode s =
     (let s = set_preg (write_pd (fld4 opcode) s) (word32 (\<lambda>i. get_stack (uint (sp s) + int i) s)) s
      in ticks 13 (s\<lparr>sp := sp s + 4\<rparr>))"

section \<open>The 32-bit registers BCDE and JKHL\<close>

definition r4k_ld_pd_r32 :: "int \<Rightarrow> bool \<Rightarrow> cpu \<Rightarrow> cpu" where
  "r4k_ld_pd_r32 opcode isjkhl s =
     (let v = (if isjkhl then get_r32 (rL, rH, rK, rJ) s else get_r32 (rE, rD, rC, rB) s)
      in ticks 4 (set_preg (write_pd (fld4 opcode) s) (u32 v) s))"

definition r4k_ld_ipdhl_r32 :: "int \<Rightarrow> bool \<Rightarrow> cpu \<Rightarrow> cpu" where
  "r4k_ld_ipdhl_r32 opcode isjkhl s =
     (let (addr, s) = ps_rr (read_ps (fld4 opcode) s) rH rL s;
          s = no_altd s
      in ticks 18 (put_r32 (r32_source isjkhl s) (put_ps addr) s))"

definition r4k_ld_ihl_r32 :: "bool \<Rightarrow> cpu \<Rightarrow> cpu" where
  "r4k_ld_ihl_r32 isjkhl s =
     (let addr = pair16 (regs s rH) (regs s rL);
          s = no_altd s
      in ticks 18 (put_r32 (r32_source isjkhl s) (\<lambda>i. put_mem (addr + of_nat i)) s))"

text \<open>The pointer register is stored most significant byte first.\<close>

definition r4k_ld_r32_ps :: "int \<Rightarrow> bool \<Rightarrow> cpu \<Rightarrow> cpu" where
  "r4k_ld_r32_ps opcode isjkhl s =
     (let v = uint (read_ps (fld4 opcode) s)
      in ticks 4 (set_r32 (r32_dest isjkhl s) (\<lambda>i. byte_of v (3 - i)) s))"

definition r4k_ld_r32_ihl :: "bool \<Rightarrow> cpu \<Rightarrow> cpu" where
  "r4k_ld_r32_ihl isjkhl s =
     (let addr = rp rH rL s
      in ticks 14 (set_r32 (r32_dest isjkhl s) (\<lambda>i. get_memory_data (addr + int i) s) s))"

definition r4k_ld_imn_r32 :: "bool \<Rightarrow> cpu \<Rightarrow> cpu" where
  "r4k_ld_imn_r32 isjkhl s =
     (let (addr, s) = imn s;
          s = no_altd s
      in ticks 19 (put_r32 (r32_source isjkhl s) (\<lambda>i. put_mem (addr + of_nat i)) s))"

definition r4k_ld_r32_imn :: "bool \<Rightarrow> cpu \<Rightarrow> cpu" where
  "r4k_ld_r32_imn isjkhl s =
     (let (addr, s) = imn s
      in ticks 15 (set_r32 (r32_dest isjkhl s) (\<lambda>i. get_memory_data (uint addr + int i) s) s))"

definition r4k_ld_r32_ipshl :: "int \<Rightarrow> bool \<Rightarrow> cpu \<Rightarrow> cpu" where
  "r4k_ld_r32_ipshl opcode isjkhl s =
     (let (addr, s) = ps_rr (read_ps (fld4 opcode) s) rH rL s
      in ticks 15 (ld_r32_ps_mem (r32_dest isjkhl s) addr s))"

definition r4k_ld_r32_ipsd :: "int \<Rightarrow> bool \<Rightarrow> cpu \<Rightarrow> cpu" where
  "r4k_ld_r32_ipsd opcode isjkhl s =
     (let (addr, s) = ps_d (read_ps (fld4 opcode) s) s
      in ticks 15 (ld_r32_ps_mem (r32_dest isjkhl s) addr s))"

definition r4k_ld_r32_ixyd :: "int \<Rightarrow> int \<Rightarrow> bool \<Rightarrow> cpu \<Rightarrow> cpu" where
  "r4k_ld_r32_ixyd lsb msb isjkhl s =
     (let (addr, s) = ixyd lsb msb s
      in ticks 15 (set_r32 (r32_dest isjkhl s) (\<lambda>i. get_memory_data (uint addr + int i) s) s))"

text \<open>The offsets go through \<open>ps16se\<close>, which computes what \<open>ps8se\<close> does.\<close>

definition r4k_ldf_r32_ilmn :: "bool \<Rightarrow> cpu \<Rightarrow> cpu" where
  "r4k_ldf_r32_ilmn isjkhl s =
     (let (addr, s) = lmn s in ticks 19 (ld_r32_ps_mem (r32_dest isjkhl s) addr s))"

definition r4k_ldf_ilmn_r32 :: "bool \<Rightarrow> cpu \<Rightarrow> cpu" where
  "r4k_ldf_ilmn_r32 isjkhl s =
     (let s = no_altd s;
          (addr, s) = lmn s
      in ticks 23 (put_r32 (r32_source isjkhl s) (put_ps addr) s))"

definition r4k_ld_r32_ispn :: "bool \<Rightarrow> cpu \<Rightarrow> cpu" where
  "r4k_ld_r32_ispn isjkhl s =
     (let (a, s) = sp_n s
      in ticks 15 (set_r32 (r32_dest isjkhl s) (\<lambda>i. get_stack (uint a + int i) s) s))"

text \<open>The stores through SP compute the address with its offset and then write at SP itself.\<close>

definition r4k_ld_ispn_r32 :: "bool \<Rightarrow> cpu \<Rightarrow> cpu" where
  "r4k_ld_ispn_r32 isjkhl s =
     (let (a, s) = sp_n s
      in ticks 19 (put_r32 (r32_source isjkhl s) (\<lambda>i. put_mem (sp s + of_nat i)) s))"

definition r4k_ld_r32_isphl :: "bool \<Rightarrow> cpu \<Rightarrow> cpu" where
  "r4k_ld_r32_isphl isjkhl s =
     (let a = u16 (uint (sp s) + rp rH rL s)
      in ticks 14 (set_r32 (r32_dest isjkhl s) (\<lambda>i. get_stack (uint a + int i) s) s))"

definition r4k_ld_isphl_r32 :: "bool \<Rightarrow> cpu \<Rightarrow> cpu" where
  "r4k_ld_isphl_r32 isjkhl s = ticks 18 (put_r32 (r32_source isjkhl s) (\<lambda>i. put_mem (sp s + of_nat i)) s)"

definition r4k_ld_ixyd_r32 :: "int \<Rightarrow> int \<Rightarrow> bool \<Rightarrow> cpu \<Rightarrow> cpu" where
  "r4k_ld_ixyd_r32 lsb msb isjkhl s =
     (let (addr, s) = ixyd lsb msb s;
          s = no_altd s
      in ticks 19 (put_r32 (r32_source isjkhl s) (\<lambda>i. put_mem (addr + of_nat i)) s))"

definition r4k_ld_ipdd_r32 :: "int \<Rightarrow> bool \<Rightarrow> cpu \<Rightarrow> cpu" where
  "r4k_ld_ipdd_r32 opcode isjkhl s =
     (let (addr, s) = ps_d (read_ps (fld4 opcode) s) s;
          s = no_altd s
      in ticks 18 (put_r32 (r32_source isjkhl s) (put_ps addr) s))"

definition r4k_ld_r32_d :: "bool \<Rightarrow> cpu \<Rightarrow> cpu" where
  "r4k_ld_r32_d isjkhl s =
     (let (d, s) = fetch s; v = uint (u32 (sint d))
      in ticks 4 (set_r32 (r32_dest isjkhl s) (byte_of v) s))"

text \<open>The two registers are exchanged: JKHL pushes BCDE and the other way round.\<close>

definition r4k_push_r32 :: "bool \<Rightarrow> cpu \<Rightarrow> cpu" where
  "r4k_push_r32 isjkhl s =
     ticks 18
      (if isjkhl then push8 (regs s rE) (push8 (regs s rD) (push8 (regs s rC) (push8 (regs s rB) s)))
       else push8 (regs s rL) (push8 (regs s rH) (push8 (regs s rK) (push8 (regs s rJ) s))))"

definition r4k_pop_r32 :: "bool \<Rightarrow> cpu \<Rightarrow> cpu" where
  "r4k_pop_r32 isjkhl s =
     (let s = set_r32 (r32_dest isjkhl s) (\<lambda>i. get_stack (uint (sp s) + int i) s) s
      in ticks 13 (s\<lparr>sp := sp s + 4\<rparr>))"

end
