(* ===== verification/Ticks_R4kAlu.thy ===== *)
theory Ticks_R4kAlu
  imports Ticks_R4kLoad
begin

text \<open>
  The rest of \<open>r4k_inst.c\<close>: the 16- and 32-bit arithmetic of the Rabbit 4000 and 6000, exchanges, byte
  rotations and reversals, and the instruction pages 6D and 49. Instructions that only print a message
  are listed at the end.
\<close>

section \<open>The macro ALU_OP\<close>

text \<open>\<open>w\<close> is the width of the variable the result is assigned to. Comparison leaves it alone, so the
  result of operation 7 is not used. S, H, P/V and N are not updated: only \<open>fr\<close> and \<open>ff\<close> are written.\<close>

definition ALU_OP :: "nat \<Rightarrow> int \<Rightarrow> int \<Rightarrow> int \<Rightarrow> cpu \<Rightarrow> int \<times> cpu" where
  "ALU_OP w oper lhs rhs s =
     (let c = shr (uint (ff (if alts s \<and> (oper = 1 \<or> oper = 3) then fl' s else fl s))) 8 AND 1;
          r = take_bit w (if oper = 0 then rhs + lhs
                else if oper = 1 then rhs + lhs + c
                else if oper = 2 then lhs - rhs
                else if oper = 3 then lhs - rhs - c
                else if oper = 4 then rhs AND lhs
                else if oper = 5 then rhs XOR lhs
                else rhs OR lhs);
          carry = (if oper = 0 \<or> oper = 1 then r < rhs
                else if oper = 2 \<or> oper = 3 then r > lhs
                else if oper = 7 then rhs > lhs else False);
          zero = (if oper = 7 then lhs = rhs else r = 0)
      in (r, set_grp ((grp s)\<lparr>fr := if zero then 0 else 1, ff := if carry then 256 else 0\<rparr>) s))"

section \<open>16-bit operations\<close>

definition rp2 :: "int \<Rightarrow> bool \<Rightarrow> cpu \<Rightarrow> int" where
  "rp2 r alt s = rp (rp2_msb r alt) (rp2_lsb r alt) s"

definition set_rp2 :: "int \<Rightarrow> bool \<Rightarrow> int \<Rightarrow> cpu \<Rightarrow> cpu" where
  "set_rp2 r alt v s =
     set_reg (rp2_msb r alt) (u8 (shr v 8 AND 0xff)) (set_reg (rp2_lsb r alt) (u8 (v AND 0xff)) s)"

definition r4k_neg_hl :: "cpu \<Rightarrow> cpu" where
  "r4k_neg_hl s = (let (r, s) = ALU_OP 16 2 0 (rp2 2 (alts s) s) s in ticks 2 (set_rp2 2 (altd s) r s))"

definition r4k_xor_hl_de :: "cpu \<Rightarrow> cpu" where
  "r4k_xor_hl_de s =
     (let (r, s) = ALU_OP 16 5 (rp2 2 (alts s) s) (rp2 1 (alts s) s) s in ticks 4 (set_rp2 2 (altd s) r s))"

definition r4k_test_hlxy :: "int \<Rightarrow> cpu \<Rightarrow> cpu" where
  "r4k_test_hlxy prefix s =
     (let val = (if prefix = 0x00 then rp2 2 (alts s) s else if prefix = 0xdd then rp rXH rXL s else rp rYH rYL s)
      in ticks 4 (snd (ALU_OP 16 6 val 0 s)))"

definition r4k_test_rp2 :: "int \<Rightarrow> cpu \<Rightarrow> cpu" where
  "r4k_test_rp2 opcode s =
     ticks 4 (snd (ALU_OP 16 6 (rp2 (if opcode = 0x4c then 0 else 1) (alts s) s) 0 s))"

definition r4k_cp_hl_d :: "cpu \<Rightarrow> cpu" where
  "r4k_cp_hl_d s =
     (let (d, s) = fetch s; v = uint (u16 (sdisp d)) in ticks 4 (snd (ALU_OP 16 7 (rp2 2 (alts s) s) v s)))"

definition r4k_cp_hl_de :: "cpu \<Rightarrow> cpu" where
  "r4k_cp_hl_de s = ticks 4 (snd (ALU_OP 16 7 (rp2 2 (alts s) s) (rp2 1 (alts s) s) s))"

text \<open>The flag argument is a \<open>uint8_t\<close>.\<close>

definition r4k_flag_cc_hl :: "int \<Rightarrow> cpu \<Rightarrow> cpu" where
  "r4k_flag_cc_hl c s =
     (let s = set_reg rH 0 (set_reg rL 0 s) in ticks 4 (if u8 c \<noteq> 0 then set_reg rL 1 s else s))"

text \<open>\<open>c-- || (b > 0 && b--)\<close>: from BC = 0 the counter becomes 0x00ff.\<close>

definition r4k_dwjnz :: "cpu \<Rightarrow> cpu" where
  "r4k_dwjnz s =
     (let b = dst_r rB rB' s; c = dst_r rC rC' s;
          c0 = regs s c;
          s = set_reg c (c0 - 1) s;
          s = (if c0 = 0 \<and> regs s b \<noteq> 0 then set_reg b (regs s b - 1) s else s);
          s = (if uint (regs s c) OR uint (regs s b) = 0 then s\<lparr>pc := pc s + 1\<rparr>
               else (let s = rel_jump s in s\<lparr>mp := pc s\<rparr>))
      in ticks 7 s)"

definition r4k_push_mn :: "cpu \<Rightarrow> cpu" where
  "r4k_push_mn s =
     (let (v, s) = fetch s; (v2, s) = fetch s in ticks 15 (push8 v (push8 v2 s)))"

text \<open>The products are unsigned and signed; the factors are taken from the main registers.\<close>

definition r4k_mulu :: "cpu \<Rightarrow> cpu" where
  "r4k_mulu s = ticks 10 (set_r32 (rC, rB, rL, rH) (byte_of (rp rD rE s * rp rB rC s)) s)"

definition r6k_mulu_hl_de :: "cpu \<Rightarrow> cpu" where
  "r6k_mulu_hl_de s = ticks 12 (set_r32 (rL, rH, rK, rJ) (byte_of (rp rD rE s * rp rH rL s)) s)"

definition signed_pair :: "reg \<Rightarrow> reg \<Rightarrow> cpu \<Rightarrow> int" where
  "signed_pair hi lo s = sint (regs s hi) * 256 + uint (regs s lo)"

definition r6k_mul_hl_de :: "cpu \<Rightarrow> cpu" where
  "r6k_mul_hl_de s =
     ticks 12 (set_r32 (rL, rH, rK, rJ) (byte_of (signed_pair rD rE s * signed_pair rH rL s)) s)"

definition r4k_callxy :: "bool \<Rightarrow> cpu \<Rightarrow> cpu" where
  "r4k_callxy isiy s =
     (let s = ticks 8 s;
          s = push8 (lo8 (pc s)) (push8 (hi8 (pc s)) s);
          t = u16 (if isiy then rp rYH rYL s else rp rXH rXL s)
      in s\<lparr>pc := t, mp := t\<rparr>)"

definition r6k_add_xy_d :: "bool \<Rightarrow> cpu \<Rightarrow> cpu" where
  "r6k_add_xy_d isiy s =
     (let (d, s) = fetch s;
          (hi, lo) = (if isiy then (rYH, rYL) else (rXH, rXL));
          t = u16 (uint (u16 (sdisp d)) + rp hi lo s)
      in ticks 6 (set_reg lo (lo8 t) (set_reg hi (hi8 t) s)))"

section \<open>Copies and exchanges\<close>

definition copy_pair :: "reg \<Rightarrow> reg \<Rightarrow> reg \<Rightarrow> reg \<Rightarrow> reg \<Rightarrow> reg \<Rightarrow> reg \<Rightarrow> reg \<Rightarrow> cpu \<Rightarrow> cpu" where
  "copy_pair dh dh' dl dl' sh sh' sl sl' s =
     (let vl = src_r sl sl' s; vh = src_r sh sh' s
      in ticks 2 (set_reg (dst_r dl dl' s) vl (set_reg (dst_r dh dh' s) vh s)))"

definition r4k_ld_hl_bc :: "cpu \<Rightarrow> cpu" where
  "r4k_ld_hl_bc = copy_pair rH rH' rL rL' rB rB' rC rC'"

definition r4k_ld_hl_de :: "cpu \<Rightarrow> cpu" where
  "r4k_ld_hl_de = copy_pair rH rH' rL rL' rD rD' rE rE'"

definition r4k_ld_de_hl :: "cpu \<Rightarrow> cpu" where
  "r4k_ld_de_hl = copy_pair rD rD' rE rE' rH rH' rL rL'"

text \<open>\<open>SWAPR(r1, r2)\<close>\<close>

definition SWAPR :: "reg \<Rightarrow> reg \<Rightarrow> cpu \<Rightarrow> cpu" where
  "SWAPR r1 r2 s = (let t = regs s r1 in set_reg r2 t (set_reg r1 (regs s r2) s))"

definition r4k_ex_jkhl_bcde :: "cpu \<Rightarrow> cpu" where
  "r4k_ex_jkhl_bcde s =
     ticks 2 (if altd s then SWAPR rL' rE (SWAPR rH' rD (SWAPR rK' rC (SWAPR rJ' rB s)))
              else SWAPR rL rE (SWAPR rH rD (SWAPR rK rC (SWAPR rJ rB s))))"

definition r6k_ex_jkhl_bcde1 :: "cpu \<Rightarrow> cpu" where
  "r6k_ex_jkhl_bcde1 s =
     ticks 2 (if altd s then SWAPR rL' rE' (SWAPR rH' rD' (SWAPR rK' rC' (SWAPR rJ' rB' s)))
              else SWAPR rL rE' (SWAPR rH rD' (SWAPR rK rC' (SWAPR rJ rB' s))))"

definition r4k_ex_jk1_hl :: "cpu \<Rightarrow> cpu" where
  "r4k_ex_jk1_hl s =
     ticks 4 (if altd s then SWAPR rK' rL (SWAPR rJ' rH s) else SWAPR rK' rL' (SWAPR rJ' rH' s))"

definition r4k_ex_jk_hl :: "cpu \<Rightarrow> cpu" where
  "r4k_ex_jk_hl s = ticks 2 (if altd s then SWAPR rK rL' (SWAPR rJ rH' s) else SWAPR rK rL (SWAPR rJ rH s))"

definition r4k_ex_bc_hl :: "cpu \<Rightarrow> cpu" where
  "r4k_ex_bc_hl s = ticks 2 (if altd s then SWAPR rC rL' (SWAPR rB rH' s) else SWAPR rC rL (SWAPR rB rH s))"

section \<open>32-bit operations\<close>

definition r4k_test_r32 :: "bool \<Rightarrow> cpu \<Rightarrow> cpu" where
  "r4k_test_r32 isjkhl s = ticks 4 (snd (ALU_OP 32 6 (get_r32 (r32_source isjkhl s) s) 0 s))"

definition r4k_neg_r32 :: "bool \<Rightarrow> cpu \<Rightarrow> cpu" where
  "r4k_neg_r32 isjkhl s =
     (let (r, s) = ALU_OP 32 2 0 (get_r32 (r32_source isjkhl s) s) s
      in ticks 4 (set_r32 (r32_dest isjkhl s) (byte_of r) s))"

definition r4k_cp_jkhl_bcde :: "cpu \<Rightarrow> cpu" where
  "r4k_cp_jkhl_bcde s =
     ticks 4 (snd (ALU_OP 32 7 (get_r32 (r32_source True s) s) (get_r32 (r32_source False s) s) s))"

definition r4k_alu_jkhl_bcde :: "int \<Rightarrow> cpu \<Rightarrow> cpu" where
  "r4k_alu_jkhl_bcde opcode s =
     (let (r, s) = ALU_OP 32 (shr opcode 3 AND 0x07)
            (get_r32 (r32_source True s) s) (get_r32 (r32_source False s) s) s
      in ticks 4 (set_r32 (r32_dest True s) (byte_of r) s))"

text \<open>Rotations by a byte, through A or within the register; the bytes move one at a time.\<close>

definition r4k_rlb_a_r32 :: "bool \<Rightarrow> cpu \<Rightarrow> cpu" where
  "r4k_rlb_a_r32 isjkhl s =
     (let (s0, s1, s2, s3) = r32_source isjkhl s;
          (d0, d1, d2, d3) = r32_dest isjkhl s;
          t = src_a s;
          s = set_reg (dst_r rA rA' s) (regs s s3) s;
          s = set_reg d3 (regs s s2) s;
          s = set_reg d2 (regs s s1) s;
          s = set_reg d1 (regs s s0) s
      in ticks 4 (set_reg d0 t s))"

definition r4k_rrb_a_r32 :: "bool \<Rightarrow> cpu \<Rightarrow> cpu" where
  "r4k_rrb_a_r32 isjkhl s =
     (let (s0, s1, s2, s3) = r32_source isjkhl s;
          (d0, d1, d2, d3) = r32_dest isjkhl s;
          t = regs s s0;
          s = set_reg d0 (regs s s1) s;
          s = set_reg d1 (regs s s2) s;
          s = set_reg d2 (regs s s3) s;
          s = set_reg d3 (src_a s) s
      in ticks 4 (set_reg (dst_r rA rA' s) t s))"

text \<open>Only the rotation by eight is implemented.\<close>

definition r4k_rlc_r32 :: "int \<Rightarrow> bool \<Rightarrow> cpu \<Rightarrow> cpu" where
  "r4k_rlc_r32 opcode isjkhl s =
     (if opcode = 0x4f then
        (let (s0, s1, s2, s3) = r32_source isjkhl s;
             (d0, d1, d2, d3) = r32_dest isjkhl s;
             t = regs s s3;
             s = set_reg d3 (regs s s2) s;
             s = set_reg d2 (regs s s1) s;
             s = set_reg d1 (regs s s0) s
         in ticks 4 (set_reg d0 t s))
      else s)"

definition r4k_rrc_r32 :: "int \<Rightarrow> bool \<Rightarrow> cpu \<Rightarrow> cpu" where
  "r4k_rrc_r32 opcode isjkhl s =
     (if opcode = 0x5f then
        (let (s0, s1, s2, s3) = r32_source isjkhl s;
             (d0, d1, d2, d3) = r32_dest isjkhl s;
             t = regs s s0;
             s = set_reg d0 (regs s s1) s;
             s = set_reg d1 (regs s s2) s;
             s = set_reg d2 (regs s s3) s
         in ticks 4 (set_reg d3 t s))
      else s)"

text \<open>\<open>(opcode & 0x0f) >> 4\<close> is 0 for every opcode: INC and DEC always step PW.\<close>

definition r6k_inc_ps :: "int \<Rightarrow> cpu \<Rightarrow> cpu" where
  "r6k_inc_ps opcode s =
     (let p = write_pd (shr (opcode AND 0x0f) 4) s in ticks 4 (set_preg p (pregs s p + 1) s))"

definition r6k_dec_ps :: "int \<Rightarrow> cpu \<Rightarrow> cpu" where
  "r6k_dec_ps opcode s =
     (let p = write_pd (shr (opcode AND 0x0f) 4) s in ticks 4 (set_preg p (pregs s p - 1) s))"

section \<open>Reversals\<close>

definition r6k_swap_rp2 :: "int \<Rightarrow> cpu \<Rightarrow> cpu" where
  "r6k_swap_rp2 opcode s =
     (let r = shr (opcode AND 0xf0) 4 - 0x0c;
          slsb = rp2_lsb r (alts s); smsb = rp2_msb r (alts s);
          dlsb = rp2_lsb r (altd s); dmsb = rp2_msb r (altd s);
          s = (if dmsb = smsb then SWAPR smsb slsb s
               else (let s = set_reg dmsb (regs s slsb) s in set_reg dlsb (regs s smsb) s))
      in ticks 4 s)"

definition r6k_swap_r32 :: "bool \<Rightarrow> cpu \<Rightarrow> cpu" where
  "r6k_swap_r32 isjkhl s =
     (let (d0, d1, d2, d3) = r32_dest isjkhl s;
          (s0, s1, s2, s3) = r32_source isjkhl s;
          s = (if d0 = s0 then SWAPR d1 s2 (SWAPR d0 s3 s)
               else (let s = set_reg d0 (regs s s3) s; s = set_reg d1 (regs s s2) s; s = set_reg d2 (regs s s1) s
                     in set_reg d3 (regs s s0) s))
      in ticks 4 s)"

definition r6k_mirror_byte :: "8 word \<Rightarrow> 8 word" where
  "r6k_mirror_byte v =
     (let v = u8 (shr (uint v AND 0xf0) 4 OR shl (uint v AND 0x0f) 4);
          v = u8 (shr (uint v AND 0xcc) 2 OR shl (uint v AND 0x33) 2)
      in u8 (shr (uint v AND 0xaa) 1 OR shl (uint v AND 0x55) 1))"

text \<open>Index 6 has no register.\<close>

definition r_ptr :: "int \<Rightarrow> bool \<Rightarrow> reg option" where
  "r_ptr r alt =
     (if r \<in> {0, 1, 2, 3, 4, 5, 7}
      then Some ((if alt then [rB', rC', rD', rE', rH', rL', rA', rA'] else [rB, rC, rD, rE, rH, rL, rA, rA]) ! nat r)
      else None)"

definition r6k_swap_r :: "int \<Rightarrow> cpu \<Rightarrow> cpu" where
  "r6k_swap_r opcode s =
     (let r = (shr opcode 4 AND 0x0f) - 8 in
      ticks 4
       (if r = 6 then
          (let addr = pair16 (regs s rH) (regs s rL)
           in put_mem addr (r6k_mirror_byte (get_memory_data (uint addr) s)) s)
        else (case (r_ptr r (alts s), r_ptr r (altd s)) of
            (Some src, Some dst) \<Rightarrow> set_reg dst (r6k_mirror_byte (regs s src)) s
          | _ \<Rightarrow> s)))"

section \<open>Operations with memory\<close>

definition oper4 :: "int \<Rightarrow> int" where
  "oper4 opcode = shr opcode 4 AND 0x07"

text \<open>\<open>(opcode & 1) + (((opcode - 0x80) >> 4) & 0x0f) * 2\<close>\<close>

definition oper_xyd :: "int \<Rightarrow> int" where
  "oper_xyd opcode = (opcode AND 1) + (shr (opcode - 0x80) 4 AND 0x0f) * 2"

definition data32 :: "16 word \<Rightarrow> cpu \<Rightarrow> int" where
  "data32 a s = uint (word32 (\<lambda>i. get_memory_data (uint a + int i) s))"

definition data16 :: "16 word \<Rightarrow> cpu \<Rightarrow> int" where
  "data16 a s = uint (get_memory_data (uint a) s) OR shl (uint (get_memory_data (uint a + 1) s)) 8"

text \<open>The write-back, which CP leaves out.\<close>

definition alu_a :: "nat \<Rightarrow> int \<Rightarrow> int \<Rightarrow> cpu \<Rightarrow> cpu" where
  "alu_a w oper val s =
     (let (r, s) = ALU_OP w oper (uint (src_a s)) val s
      in ticks 10 (if oper \<noteq> 7 then set_reg (dst_r rA rA' s) (u8 r) s else s))"

definition alu_hl :: "int \<Rightarrow> int \<Rightarrow> cpu \<Rightarrow> cpu" where
  "alu_hl oper val s =
     (let (r, s) = ALU_OP 16 oper (rp2 2 (alts s) s) val s
      in ticks 12 (if oper \<noteq> 7 then set_rp2 2 (altd s) r s else s))"

definition alu_jkhl :: "nat \<Rightarrow> int \<Rightarrow> int \<Rightarrow> int \<Rightarrow> cpu \<Rightarrow> cpu" where
  "alu_jkhl w oper val n s =
     (let (r, s) = ALU_OP w oper (get_r32 (r32_source True s) s) val s
      in ticks n (if oper \<noteq> 7 then set_r32 (r32_dest True s) (byte_of r) s else s))"

text \<open>The results of the 8-bit operations with \<open>(ps+d)\<close> go through a 32-bit variable, those of the 32-bit
  operations with \<open>(ix+d)\<close> and \<open>(sp+n)\<close> through a 16-bit one.\<close>

definition r6k_alu_a_psd :: "int \<Rightarrow> cpu \<Rightarrow> cpu" where
  "r6k_alu_a_psd opcode s =
     (let (addr, s) = ps_d (read_ps (opcode AND 0x03) s) s
      in alu_a 32 (oper4 opcode) (uint (get_physical (uint addr) s)) s)"

definition r6k_alu_a_spn :: "int \<Rightarrow> cpu \<Rightarrow> cpu" where
  "r6k_alu_a_spn opcode s =
     (let (addr, s) = sp_n s in alu_a 8 (oper4 opcode) (uint (get_memory_data (uint addr) s)) s)"

definition r6k_alu_hl_psd :: "int \<Rightarrow> cpu \<Rightarrow> cpu" where
  "r6k_alu_hl_psd opcode s =
     (let (addr, s) = ps_d (read_ps (opcode AND 0x03) s) s
      in alu_hl (oper4 opcode)
           (uint (get_physical (uint addr) s) OR shl (uint (get_physical (uint (addr + 1)) s)) 8) s)"

definition r6k_alu_hl_xyd :: "int \<Rightarrow> bool \<Rightarrow> cpu \<Rightarrow> cpu" where
  "r6k_alu_hl_xyd opcode isiy s =
     (let R = (\<lambda>r. uint (regs s r));
          (addr, s) = (if isiy then ixyd (R rYL) (R rYH) s else ixyd (R rXL) (R rXH) s)
      in alu_hl (oper_xyd opcode) (data16 addr s) s)"

definition r6k_alu_hl_spn :: "int \<Rightarrow> cpu \<Rightarrow> cpu" where
  "r6k_alu_hl_spn opcode s = (let (addr, s) = sp_n s in alu_hl (oper4 opcode) (data16 addr s) s)"

definition r6k_alu_jkhl_psd :: "int \<Rightarrow> cpu \<Rightarrow> cpu" where
  "r6k_alu_jkhl_psd opcode s =
     (let (addr, s) = ps_d (read_ps (opcode AND 0x03) s) s
      in alu_jkhl 32 (oper4 opcode) (uint (word32 (\<lambda>i. get_physical (uint (addr + of_nat i)) s))) 16 s)"

definition r6k_alu_jkhl_ps :: "int \<Rightarrow> cpu \<Rightarrow> cpu" where
  "r6k_alu_jkhl_ps opcode s = alu_jkhl 32 (oper4 opcode) (uint (read_ps (opcode AND 0x03) s)) 4 s"

definition r6k_alu_jkhl_xyd :: "int \<Rightarrow> bool \<Rightarrow> cpu \<Rightarrow> cpu" where
  "r6k_alu_jkhl_xyd opcode isiy s =
     (let R = (\<lambda>r. uint (regs s r));
          (addr, s) = (if isiy then ixyd (R rYL) (R rYH) s else ixyd (R rXL) (R rXH) s)
      in alu_jkhl 16 (oper_xyd opcode) (data32 addr s) 16 s)"

definition r6k_alu_jkhl_spn :: "int \<Rightarrow> cpu \<Rightarrow> cpu" where
  "r6k_alu_jkhl_spn opcode s =
     (let (addr, s) = sp_n s in alu_jkhl 16 (oper4 opcode) (data32 addr s) 16 s)"

section \<open>Instructions that are not implemented\<close>

text \<open>They print a message and take the time given, or none.\<close>

definition r4k_rl_r32 :: "cpu \<Rightarrow> cpu" where "r4k_rl_r32 s = s"
definition r4k_rr_r32 :: "cpu \<Rightarrow> cpu" where "r4k_rr_r32 s = s"
definition r4k_sla_r32 :: "cpu \<Rightarrow> cpu" where "r4k_sla_r32 s = s"
definition r4k_sra_r32 :: "cpu \<Rightarrow> cpu" where "r4k_sra_r32 s = s"
definition r4k_sll_r32 :: "cpu \<Rightarrow> cpu" where "r4k_sll_r32 s = s"
definition r4k_srl_r32 :: "cpu \<Rightarrow> cpu" where "r4k_srl_r32 s = s"
definition r4k_jre :: "cpu \<Rightarrow> cpu" where "r4k_jre s = s"
definition r4k_lljp :: "cpu \<Rightarrow> cpu" where "r4k_lljp = ticks 14"
definition r4k_llcall :: "cpu \<Rightarrow> cpu" where "r4k_llcall = ticks 24"
definition r4k_llcall_jkhl :: "cpu \<Rightarrow> cpu" where "r4k_llcall_jkhl = ticks 19"
definition r4k_cbm :: "cpu \<Rightarrow> cpu" where "r4k_cbm = ticks 15"
definition r4k_sbox_a :: "cpu \<Rightarrow> cpu" where "r4k_sbox_a = ticks 4"
definition r4k_ibox_a :: "cpu \<Rightarrow> cpu" where "r4k_ibox_a = ticks 4"
definition r4k_convc :: "cpu \<Rightarrow> cpu" where "r4k_convc s = s"
definition r4k_convd :: "cpu \<Rightarrow> cpu" where "r4k_convd s = s"
definition r4k_ld_a_htr :: "cpu \<Rightarrow> cpu" where "r4k_ld_a_htr s = s"
definition r4k_ld_htr_a :: "cpu \<Rightarrow> cpu" where "r4k_ld_htr_a s = s"
definition r4k_ld_pd_ihtrhl :: "cpu \<Rightarrow> cpu" where
  "r4k_ld_pd_ihtrhl s = ticks 14 (s\<lparr>altd := False, alts := False\<rparr>)"
definition r4k_copy :: "cpu \<Rightarrow> cpu" where "r4k_copy s = s"
definition r4k_copyr :: "cpu \<Rightarrow> cpu" where "r4k_copyr s = s"
definition r4k_ld_hl_lxpc :: "cpu \<Rightarrow> cpu" where "r4k_ld_hl_lxpc = ticks 2"
definition r4k_ld_lxpc_hl :: "cpu \<Rightarrow> cpu" where "r4k_ld_lxpc_hl = ticks 2"
definition r4k_setusrp_mn :: "cpu \<Rightarrow> cpu" where "r4k_setusrp_mn = ticks 15"
definition r4k_fsyscall :: "cpu \<Rightarrow> cpu" where "r4k_fsyscall = ticks 15"
definition r4k_syscall :: "cpu \<Rightarrow> cpu" where "r4k_syscall = ticks 10"
definition r4k_sysret :: "cpu \<Rightarrow> cpu" where "r4k_sysret = ticks 10"
definition r4k_llret :: "cpu \<Rightarrow> cpu" where "r4k_llret = ticks 14"
definition r4k_setsysp_mn :: "cpu \<Rightarrow> cpu" where "r4k_setsysp_mn = ticks 12"
definition r6k_ibox_ps :: "cpu \<Rightarrow> cpu" where "r6k_ibox_ps s = s"
definition r6k_sbox_ps :: "cpu \<Rightarrow> cpu" where "r6k_sbox_ps s = s"
definition r6k_tstnull_ps :: "cpu \<Rightarrow> cpu" where "r6k_tstnull_ps = ticks 4"

section \<open>Page 6D of the Rabbit 4000\<close>

definition r4k_handle_6d_page :: "cpu \<Rightarrow> cpu" where
  "r4k_handle_6d_page s =
     (let (x, s) = fetch s;
          opc = uint x; k = opc AND 0x0f;
          R = (\<lambda>r. uint (regs s r)) in
      if k = 0x00 then r4k_ld_rr_ipsd opc s
      else if k = 0x01 then r4k_ld_ipdd_rr opc s
      else if k = 0x02 then r4k_ld_rr_ipshl opc s
      else if k = 0x03 then r4k_ld_ipdhl_rr opc s
      else if k = 0x04 then r4k_ld_pd_psrr opc (R rXL) (R rXH) s
      else if k = 0x05 then r4k_ld_pd_psrr opc (R rYL) (R rYH) s
      else if k = 0x06 then r4k_ld_pd_psrr opc (R rE) (R rD) s
      else if k = 0x07 then r4k_ld_pd_ps opc s
      else if k = 0x08 then r4k_ld_pd_ipsd opc s
      else if k = 0x09 then r4k_ld_ipdd_ps opc s
      else if k = 0x0a then r4k_ld_pd_ipshl opc s
      else if k = 0x0b then r4k_ld_ipdhl_ps opc s
      else if k = 0x0c then r4k_ld_pd_psd opc s
      else if k = 0x0d then
        (let s = (if fld4 opc = 1 \<and> israbbit6k s then r6k_inc_ps opc s else s)
         in if fld4 opc = 2 \<and> israbbit6k s then r6k_sbox_ps s else s)
      else if k = 0x0e then r4k_ld_pd_psrr opc (R rL) (R rH) s
      else
        (let s = (if fld4 opc = 1 \<and> israbbit6k s then r6k_dec_ps opc s else s)
         in if fld4 opc = 2 \<and> israbbit6k s then r6k_ibox_ps s else s))"

section \<open>Page 49 of the Rabbit 6000\<close>

text \<open>The rest of the page prints messages; the increments of memory skip their operand.\<close>

definition r6k_handle_49_page :: "cpu \<Rightarrow> cpu" where
  "r6k_handle_49_page s =
     (let (x, s) = fetch s;
          opc = uint x; k = opc AND 0x0f in
      if opc < 0x80 then
        (if k \<ge> 0x0c then r6k_alu_jkhl_psd opc s
         else if k \<ge> 0x08 then r6k_alu_hl_psd opc s
         else if k \<ge> 0x04 then r6k_alu_a_psd opc s
         else r6k_alu_jkhl_ps opc s)
      else if k \<ge> 0x09 then
        (if k = 0x09 then r6k_alu_a_spn opc s
         else if k = 0x0a then r6k_alu_hl_spn opc s
         else if k = 0x0b then r6k_alu_jkhl_spn opc s
         else s)
      else if opc \<in> {0xa4, 0xa5, 0xa6, 0xa7, 0xb4, 0xb5, 0xb6, 0xb7} then s\<lparr>pc := pc s + 1\<rparr>
      else s)"

end
