(* ===== verification/Ticks_Handlers.thy ===== *)
theory Ticks_Handlers
  imports Ticks_Run Ticks_Hooks Ticks_Rabbit Ticks_Ez80 Ticks_Kc160 Ticks_R4kAlu
begin

text \<open>
  The functions the opcode pages call by name, as the interpretation of their \<open>handlers\<close> parameter:
  one table per instruction file, from the C name to its model, with the arguments the call passes.
\<close>

section \<open>Arguments\<close>

type_synonym handler = "string \<times> (int list \<Rightarrow> cpu \<Rightarrow> cpu)"

abbreviation arg_none :: "(cpu \<Rightarrow> cpu) \<Rightarrow> int list \<Rightarrow> cpu \<Rightarrow> cpu" where
  "arg_none f \<equiv> \<lambda>a. f"

abbreviation arg0 :: "(int \<Rightarrow> cpu \<Rightarrow> cpu) \<Rightarrow> int list \<Rightarrow> cpu \<Rightarrow> cpu" where
  "arg0 f \<equiv> \<lambda>a. f (a ! 0)"

abbreviation arg1 :: "(int \<Rightarrow> cpu \<Rightarrow> cpu) \<Rightarrow> int list \<Rightarrow> cpu \<Rightarrow> cpu" where
  "arg1 f \<equiv> \<lambda>a. f (a ! 1)"

abbreviation arg01 :: "(int \<Rightarrow> int \<Rightarrow> cpu \<Rightarrow> cpu) \<Rightarrow> int list \<Rightarrow> cpu \<Rightarrow> cpu" where
  "arg01 f \<equiv> \<lambda>a. f (a ! 0) (a ! 1)"

abbreviation flag1 :: "(bool \<Rightarrow> cpu \<Rightarrow> cpu) \<Rightarrow> int list \<Rightarrow> cpu \<Rightarrow> cpu" where
  "flag1 f \<equiv> \<lambda>a. f (a ! 1 \<noteq> 0)"

abbreviation arg0_flag :: "(int \<Rightarrow> bool \<Rightarrow> cpu \<Rightarrow> cpu) \<Rightarrow> int list \<Rightarrow> cpu \<Rightarrow> cpu" where
  "arg0_flag f \<equiv> \<lambda>a. f (a ! 0) (a ! 1 \<noteq> 0)"

abbreviation flags2 :: "(bool \<Rightarrow> bool \<Rightarrow> cpu \<Rightarrow> cpu) \<Rightarrow> int list \<Rightarrow> cpu \<Rightarrow> cpu" where
  "flags2 f \<equiv> \<lambda>a. f (a ! 1 \<noteq> 0) (a ! 2 \<noteq> 0)"

abbreviation may_trap :: "(cpu \<Rightarrow> cpu option) \<Rightarrow> int list \<Rightarrow> cpu \<Rightarrow> cpu" where
  "may_trap f \<equiv> \<lambda>a s. (case f s of None \<Rightarrow> stop_run Trap s | Some s' \<Rightarrow> s')"

section \<open>The tables\<close>

definition rabbit_table :: "handler list" where
  "rabbit_table =
    [(''rxk_ld_hl_ispn'', flags2 rxk_ld_hl_ispn),
     (''rxk_ld_ispn_hl'', flags2 rxk_ld_ispn_hl),
     (''rxk_ld_hl_ihlxyd'', arg1 rxk_ld_hl_ihlxyd),
     (''rxk_ld_ihlxyd_hl'', arg1 rxk_ld_ihlxyd_hl),
     (''rxk_ld_hl_xy'', arg1 rxk_ld_hl_xy),
     (''rxk_ld_xy_hl'', arg1 rxk_ld_xy_hl),
     (''rxk_bool'', flags2 rxk_bool),
     (''rxk_and_hlxy_de'', flags2 rxk_and_hlxy_de),
     (''rxk_or_hlxy_de'', flags2 rxk_or_hlxy_de),
     (''rxk_add_sp_d'', arg_none rxk_add_sp_d),
     (''rxk_mul'', arg_none rxk_mul),
     (''rxk_ld_xpc_a'', arg_none rxk_ld_xpc_a),
     (''rxk_ld_a_xpc'', arg_none rxk_ld_a_xpc),
     (''rxk_push_ip'', arg_none rxk_push_ip),
     (''rxk_pop_ip'', arg_none rxk_pop_ip),
     (''rxk_ldp_hl_irr'', arg_none rxk_ldp_hl_irr),
     (''rxk_ldp_rr_inm'', arg_none rxk_ldp_rr_inm),
     (''rxk_ldp_inm_rr'', arg_none rxk_ldp_inm_rr),
     (''rxk_ldp_irr_hl'', arg_none rxk_ldp_irr_hl),
     (''rxk_lret'', arg_none rxk_lret),
     (''rxk_lcall'', arg_none rxk_lcall),
     (''rxk_ljp'', arg_none rxk_ljp),
     (''rxk_ipres'', arg_none rxk_ipres),
     (''rxk_ipset'', arg_none rxk_ipset),
     (''rxk_ld_eir_a'', arg_none rxk_ld_eir_a),
     (''rxk_ld_iir_a'', arg_none rxk_ld_iir_a),
     (''rxk_ld_a_eir'', arg_none rxk_ld_a_eir),
     (''rxk_ld_a_iir'', arg_none rxk_ld_a_iir),
     (''r3k_push_su'', arg_none r3k_push_su),
     (''r3k_pop_su'', arg_none r3k_pop_su),
     (''r3k_setusr'', arg_none r3k_setusr),
     (''r3k_rdmode'', arg_none r3k_rdmode),
     (''r3k_sures'', arg_none r3k_sures),
     (''r3k_ldisr'', arg_none r3k_ldisr),
     (''r3k_lddsr'', arg_none r3k_lddsr),
     (''r3k_uma'', arg_none r3k_uma),
     (''r3k_ums'', arg_none r3k_ums),
     (''r3k_lsidr'', arg_none r3k_lsidr),
     (''r3k_lsddr'', arg_none r3k_lsddr),
     (''r3k_lsir'', arg_none r3k_lsir),
     (''r3k_lsdr'', arg_none r3k_lsdr)]"

definition ez80_table :: "handler list" where
  "ez80_table =
    [(''ez80_lea_rr_xyd'', arg0 ez80_lea_rr_xyd),
     (''ez80_ld_rr_ihl'', arg0 ez80_ld_rr_ihl),
     (''ez80_ld_ihl_rr'', arg0 ez80_ld_ihl_rr),
     (''ez80_lea_xy_xd'', arg0 ez80_lea_xy_xd),
     (''ez80_lea_xy_yd'', arg0 ez80_lea_xy_yd),
     (''ez80_pea_xyd'', arg0 ez80_pea_xyd),
     (''ez80_ld_xy_ihl'', arg0 ez80_ld_xy_ihl),
     (''ez80_ld_ihl_xy'', arg0 ez80_ld_ihl_xy),
     (''ez80_ld_rr_ixyd'', arg01 ez80_ld_rr_ixyd),
     (''ez80_ld_ixyd_rr'', arg01 ez80_ld_ixyd_rr),
     (''ez80_ld_xy_ixyd'', arg01 ez80_ld_xy_ixyd),
     (''ez80_ld_ixyd_xy'', arg01 ez80_ld_ixyd_xy),
     (''ez80_otd2r'', arg_none ez80_otd2r),
     (''ez80_stmix'', arg_none ez80_stmix),
     (''ez80_rsmix'', arg_none ez80_rsmix),
     (''ez80_ini2'', arg_none ez80_ini2),
     (''ez80_ini2r'', arg_none ez80_ini2r),
     (''ez80_outi2'', arg_none ez80_outi2),
     (''ez80_oti2r'', arg_none ez80_oti2r),
     (''ez80_ind2'', arg_none ez80_ind2),
     (''ez80_outd2'', arg_none ez80_outd2),
     (''ez80_ld_mb_a'', arg_none ez80_ld_mb_a),
     (''ez80_ld_a_mb'', arg_none ez80_ld_a_mb),
     (''ez80_ld_i_hl'', arg_none ez80_ld_i_hl),
     (''ez80_ld_hl_i'', arg_none ez80_ld_hl_i),
     (''ez80_inim'', arg_none ez80_inim),
     (''ez80_inimr'', arg_none ez80_inimr),
     (''ez80_indm'', arg_none ez80_indm)]"

definition kc160_table :: "handler list" where
  "kc160_table =
    [(''kc160_ld_rr_ixysd'', arg0 kc160_ld_rr_ixysd),
     (''kc160_ld_ixysd_rr'', arg0 kc160_ld_ixysd_rr),
     (''kc160_ld_xy_ixysd'', arg0 kc160_ld_xy_ixysd),
     (''kc160_ld_ixysd_xy'', arg0 kc160_ld_ixysd_xy),
     (''kc160_ldf_ilmn_rr'', arg0 kc160_ldf_ilmn_rr),
     (''kc160_ldf_rr_ilmn'', arg0 kc160_ldf_rr_ilmn),
     (''kc160_ldf_ilmn_xy'', arg0 kc160_ldf_ilmn_xy),
     (''kc160_ldf_xy_ilmn'', arg0 kc160_ldf_xy_ilmn),
     (''kc160_jp3'', arg_none kc160_jp3),
     (''kc160_ld_hxy_sp'', arg0 kc160_ld_hxy_sp),
     (''kc160_ld_pp_pp'', arg0 kc160_ld_pp_pp),
     (''kc160_ld_ixysd_r24'', arg0 kc160_ld_ixysd_r24),
     (''kc160_ld_r24_ixysd'', arg0 kc160_ld_r24_ixysd),
     (''kc160_ld_r24_lmn'', arg0 kc160_ld_r24_lmn),
     (''kc160_ldf_ilmn_r24'', arg0 kc160_ldf_ilmn_r24),
     (''kc160_ldf_r24_ilmn'', arg0 kc160_ldf_r24_ilmn),
     (''kc160_div_hl_a'', may_trap kc160_div_hl_a),
     (''kc160_divs_hl_a'', may_trap kc160_divs_hl_a),
     (''kc160_div_dehl_bc'', may_trap kc160_div_dehl_bc),
     (''kc160_divs_dehl_bc'', may_trap kc160_divs_dehl_bc),
     (''kc160_mul_hl'', arg_none kc160_mul_hl),
     (''kc160_muls_hl'', arg_none kc160_muls_hl),
     (''kc160_mul_de_hl'', arg_none kc160_mul_de_hl),
     (''kc160_muls_de_hl'', arg_none kc160_muls_de_hl),
     (''kc160_tra'', arg_none kc160_tra),
     (''kc160_im3'', arg_none kc160_im3),
     (''kc160_call3'', arg_none kc160_call3),
     (''kc160_ret3'', arg_none kc160_ret3),
     (''kc160_retn3'', arg_none kc160_retn3),
     (''kc160_ldi_xy'', arg_none kc160_ldi_xy),
     (''kc160_ldir_xy'', arg_none kc160_ldir_xy),
     (''kc160_ldd_xy'', arg_none kc160_ldd_xy),
     (''kc160_lddr_xy'', arg_none kc160_lddr_xy),
     (''kc160_cpi_x'', arg_none kc160_cpi_x),
     (''kc160_cpir_x'', arg_none kc160_cpir_x),
     (''kc160_cpd_x'', arg_none kc160_cpd_x),
     (''kc160_cpdr_x'', arg_none kc160_cpdr_x),
     (''kc160_ini_x'', arg_none kc160_ini_x),
     (''kc160_inir_x'', arg_none kc160_inir_x),
     (''kc160_ind_x'', arg_none kc160_ind_x),
     (''kc160_indr_x'', arg_none kc160_indr_x),
     (''kc160_outi_x'', arg_none kc160_outi_x),
     (''kc160_otir_x'', arg_none kc160_otir_x),
     (''kc160_outd_x'', arg_none kc160_outd_x),
     (''kc160_otdr_x'', arg_none kc160_otdr_x)]"

definition r4k_load_table :: "handler list" where
  "r4k_load_table =
    [(''r4k_exp'', arg_none r4k_exp),
     (''r4k_ld_a_ipshl'', arg0 r4k_ld_a_ipshl),
     (''r4k_ld_ipdhl_a'', arg0 r4k_ld_ipdhl_a),
     (''r4k_ld_a_ipsd'', arg0 r4k_ld_a_ipsd),
     (''r4k_ld_ipdd_a'', arg0 r4k_ld_ipdd_a),
     (''r4k_ld_hl_ipsd'', arg0 r4k_ld_hl_ipsd),
     (''r4k_ld_ipdd_hl'', arg0 r4k_ld_ipdd_hl),
     (''r4k_ld_hl_ipsbc'', arg0 r4k_ld_hl_ipsbc),
     (''r4k_ld_ipdbc_hl'', arg0 r4k_ld_ipdbc_hl),
     (''r4k_ld_a_ixya'', \<lambda>a. r4k_ld_a_ixya (a ! 1) (a ! 2)),
     (''r4k_ld_hl_isphl'', arg_none r4k_ld_hl_isphl),
     (''r4k_ldf_rr_ilmn'', arg0 r4k_ldf_rr_ilmn),
     (''r4k_ldf_ilmn_rr'', arg0 r4k_ldf_ilmn_rr),
     (''r4k_ldf_a_ilmn'', arg_none r4k_ldf_a_ilmn),
     (''r4k_ldf_ilmn_a'', arg_none r4k_ldf_ilmn_a),
     (''r4k_ldf_hl_ilmn'', arg_none r4k_ldf_hl_ilmn),
     (''r4k_ldf_ilmn_hl'', arg_none r4k_ldf_ilmn_hl),
     (''r4k_ld_pd_ispn'', arg0 r4k_ld_pd_ispn),
     (''r4k_ld_ispn_ps'', arg0 r4k_ld_ispn_ps),
     (''r4k_ld_pd_klmn'', arg0 r4k_ld_pd_klmn),
     (''r4k_ldl_pd_mn'', arg0 r4k_ldl_pd_mn),
     (''r4k_ldl_pd_ispn'', arg0 r4k_ldl_pd_ispn),
     (''r4k_ldl_pd_rr'', \<lambda>a. r4k_ldl_pd_rr (a ! 0) (a ! 1) (a ! 2)),
     (''r4k_ldf_pd_ilmn'', arg0 r4k_ldf_pd_ilmn),
     (''r4k_ldf_ilmn_ps'', arg0 r4k_ldf_ilmn_ps),
     (''r4k_push_ps'', arg0 r4k_push_ps),
     (''r4k_pop_pd'', arg0 r4k_pop_pd),
     (''r4k_ld_pd_r32'', arg0_flag r4k_ld_pd_r32),
     (''r4k_ld_ipdhl_r32'', arg0_flag r4k_ld_ipdhl_r32),
     (''r4k_ld_ihl_r32'', flag1 r4k_ld_ihl_r32),
     (''r4k_ld_r32_ps'', arg0_flag r4k_ld_r32_ps),
     (''r4k_ld_r32_ihl'', flag1 r4k_ld_r32_ihl),
     (''r4k_ld_imn_r32'', flag1 r4k_ld_imn_r32),
     (''r4k_ld_r32_imn'', flag1 r4k_ld_r32_imn),
     (''r4k_ld_r32_ipshl'', arg0_flag r4k_ld_r32_ipshl),
     (''r4k_ld_r32_ipsd'', arg0_flag r4k_ld_r32_ipsd),
     (''r4k_ld_r32_ixyd'', \<lambda>a. r4k_ld_r32_ixyd (a ! 1) (a ! 2) (a ! 3 \<noteq> 0)),
     (''r4k_ldf_r32_ilmn'', flag1 r4k_ldf_r32_ilmn),
     (''r4k_ldf_ilmn_r32'', flag1 r4k_ldf_ilmn_r32),
     (''r4k_ld_r32_ispn'', flag1 r4k_ld_r32_ispn),
     (''r4k_ld_ispn_r32'', flag1 r4k_ld_ispn_r32),
     (''r4k_ld_r32_isphl'', flag1 r4k_ld_r32_isphl),
     (''r4k_ld_isphl_r32'', flag1 r4k_ld_isphl_r32),
     (''r4k_ld_ixyd_r32'', \<lambda>a. r4k_ld_ixyd_r32 (a ! 1) (a ! 2) (a ! 3 \<noteq> 0)),
     (''r4k_ld_ipdd_r32'', arg0_flag r4k_ld_ipdd_r32),
     (''r4k_ld_r32_d'', flag1 r4k_ld_r32_d),
     (''r4k_push_r32'', flag1 r4k_push_r32),
     (''r4k_pop_r32'', flag1 r4k_pop_r32)]"

definition r4k_alu_table :: "handler list" where
  "r4k_alu_table =
    [(''r4k_neg_hl'', arg_none r4k_neg_hl),
     (''r4k_xor_hl_de'', arg_none r4k_xor_hl_de),
     (''r4k_test_hlxy'', arg1 r4k_test_hlxy),
     (''r4k_test_rp2'', arg0 r4k_test_rp2),
     (''r4k_cp_hl_d'', arg_none r4k_cp_hl_d),
     (''r4k_cp_hl_de'', arg_none r4k_cp_hl_de),
     (''r4k_flag_cc_hl'', arg1 r4k_flag_cc_hl),
     (''r4k_dwjnz'', arg_none r4k_dwjnz),
     (''r4k_push_mn'', arg_none r4k_push_mn),
     (''r4k_mulu'', arg_none r4k_mulu),
     (''r6k_mulu_hl_de'', arg_none r6k_mulu_hl_de),
     (''r6k_mul_hl_de'', arg_none r6k_mul_hl_de),
     (''r4k_callxy'', flag1 r4k_callxy),
     (''r6k_add_xy_d'', flag1 r6k_add_xy_d),
     (''r4k_ld_hl_bc'', arg_none r4k_ld_hl_bc),
     (''r4k_ld_hl_de'', arg_none r4k_ld_hl_de),
     (''r4k_ld_de_hl'', arg_none r4k_ld_de_hl),
     (''r4k_ex_jkhl_bcde'', arg_none r4k_ex_jkhl_bcde),
     (''r6k_ex_jkhl_bcde1'', arg_none r6k_ex_jkhl_bcde1),
     (''r4k_ex_jk1_hl'', arg_none r4k_ex_jk1_hl),
     (''r4k_ex_jk_hl'', arg_none r4k_ex_jk_hl),
     (''r4k_ex_bc_hl'', arg_none r4k_ex_bc_hl),
     (''r4k_test_r32'', flag1 r4k_test_r32),
     (''r4k_neg_r32'', flag1 r4k_neg_r32),
     (''r4k_cp_jkhl_bcde'', arg_none r4k_cp_jkhl_bcde),
     (''r4k_alu_jkhl_bcde'', arg0 r4k_alu_jkhl_bcde),
     (''r4k_rlb_a_r32'', flag1 r4k_rlb_a_r32),
     (''r4k_rrb_a_r32'', flag1 r4k_rrb_a_r32),
     (''r4k_rlc_r32'', arg0_flag r4k_rlc_r32),
     (''r4k_rrc_r32'', arg0_flag r4k_rrc_r32),
     (''r6k_swap_rp2'', arg0 r6k_swap_rp2),
     (''r6k_swap_r32'', flag1 r6k_swap_r32),
     (''r6k_swap_r'', arg0 r6k_swap_r),
     (''r6k_alu_hl_xyd'', arg0_flag r6k_alu_hl_xyd),
     (''r6k_alu_jkhl_xyd'', arg0_flag r6k_alu_jkhl_xyd),
     (''r4k_rl_r32'', arg_none r4k_rl_r32),
     (''r4k_rr_r32'', arg_none r4k_rr_r32),
     (''r4k_sla_r32'', arg_none r4k_sla_r32),
     (''r4k_sra_r32'', arg_none r4k_sra_r32),
     (''r4k_sll_r32'', arg_none r4k_sll_r32),
     (''r4k_srl_r32'', arg_none r4k_srl_r32),
     (''r4k_jre'', arg_none r4k_jre),
     (''r4k_lljp'', arg_none r4k_lljp),
     (''r4k_llcall'', arg_none r4k_llcall),
     (''r4k_llcall_jkhl'', arg_none r4k_llcall_jkhl),
     (''r4k_cbm'', arg_none r4k_cbm),
     (''r4k_sbox_a'', arg_none r4k_sbox_a),
     (''r4k_ibox_a'', arg_none r4k_ibox_a),
     (''r4k_convc'', arg_none r4k_convc),
     (''r4k_convd'', arg_none r4k_convd),
     (''r4k_ld_a_htr'', arg_none r4k_ld_a_htr),
     (''r4k_ld_htr_a'', arg_none r4k_ld_htr_a),
     (''r4k_ld_pd_ihtrhl'', arg_none r4k_ld_pd_ihtrhl),
     (''r4k_copy'', arg_none r4k_copy),
     (''r4k_copyr'', arg_none r4k_copyr),
     (''r4k_ld_hl_lxpc'', arg_none r4k_ld_hl_lxpc),
     (''r4k_ld_lxpc_hl'', arg_none r4k_ld_lxpc_hl),
     (''r4k_setusrp_mn'', arg_none r4k_setusrp_mn),
     (''r4k_fsyscall'', arg_none r4k_fsyscall),
     (''r4k_syscall'', arg_none r4k_syscall),
     (''r4k_sysret'', arg_none r4k_sysret),
     (''r4k_llret'', arg_none r4k_llret),
     (''r4k_setsysp_mn'', arg_none r4k_setsysp_mn),
     (''r6k_tstnull_ps'', arg_none r6k_tstnull_ps),
     (''r4k_handle_6d_page'', arg_none r4k_handle_6d_page),
     (''r6k_handle_49_page'', arg_none r6k_handle_49_page)]"

definition handler_table :: "handler list" where
  "handler_table =
     rabbit_table @ ez80_table @ kc160_table @ r4k_load_table @ r4k_alu_table @ [(''PatchZ80'', arg_none PatchZ80)]"

definition ticks_handlers :: handlers where
  "ticks_handlers f = (case map_of handler_table f of Some g \<Rightarrow> g | None \<Rightarrow> (\<lambda>a s. s))"

text \<open>The complete machine.\<close>

definition ticks_run :: "int \<Rightarrow> int \<Rightarrow> int \<Rightarrow> sim \<Rightarrow> sim option" where
  "ticks_run = cpu_run ticks_handlers"

end
