(* ===== verification/Ticks_Machine.thy ===== *)
theory Ticks_Machine
  imports Ticks_Invariant Ticks_Handlers
begin

text \<open>
  The whole machine under an invariant of memory and configuration: the contract of \<open>Ticks_Invariant\<close>
  with two more laws, for stores that bypass the ROM check and for the end of the process. Under it every
  function of the instruction files and of the hook keeps the property, so the table of handlers does, and
  the contract of a whole run follows.
\<close>

section \<open>The instruction files\<close>

locale physical_invariant = state_invariant +
  assumes poke: "P s \<Longrightarrow> P (store_at p v s)"
    and ending: "P s \<Longrightarrow> P (stop_run x s)"
begin

lemmas physical_keeps [keeps] = poke ending

lemma keeps_put_physical [keeps]: "P s \<Longrightarrow> P (put_physical n v s)"
  by (simp add: put_physical_def keeps)

lemma keeps_syscall [keeps]: "P s \<Longrightarrow> P (snd (syscall c s))"
  by (simp add: syscall_def keeps split: list.split)

lemma keeps_upd_host [keeps]: "stopped (g (host s)) = stopped (host s) \<Longrightarrow> P (upd_host g s) = P s"
  by (simp add: upd_host_def keeps)

lemma keeps_Hooks_1 [keeps]:
  assumes "P s"
  shows "P (set_lh n0 s)" "P (CHECK_FD s)" "P (cmd_ide_identify s)" "P (set_dehl n0 s)" "P (poke n0 n1 s)"
    "P (bdos_result b0 s)" "P (set_al n0 s)" "P (putchar_e s)" "P (hook_rc2014 s)" "P (cmd_exit s)"
  using assms by (simp_all add: set_lh_def CHECK_FD_def cmd_ide_identify_def set_dehl_def poke_def bdos_result_def set_al_def putchar_e_def hook_rc2014_def cmd_exit_def
      Let_def case_prod_beta keeps split: option.split)

lemma keeps_store_bytes [keeps]: "P s \<Longrightarrow> P (store_bytes arr i vs s)"
  by (induction arr i vs s rule: store_bytes.induct) (simp_all add: keeps)

lemma keeps_transfer [keeps]:
  assumes "P s"
  shows "P (snd (snd (sys_write fd p n s)))" "P (snd (snd (sys_read fd p n s)))" "P (snd (snd (sys_seek fd k w s)))"
  using assms by (simp_all add: sys_write_def sys_read_def sys_seek_def Let_def case_prod_beta keeps split: option.split)

lemma keeps_write_string [keeps]: "P s \<Longrightarrow> P (write_string n a s)"
  by (induction n a s rule: write_string.induct) (simp_all add: Let_def keeps split: option.split)

lemma keeps_Hooks_2 [keeps]:
  assumes "P s"
  shows "P (cmd_openfile s)" "P (cmd_closefile s)" "P (cmd_writebyte s)" "P (cmd_readbyte s)"
    "P (cmd_ide_select s)" "P (cmd_gettime s)" "P (cmd_getclock s)" "P (set_offset n0 n1 s)"
    "P (bdos_open zopenflaglist0 s)" "P (bdos_delete_file s)" "P (bdos_rename_file s)" "P (bdos_close_file s)"
    "P (bdos_set_dma s)" "P (bdos_file_size s)" "P (drv_get s)" "P (cpm_rawio s)" "P (cpm_usernum s)"
  using assms by (simp_all add: cmd_openfile_def cmd_closefile_def cmd_writebyte_def cmd_readbyte_def cmd_ide_select_def cmd_gettime_def cmd_getclock_def set_offset_def bdos_open_def bdos_delete_file_def bdos_rename_file_def bdos_close_file_def bdos_set_dma_def bdos_file_size_def drv_get_def cpm_rawio_def cpm_usernum_def
      Let_def case_prod_beta keeps split: option.split list.split)

lemma keeps_bdos_rand:
  assumes "P s" "\<And>fd p n s. P s \<Longrightarrow> P (snd (snd (transfer fd p n s)))"
  shows "P (bdos_rand transfer s)"
  using assms by (simp add: bdos_rand_def Let_def case_prod_beta keeps split: option.split)

lemma keeps_rand [keeps]:
  assumes "P s"
  shows "P (bdos_read_rand s)" "P (bdos_write_rand s)"
  using assms by (simp_all add: bdos_read_rand_def bdos_write_rand_def keeps_bdos_rand keeps)

lemma keeps_Hooks_3 [keeps]:
  assumes "P s"
  shows "P (cmd_writeblock s)" "P (cmd_readblock s)" "P (cmd_seek s)" "P (cmd_ide_read s)" "P (cmd_ide_write s)"
    "P (bdos_open_file s)" "P (bdos_create_file s)"
  using assms by (simp_all add: cmd_writeblock_def cmd_readblock_def cmd_seek_def cmd_ide_read_def cmd_ide_write_def bdos_open_file_def bdos_create_file_def
      Let_def case_prod_beta keeps split: option.split)

lemma keeps_hook_cpm [keeps]:
  assumes "P s"
  shows "P (hook_cpm s)"
  using assms by (simp add: hook_cpm_def Let_def case_prod_beta keeps)

lemma keeps_hooks: "list_all (\<lambda>(n, f). \<forall>s. P s \<longrightarrow> P (f s)) hooks"
  by (simp add: hooks_def keeps)

lemma keeps_PatchZ80 [keeps]:
  assumes "P s"
  shows "P (PatchZ80 s)"
  using assms keeps_hooks
  by (auto simp: PatchZ80_def case_prod_beta keeps list_all_iff split: option.split dest!: map_of_SomeD)

lemma keeps_Rabbit_1 [keeps]:
  assumes "P s"
  shows "P (rxk_ld_hl_ispn c0 c1 s)" "P (rxk_ld_ispn_hl c0 c1 s)" "P (rxk_ld_hl_ihlxyd n0 s)"
    "P (rxk_ld_ihlxyd_hl n0 s)" "P (rxk_ld_hl_xy n0 s)" "P (rxk_ld_xy_hl n0 s)" "P (BOOL r0 r1 r2 r3 s)"
    "P (AND2 r0 r1 r2 s)" "P (OR2 r0 r1 r2 s)" "P (rxk_add_sp_d s)" "P (rxk_mul s)" "P (rxk_ld_xpc_a s)"
    "P (rxk_ld_a_xpc s)" "P (rxk_push_ip s)" "P (rxk_pop_ip s)" "P (rxk_ldp_hl_irr s)" "P (rxk_ldp_rr_inm s)"
    "P (rxk_ldp_inm_rr s)" "P (rxk_ldp_irr_hl s)" "P (rxk_lret s)" "P (rxk_lcall s)" "P (rxk_ljp s)"
    "P (rxk_ipres s)" "P (rxk_ipset s)" "P (rxk_ld_eir_a s)" "P (rxk_ld_iir_a s)" "P (rxk_ld_a_eir s)"
    "P (rxk_ld_a_iir s)" "P (r3k_push_su s)" "P (r3k_pop_su s)" "P (r3k_setusr s)" "P (r3k_rdmode s)"
    "P (r3k_sures s)" "P (r3k_ldisr s)" "P (r3k_lddsr s)" "P (r3k_uma s)" "P (r3k_ums s)" "P (r3k_lsidr s)"
    "P (r3k_lsddr s)" "P (r3k_lsir s)" "P (r3k_lsdr s)"
  using assms by (simp_all add: rxk_ld_hl_ispn_def rxk_ld_ispn_hl_def rxk_ld_hl_ihlxyd_def rxk_ld_ihlxyd_hl_def rxk_ld_hl_xy_def rxk_ld_xy_hl_def BOOL_def AND2_def OR2_def rxk_add_sp_d_def rxk_mul_def rxk_ld_xpc_a_def rxk_ld_a_xpc_def rxk_push_ip_def rxk_pop_ip_def rxk_ldp_hl_irr_def rxk_ldp_rr_inm_def rxk_ldp_inm_rr_def rxk_ldp_irr_hl_def rxk_lret_def rxk_lcall_def rxk_ljp_def rxk_ipres_def rxk_ipset_def rxk_ld_eir_a_def rxk_ld_iir_a_def rxk_ld_a_eir_def rxk_ld_a_iir_def r3k_push_su_def r3k_pop_su_def r3k_setusr_def r3k_rdmode_def r3k_sures_def r3k_ldisr_def r3k_lddsr_def r3k_uma_def r3k_ums_def r3k_lsidr_def r3k_lsddr_def r3k_lsir_def r3k_lsdr_def
      Let_def case_prod_beta keeps split: option.split)

lemma keeps_Rabbit_2 [keeps]:
  assumes "P s"
  shows "P (rxk_bool c0 c1 s)" "P (rxk_and_hlxy_de c0 c1 s)" "P (rxk_or_hlxy_de c0 c1 s)"
  using assms by (simp_all add: rxk_bool_def rxk_and_hlxy_de_def rxk_or_hlxy_de_def
      Let_def case_prod_beta keeps split: option.split)

lemma keeps_Ez80_1 [keeps]:
  assumes "P s"
  shows "P (ld_rr_at zregreg0 w1 s)" "P (ld_at_rr zregreg0 w1 s)" "P (set_rr zregreg0 w1 s)"
    "P (ez80_pea_xyd n0 s)" "P (snd (ixyd_addr n0 s))" "P (ez80_otd2r s)" "P (ez80_stmix s)"
    "P (ez80_rsmix s)" "P (ez80_ini2 s)" "P (ez80_ini2r s)" "P (ez80_outi2 s)" "P (ez80_oti2r s)"
    "P (ez80_ind2 s)" "P (ez80_outd2 s)" "P (ez80_ld_mb_a s)" "P (ez80_ld_a_mb s)" "P (ez80_ld_i_hl s)"
    "P (ez80_ld_hl_i s)" "P (ez80_inim s)" "P (ez80_inimr s)" "P (ez80_indm s)"
  using assms by (simp_all add: ld_rr_at_def ld_at_rr_def set_rr_def ez80_pea_xyd_def ixyd_addr_def ez80_otd2r_def ez80_stmix_def ez80_rsmix_def ez80_ini2_def ez80_ini2r_def ez80_outi2_def ez80_oti2r_def ez80_ind2_def ez80_outd2_def ez80_ld_mb_a_def ez80_ld_a_mb_def ez80_ld_i_hl_def ez80_ld_hl_i_def ez80_inim_def ez80_inimr_def ez80_indm_def
      Let_def case_prod_beta keeps split: option.split)

lemma keeps_Ez80_2 [keeps]:
  assumes "P s"
  shows "P (ez80_lea_rr_xyd n0 s)" "P (ez80_ld_rr_ihl n0 s)" "P (ez80_ld_ihl_rr n0 s)" "P (ez80_lea_xy_xd n0 s)"
    "P (ez80_lea_xy_yd n0 s)" "P (ez80_ld_xy_ihl n0 s)" "P (ez80_ld_ihl_xy n0 s)"
    "P (ez80_ld_rr_ixyd n0 n1 s)" "P (ez80_ld_ixyd_rr n0 n1 s)" "P (ez80_ld_xy_ixyd n0 n1 s)"
    "P (ez80_ld_ixyd_xy n0 n1 s)"
  using assms by (simp_all add: ez80_lea_rr_xyd_def ez80_ld_rr_ihl_def ez80_ld_ihl_rr_def ez80_lea_xy_xd_def ez80_lea_xy_yd_def ez80_ld_xy_ihl_def ez80_ld_ihl_xy_def ez80_ld_rr_ixyd_def ez80_ld_ixyd_rr_def ez80_ld_xy_ixyd_def ez80_ld_ixyd_xy_def
      Let_def case_prod_beta keeps split: option.split)

lemma keeps_Kc160_1 [keeps]:
  assumes "P s"
  shows "P (snd (kc_rr n0 s))" "P (snd (kc_addr n0 s))" "P (kc_sp_back n0 s)" "P (kc160_ldf_ilmn_xy n0 s)"
    "P (kc160_ldf_xy_ilmn n0 s)" "P (kc160_jp3 s)" "P (kc160_ld_hxy_sp n0 s)" "P (kc160_ld_pp_pp n0 s)"
    "P (kc160_ld_r24_lmn n0 s)" "P (kc160_ldf_ilmn_r24 n0 s)" "P (kc160_ldf_r24_ilmn n0 s)"
    "P (set_quad r0 r1 r2 r3 n4 s)" "P (set_quot n0 n1 s)" "P (kc160_mul_hl s)" "P (kc160_muls_hl s)"
    "P (kc160_tra s)" "P (kc160_im3 s)" "P (kc160_call3 s)" "P (kc160_ret3 s)" "P (kc160_retn3 s)"
    "P (kc160_ldi_xy s)" "P (kc160_ldir_xy s)" "P (kc160_ldd_xy s)" "P (kc160_lddr_xy s)" "P (kc160_cpi_x s)"
    "P (kc160_cpir_x s)" "P (kc160_cpd_x s)" "P (kc160_cpdr_x s)" "P (kc160_ini_x s)" "P (kc160_inir_x s)"
    "P (kc160_ind_x s)" "P (kc160_indr_x s)" "P (kc160_outi_x s)" "P (kc160_otir_x s)" "P (kc160_outd_x s)"
    "P (kc160_otdr_x s)"
  using assms by (simp_all add: kc_rr_def kc_addr_def kc_sp_back_def kc160_ldf_ilmn_xy_def kc160_ldf_xy_ilmn_def kc160_jp3_def kc160_ld_hxy_sp_def kc160_ld_pp_pp_def kc160_ld_r24_lmn_def kc160_ldf_ilmn_r24_def kc160_ldf_r24_ilmn_def set_quad_def set_quot_def kc160_mul_hl_def kc160_muls_hl_def kc160_tra_def kc160_im3_def kc160_call3_def kc160_ret3_def kc160_retn3_def kc160_ldi_xy_def kc160_ldir_xy_def kc160_ldd_xy_def kc160_lddr_xy_def kc160_cpi_x_def kc160_cpir_x_def kc160_cpd_x_def kc160_cpdr_x_def kc160_ini_x_def kc160_inir_x_def kc160_ind_x_def kc160_indr_x_def kc160_outi_x_def kc160_otir_x_def kc160_outd_x_def kc160_otdr_x_def
      Let_def case_prod_beta keeps split: option.split)

lemma keeps_Kc160_2 [keeps]:
  assumes "P s"
  shows "P (kc160_ld_rr_ixysd n0 s)" "P (kc160_ld_ixysd_rr n0 s)" "P (kc160_ld_xy_ixysd n0 s)"
    "P (kc160_ld_ixysd_xy n0 s)" "P (kc160_ldf_ilmn_rr n0 s)" "P (kc160_ldf_rr_ilmn n0 s)"
    "P (kc160_ld_ixysd_r24 n0 s)" "P (kc160_ld_r24_ixysd n0 s)" "P (kc160_mul_de_hl s)"
    "P (kc160_muls_de_hl s)"
  using assms by (simp_all add: kc160_ld_rr_ixysd_def kc160_ld_ixysd_rr_def kc160_ld_xy_ixysd_def kc160_ld_ixysd_xy_def kc160_ldf_ilmn_rr_def kc160_ldf_rr_ilmn_def kc160_ld_ixysd_r24_def kc160_ld_r24_ixysd_def kc160_mul_de_hl_def kc160_muls_de_hl_def
      Let_def case_prod_beta keeps split: option.split)

lemma keeps_R4kLoad_1 [keeps]:
  assumes "P s"
  shows "P (set_preg zpreg0 z32word1 s)" "P (snd (lmn s))" "P (snd (imn s))" "P (snd (ixyd n0 n1 s))"
    "P (snd (sp_n s))" "P (no_altd s)" "P (r4k_exp s)" "P (r4k_ld_a_ixya n0 n1 s)" "P (r4k_ld_hl_isphl s)"
    "P (ldf_pair r0 r1 z32word2 s)" "P (r4k_push_ps n0 s)" "P (r4k_push_r32 c0 s)"
  using assms by (simp_all add: set_preg_def lmn_def imn_def ixyd_def sp_n_def no_altd_def r4k_exp_def r4k_ld_a_ixya_def r4k_ld_hl_isphl_def ldf_pair_def r4k_push_ps_def r4k_push_r32_def
      Let_def case_prod_beta keeps split: option.split)

lemma keeps_set_r32 [keeps]:
  assumes "P s"
  shows "P (set_r32 zreg320 g1 s)"
  using assms by (simp add: set_r32_def Let_def case_prod_beta keeps)

lemma keeps_put_r32 [keeps]:
  assumes "P s" "\<And>y0 y1 s. P s \<Longrightarrow> P (g1 y0 y1 s)"
  shows "P (put_r32 zreg320 g1 s)"
  using assms by (simp add: put_r32_def Let_def case_prod_beta keeps)

lemma keeps_put_bytes [keeps]:
  assumes "P s" "\<And>y0 y1 s. P s \<Longrightarrow> P (g1 y0 y1 s)"
  shows "P (put_bytes g0 g1 s)"
  using assms by (simp add: put_bytes_def Let_def case_prod_beta keeps)

lemma keeps_R4kLoad_2 [keeps]:
  assumes "P s"
  shows "P (snd (ps_offset z32word0 n1 s))" "P (r4k_ldf_ilmn_rr n0 s)" "P (r4k_ldf_a_ilmn s)"
    "P (r4k_ldf_ilmn_a s)" "P (r4k_ldf_ilmn_hl s)" "P (r4k_ld_pd_ps n0 s)" "P (r4k_ld_pd_ispn n0 s)"
    "P (r4k_ld_ispn_ps n0 s)" "P (r4k_ld_pd_klmn n0 s)" "P (r4k_ldl_pd_mn n0 s)" "P (r4k_ldl_pd_ispn n0 s)"
    "P (r4k_ldl_pd_rr n0 n1 n2 s)" "P (r4k_ldf_pd_ilmn n0 s)" "P (r4k_ldf_ilmn_ps n0 s)" "P (r4k_pop_pd n0 s)"
    "P (r4k_ld_pd_r32 n0 c1 s)" "P (r4k_ld_ihl_r32 c0 s)" "P (r4k_ld_r32_ps n0 c1 s)"
    "P (r4k_ld_r32_ihl c0 s)" "P (r4k_ld_imn_r32 c0 s)" "P (r4k_ld_r32_imn c0 s)"
    "P (r4k_ld_r32_ixyd n0 n1 c2 s)" "P (r4k_ld_r32_ispn c0 s)" "P (r4k_ld_ispn_r32 c0 s)"
    "P (r4k_ld_r32_isphl c0 s)" "P (r4k_ld_isphl_r32 c0 s)" "P (r4k_ld_ixyd_r32 n0 n1 c2 s)"
    "P (r4k_ld_r32_d c0 s)" "P (r4k_pop_r32 c0 s)"
  using assms by (simp_all add: ps_offset_def r4k_ldf_ilmn_rr_def r4k_ldf_a_ilmn_def r4k_ldf_ilmn_a_def r4k_ldf_ilmn_hl_def r4k_ld_pd_ps_def r4k_ld_pd_ispn_def r4k_ld_ispn_ps_def r4k_ld_pd_klmn_def r4k_ldl_pd_mn_def r4k_ldl_pd_ispn_def r4k_ldl_pd_rr_def r4k_ldf_pd_ilmn_def r4k_ldf_ilmn_ps_def r4k_pop_pd_def r4k_ld_pd_r32_def r4k_ld_ihl_r32_def r4k_ld_r32_ps_def r4k_ld_r32_ihl_def r4k_ld_imn_r32_def r4k_ld_r32_imn_def r4k_ld_r32_ixyd_def r4k_ld_r32_ispn_def r4k_ld_ispn_r32_def r4k_ld_r32_isphl_def r4k_ld_isphl_r32_def r4k_ld_ixyd_r32_def r4k_ld_r32_d_def r4k_pop_r32_def
      Let_def case_prod_beta keeps split: option.split)

lemma keeps_R4kLoad_3 [keeps]:
  assumes "P s"
  shows "P (snd (ps16se z32word0 w1 s))" "P (snd (ps8se z32word0 b1 s))"
  using assms by (simp_all add: ps16se_def ps8se_def
      Let_def case_prod_beta keeps split: option.split)

lemma keeps_R4kLoad_4 [keeps]:
  assumes "P s"
  shows "P (snd (get_ps z32word0 k1 s))" "P (put_ps z32word0 k1 b2 s)" "P (snd (ps_d z32word0 s))"
    "P (snd (ps_rr z32word0 r1 r2 s))" "P (r4k_ld_pd_psrr n0 n1 n2 s)"
  using assms by (simp_all add: get_ps_def put_ps_def ps_d_def ps_rr_def r4k_ld_pd_psrr_def
      Let_def case_prod_beta keeps split: option.split)

lemma keeps_R4kLoad_5 [keeps]:
  assumes "P s"
  shows "P (ld_r32_ps_mem zreg320 z32word1 s)" "P (ld_pd_ps_mem zpreg0 z32word1 s)" "P (r4k_ld_a_ipshl n0 s)"
    "P (r4k_ld_ipdhl_a n0 s)" "P (r4k_ld_a_ipsd n0 s)" "P (r4k_ld_ipdd_a n0 s)"
    "P (ld_pair_ps r0 r1 z32word2 s)" "P (ld_ps_pair r0 r1 z32word2 s)" "P (r4k_ld_ipdd_ps n0 s)"
    "P (r4k_ld_ipdrr n0 n1 n2 s)" "P (r4k_ld_pd_psd n0 s)" "P (r4k_ld_ipdhl_r32 n0 c1 s)"
    "P (r4k_ldf_ilmn_r32 c0 s)" "P (r4k_ld_ipdd_r32 n0 c1 s)"
  using assms by (simp_all add: ld_r32_ps_mem_def ld_pd_ps_mem_def r4k_ld_a_ipshl_def r4k_ld_ipdhl_a_def r4k_ld_a_ipsd_def r4k_ld_ipdd_a_def ld_pair_ps_def ld_ps_pair_def r4k_ld_ipdd_ps_def r4k_ld_ipdrr_def r4k_ld_pd_psd_def r4k_ld_ipdhl_r32_def r4k_ldf_ilmn_r32_def r4k_ld_ipdd_r32_def
      Let_def case_prod_beta keeps split: option.split)

lemma keeps_R4kLoad_6 [keeps]:
  assumes "P s"
  shows "P (r4k_ld_hl_ipsd n0 s)" "P (r4k_ld_ipdd_hl n0 s)" "P (r4k_ld_hl_ipsbc n0 s)" "P (r4k_ld_ipdbc_hl n0 s)"
    "P (r4k_ld_rr_ipsd n0 s)" "P (r4k_ld_ipdd_rr n0 s)" "P (r4k_ld_rr_ipshl n0 s)" "P (r4k_ld_ipdhl_rr n0 s)"
    "P (r4k_ldf_rr_ilmn n0 s)" "P (r4k_ldf_hl_ilmn s)" "P (r4k_ld_pd_ipsd n0 s)"
    "P (r4k_ld_pd_ipsrr n0 n1 n2 s)" "P (r4k_ld_ipdhl_ps n0 s)" "P (r4k_ld_r32_ipshl n0 c1 s)"
    "P (r4k_ld_r32_ipsd n0 c1 s)" "P (r4k_ldf_r32_ilmn c0 s)"
  using assms by (simp_all add: r4k_ld_hl_ipsd_def r4k_ld_ipdd_hl_def r4k_ld_hl_ipsbc_def r4k_ld_ipdbc_hl_def r4k_ld_rr_ipsd_def r4k_ld_ipdd_rr_def r4k_ld_rr_ipshl_def r4k_ld_ipdhl_rr_def r4k_ldf_rr_ilmn_def r4k_ldf_hl_ilmn_def r4k_ld_pd_ipsd_def r4k_ld_pd_ipsrr_def r4k_ld_ipdhl_ps_def r4k_ld_r32_ipshl_def r4k_ld_r32_ipsd_def r4k_ldf_r32_ilmn_def
      Let_def case_prod_beta keeps split: option.split)

lemma keeps_R4kLoad_7 [keeps]:
  assumes "P s"
  shows "P (r4k_ld_pd_ipshl n0 s)"
  using assms by (simp_all add: r4k_ld_pd_ipshl_def
      Let_def case_prod_beta keeps split: option.split)

lemma keeps_R4kAlu_1 [keeps]:
  assumes "P s"
  shows "P (snd (ALU_OP k0 n1 n2 n3 s))" "P (set_rp2 n0 c1 n2 s)" "P (r4k_flag_cc_hl n0 s)" "P (r4k_dwjnz s)"
    "P (r4k_push_mn s)" "P (r4k_mulu s)" "P (r6k_mulu_hl_de s)" "P (r6k_mul_hl_de s)" "P (r4k_callxy c0 s)"
    "P (r6k_add_xy_d c0 s)" "P (copy_pair r0 r1 r2 r3 r4 r5 r6 r7 s)" "P (SWAPR r0 r1 s)"
    "P (r4k_rlb_a_r32 c0 s)" "P (r4k_rrb_a_r32 c0 s)" "P (r4k_rlc_r32 n0 c1 s)" "P (r4k_rrc_r32 n0 c1 s)"
    "P (r6k_inc_ps n0 s)" "P (r6k_dec_ps n0 s)" "P (r6k_swap_r n0 s)" "P (r4k_rl_r32 s)" "P (r4k_rr_r32 s)"
    "P (r4k_sla_r32 s)" "P (r4k_sra_r32 s)" "P (r4k_sll_r32 s)" "P (r4k_srl_r32 s)" "P (r4k_jre s)"
    "P (r4k_lljp s)" "P (r4k_llcall s)" "P (r4k_llcall_jkhl s)" "P (r4k_cbm s)" "P (r4k_sbox_a s)"
    "P (r4k_ibox_a s)" "P (r4k_convc s)" "P (r4k_convd s)" "P (r4k_ld_a_htr s)" "P (r4k_ld_htr_a s)"
    "P (r4k_ld_pd_ihtrhl s)" "P (r4k_copy s)" "P (r4k_copyr s)" "P (r4k_ld_hl_lxpc s)" "P (r4k_ld_lxpc_hl s)"
    "P (r4k_setusrp_mn s)" "P (r4k_fsyscall s)" "P (r4k_syscall s)" "P (r4k_sysret s)" "P (r4k_llret s)"
    "P (r4k_setsysp_mn s)" "P (r6k_ibox_ps s)" "P (r6k_sbox_ps s)" "P (r6k_tstnull_ps s)"
  using assms by (simp_all add: ALU_OP_def set_rp2_def r4k_flag_cc_hl_def r4k_dwjnz_def r4k_push_mn_def r4k_mulu_def r6k_mulu_hl_de_def r6k_mul_hl_de_def r4k_callxy_def r6k_add_xy_d_def copy_pair_def SWAPR_def r4k_rlb_a_r32_def r4k_rrb_a_r32_def r4k_rlc_r32_def r4k_rrc_r32_def r6k_inc_ps_def r6k_dec_ps_def r6k_swap_r_def r4k_rl_r32_def r4k_rr_r32_def r4k_sla_r32_def r4k_sra_r32_def r4k_sll_r32_def r4k_srl_r32_def r4k_jre_def r4k_lljp_def r4k_llcall_def r4k_llcall_jkhl_def r4k_cbm_def r4k_sbox_a_def r4k_ibox_a_def r4k_convc_def r4k_convd_def r4k_ld_a_htr_def r4k_ld_htr_a_def r4k_ld_pd_ihtrhl_def r4k_copy_def r4k_copyr_def r4k_ld_hl_lxpc_def r4k_ld_lxpc_hl_def r4k_setusrp_mn_def r4k_fsyscall_def r4k_syscall_def r4k_sysret_def r4k_llret_def r4k_setsysp_mn_def r6k_ibox_ps_def r6k_sbox_ps_def r6k_tstnull_ps_def
      Let_def case_prod_beta keeps split: option.split)

lemma keeps_R4kAlu_2 [keeps]:
  assumes "P s"
  shows "P (r4k_neg_hl s)" "P (r4k_xor_hl_de s)" "P (r4k_test_hlxy n0 s)" "P (r4k_test_rp2 n0 s)"
    "P (r4k_cp_hl_d s)" "P (r4k_cp_hl_de s)" "P (r4k_ld_hl_bc s)" "P (r4k_ld_hl_de s)" "P (r4k_ld_de_hl s)"
    "P (r4k_ex_jkhl_bcde s)" "P (r6k_ex_jkhl_bcde1 s)" "P (r4k_ex_jk1_hl s)" "P (r4k_ex_jk_hl s)"
    "P (r4k_ex_bc_hl s)" "P (r4k_test_r32 c0 s)" "P (r4k_neg_r32 c0 s)" "P (r4k_cp_jkhl_bcde s)"
    "P (r4k_alu_jkhl_bcde n0 s)" "P (r6k_swap_rp2 n0 s)" "P (r6k_swap_r32 c0 s)" "P (alu_a k0 n1 n2 s)"
    "P (alu_hl n0 n1 s)" "P (alu_jkhl k0 n1 n2 n3 s)" "P (r4k_handle_6d_page s)"
  using assms by (simp_all add: r4k_neg_hl_def r4k_xor_hl_de_def r4k_test_hlxy_def r4k_test_rp2_def r4k_cp_hl_d_def r4k_cp_hl_de_def r4k_ld_hl_bc_def r4k_ld_hl_de_def r4k_ld_de_hl_def r4k_ex_jkhl_bcde_def r6k_ex_jkhl_bcde1_def r4k_ex_jk1_hl_def r4k_ex_jk_hl_def r4k_ex_bc_hl_def r4k_test_r32_def r4k_neg_r32_def r4k_cp_jkhl_bcde_def r4k_alu_jkhl_bcde_def r6k_swap_rp2_def r6k_swap_r32_def alu_a_def alu_hl_def alu_jkhl_def r4k_handle_6d_page_def
      Let_def case_prod_beta keeps split: option.split)

lemma keeps_R4kAlu_3 [keeps]:
  assumes "P s"
  shows "P (r6k_alu_a_psd n0 s)" "P (r6k_alu_a_spn n0 s)" "P (r6k_alu_hl_psd n0 s)" "P (r6k_alu_hl_xyd n0 c1 s)"
    "P (r6k_alu_hl_spn n0 s)" "P (r6k_alu_jkhl_psd n0 s)" "P (r6k_alu_jkhl_ps n0 s)"
    "P (r6k_alu_jkhl_xyd n0 c1 s)" "P (r6k_alu_jkhl_spn n0 s)"
  using assms by (simp_all add: r6k_alu_a_psd_def r6k_alu_a_spn_def r6k_alu_hl_psd_def r6k_alu_hl_xyd_def r6k_alu_hl_spn_def r6k_alu_jkhl_psd_def r6k_alu_jkhl_ps_def r6k_alu_jkhl_xyd_def r6k_alu_jkhl_spn_def
      Let_def case_prod_beta keeps split: option.split)

lemma keeps_R4kAlu_4 [keeps]:
  assumes "P s"
  shows "P (r6k_handle_49_page s)"
  using assms by (simp_all add: r6k_handle_49_page_def
      Let_def case_prod_beta keeps split: option.split)

lemma keeps_trapping:
  assumes "P s"
  shows "kc160_div_hl_a s = Some s' \<Longrightarrow> P s'" "kc160_divs_hl_a s = Some s' \<Longrightarrow> P s'"
    "kc160_div_dehl_bc s = Some s' \<Longrightarrow> P s'" "kc160_divs_dehl_bc s = Some s' \<Longrightarrow> P s'"
  using assms
  by (auto simp: kc160_div_hl_a_def kc160_divs_hl_a_def kc160_div_dehl_bc_def kc160_divs_dehl_bc_def
      Let_def keeps split: if_splits)

section \<open>The tables\<close>

lemma keeps_rabbit_table: "list_all (\<lambda>(f, g). \<forall>a s. P s \<longrightarrow> P (g a s)) rabbit_table"
  by (simp add: rabbit_table_def keeps)

lemma keeps_ez80_table: "list_all (\<lambda>(f, g). \<forall>a s. P s \<longrightarrow> P (g a s)) ez80_table"
  by (simp add: ez80_table_def keeps)

lemma keeps_kc160_table: "list_all (\<lambda>(f, g). \<forall>a s. P s \<longrightarrow> P (g a s)) kc160_table"
  by (simp add: kc160_table_def keeps split: option.split) (auto dest: keeps_trapping)

lemma keeps_r4k_load_table: "list_all (\<lambda>(f, g). \<forall>a s. P s \<longrightarrow> P (g a s)) r4k_load_table"
  by (simp add: r4k_load_table_def keeps)

lemma keeps_r4k_alu_table: "list_all (\<lambda>(f, g). \<forall>a s. P s \<longrightarrow> P (g a s)) r4k_alu_table"
  by (simp add: r4k_alu_table_def keeps)

lemma keeps_ticks_handlers:
  assumes "P s"
  shows "P (ticks_handlers f a s)"
proof -
  have "list_all (\<lambda>(f, g). \<forall>a s. P s \<longrightarrow> P (g a s)) handler_table"
    by (simp add: handler_table_def keeps_rabbit_table keeps_ez80_table keeps_kc160_table
        keeps_r4k_load_table keeps_r4k_alu_table keeps)
  then show ?thesis
    using assms by (auto simp: ticks_handlers_def list_all_iff split: option.split dest!: map_of_SomeD)
qed

end

text \<open>With them the contract of a run is met, so every interpretation of this locale is one of that.\<close>

sublocale physical_invariant \<subseteq> run: machine_invariant P ticks_handlers
  by unfold_locales (rule keeps_ticks_handlers)

end
