(* ===== verification/Ticks_Wide.thy ===== *)
theory Ticks_Wide
  imports Ticks_Rabbit Ticks_Kc160 Ticks_R4kAlu
begin

text \<open>
  The 16- and 32-bit instructions of the Rabbit and the KC160: products, quotients, \<open>ALU_OP\<close> against
  carry and borrow, and the rotations, reversals and stack transfers that undo each other.
\<close>

section \<open>Register quads\<close>

text \<open>Four registers as a 32-bit number, most significant first.\<close>

definition quad32 :: "reg \<Rightarrow> reg \<Rightarrow> reg \<Rightarrow> reg \<Rightarrow> cpu \<Rightarrow> 32 word" where
  "quad32 r3 r2 r1 r0 s = u32 (quad r3 r2 r1 r0 s)"

lemma bytes_join32:
  "u32 (shl (uint (u8 (shr v 24))) 24 OR shl (uint (u8 (shr v 16))) 16 OR shl (uint (u8 (shr v 8))) 8 OR uint (u8 v)) = u32 v"
proof (rule bit_word_eqI)
  fix n assume "n < LENGTH(32)"
  then consider "n < 8" | "8 \<le> n" "n < 16" | "16 \<le> n" "n < 24" | "24 \<le> n" "n < 32" by fastforce
  then show "bit (u32 (shl (uint (u8 (shr v 24))) 24 OR shl (uint (u8 (shr v 16))) 16 OR
      shl (uint (u8 (shr v 8))) 8 OR uint (u8 v))) n = bit (u32 v) n"
    by cases (auto simp: bit_simps)
qed

lemma u8_mask [simp]: "u8 (v AND 255) = u8 v"
proof -
  have "(255 :: int) = mask 8" by (simp add: mask_eq_exp_minus_1)
  then have "bit (255 :: int) n = (n < 8)" for n by (metis bit_mask_iff possible_bit_int)
  then show ?thesis by (intro bit_word_eqI) (auto simp: bit_simps)
qed

lemma quad32_set_quad:
  assumes "distinct [r3, r2, r1, r0]"
  shows "quad32 r3 r2 r1 r0 (set_quad r3 r2 r1 r0 v s) = u32 v"
  using assms by (simp add: quad32_def quad_def set_quad_def set_reg_def Let_def bytes_join32 not_sym)

lemma quad32_set_r32:
  assumes "distinct [r3, r2, r1, r0]"
  shows "quad32 r3 r2 r1 r0 (set_r32 (r0, r1, r2, r3) (byte_of v) s) = u32 v"
  using assms by (simp add: quad32_def quad_def set_r32_def byte_of_def set_reg_def Let_def bytes_join32 not_sym)

lemma quad32_ticks [simp]: "quad32 r3 r2 r1 r0 (ticks n s) = quad32 r3 r2 r1 r0 s"
  by (simp add: quad32_def quad_def ticks_def)

lemma set_r32_set_quad:
  "set_r32 (r0, r1, r2, r3) (byte_of v) s = set_reg r3 (u8 (shr v 24)) (set_reg r2 (u8 (shr v 16))
     (set_reg r1 (u8 (shr v 8)) (set_reg r0 (u8 v) s)))"
  by (simp add: set_r32_def byte_of_def)

section \<open>Products\<close>

lemma uint_u32: "0 \<le> v \<Longrightarrow> v < 2 ^ 32 \<Longrightarrow> uint (u32 v) = v"
  by (simp add: uint_word_of_int)

lemma sint_u32: "- (2 ^ 31) \<le> v \<Longrightarrow> v < 2 ^ 31 \<Longrightarrow> sint (u32 v) = v"
  by (simp add: signed_of_int signed_take_bit_int_eq_self)

lemma uint_u16: "0 \<le> v \<Longrightarrow> v < 2 ^ 16 \<Longrightarrow> uint (u16 v) = v"
  by (simp add: uint_word_of_int)

lemma sint_u16: "- (2 ^ 15) \<le> v \<Longrightarrow> v < 2 ^ 15 \<Longrightarrow> sint (u16 v) = v"
  by (simp add: signed_of_int signed_take_bit_int_eq_self)

lemma product_bound:
  fixes x y :: "16 word"
  shows "uint x * uint y < 2 ^ 32"
proof -
  have "uint x * uint y \<le> 65535 * 65535"
    using uint16_bound [of x] uint16_bound [of y] by (intro mult_mono) auto
  then show ?thesis by simp
qed

lemma signed_product_bound:
  fixes x y :: "16 word"
  shows "- (2 ^ 31) \<le> sint x * sint y" "sint x * sint y < 2 ^ 31"
proof -
  have x: "\<bar>sint x\<bar> \<le> 32768" and y: "\<bar>sint y\<bar> \<le> 32768"
    using sint_range_size [of x] sint_range_size [of y] by (auto simp: word_size)
  have "\<bar>sint x * sint y\<bar> \<le> 32768 * 32768"
    unfolding abs_mult using x y by (intro mult_mono) auto
  then show "- (2 ^ 31) \<le> sint x * sint y" "sint x * sint y < 2 ^ 31" by auto
qed

lemma product16:
  fixes x y :: "16 word"
  shows "uint (u32 (uint x * uint y)) = uint x * uint y" "sint (u32 (sint x * sint y)) = sint x * sint y"
  by (rule uint_u32 [OF _ product_bound], simp) (rule sint_u32 [OF signed_product_bound])

lemma signed_hi_lo: "sint h * 256 + uint l = sint (pair16 h l)"
proof -
  have "bit (pair16 h l) 15 = bit h 7" by (simp add: bit_pair16)
  moreover have "sint h = uint h - (if bit h 7 then 256 else 0)"
    by (simp add: sint8)
  moreover have "sint (pair16 h l) = uint (pair16 h l) - (if bit (pair16 h l) 15 then 65536 else 0)"
    by (rule sint16)
  ultimately show ?thesis by (auto simp: uint_pair16)
qed

lemma set_pair_16:
  assumes "hi \<noteq> lo"
  shows "pair hi lo (ticks n (set_reg lo (lo8 v) (set_reg hi (hi8 v) s))) = v"
  using assms by (simp add: pair_def set_reg_def ticks_def pair16_hi8_lo8)

lemma product8:
  fixes x y :: "8 word"
  shows "uint (u16 (uint x * uint y)) = uint x * uint y"
proof -
  have "uint x * uint y \<le> 255 * 255"
    using uint8_bound [of x] uint8_bound [of y] by (intro mult_mono) auto
  then show ?thesis by (intro uint_u16) auto
qed

lemma signed_product8:
  fixes x y :: "8 word"
  shows "sint (u16 (sint x * sint y)) = sint x * sint y"
proof -
  have x: "\<bar>sint x\<bar> \<le> 128" and y: "\<bar>sint y\<bar> \<le> 128"
    using sint_range_size [of x] sint_range_size [of y] by (auto simp: word_size)
  have "\<bar>sint x * sint y\<bar> \<le> 128 * 128"
    unfolding abs_mult using x y by (intro mult_mono) auto
  then have "- (2 ^ 15) \<le> sint x * sint y" "sint x * sint y < 2 ^ 15" by auto
  then show ?thesis by (intro sint_u16)
qed

lemma srp_pair: "srp hi lo s = sint (pair hi lo s)"
  by (simp add: srp_def pair_def)

lemma rp_pair: "rp hi lo s = uint (pair hi lo s)"
  by (simp add: rp_eq pair_def)

lemma signed_pair_pair: "signed_pair hi lo s = sint (pair hi lo s)"
  by (simp add: signed_pair_def signed_hi_lo pair_def)

text \<open>
  C29: the wide multiplications lose nothing. MUL of the Rabbits leaves the signed product of DE and BC in
  HLBC, MULU of the Rabbit 4000 the unsigned one, MUL and MULU of the Rabbit 6000 the products of DE and
  HL in JKHL; the KC160 leaves the products of H and L in HL and of DE and HL in DEHL.
\<close>

theorem wide_products_exact:
  "sint (quad32 rH rL rB rC (rxk_mul s)) = sint (pair rD rE s) * sint (pair rB rC s) \<and>
   uint (quad32 rH rL rB rC (r4k_mulu s)) = uint (pair rD rE s) * uint (pair rB rC s) \<and>
   sint (quad32 rJ rK rH rL (r6k_mul_hl_de s)) = sint (pair rD rE s) * sint (pair rH rL s) \<and>
   uint (quad32 rJ rK rH rL (r6k_mulu_hl_de s)) = uint (pair rD rE s) * uint (pair rH rL s) \<and>
   uint (pair rH rL (kc160_mul_hl s)) = uint (regs s rH) * uint (regs s rL) \<and>
   sint (pair rH rL (kc160_muls_hl s)) = sint (regs s rH) * sint (regs s rL) \<and>
   uint (quad32 rD rE rH rL (kc160_mul_de_hl s)) = uint (pair rD rE s) * uint (pair rH rL s) \<and>
   sint (quad32 rD rE rH rL (kc160_muls_de_hl s)) = sint (pair rD rE s) * sint (pair rH rL s)"
proof (intro conjI)
  have "rxk_mul s = ticks 12 (set_quad rH rL rB rC (sint (pair rD rE s) * sint (pair rB rC s)) s)"
    unfolding rxk_mul_def set_quad_def signed_hi_lo pair_def Let_def ..
  then show "sint (quad32 rH rL rB rC (rxk_mul s)) = sint (pair rD rE s) * sint (pair rB rC s)"
    by (simp add: quad32_set_quad product16 del: of_int_mult)
qed (simp_all del: of_int_mult add: r4k_mulu_def r6k_mul_hl_de_def r6k_mulu_hl_de_def kc160_mul_de_hl_def kc160_muls_de_hl_def
    kc160_mul_hl_def kc160_muls_hl_def Let_def quad32_set_quad quad32_set_r32 rp_pair srp_pair signed_pair_pair
    product16 set_pair_16 product8 signed_product8)

section \<open>Quotients\<close>

lemma divide_halves:
  fixes h l d b :: int
  assumes "0 \<le> h" "0 \<le> l" "l < b" "0 \<le> d" "d \<noteq> 0" "d < b"
  shows "0 \<le> (b * h + l) mod d" "(b * h + l) mod d mod b = (b * h + l) mod d"
    "h < d \<Longrightarrow> (b * h + l) div d mod b * d + (b * h + l) mod d = b * h + l"
proof -
  have m: "0 \<le> (b * h + l) mod d" "(b * h + l) mod d < b"
    using assms pos_mod_sign [of d "b * h + l"] pos_mod_bound [of d "b * h + l"] by linarith+
  then show "0 \<le> (b * h + l) mod d" by simp
  from m show "(b * h + l) mod d mod b = (b * h + l) mod d" by (rule mod_pos_pos_trivial)
  assume "h < d"
  then have "b * h + l < d * b"
    using assms mult_right_mono [of "h + 1" d b] by (simp add: algebra_simps)
  moreover have "0 < d" using assms by simp
  moreover have "(b * h + l) div d * d \<le> b * h + l"
    using m by (simp add: minus_mod_eq_div_mult [symmetric])
  ultimately have "(b * h + l) div d < b"
    by (metis mult.commute mult_less_cancel_right_pos order_le_less_trans)
  moreover have "0 \<le> (b * h + l) div d" using assms by (simp add: pos_imp_zdiv_nonneg_iff)
  ultimately show "(b * h + l) div d mod b * d + (b * h + l) mod d = b * h + l" by simp
qed

lemma pairs_set_quot:
  "pair rH rL (set_quot q r s) = u16 q" "pair rD rE (set_quot q r s) = u16 r"
  by (simp_all add: set_quot_def pair_def set_reg_def ticks_def pair16_hi8_lo8)

lemma or_shl:
  fixes x y :: int
  assumes "0 \<le> x" "x < 2 ^ n"
  shows "x OR shl y n = x + 2 ^ n * y"
  using concat_bit_eq [of n x y] concat_bit_def [of n x y] assms
  by (simp add: take_bit_int_eq_self push_bit_eq_mult mult.commute)

lemma quad_eq: "quad r3 r2 r1 r0 s = 65536 * uint (pair r3 r2 s) + uint (pair r1 r0 s)"
proof -
  let ?R = "\<lambda>r. uint (regs s r)"
  have "quad r3 r2 r1 r0 s = (?R r0 OR shl (?R r1) 8) OR shl (?R r2 OR shl (?R r3) 8) 16"
    by (simp add: quad_def Let_def push_bit_or ac_simps)
  also have "\<dots> = uint (pair r1 r0 s) OR shl (uint (pair r3 r2 s)) 16"
    using or_shl [of "?R r0" 8 "?R r1"] or_shl [of "?R r2" 8 "?R r3"] uint8_bound [of "regs s r0"] uint8_bound [of "regs s r2"]
    by (simp add: pair_def uint_pair16 ac_simps)
  also have "\<dots> = 65536 * uint (pair r3 r2 s) + uint (pair r1 r0 s)"
    using or_shl [of "uint (pair r1 r0 s)" 16 "uint (pair r3 r2 s)"] uint16_bound [of "pair r1 r0 s"] by simp
  finally show ?thesis .
qed

lemma uint_quad32: "uint (quad32 r3 r2 r1 r0 s) = quad r3 r2 r1 r0 s"
  using uint16_bound [of "pair r3 r2 s"] uint16_bound [of "pair r1 r0 s"]
  unfolding quad32_def quad_eq by (intro uint_u32) auto

lemma sint_u8: "- 128 \<le> v \<Longrightarrow> v \<le> 127 \<Longrightarrow> sint (u8 v) = v"
  by (simp add: signed_of_int signed_take_bit_int_eq_self)

lemma sint_zero: "sint (x :: 'a :: len word) = 0 \<longleftrightarrow> x = 0"
  by (metis signed_0 signed_word_eqI)

lemma sint_u16_range: "- 32768 \<le> v \<Longrightarrow> v \<le> 32767 \<Longrightarrow> sint (u16 v) = v"
  by (rule sint_u16) simp_all

lemma smod_fits:
  fixes x d :: int
  assumes "d \<noteq> 0" "- b \<le> d" "d \<le> b"
  shows "- b \<le> x smod d" "x smod d \<le> b - 1"
  using smod_int_range [OF assms(1), of x] assms(2,3) by auto

lemma sint_bounds:
  "- 128 \<le> sint (x :: 8 word)" "sint x \<le> 127" "- 32768 \<le> sint (y :: 16 word)" "sint y \<le> 32767"
  using sint_range_size [of x] sint_range_size [of y] by (auto simp: word_size)

text \<open>
  C30: the divisions of the KC160. A zero divisor has no result (the emulator's own division traps), nor
  has the smallest 32-bit number divided by -1; otherwise quotient and remainder are those of HL by A, in L
  and H, and of DEHL by BC, in HL and DE. Unsigned ones are exact when the high part of the dividend is
  below the divisor and cut to the register otherwise; signed ones round towards zero and are exact when
  the quotient fits.
\<close>

theorem kc160_division_correct:
  "(kc160_div_hl_a s = None \<longleftrightarrow> regs s rA = 0) \<and>
   (kc160_div_dehl_bc s = None \<longleftrightarrow> pair rB rC s = 0) \<and>
   (kc160_divs_hl_a s = None \<longleftrightarrow> regs s rA = 0) \<and>
   (kc160_divs_dehl_bc s = None \<longleftrightarrow>
      pair rB rC s = 0 \<or> sint (quad32 rD rE rH rL s) = - (2 ^ 31) \<and> sint (pair rB rC s) = -1) \<and>
   (case kc160_div_hl_a s of None \<Rightarrow> True | Some s' \<Rightarrow>
      uint (regs s' rL) = uint (pair rH rL s) div uint (regs s rA) mod 256 \<and>
      uint (regs s' rH) = uint (pair rH rL s) mod uint (regs s rA) \<and>
      (regs s rH < regs s rA \<longrightarrow> uint (regs s' rL) * uint (regs s rA) + uint (regs s' rH) = uint (pair rH rL s))) \<and>
   (case kc160_div_dehl_bc s of None \<Rightarrow> True | Some s' \<Rightarrow>
      uint (pair rH rL s') = uint (quad32 rD rE rH rL s) div uint (pair rB rC s) mod 65536 \<and>
      uint (pair rD rE s') = uint (quad32 rD rE rH rL s) mod uint (pair rB rC s) \<and>
      (pair rD rE s < pair rB rC s \<longrightarrow>
        uint (pair rH rL s') * uint (pair rB rC s) + uint (pair rD rE s') = uint (quad32 rD rE rH rL s))) \<and>
   (case kc160_divs_hl_a s of None \<Rightarrow> True | Some s' \<Rightarrow>
      sint (regs s' rH) = sint (pair rH rL s) smod sint (regs s rA) \<and>
      (sint (pair rH rL s) sdiv sint (regs s rA) \<in> {-128..127} \<longrightarrow>
        sint (regs s' rL) = sint (pair rH rL s) sdiv sint (regs s rA))) \<and>
   (case kc160_divs_dehl_bc s of None \<Rightarrow> True | Some s' \<Rightarrow>
      sint (pair rD rE s') = sint (quad32 rD rE rH rL s) smod sint (pair rB rC s) \<and>
      (sint (quad32 rD rE rH rL s) sdiv sint (pair rB rC s) \<in> {-32768..32767} \<longrightarrow>
        sint (pair rH rL s') = sint (quad32 rD rE rH rL s) sdiv sint (pair rB rC s)))"
proof (intro conjI)
  show "kc160_div_hl_a s = None \<longleftrightarrow> regs s rA = 0" "kc160_div_dehl_bc s = None \<longleftrightarrow> pair rB rC s = 0"
    by (simp_all add: kc160_div_hl_a_def kc160_div_dehl_bc_def Let_def rp_pair unsigned_eq_0_iff)
  show "kc160_divs_hl_a s = None \<longleftrightarrow> regs s rA = 0"
    "kc160_divs_dehl_bc s = None \<longleftrightarrow>
      pair rB rC s = 0 \<or> sint (quad32 rD rE rH rL s) = - (2 ^ 31) \<and> sint (pair rB rC s) = -1"
    by (simp_all add: kc160_divs_hl_a_def kc160_divs_dehl_bc_def Let_def srp_pair quad32_def sint_zero)
next
  show "case kc160_divs_hl_a s of None \<Rightarrow> True | Some s' \<Rightarrow>
      sint (regs s' rH) = sint (pair rH rL s) smod sint (regs s rA) \<and>
      (sint (pair rH rL s) sdiv sint (regs s rA) \<in> {-128..127} \<longrightarrow>
        sint (regs s' rL) = sint (pair rH rL s) sdiv sint (regs s rA))"
    using smod_fits [of "sint (regs s rA)" 128 "sint (pair rH rL s)"] sint_bounds(1,2) [of "regs s rA"]
    by (auto simp: kc160_divs_hl_a_def Let_def srp_pair set_reg_def ticks_def sint_u8)
next
  show "case kc160_divs_dehl_bc s of None \<Rightarrow> True | Some s' \<Rightarrow>
      sint (pair rD rE s') = sint (quad32 rD rE rH rL s) smod sint (pair rB rC s) \<and>
      (sint (quad32 rD rE rH rL s) sdiv sint (pair rB rC s) \<in> {-32768..32767} \<longrightarrow>
        sint (pair rH rL s') = sint (quad32 rD rE rH rL s) sdiv sint (pair rB rC s))"
    using smod_fits [of "sint (pair rB rC s)" 32768 "sint (quad32 rD rE rH rL s)"] sint_bounds(3,4) [of "pair rB rC s"]
    by (auto simp: kc160_divs_dehl_bc_def Let_def srp_pair pairs_set_quot quad32_def sint_u16_range)
next
  show "case kc160_div_hl_a s of None \<Rightarrow> True | Some s' \<Rightarrow>
      uint (regs s' rL) = uint (pair rH rL s) div uint (regs s rA) mod 256 \<and>
      uint (regs s' rH) = uint (pair rH rL s) mod uint (regs s rA) \<and>
      (regs s rH < regs s rA \<longrightarrow> uint (regs s' rL) * uint (regs s rA) + uint (regs s' rH) = uint (pair rH rL s))"
    using divide_halves [where b = 256 and h = "uint (regs s rH)" and l = "uint (regs s rL)" and d = "uint (regs s rA)"]
      uint8_bound [of "regs s rL"] uint8_bound [of "regs s rH"] uint8_bound [of "regs s rA"]
    by (auto simp: kc160_div_hl_a_def Let_def rp_pair pair_def uint_pair16 set_reg_def ticks_def uint_word_of_int word_less_alt)
next
  let ?v = "uint (quad32 rD rE rH rL s)" and ?d = "uint (pair rB rC s)"
  have v: "?v = 65536 * uint (pair rD rE s) + uint (pair rH rL s)" by (simp only: uint_quad32 quad_eq)
  have q: "quad rD rE rH rL s = ?v" by (rule uint_quad32 [symmetric])
  show "case kc160_div_dehl_bc s of None \<Rightarrow> True | Some s' \<Rightarrow>
      uint (pair rH rL s') = ?v div ?d mod 65536 \<and> uint (pair rD rE s') = ?v mod ?d \<and>
      (pair rD rE s < pair rB rC s \<longrightarrow> uint (pair rH rL s') * ?d + uint (pair rD rE s') = ?v)"
    using divide_halves [where b = 65536 and h = "uint (pair rD rE s)" and l = "uint (pair rH rL s)" and d = ?d]
      uint16_bound [of "pair rH rL s"] uint16_bound [of "pair rD rE s"] uint16_bound [of "pair rB rC s"]
    by (auto simp: kc160_div_dehl_bc_def Let_def rp_pair q pairs_set_quot v uint_word_of_int word_less_alt)
qed

theorem kc160_division_correct_witness:
  "case kc160_div_hl_a ((power_on CPU_KC160 Standard)\<lparr>regs := (\<lambda>_. 0)(rA := 7, rH := 1, rL := 4)\<rparr>) of
     None \<Rightarrow> False | Some s' \<Rightarrow> uint (regs s' rL) * 7 + uint (regs s' rH) = 260"
  using kc160_division_correct [of "(power_on CPU_KC160 Standard)\<lparr>regs := (\<lambda>_. 0)(rA := 7, rH := 1, rL := 4)\<rparr>"]
  by (auto simp: pair_def uint_pair16 word_less_alt split: option.splits)

section \<open>ALU_OP\<close>

text \<open>The zero flag as \<open>ALU_OP\<close> leaves it, in the group it writes.\<close>

definition zero_out :: "cpu \<Rightarrow> bool" where
  "zero_out s \<longleftrightarrow> fr (grp s) = 0"

lemma grp_set_grp [simp]: "grp (set_grp g s) = g"
  by (simp add: grp_def set_grp_def)

lemma bit8_256: "bit (256 :: 16 word) 8"
  by (simp add: bit_iff_odd_drop_bit)

lemma carry_bit: "shr (uint (v :: 16 word)) 8 AND 1 = of_bool (bit v 8)"
  by (rule bit_eqI) (auto simp: bit_simps)

lemma alu_op_flags:
  "carry (snd (ALU_OP w op l r s)) \<longleftrightarrow>
     (if op = 0 \<or> op = 1 then fst (ALU_OP w op l r s) < r
      else if op = 2 \<or> op = 3 then fst (ALU_OP w op l r s) > l else op = 7 \<and> r > l)"
  "zero_out (snd (ALU_OP w op l r s)) \<longleftrightarrow> (if op = 7 then l = r else fst (ALU_OP w op l r s) = 0)"
  by (simp_all add: ALU_OP_def Let_def carry_def zero_out_def bit8_256)

lemma alu_op_result:
  "fst (ALU_OP w op l r s) = (if op = 0 then l + r
     else if op = 1 then l + r + of_bool (bit (ff (if alts s then fl' s else fl s)) 8)
     else if op = 2 then l - r
     else if op = 3 then l - r - of_bool (bit (ff (if alts s then fl' s else fl s)) 8)
     else if op = 4 then l AND r else if op = 5 then l XOR r else l OR r) mod 2 ^ w"
  unfolding ALU_OP_def Let_def carry_bit
  by (simp add: take_bit_eq_mod) (simp add: ac_simps)

lemma wrapped_sum:
  fixes l r c m :: int
  assumes "0 \<le> l" "l < m" "0 \<le> r" "r < m" "c = 0 \<or> c = 1"
  shows "(l + r + c) mod m < r \<longleftrightarrow> m \<le> l + r + c \<and> \<not> (c = 1 \<and> l = m - 1)"
proof (cases "m \<le> l + r + c")
  case True
  then have "(l + r + c) mod m = l + r + c - m"
    using assms by (intro int_mod_pos_eq [where q = 1]) auto
  with True assms show ?thesis by auto
next
  case False
  then have "(l + r + c) mod m = l + r + c" using assms by (intro mod_pos_pos_trivial) auto
  with False assms show ?thesis by auto
qed

lemma wrapped_difference:
  fixes l r c m :: int
  assumes "0 \<le> l" "l < m" "0 \<le> r" "r < m" "c = 0 \<or> c = 1"
  shows "l < (l - r - c) mod m \<longleftrightarrow> l < r + c \<and> \<not> (c = 1 \<and> r = m - 1)"
proof (cases "l < r + c")
  case True
  then have "(l - r - c) mod m = l - r - c + m"
    using assms by (intro int_mod_pos_eq [where q = "-1"]) auto
  with True assms show ?thesis by auto
next
  case False
  then have "(l - r - c) mod m = l - r - c" using assms by (intro mod_pos_pos_trivial) auto
  with False assms show ?thesis by auto
qed

text \<open>
  C31: \<open>ALU_OP\<close> at its own width computes sum and difference modulo \<open>2 ^ w\<close>, and the carry of ADD and the
  borrow of SUB and CP; the logical operations clear it. ADC and SBC lose the carry in one case each: with a
  carry coming in, when the left operand of ADC or the right operand of SBC is all ones.
\<close>

theorem alu_op_correct:
  assumes "0 \<le> l" "l < 2 ^ w" "0 \<le> r" "r < 2 ^ w"
    and "c = of_bool (bit (ff (if alts s then fl' s else fl s)) 8)"
  shows "fst (ALU_OP w 0 l r s) = (l + r) mod 2 ^ w \<and> carry (snd (ALU_OP w 0 l r s)) = (2 ^ w \<le> l + r) \<and>
    fst (ALU_OP w 1 l r s) = (l + r + c) mod 2 ^ w \<and>
    carry (snd (ALU_OP w 1 l r s)) = (2 ^ w \<le> l + r + c \<and> \<not> (c = 1 \<and> l = 2 ^ w - 1)) \<and>
    fst (ALU_OP w 2 l r s) = (l - r) mod 2 ^ w \<and> carry (snd (ALU_OP w 2 l r s)) = (l < r) \<and>
    fst (ALU_OP w 3 l r s) = (l - r - c) mod 2 ^ w \<and>
    carry (snd (ALU_OP w 3 l r s)) = (l < r + c \<and> \<not> (c = 1 \<and> r = 2 ^ w - 1)) \<and>
    carry (snd (ALU_OP w 7 l r s)) = (l < r) \<and> zero_out (snd (ALU_OP w 7 l r s)) = (l = r) \<and>
    (\<forall>op \<in> {4, 5, 6}. \<not> carry (snd (ALU_OP w op l r s))) \<and>
    (\<forall>op \<in> {0..6}. zero_out (snd (ALU_OP w op l r s)) = (fst (ALU_OP w op l r s) = 0))"
proof -
  have c: "c = 0 \<or> c = 1" using assms(5) by simp
  note sums = wrapped_sum [OF assms(1-4)] and differences = wrapped_difference [OF assms(1-4)]
  show ?thesis
    using sums [of 0] sums [OF c] differences [of 0] differences [OF c]
    by (simp add: alu_op_flags) (simp add: alu_op_result assms(5))
qed

theorem alu_op_correct_witness:
  "let s = (power_on CPU_R4K Rabbit)\<lparr>fl := \<lparr>ff = 256, fr = 0, fa = 0, fb = 0\<rparr>\<rparr> in
     fst (ALU_OP 16 1 65535 1 s) = 1 \<and> \<not> carry (snd (ALU_OP 16 1 65535 1 s)) \<and>
     fst (ALU_OP 16 1 1 65535 s) = 1 \<and> carry (snd (ALU_OP 16 1 1 65535 s))"
proof -
  let ?s = "(power_on CPU_R4K Rabbit)\<lparr>fl := \<lparr>ff = 256, fr = 0, fa = 0, fb = 0\<rparr>\<rparr>"
  have c: "(1 :: int) = of_bool (bit (ff (if alts ?s then fl' ?s else fl ?s)) 8)"
    by (simp add: power_on_def bit8_256)
  show ?thesis
    using alu_op_correct [of 65535 16 1 1 ?s] alu_op_correct [of 1 16 65535 1 ?s] c by simp
qed

section \<open>The stack of pointer registers\<close>

lemma put_mem_pregs [simp]: "pregs (put_mem a v s) = pregs s"
  by (simp add: put_mem_def put_memory_def store_at_def Let_def split: option.split prod.split)

text \<open>A Rabbit with no ROM.\<close>

definition rabbit_ram :: "cpu \<Rightarrow> bool" where
  "rabbit_ram s \<longleftrightarrow> flat_ram s \<and> model (mem s) = Rabbit"

lemma uint_u16_mask: "uint (u16 a) = a AND 65535"
  using take_bit_eq_mask [of 16 a] by (simp add: uint_word_of_int_eq mask_eq_exp_minus_1)

lemma rabbit_stack:
  assumes "rabbit_ram s"
  shows "get_stack (uint (x :: 16 word) + int i) s = get_memory_data (uint (x + of_nat i)) s"
proof -
  have "u16 (uint x + int i) = x + of_nat i"
    by (simp only: of_int_add of_int_of_nat_eq word_of_int_uint)
  then have "(uint x + int i) AND 65535 = uint (x + of_nat i)" by (metis uint_u16_mask)
  then show ?thesis
    using assms mask16_uint [of "x + of_nat i"]
    by (simp add: rabbit_ram_def get_stack_def get_memory_def get_memory_addr_def rabbit_get_memory_addr_def Let_def)
qed

lemma rabbit_ram_push8 [simp]: "rabbit_ram (push8 v s) = rabbit_ram s"
  by (simp add: rabbit_ram_def push8_def Let_def)

lemma word32_of_bytes: "word32 (byte_of (uint w)) = w"
  using bytes_join32 [of "uint w"] by (simp add: word32_def byte_of_def)

lemma pushed_bytes:
  assumes "rabbit_ram s"
  shows "get_stack (uint (sp s - 4) + int i) (push8 b0 (push8 b1 (push8 b2 (push8 b3 s)))) =
    (if i = 0 then b0 else if i = 1 then b1 else if i = 2 then b2 else if i = 3 then b3
     else get_stack (uint (sp s - 4) + int i) (push8 b0 (push8 b1 (push8 b2 (push8 b3 s)))))"
proof -
  have "flat_ram s" using assms by (simp add: rabbit_ram_def)
  then show ?thesis
    using assms by (simp add: rabbit_stack) (simp add: push8_def Let_def flat.rd_wr_flat)
qed

text \<open>
  POP pd after PUSH ps copies the pointer register, under ALTS and ALTD too, and leaves the stack pointer
  where it was, wherever on a Rabbit without ROM the stack is, 16-bit wrap-around included. Under ALTS,
  PUSH PZ pushes the alternate PY.
\<close>

lemma push_pop_pointer:
  assumes "rabbit_ram s"
  shows "pregs (r4k_pop_pd q (r4k_push_ps p s)) = (pregs s)(write_pd (fld4 q) s := read_ps (fld4 p) s) \<and>
    sp (r4k_pop_pd q (r4k_push_ps p s)) = sp s \<and> regs (r4k_pop_pd q (r4k_push_ps p s)) = regs s \<and>
    (alts s \<longrightarrow> read_ps (fld4 0xf0) s = pregs s PY')"
proof -
  let ?b = "byte_of (uint (read_ps (fld4 p) s))"
  define s1 where "s1 = push8 (?b 0) (push8 (?b 1) (push8 (?b 2) (push8 (?b 3) s)))"
  have s1: "sp s1 = sp s - 4" "pregs s1 = pregs s" "altd s1 = altd s" "regs s1 = regs s"
    by (simp_all add: s1_def push8_def Let_def put_mem_pregs)
  have b: "get_stack (uint (sp s - 4) + int i) s1 = ?b i" if "i < 4" for i
  proof -
    from that consider "i = 0" | "i = 1" | "i = 2" | "i = 3" by linarith
    then show ?thesis
      by cases (use pushed_bytes [OF assms, of i "?b 0" "?b 1" "?b 2" "?b 3"] in \<open>simp_all add: s1_def\<close>)
  qed
  have push: "r4k_push_ps p s = ticks 18 s1"
    by (simp add: r4k_push_ps_def s1_def Let_def)
  have stack: "get_stack a (ticks n s') = get_stack a s'" for a n s'
    by (simp add: get_stack_def ticks_def)
  have "word32 (\<lambda>i. get_stack (uint (sp s - 4) + int i) s1) = read_ps (fld4 p) s"
    using b [of 0] b [of 1] b [of 2] b [of 3] word32_of_bytes [of "read_ps (fld4 p) s"]
    by (simp add: word32_def)
  then show ?thesis
    by (simp add: push r4k_pop_pd_def Let_def stack s1 set_preg_def write_pd_def)
      (simp add: ticks_def s1 read_ps_def fld4_def)
qed

section \<open>Reversals, rotations and exchanges\<close>


lemma bit_const:
  "bit (240 :: int) n \<longleftrightarrow> 4 \<le> n \<and> n < 8" "bit (15 :: int) n \<longleftrightarrow> n < 4"
  "bit (204 :: int) n \<longleftrightarrow> n \<in> {2, 3, 6, 7}" "bit (51 :: int) n \<longleftrightarrow> n \<in> {0, 1, 4, 5}"
  "bit (170 :: int) n \<longleftrightarrow> n \<in> {1, 3, 5, 7}" "bit (85 :: int) n \<longleftrightarrow> n \<in> {0, 2, 4, 6}"
  by (auto simp: bit_numeral_rec(1) bit_numeral_rec(2) bit_1_iff split: nat.splits)

lemma bit_swapped:
  assumes "i < 8"
  shows "bit (u8 (shr (uint (v :: 8 word) AND m) k OR shl (uint v AND m') k)) i \<longleftrightarrow>
    bit v (k + i) \<and> bit m (k + i) \<or> k \<le> i \<and> bit v (i - k) \<and> bit m' (i - k)"
  using assms by (auto simp: bit_simps)

lemma mirror_bit:
  assumes "i < 8"
  shows "bit (r6k_mirror_byte v) i = bit v (7 - i)"
proof -
  from assms consider "i = 0" | "i = 1" | "i = 2" | "i = 3" | "i = 4" | "i = 5" | "i = 6" | "i = 7" by fastforce
  then show ?thesis
    by cases (simp_all only: r6k_mirror_byte_def Let_def bit_swapped, simp_all add: bit_swapped bit_const)
qed

lemma mirror_mirror: "r6k_mirror_byte (r6k_mirror_byte v) = v"
  by (rule bit_word_eqI) (simp add: mirror_bit)

lemma set_reg_regs: "regs (set_reg r v s) = (regs s)(r := v)"
  by (simp add: set_reg_def)

lemma regs_ticks [simp]: "regs (ticks n s) = regs s"
  by (simp add: ticks_def)

text \<open>
  instructions that undo each other. With one ALTS/ALTD setting, the byte rotations of BCDE or JKHL to
  the left and to the right, through A or within the register, are inverse, and reversing the bytes of a
  32-bit register, the bytes of a pair or the bits of a register twice changes nothing (the bit reversal
  takes bit 7 to bit 0); nor does exchanging
  the pointer registers or JKHL with BCDE twice, under any setting.
\<close>

lemma r4k_inverses:
  assumes "alts s = altd s"
  shows "(i < 8 \<longrightarrow> bit (r6k_mirror_byte v) i = bit v (7 - i)) \<and>
    regs (r4k_rrb_a_r32 k (r4k_rlb_a_r32 k s)) = regs s \<and>
    regs (r4k_rlb_a_r32 k (r4k_rrb_a_r32 k s)) = regs s \<and>
    regs (r4k_rrc_r32 0x5f k (r4k_rlc_r32 0x4f k s)) = regs s \<and>
    regs (r4k_rlc_r32 0x4f k (r4k_rrc_r32 0x5f k s)) = regs s \<and>
    regs (r6k_swap_r32 k (r6k_swap_r32 k s)) = regs s \<and>
    (op \<in> {0xc0, 0xd0, 0xe0, 0xf0} \<longrightarrow> regs (r6k_swap_rp2 op (r6k_swap_rp2 op s)) = regs s) \<and>
    (op \<in> {0x80, 0x90, 0xa0, 0xb0, 0xc0, 0xd0, 0xf0} \<longrightarrow> regs (r6k_swap_r op (r6k_swap_r op s)) = regs s) \<and>
    pregs (r4k_exp (r4k_exp s)) = pregs s \<and>
    regs (r4k_ex_jkhl_bcde (r4k_ex_jkhl_bcde s)) = regs s"
proof -
  have [simp]: "alts (set_reg r v s') = alts s'" "altd (set_reg r v s') = altd s'" "alts (ticks n s') = alts s'"
    "altd (ticks n s') = altd s'" for r v n s'
    by (simp_all add: set_reg_def ticks_def)
  note ops = r4k_rrb_a_r32_def r4k_rlb_a_r32_def r4k_rrc_r32_def r4k_rlc_r32_def r6k_swap_r32_def
    r32_source_def r32_dest_def r32_regs_def SWAPR_def Let_def src_a_def dst_r_def set_reg_regs
  show ?thesis
  proof (intro conjI impI)
    show "bit (r6k_mirror_byte v) i = bit v (7 - i)" if "i < 8"
      using that by (rule mirror_bit)
    show "regs (r6k_swap_rp2 op (r6k_swap_rp2 op s)) = regs s" if "op \<in> {0xc0, 0xd0, 0xe0, 0xf0}"
      using that assms by (auto simp: r6k_swap_rp2_def rp2_lsb_def rp2_msb_def SWAPR_def Let_def set_reg_regs
          drop_bit_eq_div fun_eq_iff)
    show "regs (r6k_swap_r op (r6k_swap_r op s)) = regs s" if "op \<in> {0x80, 0x90, 0xa0, 0xb0, 0xc0, 0xd0, 0xf0}"
      using that assms by (auto simp: r6k_swap_r_def r_ptr_def Let_def set_reg_regs drop_bit_eq_div mirror_mirror fun_eq_iff)
    show "pregs (r4k_exp (r4k_exp s)) = pregs s"
      by (rule ext) (simp add: r4k_exp_def Let_def ticks_def split: preg.split)
    show "regs (r4k_ex_jkhl_bcde (r4k_ex_jkhl_bcde s)) = regs s"
      by (simp add: r4k_ex_jkhl_bcde_def SWAPR_def Let_def set_reg_regs fun_eq_iff)
  qed (use assms in \<open>simp_all add: ops fun_eq_iff\<close>)
qed

end
