(* ===== verification/Ticks_Safety.thy ===== *)
theory Ticks_Safety
  imports Ticks_Machine Ticks_Wide
begin

text \<open>
  What holds of every run of the complete machine, with every processor, memory model and instruction file
  and the hook functions: the contract of \<open>Ticks_Machine\<close> met by the paging registers and by the
  configuration. Then interrupts and the hook functions.
\<close>

section \<open>Interpretations\<close>

definition banks_ok :: "cpu \<Rightarrow> bool" where
  "banks_ok s \<longleftrightarrow> mem_wf (mem s)"

lemma mem_wf_store_at: "mem_wf (mem (store_at p v s)) = mem_wf (mem s)"
  by (simp add: store_at_def mem_wf_def split: option.split prod.split)

interpretation banks: physical_invariant banks_ok
  by unfold_locales (simp_all add: banks_ok_def mem_wf_paging mem_wf_store_at stop_run_def)

text \<open>What \<open>main\<close> sets up before \<open>cpu_run\<close>: processor, ROM size, console port, test mode, memory model.\<close>

type_synonym configuration = "16 word \<times> int \<times> int \<times> bool \<times> mem_model \<times> bool"

definition configuration :: "cpu \<Rightarrow> configuration" where
  "configuration s = (c_cpu s, c_rom_size s, c_ioport s, c_z80asm_tests s, model (mem s), vm1_alloc (mem s))"

lemma configuration_store_at [simp]: "configuration (store_at p v s) = configuration s"
  by (simp add: configuration_def store_at_def split: option.split prod.split)

lemma configuration_paging [simp]: "configuration (memory_handle_paging port v s) = configuration s"
  by (simp add: configuration_def memory_handle_paging_def zxn_handle_out_def zx_handle_out_def z180_handle_out_def
      msx_handle_out_def Let_def split: mem_model.split)

lemma configuration_put_mem [simp]: "configuration (put_mem a v s) = configuration s"
  by (simp add: put_mem_def put_memory_def Let_def)

interpretation config: physical_invariant "\<lambda>s. configuration s = k" for k
  by unfold_locales (simp_all, simp_all add: configuration_def stop_run_def)

section \<open>Every access of every run\<close>

text \<open>
  C1: whatever program runs on whatever processor and memory model, with whatever interrupts, port writes and
  host calls: from the paging registers \<open>memory_init\<close> sets, in every state the run passes through, every
  access at a 16-bit address resolves to a byte inside one of the allocated arrays.
\<close>

theorem every_access_in_bounds:
  assumes "memory_init name s0 = Some s" "zx_pages (mem (cpu r)) = zx_pages (mem s)" "reached ticks_handlers intr start r r'"
    and "0 \<le> a" "a < 65536"
  shows "\<exists>arr i. get_memory_addr a ty (cpu r') = Some (arr, i) \<and> i < array_size arr"
proof -
  have "banks_ok (cpu r)" using mem_wf_init [OF assms(1)] assms(2) by (simp add: banks_ok_def mem_wf_def)
  then have "mem_wf (mem (cpu r'))" using banks.run.keeps_reached [OF assms(3)] by (simp add: banks_ok_def)
  then show ?thesis using get_memory_addr_resolves [OF assms(4,5), of "cpu r'" ty] resolved_in_array by fastforce
qed

theorem every_access_in_bounds_witness:
  "\<exists>arr i. get_memory_addr 0xc000 MEM_TYPE_DATA (cpu (cpu_step ticks_handlers 0 (-1)
     \<lparr>cpu = power_on CPU_Z80 Zx128, stint = 0, end_pc = 0\<rparr>)) = Some (arr, i) \<and> i < array_size arr"
  using every_access_in_bounds [of "''zx128''" "power_on CPU_Z80 Zx128" _ "\<lparr>cpu = power_on CPU_Z80 Zx128, stint = 0, end_pc = 0\<rparr>",
      OF _ _ reached.step [OF reached.initial]]
  by (simp add: memory_init_def power_on_def memory_reset_state_def)

text \<open>
  C2: the configuration is fixed: in every state of a run processor, ROM size, console port, test mode and
  memory model are what they were at the start. So the processor is one of those \<open>main\<close> can select, the tests of
  \<open>cpu.h\<close> give the same answers throughout, and the shape of the state (its model, its arrays) never changes.
\<close>

theorem configuration_fixed:
  assumes "reached ticks_handlers intr start r r' \<or> ticks_run counter intr start r = Some r'"
  shows "configuration (cpu r') = configuration (cpu r) \<and> (one_cpu (cpu r) \<longrightarrow> one_cpu (cpu r')) \<and>
    cpu_is m (cpu r') = cpu_is m (cpu r)"
proof -
  have "configuration (cpu r') = configuration (cpu r)"
    using assms config.run.keeps_reached [where k = "configuration (cpu r)", OF _ refl]
      config.run.keeps_run [where k = "configuration (cpu r)", OF _ refl]
    by (auto simp: ticks_run_def)
  then show ?thesis by (simp add: configuration_def one_cpu_def cpu_is_def)
qed

theorem configuration_fixed_witness:
  "c_cpu (cpu (cpu_step ticks_handlers 0 (-1) \<lparr>cpu = power_on CPU_R4K Rabbit, stint = 0, end_pc = 0\<rparr>)) = CPU_R4K"
  using configuration_fixed [where r = "\<lparr>cpu = power_on CPU_R4K Rabbit, stint = 0, end_pc = 0\<rparr>",
      OF disjI1 [OF reached.step [OF reached.initial]]]
  by (simp add: configuration_def power_on_def)

section \<open>Interrupts\<close>

lemma vector_address: "u16 (255 OR shl (uint (r :: 8 word)) 8) = pair16 r 255"
  by (simp add: pair16_def)



section \<open>Hook functions\<close>

text \<open>The carry tells the program of an error.\<close>

definition hook_error :: "cpu \<Rightarrow> bool" where
  "hook_error s \<longleftrightarrow> bit (ff (fl s)) 8"

abbreviation HL :: "cpu \<Rightarrow> int" where
  "HL s \<equiv> uint (pair rH rL s)"

lemma hook_pair_eq: "hook_pair hi lo s = uint (pair hi lo s)"
  using rp_eq [of hi lo s] by (simp add: hook_pair_def rp_def pair_def)

lemma set_error_effect:
  "regs (SET_ERROR e s) = (if e = 0 then regs s else (regs s)(rA := u8 e))" "hook_error (SET_ERROR e s) = (e \<noteq> 0)"
  "host (SET_ERROR e s) = host s" "mem (SET_ERROR e s) = mem s"
proof -
  have "bit (u16 (uint (v :: 16 word) AND -257)) 8 = False" for v
  proof -
    have "\<not> bit (-257 :: int) 8" by (simp add: bit_iff_odd)
    then show ?thesis by (simp add: bit_simps)
  qed
  moreover have "bit (u16 (uint (v :: 16 word) OR 256)) 8" for v
    by (simp add: bit_simps bit_iff_odd [of "256 :: int"])
  ultimately show "hook_error (SET_ERROR e s) = (e \<noteq> 0)"
    by (simp add: SET_ERROR_def hook_error_def set_reg_def)
qed (simp_all add: SET_ERROR_def set_reg_def)

lemma set_lh_effect:
  "regs (set_lh v s) = (regs s)(rL := u8 (v smod 256), rH := u8 (v sdiv 256))" "hook_error (set_lh v s) = hook_error s"
  "host (set_lh v s) = host s" "mem (set_lh v s) = mem s"
  by (simp_all add: set_lh_def set_reg_def hook_error_def fun_upd_twist)

lemma check_fd_effect:
  "io_fd s = -1 \<Longrightarrow> regs (CHECK_FD s) = (regs s)(rA := 2, rH := 255, rL := 255)" "io_fd s \<noteq> -1 \<Longrightarrow> CHECK_FD s = s"
  "host (CHECK_FD s) = host s" "mem (CHECK_FD s) = mem s" "io_fd (CHECK_FD s) = io_fd s"
  by (simp_all add: CHECK_FD_def set_reg_def set_error_effect io_fd_def)

lemma one_split: "(1 :: int) sdiv 256 = 0" "(1 :: int) smod 256 = 1"
  by (simp_all add: signed_divide_int_eq_divide_int signed_modulo_int_eq_modulo_int)

lemma uint_minus1: "uint (-1 :: 8 word) = 255"
  by (simp add: unsigned_minus_1_eq_mask mask_eq_exp_minus_1)

lemmas hook_effects = set_error_effect set_lh_effect check_fd_effect set_reg_def


lemma store_bytes_store:
  "store (mem (store_bytes arr i vs s)) x j =
     (if x = arr \<and> i \<le> j \<and> j < i + length vs then vs ! (j - i) else store (mem s) x j)"
proof (induction arr i vs s rule: store_bytes.induct)
  case (2 arr i v vs s)
  have "store (mem (store_at (Some (arr, i)) v s)) x j = (if x = arr \<and> j = i then v else store (mem s) x j)"
    by (simp add: store_at_def)
  moreover have "(v # vs) ! (j - i) = (if j = i then v else vs ! (j - Suc i))" if "i \<le> j"
    using that by (simp add: nth_Cons')
  ultimately show ?case unfolding store_bytes.simps "2" by auto
qed auto

lemma store_bytes_effect:
  "regs (store_bytes arr i vs s) = regs s" "host (store_bytes arr i vs s) = host s" "fl (store_bytes arr i vs s) = fl s"
  by (induction arr i vs s rule: store_bytes.induct) simp_all

text \<open>
  C33: reading a block puts the bytes the system delivers at DE onwards, as many as asked for at most, and
  nowhere else, and returns their number in HL without the carry; it is the only system call made. (The block must
  end inside the array the start address lies in: the emulator passes the system one pointer, across page
  boundaries too.)
\<close>

theorem read_block_correct:
  assumes "io_fd s \<noteq> -1" "replies (host s) = r # rest" "0 \<le> ret r"
    and "get_memory_addr (uint (pair rD rE s)) MEM_TYPE_INST s = Some (arr, i)"
    and "n = min (unat (pair rH rL s)) (length (payload r))" "i + n \<le> array_size arr"
  shows "let s' = cmd_readblock s in
    (\<forall>k<n. store (mem s') arr (i + k) = payload r ! k) \<and>
    (\<forall>x j. x \<noteq> arr \<or> j < i \<or> i + n \<le> j \<longrightarrow> store (mem s') x j = store (mem s) x j) \<and>
    HL s' = int n \<and> \<not> hook_error s' \<and> stopped (host s') = stopped (host s) \<and>
    calls (host s') = OsRead (io_fd s) (unat (pair rH rL s)) # calls (host s)"
proof -
  let ?bs = "take (unat (pair rH rL s)) (payload r)"
  let ?s1 = "s\<lparr>host := (host s)\<lparr>replies := rest, calls := OsRead (io_fd s) (unat (pair rH rL s)) # calls (host s)\<rparr>\<rparr>"
  have n: "length ?bs = n" using assms(5) by simp
  have n16: "int n < 65536"
  proof -
    have "int (unat (pair rH rL s)) = uint (pair rH rL s)" by simp
    then show ?thesis using assms(5) uint16_bound [of "pair rH rL s"] by linarith
  qed
  have "sys_read (io_fd s) (Some (arr, i)) (nat (uint (pair rH rL s))) s = (int n, errno r, store_bytes arr i ?bs ?s1)"
    using assms n by (simp add: sys_read_def syscall_def Let_def)
  then have e: "cmd_readblock s = set_lh (int n) (SET_ERROR 0 (store_bytes arr i ?bs ?s1))"
    using assms(1,4) by (simp add: cmd_readblock_def check_fd_effect hook_pair_eq)
  let ?s = "cmd_readblock s"
  have m: "store (mem ?s) x j = (if x = arr \<and> i \<le> j \<and> j < i + n then ?bs ! (j - i) else store (mem s) x j)" for x j
    using n by (simp only: e set_lh_effect set_error_effect store_bytes_store) simp
  have "256 * uint (u8 (int n sdiv 256)) + uint (u8 (int n smod 256)) = int n"
  proof -
    have "int n sdiv 256 = int n div 256" "int n smod 256 = int n mod 256"
      by (simp_all add: signed_divide_int_def signed_modulo_int_def sgn_if)
    moreover have "int n div 256 < 256" "0 \<le> int n div 256" using n16 by auto
    ultimately show ?thesis by (simp only: uint_word_of_int) simp
  qed
  moreover have "regs ?s rH = u8 (int n sdiv 256)" "regs ?s rL = u8 (int n smod 256)"
    by (simp_all only: e set_lh_effect fun_upd_apply reg.distinct if_False refl if_True)
  ultimately have "HL ?s = int n" by (simp only: pair_def uint_pair16)
  moreover have "\<not> hook_error ?s" "host ?s = host ?s1"
    by (simp_all only: e set_lh_effect set_error_effect store_bytes_effect simp_thms)
  moreover have "?bs ! k = payload r ! k" if "k < n" for k using that assms(5) by simp
  ultimately show ?thesis by (simp add: Let_def m del: take_eq_Nil)
qed

text \<open>
  C34: opening a file takes the lowest free descriptor, names the path and the flags to the system and returns
  the descriptor in HL; closing that descriptor closes the file and leaves the table as it was before.
\<close>

theorem open_close_roundtrip:
  assumes "find_slot 256 (io_slots (host s)) = Some slot" "replies (host s) = r # rest" "ret r \<noteq> -1"
    and "get_memory_addr (uint (pair rH rL s)) MEM_TYPE_INST s = Some (arr, i)"
    and "c_string (array_size arr - i) (store (mem s) arr) i = Some path"
  shows "let s1 = cmd_openfile s; s2 = cmd_closefile (set_reg rB (regs s1 rL) s1) in
    io_slots (host s) slot = -1 \<and> (\<forall>k < slot. io_slots (host s) k \<noteq> -1) \<and>
    \<not> hook_error s1 \<and> HL s1 = int slot \<and> io_slots (host s1) = (io_slots (host s))(slot := ret r) \<and>
    \<not> hook_error s2 \<and> HL s2 = 0 \<and> io_slots (host s2) = io_slots (host s) \<and>
    calls (host s2) = OsClose (ret r) # OsOpen path (open_flags (uint (pair rD rE s))) # calls (host s)"
proof -
  have slot: "slot < 256" "io_slots (host s) slot = -1" "\<And>k. k < slot \<Longrightarrow> io_slots (host s) k \<noteq> -1"
    using assms(1) by (auto simp: find_slot_def find_Some_iff)
  define s0 where "s0 = set_reg rL 255 (set_reg rH 255 s)"
  define h where "h = (host s)\<lparr>replies := rest, calls := OsOpen path (open_flags (uint (pair rD rE s))) # calls (host s),
    io_slots := (io_slots (host s))(slot := ret r)\<rparr>"
  let ?s1 = "cmd_openfile s"
  have e: "?s1 = SET_ERROR 0 (set_lh (int slot) (s0\<lparr>host := h\<rparr>))"
    using assms by (simp add: cmd_openfile_def hook_pair_eq s0_def syscall_def upd_host_def set_reg_def h_def)
  have q: "int slot sdiv 256 = 0" "int slot smod 256 = int slot"
    using slot(1) by (simp_all add: signed_divide_int_def signed_modulo_int_def sgn_if)
  have r: "regs ?s1 rH = 0" "regs ?s1 rL = u8 (int slot)" "host ?s1 = h" "\<not> hook_error ?s1"
    by (simp_all add: e hook_effects q)
  have u2: "uint (u8 (int slot)) = int slot"
    using slot(1) by (simp only: uint_word_of_int) simp
  then have u1: "unat (u8 (int slot)) = slot" by (metis nat_int unat_eq_nat_uint)
  then have "unat (word_of_nat slot :: 8 word) = slot" by simp
  note u = u1 u2 this
  define s2 where "s2 = set_reg rB (regs ?s1 rL) ?s1"
  have s2: "host s2 = h" "regs s2 rB = u8 (int slot)" "io_fd s2 = ret r"
    by (simp_all only: s2_def set_reg_def io_fd_def) (simp_all add: r u h_def)
  have c: "cmd_closefile s2 = SET_ERROR 0 (set_reg rL 0 (set_reg rH 0
      (upd_host (\<lambda>h. h\<lparr>io_slots := (io_slots h)(slot := -1)\<rparr>) (snd (syscall (OsClose (ret r)) s2)))))"
    using s2 assms(3) u(1) by (simp add: cmd_closefile_def check_fd_effect syscall_def split: list.split)
  have "io_slots (host (cmd_closefile s2)) = io_slots (host s)" "HL (cmd_closefile s2) = 0"
    "\<not> hook_error (cmd_closefile s2)"
    "calls (host (cmd_closefile s2)) = OsClose (ret r) # OsOpen path (open_flags (uint (pair rD rE s))) # calls (host s)"
    using slot(2) by (simp_all add: c hook_effects upd_host_def syscall_def s2(1) h_def pair_def uint_pair16 split: list.split)
      (simp_all add: fun_upd_idem)
  moreover have "HL ?s1 = int slot" by (simp only: pair_def uint_pair16 r u2) simp
  ultimately show ?thesis
    unfolding Let_def s2_def [symmetric] using slot r(3,4) by (simp add: h_def)
qed

lemma poke_put_mem: "flat_ram s \<Longrightarrow> 0 \<le> a \<Longrightarrow> a < 65536 \<Longrightarrow> poke a v s = put_mem (u16 a) (u8 v) s"
  by (simp add: poke_def put_mem_def put_memory_def flat_ram_def uint_word_of_int)

text \<open>
  What the CP/M random read and write leave in the file control block. \<open>set_offset\<close> computes the current
  record, extent and S2 fields of a record number, but it is given the byte position, 128 times that: so for
  the random record \<open>n\<close> the current record is always 0 and the extent and S2 hold \<open>n\<close> modulo 32 and \<open>n\<close> divided
  by 32 (CP/M has \<open>n\<close> modulo 128, \<open>n\<close> / 128 modulo 32 and \<open>n\<close> / 4096 there).
\<close>

lemma random_position:
  fixes s :: cpu and fcb :: int
  defines "n \<equiv> uint (get_memory_data (fcb + 33) s) + 256 * uint (get_memory_data (fcb + 34) s)
      + 65536 * uint (get_memory_data (fcb + 35) s)"
    and "s' \<equiv> set_offset fcb (get_random fcb s) s"
  assumes "flat_ram s" "0 \<le> fcb" "fcb + 35 < 65536" "get_random fcb s \<noteq> -1"
  shows "get_random fcb s = 128 * n \<and> uint (get_memory_data (fcb + 32) s') = 0 \<and>
    uint (get_memory_data (fcb + 12) s') = n mod 32 \<and> uint (get_memory_data (fcb + 14) s') = n div 32 mod 256"
proof -
  let ?r = "\<lambda>k. uint (get_memory_data (fcb + k) s)"
  have g: "get_random fcb s = 128 * n"
  proof -
    have "shl (?r 35) 16 OR shl (?r 34) 8 OR ?r 33 = n"
      using or_shl [of "?r 33" 8 "?r 34"] or_shl [of "?r 33 + 256 * ?r 34" 16 "?r 35"]
        uint8_bound [of "get_memory_data (fcb + 33) s"] uint8_bound [of "get_memory_data (fcb + 34) s"]
      by (simp add: n_def ac_simps)
    then show ?thesis using assms(6) by (simp add: get_random_def Let_def split: if_splits)
  qed
  have n0: "0 \<le> n" using uint8_bound by (simp add: n_def)
  have bits: "(128 * n) AND 127 = 0" "shr (128 * n) 7 AND 31 = n mod 32" "shr (128 * n) 12 = n div 32"
  proof -
    have "take_bit 7 (128 * n) = 0" "take_bit 5 n = n mod 32" by (simp_all add: take_bit_eq_mod)
    then show "(128 * n) AND 127 = 0" "shr (128 * n) 7 AND 31 = n mod 32"
      by (simp_all add: take_bit_eq_mask mask_eq_exp_minus_1 drop_bit_eq_div)
    have "128 * n div 4096 = 128 * n div 128 div 32" by (simp only: zdiv_zmult2_eq [symmetric]) simp
    then show "shr (128 * n) 12 = n div 32" by (simp add: drop_bit_eq_div)
  qed
  have b: "0 \<le> fcb + k" "fcb + k < 65536" "uint (u16 (fcb + k)) = fcb + k" if "0 \<le> k" "k \<le> 35" for k
    using that assms(4,5) by (auto simp del: of_int_add intro: uint_u16)
  define m where "m = put_mem (u16 (fcb + 14)) (u8 (n div 32))
    (put_mem (u16 (fcb + 12)) (u8 (n mod 32)) (put_mem (u16 (fcb + 32)) 0 s))"
  have "s' = m"
    using assms(3) b [of 12] b [of 14] b [of 32]
    by (simp add: s'_def set_offset_def g bits poke_put_mem m_def)
  moreover have "u16 (fcb + 12) \<noteq> u16 (fcb + 14)" "u16 (fcb + 12) \<noteq> u16 (fcb + 32)" "u16 (fcb + 14) \<noteq> u16 (fcb + 32)"
    using b(3) [of 12] b(3) [of 14] b(3) [of 32] by auto
  ultimately have "rd_data (u16 (fcb + 32)) s' = 0 \<and> rd_data (u16 (fcb + 12)) s' = u8 (n mod 32) \<and>
      rd_data (u16 (fcb + 14)) s' = u8 (n div 32)"
    using assms(3) by (simp add: m_def flat.rd_wr_flat)
  moreover have e: "uint (u16 (fcb + 32)) = fcb + 32" "uint (u16 (fcb + 12)) = fcb + 12" "uint (u16 (fcb + 14)) = fcb + 14"
    by (rule b; simp)+
  moreover have "uint (u8 (n mod 32)) = n mod 32" "uint (u8 (n div 32)) = n div 32 mod 256"
    by (simp_all only: uint_word_of_int) simp_all
  ultimately show ?thesis using g by (simp only: e) simp
qed


theorem read_block_correct_witness:
  "let s = (boot CPU_Z80 (\<lambda>_. 0))\<lparr>regs := (\<lambda>_. 0)(rD := 0x80, rL := 4), host := (host (boot CPU_Z80 (\<lambda>_. 0)))
       \<lparr>replies := [\<lparr>ret = 2, aux = 0, errno = E_OK, payload = [17, 18]\<rparr>]\<rparr>\<rparr> in
     store (mem (cmd_readblock s)) Mem 0x8001 = 18 \<and> HL (cmd_readblock s) = 2"
proof -
  let ?s = "(boot CPU_Z80 (\<lambda>_. 0))\<lparr>regs := (\<lambda>_. 0)(rD := 0x80, rL := 4), host := (host (boot CPU_Z80 (\<lambda>_. 0)))
       \<lparr>replies := [\<lparr>ret = 2, aux = 0, errno = E_OK, payload = [17, 18]\<rparr>]\<rparr>\<rparr>"
  have w: "pair rD rE ?s = 0x8000" "pair rH rL ?s = 4" by (simp_all add: pair_def pair16_def)
  have "unat (pair rH rL ?s) = 4" by (simp only: w) simp
  moreover have "get_memory_addr (uint (pair rD rE ?s)) MEM_TYPE_INST ?s = Some (Mem, 0x8000)"
    unfolding w by (simp add: get_memory_addr_def standard_get_memory_addr_def boot_def memory_reset_state_def at_def
        array_size_def and_mask16)
  moreover have "io_fd ?s \<noteq> -1" by (simp add: io_fd_def boot_def power_on_def)
  ultimately have "\<forall>k<2. store (mem (cmd_readblock ?s)) Mem (0x8000 + k) = [17, 18] ! k" "HL (cmd_readblock ?s) = 2"
    using read_block_correct [of ?s "\<lparr>ret = 2, aux = 0, errno = E_OK, payload = [17, 18]\<rparr>" "[]" Mem "0x8000" 2]
    by (simp_all add: Let_def array_size_def)
  then show ?thesis by (simp add: Let_def) (drule spec [of _ 1], simp)
qed

lemma c_string_step:
  "0 < n \<Longrightarrow> c_string n f i = (if f i = 0 then Some [] else map_option ((#) (f i)) (c_string (n - 1) f (Suc i)))"
  by (cases n) simp_all

theorem open_close_roundtrip_witness:
  "let s = (boot CPU_Z80 (\<lambda>i. if i = 0 then 0x61 else 0))\<lparr>host := (host (boot CPU_Z80 (\<lambda>_. 0)))
       \<lparr>replies := [\<lparr>ret = 9, aux = 0, errno = E_OK, payload = []\<rparr>]\<rparr>\<rparr>
     in HL (cmd_openfile s) = 3 \<and> io_slots (host (cmd_openfile s)) 3 = 9"
proof -
  let ?s = "(boot CPU_Z80 (\<lambda>i. if i = 0 then 0x61 else 0))\<lparr>host := (host (boot CPU_Z80 (\<lambda>_. 0)))
       \<lparr>replies := [\<lparr>ret = 9, aux = 0, errno = E_OK, payload = []\<rparr>]\<rparr>\<rparr>"
  have "find_slot 256 (io_slots (host ?s)) = Some 3"
    unfolding find_slot_def find_Some_iff by (rule exI [of _ 3]) (auto simp: boot_def power_on_def)
  moreover have "get_memory_addr (uint (pair rH rL ?s)) MEM_TYPE_INST ?s = Some (Mem, 0)"
    by (simp add: get_memory_addr_def standard_get_memory_addr_def boot_def power_on_def memory_reset_state_def at_def
        array_size_def pair_def pair16_def)
  moreover have "c_string (array_size Mem - 0) (store (mem ?s) Mem) 0 = Some [0x61]"
    by (simp add: c_string_step boot_def array_size_def)
  ultimately show ?thesis
    using open_close_roundtrip [of ?s 3 "\<lparr>ret = 9, aux = 0, errno = E_OK, payload = []\<rparr>" "[]" Mem 0 "[0x61]"]
    by (simp add: Let_def)
qed

end
