(* ===== verification/Ticks_Syms.thy ===== *)
theory Ticks_Syms
  imports Ticks_Prelude
begin

text \<open>
  The symbol table of \<open>syms.c\<close> as the debugger and the disassembler query it: the buckets by address, the
  search for the label of an address, the search below an address, the labels the disassembler adds, and the
  list of sections that tells code from data. Reading the map file (\<open>read_symbol_file\<close>) and the hash table
  by name are not modelled.
\<close>

section \<open>The table\<close>

datatype symboltype = SYM_ANY | SYM_CONST | SYM_ADDRESS

record symbol =
  sym_name :: string
  sym_address :: int          \<comment> \<open>\<open>unsigned int\<close>\<close>
  symtype :: symboltype
  islocal :: bool
  unique :: bool
  name_module :: "string option"   \<comment> \<open>\<open>NULL\<close> for a label of the disassembler\<close>

definition SYM_TAB_SIZE :: int where "SYM_TAB_SIZE = 0x10000"

text \<open>\<open>symbols[]\<close>: a bucket is a linked list in the order of \<open>LL_APPEND\<close>.\<close>

type_synonym symtab = "nat \<Rightarrow> symbol list"

definition bucket :: "symtab \<Rightarrow> int \<Rightarrow> symbol list" where
  "bucket T addr = T (nat (addr mod SYM_TAB_SIZE))"

definition symbol_add_autolabel :: "int \<Rightarrow> string \<Rightarrow> symtab \<Rightarrow> symtab" where
  "symbol_add_autolabel addr label T =
     (let x = \<lparr>sym_name = label, sym_address = addr mod 2 ^ 32, symtype = SYM_ADDRESS, islocal = False,
        unique = True, name_module = None\<rparr>; k = nat (sym_address x mod SYM_TAB_SIZE)
      in T(k := T k @ [x]))"

section \<open>The label of an address\<close>

text \<open>
  One pass over a bucket. The result of a pass is a returned pointer (\<open>Some\<close>, itself perhaps null) or the end
  of the list.
\<close>

fun find_pass :: "bool \<Rightarrow> int \<Rightarrow> symboltype \<Rightarrow> symbol list \<Rightarrow> string option option" where
  "find_pass globalsOnly addr preferred [] = None"
| "find_pass globalsOnly addr preferred (x # rest) =
    (if sym_address x = addr \<and> \<not> (islocal x \<and> globalsOnly) then
       if unique x \<and> (preferred = SYM_ANY \<or> preferred = symtype x) then Some (Some (sym_name x))
       else if \<not> unique x \<and> (globalsOnly \<or> rest \<noteq> []) then find_pass globalsOnly addr preferred rest
       else if preferred = SYM_ANY \<or> preferred = symtype x then Some (name_module x)
       else find_pass globalsOnly addr preferred rest
     else find_pass globalsOnly addr preferred rest)"

definition find_symbol :: "int \<Rightarrow> symboltype \<Rightarrow> symtab \<Rightarrow> string option" where
  "find_symbol addr preferred T =
    (if addr < 0 then None
     else case find_pass True addr preferred (bucket T addr) of Some r \<Rightarrow> r
     | None \<Rightarrow> (case find_pass False addr preferred (bucket T addr) of Some r \<Rightarrow> r | None \<Rightarrow> None))"

section \<open>The label below an address\<close>

text \<open>\<open>while ( (sym = symbols[addr % SYM_TAB_SIZE]) == NULL && addr > 0 ) addr--\<close>\<close>

function skip_empty :: "symtab \<Rightarrow> int \<Rightarrow> int" where
  "skip_empty T addr = (if bucket T addr = [] \<and> 0 < addr then skip_empty T (addr - 1) else addr)"
  by auto

termination
  by (relation "measure (\<lambda>(T, addr). nat addr)") auto

declare skip_empty.simps [simp del]

definition wanted :: "symboltype \<Rightarrow> symbol \<Rightarrow> bool" where
  "wanted preferred x \<longleftrightarrow>
     preferred = SYM_ANY \<or> preferred = symtype x \<and> take 2 (sym_name x) \<noteq> ''i_''"

lemma skip_empty_le: "skip_empty T addr \<le> addr"
proof (induction T addr rule: skip_empty.induct)
  case (1 T addr)
  show ?case
  proof (cases "bucket T addr = [] \<and> 0 < addr")
    case True
    then show ?thesis using 1 by (subst skip_empty.simps) auto
  next
    case False
    then show ?thesis by (subst skip_empty.simps) auto
  qed
qed

function lower_from :: "int \<Rightarrow> symboltype \<Rightarrow> symtab \<Rightarrow> int \<Rightarrow> (symbol \<times> int) option" where
  "lower_from original preferred T addr =
    (if addr < 0 then None
     else case List.find (wanted preferred) (bucket T (skip_empty T addr)) of
         Some x \<Rightarrow> Some (x, (original - skip_empty T addr) mod 2 ^ 16)
       | None \<Rightarrow> lower_from original preferred T (skip_empty T addr - 1))"
  by auto

termination
  by (relation "measure (\<lambda>(original, preferred, T, addr). nat (addr + 1))")
    (use skip_empty_le in \<open>force simp: nat_less_iff\<close>)+

declare lower_from.simps [simp del]

definition symbol_find_lower :: "int \<Rightarrow> symboltype \<Rightarrow> symtab \<Rightarrow> (symbol \<times> int) option" where
  "symbol_find_lower addr preferred T = lower_from addr preferred T addr"

section \<open>Sections\<close>

record sect =
  sec_start :: int
  sec_end :: int
  sec_name :: string

definition lower_char :: "char \<Rightarrow> char" where
  "lower_char c = (if 65 \<le> (of_char c :: nat) \<and> (of_char c :: nat) \<le> 90 then char_of ((of_char c :: nat) + 32) else c)"

definition strcasecmp_eq :: "string \<Rightarrow> string \<Rightarrow> bool" where
  "strcasecmp_eq s t \<longleftrightarrow> List.map lower_char s = List.map lower_char t"

definition strncasecmp_eq :: "nat \<Rightarrow> string \<Rightarrow> string \<Rightarrow> bool" where
  "strncasecmp_eq n s t \<longleftrightarrow> strcasecmp_eq (take n s) (take n t)"

definition code_section_name :: "string \<Rightarrow> bool" where
  "code_section_name s \<longleftrightarrow> strncasecmp_eq 5 s ''code_'' \<or> strncasecmp_eq 4 s ''smc_'' \<or>
     strcasecmp_eq s ''code'' \<or> strcasecmp_eq s ''smc''"

definition address_is_code :: "int \<Rightarrow> sect list \<Rightarrow> bool" where
  "address_is_code addr sections =
    (case List.find (\<lambda>s. sec_start s \<le> addr \<and> addr < sec_end s) sections of
       Some s \<Rightarrow> code_section_name (sec_name s)
     | None \<Rightarrow> True)"

text \<open>The name is \<open>data_auto_%p\<close>, with the address the host allocated.\<close>

definition add_data_section :: "string \<Rightarrow> int \<Rightarrow> int \<Rightarrow> sect list \<Rightarrow> sect list" where
  "add_data_section ptr addr end' sections =
     sections @ [\<lparr>sec_start = addr, sec_end = end', sec_name = ''data_auto_'' @ ptr\<rparr>]"

section \<open>What the searches find\<close>

definition label_of :: "int \<Rightarrow> symboltype \<Rightarrow> symbol \<Rightarrow> bool" where
  "label_of addr preferred x \<longleftrightarrow> sym_address x = addr \<and> (preferred = SYM_ANY \<or> preferred = symtype x)"

lemma find_pass_sound:
  "find_pass g addr preferred xs = Some r \<Longrightarrow>
    \<exists>x\<in>set xs. label_of addr preferred x \<and> (r = Some (sym_name x) \<or> \<not> unique x \<and> r = name_module x)"
  by (induction g addr preferred xs rule: find_pass.induct) (auto simp: label_of_def split: if_splits)

lemma find_pass_global:
  "find_pass True addr preferred xs =
    map_option (\<lambda>x. Some (sym_name x)) (List.find (\<lambda>x. label_of addr preferred x \<and> \<not> islocal x \<and> unique x) xs)"
  by (induction xs) (auto simp: label_of_def)

lemma find_symbol_sound:
  assumes "find_symbol addr preferred T = Some n"
  shows "\<exists>x\<in>set (bucket T addr). label_of addr preferred x \<and> (n = sym_name x \<or> name_module x = Some n)"
  using assms
  by (auto simp: find_symbol_def split: if_splits option.splits dest!: find_pass_sound)

lemma find_symbol_global:
  assumes "x \<in> set (bucket T addr)" "label_of addr preferred x" "\<not> islocal x" "unique x" "0 \<le> addr"
  shows "find_symbol addr preferred T \<noteq> None"
proof -
  have "List.find (\<lambda>x. label_of addr preferred x \<and> \<not> islocal x \<and> unique x) (bucket T addr) \<noteq> None"
    using assms by (auto simp: find_None_iff)
  then show ?thesis
    using assms by (auto simp: find_symbol_def find_pass_global)
qed

lemma find_append: "List.find P (xs @ ys) = (case List.find P xs of None \<Rightarrow> List.find P ys | Some x \<Rightarrow> Some x)"
  by (induction xs) auto

lemma find_symbol_add_autolabel:
  assumes "find_symbol addr SYM_ADDRESS T = None" "0 \<le> addr" "addr < 2 ^ 31"
  shows "find_symbol addr SYM_ADDRESS (symbol_add_autolabel addr label T) = Some label"
proof -
  have "List.find (\<lambda>x. label_of addr SYM_ADDRESS x \<and> \<not> islocal x \<and> unique x) (bucket T addr) = None"
    using assms by (auto simp: find_symbol_def find_pass_global split: option.splits)
  then show ?thesis
    using assms by (simp add: find_symbol_def find_pass_global symbol_add_autolabel_def bucket_def find_append
        label_of_def Let_def)
qed

lemma skip_empty_spec:
  "(0 \<le> addr \<longrightarrow> 0 \<le> skip_empty T addr) \<and> (\<forall>j. skip_empty T addr < j \<and> j \<le> addr \<longrightarrow> bucket T j = [])"
proof (induction T addr rule: skip_empty.induct)
  case (1 T addr)
  show ?case
  proof (cases "bucket T addr = [] \<and> 0 < addr")
    case True
    have e: "skip_empty T addr = skip_empty T (addr - 1)"
      using True by (subst skip_empty.simps) simp
    have "bucket T j = []" if "skip_empty T addr < j" "j \<le> addr" for j
    proof (cases "j = addr")
      case False
      then show ?thesis using 1 [OF True] that e by auto
    qed (use True in simp)
    then show ?thesis using 1 [OF True] True e by auto
  next
    case False
    then have "skip_empty T addr = addr" by (subst skip_empty.simps) auto
    then show ?thesis by auto
  qed
qed

text \<open>The search below an address finds the nearest bucket with a wanted symbol.\<close>

lemma lower_from_nearest:
  "lower_from original preferred T addr = Some (x, n) \<Longrightarrow>
    \<exists>k. 0 \<le> k \<and> k \<le> addr \<and> x \<in> set (bucket T k) \<and> wanted preferred x \<and> n = (original - k) mod 2 ^ 16 \<and>
      (\<forall>j. k < j \<and> j \<le> addr \<longrightarrow> List.find (wanted preferred) (bucket T j) = None)"
proof (induction original preferred T addr rule: lower_from.induct)
  case (1 original preferred T addr)
  let ?k = "skip_empty T addr"
  have nn: "\<not> addr < 0"
    using 1(2) by (subst (asm) lower_from.simps) (auto split: if_splits)
  note sk = skip_empty_spec [of addr T] skip_empty_le [of T addr]
  show ?case
  proof (cases "List.find (wanted preferred) (bucket T ?k)")
    case None
    have "lower_from original preferred T (?k - 1) = Some (x, n)"
      using 1(2) nn None by (subst (asm) lower_from.simps) simp
    from 1(1) [OF nn None this] obtain k where k: "0 \<le> k" "k \<le> ?k - 1" "x \<in> set (bucket T k)" "wanted preferred x"
      "n = (original - k) mod 2 ^ 16" "\<And>j. k < j \<Longrightarrow> j \<le> ?k - 1 \<Longrightarrow> List.find (wanted preferred) (bucket T j) = None"
      by blast
    have "List.find (wanted preferred) (bucket T j) = None" if "k < j" "j \<le> addr" for j
    proof -
      consider "j \<le> ?k - 1" | "j = ?k" | "?k < j" by linarith
      then show ?thesis by cases (use k that None sk in auto)
    qed
    then show ?thesis using k sk by (intro exI [of _ k]) auto
  next
    case (Some y)
    then have "x = y \<and> n = (original - ?k) mod 2 ^ 16"
      using 1(2) nn by (subst (asm) lower_from.simps) simp
    moreover have "y \<in> set (bucket T ?k)" "wanted preferred y"
      using Some by (auto simp: find_Some_iff)
    ultimately show ?thesis
      using sk nn by (intro exI [of _ ?k]) auto
  qed
qed

lemma lower_from_complete:
  "lower_from original preferred T addr = None \<Longrightarrow> 0 \<le> k \<Longrightarrow> k \<le> addr \<Longrightarrow> List.find (wanted preferred) (bucket T k) = None"
proof (induction original preferred T addr rule: lower_from.induct)
  case (1 original preferred T addr)
  let ?k = "skip_empty T addr"
  note sk = skip_empty_spec [of addr T]
  have nn: "\<not> addr < 0" using 1(3,4) by simp
  have none: "List.find (wanted preferred) (bucket T ?k) = None"
    using 1(2) nn by (subst (asm) lower_from.simps) (auto split: option.splits)
  have rest: "lower_from original preferred T (?k - 1) = None"
    using 1(2) nn none by (subst (asm) lower_from.simps) simp
  consider "k \<le> ?k - 1" | "k = ?k" | "?k < k" by linarith
  then show ?case
    by cases (use 1(1) [OF nn none rest 1(3)] none sk 1(4) in auto)
qed


text \<open>A local label before a global one in the same bucket: the global one is found.\<close>

definition main_label :: symbol where
  "main_label = \<lparr>sym_name = ''main'', sym_address = 0x8000, symtype = SYM_ADDRESS, islocal = False, unique = True,
     name_module = None\<rparr>"

definition loop_label :: symbol where
  "loop_label = \<lparr>sym_name = ''loop'', sym_address = 0x8000, symtype = SYM_ADDRESS, islocal = True, unique = True,
     name_module = None\<rparr>"


text \<open>\<open>symbol_find_lower\<close> returns a wanted symbol of the nearest bucket at or below the address with the 16-bit
  distance from that bucket, and nothing only if no bucket at or below the address holds a wanted symbol.\<close>

lemma symbol_find_lower_nearest:
  "case symbol_find_lower addr preferred T of
    Some (x, n) \<Rightarrow> \<exists>k. 0 \<le> k \<and> k \<le> addr \<and> x \<in> set (bucket T k) \<and> wanted preferred x \<and> n = (addr - k) mod 2 ^ 16 \<and>
      (\<forall>j. k < j \<and> j \<le> addr \<longrightarrow> List.find (wanted preferred) (bucket T j) = None)
  | None \<Rightarrow> \<forall>k. 0 \<le> k \<and> k \<le> addr \<longrightarrow> List.find (wanted preferred) (bucket T k) = None"
proof (cases "symbol_find_lower addr preferred T")
  case None
  then show ?thesis using lower_from_complete [of addr preferred T addr] by (auto simp: symbol_find_lower_def)
next
  case (Some y)
  then show ?thesis using lower_from_nearest [of addr preferred T addr "fst y" "snd y"]
    by (cases y) (auto simp: symbol_find_lower_def)
qed

text \<open>A function at 8000h, looked up from 8005h: distance 5.\<close>

end
