(* ===== verification/Ticks_Rsthelper.thy ===== *)
theory Ticks_Rsthelper
  imports Ticks_Prelude
begin

text \<open>
  The tables of \<open>rsthelper.h\<close>: what follows an \<open>RST\<close> in the ROM calls of the Z88, the ZX Spectrum, the SAM
  Coupe and the ZX81. An entry is found by the \<open>RST\<close> opcode and the bytes after it. The closing entry of
  length -1 is the end of the list.
\<close>

definition F_SEQUENCE :: int where "F_SEQUENCE = 1"
definition F_END :: int where "F_END = 2"
definition F_LEN67 :: int where "F_LEN67 = 4"
definition F_BYTE :: int where "F_BYTE = 8"
definition F_WORD :: int where "F_WORD = 16"
definition F_5BYTES :: int where "F_5BYTES = 32"
definition F_nBYTES :: int where "F_nBYTES = 64"

lemmas rst_flags =
  F_SEQUENCE_def F_END_def F_LEN67_def F_BYTE_def F_WORD_def F_5BYTES_def F_nBYTES_def

record rsthelper =
  h_rst :: int
  h_flags :: int
  h_length :: nat
  h_bytes :: "int list"
  h_opcode :: "string option"
  h_api :: string

definition rst_entry :: "int \<Rightarrow> int \<Rightarrow> nat \<Rightarrow> int list \<Rightarrow> string option \<Rightarrow> string \<Rightarrow> rsthelper" where
  "rst_entry r f n bs op api =
     \<lparr>h_rst = r, h_flags = f, h_length = n, h_bytes = bs, h_opcode = op, h_api = api\<rparr>"

text \<open>The array \<open>bytes\<close> has ten elements, those the initialiser leaves out are zero.\<close>

definition h_byte :: "rsthelper \<Rightarrow> nat \<Rightarrow> int" where
  "h_byte h i = (if i < length (h_bytes h) then h_bytes h ! i else 0)"

definition prime :: "string \<Rightarrow> string" where
  "prime s = s @ [CHR 0x27]"

section \<open>z88_helpers\<close>

definition z88_helpers_1 :: "rsthelper list" where
  "z88_helpers_1 = [
    rst_entry 0xdf 0 1 [0x21] (Some ''fpp'') ''FP_AND'',
    rst_entry 0xdf 0 1 [0x24] (Some ''fpp'') ''FP_IDV'',
    rst_entry 0xdf 0 1 [0x27] (Some ''fpp'') ''FP_EOR'',
    rst_entry 0xdf 0 1 [0x2a] (Some ''fpp'') ''FP_MOD'',
    rst_entry 0xdf 0 1 [0x2d] (Some ''fpp'') ''FP_OR'',
    rst_entry 0xdf 0 1 [0x30] (Some ''fpp'') ''FP_ELQ'',
    rst_entry 0xdf 0 1 [0x33] (Some ''fpp'') ''FP_NEQ'',
    rst_entry 0xdf 0 1 [0x36] (Some ''fpp'') ''FP_GEQ'',
    rst_entry 0xdf 0 1 [0x39] (Some ''fpp'') ''FP_LT'',
    rst_entry 0xdf 0 1 [0x3c] (Some ''fpp'') ''FP_EQ'',
    rst_entry 0xdf 0 1 [0x3f] (Some ''fpp'') ''FP_MUL'',
    rst_entry 0xdf 0 1 [0x42] (Some ''fpp'') ''FP_ADD'',
    rst_entry 0xdf 0 1 [0x45] (Some ''fpp'') ''FP_GT'',
    rst_entry 0xdf 0 1 [0x48] (Some ''fpp'') ''FP_SUB'',
    rst_entry 0xdf 0 1 [0x4b] (Some ''fpp'') ''FP_PWR'',
    rst_entry 0xdf 0 1 [0x4e] (Some ''fpp'') ''FP_DIV'',
    rst_entry 0xdf 0 1 [0x51] (Some ''fpp'') ''FP_ABS'',
    rst_entry 0xdf 0 1 [0x54] (Some ''fpp'') ''FP_ACS'',
    rst_entry 0xdf 0 1 [0x57] (Some ''fpp'') ''FP_ASN'',
    rst_entry 0xdf 0 1 [0x5a] (Some ''fpp'') ''FP_ATN'',
    rst_entry 0xdf 0 1 [0x5d] (Some ''fpp'') ''FP_COS'',
    rst_entry 0xdf 0 1 [0x60] (Some ''fpp'') ''FP_DEG'',
    rst_entry 0xdf 0 1 [0x63] (Some ''fpp'') ''FP_EXP'',
    rst_entry 0xdf 0 1 [0x66] (Some ''fpp'') ''FP_INT'',
    rst_entry 0xdf 0 1 [0x6c] (Some ''fpp'') ''FP_LOG'',
    rst_entry 0xdf 0 1 [0x6f] (Some ''fpp'') ''FP_NOT'',
    rst_entry 0xdf 0 1 [0x72] (Some ''fpp'') ''FP_RAD'',
    rst_entry 0xdf 0 1 [0x75] (Some ''fpp'') ''FP_SGN'',
    rst_entry 0xdf 0 1 [0x78] (Some ''fpp'') ''FP_SIN'',
    rst_entry 0xdf 0 1 [0x7b] (Some ''fpp'') ''FP_SQR'',
    rst_entry 0xdf 0 1 [0x7e] (Some ''fpp'') ''FP_TAN'',
    rst_entry 0xdf 0 1 [0x81] (Some ''fpp'') ''FP_ZER'',
    rst_entry 0xdf 0 1 [0x84] (Some ''fpp'') ''FP_ONE'',
    rst_entry 0xdf 0 1 [0x87] (Some ''fpp'') ''FP_TRU'',
    rst_entry 0xdf 0 1 [0x8a] (Some ''fpp'') ''FP_PI'',
    rst_entry 0xdf 0 1 [0x8d] (Some ''fpp'') ''FP_VAL'',
    rst_entry 0xdf 0 1 [0x90] (Some ''fpp'') ''FP_STR'',
    rst_entry 0xdf 0 1 [0x93] (Some ''fpp'') ''FP_FIX'',
    rst_entry 0xdf 0 1 [0x96] (Some ''fpp'') ''FP_FLT'',
    rst_entry 0xdf 0 1 [0x9c] (Some ''fpp'') ''FP_CMP'',
    rst_entry 0xdf 0 1 [0x9f] (Some ''fpp'') ''FP_NEG'',
    rst_entry 0xdf 0 1 [0xa2] (Some ''fpp'') ''FP_BAS'',
    rst_entry 0xe7 0 1 [0x21] (Some ''call_oz'') ''OS_BYE'',
    rst_entry 0xe7 0 1 [0x24] (Some ''call_oz'') ''OS_PRT'',
    rst_entry 0xe7 0 1 [0x27] (Some ''call_oz'') ''OS_OUT'',
    rst_entry 0xe7 0 1 [0x2a] (Some ''call_oz'') ''OS_IN'',
    rst_entry 0xe7 0 1 [0x2d] (Some ''call_oz'') ''OS_TIN'',
    rst_entry 0xe7 0 1 [0x30] (Some ''call_oz'') ''OS_XIN'',
    rst_entry 0xe7 0 1 [0x33] (Some ''call_oz'') ''OS_PUR'',
    rst_entry 0xe7 0 1 [0x36] (Some ''call_oz'') ''OS_UGB'',
    rst_entry 0xe7 0 1 [0x39] (Some ''call_oz'') ''OS_GB'',
    rst_entry 0xe7 0 1 [0x3c] (Some ''call_oz'') ''OS_PB'',
    rst_entry 0xe7 0 1 [0x3f] (Some ''call_oz'') ''OS_GBT'',
    rst_entry 0xe7 0 1 [0x42] (Some ''call_oz'') ''OS_PBT'',
    rst_entry 0xe7 0 1 [0x45] (Some ''call_oz'') ''OS_MV'',
    rst_entry 0xe7 0 1 [0x48] (Some ''call_oz'') ''OS_FRM'',
    rst_entry 0xe7 0 1 [0x4b] (Some ''call_oz'') ''OS_FWM'',
    rst_entry 0xe7 0 1 [0x4e] (Some ''call_oz'') ''OS_MOP'',
    rst_entry 0xe7 0 1 [0x51] (Some ''call_oz'') ''OS_MCL'',
    rst_entry 0xe7 0 1 [0x54] (Some ''call_oz'') ''OS_MAL'',
    rst_entry 0xe7 0 1 [0x57] (Some ''call_oz'') ''OS_MFR'',
    rst_entry 0xe7 0 1 [0x5a] (Some ''call_oz'') ''OS_MGB'',
    rst_entry 0xe7 0 1 [0x5d] (Some ''call_oz'') ''OS_MPB'',
    rst_entry 0xe7 0 1 [0x60] (Some ''call_oz'') ''OS_BIX'',
    rst_entry 0xe7 0 1 [0x63] (Some ''call_oz'') ''OS_BOX'',
    rst_entry 0xe7 0 1 [0x66] (Some ''call_oz'') ''OS_NQ'',
    rst_entry 0xe7 0 1 [0x69] (Some ''call_oz'') ''OS_SP'',
    rst_entry 0xe7 0 1 [0x6c] (Some ''call_oz'') ''OS_SR'',
    rst_entry 0xe7 0 1 [0x6f] (Some ''call_oz'') ''OS_ESC'',
    rst_entry 0xe7 0 1 [0x72] (Some ''call_oz'') ''OS_ERC'',
    rst_entry 0xe7 0 1 [0x75] (Some ''call_oz'') ''OS_ERH'',
    rst_entry 0xe7 0 1 [0x78] (Some ''call_oz'') ''OS_UST'',
    rst_entry 0xe7 0 1 [0x7b] (Some ''call_oz'') ''OS_FN'',
    rst_entry 0xe7 0 1 [0x7e] (Some ''call_oz'') ''OS_WAIT'',
    rst_entry 0xe7 0 1 [0x81] (Some ''call_oz'') ''OS_ALM'',
    rst_entry 0xe7 0 1 [0x84] (Some ''call_oz'') ''OS_CLI'',
    rst_entry 0xe7 0 1 [0x87] (Some ''call_oz'') ''OS_DOR'',
    rst_entry 0xe7 0 1 [0x8a] (Some ''call_oz'') ''OS_FC'',
    rst_entry 0xe7 0 1 [0x8d] (Some ''call_oz'') ''OS_SI'',
    rst_entry 0xe7 0 1 [0x90] (Some ''call_oz'') ''OS_BOUT'',
    rst_entry 0xe7 0 1 [0x93] (Some ''call_oz'') ''OS_POUT'',
    rst_entry 0xe7 0 1 [0x96] (Some ''call_oz'') ''OS_HOUT'',
    rst_entry 0xe7 0 1 [0x99] (Some ''call_oz'') ''OS_SOUT'',
    rst_entry 0xe7 0 1 [0x9c] (Some ''call_oz'') ''OS_KIN'',
    rst_entry 0xe7 0 1 [0x9f] (Some ''call_oz'') ''OS_NLN'',
    rst_entry 0xe7 0 2 [0x06, 0xba] (Some ''call_oz'') ''OS_FDP'',
    rst_entry 0xe7 0 2 [0x06, 0xbc] (Some ''call_oz'') ''OS_WTS'',
    rst_entry 0xe7 0 2 [0x06, 0xc0] (Some ''call_oz'') ''OS_FXM'',
    rst_entry 0xe7 0 2 [0x06, 0xc2] (Some ''call_oz'') ''OS_AXM'',
    rst_entry 0xe7 0 2 [0x06, 0xc4] (Some ''call_oz'') ''OS_FMA'',
    rst_entry 0xe7 0 2 [0x06, 0xc6] (Some ''call_oz'') ''OS_PLOZ'',
    rst_entry 0xe7 0 2 [0x06, 0xc8] (Some ''call_oz'') ''OS_FEP'',
    rst_entry 0xe7 0 2 [0x06, 0xca] (Some ''call_oz'') ''OS_WTB'',
    rst_entry 0xe7 0 2 [0x06, 0xcc] (Some ''call_oz'') ''OS_WRT'',
    rst_entry 0xe7 0 2 [0x06, 0xce] (Some ''call_oz'') ''OS_WWQ'',
    rst_entry 0xe7 0 2 [0x06, 0xd0] (Some ''call_oz'') ''OS_ISQ'',
    rst_entry 0xe7 0 2 [0x06, 0xd2] (Some ''call_oz'') ''OS_AXP'',
    rst_entry 0xe7 0 2 [0x06, 0xd4] (Some ''call_oz'') ''OS_SCI'',
    rst_entry 0xe7 0 2 [0x06, 0xd6] (Some ''call_oz'') ''OS_DLY'',
    rst_entry 0xe7 0 2 [0x06, 0xd8] (Some ''call_oz'') ''OS_BLP'',
    rst_entry 0xe7 0 2 [0x06, 0xda] (Some ''call_oz'') ''OS_BDE'',
    rst_entry 0xe7 0 2 [0x06, 0xdc] (Some ''call_oz'') ''OS_BHL'',
    rst_entry 0xe7 0 2 [0x06, 0xde] (Some ''call_oz'') ''OS_FTH'']"

definition z88_helpers_2 :: "rsthelper list" where
  "z88_helpers_2 = [
    rst_entry 0xe7 0 2 [0x06, 0xe0] (Some ''call_oz'') ''OS_VTH'',
    rst_entry 0xe7 0 2 [0x06, 0xe2] (Some ''call_oz'') ''OS_GTH'',
    rst_entry 0xe7 0 2 [0x06, 0xe4] (Some ''call_oz'') ''OS_REN'',
    rst_entry 0xe7 0 2 [0x06, 0xe6] (Some ''call_oz'') ''OS_DEL'',
    rst_entry 0xe7 0 2 [0x06, 0xe8] (Some ''call_oz'') ''OS_CL'',
    rst_entry 0xe7 0 2 [0x06, 0xea] (Some ''call_oz'') ''OS_OP'',
    rst_entry 0xe7 0 2 [0x06, 0xec] (Some ''call_oz'') ''OS_OFF'',
    rst_entry 0xe7 0 2 [0x06, 0xee] (Some ''call_oz'') ''OS_USE'',
    rst_entry 0xe7 0 2 [0x06, 0xf0] (Some ''call_oz'') ''OS_EPR'',
    rst_entry 0xe7 0 2 [0x06, 0xf2] (Some ''call_oz'') ''OS_TH'',
    rst_entry 0xe7 0 2 [0x06, 0xf4] (Some ''call_oz'') ''OS_MAP'',
    rst_entry 0xe7 0 2 [0x06, 0xf6] (Some ''call_oz'') ''OS_EXIT'',
    rst_entry 0xe7 0 2 [0x06, 0xf8] (Some ''call_oz'') ''OS_STK'',
    rst_entry 0xe7 0 2 [0x06, 0xfc] (Some ''call_oz'') ''OS_POLL'',
    rst_entry 0xe7 0 2 [0x06, 0xfe] (Some ''call_oz'') ''OS_DOM'',
    rst_entry 0xe7 0 2 [0x09, 0x06] (Some ''call_oz'') ''GN_GDT'',
    rst_entry 0xe7 0 2 [0x09, 0x08] (Some ''call_oz'') ''GN_PDT'',
    rst_entry 0xe7 0 2 [0x09, 0x0a] (Some ''call_oz'') ''GN_GTM'',
    rst_entry 0xe7 0 2 [0x09, 0x0c] (Some ''call_oz'') ''GN_PTM'',
    rst_entry 0xe7 0 2 [0x09, 0x0e] (Some ''call_oz'') ''GN_SDO'',
    rst_entry 0xe7 0 2 [0x09, 0x10] (Some ''call_oz'') ''GN_GDN'',
    rst_entry 0xe7 0 2 [0x09, 0x12] (Some ''call_oz'') ''GN_PDN'',
    rst_entry 0xe7 0 2 [0x09, 0x14] (Some ''call_oz'') ''GN_DIE'',
    rst_entry 0xe7 0 2 [0x09, 0x16] (Some ''call_oz'') ''GN_DEI'',
    rst_entry 0xe7 0 2 [0x09, 0x18] (Some ''call_oz'') ''GN_GMD'',
    rst_entry 0xe7 0 2 [0x09, 0x1a] (Some ''call_oz'') ''GN_GMT'',
    rst_entry 0xe7 0 2 [0x09, 0x1c] (Some ''call_oz'') ''GN_PMD'',
    rst_entry 0xe7 0 2 [0x09, 0x1e] (Some ''call_oz'') ''GN_PMT'',
    rst_entry 0xe7 0 2 [0x09, 0x20] (Some ''call_oz'') ''GN_MSC'',
    rst_entry 0xe7 0 2 [0x09, 0x22] (Some ''call_oz'') ''GN_FLO'',
    rst_entry 0xe7 0 2 [0x09, 0x24] (Some ''call_oz'') ''GN_FLC'',
    rst_entry 0xe7 0 2 [0x09, 0x26] (Some ''call_oz'') ''GN_FLW'',
    rst_entry 0xe7 0 2 [0x09, 0x28] (Some ''call_oz'') ''GN_FLR'',
    rst_entry 0xe7 0 2 [0x09, 0x2a] (Some ''call_oz'') ''GN_FLF'',
    rst_entry 0xe7 0 2 [0x09, 0x2c] (Some ''call_oz'') ''GN_FPB'',
    rst_entry 0xe7 0 2 [0x09, 0x2e] (Some ''call_oz'') ''GN_NLN'',
    rst_entry 0xe7 0 2 [0x09, 0x30] (Some ''call_oz'') ''GN_CLS'',
    rst_entry 0xe7 0 2 [0x09, 0x32] (Some ''call_oz'') ''GN_SKC'',
    rst_entry 0xe7 0 2 [0x09, 0x34] (Some ''call_oz'') ''GN_SKD'',
    rst_entry 0xe7 0 2 [0x09, 0x36] (Some ''call_oz'') ''GN_SKT'',
    rst_entry 0xe7 0 2 [0x09, 0x38] (Some ''call_oz'') ''GN_SIP'',
    rst_entry 0xe7 0 2 [0x09, 0x3a] (Some ''call_oz'') ''GN_SOP'',
    rst_entry 0xe7 0 2 [0x09, 0x3c] (Some ''call_oz'') ''GN_SOE'',
    rst_entry 0xe7 0 2 [0x09, 0x3e] (Some ''call_oz'') ''GN_RBE'',
    rst_entry 0xe7 0 2 [0x09, 0x40] (Some ''call_oz'') ''GN_WBE'',
    rst_entry 0xe7 0 2 [0x09, 0x42] (Some ''call_oz'') ''GN_CME'',
    rst_entry 0xe7 0 2 [0x09, 0x44] (Some ''call_oz'') ''GN_XNX'',
    rst_entry 0xe7 0 2 [0x09, 0x46] (Some ''call_oz'') ''GN_XIN'',
    rst_entry 0xe7 0 2 [0x09, 0x48] (Some ''call_oz'') ''GN_XDL'',
    rst_entry 0xe7 0 2 [0x09, 0x4a] (Some ''call_oz'') ''GN_ERR'',
    rst_entry 0xe7 0 2 [0x09, 0x4c] (Some ''call_oz'') ''GN_ESP'',
    rst_entry 0xe7 0 2 [0x09, 0x4e] (Some ''call_oz'') ''GN_FCM'',
    rst_entry 0xe7 0 2 [0x09, 0x50] (Some ''call_oz'') ''GN_FEX'',
    rst_entry 0xe7 0 2 [0x09, 0x52] (Some ''call_oz'') ''GN_OPW'',
    rst_entry 0xe7 0 2 [0x09, 0x54] (Some ''call_oz'') ''GN_WCL'',
    rst_entry 0xe7 0 2 [0x09, 0x56] (Some ''call_oz'') ''GN_WFN'',
    rst_entry 0xe7 0 2 [0x09, 0x58] (Some ''call_oz'') ''GN_PRS'',
    rst_entry 0xe7 0 2 [0x09, 0x5a] (Some ''call_oz'') ''GN_PFS'',
    rst_entry 0xe7 0 2 [0x09, 0x5c] (Some ''call_oz'') ''GN_WSM'',
    rst_entry 0xe7 0 2 [0x09, 0x5e] (Some ''call_oz'') ''GN_ESA'',
    rst_entry 0xe7 0 2 [0x09, 0x60] (Some ''call_oz'') ''GN_OPF'',
    rst_entry 0xe7 0 2 [0x09, 0x62] (Some ''call_oz'') ''GN_CL'',
    rst_entry 0xe7 0 2 [0x09, 0x64] (Some ''call_oz'') ''GN_DEL'',
    rst_entry 0xe7 0 2 [0x09, 0x66] (Some ''call_oz'') ''GN_REN'',
    rst_entry 0xe7 0 2 [0x09, 0x68] (Some ''call_oz'') ''GN_AAB'',
    rst_entry 0xe7 0 2 [0x09, 0x6a] (Some ''call_oz'') ''GN_FAB'',
    rst_entry 0xe7 0 2 [0x09, 0x6c] (Some ''call_oz'') ''GN_LAB'',
    rst_entry 0xe7 0 2 [0x09, 0x6e] (Some ''call_oz'') ''GN_UAB'',
    rst_entry 0xe7 0 2 [0x09, 0x70] (Some ''call_oz'') ''GN_ALP'',
    rst_entry 0xe7 0 2 [0x09, 0x72] (Some ''call_oz'') ''GN_M16'',
    rst_entry 0xe7 0 2 [0x09, 0x74] (Some ''call_oz'') ''GN_D16'',
    rst_entry 0xe7 0 2 [0x09, 0x76] (Some ''call_oz'') ''GN_M24'',
    rst_entry 0xe7 0 2 [0x09, 0x78] (Some ''call_oz'') ''GN_D24'',
    rst_entry 0xe7 0 2 [0x09, 0x7a] (Some ''call_oz'') ''GN_WIN'',
    rst_entry 0xe7 0 2 [0x09, 0x7c] (Some ''call_oz'') ''GN_CRC'',
    rst_entry 0xe7 0 2 [0x09, 0x7e] (Some ''call_oz'') ''GN_GAB'',
    rst_entry 0xe7 0 2 [0x09, 0x80] (Some ''call_oz'') ''GN_LDM'',
    rst_entry 0xe7 0 2 [0x09, 0x82] (Some ''call_oz'') ''GN_ELF'',
    rst_entry 0xe7 0 2 [0x09, 0x84] (Some ''call_oz'') ''GN_GHN'',
    rst_entry 0xe7 0 2 [0x09, 0x86] (Some ''call_oz'') ''GN_PHN'',
    rst_entry 0xe7 0 2 [0x09, 0x88] (Some ''call_oz'') ''GN_DIR'',
    rst_entry 0xe7 0 2 [0x09, 0x8a] (Some ''call_oz'') ''GN_MOV'',
    rst_entry 0xe7 0 2 [0x09, 0x8c] (Some ''call_oz'') ''GN_CPY'',
    rst_entry 0xe7 0 2 [0x09, 0x8e] (Some ''call_oz'') ''GN_LUT'',
    rst_entry 0xe7 0 2 [0x0c, 0x06] (Some ''call_oz'') ''DC_INI'',
    rst_entry 0xe7 0 2 [0x0c, 0x08] (Some ''call_oz'') ''DC_BYE'',
    rst_entry 0xe7 0 2 [0x0c, 0x0a] (Some ''call_oz'') ''DC_ENT'',
    rst_entry 0xe7 0 2 [0x0c, 0x0c] (Some ''call_oz'') ''DC_NAM'',
    rst_entry 0xe7 0 2 [0x0c, 0x0e] (Some ''call_oz'') ''DC_IN'',
    rst_entry 0xe7 0 2 [0x0c, 0x10] (Some ''call_oz'') ''DC_OUT'',
    rst_entry 0xe7 0 2 [0x0c, 0x12] (Some ''call_oz'') ''DC_PRT'',
    rst_entry 0xe7 0 2 [0x0c, 0x14] (Some ''call_oz'') ''DC_ICL'',
    rst_entry 0xe7 0 2 [0x0c, 0x16] (Some ''call_oz'') ''DC_NQ'',
    rst_entry 0xe7 0 2 [0x0c, 0x18] (Some ''call_oz'') ''DC_SP'',
    rst_entry 0xe7 0 2 [0x0c, 0x1a] (Some ''call_oz'') ''DC_ALT'',
    rst_entry 0xe7 0 2 [0x0c, 0x1c] (Some ''call_oz'') ''DC_RBD'',
    rst_entry 0xe7 0 2 [0x0c, 0x1e] (Some ''call_oz'') ''DC_XIN'',
    rst_entry 0xe7 0 2 [0x0c, 0x20] (Some ''call_oz'') ''DC_GEN'',
    rst_entry 0xe7 0 2 [0x0c, 0x22] (Some ''call_oz'') ''DC_POL'',
    rst_entry 0xe7 0 2 [0x0c, 0x24] (Some ''call_oz'') ''DC_UPD'',
    rst_entry 0xe7 0 2 [0x0c, 0x26] (Some ''call_oz'') ''DC_ELF'',
    rst_entry 0xe7 0 2 [0x0c, 0x28] (Some ''call_oz'') ''DC_RTE'']"

definition z88_helpers :: "rsthelper list" where
  "z88_helpers = z88_helpers_1 @ z88_helpers_2"

section \<open>zx_helpers\<close>

definition zx_helpers_1 :: "rsthelper list" where
  "zx_helpers_1 = [
    rst_entry 0xcf 0 1 [0xff] None ''Ok'',
    rst_entry 0xcf 0 1 [0x00] None ''NEXT without FOR'',
    rst_entry 0xcf 0 1 [0x01] None ''Variable not found'',
    rst_entry 0xcf 0 1 [0x02] None ''Subscript wrong'',
    rst_entry 0xcf 0 1 [0x03] None ''Out of memory'',
    rst_entry 0xcf 0 1 [0x04] None ''Out of screen'',
    rst_entry 0xcf 0 1 [0x05] None ''Number too big'',
    rst_entry 0xcf 0 1 [0x06] None ''RETURN without GOSUB'',
    rst_entry 0xcf 0 1 [0x07] None ''End of file'',
    rst_entry 0xcf 0 1 [0x08] None ''STOP statement'',
    rst_entry 0xcf 0 1 [0x09] None ''Invalid argument'',
    rst_entry 0xcf 0 1 [0x0a] None ''Integer out of range'',
    rst_entry 0xcf 0 1 [0x0b] None ''Nonsense in BASIC'',
    rst_entry 0xcf 0 1 [0x0c] None ''BREAK - CONT repeat'',
    rst_entry 0xcf 0 1 [0x0d] None ''Out of DATA'',
    rst_entry 0xcf 0 1 [0x0e] None ''Invalid file name'',
    rst_entry 0xcf 0 1 [0x0f] None ''No room for line'',
    rst_entry 0xcf 0 1 [0x10] None ''STOP in INPUT'',
    rst_entry 0xcf 0 1 [0x11] None ''FOR without NEXT'',
    rst_entry 0xcf 0 1 [0x12] None ''Invalid I/O device'',
    rst_entry 0xcf 0 1 [0x13] None ''Invalid colour'',
    rst_entry 0xcf 0 1 [0x14] None ''BREAK into program'',
    rst_entry 0xcf 0 1 [0x15] None ''RAMTOP no good'',
    rst_entry 0xcf 0 1 [0x16] None ''Statement lost'',
    rst_entry 0xcf 0 1 [0x17] None ''Invalid stream'',
    rst_entry 0xcf 0 1 [0x18] None ''FN without DEF'',
    rst_entry 0xcf 0 1 [0x19] None ''Parameter error'',
    rst_entry 0xcf 0 1 [0x1a] None ''Tape loading error'',
    rst_entry 0xcf 0 1 [0x1b] None ''CONSIN (IF1+GDOS)'',
    rst_entry 0xcf 0 1 [0x1c] None ''CONSOUT (IF1+GDOS)'',
    rst_entry 0xcf 0 1 [0x1d] None ''IF1_serin (IF1)'',
    rst_entry 0xcf 0 1 [0x1e] None ''IF1_serout (IF1)'',
    rst_entry 0xcf 0 1 [0x1f] None ''PRTOUT (IF1+GDOS)'',
    rst_entry 0xcf 0 1 [0x20] None ''KBDTST (IF1+GDOS)'',
    rst_entry 0xcf 0 1 [0x21] None ''SELDRV (IF1+GDOS)'',
    rst_entry 0xcf 0 1 [0x22] None ''OPTMPM (IF1+GDOS)'',
    rst_entry 0xcf 0 1 [0x23] None ''CLOSEM (IF1+GDOS)'',
    rst_entry 0xcf 0 1 [0x24] None ''ERASE (IF1+GDOS)'',
    rst_entry 0xcf 0 1 [0x25] None ''RDSEQ (IF1+GDOS)'',
    rst_entry 0xcf 0 1 [0x26] None ''WRREC (IF1+GDOS)'',
    rst_entry 0xcf 0 1 [0x27] None ''IF1_read_rand (IF1)'',
    rst_entry 0xcf 0 1 [0x28] None ''IF1_rd_sector (IF1)'',
    rst_entry 0xcf 0 1 [0x29] None ''IF1_next (IF1)'',
    rst_entry 0xcf 0 1 [0x2a] None ''IF1_wr_sector (IF1)'',
    rst_entry 0xcf 0 1 [0x2b] None ''OPTMPM (IF1+GDOS)'',
    rst_entry 0xcf 0 1 [0x2c] None ''DELBUF (IF1+GDOS)'',
    rst_entry 0xcf 0 1 [0x2d] None ''IF1_open_n (IF1)'',
    rst_entry 0xcf 0 1 [0x2e] None ''IF1_close_n (IF1)'',
    rst_entry 0xcf 0 1 [0x2f] None ''IF1_read_n (IF1)'',
    rst_entry 0xcf 0 1 [0x30] None ''IF1_write_n (IF1)'',
    rst_entry 0xcf 0 1 [0x31] None ''IF1_newvars (IF1)'',
    rst_entry 0xcf 0 1 [0x32] None ''IF1_shadow (IF1)'',
    rst_entry 0xcf 0 1 [0x33] None ''HXFER (GDOS)'',
    rst_entry 0xcf 0 1 [0x34] None ''OSFM (GDOS)'',
    rst_entry 0xcf 0 1 [0x35] None ''HOFLE (GDOS)'',
    rst_entry 0xcf 0 1 [0x36] None ''SBYT (GDOS)'',
    rst_entry 0xcf 0 1 [0x37] None ''HSVBK (GDOS)'',
    rst_entry 0xcf 0 1 [0x38] None ''CFSM (GDOS)'',
    rst_entry 0xcf 0 1 [0x39] None ''PNTP (GDOS)'',
    rst_entry 0xcf 0 1 [0x3a] None ''COPS (GDOS)'',
    rst_entry 0xcf 0 1 [0x3b] None ''HGFLE (GDOS)'',
    rst_entry 0xcf 0 1 [0x3c] None ''LBYT (GDOS)'',
    rst_entry 0xcf 0 1 [0x3d] None ''HLDBK (GDOS)'',
    rst_entry 0xcf 0 1 [0x3e] None ''WSAD (GDOS)'',
    rst_entry 0xcf 0 1 [0x3f] None ''RSAD (GDOS)'',
    rst_entry 0xcf 0 1 [0x40] None ''REST (GDOS)'',
    rst_entry 0xcf 0 1 [0x41] None ''HERAZ (GDOS)'',
    rst_entry 0xcf 0 1 [0x43] None ''PCAT (GDOS)'',
    rst_entry 0xcf 0 1 [0x44] None ''HRSAD (GDOS)'',
    rst_entry 0xcf 0 1 [0x45] None ''HWSAD (GDOS)'',
    rst_entry 0xcf 0 1 [0x47] None ''PATCH (GDOS)'',
    rst_entry 0xcf 0 1 [0x48] None ''UNI_load_file (Unidos)'',
    rst_entry 0xcf 0 1 [0x49] None ''UNI_verify_file (Unidos)'',
    rst_entry 0xcf 0 1 [0x4a] None ''UNI_merge_file (Unidos)'',
    rst_entry 0xcf 0 1 [0x4b] None ''UNI_save_file (Unidos)'',
    rst_entry 0xcf 0 1 [0x4c] None ''UNI_open_file (Unidos)'',
    rst_entry 0xcf 0 1 [0x4d] None ''UNI_point (Unidos)'',
    rst_entry 0xcf 0 1 [0x4e] None ''UNI_flush (Unidos)'',
    rst_entry 0xcf 0 1 [0x4f] None ''UNI_close_file (Unidos)'',
    rst_entry 0xcf 0 1 [0x50] None ''UNI_clear_channels (Unidos)'',
    rst_entry 0xcf 0 1 [0x51] None ''UNI_rename_file (Unidos)'',
    rst_entry 0xcf 0 1 [0x52] None ''UNI_move_stream (Unidos)'',
    rst_entry 0xcf 0 1 [0x53] None ''UNI_move_file (Unidos)'',
    rst_entry 0xcf 0 1 [0x54] None ''UNI_chdir (Unidos)'',
    rst_entry 0xcf F_SEQUENCE 1 [0x80] None ''ESXDOS_SYS_DISK_STATUS'',
    rst_entry 0xcf F_SEQUENCE 1 [0x81] None ''ESXDOS_SYS_DISK_READ'',
    rst_entry 0xcf F_SEQUENCE 1 [0x82] None ''ESXDOS_SYS_DISK_WRITE'',
    rst_entry 0xcf F_SEQUENCE 1 [0x83] None ''ESXDOS_SYS_DISK_IOCTL'',
    rst_entry 0xcf F_SEQUENCE 1 [0x84] None ''ESXDOS_SYS_DISK_INFO'',
    rst_entry 0xcf F_SEQUENCE 1 [0x88] None ''ESXDOS_SYS_M_DOSVERSION'',
    rst_entry 0xcf F_SEQUENCE 1 [0x89] None ''ESXDOS_SYS_M_GETSETDRV'',
    rst_entry 0xcf F_SEQUENCE 1 [0x8a] None ''ESXDOS_SYS_M_DRIVEINFO'',
    rst_entry 0xcf F_SEQUENCE 1 [0x8b] None ''ESXDOS_SYS_M_TAPEIN'',
    rst_entry 0xcf F_SEQUENCE 1 [0x8c] None ''ESXDOS_SYS_M_TAPEOUT'',
    rst_entry 0xcf F_SEQUENCE 1 [0x8d] None ''ESXDOS_SYS_M_GETHANDLE'',
    rst_entry 0xcf F_SEQUENCE 1 [0x8e] None ''ESXDOS_SYS_M_GETDATE'',
    rst_entry 0xcf F_SEQUENCE 1 [0x98] None ''ESXDOS_SYS_F_MOUNT'',
    rst_entry 0xcf F_SEQUENCE 1 [0x99] None ''ESXDOS_SYS_F_UMOUNT'',
    rst_entry 0xcf F_SEQUENCE 1 [0x9a] None ''ESXDOS_SYS_F_OPEN'',
    rst_entry 0xcf F_SEQUENCE 1 [0x9b] None ''ESXDOS_SYS_F_CLOSE'',
    rst_entry 0xcf F_SEQUENCE 1 [0x9c] None ''ESXDOS_SYS_F_SYNC'',
    rst_entry 0xcf F_SEQUENCE 1 [0x9d] None ''ESXDOS_SYS_F_READ'']"

definition zx_helpers_2 :: "rsthelper list" where
  "zx_helpers_2 = [
    rst_entry 0xcf F_SEQUENCE 1 [0x9e] None ''ESXDOS_SYS_F_WRITE'',
    rst_entry 0xcf F_SEQUENCE 1 [0x9f] None ''ESXDOS_SYS_F_SEEK'',
    rst_entry 0xcf F_SEQUENCE 1 [0xa0] None ''ESXDOS_SYS_F_FGETPOS'',
    rst_entry 0xcf F_SEQUENCE 1 [0xa1] None ''ESXDOS_SYS_F_FSTAT'',
    rst_entry 0xcf F_SEQUENCE 1 [0xa2] None ''ESXDOS_SYS_F_FTRUNCATE'',
    rst_entry 0xcf F_SEQUENCE 1 [0xa3] None ''ESXDOS_SYS_F_OPENDIR'',
    rst_entry 0xcf F_SEQUENCE 1 [0xa4] None ''ESXDOS_SYS_F_READDIR'',
    rst_entry 0xcf F_SEQUENCE 1 [0xa5] None ''ESXDOS_SYS_F_TELLDIR'',
    rst_entry 0xcf F_SEQUENCE 1 [0xa6] None ''ESXDOS_SYS_F_SEEKDIR'',
    rst_entry 0xcf F_SEQUENCE 1 [0xa7] None ''ESXDOS_SYS_F_REWINDDIR'',
    rst_entry 0xcf F_SEQUENCE 1 [0xa8] None ''ESXDOS_SYS_F_GETCWD'',
    rst_entry 0xcf F_SEQUENCE 1 [0xa9] None ''ESXDOS_SYS_F_CHDIR'',
    rst_entry 0xcf F_SEQUENCE 1 [0xaa] None ''ESXDOS_SYS_F_MKDIR'',
    rst_entry 0xcf F_SEQUENCE 1 [0xab] None ''ESXDOS_SYS_F_RMDIR'',
    rst_entry 0xcf F_SEQUENCE 1 [0xac] None ''ESXDOS_SYS_F_STAT'',
    rst_entry 0xcf F_SEQUENCE 1 [0xad] None ''ESXDOS_SYS_F_UNLINK'',
    rst_entry 0xcf F_SEQUENCE 1 [0xae] None ''ESXDOS_SYS_F_TRUNCATE'',
    rst_entry 0xcf F_SEQUENCE 1 [0xaf] None ''ESXDOS_SYS_F_CHMOD'',
    rst_entry 0xcf F_SEQUENCE 1 [0xb0] None ''ESXDOS_SYS_F_RENAME'',
    rst_entry 0xcf F_SEQUENCE 1 [0xb1] None ''ESXDOS_SYS_F_GETFREE'',
    rst_entry 0xef (F_SEQUENCE OR F_BYTE) 1 [0x00] None ''ZXFP_JUMP_TRUE'',
    rst_entry 0xef F_SEQUENCE 1 [0x01] None ''ZXFP_EXCHANGE'',
    rst_entry 0xef F_SEQUENCE 1 [0x02] None ''ZXFP_DELETE'',
    rst_entry 0xef F_SEQUENCE 1 [0x03] None ''ZXFP_SUBTRACT'',
    rst_entry 0xef F_SEQUENCE 1 [0x04] None ''ZXFP_MULTIPLY'',
    rst_entry 0xef F_SEQUENCE 1 [0x05] None ''ZXFP_DIVISION'',
    rst_entry 0xef F_SEQUENCE 1 [0x06] None ''ZXFP_TO_POWER'',
    rst_entry 0xef F_SEQUENCE 1 [0x07] None ''ZXFP_OR'',
    rst_entry 0xef F_SEQUENCE 1 [0x08] None ''ZXFP_NO_AND_NO'',
    rst_entry 0xef F_SEQUENCE 1 [0x09] None ''ZXFP_NO_L_EQL'',
    rst_entry 0xef F_SEQUENCE 1 [0x0a] None ''ZXFP_NO_GR_EQL'',
    rst_entry 0xef F_SEQUENCE 1 [0x0b] None ''ZXFP_NOS_NEQL'',
    rst_entry 0xef F_SEQUENCE 1 [0x0c] None ''ZXFP_NO_GRTR'',
    rst_entry 0xef F_SEQUENCE 1 [0x0d] None ''ZXFP_NO_LESS'',
    rst_entry 0xef F_SEQUENCE 1 [0x0e] None ''ZXFP_NOS_EQL'',
    rst_entry 0xef F_SEQUENCE 1 [0x0f] None ''ZXFP_ADDITION'',
    rst_entry 0xef F_SEQUENCE 1 [0x10] None ''ZXFP_STR_AND_NO'',
    rst_entry 0xef F_SEQUENCE 1 [0x11] None ''ZXFP_STR_L_EQL'',
    rst_entry 0xef F_SEQUENCE 1 [0x12] None ''ZXFP_STR_GR_EQL'',
    rst_entry 0xef F_SEQUENCE 1 [0x13] None ''ZXFP_STRS_NEQL'',
    rst_entry 0xef F_SEQUENCE 1 [0x14] None ''ZXFP_STRS_GRTR'',
    rst_entry 0xef F_SEQUENCE 1 [0x15] None ''ZXFP_STRS_LESS'',
    rst_entry 0xef F_SEQUENCE 1 [0x16] None ''ZXFP_STRS_EQL'',
    rst_entry 0xef F_SEQUENCE 1 [0x17] None ''ZXFP_STRS_ADD'',
    rst_entry 0xef F_SEQUENCE 1 [0x18] None ''ZXFP_VAL_STR'',
    rst_entry 0xef F_SEQUENCE 1 [0x19] None ''ZXFP_USR_STR'',
    rst_entry 0xef F_SEQUENCE 1 [0x1a] None ''ZXFP_READ_IN'',
    rst_entry 0xef F_SEQUENCE 1 [0x1b] None ''ZXFP_NEGATE'',
    rst_entry 0xef F_SEQUENCE 1 [0x1c] None ''ZXFP_CODE'',
    rst_entry 0xef F_SEQUENCE 1 [0x1d] None ''ZXFP_VAL'',
    rst_entry 0xef F_SEQUENCE 1 [0x1e] None ''ZXFP_LEN'',
    rst_entry 0xef F_SEQUENCE 1 [0x1f] None ''ZXFP_SIN'',
    rst_entry 0xef F_SEQUENCE 1 [0x20] None ''ZXFP_COS'',
    rst_entry 0xef F_SEQUENCE 1 [0x21] None ''ZXFP_TAN'',
    rst_entry 0xef F_SEQUENCE 1 [0x22] None ''ZXFP_ASN'',
    rst_entry 0xef F_SEQUENCE 1 [0x23] None ''ZXFP_ACS'',
    rst_entry 0xef F_SEQUENCE 1 [0x24] None ''ZXFP_ATN'',
    rst_entry 0xef F_SEQUENCE 1 [0x25] None ''ZXFP_LN'',
    rst_entry 0xef F_SEQUENCE 1 [0x26] None ''ZXFP_EXP'',
    rst_entry 0xef F_SEQUENCE 1 [0x27] None ''ZXFP_INT'',
    rst_entry 0xef F_SEQUENCE 1 [0x28] None ''ZXFP_SQR'',
    rst_entry 0xef F_SEQUENCE 1 [0x29] None ''ZXFP_SGN'',
    rst_entry 0xef F_SEQUENCE 1 [0x2a] None ''ZXFP_ABS'',
    rst_entry 0xef F_SEQUENCE 1 [0x2b] None ''ZXFP_PEEK'',
    rst_entry 0xef F_SEQUENCE 1 [0x2c] None ''ZXFP_IN'',
    rst_entry 0xef F_SEQUENCE 1 [0x2d] None ''ZXFP_USR_NO'',
    rst_entry 0xef F_SEQUENCE 1 [0x2e] None ''ZXFP_STRS'',
    rst_entry 0xef F_SEQUENCE 1 [0x2f] None ''ZXFP_CHRS'',
    rst_entry 0xef F_SEQUENCE 1 [0x30] None ''ZXFP_NOT'',
    rst_entry 0xef F_SEQUENCE 1 [0x31] None ''ZXFP_DUPLICATE'',
    rst_entry 0xef F_SEQUENCE 1 [0x32] None ''ZXFP_N_MOD_M'',
    rst_entry 0xef (F_SEQUENCE OR F_BYTE) 1 [0x33] None ''ZXFP_JUMP'',
    rst_entry 0xef (F_SEQUENCE OR F_LEN67) 1 [0x34] None ''ZXFP_STK_DATA'',
    rst_entry 0xef F_SEQUENCE 1 [0x35] None ''ZXFP_DEC_JR_NZ'',
    rst_entry 0xef F_SEQUENCE 1 [0x36] None ''ZXFP_LESS_0'',
    rst_entry 0xef F_SEQUENCE 1 [0x37] None ''ZXFP_GREATER_0'',
    rst_entry 0xef (F_SEQUENCE OR F_END) 1 [0x38] None ''ZXFP_END_CALC'',
    rst_entry 0xef F_SEQUENCE 1 [0x39] None ''ZXFP_GET_ARGT'',
    rst_entry 0xef F_SEQUENCE 1 [0x3a] None ''ZXFP_TRUNCATE'',
    rst_entry 0xef F_SEQUENCE 1 [0x3b] None ''ZXFP_FP_CALC_2'',
    rst_entry 0xef F_SEQUENCE 1 [0x3c] None ''ZXFP_E_TO_FP'',
    rst_entry 0xef F_SEQUENCE 1 [0x3d] None ''ZXFP_RESTACK'',
    rst_entry 0xef F_SEQUENCE 1 [0x80] None ''ZXFP_SERIES_06'',
    rst_entry 0xef F_SEQUENCE 1 [0x90] None ''ZXFP_SERIES_08'',
    rst_entry 0xef F_SEQUENCE 1 [0xa0] None ''ZXFP_STK_ZERO'',
    rst_entry 0xef F_SEQUENCE 1 [0xa1] None ''ZXFP_STK_ONE'',
    rst_entry 0xef F_SEQUENCE 1 [0xa2] None ''ZXFP_STK_HALF'',
    rst_entry 0xef F_SEQUENCE 1 [0xa3] None ''ZXFP_STK_PI_D_2'',
    rst_entry 0xef F_SEQUENCE 1 [0xa4] None ''ZXFP_STK_TEN'',
    rst_entry 0xef F_SEQUENCE 1 [0xc0] None ''ZXFP_ST_MEM_0'',
    rst_entry 0xef F_SEQUENCE 1 [0xc1] None ''ZXFP_ST_MEM_1'',
    rst_entry 0xef F_SEQUENCE 1 [0xc2] None ''ZXFP_ST_MEM_2'',
    rst_entry 0xef F_SEQUENCE 1 [0xc3] None ''ZXFP_ST_MEM_3'',
    rst_entry 0xef F_SEQUENCE 1 [0xc4] None ''ZXFP_ST_MEM_4'',
    rst_entry 0xef F_SEQUENCE 1 [0xc5] None ''ZXFP_ST_MEM_5'',
    rst_entry 0xef F_SEQUENCE 1 [0xe0] None ''ZXFP_GET_MEM_0'',
    rst_entry 0xef F_SEQUENCE 1 [0xe1] None ''ZXFP_GET_MEM_1'',
    rst_entry 0xef F_SEQUENCE 1 [0xe2] None ''ZXFP_GET_MEM_2'',
    rst_entry 0xef F_SEQUENCE 1 [0xe3] None ''ZXFP_GET_MEM_3'',
    rst_entry 0xef F_SEQUENCE 1 [0xe4] None ''ZXFP_GET_MEM_4'',
    rst_entry 0xef F_SEQUENCE 1 [0xe5] None ''ZXFP_GET_MEM_5'']"

definition zx_helpers :: "rsthelper list" where
  "zx_helpers = zx_helpers_1 @ zx_helpers_2"

section \<open>sam_helpers\<close>

definition sam_helpers_1 :: "rsthelper list" where
  "sam_helpers_1 = [
    rst_entry 0xcf 0 1 [128] None ''INIT'',
    rst_entry 0xcf 0 1 [129] None ''HGTHD'',
    rst_entry 0xcf 0 1 [130] None ''HLOAD'',
    rst_entry 0xcf 0 1 [131] None ''HVERY'',
    rst_entry 0xcf 0 1 [132] None ''HSAVE'',
    rst_entry 0xcf 0 1 [139] None ''HVAR'',
    rst_entry 0xcf 0 1 [147] None ''HOFLE'',
    rst_entry 0xcf 0 1 [148] None ''SBYT'',
    rst_entry 0xcf 0 1 [149] None ''HWSAD'',
    rst_entry 0xcf 0 1 [150] None ''HSVNK'',
    rst_entry 0xcf 0 1 [152] None ''CFSM'',
    rst_entry 0xcf 0 1 [158] None ''HGFLE'',
    rst_entry 0xcf 0 1 [159] None ''LBYT'',
    rst_entry 0xcf 0 1 [160] None ''HRSAD'',
    rst_entry 0xcf 0 1 [161] None ''HLDBK'',
    rst_entry 0xcf 0 1 [164] None ''REST'',
    rst_entry 0xcf 0 1 [165] None ''PCAT'',
    rst_entry 0xcf 0 1 [166] None ''HERAZ'',
    rst_entry 0xef F_SEQUENCE 1 [0x00] None ''SAMFP_MULT'',
    rst_entry 0xef F_SEQUENCE 1 [0x01] None ''SAMFP_ADDN'',
    rst_entry 0xef F_SEQUENCE 1 [0x02] None ''SAMFP_CONCAT'',
    rst_entry 0xef F_SEQUENCE 1 [0x03] None ''SAMFP_SUBN'',
    rst_entry 0xef F_SEQUENCE 1 [0x04] None ''SAMFP_POWER'',
    rst_entry 0xef F_SEQUENCE 1 [0x05] None ''SAMFP_DIVN'',
    rst_entry 0xef F_SEQUENCE 1 [0x06] None ''SAMFP_SWOP'',
    rst_entry 0xef F_SEQUENCE 1 [0x07] None ''SAMFP_DROP'',
    rst_entry 0xef F_SEQUENCE 1 [0x08] None ''SAMFP_MOD'',
    rst_entry 0xef F_SEQUENCE 1 [0x09] None ''SAMFP_IDIV'',
    rst_entry 0xef F_SEQUENCE 1 [0x0a] None ''SAMFP_BOR'',
    rst_entry 0xef F_SEQUENCE 1 [0x0c] None ''SAMFP_BAND'',
    rst_entry 0xef F_SEQUENCE 1 [0x0d] None ''SAMFP_NUOR'',
    rst_entry 0xef F_SEQUENCE 1 [0x0e] None ''SAMFP_NUAND'',
    rst_entry 0xef F_SEQUENCE 1 [0xf4] None ''SAMFP_NOTE'',
    rst_entry 0xef F_SEQUENCE 1 [0x10] None ''SAMFP_NLESE'',
    rst_entry 0xef F_SEQUENCE 1 [0x11] None ''SAMFP_NGRTE'',
    rst_entry 0xef F_SEQUENCE 1 [0x12] None ''SAMFP_NLESS'',
    rst_entry 0xef F_SEQUENCE 1 [0x13] None ''SAMFP_NEQUAL'',
    rst_entry 0xef F_SEQUENCE 1 [0x14] None ''SAMFP_NGRTR'',
    rst_entry 0xef F_SEQUENCE 1 [0x15] None ''SAMFP_SAND'',
    rst_entry 0xef F_SEQUENCE 1 [0x16] None ''SAMFP_SNOTE'',
    rst_entry 0xef F_SEQUENCE 1 [0x17] None ''SAMFP_SLESE'',
    rst_entry 0xef F_SEQUENCE 1 [0x18] None ''SAMFP_SGRTE'',
    rst_entry 0xef F_SEQUENCE 1 [0x19] None ''SAMFP_SLESS'',
    rst_entry 0xef F_SEQUENCE 1 [0x1a] None ''SAMFP_SEQUAL'',
    rst_entry 0xef F_SEQUENCE 1 [0x1b] None ''SAMFP_SGRTR'',
    rst_entry 0xef F_SEQUENCE 1 [0x1c] None ''SAMFP_SWOp13'',
    rst_entry 0xef F_SEQUENCE 1 [0x1d] None ''SAMFP_SWOp23'',
    rst_entry 0xef (F_SEQUENCE OR F_BYTE) 1 [0x1e] None ''SAMFP_JPTRUE'',
    rst_entry 0xef (F_SEQUENCE OR F_BYTE) 1 [0x1f] None ''SAMFP_JFFALSE'',
    rst_entry 0xef (F_SEQUENCE OR F_BYTE) 1 [0x20] None ''SAMFP_JUMP'',
    rst_entry 0xef (F_SEQUENCE OR F_BYTE) 1 [0x21] None ''SAMFP_LDBREG'',
    rst_entry 0xef (F_SEQUENCE OR F_BYTE) 1 [0x22] None ''SAMFP_DECB'',
    rst_entry 0xef F_SEQUENCE 1 [0x23] None ''SAMFP_STKBREG'',
    rst_entry 0xef F_SEQUENCE 1 [0x24] None ''SAMFP_USEB'',
    rst_entry 0xef F_SEQUENCE 1 [0x25] None ''SAMFP_DUP'',
    rst_entry 0xef (F_SEQUENCE OR F_BYTE) 1 [0x26] None ''SAMFP_ONELIT'',
    rst_entry 0xef (F_SEQUENCE OR F_5BYTES) 1 [0x27] None ''SAMFP_FIVELIT'',
    rst_entry 0xef (F_SEQUENCE OR F_nBYTES) 1 [0x28] None ''SAMFP_SOMELIT'',
    rst_entry 0xef (F_SEQUENCE OR F_WORD) 1 [0x29] None ''SAMFP_LKADDRB'',
    rst_entry 0xef (F_SEQUENCE OR F_WORD) 1 [0x2a] None ''SAMFP_LKADDRW'',
    rst_entry 0xef F_SEQUENCE 1 [0x2b] None ''SAMFP_REDARG'',
    rst_entry 0xef F_SEQUENCE 1 [0x2c] None ''SAMFP_LESS0'',
    rst_entry 0xef F_SEQUENCE 1 [0x2d] None ''SAMFP_LESE0'',
    rst_entry 0xef F_SEQUENCE 1 [0x2e] None ''SAMFP_GRTR0'',
    rst_entry 0xef F_SEQUENCE 1 [0x2f] None ''SAMFP_GRTE0'',
    rst_entry 0xef F_SEQUENCE 1 [0x30] None ''SAMFP_TRUNC'']"

definition sam_helpers_2 :: "rsthelper list" where
  "sam_helpers_2 = [
    rst_entry 0xef F_SEQUENCE 1 [0x31] None ''SAMFP_RESTACK'',
    rst_entry 0xef F_SEQUENCE 1 [0x32] None ''SAMFP_POWR2'',
    rst_entry 0xef (F_SEQUENCE OR F_END) 1 [0x33] None ''SAMFP_EXIT'',
    rst_entry 0xef (F_SEQUENCE OR F_END) 1 [0x34] None ''SAMFP_EXIT2'',
    rst_entry 0xef F_SEQUENCE 1 [0x39] None ''SAMFP_SIN'',
    rst_entry 0xef F_SEQUENCE 1 [0x3a] None ''SAMFP_COS'',
    rst_entry 0xef F_SEQUENCE 1 [0x3b] None ''SAMFP_TAN'',
    rst_entry 0xef F_SEQUENCE 1 [0x3c] None ''SAMFP_ASN'',
    rst_entry 0xef F_SEQUENCE 1 [0x3d] None ''SAMFP_ACS'',
    rst_entry 0xef F_SEQUENCE 1 [0x3e] None ''SAMFP_ATN'',
    rst_entry 0xef F_SEQUENCE 1 [0x3f] None ''SAMFP_LOGN'',
    rst_entry 0xef F_SEQUENCE 1 [0x40] None ''SAMFP_EXP'',
    rst_entry 0xef F_SEQUENCE 1 [0x41] None ''SAMFP_ABS'',
    rst_entry 0xef F_SEQUENCE 1 [0x42] None ''SAMFP_SQN'',
    rst_entry 0xef F_SEQUENCE 1 [0x43] None ''SAMFP_SOR'',
    rst_entry 0xef F_SEQUENCE 1 [0x44] None ''SAMFP_INT'',
    rst_entry 0xef F_SEQUENCE 1 [0x45] None ''SAMFP_USR'',
    rst_entry 0xef F_SEQUENCE 1 [0x46] None ''SAMFP_IN'',
    rst_entry 0xef F_SEQUENCE 1 [0x47] None ''SAMFP_PEEK'',
    rst_entry 0xef F_SEQUENCE 1 [0x48] None ''SAMFP_DPEEK'',
    rst_entry 0xef F_SEQUENCE 1 [0x49] None ''SAMFP_DVAR'',
    rst_entry 0xef F_SEQUENCE 1 [0x4a] None ''SAMFP_SVAR'',
    rst_entry 0xef F_SEQUENCE 1 [0x4b] None ''SAMFP_BUTTON'',
    rst_entry 0xef F_SEQUENCE 1 [0x4c] None ''SAMFP_EOF'',
    rst_entry 0xef F_SEQUENCE 1 [0x4d] None ''SAMFP_PTR'',
    rst_entry 0xef F_SEQUENCE 1 [0x4f] None ''SAMFP_UDG'',
    rst_entry 0xef F_SEQUENCE 1 [0x50] None ''SAMFP_NUMBER'',
    rst_entry 0xef F_SEQUENCE 1 [0x51] None ''SAMFP_LEN'',
    rst_entry 0xef F_SEQUENCE 1 [0x52] None ''SAMFP_CODE'',
    rst_entry 0xef F_SEQUENCE 1 [0x53] None ''SAMFP_VALDOLLAR'',
    rst_entry 0xef F_SEQUENCE 1 [0x54] None ''SAMFP_VAL'',
    rst_entry 0xef F_SEQUENCE 1 [0x55] None ''SAMFP_TRUNCDOLLAR'',
    rst_entry 0xef F_SEQUENCE 1 [0x56] None ''SAMFP_CHR'',
    rst_entry 0xef F_SEQUENCE 1 [0x57] None ''SAMFP_STR'',
    rst_entry 0xef F_SEQUENCE 1 [0x58] None ''SAMFP_BIN'',
    rst_entry 0xef F_SEQUENCE 1 [0x59] None ''SAMFP_HEX'',
    rst_entry 0xef F_SEQUENCE 1 [0x5a] None ''SAMFP_USRDOLLAR'',
    rst_entry 0xef F_SEQUENCE 1 [0x5b] None ''SAMFP_INKEY'',
    rst_entry 0xef F_SEQUENCE 1 [0x5c] None ''SAMFP_NOT'',
    rst_entry 0xef F_SEQUENCE 1 [0x5d] None ''SAMFP_NEGATE'',
    rst_entry 0xef F_SEQUENCE 1 [0xc8] None ''SAMFP_STOD0'',
    rst_entry 0xef F_SEQUENCE 1 [0xc9] None ''SAMFP_STOD1'',
    rst_entry 0xef F_SEQUENCE 1 [0xca] None ''SAMFP_STOD2'',
    rst_entry 0xef F_SEQUENCE 1 [0xcb] None ''SAMFP_STOD3'',
    rst_entry 0xef F_SEQUENCE 1 [0xcc] None ''SAMFP_STOD4'',
    rst_entry 0xef F_SEQUENCE 1 [0xcd] None ''SAMFP_STOD5'',
    rst_entry 0xef F_SEQUENCE 1 [0xd0] None ''SAMFP_STO0'',
    rst_entry 0xef F_SEQUENCE 1 [0xd1] None ''SAMFP_STOl'',
    rst_entry 0xef F_SEQUENCE 1 [0xd2] None ''SAMFP_STO2'',
    rst_entry 0xef F_SEQUENCE 1 [0xd3] None ''SAMFP_STO3'',
    rst_entry 0xef F_SEQUENCE 1 [0xd4] None ''SAMFP_STO4'',
    rst_entry 0xef F_SEQUENCE 1 [0xd5] None ''SAMFP_STO5'',
    rst_entry 0xef F_SEQUENCE 1 [0xd8] None ''SAMFP_RCL0'',
    rst_entry 0xef F_SEQUENCE 1 [0xd9] None ''SAMFP_RCLl'',
    rst_entry 0xef F_SEQUENCE 1 [0xda] None ''SAMFP_RCL2'',
    rst_entry 0xef F_SEQUENCE 1 [0xdb] None ''SAMFP_RCL3'',
    rst_entry 0xef F_SEQUENCE 1 [0xdc] None ''SAMFP_RCL4'',
    rst_entry 0xef F_SEQUENCE 1 [0xdd] None ''SAMFP_RCL5'',
    rst_entry 0xef F_SEQUENCE 1 [0xe0] None ''SAMFP_STKHALF'',
    rst_entry 0xef F_SEQUENCE 1 [0xe1] None ''SAMFP_STKZERO'',
    rst_entry 0xef F_SEQUENCE 1 [0xe2] None ''SAMFP_STX1SK'',
    rst_entry 0xef F_SEQUENCE 1 [0xe8] None ''SAMFP_STKFONE'',
    rst_entry 0xef F_SEQUENCE 1 [0xe9] None ''SAMFP_STKONE'',
    rst_entry 0xef F_SEQUENCE 1 [0xec] None ''SAMFP_STKTEN'',
    rst_entry 0xef F_SEQUENCE 1 [0xed] None ''SAMFP_STKRALFPI'']"

definition sam_helpers :: "rsthelper list" where
  "sam_helpers = sam_helpers_1 @ sam_helpers_2"

section \<open>zx81_helpers\<close>

definition zx81_helpers :: "rsthelper list" where
  "zx81_helpers = [
    rst_entry 0xef (F_SEQUENCE OR F_BYTE) 1 [0x00] None ''ZXFP_JUMP_TRUE'',
    rst_entry 0xef F_SEQUENCE 1 [0x01] None ''ZXFP_EXCHANGE'',
    rst_entry 0xef F_SEQUENCE 1 [0x02] None ''ZXFP_DELETE'',
    rst_entry 0xef F_SEQUENCE 1 [0x03] None ''ZXFP_SUBTRACT'',
    rst_entry 0xef F_SEQUENCE 1 [0x04] None ''ZXFP_MULTIPLY'',
    rst_entry 0xef F_SEQUENCE 1 [0x05] None ''ZXFP_DIVISION'',
    rst_entry 0xef F_SEQUENCE 1 [0x06] None ''ZXFP_TO_POWER'',
    rst_entry 0xef F_SEQUENCE 1 [0x07] None ''ZXFP_OR'',
    rst_entry 0xef F_SEQUENCE 1 [0x08] None ''ZXFP_NO_AND_NO'',
    rst_entry 0xef F_SEQUENCE 1 [0x09] None ''ZXFP_NO_L_EQL'',
    rst_entry 0xef F_SEQUENCE 1 [0x0a] None ''ZXFP_NO_GR_EQL'',
    rst_entry 0xef F_SEQUENCE 1 [0x0b] None ''ZXFP_NOS_NEQL'',
    rst_entry 0xef F_SEQUENCE 1 [0x0c] None ''ZXFP_NO_GRTR'',
    rst_entry 0xef F_SEQUENCE 1 [0x0d] None ''ZXFP_NO_LESS'',
    rst_entry 0xef F_SEQUENCE 1 [0x0e] None ''ZXFP_NOS_EQL'',
    rst_entry 0xef F_SEQUENCE 1 [0x0f] None ''ZXFP_ADDITION'',
    rst_entry 0xef F_SEQUENCE 1 [0x10] None ''ZXFP_STR_AND_NO'',
    rst_entry 0xef F_SEQUENCE 1 [0x11] None ''ZXFP_STR_L_EQL'',
    rst_entry 0xef F_SEQUENCE 1 [0x12] None ''ZXFP_STR_GR_EQL'',
    rst_entry 0xef F_SEQUENCE 1 [0x13] None ''ZXFP_STRS_NEQL'',
    rst_entry 0xef F_SEQUENCE 1 [0x14] None ''ZXFP_STRS_GRTR'',
    rst_entry 0xef F_SEQUENCE 1 [0x15] None ''ZXFP_STRS_LESS'',
    rst_entry 0xef F_SEQUENCE 1 [0x16] None ''ZXFP_STRS_EQL'',
    rst_entry 0xef F_SEQUENCE 1 [0x17] None ''ZXFP_STRS_ADD'',
    rst_entry 0xef F_SEQUENCE 1 [0x18] None ''ZXFP_NEGATE'',
    rst_entry 0xef F_SEQUENCE 1 [0x19] None ''ZXFP_CODE'',
    rst_entry 0xef F_SEQUENCE 1 [0x1a] None ''ZXFP_VAL'',
    rst_entry 0xef F_SEQUENCE 1 [0x1b] None ''ZXFP_LEN'',
    rst_entry 0xef F_SEQUENCE 1 [0x1c] None ''ZXFP_SIN'',
    rst_entry 0xef F_SEQUENCE 1 [0x1d] None ''ZXFP_COS'',
    rst_entry 0xef F_SEQUENCE 1 [0x1e] None ''ZXFP_TAN'',
    rst_entry 0xef F_SEQUENCE 1 [0x1f] None ''ZXFP_ASN'',
    rst_entry 0xef F_SEQUENCE 1 [0x20] None ''ZXFP_ACS'',
    rst_entry 0xef F_SEQUENCE 1 [0x21] None ''ZXFP_ATN'',
    rst_entry 0xef F_SEQUENCE 1 [0x22] None ''ZXFP_LN'',
    rst_entry 0xef F_SEQUENCE 1 [0x23] None ''ZXFP_EXP'',
    rst_entry 0xef F_SEQUENCE 1 [0x24] None ''ZXFP_INT'',
    rst_entry 0xef F_SEQUENCE 1 [0x25] None ''ZXFP_SQR'',
    rst_entry 0xef F_SEQUENCE 1 [0x26] None ''ZXFP_SGN'',
    rst_entry 0xef F_SEQUENCE 1 [0x27] None ''ZXFP_ABS'',
    rst_entry 0xef F_SEQUENCE 1 [0x28] None ''ZXFP_PEEK'',
    rst_entry 0xef F_SEQUENCE 1 [0x29] None ''ZXFP_USR_NO'',
    rst_entry 0xef F_SEQUENCE 1 [0x2a] None ''ZXFP_STRS'',
    rst_entry 0xef F_SEQUENCE 1 [0x2b] None ''ZXFP_CHRS'',
    rst_entry 0xef F_SEQUENCE 1 [0x2c] None ''ZXFP_NOT'',
    rst_entry 0xef F_SEQUENCE 1 [0x2d] None ''ZXFP_DUPLICATE'',
    rst_entry 0xef F_SEQUENCE 1 [0x2e] None ''ZXFP_N_MOD_M'',
    rst_entry 0xef (F_SEQUENCE OR F_BYTE) 1 [0x2f] None ''ZXFP_JUMP'',
    rst_entry 0xef (F_SEQUENCE OR F_LEN67) 1 [0x30] None ''ZXFP_STK_DATA'',
    rst_entry 0xef F_SEQUENCE 1 [0x31] None ''ZXFP_DEC_JR_NZ'',
    rst_entry 0xef F_SEQUENCE 1 [0x32] None ''ZXFP_LESS_0'',
    rst_entry 0xef F_SEQUENCE 1 [0x33] None ''ZXFP_GREATER_0'',
    rst_entry 0xef (F_SEQUENCE OR F_END) 1 [0x34] None ''ZXFP_END_CALC'',
    rst_entry 0xef F_SEQUENCE 1 [0x35] None ''ZXFP_GET_ARGT'',
    rst_entry 0xef F_SEQUENCE 1 [0x36] None ''ZXFP_TRUNCATE'',
    rst_entry 0xef F_SEQUENCE 1 [0x37] None ''ZXFP_FP_CALC_2'',
    rst_entry 0xef F_SEQUENCE 1 [0x38] None ''ZXFP_E_TO_FP'',
    rst_entry 0xef F_SEQUENCE 1 [0x80] None ''ZXFP_SERIES_00'',
    rst_entry 0xef F_SEQUENCE 1 [0x81] None ''ZXFP_SERIES_01'',
    rst_entry 0xef F_SEQUENCE 1 [0x82] None ''ZXFP_SERIES_02'',
    rst_entry 0xef F_SEQUENCE 1 [0x83] None ''ZXFP_SERIES_03'',
    rst_entry 0xef F_SEQUENCE 1 [0x84] None ''ZXFP_SERIES_04'',
    rst_entry 0xef F_SEQUENCE 1 [0x85] None ''ZXFP_SERIES_05'',
    rst_entry 0xef F_SEQUENCE 1 [0x86] None ''ZXFP_SERIES_06'',
    rst_entry 0xef F_SEQUENCE 1 [0x87] None ''ZXFP_SERIES_07'',
    rst_entry 0xef F_SEQUENCE 1 [0x88] None ''ZXFP_SERIES_08'',
    rst_entry 0xef F_SEQUENCE 1 [0x89] None ''ZXFP_SERIES_09'',
    rst_entry 0xef F_SEQUENCE 1 [0x8a] None ''ZXFP_SERIES_0A'',
    rst_entry 0xef F_SEQUENCE 1 [0x8b] None ''ZXFP_SERIES_0B'',
    rst_entry 0xef F_SEQUENCE 1 [0x8c] None ''ZXFP_SERIES_0C'',
    rst_entry 0xef F_SEQUENCE 1 [0x8d] None ''ZXFP_SERIES_0D'',
    rst_entry 0xef F_SEQUENCE 1 [0x8e] None ''ZXFP_SERIES_0E'',
    rst_entry 0xef F_SEQUENCE 1 [0x8f] None ''ZXFP_SERIES_0F'',
    rst_entry 0xef F_SEQUENCE 1 [0xa0] None ''ZXFP_STK_ZERO'',
    rst_entry 0xef F_SEQUENCE 1 [0xa1] None ''ZXFP_STK_ONE'',
    rst_entry 0xef F_SEQUENCE 1 [0xa2] None ''ZXFP_STK_HALF'',
    rst_entry 0xef F_SEQUENCE 1 [0xa3] None ''ZXFP_STK_PI_D_2'',
    rst_entry 0xef F_SEQUENCE 1 [0xa4] None ''ZXFP_STK_TEN'',
    rst_entry 0xef F_SEQUENCE 1 [0xc0] None ''ZXFP_ST_MEM_0'',
    rst_entry 0xef F_SEQUENCE 1 [0xc1] None ''ZXFP_ST_MEM_1'',
    rst_entry 0xef F_SEQUENCE 1 [0xc2] None ''ZXFP_ST_MEM_2'',
    rst_entry 0xef F_SEQUENCE 1 [0xc3] None ''ZXFP_ST_MEM_3'',
    rst_entry 0xef F_SEQUENCE 1 [0xc4] None ''ZXFP_ST_MEM_4'',
    rst_entry 0xef F_SEQUENCE 1 [0xc5] None ''ZXFP_ST_MEM_5'',
    rst_entry 0xef F_SEQUENCE 1 [0xe0] None ''ZXFP_GET_MEM_0'',
    rst_entry 0xef F_SEQUENCE 1 [0xe1] None ''ZXFP_GET_MEM_1'',
    rst_entry 0xef F_SEQUENCE 1 [0xe2] None ''ZXFP_GET_MEM_2'',
    rst_entry 0xef F_SEQUENCE 1 [0xe3] None ''ZXFP_GET_MEM_3'',
    rst_entry 0xef F_SEQUENCE 1 [0xe4] None ''ZXFP_GET_MEM_4'',
    rst_entry 0xef F_SEQUENCE 1 [0xe5] None ''ZXFP_GET_MEM_5'']"

end
