(* ===== verification/Ticks_DisState.thy ===== *)
theory Ticks_DisState
  imports Ticks_Alu Ticks_Syms Ticks_Rsthelper
begin

text \<open>
  The disassembler of \<open>disassembler_alg.c\<close>: its context, the reading and printing macros, the tables and the
  functions \<open>handle_...\<close> that print an operand. Text is a list of characters, so the size of the caller's
  buffer is not part of the model; the arguments of one \<open>BUF_PRINTF\<close> are evaluated from left to right, which
  C leaves open.
\<close>

section \<open>The context\<close>

text \<open>
  What stays fixed during a call: the processor, the memory behind \<open>bk.get_memory\<close>, the sections of the map
  file, \<open>c_adl_mode\<close>, \<open>c_autolabel\<close>, \<open>c_target\<close> and the parameter \<open>compact\<close>.
\<close>

record dis_env =
  machine :: cpu
  dis_rabbit4k :: bool        \<comment> \<open>\<open>israbbit4k()\<close>, which \<open>ticks.c\<close> and \<open>disassembler_main.c\<close> define differently\<close>
  dis_rabbit6k :: bool        \<comment> \<open>\<open>israbbit6k()\<close>\<close>
  mem_at :: "32 word \<Rightarrow> 8 word"
  sections :: "sect list"
  c_adl_mode :: int
  c_autolabel :: bool
  c_target :: "string option"
  compact :: int

text \<open>
  The fields of \<open>dcontext\<close>, then the local variables of \<open>disassemble2\<close> (the text behind \<open>offs\<close>, \<open>linepos\<close>,
  \<open>dolf\<close>, \<open>aftercomment\<close> and the two operand buffers) and the symbol table, which a new label changes.
\<close>

record dcontext =
  d_index :: int
  d_pc :: "32 word"
  d_len :: nat
  d_prefix :: int
  d_disp :: int
  d_bytes :: "int list"       \<comment> \<open>\<open>instr_bytes[6]\<close>\<close>
  d_am :: int
  d_adl :: int
  d_kc :: int
  d_mb :: int
  d_text :: string
  d_linepos :: int
  d_dolf :: bool
  d_after :: "string option"
  d_opbuf1 :: string
  d_opbuf2 :: string
  d_labels :: symtab

text \<open>The ways to leave the decoding of a byte: \<open>continue\<close>, the \<open>break\<close> out of the loop, and the entry into
  the loop over the byte codes after an \<open>RST\<close>.\<close>

datatype outcome = Again dcontext | Line dcontext | Sequence rsthelper dcontext

section \<open>Reading\<close>

definition READ_BYTE :: "dis_env \<Rightarrow> dcontext \<Rightarrow> int \<times> dcontext" where
  "READ_BYTE E d =
    (let v = uint (mem_at E (d_pc d)); d = d\<lparr>d_pc := d_pc d + 1\<rparr> in
     if d_len d < 6 then (v, d\<lparr>d_bytes := (d_bytes d)[d_len d := v], d_len := d_len d + 1\<rparr>)
     else (v, d\<lparr>d_len := d_len d + 1\<rparr>))"

definition PEEK_BYTE :: "dis_env \<Rightarrow> int \<Rightarrow> dcontext \<Rightarrow> int" where
  "PEEK_BYTE E offs d = uint (mem_at E (d_pc d + of_int offs))"

text \<open>Reading into an \<open>int8_t\<close> and an \<open>int16_t\<close>.\<close>

definition int8 :: "int \<Rightarrow> int" where
  "int8 v = (if v mod 256 < 128 then v mod 256 else v mod 256 - 256)"

definition int16 :: "int \<Rightarrow> int" where
  "int16 v = (if v mod 65536 < 32768 then v mod 65536 else v mod 65536 - 65536)"

section \<open>Printing\<close>

definition hexdigit :: "nat \<Rightarrow> char" where
  "hexdigit n = ''0123456789abcdef'' ! n"

fun hexdigits :: "nat \<Rightarrow> string" where
  "hexdigits n = (if n < 16 then [hexdigit n] else hexdigits (n div 16) @ [hexdigit (n mod 16)])"

fun decdigits :: "nat \<Rightarrow> string" where
  "decdigits n = (if n < 10 then [hexdigit n] else decdigits (n div 10) @ [hexdigit (n mod 10)])"

declare hexdigits.simps [simp del] decdigits.simps [simp del]

text \<open>The conversions \<open>%0<n>x\<close>, \<open>%d\<close>, \<open>%-<n>s\<close> and \<open>%<n>s\<close>.\<close>

definition hexw :: "nat \<Rightarrow> int \<Rightarrow> string" where
  "hexw n v = (let s = hexdigits (nat v) in replicate (n - length s) CHR ''0'' @ s)"

definition dec_text :: "int \<Rightarrow> string" where
  "dec_text v = (if v < 0 then ''-'' @ decdigits (nat (- v)) else decdigits (nat v))"

definition ljust :: "nat \<Rightarrow> string \<Rightarrow> string" where
  "ljust n s = s @ replicate (n - length s) CHR '' ''"

definition rjust :: "nat \<Rightarrow> string \<Rightarrow> string" where
  "rjust n s = replicate (n - length s) CHR '' '' @ s"

text \<open>An argument of \<open>BUF_PRINTF\<close>: text that may be read from memory.\<close>

type_synonym piece = "dcontext \<Rightarrow> string \<times> dcontext"

definition lit :: "string \<Rightarrow> piece" where
  "lit s d = (s, d)"

fun print_args :: "piece list \<Rightarrow> piece" where
  "print_args [] d = ([], d)"
| "print_args (p # ps) d = (let (s, d) = p d; (t, d) = print_args ps d in (s @ t, d))"

declare print_args.simps [simp del]

definition put_text :: "string \<Rightarrow> dcontext \<Rightarrow> dcontext" where
  "put_text s d = d\<lparr>d_text := d_text d @ s, d_linepos := d_linepos d + int (length s)\<rparr>"

definition BUF_PRINTF :: "piece list \<Rightarrow> dcontext \<Rightarrow> dcontext" where
  "BUF_PRINTF ps d = (let (s, d) = print_args ps d in put_text s d)"

definition BUF_RESET :: "dis_env \<Rightarrow> dcontext \<Rightarrow> dcontext" where
  "BUF_RESET E d =
    d\<lparr>d_text := (if compact E \<le> 1 then replicate 20 CHR '' '' else []), d_linepos := 0\<rparr>"

definition to_opbuf1 :: "piece \<Rightarrow> dcontext \<Rightarrow> dcontext" where
  "to_opbuf1 p d = (let (s, d) = p d in d\<lparr>d_opbuf1 := s\<rparr>)"

definition to_opbuf2 :: "piece \<Rightarrow> dcontext \<Rightarrow> dcontext" where
  "to_opbuf2 p d = (let (s, d) = p d in d\<lparr>d_opbuf2 := s\<rparr>)"

definition WORDIS24 :: "dcontext \<Rightarrow> bool" where
  "WORDIS24 d \<longleftrightarrow> d_adl d \<noteq> 0 \<and> d_am d = 0 \<or> 3 \<le> d_am d"

section \<open>Tables\<close>

definition rp2_table :: "string list" where "rp2_table = [''bc'', ''de'', ''hl'', ''af'']"
definition cc_table :: "string list" where
  "cc_table = [''nz'', ''z'', ''nc'', ''c'', ''po'', ''pe'', ''p'', ''m'']"
definition alu_table :: "string list" where
  "alu_table = [''add'', ''adc'', ''sub'', ''sbc'', ''and'', ''xor'', ''or'', ''cp'']"
definition rot_table :: "string list" where
  "rot_table = [''rlc'', ''rrc'', ''rl'', ''rr'', ''sla'', ''sra'', ''sll'', ''srl'']"
definition assorted_mainpage_opcodes :: "string list" where
  "assorted_mainpage_opcodes = [''rlca'', ''rrca'', ''rla'', ''rra'', ''daa'', ''cpl'', ''scf'', ''ccf'']"
definition rabbit_cc_table :: "string list" where
  "rabbit_cc_table = [''nz'', ''z'', ''nc'', ''c'', ''lz'', ''lo'', ''p'', ''m'']"
definition r4k_cc_table :: "string list" where "r4k_cc_table = [''gt'', ''gtu'', ''lt'', ''v'']"
definition r4k_ps_table :: "string list" where "r4k_ps_table = [''pw'', ''px'', ''py'', ''pz'']"
definition r4k_32b_table :: "string list" where "r4k_32b_table = [''bcde'', ''jkhl'']"
definition r4k_16b_table :: "string list" where "r4k_16b_table = [''bc'', ''de'', ''ix'', ''iy'']"
definition r4k_rp2_table :: "string list" where "r4k_rp2_table = [''bc'', ''de'', ''hl'', ''jk'']"
definition kc160_p_table :: "string list" where "kc160_p_table = [''a'', ''xp'', ''yp'', ''zp'']"

section \<open>Names that need no reading\<close>

definition handle_rot :: "dis_env \<Rightarrow> int \<Rightarrow> string option" where
  "handle_rot E z =
    (if z = 6 then
       if cansll (machine E) then Some ''sll''
       else if isr800 (machine E) then Some ''sla''
       else if isgbz80 (machine E) then Some ''swap''
       else None
     else Some (rot_table ! nat z))"

definition handle_hl :: "int \<Rightarrow> string" where
  "handle_hl index = [''hl'', ''ix'', ''iy'', prime ''hl''] ! nat index"

definition vm1_is_cs_opcode :: "int \<Rightarrow> bool" where
  "vm1_is_cs_opcode op \<longleftrightarrow> op = 0x08 \<or> op = 0x18 \<or> op AND 0xcf = 0x09 \<or> op = 0xcb \<or> op = 0xdd"

definition handle_kc_prefix :: "dis_env \<Rightarrow> int \<Rightarrow> string" where
  "handle_kc_prefix E pfx =
    (if \<not> iskc160ext (machine E) \<or> 7 < pfx then []
     else [''x'', ''y'', ''a'', ''p'', [], [], [], ''z''] ! nat pfx)"

definition handle_kc_segment :: "dis_env \<Rightarrow> int \<Rightarrow> string" where
  "handle_kc_segment E pfx =
    (if \<not> iskc160ext (machine E) \<or> 7 < pfx then []
     else handle_kc_prefix E pfx @ (if pfx = 2 then [] else ''p'') @ '':'')"

definition handle_register16 :: "int \<Rightarrow> int \<Rightarrow> string" where
  "handle_register16 p index =
    [[''bc'', ''de'', ''hl'', ''sp''], [''bc'', ''de'', ''ix'', ''sp''], [''bc'', ''de'', ''iy'', ''sp''],
     [''bc'', ''de'', prime ''hl'', ''sp'']] ! nat index ! nat p"

definition handle_register16_2 :: "int \<Rightarrow> int \<Rightarrow> string" where
  "handle_register16_2 p index =
    [[''bc'', ''de'', ''hl'', ''af''], [''bc'', ''de'', ''ix'', ''af''], [''bc'', ''de'', ''iy'', ''af''],
     [''bc'', ''de'', prime ''hl'', ''af'']] ! nat index ! nat p"

definition kc160_handle_register_r24 :: "int \<Rightarrow> string" where
  "kc160_handle_register_r24 p = [''xix'', ''yiy'', ''ahl''] ! nat p"

definition handle_block_instruction :: "dis_env \<Rightarrow> int \<Rightarrow> int \<Rightarrow> string" where
  "handle_block_instruction E z y =
    (if israbbit (machine E) \<and> z \<noteq> 0 then ''nop''
     else [[''ldi'', ''cpi'', ''ini'', ''outi'', ''outi2''],
           [''ldd'', ''cpd'', ''ind'', ''outd'', ''outd2''],
           [''ldir'', ''cpir'', ''inir'', ''otir'', ''oti2r''],
           [''lddr'', ''cpdr'', ''indr'', ''otdr'', ''otd2r'']] ! nat (y - 4) ! nat z)"

definition kc160_handle_register_rel :: "dis_env \<Rightarrow> dcontext \<Rightarrow> int \<Rightarrow> string" where
  "kc160_handle_register_rel E d index = handle_kc_prefix E (d_kc d) @ [''iy'', ''ix'', ''sp''] ! nat index"

definition handle_ed_assorted_instructions :: "dis_env \<Rightarrow> dcontext \<Rightarrow> int \<Rightarrow> string" where
  "handle_ed_assorted_instructions E d y =
    (let ld = \<lambda>r. ljust 10 ''ld'' @ r;
         z80 = [ld ''i,a'', ld ''r,a'', ld ''a,i'', ld ''a,r'', ''rrd'', ''rld'', ld ''i,i'', ld ''r,r''];
         z180 = [ld ''i,a'', ld ''r,a'', ld ''a,i'', ld ''a,r'', ''rrd'', ''rld'', ''nop'', ''nop''];
         r2ka = [ld ''eir,a'', ld ''iir,a'', ld ''a,eir'', ld ''a,iir'', ld ''xpc,a'', ''nop'', ld ''a,xpc'', ''nop''];
         r3k = [ld ''eir,a'', ld ''iir,a'', ld ''a,eir'', ld ''a,iir'', ld ''xpc,a'', ''setusr'', ld ''a,xpc'',
           ''rdmode''];
         kc160 = [ld ''i,a'', ld ''r,a'', ld ''a,i'', ld ''a,r'', ''rrd'', ''rld'', ''mul       de,hl'',
           ''muls     de,hl'']
     in if iskc160ext (machine E) \<and> d_kc d < 8 \<and> (y = 4 \<or> y = 5) then
          ljust 10 (kc160 ! nat y) @ ''('' @ handle_kc_prefix E (d_kc d) @ ''hl)''
        else if cpu_is CPU_R2KA (machine E) then r2ka ! nat y
        else if cpu_is (CPU_R3K OR CPU_R4K OR CPU_R6K) (machine E) then r3k ! nat y
        else if cpu_is (CPU_Z180 OR CPU_EZ80) (machine E) then z180 ! nat y
        else if iskc160 (machine E) then kc160 ! nat y
        else z80 ! nat y)"

definition handle_im_instructions :: "dis_env \<Rightarrow> int \<Rightarrow> string" where
  "handle_im_instructions E y =
    (let z80 = [''im        0'', ''im        0/1'', ''im        1'', ''im        2'', ''im        0'', ''im        0/1'',
           ''im        1'', ''im        2''];
         z180 = [''im        0'', ''nop       '', ''im        1'', ''im        2'', ''nop       '', ''nop       '',
           ''slp       '', ''nop       ''];
         r2ka = [''ipset     0'', ''ipset     2'', ''ipset     1'', ''ipset     3'', ''nop       '', ''nop       '',
           ''push      ip'', ''pop       ip''];
         r3k = [''ipset     0'', ''ipset     2'', ''ipset     1'', ''ipset     3'', ''push      su'', ''pop       su'',
           ''push      ip'', ''pop       ip''];
         ez80 = [''im        0'', ''nop       '', ''im        1'', ''im        2'', ''im        0'', ''ld        a,mb'',
           ''slp       '', ''rsmix     ''];
         kc160 = [''im        0'', ''im        3'', ''im        1'', ''im        2'', ''nop       '', ''nop       '',
           ''mul       hl'', ''muls      hl'']
     in if cpu_is CPU_R2KA (machine E) then r2ka ! nat y
        else if cpu_is (CPU_R3K OR CPU_R4K OR CPU_R6K) (machine E) then r3k ! nat y
        else if cpu_is CPU_Z180 (machine E) then z180 ! nat y
        else if isez80 (machine E) then ez80 ! nat y
        else if iskc160 (machine E) then kc160 ! nat y
        else z80 ! nat y)"

definition handle_ez80_am :: "dis_env \<Rightarrow> dcontext \<Rightarrow> string \<Rightarrow> string" where
  "handle_ez80_am E d opcode =
    opcode @ (if isez80 (machine E) then [[], ''.sis'', ''.lis'', ''.sil'', ''.lil''] ! nat (d_am d) else [])"

text \<open>The mnemonic column \<open>%-10s\<close> of it.\<close>

definition op_am :: "dis_env \<Rightarrow> dcontext \<Rightarrow> string \<Rightarrow> string" where
  "op_am E d opcode = ljust 10 (handle_ez80_am E d opcode)"

section \<open>Operands read from memory\<close>

text \<open>A label, a new one of the form \<open>L1234\<close>, or a number: \<open>addr\<close> is the value searched for.\<close>

definition label_or :: "dis_env \<Rightarrow> int \<Rightarrow> string \<Rightarrow> string \<Rightarrow> piece" where
  "label_or E addr auto plain d =
    (case find_symbol addr SYM_ADDRESS (d_labels d) of
       Some label \<Rightarrow> (label, d)
     | None \<Rightarrow>
         if c_autolabel E then (auto, d\<lparr>d_labels := symbol_add_autolabel addr auto (d_labels d)\<rparr>)
         else (plain, d))"

text \<open>The target of a relative jump: \<open>unsigned\<close>, passed on as an \<open>int\<close>.\<close>

definition rel_target :: "dis_env \<Rightarrow> int \<Rightarrow> piece" where
  "rel_target E displacement d =
    (let t = d_pc d + of_int displacement; short = hexw 4 (uint t mod 0x10000) in
     label_or E (sint t) (''L'' @ short) (if d_adl d \<noteq> 0 then ''$'' @ hexw 6 (uint t) else ''$'' @ short) d)"

definition handle_rel8 :: "dis_env \<Rightarrow> piece" where
  "handle_rel8 E d = (let (v, d) = READ_BYTE E d in rel_target E (int8 v) d)"

definition handle_rel16 :: "dis_env \<Rightarrow> piece" where
  "handle_rel16 E d =
    (let (d1, d) = READ_BYTE E d; (d2, d) = READ_BYTE E d in rel_target E (int16 (shl d2 8 OR d1)) d)"

definition handle_addr16 :: "dis_env \<Rightarrow> piece" where
  "handle_addr16 E d =
    (let (lsb, d) = READ_BYTE E d; (msb, d) = READ_BYTE E d;
         (mmsb, d) = (if WORDIS24 d then READ_BYTE E d else (0, d));
         digits = (if WORDIS24 d then hexw 2 mmsb @ hexw 2 msb @ hexw 2 lsb else hexw 2 msb @ hexw 2 lsb)
     in label_or E (lsb + msb * 256 + mmsb * 65536) (''L'' @ digits) (''$'' @ digits) d)"

definition handle_addr24 :: "dis_env \<Rightarrow> piece" where
  "handle_addr24 E d =
    (let (lsb, d) = READ_BYTE E d; (msb, d) = READ_BYTE E d; (mmsb, d) = READ_BYTE E d;
         digits = hexw 2 mmsb @ hexw 2 msb @ hexw 2 lsb
     in label_or E (lsb + msb * 256 + mmsb * 65536) (''L'' @ digits) (''$'' @ digits) d)"

definition handle_immed8 :: "dis_env \<Rightarrow> piece" where
  "handle_immed8 E d = (let (lsb, d) = READ_BYTE E d in (''$'' @ hexw 2 lsb, d))"

definition handle_immed16 :: "dis_env \<Rightarrow> piece" where
  "handle_immed16 E d =
    (let (lsb, d) = READ_BYTE E d; (msb, d) = READ_BYTE E d in
     if WORDIS24 d then
       (let (mmsb, d) = READ_BYTE E d in (''$'' @ hexw 2 mmsb @ hexw 2 msb @ hexw 2 lsb, d))
     else (''$'' @ hexw 2 msb @ hexw 2 lsb, d))"

definition handle_immed16_be :: "dis_env \<Rightarrow> piece" where
  "handle_immed16_be E d =
    (let (msb, d) = READ_BYTE E d; (lsb, d) = READ_BYTE E d in (''$'' @ hexw 2 msb @ hexw 2 lsb, d))"

definition handle_immed24 :: "dis_env \<Rightarrow> piece" where
  "handle_immed24 E d =
    (let (lsb, d) = READ_BYTE E d; (msb, d) = READ_BYTE E d; (mlsb, d) = READ_BYTE E d in
     (''$'' @ hexw 2 mlsb @ hexw 2 msb @ hexw 2 lsb, d))"

definition handle_immed32 :: "dis_env \<Rightarrow> piece" where
  "handle_immed32 E d =
    (let (lsb, d) = READ_BYTE E d; (msb, d) = READ_BYTE E d; (mlsb, d) = READ_BYTE E d; (mmsb, d) = READ_BYTE E d in
     (''$'' @ hexw 2 mmsb @ hexw 2 mlsb @ hexw 2 msb @ hexw 2 lsb, d))"

text \<open>A signed displacement with its sign.\<close>

definition signed_hex :: "int \<Rightarrow> string" where
  "signed_hex dis = (if dis < 0 then ''-'' else ''+'') @ ''$'' @ hexw 2 (if dis < 0 then - dis else dis)"

definition handle_displacement :: "dis_env \<Rightarrow> piece" where
  "handle_displacement E d = (let (v, d) = READ_BYTE E d in (signed_hex (int8 v), d))"

definition register8_table :: "string list list" where
  "register8_table =
    [[''b'', ''c'', ''d'', ''e'', ''h'', ''l'', ''hl'', ''a''],
     [''b'', ''c'', ''d'', ''e'', ''ixh'', ''ixl'', ''ix'', ''a''],
     [''b'', ''c'', ''d'', ''e'', ''iyh'', ''iyl'', ''iy'', ''a''],
     [''b'', ''c'', ''d'', ''e'', prime ''h'', prime ''l'', prime ''hl'', ''a'']]"

definition handle_register8 :: "dis_env \<Rightarrow> int \<Rightarrow> piece" where
  "handle_register8 E y d =
    (let index = (if \<not> canixh (machine E) \<and> y \<noteq> 6 \<and> d_index d \<noteq> 3 then 0 else d_index d);
         name = register8_table ! nat index ! nat y
     in if y = 6 \<and> index \<noteq> 0 \<and> index \<noteq> 3 then
          (let (v, d) = (if d_prefix d \<noteq> 0xcb then READ_BYTE E d else (d_disp d, d)) in
           (''('' @ handle_kc_prefix E (d_kc d) @ name @ signed_hex (int8 v) @ '')'', d))
        else if y = 6 then (''('' @ handle_kc_prefix E (d_kc d) @ name @ '')'', d)
        else (name, d))"

section \<open>The byte codes after an RST\<close>

definition rst_table :: "string option \<Rightarrow> rsthelper list" where
  "rst_table target =
    (if target = Some ''z88'' then z88_helpers
     else if target = Some ''zx'' then zx_helpers
     else if target = Some ''sam'' then sam_helpers
     else if target = Some ''zx81'' then zx81_helpers
     else [])"

definition get_rsthelper :: "dis_env \<Rightarrow> int \<Rightarrow> dcontext \<Rightarrow> rsthelper option" where
  "get_rsthelper E b d =
    List.find (\<lambda>h. h_rst h = b \<and> list_all (\<lambda>i. PEEK_BYTE E (int i) d = h_byte h i) [0..<h_length h])
      (rst_table (c_target E))"

text \<open>The loops that read and print the \<open>n\<close> bytes of an entry, from the \<open>i\<close>th.\<close>

fun skip_bytes :: "dis_env \<Rightarrow> nat \<Rightarrow> dcontext \<Rightarrow> dcontext" where
  "skip_bytes E 0 d = d"
| "skip_bytes E (Suc n) d = skip_bytes E n (snd (READ_BYTE E d))"

fun defb_bytes :: "dis_env \<Rightarrow> nat \<Rightarrow> nat \<Rightarrow> dcontext \<Rightarrow> dcontext" where
  "defb_bytes E i 0 d = d"
| "defb_bytes E i (Suc n) d =
    (let (v, d) = READ_BYTE E d in
     defb_bytes E (i + 1) n (put_text ((if i = 0 then [] else '','') @ ''$'' @ hexw 2 v @ '' '') d))"

text \<open>\<open>RST\<close> with no byte codes, or the entry of the target's table.\<close>

definition dis_rst :: "dis_env \<Rightarrow> int \<Rightarrow> dcontext \<Rightarrow> outcome" where
  "dis_rst E b d =
    (let y = shr (b AND 0x38) 3 in
     case get_rsthelper E b d of
       None \<Rightarrow> Line (BUF_PRINTF [lit (op_am E d ''rst'' @ ''$'' @ hexw 2 (y * 8))] d)
     | Some h \<Rightarrow>
         if h_flags h AND F_SEQUENCE \<noteq> 0 then
           Sequence h (BUF_PRINTF [lit (op_am E d ''rst'' @ ''$'' @ hexw 2 (y * 8))] d)
         else (case h_opcode h of
             Some opcode \<Rightarrow>
               Line (skip_bytes E (h_length h) (BUF_PRINTF [lit (ljust 10 opcode @ h_api h)] d))
           | None \<Rightarrow>
               (let d = BUF_PRINTF [lit (op_am E d ''rst'' @ ''$'' @ hexw 2 (y * 8) @ '': defb '')] d;
                    d = defb_bytes E 0 (h_length h) d
                in Line (d\<lparr>d_after := Some (h_api h)\<rparr>))))"

section \<open>The end of a line\<close>

text \<open>The byte column and the comment, the macro \<open>eol\<close>.\<close>

definition byte_column :: "dcontext \<Rightarrow> string" where
  "byte_column d =
    concat (List.map (\<lambda>i. if i < 6 then (if i = 0 then [] else '' '') @ hexw 2 (d_bytes d ! i)
      else (if i = 6 then '' '' else []) @ ''.'') [0..<d_len d])"

definition eol :: "dis_env \<Rightarrow> int \<Rightarrow> dcontext \<Rightarrow> dcontext" where
  "eol E ppc d =
    (let pad = (if compact E \<le> 1 then replicate (nat (60 - d_linepos d)) CHR '' '' else []);
         head = (if compact E \<le> 1 then '';['' @ hexw 4 (ppc AND 0xffff) @ ''] '' else '';'');
         after = (case d_after d of Some s \<Rightarrow> '': '' @ s | None \<Rightarrow> []);
         lf = (if compact E \<le> 1 \<and> d_dolf d then [CHR 0x0A] else [])
     in d\<lparr>d_text := d_text d @ pad @ head @ byte_column d @ after @ lf,
          d_linepos := d_linepos d + int (length pad)\<rparr>)"

end
