(* ===== verification/Ticks_Breakpoints.thy ===== *)
theory Ticks_Breakpoints
  imports Ticks_DisState
begin

text \<open>
  Breakpoints, watchpoints and temporary breakpoints of \<open>breakpoints.c\<close>, the breakpoint commands of
  \<open>debugger.c\<close> after their arguments are parsed, and the decision of \<open>debugger()\<close> to stop. The functions of
  \<open>backend_t\<close> the code calls are the fields of a record; they act on the target, the state behind the backend
  together with \<open>debugger_active\<close>. A pointer to a breakpoint is its position in the list. What the code
  prints is left out.
\<close>

section \<open>Data\<close>

datatype breakpoint_ret =
  BREAKPOINT_ERROR_OK | BREAKPOINT_ERROR_NOT_CONNECTED | BREAKPOINT_ERROR_RUNNING | BREAKPOINT_ERROR_FAILURE

definition BK_BREAKPOINT_SOFTWARE :: "8 word" where "BK_BREAKPOINT_SOFTWARE = 0"
definition BK_BREAKPOINT_WATCHPOINT :: "8 word" where "BK_BREAKPOINT_WATCHPOINT = 2"
definition BK_BREAKPOINT_REGISTER :: "8 word" where "BK_BREAKPOINT_REGISTER = 2"

datatype breakpoint_type = BREAK_PC | BREAK_REGISTER | BREAK_CHECK8 | BREAK_CHECK16 | BREAK_READ | BREAK_WRITE

record breakpoint =
  btype :: breakpoint_type
  bvalue :: int
  lvalue :: "8 word"
  lcheck_arg :: "16 word"
  hvalue :: "8 word"
  hcheck_arg :: "16 word"
  pending_add :: bool
  pending_remove :: bool
  bnumber :: int
  enabled :: bool
  auto_remove :: bool
  btext :: "string option"

datatype temporary_reason =
  TMP_REASON_UNKNOWN | TMP_REASON_FIN | TMP_REASON_STEP_SOURCE_LINE | TMP_REASON_NEXT_SOURCE_LINE
  | TMP_REASON_ONE_INSTRUCTION

record temporary_breakpoint =
  reason :: temporary_reason
  at_address :: "32 word"
  callee :: "string option"     \<comment> \<open>the function, which is only printed\<close>
  source_file :: "string option"
  source_line :: int
  external :: bool

definition TEMP_BREAKPOINT_ANYWHERE :: "32 word" where "TEMP_BREAKPOINT_ANYWHERE = 0xffffffff"

text \<open>\<open>struct debugger_regs_t\<close>.\<close>

record debugger_regs =
  r_pc :: "16 word"
  r_sp :: "16 word"
  r_reg :: "reg \<Rightarrow> 8 word"  \<comment> \<open>\<open>a b c d e h l\<close>, \<open>a_ ...\<close>, \<open>xh xl yh yl\<close>, \<open>i\<close> and \<open>r\<close>\<close>
  r_iff1 :: "8 word"
  r_iff2 :: "8 word"
  r_im :: "8 word"

text \<open>The target as \<open>debugger.c\<close> sees it.\<close>

record 's target =
  debugger_active :: bool
  remote :: 's

type_synonym 's breakpoint_cb = "8 word \<Rightarrow> 16 word \<Rightarrow> 8 word \<Rightarrow> 's target \<Rightarrow> breakpoint_ret \<times> 's target"

record 's backend =
  bk_pc :: "'s target \<Rightarrow> 16 word"
  bk_get_memory :: "32 word \<Rightarrow> 's target \<Rightarrow> 8 word"      \<comment> \<open>of \<open>MEM_TYPE_DATA\<close>\<close>
  bk_get_regs :: "'s target \<Rightarrow> debugger_regs \<Rightarrow> debugger_regs"
  bk_break :: "'s target \<Rightarrow> 's target"                    \<comment> \<open>\<open>break_(1)\<close>\<close>
  bk_resume :: "'s target \<Rightarrow> 's target"
  bk_next0 :: "'s target \<Rightarrow> 's target"                    \<comment> \<open>\<open>next(0)\<close>\<close>
  bk_step0 :: "'s target \<Rightarrow> 's target"                    \<comment> \<open>\<open>step(0)\<close>\<close>
  bk_breakpoints_check :: "'s target \<Rightarrow> bool"
  bk_add_breakpoint :: "'s breakpoint_cb"
  bk_remove_breakpoint :: "'s breakpoint_cb"
  bk_disable_breakpoint :: "'s breakpoint_cb"
  bk_enable_breakpoint :: "'s breakpoint_cb"
  bk_add_watchpoint :: "'s breakpoint_cb option"
  bk_remove_watchpoint :: "'s breakpoint_cb option"

record 's debugger =
  breakpoints :: "breakpoint list"
  watchpoints :: "breakpoint list"
  temporary_breakpoints :: "temporary_breakpoint list"
  next_breakpoint_number :: int
  target :: "'s target"

section \<open>Adding and deleting\<close>

definition watchpoint_rsp_type :: "breakpoint_type \<Rightarrow> 8 word" where
  "watchpoint_rsp_type type = (if type = BREAK_WRITE then 2 else 3)"

text \<open>\<open>calloc\<close>: all fields zero.\<close>

definition blank :: "breakpoint" where
  "blank = \<lparr>btype = BREAK_PC, bvalue = 0, lvalue = 0, lcheck_arg = 0, hvalue = 0, hcheck_arg = 0,
    pending_add = False, pending_remove = False, bnumber = 0, enabled = False, auto_remove = False, btext = None\<rparr>"

text \<open>\<open>LL_DELETE\<close> of the element at a position.\<close>

definition delete_nth :: "nat \<Rightarrow> 'a list \<Rightarrow> 'a list" where
  "delete_nth i xs = take i xs @ drop (Suc i) xs"

text \<open>The result, the pointer (none for \<open>NULL\<close>) and the state.\<close>

definition add_watchpoint ::
  "'s backend \<Rightarrow> breakpoint_type \<Rightarrow> int \<Rightarrow> 's debugger \<Rightarrow> breakpoint_ret \<times> nat option \<times> 's debugger" where
  "add_watchpoint bk operation value d =
    (let (result, t) = (case bk_add_watchpoint bk of
           None \<Rightarrow> (BREAKPOINT_ERROR_OK, target d)
         | Some f \<Rightarrow> f (watchpoint_rsp_type operation) (u16 value) 1 (target d));
         d = d\<lparr>target := t\<rparr>
     in if result \<noteq> BREAKPOINT_ERROR_OK then (result, None, d)
        else
          (let w = blank\<lparr>bnumber := next_breakpoint_number d, btype := operation, bvalue := value, enabled := True\<rparr>
           in (result, Some (length (watchpoints d)),
               d\<lparr>next_breakpoint_number := next_breakpoint_number d + 1, watchpoints := watchpoints d @ [w]\<rparr>)))"

text \<open>The caller passes a text, which the code does not keep.\<close>

definition add_breakpoint ::
  "'s backend \<Rightarrow> breakpoint_type \<Rightarrow> 8 word \<Rightarrow> 8 word \<Rightarrow> int \<Rightarrow> string option \<Rightarrow> bool \<Rightarrow> 's debugger \<Rightarrow> nat \<times> 's debugger" where
  "add_breakpoint bk type bk_type bk_size value text temporary d =
    (let elem = blank\<lparr>bnumber := next_breakpoint_number d, btype := type, bvalue := value, enabled := True,
           auto_remove := temporary, btext := None\<rparr>;
         (result, t) = bk_add_breakpoint bk bk_type (u16 value) bk_size (target d);
         t = (if result = BREAKPOINT_ERROR_RUNNING then bk_break bk t else t);
         elem = elem\<lparr>pending_add := (result \<noteq> BREAKPOINT_ERROR_OK)\<rparr>
     in (length (breakpoints d),
         d\<lparr>next_breakpoint_number := next_breakpoint_number d + 1, breakpoints := breakpoints d @ [elem], target := t\<rparr>))"

definition delete_watchpoint :: "'s backend \<Rightarrow> nat \<Rightarrow> 's debugger \<Rightarrow> breakpoint_ret \<times> 's debugger" where
  "delete_watchpoint bk i d =
    (let w = watchpoints d ! i;
         (result, t) = (case bk_remove_watchpoint bk of
           Some f \<Rightarrow> if enabled w then f (watchpoint_rsp_type (btype w)) (u16 (bvalue w)) 1 (target d)
                     else (BREAKPOINT_ERROR_OK, target d)
         | None \<Rightarrow> (BREAKPOINT_ERROR_OK, target d));
         d = d\<lparr>target := t\<rparr>
     in if result \<noteq> BREAKPOINT_ERROR_OK then (result, d)
        else (BREAKPOINT_ERROR_OK, d\<lparr>watchpoints := delete_nth i (watchpoints d)\<rparr>))"

definition set_watchpoint_enabled :: "'s backend \<Rightarrow> nat \<Rightarrow> bool \<Rightarrow> 's debugger \<Rightarrow> breakpoint_ret \<times> 's debugger" where
  "set_watchpoint_enabled bk i on d =
    (let w = watchpoints d ! i in
     if enabled w = on then (BREAKPOINT_ERROR_OK, d)
     else
       (let (result, t) = (case (if on then bk_add_watchpoint bk else bk_remove_watchpoint bk) of
              Some f \<Rightarrow> f (watchpoint_rsp_type (btype w)) (u16 (bvalue w)) 1 (target d)
            | None \<Rightarrow> (BREAKPOINT_ERROR_OK, target d));
            d = d\<lparr>target := t\<rparr>
        in if result \<noteq> BREAKPOINT_ERROR_OK then (result, d)
           else (BREAKPOINT_ERROR_OK, d\<lparr>watchpoints := (watchpoints d)[i := w\<lparr>enabled := on\<rparr>]\<rparr>)))"

definition delete_breakpoint :: "'s backend \<Rightarrow> nat \<Rightarrow> 's debugger \<Rightarrow> 's debugger" where
  "delete_breakpoint bk i d =
    (let b = breakpoints d ! i;
         (result, t) = bk_remove_breakpoint bk BK_BREAKPOINT_SOFTWARE (u16 (bvalue b)) 1 (target d);
         t = (if result = BREAKPOINT_ERROR_RUNNING then bk_break bk t else t);
         d = d\<lparr>target := t\<rparr>
     in if result \<noteq> BREAKPOINT_ERROR_OK then d\<lparr>breakpoints := (breakpoints d)[i := b\<lparr>pending_remove := True\<rparr>]\<rparr>
        else d\<lparr>breakpoints := delete_nth i (breakpoints d)\<rparr>)"

definition delete_all_breakpoints :: "'s backend \<Rightarrow> 's debugger \<Rightarrow> 's debugger" where
  "delete_all_breakpoints bk d =
    (let t = fold (\<lambda>b t. snd (bk_remove_breakpoint bk BK_BREAKPOINT_SOFTWARE (u16 (bvalue b)) 1 t)) (breakpoints d) (target d);
         t = (case bk_remove_watchpoint bk of
           None \<Rightarrow> t
         | Some f \<Rightarrow> fold (\<lambda>w t. if enabled w then snd (f (watchpoint_rsp_type (btype w)) (u16 (bvalue w)) 1 t) else t)
                       (watchpoints d) t)
     in d\<lparr>breakpoints := [], watchpoints := [], target := t\<rparr>)"

fun find_number :: "int \<Rightarrow> breakpoint list \<Rightarrow> nat option" where
  "find_number number [] = None"
| "find_number number (b # bs) = (if bnumber b = number then Some 0 else map_option Suc (find_number number bs))"

definition find_breakpoint :: "int \<Rightarrow> 's debugger \<Rightarrow> nat option" where
  "find_breakpoint number d = find_number number (breakpoints d)"

definition find_watchpoint :: "int \<Rightarrow> 's debugger \<Rightarrow> nat option" where
  "find_watchpoint number d = find_number number (watchpoints d)"

section \<open>Temporary breakpoints\<close>

definition add_temporary_internal_breakpoint ::
  "32 word \<Rightarrow> temporary_reason \<Rightarrow> string option \<Rightarrow> int \<Rightarrow> 's debugger \<Rightarrow> 's debugger" where
  "add_temporary_internal_breakpoint address why file line d =
    d\<lparr>temporary_breakpoints := temporary_breakpoints d @
      [\<lparr>reason = why, at_address = address, callee = None, source_file = file, source_line = line, external = False\<rparr>]\<rparr>"

definition add_temp_breakpoint_one_instruction :: "'s debugger \<Rightarrow> 's debugger" where
  "add_temp_breakpoint_one_instruction =
    add_temporary_internal_breakpoint TEMP_BREAKPOINT_ANYWHERE TMP_REASON_ONE_INSTRUCTION None 0"

definition removal :: "'s backend \<Rightarrow> temporary_breakpoint \<Rightarrow> 's target \<Rightarrow> 's target" where
  "removal bk b t =
    (if external b then snd (bk_remove_breakpoint bk BK_BREAKPOINT_SOFTWARE (u16 (uint (at_address b))) 1 t) else t)"

definition remove_temp_breakpoint :: "'s backend \<Rightarrow> nat \<Rightarrow> 's debugger \<Rightarrow> 's debugger" where
  "remove_temp_breakpoint bk i d =
    d\<lparr>target := removal bk (temporary_breakpoints d ! i) (target d),
      temporary_breakpoints := delete_nth i (temporary_breakpoints d)\<rparr>"

definition remove_temp_breakpoints :: "'s backend \<Rightarrow> 's debugger \<Rightarrow> 's debugger" where
  "remove_temp_breakpoints bk d =
    d\<lparr>target := fold (removal bk) (temporary_breakpoints d) (target d), temporary_breakpoints := []\<rparr>"

text \<open>
  The loop of \<open>process_temp_breakpoints\<close>: \<open>kept\<close> are the ones it has passed, \<open>location\<close> is
  \<open>debug_find_source_location\<close>. The result, the list after the loop and the target.
\<close>

fun process_temps ::
  "'s backend \<Rightarrow> (16 word \<Rightarrow> (string \<times> int) option) \<Rightarrow> temporary_breakpoint list \<Rightarrow> temporary_breakpoint list \<Rightarrow> bool
    \<Rightarrow> 's target \<Rightarrow> bool \<times> temporary_breakpoint list \<times> 's target" where
  "process_temps bk location kept [] dodebug t = (dodebug, kept, t)"
| "process_temps bk location kept (b # bs) dodebug t =
    (if at_address b = TEMP_BREAKPOINT_ANYWHERE \<or> uint (bk_pc bk t) = uint (at_address b) then
       (let remove = process_temps bk location kept bs True (removal bk b t);
            go_on = (if reason b = TMP_REASON_STEP_SOURCE_LINE then bk_step0 bk t else bk_next0 bk t)
        in if reason b = TMP_REASON_STEP_SOURCE_LINE \<or> reason b = TMP_REASON_NEXT_SOURCE_LINE then
             (case source_file b of
                None \<Rightarrow> remove
              | Some file \<Rightarrow>
                  (case location (bk_pc bk t) of
                     None \<Rightarrow> (False, kept @ b # bs, go_on)
                   | Some (filename, lineno) \<Rightarrow>
                       if filename = file \<and> lineno = source_line b then (False, kept @ b # bs, go_on) else remove))
           else remove)
     else process_temps bk location (kept @ [b]) bs dodebug t)"

definition process_temp_breakpoints ::
  "'s backend \<Rightarrow> (16 word \<Rightarrow> (string \<times> int) option) \<Rightarrow> 's debugger \<Rightarrow> bool \<times> 's debugger" where
  "process_temp_breakpoints bk location d =
    (let (dodebug, temps, t) = process_temps bk location [] (temporary_breakpoints d) False (target d)
     in (dodebug, d\<lparr>temporary_breakpoints := temps, target := t\<rparr>))"

end
