(* ===== verification/Ticks_Debugger.thy ===== *)
theory Ticks_Debugger
  imports Ticks_Breakpoints "HOL-Library.Signed_Division"
begin

text \<open>
  The breakpoint commands of \<open>debugger.c\<close> (\<open>cmd_break\<close>, \<open>cmd_watch\<close>, \<open>cmd_del_break\<close>) with their arguments
  already parsed, -1 for an address that could not be, and the test \<open>debugger()\<close> makes before every
  instruction.
\<close>

section \<open>The register table\<close>

datatype reg_kind = RegPair reg reg | RegSP | RegPC | RegByte reg | RegIff1 | RegIff2 | RegIm

text \<open>The name and the places: low and high byte, a word, or one byte.\<close>

definition registers :: "(string \<times> reg_kind) list" where
  "registers =
    [(''hl'', RegPair rL rH), (''de'', RegPair rE rD), (''bc'', RegPair rC rB),
     (''hl'' @ [CHR 0x27], RegPair rL' rH'), (''de'' @ [CHR 0x27], RegPair rE' rD'), (''bc'' @ [CHR 0x27], RegPair rC' rB'),
     (''ix'' @ [CHR 0x27], RegPair rXL rXH), (''iy'' @ [CHR 0x27], RegPair rYL rYH),
     (''sp'', RegSP), (''pc'', RegPC),
     (''a'', RegByte rA), (''a'' @ [CHR 0x27], RegByte rA'), (''b'', RegByte rB), (''b'' @ [CHR 0x27], RegByte rB'),
     (''c'', RegByte rC), (''c'' @ [CHR 0x27], RegByte rC'), (''d'', RegByte rD), (''d'' @ [CHR 0x27], RegByte rD'),
     (''e'', RegByte rE), (''e'' @ [CHR 0x27], RegByte rE'), (''h'', RegByte rH), (''h'' @ [CHR 0x27], RegByte rH'),
     (''l'', RegByte rL), (''l'' @ [CHR 0x27], RegByte rL'),
     (''ixh'', RegByte rXH), (''ixl'', RegByte rXL), (''iyh'', RegByte rYH), (''iyl'', RegByte rYL),
     (''ir'', RegPair rR rI), (''i'', RegByte rI), (''r'', RegByte rR),
     (''iff1'', RegIff1), (''iff2'', RegIff2), (''im'', RegIm)]"

fun register_index :: "string \<Rightarrow> (string \<times> reg_kind) list \<Rightarrow> nat option" where
  "register_index name [] = None"
| "register_index name (r # rs) = (if fst r = name then Some 0 else map_option Suc (register_index name rs))"

section \<open>Commands\<close>

definition break_pc :: "'s backend \<Rightarrow> int \<Rightarrow> 's debugger \<Rightarrow> 's debugger" where
  "break_pc bk value d =
    (if value \<noteq> -1 then snd (add_breakpoint bk BREAK_PC BK_BREAKPOINT_SOFTWARE 1 value None False d) else d)"

definition change_breakpoint :: "nat \<Rightarrow> (breakpoint \<Rightarrow> breakpoint) \<Rightarrow> 's debugger \<Rightarrow> 's debugger" where
  "change_breakpoint i f d = d\<lparr>breakpoints := (breakpoints d)[i := f (breakpoints d ! i)]\<rparr>"

definition break_memory8 :: "'s backend \<Rightarrow> string \<Rightarrow> int \<Rightarrow> int \<Rightarrow> 's debugger \<Rightarrow> 's debugger" where
  "break_memory8 bk text addr number d =
    (if addr \<noteq> -1 then
       (let (elem, d) = add_breakpoint bk BREAK_CHECK8 BK_BREAKPOINT_WATCHPOINT 1 addr (Some text) False d
        in change_breakpoint elem (\<lambda>b. b\<lparr>lvalue := u8 number\<rparr>) d)
     else d)"

definition break_memory16 :: "'s backend \<Rightarrow> string \<Rightarrow> int \<Rightarrow> int \<Rightarrow> 's debugger \<Rightarrow> 's debugger" where
  "break_memory16 bk text addr value d =
    (if addr \<noteq> -1 then
       (let (elem, d) = add_breakpoint bk BREAK_CHECK16 BK_BREAKPOINT_WATCHPOINT 2 0 (Some text) False d
        in change_breakpoint elem (\<lambda>b. b\<lparr>lcheck_arg := u16 addr, lvalue := u8 (value smod 256),
             hcheck_arg := u16 (addr + 1), hvalue := u8 ((value smod 65536) sdiv 256)\<rparr>) d)
     else d)"

definition break_register :: "'s backend \<Rightarrow> string \<Rightarrow> int \<Rightarrow> 's debugger \<Rightarrow> 's debugger" where
  "break_register bk name value d =
    (case register_index name registers of
       None \<Rightarrow> d
     | Some idx \<Rightarrow>
         (let (elem, d) = add_breakpoint bk BREAK_REGISTER BK_BREAKPOINT_REGISTER 1 (int idx) (Some name) False d
          in change_breakpoint elem (\<lambda>b. b\<lparr>lcheck_arg := u16 (int idx), lvalue := u8 (value smod 256),
               hvalue := u8 ((value smod 65536) sdiv 256)\<rparr>) d))"

text \<open>\<open>break disable\<close> and \<open>break enable\<close> count positions from one.\<close>

definition break_set_enabled :: "'s backend \<Rightarrow> int \<Rightarrow> bool \<Rightarrow> 's debugger \<Rightarrow> 's debugger" where
  "break_set_enabled bk num on d =
    (if 0 < num \<and> num \<le> int (length (breakpoints d)) then
       (let i = nat (num - 1);
            f = (if on then bk_enable_breakpoint bk else bk_disable_breakpoint bk);
            (result, t) = f BK_BREAKPOINT_SOFTWARE (u16 (bvalue (breakpoints d ! i))) 1 (target d)
        in change_breakpoint i (\<lambda>b. b\<lparr>enabled := on\<rparr>) (d\<lparr>target := t\<rparr>))
     else d)"

text \<open>\<open>break delete\<close> and \<open>delete\<close> take the number of the breakpoint.\<close>

definition delete_breakpoint_by_number :: "'s backend \<Rightarrow> int \<Rightarrow> 's debugger \<Rightarrow> 's debugger" where
  "delete_breakpoint_by_number bk number d =
    (case find_breakpoint number d of None \<Rightarrow> d | Some i \<Rightarrow> delete_breakpoint bk i d)"

definition watch_add :: "'s backend \<Rightarrow> bool \<Rightarrow> int \<Rightarrow> 's debugger \<Rightarrow> 's debugger" where
  "watch_add bk breakwrite value d =
    (if value \<noteq> -1 then snd (snd (add_watchpoint bk (if breakwrite then BREAK_WRITE else BREAK_READ) value d)) else d)"

definition watch_delete :: "'s backend \<Rightarrow> int \<Rightarrow> 's debugger \<Rightarrow> 's debugger" where
  "watch_delete bk number d =
    (case find_watchpoint number d of None \<Rightarrow> d | Some i \<Rightarrow> snd (delete_watchpoint bk i d))"

definition watch_set_enabled :: "'s backend \<Rightarrow> int \<Rightarrow> bool \<Rightarrow> 's debugger \<Rightarrow> 's debugger" where
  "watch_set_enabled bk number on d =
    (case find_watchpoint number d of None \<Rightarrow> d | Some i \<Rightarrow> snd (set_watchpoint_enabled bk i on d))"

section \<open>The stop decision\<close>

definition register_hit :: "breakpoint \<Rightarrow> debugger_regs \<Rightarrow> bool" where
  "register_hit b g =
    (case snd (registers ! unat (lcheck_arg b)) of
       RegSP \<Rightarrow> lo8 (r_sp g) = lvalue b \<and> hi8 (r_sp g) = hvalue b
     | RegPC \<Rightarrow> lo8 (r_pc g) = lvalue b \<and> hi8 (r_pc g) = hvalue b
     | RegByte r \<Rightarrow> r_reg g r = lvalue b
     | RegIff1 \<Rightarrow> r_iff1 g = lvalue b
     | RegIff2 \<Rightarrow> r_iff2 g = lvalue b
     | RegIm \<Rightarrow> r_im g = lvalue b
     | RegPair l h \<Rightarrow> r_reg g l = lvalue b \<and> r_reg g h = hvalue b)"

text \<open>\<open>junk\<close> is the uninitialised structure the registers are read into.\<close>

definition breakpoint_hit :: "'s backend \<Rightarrow> debugger_regs \<Rightarrow> 's target \<Rightarrow> breakpoint \<Rightarrow> bool" where
  "breakpoint_hit bk junk t b =
    (enabled b \<and>
      (case btype b of
         BREAK_PC \<Rightarrow> bvalue b = uint (bk_pc bk t)
       | BREAK_CHECK8 \<Rightarrow> bk_get_memory bk (u32 (uint (lcheck_arg b))) t = lvalue b
       | BREAK_CHECK16 \<Rightarrow> bk_get_memory bk (u32 (uint (lcheck_arg b))) t = lvalue b \<and>
           bk_get_memory bk (u32 (uint (hcheck_arg b))) t = hvalue b
       | BREAK_REGISTER \<Rightarrow> register_hit b (bk_get_regs bk t junk)
       | BREAK_READ \<Rightarrow> False
       | BREAK_WRITE \<Rightarrow> False))"

fun find_hit :: "(breakpoint \<Rightarrow> bool) \<Rightarrow> breakpoint list \<Rightarrow> nat option" where
  "find_hit P [] = None"
| "find_hit P (b # bs) = (if P b then Some 0 else map_option Suc (find_hit P bs))"

text \<open>The loop over the breakpoints: the first that is hit.\<close>

definition check_breakpoints :: "'s backend \<Rightarrow> debugger_regs \<Rightarrow> 's debugger \<Rightarrow> bool \<times> 's debugger" where
  "check_breakpoints bk junk d =
    (case find_hit (breakpoint_hit bk junk (target d)) (breakpoints d) of
       None \<Rightarrow> (False, d)
     | Some i \<Rightarrow>
         (True,
          if btype (breakpoints d ! i) = BREAK_PC then
            (if auto_remove (breakpoints d ! i) then delete_breakpoint bk i d else d)
          else change_breakpoint i (\<lambda>b. b\<lparr>enabled := False\<rparr>) d))"

text \<open>
  From the temporary breakpoints to the early return: whether \<open>debugger()\<close> goes on to read commands.
  \<open>profiler\<close> is \<open>profiler_check\<close>, \<open>requested\<close> is \<open>debugger_break_requested\<close>.
\<close>

definition debugger_stops ::
  "'s backend \<Rightarrow> (16 word \<Rightarrow> (string \<times> int) option) \<Rightarrow> (16 word \<Rightarrow> bool) \<Rightarrow> debugger_regs \<Rightarrow> bool \<Rightarrow> 's debugger
    \<Rightarrow> bool \<times> 's debugger" where
  "debugger_stops bk location profiler junk requested d =
    (let (dodebug, d) = process_temp_breakpoints bk location d;
         (dodebug, d) =
           (if bk_breakpoints_check bk (target d) then
              (if profiler (bk_pc bk (target d)) then
                 (dodebug, d\<lparr>target := (bk_resume bk (target d))\<lparr>debugger_active := False\<rparr>\<rparr>)
               else (let (hit, d) = check_breakpoints bk junk d in (dodebug \<or> hit, d)))
            else (dodebug, d))
     in (requested \<or> debugger_active (target d) \<or> dodebug, d))"

end
