(* ===== verification/Ticks_DisLow.thy ===== *)
theory Ticks_DisLow
  imports Ticks_DisState
begin

text \<open>
  The decoding of the opcodes 00 to bf, with the pages of the Rabbit 4000 and 6000 below 49, 6d and 7f: the
  cases 0, 1 and 2 of the switch on the top two bits. A case or a page is a definition; a bit field is named
  as in the source.
\<close>

definition dis_x0_z0 :: "dis_env \<Rightarrow> int \<Rightarrow> dcontext \<Rightarrow> outcome" where
  "dis_x0_z0 E b d =
    (let y = shr (b AND 0x38) 3; p = shr (shr (b AND 0x38) 3 AND 0x06) 1 in
     (if y = 0 then
       Line (BUF_PRINTF [lit ''nop''] d)
     else if y = 1 then
       (if canaltreg (machine E) then
         Line (BUF_PRINTF [lit (''ex        '' @ prime ''af,af'')] d)
       else if isgbz80 (machine E) then
         Line (BUF_PRINTF [lit ''ld        ('', handle_addr16 E, lit ''),sp''] d)
       else if is8085 (machine E) then
         Line (BUF_PRINTF [lit ''sub       hl,bc''] d)
       else if isvm1 (machine E) then
         Line (BUF_PRINTF [lit (ljust 10 (if d_mb d \<noteq> 0 then ''sbc'' else ''sub'') @ (handle_hl (d_index d)) @ '',bc'')] d)
       else
         Line (BUF_PRINTF [lit ''nop''] d))
     else if y = 2 then
       (if isgbz80 (machine E) then
         (let p = PEEK_BYTE E 0 d in
          (let d = (if p = 0 then snd (READ_BYTE E d) else d) in
           Line (BUF_PRINTF [lit ''stop      ''] d)))
       else if isvm1 (machine E) then
         Line (BUF_PRINTF [lit ''andl      '', handle_register8 E 6] d)
       else if is8080 (machine E) then
         Line (BUF_PRINTF [lit ''nop''] d)
       else if is8085 (machine E) then
         Line (BUF_PRINTF [lit ''sra       hl''] d)
       else
         Line (BUF_PRINTF [lit ''djnz      '', handle_rel8 E] d))
     else if y = 3 then
       (if is8085 (machine E) then
         Line (BUF_PRINTF [lit ''rl        de''] d)
       else if isvm1 (machine E) then
         Line (BUF_PRINTF [lit (ljust 10 (if d_mb d \<noteq> 0 then ''sbc'' else ''sub'') @ (handle_hl (d_index d)) @ '',de'')] d)
       else if \<not> is8080 (machine E) then
         (let d = BUF_PRINTF [lit ''jr        '', handle_rel8 E] d in
          Line (d\<lparr>d_dolf := True\<rparr>))
       else
         Line (BUF_PRINTF [lit ''nop''] d))
     else if isvm1 (machine E) then
       (if y = 4 then
         Line (BUF_PRINTF [lit ''orl       '', handle_register8 E 6] d)
       else if y = 6 then
         Line (BUF_PRINTF [lit ''xorl      '', handle_register8 E 6] d)
       else if y = 5 then
         (let nb = PEEK_BYTE E 0 d in
          (if nb = 0x00 \<or> nb = 0x7f then
            (let d = snd (READ_BYTE E d) in
             Line (BUF_PRINTF [lit (ljust 10 (if nb = 0 then ''smf0'' else ''smf1''))] d))
          else if d_mb d \<noteq> 0 \<or> nb = 0x28 then
            Line (BUF_PRINTF [lit (''defb      $'' @ hexw 2 b)] d)
          else
            (let op = PEEK_BYTE E (if nb = 0x38 then 1 else 0) d in
             (let d = d\<lparr>d_mb := 1\<rparr> in
              (let d = (if \<not> vm1_is_cs_opcode op then BUF_PRINTF [lit ''mb ''] d else d) in
               Again d)))))
       else
         (let nb = PEEK_BYTE E 0 d in
          (if d_index d \<noteq> 0 \<or> nb = 0x38 then
            Line (BUF_PRINTF [lit (''defb      $'' @ hexw 2 b)] d)
          else
            Again (d\<lparr>d_index := 3\<rparr>))))
     else if is8085 (machine E) then
       (if y = 4 then
         Line (BUF_PRINTF [lit ''rim       ''] d)
       else if y = 5 then
         Line (BUF_PRINTF [lit ''ld        de,hl+'', handle_immed8 E] d)
       else if y = 6 then
         Line (BUF_PRINTF [lit ''sim       ''] d)
       else if y = 7 then
         Line (BUF_PRINTF [lit ''ld        de,sp+'', handle_immed8 E] d)
       else
         Line d)
     else if \<not> is8080 (machine E) then
       Line (BUF_PRINTF [lit (''jr        '' @ (cc_table ! (nat (y - 4))) @ '',''), handle_rel8 E] d)
     else
       Line (BUF_PRINTF [lit ''nop''] d)))"

definition dis_x0_z1 :: "dis_env \<Rightarrow> int \<Rightarrow> dcontext \<Rightarrow> outcome" where
  "dis_x0_z1 E b d =
    (let y = shr (b AND 0x38) 3; p = shr (shr (b AND 0x38) 3 AND 0x06) 1; q = shr (b AND 0x38) 3 AND 0x01 in
     (if q = 0 then
       (if isez80 (machine E) \<and> y = 6 \<and> d_index d \<noteq> 0 then
         Line (BUF_PRINTF [lit (op_am E d ''ld'' @ (handle_hl (if d_index d = 1 then 2 else 1)) @ '',''), handle_register8 E 6] d)
       else
         Line (BUF_PRINTF [lit (op_am E d ''ld'' @ (handle_register16 p (d_index d)) @ '',''), handle_immed16 E] d))
     else
       Line (BUF_PRINTF [lit (op_am E d (if d_mb d \<noteq> 0 then ''adc'' else ''add'') @ (handle_kc_prefix E (d_kc d)) @ (handle_hl (d_index d)) @ '','' @ (handle_register16 p (d_index d)))] d)))"

definition dis_x0_z2 :: "dis_env \<Rightarrow> int \<Rightarrow> dcontext \<Rightarrow> outcome" where
  "dis_x0_z2 E b d =
    (let p = shr (shr (b AND 0x38) 3 AND 0x06) 1; q = shr (b AND 0x38) 3 AND 0x01 in
     (if q = 0 then
       (if p = 0 then
         Line (BUF_PRINTF [lit (op_am E d ''ld'' @ ''('' @ (handle_kc_prefix E (d_kc d)) @ ''bc),a'')] d)
       else if p = 1 then
         Line (BUF_PRINTF [lit (op_am E d ''ld'' @ ''('' @ (handle_kc_prefix E (d_kc d)) @ ''de),a'')] d)
       else if p = 2 \<and> \<not> isgbz80 (machine E) then
         Line (BUF_PRINTF [lit (op_am E d ''ld'' @ ''('' @ (handle_kc_segment E (d_kc d))), handle_addr16 E, lit (''),'' @ (handle_hl (d_index d)))] d)
       else if p = 2 \<and> isgbz80 (machine E) then
         Line (BUF_PRINTF [lit ''ld        (hl+),a''] d)
       else if p = 3 \<and> d_index d \<noteq> 0 \<and> dis_rabbit6k E then
         Line (BUF_PRINTF [lit (''swap      '' @ (r4k_32b_table ! (nat ((d_index d) - 1))))] d)
       else if p = 3 \<and> \<not> isgbz80 (machine E) then
         Line (BUF_PRINTF [lit (op_am E d ''ld'' @ ''('' @ (handle_kc_segment E (d_kc d))), handle_addr16 E, lit ''),a''] d)
       else if p = 3 \<and> isgbz80 (machine E) then
         Line (BUF_PRINTF [lit ''ld        (hl-),a''] d)
       else
         Line d)
     else if q = 1 then
       (if p = 0 then
         Line (BUF_PRINTF [lit (op_am E d ''ld'' @ ''a,('' @ (handle_kc_prefix E (d_kc d)) @ ''bc)'')] d)
       else if p = 1 then
         Line (BUF_PRINTF [lit (op_am E d ''ld'' @ ''a,('' @ (handle_kc_prefix E (d_kc d)) @ ''de)'')] d)
       else if p = 2 \<and> \<not> isgbz80 (machine E) then
         Line (BUF_PRINTF [lit (op_am E d ''ld'' @ (handle_hl (d_index d)) @ '',('' @ (handle_kc_segment E (d_kc d))), handle_addr16 E, lit '')''] d)
       else if p = 2 \<and> isgbz80 (machine E) then
         Line (BUF_PRINTF [lit ''ld        a,(hl+)''] d)
       else if p = 3 \<and> \<not> isgbz80 (machine E) then
         Line (BUF_PRINTF [lit (op_am E d ''ld'' @ ''a,('' @ (handle_kc_segment E (d_kc d))), handle_addr16 E, lit '')''] d)
       else if p = 3 \<and> isgbz80 (machine E) then
         Line (BUF_PRINTF [lit ''ld        a,(hl-)''] d)
       else
         Line d)
     else
       Line d))"

definition dis_x0_z6 :: "dis_env \<Rightarrow> int \<Rightarrow> dcontext \<Rightarrow> outcome" where
  "dis_x0_z6 E b d =
    (let y = shr (b AND 0x38) 3 in
     (if isez80 (machine E) \<and> d_index d \<noteq> 0 \<and> y = 7 then
       Line (BUF_PRINTF [lit (op_am E d ''ld''), handle_register8 E 6, lit ('','' @ (handle_hl (if d_index d = 1 then 2 else 1)))] d)
     else if dis_rabbit4k E \<and> d_index d \<noteq> 0 \<and> y = 0 then
       Line (BUF_PRINTF [lit (''ld        a,('' @ (handle_hl (d_index d)) @ ''+a)'')] d)
     else
       (let d = to_opbuf1 (handle_register8 E y) d in
        (let d = to_opbuf2 (handle_immed8 E) d in
         Line (BUF_PRINTF [lit (ljust 10 (if y = 6 then handle_ez80_am E d ''ld'' else ''ld'') @ (d_opbuf1 d) @ '','' @ (d_opbuf2 d))] d)))))"

definition dis_x0_z7 :: "dis_env \<Rightarrow> int \<Rightarrow> dcontext \<Rightarrow> outcome" where
  "dis_x0_z7 E b d =
    (let y = shr (b AND 0x38) 3; p = shr (shr (b AND 0x38) 3 AND 0x06) 1; q = shr (b AND 0x38) 3 AND 0x01 in
     (if israbbit (machine E) \<and> y = 4 then
       Line (BUF_PRINTF [lit ''add       sp,'', handle_displacement E] d)
     else if isez80 (machine E) \<and> d_index d \<noteq> 0 then
       (if q = 0 \<and> y < 6 then
         Line (BUF_PRINTF [lit (op_am E d ''ld'' @ (handle_register16 p 0) @ '',''), handle_register8 E 6] d)
       else if q = 1 \<and> y < 6 then
         Line (BUF_PRINTF [lit (op_am E d ''ld''), handle_register8 E 6, lit ('','' @ (handle_register16 p 0))] d)
       else if y = 6 then
         Line (BUF_PRINTF [lit (op_am E d ''ld'' @ (handle_hl (d_index d)) @ '',''), handle_register8 E 6] d)
       else if y = 7 then
         Line (BUF_PRINTF [lit (op_am E d ''ld''), handle_register8 E 6, lit ('','' @ (handle_hl (d_index d)))] d)
       else
         Line d)
     else
       Line (BUF_PRINTF [lit (ljust 10 (assorted_mainpage_opcodes ! (nat y)))] d)))"

definition dis_x0 :: "dis_env \<Rightarrow> int \<Rightarrow> dcontext \<Rightarrow> outcome" where
  "dis_x0 E b d =
    (let y = shr (b AND 0x38) 3; z = b AND 0x07; p = shr (shr (b AND 0x38) 3 AND 0x06) 1; q = shr (b AND 0x38) 3 AND 0x01 in
     (if d_index d \<noteq> 0 \<and> dis_rabbit4k E \<and> q = 1 \<and> z = 2 \<and> p < 2 then
       Line (BUF_PRINTF [lit (ljust 10 (if p = 0 then ''ldf'' else ''ld'') @ (r4k_32b_table ! (nat ((d_index d) - 1))) @ '',(''), (if p = 0 then handle_addr24 E else lit (''hl'')), lit '')''] d)
     else if d_index d \<noteq> 0 \<and> dis_rabbit4k E \<and> q = 1 \<and> z = 3 \<and> p < 2 then
       Line (BUF_PRINTF [lit (ljust 10 (if p = 0 then ''ldf'' else ''ld'') @ ''(''), (if p = 0 then handle_addr24 E else lit (''hl'')), lit (''),'' @ (r4k_32b_table ! (nat ((d_index d) - 1))))] d)
     else if d_index d \<noteq> 0 \<and> dis_rabbit4k E \<and> q = 1 \<and> z = 4 then
       Line (BUF_PRINTF [lit (''ld        '' @ (r4k_32b_table ! (nat ((d_index d) - 1))) @ '',('' @ (r4k_ps_table ! (nat p)) @ ''+hl)'')] d)
     else if d_index d \<noteq> 0 \<and> dis_rabbit4k E \<and> q = 1 \<and> z = 5 then
       Line (BUF_PRINTF [lit (''ld        ('' @ (r4k_ps_table ! (nat p)) @ ''+hl),'' @ (r4k_32b_table ! (nat ((d_index d) - 1))))] d)
     else if d_index d \<noteq> 0 \<and> dis_rabbit4k E \<and> q = 1 \<and> z = 6 then
       Line (BUF_PRINTF [lit (''ld        '' @ (r4k_32b_table ! (nat ((d_index d) - 1))) @ '',('' @ (r4k_ps_table ! (nat p))), handle_displacement E, lit '')''] d)
     else if d_index d \<noteq> 0 \<and> dis_rabbit4k E \<and> q = 1 \<and> z = 7 then
       Line (BUF_PRINTF [lit (''ld        ('' @ (r4k_ps_table ! (nat p))), handle_displacement E, lit (''),'' @ (r4k_32b_table ! (nat ((d_index d) - 1))))] d)
     else
       if z = 0 then
         dis_x0_z0 E b d
       else if z = 1 then
         dis_x0_z1 E b d
       else if z = 2 then
         dis_x0_z2 E b d
       else if z = 3 then
         (if q = 0 then
           Line (BUF_PRINTF [lit (op_am E d ''inc'' @ (handle_kc_prefix E (d_kc d)) @ (handle_register16 p (d_index d)))] d)
         else
           Line (BUF_PRINTF [lit (op_am E d ''dec'' @ (handle_kc_prefix E (d_kc d)) @ (handle_register16 p (d_index d)))] d))
       else if z = 4 then
         Line (BUF_PRINTF [lit (ljust 10 (if y = 6 then handle_ez80_am E d ''inc'' else ''inc'')), handle_register8 E y] d)
       else if z = 5 then
         Line (BUF_PRINTF [lit (ljust 10 (if y = 6 then handle_ez80_am E d ''dec'' else ''dec'')), handle_register8 E y] d)
       else if z = 6 then
         dis_x0_z6 E b d
       else if z = 7 then
         dis_x0_z7 E b d
       else Line d))"

definition dis_49 :: "dis_env \<Rightarrow> int \<Rightarrow> dcontext \<Rightarrow> outcome" where
  "dis_49 E b d =
    (let z = b AND 0x07; p = shr (shr (b AND 0x38) 3 AND 0x06) 1; q = shr (b AND 0x38) 3 AND 0x01 in
     (if b < 0x80 then
       (let lhs_vals = [''jkhl'', ''a'', ''hl'', ''jkhl''] in
        (let alu_op = shr b 4 in
         (let lhs = shr (b AND 0x0c) 2 in
          (let rhstype = shr (b AND 0x0c) 2 in
           (let psreg = b AND 0x03 in
            (let d = BUF_PRINTF [lit (ljust 10 (alu_table ! (nat alu_op)) @ (lhs_vals ! (nat lhs)) @ '','')] d in
             (if rhstype = 0 then
               Line (BUF_PRINTF [lit ((r4k_ps_table ! (nat psreg)))] d)
             else
               Line (BUF_PRINTF [lit (''('' @ (r4k_ps_table ! (nat psreg))), handle_displacement E, lit '')''] d))))))))
     else if z = 0 then
       (let b49_blocks = [''nop'', ''nop'', ''pldisr'', ''plddsr'', ''pldi'', ''pldd'', ''pldir'', ''plddr'', ''puma'', ''pums'', ''plsidr'', ''plsddr'', ''nop'', ''nop'', ''plsir'', ''plsdr''] in
        (let oper = shr (b AND 0x78) 3 in
         Line (BUF_PRINTF [lit (ljust 10 (b49_blocks ! (nat oper)))] d)))
     else if z = 2 \<and> q = 0 then
       (let oper = shr (b AND 0x70) 4 in
        (let b49_aes_b1 = [''nop'', ''nop'', ''aessr'', ''aesmc'', ''shaf1'', ''shaf2'', ''shaf3'', ''nop''] in
         Line (BUF_PRINTF [lit (ljust 10 (b49_aes_b1 ! (nat oper)))] d)))
     else if z = 3 \<and> q = 0 then
       (let oper = shr (b AND 0x70) 4 in
        (let b49_aes_b1 = [''nop'', ''nop'', ''aesisr'', ''aesimc'', ''md5f1'', ''md5f2'', ''md5f3'', ''nop''] in
         Line (BUF_PRINTF [lit (ljust 10 (b49_aes_b1 ! (nat oper)))] d)))
     else if 4 \<le> z \<and> q = 1 then
       (let b49_blocks = [''sl'', ''rl'', ''sr'', ''rr''] in
        Line (BUF_PRINTF [lit ((b49_blocks ! (nat (z - 4))) @ dec_text (1 + (shr (b AND 0x70) 4)) @ ''reg  '')] d))
     else if q = 1 then
       (let lhs = [[], ''a'', ''hl'', ''jkhl''] in
        (let alu_op = (shr b 4) AND 0x07 in
         Line (BUF_PRINTF [lit (ljust 10 (alu_table ! (nat alu_op)) @ (lhs ! (nat z)) @ '',(sp+''), handle_immed8 E, lit '')''] d)))
     else if 4 \<le> z \<and> p = 2 then
       Line (BUF_PRINTF [lit (''inc       ('' @ (r4k_ps_table ! (nat (z - 4)))), handle_displacement E, lit '')''] d)
     else if 4 \<le> z \<and> p = 3 then
       Line (BUF_PRINTF [lit (''dec       ('' @ (r4k_ps_table ! (nat (z - 4)))), handle_displacement E, lit '')''] d)
     else
       Line (BUF_PRINTF [lit ''nop''] d)))"

definition dis_6d :: "dis_env \<Rightarrow> int \<Rightarrow> dcontext \<Rightarrow> outcome" where
  "dis_6d E b d =
    (let x = shr b 6; y = shr (b AND 0x38) 3; z = b AND 0x07; p = shr (shr (b AND 0x38) 3 AND 0x06) 1; q = shr (b AND 0x38) 3 AND 0x01 in
     (if z = 0 \<and> q = 0 then
       Line (BUF_PRINTF [lit (''ld        '' @ (r4k_16b_table ! (nat x)) @ '',('' @ (r4k_ps_table ! (nat p))), handle_displacement E, lit '')''] d)
     else if z = 1 \<and> q = 0 then
       Line (BUF_PRINTF [lit (''ld        ('' @ (r4k_ps_table ! (nat p))), handle_displacement E, lit (''),'' @ (r4k_16b_table ! (nat x)))] d)
     else if z = 2 \<and> q = 0 then
       Line (BUF_PRINTF [lit (''ld        '' @ (r4k_16b_table ! (nat x)) @ '',('' @ (r4k_ps_table ! (nat p)) @ ''+hl)'')] d)
     else if z = 3 \<and> q = 0 then
       Line (BUF_PRINTF [lit (''ld        ('' @ (r4k_ps_table ! (nat p)) @ ''+hl),'' @ (r4k_16b_table ! (nat x)))] d)
     else if z = 4 \<and> q = 0 then
       Line (BUF_PRINTF [lit (''ld        '' @ (r4k_ps_table ! (nat x)) @ '','' @ (r4k_ps_table ! (nat p)) @ ''+ix'')] d)
     else if z = 5 \<and> q = 0 then
       Line (BUF_PRINTF [lit (''ld        '' @ (r4k_ps_table ! (nat x)) @ '','' @ (r4k_ps_table ! (nat p)) @ ''+iy'')] d)
     else if z = 6 \<and> q = 0 then
       Line (BUF_PRINTF [lit (''ld        '' @ (r4k_ps_table ! (nat x)) @ '','' @ (r4k_ps_table ! (nat p)) @ ''+de'')] d)
     else if z = 7 \<and> q = 0 then
       Line (BUF_PRINTF [lit (''ld        '' @ (r4k_ps_table ! (nat x)) @ '','' @ (r4k_ps_table ! (nat p)))] d)
     else if z = 0 \<and> q = 1 then
       Line (BUF_PRINTF [lit (''ld        '' @ (r4k_ps_table ! (nat x)) @ '',('' @ (r4k_ps_table ! (nat p))), handle_displacement E, lit '')''] d)
     else if z = 1 \<and> q = 1 then
       Line (BUF_PRINTF [lit (''ld        ('' @ (r4k_ps_table ! (nat p))), handle_displacement E, lit (''),'' @ (r4k_ps_table ! (nat x)))] d)
     else if z = 2 \<and> q = 1 then
       Line (BUF_PRINTF [lit (''ld        '' @ (r4k_ps_table ! (nat x)) @ '',('' @ (r4k_ps_table ! (nat p)) @ ''+hl)'')] d)
     else if z = 3 \<and> q = 1 then
       Line (BUF_PRINTF [lit (''ld        ('' @ (r4k_ps_table ! (nat p)) @ ''+hl),'' @ (r4k_ps_table ! (nat x)))] d)
     else if z = 4 \<and> q = 1 then
       Line (BUF_PRINTF [lit (''ld        '' @ (r4k_ps_table ! (nat x)) @ '','' @ (r4k_ps_table ! (nat p))), handle_displacement E] d)
     else if z = 6 \<and> q = 1 then
       Line (BUF_PRINTF [lit (''ld        '' @ (r4k_ps_table ! (nat x)) @ '','' @ (r4k_ps_table ! (nat p)) @ ''+hl'')] d)
     else if x = 1 \<and> y = 5 \<and> z = 5 \<and> q = 1 then
       Line (BUF_PRINTF [lit ''ld        l,l''] d)
     else if x = 1 \<and> y = 7 \<and> z = 7 \<and> q = 1 then
       Line (BUF_PRINTF [lit ''ld        a,a''] d)
     else if z = 5 \<and> q = 1 \<and> p < 2 \<and> dis_rabbit6k E then
       Line (BUF_PRINTF [lit (ljust 10 (if p \<noteq> 0 then ''sbox'' else ''inc'') @ (r4k_ps_table ! (nat x)))] d)
     else if z = 7 \<and> q = 1 \<and> p < 2 \<and> dis_rabbit6k E then
       Line (BUF_PRINTF [lit (ljust 10 (if p \<noteq> 0 then ''ibox'' else ''dec'') @ (r4k_ps_table ! (nat x)))] d)
     else
       Line (BUF_PRINTF [lit ''nop       ''] d)))"

definition dis_x1_r4k :: "dis_env \<Rightarrow> int \<Rightarrow> dcontext \<Rightarrow> outcome" where
  "dis_x1_r4k E b d =
    (let y = shr (b AND 0x38) 3; z = b AND 0x07; q = shr (b AND 0x38) 3 AND 0x01 in
     (if q = 0 \<and> z = 5 then
       (if b = 0x45 then
         Line (BUF_PRINTF [lit ''sub       hl,jk''] d)
       else if b = 0x55 then
         Line (BUF_PRINTF [lit ''sub       hl,de''] d)
       else
         Line (BUF_PRINTF [lit ''add       hl,jk''] d))
     else if y < 2 then
       (if b = 0x42 then
         Line (BUF_PRINTF [lit ''rl        hl''] d)
       else if b = 0x44 then
         Line (BUF_PRINTF [lit (''ex        '' @ prime ''jkhl,bcde'')] d)
       else if b = 0x48 then
         Line (BUF_PRINTF [lit ''cp        hl,'', handle_displacement E] d)
       else if b = 0x4c then
         Line (BUF_PRINTF [lit ''test      hl''] d)
       else if b = 0x4d then
         Line (BUF_PRINTF [lit ''neg       hl''] d)
       else if b = 0x40 \<and> dis_rabbit6k E then
         (let d = d\<lparr>d_prefix := 0x40\<rparr> in
          Again (BUF_PRINTF [lit ''alts ''] d))
       else if b = 0x64 \<and> dis_rabbit6k E then
         (let d = d\<lparr>d_prefix := 0x40\<rparr> in
          Line (BUF_PRINTF [lit ''altsd''] d))
       else if b = 0x49 \<and> dis_rabbit6k E then
         (let (b, d) = READ_BYTE E d in dis_49 E b d)
       else
         Line (BUF_PRINTF [lit ''nop       ''] d))
     else if q = 0 \<and> z = 0 then
       Line (BUF_PRINTF [lit (''rlc       '' @ (if y = 2 then ''de'' else ''bc''))] d)
     else if q = 0 \<and> z = 1 then
       Line (BUF_PRINTF [lit (''rrc       '' @ (if y = 2 then ''de'' else ''bc''))] d)
     else if y = 4 \<and> z = 2 then
       Line (BUF_PRINTF [lit ''rl        bc''] d)
     else if y = 4 \<and> z = 3 then
       Line (BUF_PRINTF [lit ''rr        bc''] d)
     else if y = 2 \<and> z = 4 then
       Line (BUF_PRINTF [lit ''xor       hl,de''] d)
     else if y = 3 \<and> z = 3 \<and> (israbbit3k (machine E) \<or> dis_rabbit4k E) \<and> d_prefix d \<noteq> 0x76 then
       Line (BUF_PRINTF [lit ''idet      ''] d)
     else if y = 3 \<and> z = 3 then
       Line (BUF_PRINTF [lit ''ld        e,e''] d)
     else if b = 0x64 \<and> dis_rabbit6k E then
       (let d = d\<lparr>d_prefix := 0x64\<rparr> in
        Again (BUF_PRINTF [lit ''altsd ''] d))
     else if q = 1 \<and> z = 1 \<and> dis_rabbit6k E then
       Line (BUF_PRINTF [lit (ljust 10 (if y = 3 then ''mul'' else ''mulu'') @ ''hl,de'')] d)
     else if y = 5 \<and> z = 5 then
       (let (b, d) = READ_BYTE E d in dis_6d E b d)
     else
       Line (BUF_PRINTF [lit ''nop       ''] d)))"

definition dis_7f :: "dis_env \<Rightarrow> int \<Rightarrow> dcontext \<Rightarrow> outcome" where
  "dis_7f E b d =
    (let x = shr b 6; y = shr (b AND 0x38) 3; z = b AND 0x07 in
     (if x = 1 \<and> z \<noteq> 6 \<and> y \<noteq> 6 then
       (let d = to_opbuf1 (handle_register8 E y) d in
        (let d = to_opbuf2 (handle_register8 E z) d in
         (let d =
            (if y = 6 then
               (let d = d\<lparr>d_index := 0\<rparr> in
                to_opbuf2 (handle_register8 E z) d)
             else
               (if z = 6 then
                  (let d = d\<lparr>d_index := 0\<rparr> in
                   to_opbuf1 (handle_register8 E y) d)
                else
                  d))
          in
          Line (BUF_PRINTF [lit (ljust 10 (if y = 6 \<or> z = 6 then handle_ez80_am E d ''ld'' else ''ld'') @ (d_opbuf1 d) @ '','' @ (d_opbuf2 d))] d))))
     else if x = 2 then
       Line (BUF_PRINTF [lit (ljust 10 (if z = 6 then handle_ez80_am E d (alu_table ! (nat y)) else alu_table ! (nat y))), handle_register8 E z] d)
     else
       Line (BUF_PRINTF [lit ''nop       ''] d)))"

definition dis_ld_r_r :: "dis_env \<Rightarrow> int \<Rightarrow> dcontext \<Rightarrow> outcome" where
  "dis_ld_r_r E b d =
    (let y = shr (b AND 0x38) 3; z = b AND 0x07 in
     (if isez80 (machine E) \<and> y = z \<and> y < 4 then
       Again (d\<lparr>d_am := y + 1\<rparr>)
     else
       (let d = to_opbuf1 (handle_register8 E y) d in
        (let d = to_opbuf2 (handle_register8 E z) d in
         (let d =
            (if d_index d \<noteq> 3 then
               (if y = 6 then
                  (let d = d\<lparr>d_index := 0\<rparr> in
                   to_opbuf2 (handle_register8 E z) d)
                else
                  (if z = 6 then
                     (let d = d\<lparr>d_index := 0\<rparr> in
                      to_opbuf1 (handle_register8 E y) d)
                   else
                     d))
             else
               d)
          in
          Line (BUF_PRINTF [lit (ljust 10 (if y = 6 \<or> z = 6 then handle_ez80_am E d ''ld'' else ''ld'') @ (d_opbuf1 d) @ '','' @ (d_opbuf2 d))] d))))))"

definition dis_x1 :: "dis_env \<Rightarrow> int \<Rightarrow> dcontext \<Rightarrow> outcome" where
  "dis_x1 E b d =
    (let y = shr (b AND 0x38) 3; z = b AND 0x07; p = shr (shr (b AND 0x38) 3 AND 0x06) 1; q = shr (b AND 0x38) 3 AND 0x01 in
     (if d_index d \<noteq> 0 \<and> dis_rabbit4k E \<and> q = 1 \<and> z = 0 then
       Line (BUF_PRINTF [lit (ljust 10 (rot_table ! (nat p)) @ ''1,'' @ (r4k_32b_table ! (nat ((d_index d) - 1))))] d)
     else if d_index d \<noteq> 0 \<and> dis_rabbit4k E \<and> q = 1 \<and> z = 1 then
       Line (BUF_PRINTF [lit (ljust 10 (rot_table ! (nat p)) @ ''2,'' @ (r4k_32b_table ! (nat ((d_index d) - 1))))] d)
     else if d_index d \<noteq> 0 \<and> dis_rabbit4k E \<and> q = 1 \<and> z = 3 then
       Line (BUF_PRINTF [lit (ljust 10 (rot_table ! (nat p)) @ ''4,'' @ (r4k_32b_table ! (nat ((d_index d) - 1))))] d)
     else if d_index d \<noteq> 0 \<and> dis_rabbit4k E \<and> q = 1 \<and> z = 7 then
       (if b = 0x6F then
         Line (BUF_PRINTF [lit (''rlb       a,'' @ (r4k_32b_table ! (nat ((d_index d) - 1))))] d)
       else if b = 0x7F then
         Line (BUF_PRINTF [lit (''rrb       a,'' @ (r4k_32b_table ! (nat ((d_index d) - 1))))] d)
       else
         Line (BUF_PRINTF [lit (ljust 10 (rot_table ! (nat p)) @ ''8,'' @ (r4k_32b_table ! (nat ((d_index d) - 1))))] d))
     else if d_index d \<noteq> 0 \<and> dis_rabbit4k E \<and> q = 1 \<and> z = 4 \<and> p < 2 then
       Line (BUF_PRINTF [lit (''test      '' @ (if p = 0 then handle_hl (d_index d) else r4k_32b_table ! (nat ((d_index d) - 1))))] d)
     else if d_index d \<noteq> 0 \<and> dis_rabbit4k E \<and> q = 1 \<and> p = 0 \<and> z = 5 then
       Line (BUF_PRINTF [lit (''neg       '' @ (r4k_32b_table ! (nat ((d_index d) - 1))))] d)
     else if z = 6 \<and> y = 6 then
       (if israbbit (machine E) then
         (let d = BUF_PRINTF [lit ''altd ''] d in
          Again (d\<lparr>d_prefix := 0x76\<rparr>))
       else
         Line (BUF_PRINTF [lit ''halt      ''] d))
     else if dis_rabbit4k E \<and> y < 6 \<and> d_index d = 0 \<and> z < 6 then
       dis_x1_r4k E b d
     else if israbbit (machine E) \<and> z = 4 \<and> y = 7 \<and> d_index d \<noteq> 0 then
       Line (BUF_PRINTF [lit (''ld        hl,'' @ (handle_register16 2 (d_index d)))] d)
     else if israbbit (machine E) \<and> z = 5 \<and> y = 7 \<and> d_index d \<noteq> 0 then
       Line (BUF_PRINTF [lit (''ld        '' @ (handle_register16 2 (d_index d)) @ '',hl'')] d)
     else if israbbit (machine E) \<and> z = 4 \<and> y = 4 \<and> d_index d \<noteq> 0 then
       Line (BUF_PRINTF [lit (''ldp       ('' @ (handle_register16 2 (d_index d)) @ ''),hl'')] d)
     else if israbbit (machine E) \<and> z = 5 \<and> y = 4 \<and> d_index d \<noteq> 0 then
       Line (BUF_PRINTF [lit ''ldp       ('', handle_addr16 E, lit (''),'' @ (handle_register16 2 (d_index d)))] d)
     else if israbbit (machine E) \<and> z = 4 \<and> y = 5 \<and> d_index d \<noteq> 0 then
       Line (BUF_PRINTF [lit (''ldp       hl,('' @ (handle_register16 2 (d_index d)) @ '')'')] d)
     else if israbbit (machine E) \<and> z = 5 \<and> y = 5 \<and> d_index d \<noteq> 0 then
       Line (BUF_PRINTF [lit (''ldp       '' @ (handle_register16 2 (d_index d)) @ '',(''), handle_addr16 E, lit '')''] d)
     else if (israbbit3k (machine E) \<or> dis_rabbit4k E) \<and> z = 3 \<and> y = 3 \<and> d_index d = 0 then
       (if d_prefix d = 0x76 then
         (let d = BUF_RESET E d in
          Line (BUF_PRINTF [lit (''ld        '' @ prime ''e'' @ '',e'')] d))
       else
         Line (BUF_PRINTF [lit ''idet      ''] d))
     else if dis_rabbit4k E \<and> z = 7 \<and> y = 7 then
       (let (b, d) = READ_BYTE E d in dis_7f E b d)
     else if iskc160ext (machine E) \<and> z = y then
       Again (d\<lparr>d_kc := z\<rparr>)
     else
       dis_ld_r_r E b d))"

definition dis_x2_r4k :: "dis_env \<Rightarrow> int \<Rightarrow> dcontext \<Rightarrow> outcome" where
  "dis_x2_r4k E b d =
    (let y = shr (b AND 0x38) 3; z = b AND 0x07; p = shr (shr (b AND 0x38) 3 AND 0x06) 1; q = shr (b AND 0x38) 3 AND 0x01 in
     (if d_index d \<noteq> 0 \<and> q = 1 \<and> z = 0 then
       Line (BUF_PRINTF [lit (ljust 10 (rot_table ! (nat (p + 4))) @ ''1,'' @ (r4k_32b_table ! (nat ((d_index d) - 1))))] d)
     else if d_index d \<noteq> 0 \<and> q = 1 \<and> z = 1 then
       Line (BUF_PRINTF [lit (ljust 10 (rot_table ! (nat (p + 4))) @ ''2,'' @ (r4k_32b_table ! (nat ((d_index d) - 1))))] d)
     else if d_index d \<noteq> 0 \<and> q = 1 \<and> z = 3 then
       Line (BUF_PRINTF [lit (ljust 10 (rot_table ! (nat (p + 4))) @ ''4,'' @ (r4k_32b_table ! (nat ((d_index d) - 1))))] d)
     else if d_index d \<noteq> 0 \<and> q = 1 \<and> z = 4 then
       Line (BUF_PRINTF [lit (''ldl       '' @ (r4k_ps_table ! (nat p)) @ '','' @ (handle_hl (d_index d)))] d)
     else if d_index d \<noteq> 0 \<and> q = 1 \<and> z = 5 then
       Line (BUF_PRINTF [lit (''ld        '' @ (r4k_ps_table ! (nat p)) @ '','' @ (r4k_32b_table ! (nat ((d_index d) - 1))))] d)
     else if d_index d \<noteq> 0 \<and> q = 1 \<and> z = 7 then
       Line (BUF_PRINTF [lit (''ldl       '' @ (r4k_ps_table ! (nat p)) @ '','' @ (rp2_table ! (nat (d_index d))))] d)
     else if d_index d \<noteq> 0 \<and> z = 6 then
       Line (BUF_PRINTF [lit (ljust 10 (alu_table ! (nat y))), handle_register8 E z] d)
     else if d_index d \<noteq> 0 \<and> z \<le> 3 \<and> dis_rabbit6k E then
       Line (BUF_PRINTF [lit (ljust 10 (alu_table ! (nat (y + (z AND 1)))) @ (if z AND 2 \<noteq> 0 then ''jkhl'' else ''hl'') @ '',('' @ (handle_hl (d_index d))), handle_displacement E, lit '')''] d)
     else if q = 0 \<and> z = 5 then
       Line (BUF_PRINTF [lit (''ld        hl,('' @ (r4k_ps_table ! (nat p))), handle_displacement E, lit '')''] d)
     else if q = 0 \<and> z = 6 then
       Line (BUF_PRINTF [lit (''ld        ('' @ (r4k_ps_table ! (nat p))), handle_displacement E, lit ''),hl''] d)
     else if q = 1 \<and> z = 3 then
       Line (BUF_PRINTF [lit (''ld        a,('' @ (r4k_ps_table ! (nat p)) @ ''+hl)'')] d)
     else if q = 1 \<and> z = 4 then
       Line (BUF_PRINTF [lit (''ld        ('' @ (r4k_ps_table ! (nat p)) @ ''+hl),a'')] d)
     else if q = 1 \<and> z = 5 then
       Line (BUF_PRINTF [lit (''ld        a,('' @ (r4k_ps_table ! (nat p))), handle_displacement E, lit '')''] d)
     else if q = 1 \<and> z = 6 then
       Line (BUF_PRINTF [lit (''ld        ('' @ (r4k_ps_table ! (nat p))), handle_displacement E, lit ''),a''] d)
     else if q = 1 \<and> z = 0 \<and> y = 3 then
       Line (BUF_PRINTF [lit ''jre       '', handle_rel16 E] d)
     else if 3 < y \<and> z = 0 then
       Line (BUF_PRINTF [lit (''jr        '' @ (r4k_cc_table ! (nat (y - 4))) @ '',''), handle_rel8 E] d)
     else if 3 < y \<and> z = 2 then
       Line (BUF_PRINTF [lit (''jp        '' @ (r4k_cc_table ! (nat (y - 4))) @ '',''), handle_addr16 E] d)
     else if y = 0 \<and> q = 0 \<and> z = 1 then
       Line (BUF_PRINTF [lit ''ld        hl,bc''] d)
     else if y = 0 \<and> q = 0 \<and> z = 2 then
       Line (BUF_PRINTF [lit ''ldf       ('', handle_addr24 E, lit ''),hl''] d)
     else if y = 2 \<and> q = 0 \<and> z = 1 then
       Line (BUF_PRINTF [lit ''ld        bc,hl''] d)
     else if y = 2 \<and> q = 0 \<and> z = 2 then
       Line (BUF_PRINTF [lit ''ldf       hl,('', handle_addr24 E, lit '')''] d)
     else if y = 4 \<and> q = 0 \<and> z = 1 then
       Line (BUF_PRINTF [lit ''ld        hl,de''] d)
     else if y = 6 \<and> q = 0 \<and> z = 1 then
       Line (BUF_PRINTF [lit ''ld        de,hl''] d)
     else if y = 2 \<and> q = 0 \<and> z = 7 then
       Line (BUF_PRINTF [lit ''ld        lxpc,hl''] d)
     else if y = 4 \<and> q = 0 \<and> z = 7 then
       Line (BUF_PRINTF [lit ''mulu      ''] d)
     else if y = 6 \<and> q = 0 \<and> z = 7 then
       Line (BUF_PRINTF [lit ''or        a''] d)
     else if y = 1 \<and> q = 1 \<and> z = 1 then
       Line (BUF_PRINTF [lit ''ld        ('', handle_addr16 E, lit ''),jk''] d)
     else if y = 1 \<and> q = 1 \<and> z = 2 then
       Line (BUF_PRINTF [lit ''ldf       ('', handle_addr24 E, lit ''),a''] d)
     else if y = 3 \<and> q = 1 \<and> z = 1 then
       Line (BUF_PRINTF [lit ''ld        jk,('', handle_addr16 E, lit '')''] d)
     else if y = 3 \<and> q = 1 \<and> z = 2 then
       Line (BUF_PRINTF [lit ''ldf       a,('', handle_addr24 E, lit '')''] d)
     else if y = 3 \<and> q = 1 \<and> z = 7 then
       Line (BUF_PRINTF [lit ''ld        hl,lxpc''] d)
     else if y = 5 \<and> q = 1 \<and> z = 1 then
       Line (BUF_PRINTF [lit ''ld        jk,'', handle_immed16 E] d)
     else if y = 5 \<and> q = 1 \<and> z = 7 then
       Line (BUF_PRINTF [lit ''xor       a''] d)
     else if y = 7 \<and> q = 1 \<and> z = 1 then
       Line (BUF_PRINTF [lit ''ex        jk,hl''] d)
     else if y = 7 \<and> q = 1 \<and> z = 7 then
       Line (BUF_PRINTF [lit ''clr       hl''] d)
     else if y = 0 \<and> q = 0 \<and> (z = 3 \<or> z = 4) then
       Line (BUF_PRINTF [lit ''ld        ('', handle_addr16 E, lit (''),'' @ (r4k_32b_table ! (nat (z - 3))))] d)
     else if y = 2 \<and> q = 0 \<and> (z = 3 \<or> z = 4) then
       Line (BUF_PRINTF [lit (''ld        '' @ (r4k_32b_table ! (nat (z - 3))) @ '',(''), handle_addr16 E, lit '')''] d)
     else if y = 4 \<and> q = 0 \<and> (z = 3 \<or> z = 4) then
       Line (BUF_PRINTF [lit (''ld        '' @ (r4k_32b_table ! (nat (z - 3))) @ '',''), handle_displacement E] d)
     else if y = 6 \<and> q = 0 \<and> z = 3 then
       Line (BUF_PRINTF [lit ''ex        bc,hl''] d)
     else if y = 6 \<and> q = 0 \<and> z = 4 then
       Line (BUF_PRINTF [lit ''ex        jkhl,bcde''] d)
     else if z = 7 \<and> p = 0 then
       (let d = to_opbuf1 (handle_addr16 E) d in
        (let d = to_opbuf2 (handle_immed16 E) d in
         Line (BUF_PRINTF [lit (ljust 10 (if q = 0 then ''lljp'' else ''llcall'') @ (d_opbuf2 d) @ '','' @ (d_opbuf1 d))] d)))
     else
       Line d))"

definition dis_x2 :: "dis_env \<Rightarrow> int \<Rightarrow> dcontext \<Rightarrow> outcome" where
  "dis_x2 E b d =
    (let y = shr (b AND 0x38) 3; z = b AND 0x07 in
     (if dis_rabbit4k E then
       dis_x2_r4k E b d
     else
       Line (BUF_PRINTF [lit (ljust 10 (if z = 6 then handle_ez80_am E d (alu_table ! (nat y)) else alu_table ! (nat y))), handle_register8 E z] d)))"

end
