(* ===== verification/Ticks_DisHigh.thy ===== *)
theory Ticks_DisHigh
  imports Ticks_DisState
begin

text \<open>
  The decoding of the opcodes c0 to ff with the CB and the ED pages: case 3 of the switch.
\<close>

definition dis_x3_z0 :: "dis_env \<Rightarrow> int \<Rightarrow> dcontext \<Rightarrow> outcome" where
  "dis_x3_z0 E b d =
    (let y = shr (b AND 0x38) 3 in
     (if \<not> isgbz80 (machine E) \<or> y < 4 then
       Line (BUF_PRINTF [lit (op_am E d ''ret'' @ (if israbbit (machine E) then rabbit_cc_table ! (nat y) else cc_table ! (nat y)))] d)
     else if y = 4 then
       Line (BUF_PRINTF [lit ''ld        ($ff00+'', handle_immed8 E, lit ''),a''] d)
     else if y = 5 then
       Line (BUF_PRINTF [lit ''add       sp,'', handle_displacement E] d)
     else if y = 6 then
       Line (BUF_PRINTF [lit ''ld        a,($ff00+'', handle_immed8 E, lit '')''] d)
     else if y = 7 then
       Line (BUF_PRINTF [lit ''ld        hl,sp'', handle_displacement E] d)
     else
       Line d))"

definition dis_x3_z1 :: "dis_env \<Rightarrow> int \<Rightarrow> dcontext \<Rightarrow> outcome" where
  "dis_x3_z1 E b d =
    (let p = shr (shr (b AND 0x38) 3 AND 0x06) 1; q = shr (b AND 0x38) 3 AND 0x01 in
     (if q = 0 \<and> p = 3 \<and> d_index d \<noteq> 0 \<and> dis_rabbit4k E then
       Line (BUF_PRINTF [lit (''pop       '' @ (r4k_32b_table ! (nat ((d_index d) - 1))))] d)
     else if q = 0 then
       Line (BUF_PRINTF [lit (op_am E d ''pop'' @ (handle_register16_2 p (d_index d)))] d)
     else if q = 1 then
       (if p = 0 then
         (let d = BUF_PRINTF [lit (op_am E d ''ret'')] d in
          Line (d\<lparr>d_dolf := True\<rparr>))
       else if p = 1 \<and> is8080 (machine E) then
         Line (BUF_PRINTF [lit ''nop''] d)
       else if p = 1 \<and> (is8085 (machine E) \<or> isvm1 (machine E)) then
         Line (BUF_PRINTF [lit (''ld        (de),'' @ (handle_hl (d_index d)))] d)
       else if p = 1 \<and> \<not> isgbz80 (machine E) then
         Line (BUF_PRINTF [lit ''exx''] d)
       else if p = 1 \<and> isgbz80 (machine E) then
         (let d = BUF_PRINTF [lit ''reti''] d in
          Line (d\<lparr>d_dolf := True\<rparr>))
       else if p = 2 then
         (let d = BUF_PRINTF [lit (op_am E d ''jp'' @ ''('' @ (handle_kc_prefix E (d_kc d)) @ (handle_register16 2 (d_index d)) @ '')'')] d in
          Line (d\<lparr>d_dolf := True\<rparr>))
       else if p = 3 then
         Line (BUF_PRINTF [lit (op_am E d ''ld'' @ ''sp,'' @ (handle_register16 2 (d_index d)))] d)
       else
         Line d)
     else
       Line d))"

definition dis_x3_z2 :: "dis_env \<Rightarrow> int \<Rightarrow> dcontext \<Rightarrow> outcome" where
  "dis_x3_z2 E b d =
    (let y = shr (b AND 0x38) 3 in
     (if y = 5 \<and> dis_rabbit4k E \<and> d_index d \<noteq> 0 then
       Line (BUF_PRINTF [lit (''call      ('' @ (handle_hl (d_index d)) @ '')'')] d)
     else if \<not> isgbz80 (machine E) \<or> y < 4 then
       Line (BUF_PRINTF [lit (op_am E d ''jp'' @ (if israbbit (machine E) then rabbit_cc_table ! (nat y) else cc_table ! (nat y)) @ '',''), handle_addr16 E] d)
     else if y = 4 then
       Line (BUF_PRINTF [lit ''ld        ($ff00+c),a''] d)
     else if y = 5 then
       Line (BUF_PRINTF [lit ''ld        ('', handle_addr16 E, lit ''),a''] d)
     else if y = 6 then
       Line (BUF_PRINTF [lit ''ld        a,($ff00+c)''] d)
     else if y = 7 then
       Line (BUF_PRINTF [lit ''ld        a,('', handle_addr16 E, lit '')''] d)
     else
       Line d))"

definition dis_cb :: "dis_env \<Rightarrow> int \<Rightarrow> dcontext \<Rightarrow> outcome" where
  "dis_cb E b d =
    (let x = shr b 6; y = shr (b AND 0x38) 3; z = b AND 0x07 in
     (if x = 0 then
       (let instr = handle_rot E y in
        (let d =
           (if d_index d \<noteq> 0 \<and> z \<noteq> 6 \<and> instr \<noteq> None then
              (let d = to_opbuf2 (handle_register8 E 6) d in
               (let d = d\<lparr>d_index := 0\<rparr> in
                (let d = to_opbuf1 (handle_register8 E z) d in
                 (if cancbundoc (machine E) then
                    BUF_PRINTF [lit (''ld        '' @ (d_opbuf1 d) @ '','' @ (the instr) @ '' '' @ (d_opbuf2 d))] d
                  else
                    BUF_PRINTF [lit ''nop''] d))))
            else
              (if instr \<noteq> None then
                 BUF_PRINTF [lit (ljust 10 (if z = 6 then handle_ez80_am E d (the instr) else the instr)), handle_register8 E z] d
               else
                 BUF_PRINTF [lit ''nop''] d))
         in
         Line (d\<lparr>d_prefix := 0\<rparr>)))
     else if x = 1 then
       (let z = (if cancbundoc (machine E) \<and> d_index d \<noteq> 0 then 6 else z) in
        (let d =
           (if \<not> cancbundoc (machine E) \<and> d_index d \<noteq> 0 \<and> z \<noteq> 6 then
              BUF_PRINTF [lit ''nop''] d
            else
              BUF_PRINTF [lit (op_am E d ''bit'' @ dec_text y @ '',''), handle_register8 E z] d)
         in
         Line (d\<lparr>d_prefix := 0\<rparr>)))
     else if x = 2 then
       (let d =
          (if d_index d \<noteq> 0 \<and> z \<noteq> 6 then
             (let d = to_opbuf2 (handle_register8 E 6) d in
              (let d = d\<lparr>d_index := 0\<rparr> in
               (let d = to_opbuf1 (handle_register8 E z) d in
                (if cancbundoc (machine E) then
                   BUF_PRINTF [lit (''ld        '' @ (d_opbuf1 d) @ '',res '' @ dec_text y @ '','' @ (d_opbuf2 d))] d
                 else
                   BUF_PRINTF [lit ''nop''] d))))
           else
             BUF_PRINTF [lit (op_am E d ''res'' @ dec_text y @ '',''), handle_register8 E z] d)
        in
        Line (d\<lparr>d_prefix := 0\<rparr>))
     else if x = 3 then
       (let d =
          (if cancbundoc (machine E) \<and> d_index d \<noteq> 0 \<and> z \<noteq> 6 then
             (let d = to_opbuf2 (handle_register8 E 6) d in
              (let d = d\<lparr>d_index := 0\<rparr> in
               (let d = to_opbuf1 (handle_register8 E z) d in
                (if cancbundoc (machine E) then
                   BUF_PRINTF [lit (''ld        '' @ (d_opbuf1 d) @ '',set '' @ dec_text y @ '','' @ (d_opbuf2 d))] d
                 else
                   BUF_PRINTF [lit ''nop''] d))))
           else
             BUF_PRINTF [lit (op_am E d ''set'' @ dec_text y @ '',''), handle_register8 E z] d)
        in
        Line (d\<lparr>d_prefix := 0\<rparr>))
     else
       Line (d\<lparr>d_prefix := 0\<rparr>)))"

definition dis_x3_z3 :: "dis_env \<Rightarrow> int \<Rightarrow> dcontext \<Rightarrow> outcome" where
  "dis_x3_z3 E b d =
    (let y = shr (b AND 0x38) 3 in
     (if y = 0 then
       (let d = BUF_PRINTF [lit (op_am E d ''jp''), handle_addr16 E] d in
        Line (d\<lparr>d_dolf := True\<rparr>))
     else if y = 1 \<and> is8085 (machine E) then
       Line (BUF_PRINTF [lit ''rst       v,$0040''] d)
     else if y = 1 \<and> isvm1 (machine E) then
       Line (BUF_PRINTF [lit (ljust 10 (if d_mb d \<noteq> 0 then ''cpc'' else ''cp'') @ (handle_hl (d_index d)) @ '',bc'')] d)
     else if y = 1 \<and> is8080 (machine E) then
       Line (BUF_PRINTF [lit ''nop''] d)
     else if y = 1 then
       (let d = d\<lparr>d_prefix := 0xcb\<rparr> in
        (let d =
           (if d_index d \<noteq> 0 then
              (let (v, d) = READ_BYTE E d in d\<lparr>d_disp := v\<rparr>)
            else
              d)
         in
         (let (b, d) = READ_BYTE E d in dis_cb E b d)))
     else if y = 2 then
       (if israbbit (machine E) then
         Again (BUF_PRINTF [lit ''ioi ''] d)
       else if \<not> isgbz80 (machine E) then
         Line (BUF_PRINTF [lit ''out       ('', handle_immed8 E, lit ''),a''] d)
       else
         Line (BUF_PRINTF [lit ''nop''] d))
     else if y = 3 then
       (if israbbit (machine E) then
         Again (BUF_PRINTF [lit ''ioe ''] d)
       else if \<not> isgbz80 (machine E) then
         Line (BUF_PRINTF [lit ''in        a,('', handle_immed8 E, lit '')''] d)
       else
         Line (BUF_PRINTF [lit ''nop''] d))
     else if y = 4 then
       (if israbbit (machine E) \<and> d_index d = 0 then
         Line (BUF_PRINTF [lit (''ex        '' @ prime ''de'' @ '',hl'')] d)
       else if \<not> isgbz80 (machine E) then
         Line (BUF_PRINTF [lit (op_am E d ''ex'' @ ''(sp),'' @ (handle_register16 2 (d_index d)))] d)
       else
         Line (BUF_PRINTF [lit ''nop''] d))
     else if y = 5 then
       (if \<not> isgbz80 (machine E) then
         Line (BUF_PRINTF [lit ''ex        de,hl''] d)
       else
         Line (BUF_PRINTF [lit ''nop''] d))
     else if y = 6 then
       (if israbbit (machine E) then
         Line (BUF_PRINTF [lit ''rl        de''] d)
       else
         Line (BUF_PRINTF [lit ''di        ''] d))
     else if y = 7 then
       (if israbbit (machine E) then
         Line (BUF_PRINTF [lit ''rr        de''] d)
       else
         Line (BUF_PRINTF [lit ''ei        ''] d))
     else
       Line d))"

definition dis_x3_z4 :: "dis_env \<Rightarrow> int \<Rightarrow> dcontext \<Rightarrow> outcome" where
  "dis_x3_z4 E b d =
    (let y = shr (b AND 0x38) 3 in
     (if israbbit (machine E) then
       (if y = 0 then
         Line (BUF_PRINTF [lit (''ld        '' @ (handle_register16 2 (d_index d)) @ '',(sp+''), handle_immed8 E, lit '')''] d)
       else if y = 1 then
         Line (BUF_PRINTF [lit (''bool      '' @ (handle_register16 2 (d_index d)))] d)
       else if y = 2 then
         Line (BUF_PRINTF [lit ''ld        (sp+'', handle_immed8 E, lit (''),'' @ (handle_register16 2 (d_index d)))] d)
       else if y = 3 then
         Line (BUF_PRINTF [lit (''and       '' @ (handle_register16 2 (d_index d)) @ '',de'')] d)
       else if y = 4 then
         Line (BUF_PRINTF [lit (''ld        hl,('' @ (handle_register16 2 (if d_index d = 0 then 1 else (if d_index d = 1 then 0 else 2)))), handle_displacement E, lit '')''] d)
       else if y = 5 then
         Line (BUF_PRINTF [lit (''or        '' @ (handle_register16 2 (d_index d)) @ '',de'')] d)
       else if y = 6 then
         Line (BUF_PRINTF [lit (''ld        ('' @ (handle_register16 2 (if d_index d = 0 then 1 else (if d_index d = 1 then 0 else 2)))), handle_displacement E, lit ''),hl''] d)
       else if y = 7 then
         Line (BUF_PRINTF [lit (''rr        '' @ (handle_register16 2 (d_index d)))] d)
       else
         Line d)
     else if isgbz80 (machine E) \<and> 4 \<le> y then
       Line (BUF_PRINTF [lit ''nop''] d)
     else
       Line (BUF_PRINTF [lit (op_am E d ''call'' @ (if israbbit (machine E) then rabbit_cc_table ! (nat y) else cc_table ! (nat y)) @ '',''), handle_addr16 E] d)))"

definition dis_ed_r4k :: "dis_env \<Rightarrow> int \<Rightarrow> dcontext \<Rightarrow> outcome" where
  "dis_ed_r4k E b d =
    (let y = shr (b AND 0x38) 3; z = b AND 0x07; p = shr (shr (b AND 0x38) 3 AND 0x06) 1; q = shr (b AND 0x38) 3 AND 0x01 in
     (if q = 0 \<and> z = 0 \<and> y = 0 then
       Line (BUF_PRINTF [lit ''cbm       '', handle_immed8 E] d)
     else if q = 0 \<and> z = 0 \<and> y = 2 then
       Line (BUF_PRINTF [lit ''dwjnz     '', handle_rel8 E] d)
     else if q = 0 \<and> z = 2 \<and> y = 0 then
       Line (BUF_PRINTF [lit ''sbox      a''] d)
     else if q = 0 \<and> z = 2 \<and> y = 2 then
       Line (BUF_PRINTF [lit ''ibox      a''] d)
     else if q = 0 \<and> z = 1 then
       Line (BUF_PRINTF [lit (''ld        '' @ (r4k_ps_table ! (nat p)) @ '',(htr+hl)'')] d)
     else if q = 0 \<and> z = 3 then
       Line (BUF_PRINTF [lit (''ldl       '' @ (r4k_ps_table ! (nat p)) @ '',(sp+''), handle_immed8 E, lit '')''] d)
     else if q = 0 \<and> z = 4 then
       Line (BUF_PRINTF [lit (''ld        '' @ (r4k_ps_table ! (nat p)) @ '',(sp+''), handle_immed8 E, lit '')''] d)
     else if q = 0 \<and> z = 5 then
       Line (BUF_PRINTF [lit ''ld        (sp+'', handle_immed8 E, lit (''),'' @ (r4k_ps_table ! (nat p)))] d)
     else if q = 0 \<and> z = 6 then
       Line (BUF_PRINTF [lit (''ld        hl,('' @ (r4k_ps_table ! (nat p)) @ ''+bc)'')] d)
     else if q = 0 \<and> z = 7 then
       Line (BUF_PRINTF [lit (''ld        ('' @ (r4k_ps_table ! (nat p)) @ ''+bc),hl'')] d)
     else if q = 1 \<and> z = 0 then
       Line (BUF_PRINTF [lit (''ldf       '' @ (r4k_ps_table ! (nat p)) @ '',(''), handle_addr24 E, lit '')''] d)
     else if q = 1 \<and> z = 1 then
       Line (BUF_PRINTF [lit ''ldf       ('', handle_addr24 E, lit (''),'' @ (r4k_ps_table ! (nat p)))] d)
     else if q = 1 \<and> z = 2 then
       Line (BUF_PRINTF [lit (''ldf       '' @ (r4k_16b_table ! (nat p)) @ '',(''), handle_addr24 E, lit '')''] d)
     else if q = 1 \<and> z = 3 then
       Line (BUF_PRINTF [lit ''ldf       ('', handle_addr24 E, lit (''),'' @ (r4k_16b_table ! (nat p)))] d)
     else if q = 1 \<and> z = 4 then
       Line (BUF_PRINTF [lit (''ld        '' @ (r4k_ps_table ! (nat p)) @ '',''), handle_immed32 E] d)
     else if q = 1 \<and> z = 5 then
       Line (BUF_PRINTF [lit (''ldl       '' @ (r4k_ps_table ! (nat p)) @ '',''), handle_immed16 E] d)
     else if q = 1 \<and> z = 6 then
       Line (BUF_PRINTF [lit (''convc     '' @ (r4k_ps_table ! (nat p)))] d)
     else if q = 1 \<and> z = 7 then
       Line (BUF_PRINTF [lit (''convd     '' @ (r4k_ps_table ! (nat p)))] d)
     else
       Line (BUF_PRINTF [lit ''nop''] d)))"

definition dis_ed_z180 :: "dis_env \<Rightarrow> int \<Rightarrow> dcontext \<Rightarrow> outcome" where
  "dis_ed_z180 E b d =
    (let y = shr (b AND 0x38) 3; z = b AND 0x07; p = shr (shr (b AND 0x38) 3 AND 0x06) 1; q = shr (b AND 0x38) 3 AND 0x01 in
     (if z = 4 then
       Line (BUF_PRINTF [lit (ljust 10 (if y = 6 \<and> isez80 (machine E) then handle_ez80_am E d ''tst'' else ''tst'')), handle_register8 E y] d)
     else if z = 0 then
       Line (BUF_PRINTF [lit ''in0       '', (if y = 6 then lit (''f'') else handle_register8 E y), lit '',('', handle_immed8 E, lit '')''] d)
     else if z = 1 \<and> y \<noteq> 6 then
       Line (BUF_PRINTF [lit ''out0      ('', handle_immed8 E, lit ''),'', handle_register8 E y] d)
     else if z = 1 \<and> isez80 (machine E) then
       Line (BUF_PRINTF [lit (op_am E d ''ld'' @ ''iy,(hl)'')] d)
     else if (z = 2 \<or> z = 3) \<and> isez80 (machine E) then
       Line (BUF_PRINTF [lit (op_am E d ''lea'' @ (if y = 6 then handle_hl (z - 1) else handle_register16 p 0) @ '','' @ (handle_hl (z - 1))), handle_displacement E] d)
     else if z = 7 \<and> isez80 (machine E) then
       (if q = 1 then
         Line (BUF_PRINTF [lit (op_am E d ''ld'' @ ''(hl),'' @ (if p = 3 then handle_hl 1 else handle_register16 p 0))] d)
       else
         Line (BUF_PRINTF [lit (op_am E d ''ld'' @ (if p = 3 then handle_hl 1 else handle_register16 p 0) @ '',(hl)'')] d))
     else if z = 6 \<and> isez80 (machine E) then
       (if q = 1 then
         Line (BUF_PRINTF [lit (op_am E d ''ld'' @ ''(hl),iy'')] d)
       else
         Line (BUF_PRINTF [lit (op_am E d ''ld'' @ ''iy,(hl)'')] d))
     else
       Line (BUF_PRINTF [lit ''nop''] d)))"

definition dis_ed_z80n :: "dis_env \<Rightarrow> int \<Rightarrow> dcontext \<Rightarrow> outcome" where
  "dis_ed_z80n E b d =
     (if b = 0x23 then
       Line (BUF_PRINTF [lit ''swapnib''] d)
     else if b = 0x24 then
       Line (BUF_PRINTF [lit ''mirror    a''] d)
     else if b = 0x27 then
       Line (BUF_PRINTF [lit ''test      '', handle_immed8 E] d)
     else if b = 0x28 then
       Line (BUF_PRINTF [lit ''bsla      de,b''] d)
     else if b = 0x29 then
       Line (BUF_PRINTF [lit ''bsra      de,b''] d)
     else if b = 0x2a then
       Line (BUF_PRINTF [lit ''bsrl      de,b''] d)
     else if b = 0x2b then
       Line (BUF_PRINTF [lit ''bsrf      de,b''] d)
     else if b = 0x2c then
       Line (BUF_PRINTF [lit ''brlc      de,b''] d)
     else if b = 0x30 then
       Line (BUF_PRINTF [lit ''mul       d,e''] d)
     else if b = 0x31 then
       Line (BUF_PRINTF [lit ''add       hl,a''] d)
     else if b = 0x32 then
       Line (BUF_PRINTF [lit ''add       de,a''] d)
     else if b = 0x33 then
       Line (BUF_PRINTF [lit ''add       bc,a''] d)
     else if b = 0x34 then
       Line (BUF_PRINTF [lit ''add       hl,'', handle_immed16 E] d)
     else if b = 0x35 then
       Line (BUF_PRINTF [lit ''add       de,'', handle_immed16 E] d)
     else if b = 0x36 then
       Line (BUF_PRINTF [lit ''add       bc,'', handle_immed16 E] d)
     else
       Line (BUF_PRINTF [lit ''nop''] d))"

definition dis_ed_kc160 :: "dis_env \<Rightarrow> int \<Rightarrow> dcontext \<Rightarrow> outcome" where
  "dis_ed_kc160 E b d =
    (let z = b AND 0x07; p = shr (shr (b AND 0x38) 3 AND 0x06) 1; q = shr (b AND 0x38) 3 AND 0x01 in
     (if q = 0 \<and> z < 3 \<and> p < 3 then
       Line (BUF_PRINTF [lit (''ld        ('' @ (kc160_handle_register_rel E d z)), handle_displacement E, lit (''),'' @ (kc160_handle_register_r24 p))] d)
     else if q = 1 \<and> z < 3 \<and> p < 3 then
       Line (BUF_PRINTF [lit (''ld        '' @ (kc160_handle_register_r24 p) @ '',('' @ (kc160_handle_register_rel E d z)), handle_displacement E, lit '')''] d)
     else if q = 0 \<and> z = 7 \<and> p < 3 then
       Line (BUF_PRINTF [lit (''push      '' @ (kc160_handle_register_r24 p))] d)
     else if q = 1 \<and> z = 7 \<and> p < 3 then
       Line (BUF_PRINTF [lit (''pop       '' @ (kc160_handle_register_r24 p))] d)
     else if q = 1 \<and> z = 6 \<and> p < 3 then
       Line (BUF_PRINTF [lit (''ld        '' @ (kc160_handle_register_r24 p) @ '',''), handle_immed24 E] d)
     else if q = 0 \<and> z = 3 \<and> p < 3 then
       Line (BUF_PRINTF [lit ''ldf       ('', handle_addr24 E, lit (''),'' @ (kc160_handle_register_r24 p))] d)
     else if q = 1 \<and> z = 3 \<and> p < 3 then
       Line (BUF_PRINTF [lit (''ldf       '' @ (kc160_handle_register_r24 p) @ '',(''), handle_addr24 E, lit '')''] d)
     else if q = 0 \<and> z = 6 \<and> p < 3 then
       Line (BUF_PRINTF [lit (''ld        '' @ (if p = 0 then ''ix'' else (if p = 1 then ''iy'' else ''hl'')) @ '',sp'')] d)
     else if b = 0x33 then
       Line (BUF_PRINTF [lit ''ldf       ('', handle_addr24 E, lit ''),a''] d)
     else if b = 0x3b then
       Line (BUF_PRINTF [lit ''ldf       a,('', handle_addr24 E, lit '')''] d)
     else
       Line (BUF_PRINTF [lit ''nop''] d)))"

definition dis_ed_x0 :: "dis_env \<Rightarrow> int \<Rightarrow> dcontext \<Rightarrow> outcome" where
  "dis_ed_x0 E b d =
     (if dis_rabbit4k E then
       dis_ed_r4k E b d
     else if isz180 (machine E) \<or> isez80 (machine E) then
       dis_ed_z180 E b d
     else if isz80n (machine E) then
       dis_ed_z80n E b d
     else if iskc160 (machine E) then
       dis_ed_kc160 E b d
     else
       Line (BUF_PRINTF [lit ''nop''] d))"

definition dis_ed_z4 :: "dis_env \<Rightarrow> int \<Rightarrow> dcontext \<Rightarrow> outcome" where
  "dis_ed_z4 E b d =
    (let y = shr (b AND 0x38) 3; p = shr (shr (b AND 0x38) 3 AND 0x06) 1 in
     (if israbbit (machine E) then
       (if y = 0 then
         Line (BUF_PRINTF [lit ''neg       ''] d)
       else if y = 1 \<and> dis_rabbit4k E then
         Line (BUF_PRINTF [lit ''test      bc''] d)
       else if y = 2 then
         Line (BUF_PRINTF [lit ''ex        (sp),hl''] d)
       else if y = 3 \<and> dis_rabbit6k E then
         Line (BUF_PRINTF [lit ''test      de''] d)
       else if y = 4 then
         Line (BUF_PRINTF [lit ''ldp       (hl),hl''] d)
       else if y = 5 then
         Line (BUF_PRINTF [lit ''ldp       hl,(hl)''] d)
       else if y = 6 \<and> dis_rabbit4k E then
         Line (BUF_PRINTF [lit (''ex        '' @ prime ''bc'' @ '',hl'')] d)
       else if y = 7 \<and> dis_rabbit4k E then
         Line (BUF_PRINTF [lit (''ex        '' @ prime ''jk'' @ '',hl'')] d)
       else
         Line (BUF_PRINTF [lit ''nop''] d))
     else if isz180 (machine E) \<or> isez80 (machine E) then
       (if y = 0 then
         Line (BUF_PRINTF [lit ''neg       ''] d)
       else if y = 6 then
         Line (BUF_PRINTF [lit ''tstio     '', handle_immed8 E] d)
       else if y = 4 then
         Line (BUF_PRINTF [lit ''tst       '', handle_immed8 E] d)
       else if y = 2 \<and> isez80 (machine E) then
         Line (BUF_PRINTF [lit (op_am E d ''lea'' @ ''ix,iy''), handle_displacement E] d)
       else if y mod 2 \<noteq> 0 \<and> 0 \<le> p \<and> p \<le> 3 then
         Line (BUF_PRINTF [lit (ljust 10 (if p = 3 then handle_ez80_am E d ''mlt'' else ''mlt'') @ (handle_register16 p 0))] d)
       else
         Line (BUF_PRINTF [lit ''nop''] d))
     else if iskc160 (machine E) then
       (if y = 0 then
         Line (BUF_PRINTF [lit ''neg       ''] d)
       else if y = 1 then
         Line (BUF_PRINTF [lit ''call3     '', handle_addr24 E] d)
       else if y = 2 then
         Line (BUF_PRINTF [lit ''tra       ''] d)
       else if y = 3 then
         Line (BUF_PRINTF [lit ''ret3      ''] d)
       else if y = 6 then
         Line (BUF_PRINTF [lit ''div       hl,a''] d)
       else if y = 7 then
         Line (BUF_PRINTF [lit ''divs      hl,a''] d)
       else
         Line (BUF_PRINTF [lit ''nop''] d))
     else
       Line (BUF_PRINTF [lit ''neg''] d)))"

definition dis_ed_z5 :: "dis_env \<Rightarrow> int \<Rightarrow> dcontext \<Rightarrow> outcome" where
  "dis_ed_z5 E b d =
    (let y = shr (b AND 0x38) 3 in
     (let d = (if israbbit (machine E) \<and> y = 0 then BUF_PRINTF [lit ''lret''] d else d) in
      (if y = 1 then
        (let d = BUF_PRINTF [lit (op_am E d ''reti'')] d in
         Line (d\<lparr>d_dolf := True\<rparr>))
      else if dis_rabbit4k E \<and> y = 2 then
        Line (BUF_PRINTF [lit ''fsyscall''] d)
      else if israbbit (machine E) \<and> y = 3 then
        Line (BUF_PRINTF [lit ''ipres''] d)
      else if israbbit (machine E) \<and> y = 4 then
        Line (BUF_PRINTF [lit ''ldp       ('', handle_addr16 E, lit ''),hl''] d)
      else if israbbit (machine E) \<and> y = 5 then
        Line (BUF_PRINTF [lit ''ldp       hl,('', handle_addr16 E, lit '')''] d)
      else if israbbit (machine E) \<and> y = 6 then
        Line (BUF_PRINTF [lit (ljust 10 (if cpu_is (CPU_R3K OR CPU_R4K OR CPU_R6K) (machine E) then ''syscall'' else ''nop''))] d)
      else if israbbit (machine E) \<and> y = 7 then
        Line (BUF_PRINTF [lit (ljust 10 (if cpu_is (CPU_R3K OR CPU_R4K OR CPU_R6K) (machine E) then ''sures'' else ''nop''))] d)
      else if (isz180 (machine E) \<or> isez80 (machine E)) \<and> y = 0 then
        (let d = BUF_PRINTF [lit (rjust 10 (handle_ez80_am E d ''retn''))] d in
         Line (d\<lparr>d_dolf := True\<rparr>))
      else if isez80 (machine E) \<and> y = 2 then
        Line (BUF_PRINTF [lit (op_am E d ''lea'' @ ''iy,ix''), handle_displacement E] d)
      else if isez80 (machine E) \<and> y = 4 then
        Line (BUF_PRINTF [lit (op_am E d ''pea'' @ ''ix''), handle_displacement E] d)
      else if isez80 (machine E) \<and> y = 5 then
        Line (BUF_PRINTF [lit ''ld        mb,a''] d)
      else if isez80 (machine E) \<and> y = 7 then
        Line (BUF_PRINTF [lit ''stmix     ''] d)
      else if iskc160 (machine E) \<and> y = 2 then
        Line (BUF_PRINTF [lit ''retn3     ''] d)
      else if iskc160 (machine E) \<and> y = 6 then
        Line (BUF_PRINTF [lit ''div       dehl,bc''] d)
      else if iskc160 (machine E) \<and> y = 7 then
        Line (BUF_PRINTF [lit ''divs      dehl,bc''] d)
      else if (isz180 (machine E) \<or> isez80 (machine E) \<or> iskc160 (machine E)) \<and> y \<noteq> 0 then
        Line (BUF_PRINTF [lit ''nop''] d)
      else if \<not> israbbit (machine E) then
        (let d = BUF_PRINTF [lit (op_am E d ''retn'')] d in
         Line (d\<lparr>d_dolf := True\<rparr>))
      else
        Line d)))"

definition dis_ed_x1 :: "dis_env \<Rightarrow> int \<Rightarrow> dcontext \<Rightarrow> outcome" where
  "dis_ed_x1 E b d =
    (let y = shr (b AND 0x38) 3; z = b AND 0x07; p = shr (shr (b AND 0x38) 3 AND 0x06) 1; q = shr (b AND 0x38) 3 AND 0x01 in
     if z = 0 then
       (if israbbit (machine E) then
         (if q = 0 \<and> p = 0 \<and> dis_rabbit4k E then
           Line (BUF_PRINTF [lit ''ld        htr,a''] d)
         else if q = 0 \<and> p = 1 \<and> dis_rabbit4k E then
           Line (BUF_PRINTF [lit ''ld        a,htr''] d)
         else if q = 1 \<and> p = 0 \<and> dis_rabbit4k E then
           Line (BUF_PRINTF [lit ''cp        hl,de''] d)
         else if q = 1 \<and> p = 1 \<and> dis_rabbit4k E then
           Line (BUF_PRINTF [lit ''cp        jkhl,bcde''] d)
         else
           Line (BUF_PRINTF [lit ''nop''] d))
       else if y \<noteq> 6 then
         Line (BUF_PRINTF [lit ''in        '', handle_register8 E y, lit ('',('' @ (if isez80 (machine E) then ''bc'' else ''c'') @ '')'')] d)
       else
         Line (BUF_PRINTF [lit ''in        (c)''] d))
     else if z = 1 then
       (if israbbit (machine E) then
         (if y < 6 then
           (if q = 0 then
             Line (BUF_PRINTF [lit (''ld        '' @ (handle_register16 p (d_index d)) @ prime [] @ '',de'')] d)
           else
             Line (BUF_PRINTF [lit (''ld        '' @ (handle_register16 p (d_index d)) @ prime [] @ '',bc'')] d))
         else
           Line (BUF_PRINTF [lit ''nop''] d))
       else if y \<noteq> 6 then
         Line (BUF_PRINTF [lit (''out       ('' @ (if \<not> isez80 (machine E) then ''c'' else ''bc'') @ ''),''), handle_register8 E y] d)
       else
         Line (BUF_PRINTF [lit ''out       (c),0''] d))
     else if z = 2 then
       (if q = 0 then
         Line (BUF_PRINTF [lit (op_am E d ''sbc'' @ (handle_kc_prefix E (d_kc d)) @ ''hl,'' @ (handle_register16 p (d_index d)))] d)
       else
         Line (BUF_PRINTF [lit (op_am E d ''adc'' @ (handle_kc_prefix E (d_kc d)) @ ''hl,'' @ (handle_register16 p (d_index d)))] d))
     else if z = 3 then
       (if q = 0 then
         Line (BUF_PRINTF [lit (op_am E d ''ld'' @ ''('' @ (handle_kc_segment E (d_kc d))), handle_addr16 E, lit (''),'' @ (handle_register16 p (d_index d)))] d)
       else
         Line (BUF_PRINTF [lit (op_am E d ''ld'' @ (handle_register16 p (d_index d)) @ '',('' @ (handle_kc_segment E (d_kc d))), handle_addr16 E, lit '')''] d))
     else if z = 4 then
       dis_ed_z4 E b d
     else if z = 5 then
       dis_ed_z5 E b d
     else if z = 6 then
       (if isez80 (machine E) \<and> y = 4 then
         Line (BUF_PRINTF [lit (op_am E d ''pea'' @ ''iy''), handle_displacement E] d)
       else
         Line (BUF_PRINTF [lit ((handle_im_instructions E y))] d))
     else if z = 7 then
       Line (BUF_PRINTF [lit ((handle_ed_assorted_instructions E d y))] d)
     else Line d)"

definition dis_ed_x2 :: "dis_env \<Rightarrow> int \<Rightarrow> dcontext \<Rightarrow> outcome" where
  "dis_ed_x2 E b d =
    (let y = shr (b AND 0x38) 3; z = b AND 0x07; p = shr (shr (b AND 0x38) 3 AND 0x06) 1; q = shr (b AND 0x38) 3 AND 0x01 in
     (if isez80 (machine E) \<and> y < 4 \<and> 2 \<le> z \<and> z \<le> 4 then
       (let instrs = [[''inim'', ''otim'', ''ini2''], [''indm'', ''otdm'', ''ind2''], [''inimr'', ''otimr'', ''ini2r''], [''indmr'', ''otdmr'', ''ind2r'']] in
        Line (BUF_PRINTF [lit (op_am E d (instrs ! (nat y) ! (nat (z - 2))))] d))
     else if isz180 (machine E) \<and> z = 3 \<and> y < 4 then
       (let instr = [''otim'', ''otdm'', ''otimr'', ''otdmr''] in
        Line (BUF_PRINTF [lit ((instr ! (nat y)))] d))
     else if y < 2 \<and> z = 0 \<and> dis_rabbit4k E then
       Line (BUF_PRINTF [lit (ljust 10 (if y = 0 then ''copy'' else ''copyr''))] d)
     else if y < 2 \<and> z = 3 \<and> dis_rabbit4k E then
       Line (BUF_PRINTF [lit (ljust 10 (if y = 0 then ''sret'' else ''llret''))] d)
     else if z = 2 \<and> 3 < y \<and> dis_rabbit4k E then
       (let d = to_opbuf1 (handle_addr16 E) d in
        (let d = to_opbuf2 (handle_immed16 E) d in
         Line (BUF_PRINTF [lit (''lljp      '' @ (r4k_cc_table ! (nat (y - 4))) @ '','' @ (d_opbuf2 d) @ '','' @ (d_opbuf1 d))] d)))
     else if z = 3 \<and> 3 < y \<and> dis_rabbit4k E then
       Line (BUF_PRINTF [lit (''jre       '' @ (r4k_cc_table ! (nat (y - 4))) @ '',''), handle_rel16 E] d)
     else if 3 < y \<and> z = 4 \<and> dis_rabbit4k E then
       Line (BUF_PRINTF [lit (''flag      '' @ (r4k_cc_table ! (nat (y - 4))) @ '',hl'')] d)
     else if q = 0 \<and> y = 6 \<and> z = 1 \<and> dis_rabbit4k E then
       Line (BUF_PRINTF [lit ''setsysp   '', handle_immed16 E] d)
     else if q = 0 \<and> 2 \<le> p \<and> z = 5 \<and> dis_rabbit4k E then
       Line (BUF_PRINTF [lit (ljust 10 (if p = 2 then ''push'' else ''setusrp'')), handle_immed16 E] d)
     else if (israbbit3k (machine E) \<or> dis_rabbit4k E) \<and> z = 0 \<and> (y = 2 \<or> y = 3) then
       (if y = 2 then
         Line (BUF_PRINTF [lit ''ldisr''] d)
       else if y = 3 then
         Line (BUF_PRINTF [lit ''lddsr''] d)
       else
         Line d)
     else if (isez80 (machine E) \<and> z \<le> 4 \<or> z \<le> 3) \<and> 4 \<le> y then
       Line (BUF_PRINTF [lit ((handle_ez80_am E d (handle_block_instruction E z y)))] d)
     else if iskc160 (machine E) then
       (if q = 0 \<and> 4 \<le> z \<and> z < 7 then
         Line (BUF_PRINTF [lit (''ld        ('' @ (kc160_handle_register_rel E d (z - 4))), handle_displacement E, lit (''),'' @ (handle_register16 p 0))] d)
       else if q = 1 \<and> 4 \<le> z \<and> z < 7 then
         Line (BUF_PRINTF [lit (''ld        '' @ (handle_register16 p 0) @ '',('' @ (kc160_handle_register_rel E d (z - 4))), handle_displacement E, lit '')''] d)
       else if q = 0 \<and> z < 3 then
         Line (BUF_PRINTF [lit (''ld        ('' @ (kc160_handle_register_rel E d z)), handle_displacement E, lit (''),'' @ (if p = 0 then ''ix'' else ''iy''))] d)
       else if q = 1 \<and> z < 3 then
         Line (BUF_PRINTF [lit (''ld        '' @ (if p = 0 then ''ix'' else ''iy'') @ '',('' @ (kc160_handle_register_rel E d z)), handle_displacement E, lit '')''] d)
       else if q = 0 \<and> z = 7 then
         Line (BUF_PRINTF [lit ''ldf       ('', handle_addr24 E, lit (''),'' @ (handle_register16 p 0))] d)
       else if q = 1 \<and> z = 7 then
         Line (BUF_PRINTF [lit (''ldf       '' @ (handle_register16 p 0) @ '',(''), handle_addr24 E, lit '')''] d)
       else if q = 0 \<and> z = 3 then
         Line (BUF_PRINTF [lit ''ldf       ('', handle_addr24 E, lit (''),'' @ (if p = 0 then ''ix'' else ''iy''))] d)
       else if q = 1 \<and> z = 3 then
         Line (BUF_PRINTF [lit (''ldf       '' @ (if p = 0 then ''ix'' else ''iy'') @ '',(''), handle_addr24 E, lit '')''] d)
       else
         Line d)
     else if isz80n (machine E) then
       (if b = 0x8a then
         Line (BUF_PRINTF [lit ''push    '', handle_immed16_be E] d)
       else if b = 0x90 then
         Line (BUF_PRINTF [lit ''outinb  ''] d)
       else if b = 0x91 then
         (let d = to_opbuf1 (handle_immed8 E) d in
          (let d = to_opbuf2 (handle_immed8 E) d in
           Line (BUF_PRINTF [lit (''nextreg '' @ (d_opbuf1 d) @ '','' @ (d_opbuf2 d))] d)))
       else if b = 0x92 then
         Line (BUF_PRINTF [lit ''nextreg '', handle_immed8 E, lit '',a''] d)
       else if b = 0x93 then
         Line (BUF_PRINTF [lit ''pixeldn''] d)
       else if b = 0x94 then
         Line (BUF_PRINTF [lit ''pixelad''] d)
       else if b = 0x95 then
         Line (BUF_PRINTF [lit ''setae''] d)
       else if b = 0x98 then
         Line (BUF_PRINTF [lit ''jp        (c)''] d)
       else if b = 0x98 then
         Line (BUF_PRINTF [lit ''setae''] d)
       else if b = 0xa4 then
         Line (BUF_PRINTF [lit ''ldix''] d)
       else if b = 0xa5 then
         Line (BUF_PRINTF [lit ''ldws''] d)
       else if b = 0xac then
         Line (BUF_PRINTF [lit ''lddx''] d)
       else if b = 0xb4 then
         Line (BUF_PRINTF [lit ''ldirx''] d)
       else if b = 0xb7 then
         Line (BUF_PRINTF [lit ''ldpirx''] d)
       else if b = 0xbc then
         Line (BUF_PRINTF [lit ''lddrx''] d)
       else
         Line (BUF_PRINTF [lit ''nop''] d))
     else if z = 6 \<and> q = 0 \<and> dis_rabbit6k E then
       Line (BUF_PRINTF [lit (''tstnull   '' @ (r4k_ps_table ! (nat p)))] d)
     else if z = 6 \<and> q = 1 \<and> dis_rabbit6k E then
       Line (BUF_PRINTF [lit (''cnvc      '' @ (r4k_ps_table ! (nat p)))] d)
     else if z = 7 \<and> q = 0 \<and> dis_rabbit6k E then
       Line (BUF_PRINTF [lit ''swap      '', handle_register8 E p] d)
     else if z = 7 \<and> q = 1 \<and> dis_rabbit6k E then
       Line (BUF_PRINTF [lit (''cnvd      '' @ (r4k_ps_table ! (nat p)))] d)
     else
       Line (BUF_PRINTF [lit ''nop''] d)))"

definition dis_ed_x3 :: "dis_env \<Rightarrow> int \<Rightarrow> dcontext \<Rightarrow> outcome" where
  "dis_ed_x3 E b d =
    (let y = shr (b AND 0x38) 3; z = b AND 0x07; p = shr (shr (b AND 0x38) 3 AND 0x06) 1; q = shr (b AND 0x38) 3 AND 0x01 in
     (if z = 0 \<and> (israbbit3k (machine E) \<or> dis_rabbit4k E) then
       (let r3k_instrs = [''uma'', ''ums'', ''lsidr'', ''lsddr'', ''nop'', ''nop'', ''lsir'', ''lsdr''] in
        Line (BUF_PRINTF [lit ((r3k_instrs ! (nat y)))] d))
     else if z = 1 \<and> q = 0 \<and> dis_rabbit4k E then
       Line (BUF_PRINTF [lit (''pop       '' @ (r4k_ps_table ! (nat p)))] d)
     else if z = 1 \<and> y \<noteq> 6 \<and> isr800 (machine E) then
       Line (BUF_PRINTF [lit ''mulub     a,'', handle_register8 E y] d)
     else if z = 2 \<and> y < 4 \<and> dis_rabbit4k E then
       (let d = to_opbuf1 (handle_addr16 E) d in
        (let d = to_opbuf2 (handle_immed16 E) d in
         Line (BUF_PRINTF [lit (''lljp      '' @ (rabbit_cc_table ! (nat y)) @ '','' @ (d_opbuf2 d) @ '','' @ (d_opbuf1 d))] d)))
     else if z = 3 \<and> y < 4 \<and> dis_rabbit4k E then
       Line (BUF_PRINTF [lit (''jre       '' @ (rabbit_cc_table ! (nat y)) @ '',''), handle_rel16 E] d)
     else if z = 3 \<and> isr800 (machine E) then
       Line (BUF_PRINTF [lit (''muluw     hl,'' @ (handle_register16 p (d_index d)))] d)
     else if z = 4 \<and> y < 4 \<and> dis_rabbit4k E then
       Line (BUF_PRINTF [lit (''flag      '' @ (rabbit_cc_table ! (nat y)) @ '',hl'')] d)
     else if z = 5 \<and> q = 0 \<and> dis_rabbit4k E then
       Line (BUF_PRINTF [lit (''push      '' @ (r4k_ps_table ! (nat p)))] d)
     else if z = 6 \<and> q = 0 \<and> dis_rabbit4k E then
       (let ops = [''add'', ''sub'', ''and'', ''or''] in
        Line (BUF_PRINTF [lit (ljust 10 (ops ! (nat p)) @ ''jkhl,bcde'')] d))
     else if y \<le> 1 \<and> (z = 2 \<or> z = 3) \<and> isez80 (machine E) then
       (let instrs = [[''inirx'', ''otirx''], [''indrx'', ''otdrx'']] in
        Line (BUF_PRINTF [lit ((handle_ez80_am E d (instrs ! (nat y) ! (nat (z - 2)))))] d))
     else if z = 7 \<and> y \<le> 2 \<and> isez80 (machine E) then
       (let instrs = [''ld        i,hl'', ''nop'', ''ld        hl,i''] in
        Line (BUF_PRINTF [lit ((instrs ! (nat y)))] d))
     else if iskc160 (machine E) \<and> 4 \<le> y \<and> z < 4 then
       Line (BUF_PRINTF [lit (op_am E d (handle_block_instruction E z y) @ (if z = 0 then ''xy'' else ''x''))] d)
     else if iskc160 (machine E) \<and> z = 2 then
       Line (BUF_PRINTF [lit (''jp3       '' @ (cc_table ! (nat y)) @ '',''), handle_addr24 E] d)
     else if iskc160 (machine E) \<and> b = 0xc3 then
       Line (BUF_PRINTF [lit ''jp3       '', handle_addr24 E] d)
     else if iskc160 (machine E) \<and> q = 0 \<and> z = 4 then
       Line (BUF_PRINTF [lit (''ld        '' @ (kc160_p_table ! (nat p)) @ '','' @ (kc160_p_table ! (nat (3 - p))))] d)
     else if iskc160 (machine E) \<and> q = 0 \<and> z = 5 then
       Line (BUF_PRINTF [lit (''ld        '' @ (kc160_p_table ! (nat p)) @ '','' @ (kc160_p_table ! (nat (((3 - p) + 2) mod 4))))] d)
     else if iskc160 (machine E) \<and> q = 1 \<and> z = 4 then
       Line (BUF_PRINTF [lit (''ld        '' @ (kc160_p_table ! (nat p)) @ '','' @ (kc160_p_table ! (nat ((p + 2) mod 4))))] d)
     else if q = 1 \<and> z = 1 \<and> y = 3 \<and> dis_rabbit4k E then
       Line (BUF_PRINTF [lit ''exp       ''] d)
     else if q = 1 \<and> z = 2 \<and> y = 5 \<and> dis_rabbit4k E then
       Line (BUF_PRINTF [lit ''call      (hl)''] d)
     else if q = 1 \<and> z = 2 \<and> y = 7 \<and> dis_rabbit4k E then
       Line (BUF_PRINTF [lit ''llcall    (jkhl)''] d)
     else if q = 1 \<and> z = 6 \<and> y = 1 \<and> dis_rabbit6k E then
       Line (BUF_PRINTF [lit ''adc       jkhl,bcde''] d)
     else if q = 1 \<and> z = 6 \<and> y = 3 \<and> dis_rabbit6k E then
       Line (BUF_PRINTF [lit ''sbc       jkhl,bcde''] d)
     else if q = 1 \<and> z = 6 \<and> y = 5 \<and> dis_rabbit4k E then
       Line (BUF_PRINTF [lit ''xor       jkhl,bcde''] d)
     else if q = 1 \<and> z = 6 \<and> y = 7 \<and> dis_rabbit4k E then
       Line (BUF_PRINTF [lit ''ld        hl,(sp+hl)''] d)
     else if z = 7 \<and> q = 1 \<and> dis_rabbit6k E then
       Line (BUF_PRINTF [lit (''swap      '' @ (r4k_rp2_table ! (nat p)))] d)
     else if z = 7 \<and> q = 0 \<and> dis_rabbit6k E then
       Line (BUF_PRINTF [lit ''swap      '', handle_register8 E (p + 4)] d)
     else if b = 0xfe then
       Line (BUF_PRINTF [lit ''trap''] d)
     else
       Line (BUF_PRINTF [lit ''nop''] d)))"

definition dis_ed :: "dis_env \<Rightarrow> int \<Rightarrow> dcontext \<Rightarrow> outcome" where
  "dis_ed E b d =
    (let x = shr b 6 in
     (let d = d\<lparr>d_index := 0\<rparr> in
      (if x = 0 then
        dis_ed_x0 E b d
      else if x = 1 then
        dis_ed_x1 E b d
      else if x = 2 then
        dis_ed_x2 E b d
      else if x = 3 then
        dis_ed_x3 E b d
      else
        Line d)))"

definition dis_x3_z5 :: "dis_env \<Rightarrow> int \<Rightarrow> dcontext \<Rightarrow> outcome" where
  "dis_x3_z5 E b d =
    (let p = shr (shr (b AND 0x38) 3 AND 0x06) 1; q = shr (b AND 0x38) 3 AND 0x01 in
     (if q = 0 \<and> p = 3 \<and> d_index d \<noteq> 0 \<and> dis_rabbit4k E then
       Line (BUF_PRINTF [lit (''push      '' @ (r4k_32b_table ! (nat ((d_index d) - 1))))] d)
     else if b = 0xc5 \<and> d_index d \<noteq> 0 \<and> dis_rabbit6k E then
       (let d = to_opbuf1 (handle_displacement E) d in
        Line (BUF_PRINTF [lit (''add       '' @ (handle_hl (d_index d)) @ '','' @ (d_opbuf1 d))] d))
     else if q = 0 then
       Line (BUF_PRINTF [lit (op_am E d ''push'' @ (handle_register16_2 p (d_index d)))] d)
     else if q = 1 then
       (if d_index d \<noteq> 0 \<and> dis_rabbit4k E then
         Line (BUF_PRINTF [lit (''ld        '' @ (r4k_32b_table ! (nat ((d_index d) - 1))) @ '','' @ (r4k_ps_table ! (nat p)))] d)
       else if p = 0 then
         Line (BUF_PRINTF [lit (op_am E d ''call''), handle_addr16 E] d)
       else if p = 1 \<and> is8085 (machine E) then
         Line (BUF_PRINTF [lit (op_am E d ''jp'' @ ''nk,''), handle_addr16 E] d)
       else if p = 1 \<and> isvm1 (machine E) then
         Line (BUF_PRINTF [lit (ljust 10 (if d_mb d \<noteq> 0 then ''cpc'' else ''cp'') @ (handle_hl (d_index d)) @ '',de'')] d)
       else if p = 1 \<and> canindex (machine E) then
         (let pk = PEEK_BYTE E 0 d in
          (if (pk = 0xdd \<or> pk = 0xfd) \<and> \<not> israbbit (machine E) then
            Line (BUF_PRINTF [lit (''defb      $'' @ hexw 2 b)] d)
          else
            Again (d\<lparr>d_index := 1\<rparr>)))
       else if p = 2 \<and> (is8085 (machine E) \<or> isvm1 (machine E)) then
         Line (BUF_PRINTF [lit (''ld        '' @ (handle_hl (d_index d)) @ '',(de)'')] d)
       else if p = 2 \<and> canindex (machine E) then
         (let (b, d) = READ_BYTE E d in dis_ed E b d)
       else if p = 3 \<and> canindex (machine E) then
         (let pk = PEEK_BYTE E 0 d in
          (if (pk = 0xdd \<or> pk = 0xfd) \<and> \<not> israbbit (machine E) then
            Line (BUF_PRINTF [lit (''defb      $'' @ hexw 2 b)] d)
          else
            Again (d\<lparr>d_index := 2\<rparr>)))
       else if p = 3 \<and> is8085 (machine E) then
         Line (BUF_PRINTF [lit ''jp        k,'', handle_addr16 E] d)
       else if p = 3 \<and> isvm1 (machine E) then
         Line (BUF_PRINTF [lit ''jp        of,'', handle_addr16 E] d)
       else
         Line (BUF_PRINTF [lit ''nop''] d))
     else
       Line d))"

definition dis_x3_z6 :: "dis_env \<Rightarrow> int \<Rightarrow> dcontext \<Rightarrow> outcome" where
  "dis_x3_z6 E b d =
    (let y = shr (b AND 0x38) 3; p = shr (shr (b AND 0x38) 3 AND 0x06) 1; q = shr (b AND 0x38) 3 AND 0x01 in
     (if q = 1 \<and> d_index d \<noteq> 0 \<and> dis_rabbit4k E then
       (if p = 0 then
         Line (BUF_PRINTF [lit (''ld        '' @ (r4k_32b_table ! (nat ((d_index d) - 1))) @ '',(ix''), handle_displacement E, lit '')''] d)
       else if p = 1 then
         Line (BUF_PRINTF [lit (''ld        '' @ (r4k_32b_table ! (nat ((d_index d) - 1))) @ '',(iy''), handle_displacement E, lit '')''] d)
       else if p = 2 then
         Line (BUF_PRINTF [lit (''ld        '' @ (r4k_32b_table ! (nat ((d_index d) - 1))) @ '',(sp+''), handle_immed8 E, lit '')''] d)
       else if p = 3 then
         Line (BUF_PRINTF [lit (''ld        '' @ (r4k_32b_table ! (nat ((d_index d) - 1))) @ '',(sp+hl)'')] d)
       else
         Line d)
     else if b = 0xc6 \<and> d_index d \<noteq> 0 \<and> dis_rabbit6k E then
       Line (BUF_PRINTF [lit (''add       '' @ (handle_hl (d_index d)) @ '',''), handle_displacement E] d)
     else
       Line (BUF_PRINTF [lit (ljust 10 (alu_table ! (nat y))), handle_immed8 E] d)))"

definition dis_x3_z7 :: "dis_env \<Rightarrow> int \<Rightarrow> dcontext \<Rightarrow> outcome" where
  "dis_x3_z7 E b d =
    (let y = shr (b AND 0x38) 3; p = shr (shr (b AND 0x38) 3 AND 0x06) 1; q = shr (b AND 0x38) 3 AND 0x01 in
     (if q = 1 \<and> d_index d \<noteq> 0 \<and> dis_rabbit4k E then
       (if p = 0 then
         Line (BUF_PRINTF [lit ''ld        (ix'', handle_displacement E, lit (''),'' @ (r4k_32b_table ! (nat ((d_index d) - 1))))] d)
       else if p = 1 then
         Line (BUF_PRINTF [lit ''ld        (iy'', handle_displacement E, lit (''),'' @ (r4k_32b_table ! (nat ((d_index d) - 1))))] d)
       else if p = 2 then
         Line (BUF_PRINTF [lit ''ld        (sp+'', handle_immed8 E, lit (''),'' @ (r4k_32b_table ! (nat ((d_index d) - 1))))] d)
       else if p = 3 then
         Line (BUF_PRINTF [lit (''ld        (sp+hl),'' @ (r4k_32b_table ! (nat ((d_index d) - 1))))] d)
       else
         Line d)
     else if israbbit (machine E) \<and> y = 0 then
       (let d = to_opbuf1 (handle_immed16 E) d in
        (let d = to_opbuf2 (handle_immed8 E) d in
         Line (BUF_PRINTF [lit (''ljp       '' @ (d_opbuf2 d) @ '','' @ (d_opbuf1 d))] d)))
     else if israbbit (machine E) \<and> y = 1 then
       (let d = to_opbuf1 (handle_immed16 E) d in
        (let d = to_opbuf2 (handle_immed8 E) d in
         Line (BUF_PRINTF [lit (''lcall     '' @ (d_opbuf2 d) @ '','' @ (d_opbuf1 d))] d)))
     else if israbbit (machine E) \<and> y = 6 then
       Line (BUF_PRINTF [lit ''mul''] d)
     else
       dis_rst E b d))"

definition dis_x3 :: "dis_env \<Rightarrow> int \<Rightarrow> dcontext \<Rightarrow> outcome" where
  "dis_x3 E b d =
    (let z = b AND 0x07 in
     (if z = 0 then
       dis_x3_z0 E b d
     else if z = 1 then
       dis_x3_z1 E b d
     else if z = 2 then
       dis_x3_z2 E b d
     else if z = 3 then
       dis_x3_z3 E b d
     else if z = 4 then
       dis_x3_z4 E b d
     else if z = 5 then
       dis_x3_z5 E b d
     else if z = 6 then
       dis_x3_z6 E b d
     else if z = 7 then
       dis_x3_z7 E b d
     else
       Line d))"

end
