(* ===== verification/Ticks_Disassembler.thy ===== *)
theory Ticks_Disassembler
  imports Ticks_DisLow Ticks_DisHigh
begin

text \<open>
  \<open>disassemble2\<close>: the loop over the prefixes, the loop over the byte codes after an \<open>RST\<close>, and the loop of
  \<open>disassembler_main.c\<close> over a range of addresses. None of the loops is bounded by the source, so each is a
  partial function and \<open>None\<close> is a call that does not return.
\<close>

section \<open>The switch\<close>

definition dis_main :: "dis_env \<Rightarrow> int \<Rightarrow> dcontext \<Rightarrow> outcome" where
  "dis_main E b d =
    (let x = shr b 6 in
     if x = 0 then dis_x0 E b d
     else if x = 1 then dis_x1 E b d
     else if x = 2 then dis_x2 E b d
     else if x = 3 then dis_x3 E b d
     else Line d)"

section \<open>Byte codes\<close>

text \<open>How many plain bytes follow the byte code, \<open>plain_count\<close>.\<close>

definition plain_after :: "dis_env \<Rightarrow> rsthelper option \<Rightarrow> int \<Rightarrow> dcontext \<Rightarrow> int" where
  "plain_after E h plain_count d =
    (case h of
       None \<Rightarrow> plain_count
     | Some h \<Rightarrow>
         if h_flags h AND F_LEN67 \<noteq> 0 then
           (let val2 = PEEK_BYTE E 1 d in
            (shr val2 6 AND 0x03) + 2 + (if val2 AND 0x3f = 0 then 1 else 0))
         else if h_flags h AND F_BYTE \<noteq> 0 then 1
         else if h_flags h AND F_WORD \<noteq> 0 then 2
         else if h_flags h AND F_5BYTES \<noteq> 0 then 2
         else if h_flags h AND F_nBYTES \<noteq> 0 then PEEK_BYTE E 1 d
         else plain_count)"

text \<open>One line of the listing of byte codes.\<close>

definition sequence_line :: "dis_env \<Rightarrow> rsthelper option \<Rightarrow> dcontext \<Rightarrow> dcontext" where
  "sequence_line E h d =
    (let d = put_text (CHR 0x0A # replicate 20 CHR '' '') (d\<lparr>d_linepos := -1\<rparr>);
         (val, d) = READ_BYTE E d;
         d = put_text (''defb      '' @ (case h of Some h \<Rightarrow> h_api h | None \<Rightarrow> ''$'' @ hexw 2 val)) d;
         d = eol E (uint (d_pc d) + 1) d
     in d\<lparr>d_len := 0\<rparr>)"

partial_function (option) dis_sequence ::
  "dis_env \<Rightarrow> int \<Rightarrow> rsthelper option \<Rightarrow> int \<Rightarrow> int \<Rightarrow> dcontext \<Rightarrow> (int \<times> dcontext) option" where
  "dis_sequence E b h plain_count count d =
    (let plain_count = plain_after E h plain_count d; d = sequence_line E h d; count = count + 1 in
     if (case h of Some h \<Rightarrow> h_flags h AND F_END \<noteq> 0 | None \<Rightarrow> False) then Some (count, d)
     else if plain_count = 0 then dis_sequence E b (get_rsthelper E b d) plain_count count d
     else dis_sequence E b None (plain_count - 1) count d)"

section \<open>The loop over the prefixes\<close>

text \<open>The value \<open>disassemble2\<close> returns and the context at that point.\<close>

partial_function (option) dis_loop :: "dis_env \<Rightarrow> int \<Rightarrow> dcontext \<Rightarrow> (int \<times> dcontext) option" where
  "dis_loop E start_pc d =
    (let (b, d) = READ_BYTE E d in
     case dis_main E b d of
       Again d \<Rightarrow> dis_loop E start_pc d
     | Line d \<Rightarrow> Some (int (d_len d), eol E start_pc d)
     | Sequence h d \<Rightarrow>
         dis_sequence E b (Some h) 0 1 ((eol E (uint (d_pc d) + 1) d)\<lparr>d_len := 0\<rparr>))"

definition start_context :: "dis_env \<Rightarrow> int \<Rightarrow> symtab \<Rightarrow> dcontext" where
  "start_context E addr T =
    (let line = (if compact E \<le> 1 then replicate 20 CHR '' '' else []) in
     \<lparr>d_index = 0, d_pc = word_of_int addr, d_len = 0, d_prefix = 0, d_disp = 0, d_bytes = replicate 6 0, d_am = 0,
      d_adl = c_adl_mode E mod 256, d_kc = 0xff, d_mb = 0, d_text = line, d_linepos = int (length line),
      d_dolf = False, d_after = None, d_opbuf1 = [], d_opbuf2 = [], d_labels = T\<rparr>)"

definition label_line :: "dis_env \<Rightarrow> int \<Rightarrow> symtab \<Rightarrow> string" where
  "label_line E addr T =
    (case find_symbol addr SYM_ADDRESS T of
       Some label \<Rightarrow> if compact E \<le> 1 then label @ '':'' @ (if compact E \<noteq> 0 then [] else [CHR 0x0A]) else []
     | None \<Rightarrow> [])"

text \<open>The result is the value returned, the text in the buffer and the symbol table.\<close>

definition disassemble2 :: "dis_env \<Rightarrow> int \<Rightarrow> symtab \<Rightarrow> (int \<times> string \<times> symtab) option" where
  "disassemble2 E addr T =
    (let d = start_context E addr T in
     map_option (\<lambda>(n, d). (n, label_line E addr T @ d_text d, d_labels d))
       (if \<not> address_is_code addr (sections E) then
          (let (b, d) = READ_BYTE E d;
               d = BUF_PRINTF [lit (''defb      $'' @ hexw 2 b)] d
           in Some (int (d_len d), eol E addr d))
        else dis_loop E addr d))"

section \<open>A range of addresses\<close>

text \<open>The lines of one pass and the table after it.\<close>

partial_function (option) dis_range ::
  "dis_env \<Rightarrow> int \<Rightarrow> int \<Rightarrow> symtab \<Rightarrow> (string list \<times> symtab) option" where
  "dis_range E start2 end' T =
    (if start2 < end' then
       Option.bind (disassemble2 E start2 T) (\<lambda>(n, line, T).
         Option.bind (dis_range E (start2 + n) end' T) (\<lambda>(lines, T). Some (line # lines, T)))
     else Some ([], T))"

text \<open>With \<open>-a\<close> the first pass only collects labels.\<close>

definition disassemble_loop :: "dis_env \<Rightarrow> int \<Rightarrow> int \<Rightarrow> symtab \<Rightarrow> string list option" where
  "disassemble_loop E start end' T =
    (case dis_range E start end' T of
       None \<Rightarrow> None
     | Some (lines, T') \<Rightarrow>
         if c_autolabel E then map_option fst (dis_range E start end' T') else Some lines)"

text \<open>The memory of the program is a file of at most 64K, \<open>inverted\<close> is 0 or 255.\<close>

definition dis_get_memory :: "8 word list \<Rightarrow> 8 word \<Rightarrow> 32 word \<Rightarrow> 8 word" where
  "dis_get_memory bytes inverted a =
    (let i = nat (uint a mod 0x10000) in (if i < length bytes then bytes ! i else 0) XOR inverted)"

text \<open>The program's own \<open>israbbit4k\<close> and \<open>israbbit6k\<close> do not ask for the enhanced mode of the processor.\<close>

definition dis_israbbit4k :: "cpu \<Rightarrow> bool" where
  "dis_israbbit4k s \<longleftrightarrow> cpu_is (CPU_R4K OR CPU_R6K) s"

definition dis_israbbit6k :: "cpu \<Rightarrow> bool" where
  "dis_israbbit6k s \<longleftrightarrow> cpu_is CPU_R6K s"

definition program_env :: "16 word \<Rightarrow> 8 word list \<Rightarrow> 8 word \<Rightarrow> bool \<Rightarrow> dis_env" where
  "program_env code bytes inverted autolabel =
    (let m = power_on code Standard in
     \<lparr>machine = m, dis_rabbit4k = dis_israbbit4k m, dis_rabbit6k = dis_israbbit6k m,
      mem_at = dis_get_memory bytes inverted, sections = [], c_adl_mode = 0, c_autolabel = autolabel,
      c_target = None, compact = 0\<rparr>)"

section \<open>The program's options and its file\<close>

text \<open>The option \<open>-m\<close> sets the processor and, for the eZ80, the mode; an unknown one is only reported.\<close>

definition cpu_option :: "string \<Rightarrow> 16 word \<times> int \<Rightarrow> 16 word \<times> int" where
  "cpu_option opt = (\<lambda>(cpu, adl).
    (if opt = ''mz80'' then (CPU_Z80, adl)
     else if opt = ''mz80n'' then (CPU_Z80N, adl)
     else if opt = ''mz180'' then (CPU_Z180, adl)
     else if opt = ''mr2ka'' then (CPU_R2KA, adl)
     else if opt = ''mr3k'' then (CPU_R3K, adl)
     else if opt = ''mr4k'' then (CPU_R4K, adl)
     else if opt = ''mr5k'' then (CPU_R4K, adl)
     else if opt = ''mr6k'' then (CPU_R6K, adl)
     else if opt = ''mr800'' then (CPU_R800, adl)
     else if opt = ''mgbz80'' then (CPU_GBZ80, adl)
     else if opt = ''m8080'' then (CPU_8080, adl)
     else if opt = ''m8085'' then (CPU_8085, adl)
     else if opt = ''mvm1'' then (CPU_KR580VM1, adl)
     else if opt = ''mez80_z80'' then (CPU_EZ80, 0)
     else if opt = ''mez80'' then (CPU_EZ80, 1)
     else if opt = ''mkc160'' then (CPU_KC160, adl)
     else if opt = ''mkc160_z80'' then (CPU_KC160_Z80, adl)
     else (cpu, adl)))"

text \<open>
  Reading a file: \<open>start\<close>, \<open>end\<close>, \<open>org\<close> and \<open>skip\<close> are the options. The memory, the start and the end
  after it; \<open>None\<close> is a read past the end of the buffer. \<open>org\<close> is unsigned, so a position before the file
  becomes one far behind it.
\<close>

definition load_file :: "8 word list \<Rightarrow> int \<Rightarrow> int \<Rightarrow> int \<Rightarrow> int \<Rightarrow> 8 word list \<Rightarrow> (8 word list \<times> int \<times> int) option" where
  "load_file file start end' org skip bytes =
    (let start = (if start < 0 then 0 else start);
         amount = (end' - start) mod 2 ^ 64;
         position = (start - org + skip) mod 2 ^ 32;
         read = take (nat (amount mod 0x10000)) (drop (nat position) file);
         at = nat (start mod 0x10000);
         amount = (if int (length read) < amount then int (length read) else amount)
     in if at + length read > 0x10000 then None
        else Some (take at bytes @ read @ drop (at + length read) bytes, start, start + amount))"

text \<open>With no options: the first 65535 bytes of the file.\<close>

lemma load_default:
  "load_file file (-1) 0x7fffffff 0 0 (replicate 0x10000 0) =
    Some (take 0xffff file @ replicate (0x10000 - min 0xffff (length file)) 0, 0, int (min 0xffff (length file)))"
  by (simp add: load_file_def Let_def min_def)

text \<open>Inside the emulator the debugger reads the memory of the machine.\<close>

definition ticks_env :: "cpu \<Rightarrow> dis_env" where
  "ticks_env s =
    \<lparr>machine = s, dis_rabbit4k = israbbit4k s, dis_rabbit6k = israbbit6k s,
     mem_at = (\<lambda>a. get_memory_inst (uint a) s), sections = [], c_adl_mode = 0, c_autolabel = False,
     c_target = None, compact = 0\<rparr>"

end
