(* ===== verification/Ticks_DisLemmas.thy ===== *)
theory Ticks_DisLemmas
  imports Ticks_Disassembler
begin

text \<open>
  What every operation of the disassembler does to its context: a contract for the properties that reading a
  byte keeps, and the number of bytes each operand reads.
\<close>

section \<open>Outcomes\<close>

fun ctx :: "outcome \<Rightarrow> dcontext" where
  "ctx (Again d) = d"
| "ctx (Line d) = d"
| "ctx (Sequence h d) = d"

lemma ctx_if: "ctx (if c then a else b) = (if c then ctx a else ctx b)"
  by simp

lemmas value_let =
  Let_def [where 'a = int] Let_def [where 'a = "string option"] Let_def [where 'a = "string list"]
  Let_def [where 'a = "string list list"]

named_theorems pages \<open>what a page of the switch does to the context\<close>

section \<open>Properties that reading keeps\<close>

text \<open>
  A property of the context that depends on neither the decoding state nor the text: the reads of the switch
  keep it when one read does.
\<close>

definition same_reads :: "dcontext \<Rightarrow> dcontext \<Rightarrow> bool" where
  "same_reads d d' \<longleftrightarrow> d_pc d = d_pc d' \<and> d_len d = d_len d' \<and> d_bytes d = d_bytes d'"

locale reading =
  fixes P :: "dcontext \<Rightarrow> bool" and E :: dis_env
  assumes read: "P d \<Longrightarrow> P (snd (READ_BYTE E d))"
    and same: "P d \<Longrightarrow> same_reads d d' \<Longrightarrow> P d'"
begin

lemma upd [simp]:
  "P (d\<lparr>d_index := n\<rparr>) = P d" "P (d\<lparr>d_prefix := n\<rparr>) = P d" "P (d\<lparr>d_disp := n\<rparr>) = P d" "P (d\<lparr>d_am := n\<rparr>) = P d"
  "P (d\<lparr>d_kc := n\<rparr>) = P d" "P (d\<lparr>d_mb := n\<rparr>) = P d" "P (d\<lparr>d_dolf := c\<rparr>) = P d" "P (d\<lparr>d_after := a\<rparr>) = P d"
  "P (d\<lparr>d_opbuf1 := s\<rparr>) = P d" "P (d\<lparr>d_opbuf2 := s\<rparr>) = P d" "P (d\<lparr>d_labels := T\<rparr>) = P d"
  "P (put_text s d) = P d" "P (BUF_RESET E d) = P d" "P (eol E n' d) = P d" "P (d\<lparr>d_linepos := i\<rparr>) = P d"
  by (rule iffI; erule same; simp add: same_reads_def put_text_def BUF_RESET_def eol_def Let_def)+

lemma rd: "P d \<Longrightarrow> READ_BYTE E d = (v, d') \<Longrightarrow> P d'"
  using read [of d] by simp

lemma label_or: "P d \<Longrightarrow> P (snd (label_or E a s t d))"
  by (simp add: label_or_def split: option.split)

lemma rel_target: "P d \<Longrightarrow> P (snd (rel_target E n d))"
  by (simp add: rel_target_def Let_def label_or)

definition keeps :: "piece \<Rightarrow> bool" where
  "keeps p \<longleftrightarrow> (\<forall>d. P d \<longrightarrow> P (snd (p d)))"

lemma keeps_pieces [simp]:
  "keeps (lit s)" "keeps (handle_rel8 E)" "keeps (handle_rel16 E)" "keeps (handle_addr16 E)" "keeps (handle_addr24 E)"
  "keeps (handle_immed8 E)" "keeps (handle_immed16 E)" "keeps (handle_immed16_be E)" "keeps (handle_immed24 E)"
  "keeps (handle_immed32 E)" "keeps (handle_displacement E)" "keeps (handle_register8 E y)"
  by (auto simp: keeps_def lit_def handle_rel8_def handle_rel16_def handle_addr16_def handle_addr24_def handle_immed8_def
      handle_immed16_def handle_immed16_be_def handle_immed24_def handle_immed32_def handle_displacement_def
      handle_register8_def Let_def case_prod_beta read label_or rel_target)

lemma print_args: "P d \<Longrightarrow> list_all keeps ps \<Longrightarrow> P (snd (print_args ps d))"
  by (induction ps arbitrary: d) (auto simp: keeps_def case_prod_beta Let_def print_args.simps)

lemma BUF_PRINTF [simp]: "P d \<Longrightarrow> list_all keeps ps \<Longrightarrow> P (BUF_PRINTF ps d)"
  using print_args [of d ps] by (simp add: BUF_PRINTF_def case_prod_beta)

lemma opbufs [simp]: "P d \<Longrightarrow> keeps p \<Longrightarrow> P (to_opbuf1 p d)" "P d \<Longrightarrow> keeps p \<Longrightarrow> P (to_opbuf2 p d)"
  by (simp_all add: to_opbuf1_def to_opbuf2_def keeps_def case_prod_beta)

lemma keeps_if [simp]: "keeps (if c then p else q) = (if c then keeps p else keeps q)"
  by simp

lemma skip_bytes [simp]: "P d \<Longrightarrow> P (skip_bytes E n d)"
  by (induction n arbitrary: d) (simp_all add: read)

lemma defb_bytes [simp]: "P d \<Longrightarrow> P (defb_bytes E i n d)"
  by (induction n arbitrary: i d) (simp_all add: case_prod_beta Let_def read)

lemma dis_rst [pages]: "P d \<Longrightarrow> P (ctx (dis_rst E b d))"
  by (simp add: dis_rst_def Let_def split: option.split)

lemma ctx_let: "P d \<Longrightarrow> (\<And>d. P d \<Longrightarrow> P (ctx (f d))) \<Longrightarrow> P (ctx (Let d f))"
  by simp

lemma d_let: "P d \<Longrightarrow> (\<And>d. P d \<Longrightarrow> P (f d)) \<Longrightarrow> P (Let d f)"
  by simp

lemma ctx_ifI: "(c \<Longrightarrow> P (ctx a)) \<Longrightarrow> (\<not> c \<Longrightarrow> P (ctx b)) \<Longrightarrow> P (ctx (if c then a else b))"
  by simp

lemma d_ifI: "(c \<Longrightarrow> P d) \<Longrightarrow> (\<not> c \<Longrightarrow> P d') \<Longrightarrow> P (if c then d else d')"
  by simp

lemma ctxI: "P d \<Longrightarrow> P (ctx (Line d))" "P d \<Longrightarrow> P (ctx (Again d))"
  by simp_all

lemma read_let:
  "P d \<Longrightarrow> (\<And>v d. P d \<Longrightarrow> P (ctx (f v d))) \<Longrightarrow> P (ctx (let (v, d) = READ_BYTE E d in f v d))"
  "P d \<Longrightarrow> (\<And>v d. P d \<Longrightarrow> P (g v d)) \<Longrightarrow> P (let (v, d) = READ_BYTE E d in g v d)"
  by (simp_all add: case_prod_beta read)

lemmas stepwise [pages] = read read_let ctx_let d_let ctx_ifI d_ifI ctxI opbufs BUF_PRINTF upd [THEN iffD2]


lemma dis_x0_z0 [pages]: "P d \<Longrightarrow> P (ctx (dis_x0_z0 E b d))"
  unfolding dis_x0_z0_def value_let by (intro pages) (assumption | simp (no_asm))+

lemma dis_x0_z1 [pages]: "P d \<Longrightarrow> P (ctx (dis_x0_z1 E b d))"
  unfolding dis_x0_z1_def value_let by (intro pages) (assumption | simp (no_asm))+

lemma dis_x0_z2 [pages]: "P d \<Longrightarrow> P (ctx (dis_x0_z2 E b d))"
  unfolding dis_x0_z2_def value_let by (intro pages) (assumption | simp (no_asm))+

lemma dis_x0_z6 [pages]: "P d \<Longrightarrow> P (ctx (dis_x0_z6 E b d))"
  unfolding dis_x0_z6_def value_let by (intro pages) (assumption | simp (no_asm))+

lemma dis_x0_z7 [pages]: "P d \<Longrightarrow> P (ctx (dis_x0_z7 E b d))"
  unfolding dis_x0_z7_def value_let by (intro pages) (assumption | simp (no_asm))+

lemma dis_x0 [pages]: "P d \<Longrightarrow> P (ctx (dis_x0 E b d))"
  unfolding dis_x0_def value_let by (intro pages) (assumption | simp (no_asm))+

lemma dis_49 [pages]: "P d \<Longrightarrow> P (ctx (dis_49 E b d))"
  unfolding dis_49_def value_let by (intro pages) (assumption | simp (no_asm))+

lemma dis_6d [pages]: "P d \<Longrightarrow> P (ctx (dis_6d E b d))"
  unfolding dis_6d_def value_let by (intro pages) (assumption | simp (no_asm))+

lemma dis_x1_r4k [pages]: "P d \<Longrightarrow> P (ctx (dis_x1_r4k E b d))"
  unfolding dis_x1_r4k_def value_let by (intro pages) (assumption | simp (no_asm))+

lemma dis_7f [pages]: "P d \<Longrightarrow> P (ctx (dis_7f E b d))"
  unfolding dis_7f_def value_let by (intro pages) (assumption | simp (no_asm))+

lemma dis_ld_r_r [pages]: "P d \<Longrightarrow> P (ctx (dis_ld_r_r E b d))"
  unfolding dis_ld_r_r_def value_let by (intro pages) (assumption | simp (no_asm))+

lemma dis_x1 [pages]: "P d \<Longrightarrow> P (ctx (dis_x1 E b d))"
  unfolding dis_x1_def value_let by (intro pages) (assumption | simp (no_asm))+

lemma dis_x2_r4k [pages]: "P d \<Longrightarrow> P (ctx (dis_x2_r4k E b d))"
  unfolding dis_x2_r4k_def value_let by (intro pages) (assumption | simp (no_asm))+

lemma dis_x2 [pages]: "P d \<Longrightarrow> P (ctx (dis_x2 E b d))"
  unfolding dis_x2_def value_let by (intro pages) (assumption | simp (no_asm))+

lemma dis_x3_z0 [pages]: "P d \<Longrightarrow> P (ctx (dis_x3_z0 E b d))"
  unfolding dis_x3_z0_def value_let by (intro pages) (assumption | simp (no_asm))+

lemma dis_x3_z1 [pages]: "P d \<Longrightarrow> P (ctx (dis_x3_z1 E b d))"
  unfolding dis_x3_z1_def value_let by (intro pages) (assumption | simp (no_asm))+

lemma dis_x3_z2 [pages]: "P d \<Longrightarrow> P (ctx (dis_x3_z2 E b d))"
  unfolding dis_x3_z2_def value_let by (intro pages) (assumption | simp (no_asm))+

lemma dis_cb [pages]: "P d \<Longrightarrow> P (ctx (dis_cb E b d))"
  unfolding dis_cb_def value_let by (intro pages) (assumption | simp (no_asm))+

lemma dis_x3_z3 [pages]: "P d \<Longrightarrow> P (ctx (dis_x3_z3 E b d))"
  unfolding dis_x3_z3_def value_let by (intro pages) (assumption | simp (no_asm))+

lemma dis_x3_z4 [pages]: "P d \<Longrightarrow> P (ctx (dis_x3_z4 E b d))"
  unfolding dis_x3_z4_def value_let by (intro pages) (assumption | simp (no_asm))+

lemma dis_ed_r4k [pages]: "P d \<Longrightarrow> P (ctx (dis_ed_r4k E b d))"
  unfolding dis_ed_r4k_def value_let by (intro pages) (assumption | simp (no_asm))+

lemma dis_ed_z180 [pages]: "P d \<Longrightarrow> P (ctx (dis_ed_z180 E b d))"
  unfolding dis_ed_z180_def value_let by (intro pages) (assumption | simp (no_asm))+

lemma dis_ed_z80n [pages]: "P d \<Longrightarrow> P (ctx (dis_ed_z80n E b d))"
  unfolding dis_ed_z80n_def value_let by (intro pages) (assumption | simp (no_asm))+

lemma dis_ed_kc160 [pages]: "P d \<Longrightarrow> P (ctx (dis_ed_kc160 E b d))"
  unfolding dis_ed_kc160_def value_let by (intro pages) (assumption | simp (no_asm))+

lemma dis_ed_x0 [pages]: "P d \<Longrightarrow> P (ctx (dis_ed_x0 E b d))"
  unfolding dis_ed_x0_def value_let by (intro pages) (assumption | simp (no_asm))+

lemma dis_ed_z4 [pages]: "P d \<Longrightarrow> P (ctx (dis_ed_z4 E b d))"
  unfolding dis_ed_z4_def value_let by (intro pages) (assumption | simp (no_asm))+

lemma dis_ed_z5 [pages]: "P d \<Longrightarrow> P (ctx (dis_ed_z5 E b d))"
  unfolding dis_ed_z5_def value_let by (intro pages) (assumption | simp (no_asm))+

lemma dis_ed_x1 [pages]: "P d \<Longrightarrow> P (ctx (dis_ed_x1 E b d))"
  unfolding dis_ed_x1_def value_let by (intro pages) (assumption | simp (no_asm))+

lemma dis_ed_x2 [pages]: "P d \<Longrightarrow> P (ctx (dis_ed_x2 E b d))"
  unfolding dis_ed_x2_def value_let by (intro pages) (assumption | simp (no_asm))+

lemma dis_ed_x3 [pages]: "P d \<Longrightarrow> P (ctx (dis_ed_x3 E b d))"
  unfolding dis_ed_x3_def value_let by (intro pages) (assumption | simp (no_asm))+

lemma dis_ed [pages]: "P d \<Longrightarrow> P (ctx (dis_ed E b d))"
  unfolding dis_ed_def value_let by (intro pages) (assumption | simp (no_asm))+

lemma dis_x3_z5 [pages]: "P d \<Longrightarrow> P (ctx (dis_x3_z5 E b d))"
  unfolding dis_x3_z5_def value_let by (intro pages) (assumption | simp (no_asm))+

lemma dis_x3_z6 [pages]: "P d \<Longrightarrow> P (ctx (dis_x3_z6 E b d))"
  unfolding dis_x3_z6_def value_let by (intro pages) (assumption | simp (no_asm))+

lemma dis_x3_z7 [pages]: "P d \<Longrightarrow> P (ctx (dis_x3_z7 E b d))"
  unfolding dis_x3_z7_def value_let by (intro pages) (assumption | simp (no_asm))+

lemma dis_x3 [pages]: "P d \<Longrightarrow> P (ctx (dis_x3 E b d))"
  unfolding dis_x3_def value_let by (intro pages) (assumption | simp (no_asm))+

lemma dis_main [pages]: "P d \<Longrightarrow> P (ctx (dis_main E b d))"
  unfolding dis_main_def value_let by (intro pages) (assumption | simp (no_asm))+

end

end
