(* ===== verification/Ticks_DisLength.thy ===== *)
theory Ticks_DisLength
  imports Ticks_DisLemmas Ticks_Cycles
begin

text \<open>
  How many bytes an instruction has, and which processors need a bounded number of prefixes. A plain processor
  is one without the Rabbit's, the eZ80's and the KC160's prefix opcodes, which may be repeated for ever.
\<close>

section \<open>The fields that steer the decoding\<close>

named_theorems steer \<open>length, position and decoding state after an operation of the disassembler\<close>

lemma steer_basic [steer]:
  "d_len (snd (READ_BYTE E d)) = d_len d + 1" "d_index (snd (READ_BYTE E d)) = d_index d"
  "d_prefix (snd (READ_BYTE E d)) = d_prefix d" "d_am (snd (READ_BYTE E d)) = d_am d" "d_adl (snd (READ_BYTE E d)) = d_adl d"
  "d_mb (snd (READ_BYTE E d)) = d_mb d" "d_pc (snd (READ_BYTE E d)) = d_pc d + 1"
  "d_len (put_text s d) = d_len d" "d_index (put_text s d) = d_index d"
  "d_prefix (put_text s d) = d_prefix d" "d_am (put_text s d) = d_am d" "d_adl (put_text s d) = d_adl d"
  "d_mb (put_text s d) = d_mb d" "d_pc (put_text s d) = d_pc d"
  "d_len (snd (label_or E a s t d)) = d_len d" "d_index (snd (label_or E a s t d)) = d_index d"
  "d_prefix (snd (label_or E a s t d)) = d_prefix d" "d_am (snd (label_or E a s t d)) = d_am d"
  "d_adl (snd (label_or E a s t d)) = d_adl d" "d_mb (snd (label_or E a s t d)) = d_mb d"
  "d_pc (snd (label_or E a s t d)) = d_pc d"
  by (simp_all add: READ_BYTE_def put_text_def label_or_def Let_def split: option.split)

lemma snd_lit [simp]: "snd (lit s d) = d"
  by (simp add: lit_def)

lemma steer_rel [steer]:
  "d_len (snd (rel_target E n d)) = d_len d" "d_index (snd (rel_target E n d)) = d_index d"
  "d_prefix (snd (rel_target E n d)) = d_prefix d" "d_am (snd (rel_target E n d)) = d_am d"
  "d_adl (snd (rel_target E n d)) = d_adl d" "d_mb (snd (rel_target E n d)) = d_mb d" "d_pc (snd (rel_target E n d)) = d_pc d"
  by (simp_all add: rel_target_def Let_def steer)

lemmas operands =
  lit_def handle_rel8_def handle_rel16_def handle_addr16_def handle_addr24_def handle_immed8_def
  handle_immed16_def handle_immed16_be_def handle_immed24_def handle_immed32_def handle_displacement_def
  handle_register8_def

text \<open>An operand leaves the decoding state alone.\<close>

definition quiet :: "piece \<Rightarrow> bool" where
  "quiet p \<longleftrightarrow> (\<forall>d. let d' = snd (p d) in d_index d' = d_index d \<and> d_prefix d' = d_prefix d \<and> d_am d' = d_am d \<and>
     d_adl d' = d_adl d \<and> d_mb d' = d_mb d)"

lemma quietD:
  assumes "quiet p"
  shows "d_index (snd (p d)) = d_index d" "d_prefix (snd (p d)) = d_prefix d" "d_am (snd (p d)) = d_am d"
    "d_adl (snd (p d)) = d_adl d" "d_mb (snd (p d)) = d_mb d"
  using assms by (simp_all add: quiet_def Let_def)

lemma quiet_pieces [simp]:
  "quiet (lit s)" "quiet (handle_rel8 E)" "quiet (handle_rel16 E)" "quiet (handle_addr16 E)" "quiet (handle_addr24 E)"
  "quiet (handle_immed8 E)" "quiet (handle_immed16 E)" "quiet (handle_immed16_be E)" "quiet (handle_immed24 E)"
  "quiet (handle_immed32 E)" "quiet (handle_displacement E)" "quiet (handle_register8 E y)"
  "quiet (if c then p else q) = (if c then quiet p else quiet q)"
  by (simp_all add: quiet_def operands Let_def case_prod_beta steer)

lemma quiet_print_args: "list_all quiet ps \<Longrightarrow> quiet (print_args ps)"
proof (induction ps)
  case (Cons p ps)
  then have "quiet p" "quiet (print_args ps)" by simp_all
  then show ?case by (simp add: quiet_def Let_def case_prod_beta print_args.simps)
qed (simp add: quiet_def print_args.simps)

lemma steer_printf [steer]:
  assumes "list_all quiet ps"
  shows "d_index (BUF_PRINTF ps d) = d_index d" "d_prefix (BUF_PRINTF ps d) = d_prefix d" "d_am (BUF_PRINTF ps d) = d_am d"
    "d_adl (BUF_PRINTF ps d) = d_adl d" "d_mb (BUF_PRINTF ps d) = d_mb d"
  using quietD [OF quiet_print_args [OF assms], of d] by (simp_all add: BUF_PRINTF_def case_prod_beta steer)

lemma steer_opbuf [steer]:
  assumes "quiet p"
  shows "d_index (to_opbuf1 p d) = d_index d" "d_prefix (to_opbuf1 p d) = d_prefix d" "d_am (to_opbuf1 p d) = d_am d"
    "d_adl (to_opbuf1 p d) = d_adl d" "d_mb (to_opbuf1 p d) = d_mb d"
    "d_index (to_opbuf2 p d) = d_index d" "d_prefix (to_opbuf2 p d) = d_prefix d" "d_am (to_opbuf2 p d) = d_am d"
    "d_adl (to_opbuf2 p d) = d_adl d" "d_mb (to_opbuf2 p d) = d_mb d"
  using quietD [OF assms, of d] by (simp_all add: to_opbuf1_def to_opbuf2_def case_prod_beta)

section \<open>The bytes of an operand\<close>

definition reads_wide :: "dcontext \<Rightarrow> nat" where
  "reads_wide d = (if WORDIS24 d then 3 else 2)"

definition reads_reg :: "int \<Rightarrow> dcontext \<Rightarrow> nat" where
  "reads_reg y d = (if y = 6 \<and> d_index d \<noteq> 0 \<and> d_index d \<noteq> 3 \<and> d_prefix d \<noteq> 0xcb then 1 else 0)"

lemma len_pieces [steer]:
  "d_len (snd (lit s d)) = d_len d" "d_len (snd (handle_rel8 E d)) = d_len d + 1" "d_len (snd (handle_rel16 E d)) = d_len d + 2"
  "d_len (snd (handle_addr16 E d)) = d_len d + reads_wide d" "d_len (snd (handle_addr24 E d)) = d_len d + 3"
  "d_len (snd (handle_immed8 E d)) = d_len d + 1" "d_len (snd (handle_immed16 E d)) = d_len d + reads_wide d"
  "d_len (snd (handle_immed16_be E d)) = d_len d + 2" "d_len (snd (handle_immed24 E d)) = d_len d + 3"
  "d_len (snd (handle_immed32 E d)) = d_len d + 4" "d_len (snd (handle_displacement E d)) = d_len d + 1"
  "d_len (snd (handle_register8 E y d)) = d_len d + reads_reg y d"
  by (simp_all add: operands Let_def case_prod_beta steer reads_wide_def reads_reg_def WORDIS24_def)

lemma len_printf [steer]:
  "d_len (BUF_PRINTF ps d) = d_len (snd (print_args ps d))"
  "d_len (snd (print_args [] d)) = d_len d"
  "d_len (snd (print_args (p # ps) d)) = d_len (snd (print_args ps (snd (p d))))"
  by (simp_all add: BUF_PRINTF_def case_prod_beta steer Let_def print_args.simps)

lemma len_opbuf [steer]:
  "d_len (to_opbuf1 p d) = d_len (snd (p d))" "d_len (to_opbuf2 p d) = d_len (snd (p d))"
  by (simp_all add: to_opbuf1_def to_opbuf2_def case_prod_beta)

lemma reads_after [steer]:
  "quiet p \<Longrightarrow> reads_wide (snd (p d)) = reads_wide d" "quiet p \<Longrightarrow> reads_reg y (snd (p d)) = reads_reg y d"
  "quiet p \<Longrightarrow> reads_wide (to_opbuf1 p d) = reads_wide d" "quiet p \<Longrightarrow> reads_reg y (to_opbuf1 p d) = reads_reg y d"
  "quiet p \<Longrightarrow> reads_wide (to_opbuf2 p d) = reads_wide d" "quiet p \<Longrightarrow> reads_reg y (to_opbuf2 p d) = reads_reg y d"
  by (simp_all add: reads_wide_def reads_reg_def WORDIS24_def quietD steer)

section \<open>Plain processors\<close>

definition plain :: "dis_env \<Rightarrow> bool" where
  "plain E \<longleftrightarrow> \<not> israbbit (machine E) \<and> \<not> isez80 (machine E) \<and> \<not> iskc160ext (machine E) \<and>
     \<not> dis_rabbit4k E \<and> \<not> dis_rabbit6k E \<and> c_adl_mode E = 0 \<and>
     list_all (\<lambda>h. h_flags h AND F_SEQUENCE = 0 \<and> h_length h \<le> 2) (rst_table (c_target E))"

lemma plain_preds [simp]:
  assumes "plain E"
  shows "israbbit (machine E) = False" "israbbit3k (machine E) = False" "dis_rabbit4k E = False"
    "dis_rabbit6k E = False" "isez80 (machine E) = False" "iskc160ext (machine E) = False"
proof -
  have "x AND 3084 = 0 \<Longrightarrow> x AND 8 = 0" for x :: "16 word"
    using and.assoc [of x 3084 8] by simp
  then have "cpu_is CPU_R3K s \<Longrightarrow> israbbit s" for s
    by (auto simp: israbbit_def cpu_is_def cpu_codes)
  then show "israbbit3k (machine E) = False"
    using assms by (auto simp: plain_def israbbit3k_def)
qed (use assms in \<open>simp_all add: plain_def\<close>)

text \<open>The line of a page reads at most \<open>k\<close> more bytes; a page that asks for another byte does it with \<open>A\<close>.\<close>

definition adds :: "(dcontext \<Rightarrow> bool) \<Rightarrow> nat \<Rightarrow> dcontext \<Rightarrow> outcome \<Rightarrow> bool" where
  "adds A k d o' = (case o' of Again d' \<Rightarrow> A d' | Line d' \<Rightarrow> d_len d \<le> d_len d' \<and> d_len d' \<le> d_len d + k | Sequence h d' \<Rightarrow> False)"

lemma adds_Line: "d_len d \<le> d_len d' \<Longrightarrow> d_len d' \<le> d_len d + k \<Longrightarrow> adds A k d (Line d')"
  by (simp add: adds_def)

lemma adds_Again: "A d' \<Longrightarrow> adds A k d (Again d')"
  by (simp add: adds_def)

lemma adds_if: "(c \<Longrightarrow> adds A k d a) \<Longrightarrow> (\<not> c \<Longrightarrow> adds A k d b) \<Longrightarrow> adds A k d (if c then a else b)"
  by simp

lemma adds_let:
  "(\<And>d'. d_len d' = d_len t \<Longrightarrow> d_index d' = d_index t \<Longrightarrow> d_prefix d' = d_prefix t \<Longrightarrow> d_am d' = d_am t \<Longrightarrow>
      d_adl d' = d_adl t \<Longrightarrow> d_mb d' = d_mb t \<Longrightarrow> d_pc d' = d_pc t \<Longrightarrow> adds A k d (f d')) \<Longrightarrow> adds A k d (Let t f)"
  by simp

lemma adds_read:
  "(\<And>v d'. d_len d' = d_len t + 1 \<Longrightarrow> d_index d' = d_index t \<Longrightarrow> d_prefix d' = d_prefix t \<Longrightarrow> d_am d' = d_am t \<Longrightarrow>
      d_adl d' = d_adl t \<Longrightarrow> adds A k d (f v d')) \<Longrightarrow> adds A k d (let (v, d') = READ_BYTE E t in f v d')"
  by (simp add: case_prod_beta steer)

lemma adds_weaken: "adds A j d' o' \<Longrightarrow> d_len d \<le> d_len d' \<Longrightarrow> d_len d' + j \<le> d_len d + k \<Longrightarrow> adds A k d o'"
  by (auto simp: adds_def split: outcome.splits)

lemmas adds_intros = adds_Line adds_Again adds_if adds_let adds_read

lemma reads_short: "d_am d = 0 \<Longrightarrow> d_adl d = 0 \<Longrightarrow> reads_wide d = 2"
  by (simp add: reads_wide_def WORDIS24_def)

text \<open>A conditional or nested right-hand side of a \<open>let\<close> is moved out before the rules are applied.\<close>

lemma let_out:
  "Let (if c then t else u) f = (if c then Let t f else Let u f)"
  "Let (Let t g) f = Let t (\<lambda>x. Let (g x) f)"
  "Let (case p of (v, x) \<Rightarrow> h v x) k = (case p of (v, x) \<Rightarrow> Let (h v x) k)"
  by (simp_all add: case_prod_beta)

lemma adds_read':
  "(\<And>v d'. d_len d' = d_len t + 1 \<Longrightarrow> d_index d' = d_index t \<Longrightarrow> d_prefix d' = d_prefix t \<Longrightarrow> d_am d' = d_am t \<Longrightarrow>
      d_adl d' = d_adl t \<Longrightarrow> adds A k d (f v d')) \<Longrightarrow> adds A k d (case READ_BYTE E t of (v, d') \<Rightarrow> f v d')"
  using adds_read [of t A k d f E] by simp

named_theorems plain_pages \<open>the length of a page on a plain processor\<close>

lemma plain_dis_x0_z1 [plain_pages]:
  assumes "plain E" "d_am d = 0" "d_adl d = 0"
  shows "adds A 2 d (dis_x0_z1 E b d)"
  unfolding dis_x0_z1_def value_let
  by (intro adds_intros) (use assms in \<open>simp_all add: steer reads_short reads_reg_def plain_pages\<close>)

lemma plain_dis_x0_z2 [plain_pages]:
  assumes "plain E" "d_am d = 0" "d_adl d = 0"
  shows "adds A 2 d (dis_x0_z2 E b d)"
  unfolding dis_x0_z2_def value_let
  by (intro adds_intros) (use assms in \<open>simp_all add: steer reads_short reads_reg_def plain_pages\<close>)

lemma plain_dis_x0_z6 [plain_pages]:
  assumes "plain E" "d_am d = 0" "d_adl d = 0"
  shows "adds A 2 d (dis_x0_z6 E b d)"
  unfolding dis_x0_z6_def value_let
  by (intro adds_intros) (use assms in \<open>simp_all add: steer reads_short reads_reg_def plain_pages\<close>)

lemma plain_dis_x0_z7 [plain_pages]:
  assumes "plain E" "d_am d = 0" "d_adl d = 0"
  shows "adds A 2 d (dis_x0_z7 E b d)"
  unfolding dis_x0_z7_def value_let
  by (intro adds_intros) (use assms in \<open>simp_all add: steer reads_short reads_reg_def plain_pages\<close>)

lemma plain_dis_ld_r_r [plain_pages]:
  assumes "plain E" "d_am d = 0" "d_adl d = 0"
  shows "adds A 2 d (dis_ld_r_r E b d)"
  unfolding dis_ld_r_r_def value_let
  by (intro adds_intros) (use assms in \<open>simp_all add: steer reads_short reads_reg_def plain_pages\<close>)

lemma plain_dis_x1 [plain_pages]:
  assumes "plain E" "d_am d = 0" "d_adl d = 0"
  shows "adds A 2 d (dis_x1 E b d)"
  unfolding dis_x1_def value_let
  by (intro adds_intros) (use assms in \<open>simp_all add: steer reads_short reads_reg_def plain_pages\<close>)

lemma plain_dis_x2 [plain_pages]:
  assumes "plain E" "d_am d = 0" "d_adl d = 0"
  shows "adds A 2 d (dis_x2 E b d)"
  unfolding dis_x2_def value_let
  by (intro adds_intros) (use assms in \<open>simp_all add: steer reads_short reads_reg_def plain_pages\<close>)

lemma plain_dis_x3_z0 [plain_pages]:
  assumes "plain E" "d_am d = 0" "d_adl d = 0"
  shows "adds A 2 d (dis_x3_z0 E b d)"
  unfolding dis_x3_z0_def value_let
  by (intro adds_intros) (use assms in \<open>simp_all add: steer reads_short reads_reg_def plain_pages\<close>)

lemma plain_dis_x3_z1 [plain_pages]:
  assumes "plain E" "d_am d = 0" "d_adl d = 0"
  shows "adds A 2 d (dis_x3_z1 E b d)"
  unfolding dis_x3_z1_def value_let
  by (intro adds_intros) (use assms in \<open>simp_all add: steer reads_short reads_reg_def plain_pages\<close>)

lemma plain_dis_x3_z2 [plain_pages]:
  assumes "plain E" "d_am d = 0" "d_adl d = 0"
  shows "adds A 2 d (dis_x3_z2 E b d)"
  unfolding dis_x3_z2_def value_let
  by (intro adds_intros) (use assms in \<open>simp_all add: steer reads_short reads_reg_def plain_pages\<close>)

lemma plain_dis_cb:
  assumes "plain E" "d_am d = 0" "d_adl d = 0" "d_prefix d = 0xcb"
  shows "adds A 0 d (dis_cb E b d)"
  unfolding dis_cb_def value_let let_out
  by (intro adds_intros) (use assms in \<open>simp_all add: steer reads_short reads_reg_def\<close>)

lemma plain_dis_x3_z3 [plain_pages]:
  assumes "plain E" "d_am d = 0" "d_adl d = 0"
  shows "adds A 2 d (dis_x3_z3 E b d)"
  unfolding dis_x3_z3_def value_let let_out
  by (intro adds_intros adds_read' adds_weaken [OF plain_dis_cb])
    (use assms in \<open>simp_all add: steer reads_short reads_reg_def case_prod_beta\<close>)

lemma plain_dis_x3_z4 [plain_pages]:
  assumes "plain E" "d_am d = 0" "d_adl d = 0"
  shows "adds A 2 d (dis_x3_z4 E b d)"
  unfolding dis_x3_z4_def value_let
  by (intro adds_intros) (use assms in \<open>simp_all add: steer reads_short reads_reg_def plain_pages\<close>)

lemma plain_dis_ed_z180 [plain_pages]:
  assumes "plain E" "d_am d = 0" "d_adl d = 0"
  shows "adds A 3 d (dis_ed_z180 E b d)"
  unfolding dis_ed_z180_def value_let
  by (intro adds_intros) (use assms in \<open>simp_all add: steer reads_short reads_reg_def plain_pages\<close>)

lemma plain_dis_ed_z80n [plain_pages]:
  assumes "plain E" "d_am d = 0" "d_adl d = 0"
  shows "adds A 3 d (dis_ed_z80n E b d)"
  unfolding dis_ed_z80n_def value_let
  by (intro adds_intros) (use assms in \<open>simp_all add: steer reads_short reads_reg_def plain_pages\<close>)

lemma plain_dis_ed_kc160 [plain_pages]:
  assumes "plain E" "d_am d = 0" "d_adl d = 0"
  shows "adds A 3 d (dis_ed_kc160 E b d)"
  unfolding dis_ed_kc160_def value_let
  by (intro adds_intros) (use assms in \<open>simp_all add: steer reads_short reads_reg_def plain_pages\<close>)

lemma plain_dis_ed_x0 [plain_pages]:
  assumes "plain E" "d_am d = 0" "d_adl d = 0"
  shows "adds A 3 d (dis_ed_x0 E b d)"
  unfolding dis_ed_x0_def value_let
  by (intro adds_intros) (use assms in \<open>simp_all add: steer reads_short reads_reg_def plain_pages\<close>)

lemma plain_dis_ed_z4 [plain_pages]:
  assumes "plain E" "d_am d = 0" "d_adl d = 0"
  shows "adds A 3 d (dis_ed_z4 E b d)"
  unfolding dis_ed_z4_def value_let
  by (intro adds_intros) (use assms in \<open>simp_all add: steer reads_short reads_reg_def plain_pages\<close>)

lemma plain_dis_ed_z5 [plain_pages]:
  assumes "plain E" "d_am d = 0" "d_adl d = 0"
  shows "adds A 3 d (dis_ed_z5 E b d)"
  unfolding dis_ed_z5_def value_let
  by (intro adds_intros) (use assms in \<open>simp_all add: steer reads_short reads_reg_def plain_pages\<close>)

lemma plain_dis_ed_x1 [plain_pages]:
  assumes "plain E" "d_am d = 0" "d_adl d = 0"
  shows "adds A 3 d (dis_ed_x1 E b d)"
  unfolding dis_ed_x1_def value_let
  by (intro adds_intros) (use assms in \<open>simp_all add: steer reads_short reads_reg_def plain_pages\<close>)

lemma plain_dis_ed_x2 [plain_pages]:
  assumes "plain E" "d_am d = 0" "d_adl d = 0"
  shows "adds A 3 d (dis_ed_x2 E b d)"
  unfolding dis_ed_x2_def value_let
  by (intro adds_intros) (use assms in \<open>simp_all add: steer reads_short reads_reg_def plain_pages\<close>)

lemma plain_dis_ed_x3 [plain_pages]:
  assumes "plain E" "d_am d = 0" "d_adl d = 0"
  shows "adds A 3 d (dis_ed_x3 E b d)"
  unfolding dis_ed_x3_def value_let
  by (intro adds_intros) (use assms in \<open>simp_all add: steer reads_short reads_reg_def plain_pages\<close>)

lemma plain_dis_ed [plain_pages]:
  assumes "plain E" "d_am d = 0" "d_adl d = 0"
  shows "adds A 3 d (dis_ed E b d)"
  unfolding dis_ed_def value_let
  by (intro adds_intros adds_weaken [OF plain_dis_ed_x0] adds_weaken [OF plain_dis_ed_x1]
      adds_weaken [OF plain_dis_ed_x2] adds_weaken [OF plain_dis_ed_x3]) (use assms in \<open>simp_all add: steer\<close>)

lemma plain_dis_x3_z6 [plain_pages]:
  assumes "plain E" "d_am d = 0" "d_adl d = 0"
  shows "adds A 2 d (dis_x3_z6 E b d)"
  unfolding dis_x3_z6_def value_let
  by (intro adds_intros) (use assms in \<open>simp_all add: steer reads_short reads_reg_def plain_pages\<close>)

lemma len_helper_bytes [steer]:
  "d_len (skip_bytes E n d) = d_len d + n" "d_len (defb_bytes E i n d) = d_len d + n"
  by (induction n arbitrary: i d) (simp_all add: steer case_prod_beta Let_def)

lemma plain_dis_rst [plain_pages]:
  assumes "plain E"
  shows "adds A 2 d (dis_rst E b d)"
proof (cases "get_rsthelper E b d")
  case (Some h)
  then have "h \<in> set (rst_table (c_target E))"
    by (auto simp: get_rsthelper_def find_Some_iff)
  then have "h_flags h AND F_SEQUENCE = 0" "h_length h \<le> 2"
    using assms unfolding plain_def list_all_iff by blast+
  with Some show ?thesis
    by (simp add: dis_rst_def Let_def adds_def steer split: option.split)
qed (simp add: dis_rst_def Let_def adds_def steer)

lemma plain_dis_x3_z7 [plain_pages]:
  assumes "plain E" "d_am d = 0" "d_adl d = 0"
  shows "adds A 2 d (dis_x3_z7 E b d)"
  unfolding dis_x3_z7_def value_let
  by (intro adds_intros) (use assms in \<open>simp_all add: steer reads_short reads_reg_def plain_pages\<close>)

section \<open>Prefixes of a plain processor\<close>

lemma byte_cases:
  assumes "192 \<le> b" "b < 256" "b AND 7 = 5" "shr (b AND 0x38) 3 AND 1 = 1"
  shows "shr (shr (b AND 0x38) 3 AND 6) 1 = 1 \<Longrightarrow> (b = 0xdd) = True"
    "shr (shr (b AND 0x38) 3 AND 6) 1 = 3 \<Longrightarrow> (b = 0xfd) = True"
  using quarter [of 192 b, simplified, OF assms(1,2)] assms(3,4) by (elim disjE; simp)+

text \<open>A prefix sets \<open>index\<close>, or the bank bit of the KR580VM1, and neither can be set again.\<close>

definition prefix_step :: "dis_env \<Rightarrow> int \<Rightarrow> dcontext \<Rightarrow> dcontext \<Rightarrow> bool" where
  "prefix_step E b d d' \<longleftrightarrow>
     d_pc d' = d_pc d \<and> d_len d' = d_len d \<and> d_am d' = d_am d \<and> d_adl d' = d_adl d \<and>
     (canindex (machine E) \<and> b \<in> {0xdd, 0xfd} \<and> PEEK_BYTE E 0 d \<notin> {0xdd, 0xfd} \<and> d_index d' \<noteq> 0 \<and> d_mb d' = d_mb d \<or>
      isvm1 (machine E) \<and> d_index d = 0 \<and> d_index d' \<noteq> 0 \<and> d_mb d' = d_mb d \<or>
      isvm1 (machine E) \<and> d_mb d = 0 \<and> d_mb d' \<noteq> 0 \<and> d_index d' = d_index d)"

lemma pc_printf: "d_pc (BUF_PRINTF [lit s] d) = d_pc d"
  by (simp add: BUF_PRINTF_def print_args.simps steer case_prod_beta lit_def)

lemma plain_dis_x0_z0 [plain_pages]:
  assumes "plain E" "d_am d = 0" "d_adl d = 0"
  shows "adds (prefix_step E b d) 2 d (dis_x0_z0 E b d)"
  unfolding dis_x0_z0_def value_let let_out
  by (intro adds_intros) (use assms in \<open>simp_all add: prefix_step_def steer reads_short reads_reg_def pc_printf\<close>)

lemma plain_dis_x0 [plain_pages]:
  assumes "plain E" "d_am d = 0" "d_adl d = 0"
  shows "adds (prefix_step E b d) 2 d (dis_x0 E b d)"
  unfolding dis_x0_def value_let
  by (intro adds_intros) (use assms in \<open>simp_all add: steer reads_short reads_reg_def plain_pages\<close>)

text \<open>Only the ED page, which needs the index registers, reads three bytes.\<close>

definition most_reads :: "dis_env \<Rightarrow> nat" where
  "most_reads E = (if canindex (machine E) then 4 else 2)"

lemma adds_most: "adds A 2 d o' \<Longrightarrow> adds A (most_reads E) d o'"
  by (auto simp: adds_def most_reads_def split: outcome.splits)

lemma plain_dis_x3_z5 [plain_pages]:
  assumes "plain E" "d_am d = 0" "d_adl d = 0" "192 \<le> b" "b < 256" "b AND 7 = 5"
  shows "adds (prefix_step E b d) (most_reads E) d (dis_x3_z5 E b d)"
  unfolding dis_x3_z5_def value_let
  by (intro adds_intros adds_weaken [OF plain_dis_ed])
    (use assms in \<open>simp_all add: prefix_step_def steer reads_short reads_reg_def byte_cases [OF assms(4-6)] most_reads_def\<close>)

lemma plain_dis_x3 [plain_pages]:
  assumes "plain E" "d_am d = 0" "d_adl d = 0" "192 \<le> b" "b < 256"
  shows "adds (prefix_step E b d) (most_reads E) d (dis_x3 E b d)"
  unfolding dis_x3_def value_let
  by (intro adds_intros) (use assms in \<open>simp_all add: plain_pages adds_most\<close>)

lemma plain_dis_main [plain_pages]:
  assumes "plain E" "d_am d = 0" "d_adl d = 0" "0 \<le> b" "b < 256"
  shows "adds (prefix_step E b d) (most_reads E) d (dis_main E b d)"
proof -
  have "shr b 6 = 3 \<Longrightarrow> 192 \<le> b" by (simp add: drop_bit_eq_div)
  with assms show ?thesis
    unfolding dis_main_def value_let
    by (intro adds_intros) (simp_all add: plain_pages adds_most)
qed

section \<open>The loop ends\<close>

definition loop_inv :: "dis_env \<Rightarrow> dcontext \<Rightarrow> bool" where
  "loop_inv E d \<longleftrightarrow> d_am d = 0 \<and> d_adl d = 0 \<and>
     (canindex (machine E) \<longrightarrow> d_index d \<noteq> 0 \<longrightarrow> PEEK_BYTE E 0 d \<notin> {0xdd, 0xfd})"

text \<open>How many more prefixes there can be.\<close>

definition prefixes_left :: "dis_env \<Rightarrow> dcontext \<Rightarrow> nat" where
  "prefixes_left E d =
    (if d_index d = 0 \<and> (canindex (machine E) \<or> isvm1 (machine E)) then 1 else 0) + (if isvm1 (machine E) \<and> d_mb d = 0 then 1 else 0)"

lemma not_vm1: "canindex s \<Longrightarrow> \<not> isvm1 s"
proof -
  have "x AND 16832 = 0 \<Longrightarrow> x AND 16384 = 0" for x :: "16 word"
    using and.assoc [of x 16832 16384] by simp
  then show "canindex s \<Longrightarrow> \<not> isvm1 s"
    by (auto simp: canindex_def isvm1_def cpu_is_def cpu_codes)
qed

lemma read_value: "fst (READ_BYTE E d) = PEEK_BYTE E 0 d"
  by (simp add: READ_BYTE_def PEEK_BYTE_def Let_def)

lemma prefix_decreases:
  assumes "prefix_step E (PEEK_BYTE E 0 d) (snd (READ_BYTE E d)) d'" "loop_inv E d"
  shows "loop_inv E d'" "prefixes_left E d' < prefixes_left E d" "d_len d' = d_len d + 1"
proof -
  have p: "PEEK_BYTE E 0 d' = PEEK_BYTE E 0 (snd (READ_BYTE E d))"
    using assms(1) by (simp add: PEEK_BYTE_def prefix_step_def)
  show "loop_inv E d'" "prefixes_left E d' < prefixes_left E d" "d_len d' = d_len d + 1"
    using assms p not_vm1 [of "machine E"]
    by (auto simp: prefix_step_def loop_inv_def prefixes_left_def steer)
qed

text \<open>A returned line has at least one byte more and at most as many as the prefixes and one opcode can read.\<close>

lemma dis_loop_returns:
  assumes "plain E" "loop_inv E d"
  shows "\<exists>n d'. dis_loop E a d = Some (int n, d') \<and> d_len d < n \<and> n \<le> d_len d + prefixes_left E d + 1 + most_reads E"
  using assms(2)
proof (induction "prefixes_left E d" arbitrary: d rule: less_induct)
  case less
  let ?b = "PEEK_BYTE E 0 d" and ?d = "snd (READ_BYTE E d)"
  have b: "0 \<le> ?b" "?b < 256"
    using uint8_bound by (simp_all add: PEEK_BYTE_def)
  have f: "d_am ?d = 0" "d_adl ?d = 0"
    using less.prems by (simp_all add: loop_inv_def steer)
  have step: "dis_loop E a d = (case dis_main E ?b ?d of
      Again d \<Rightarrow> dis_loop E a d | Line d \<Rightarrow> Some (int (d_len d), eol E a d)
    | Sequence h d \<Rightarrow> dis_sequence E ?b (Some h) 0 1 ((eol E (uint (d_pc d) + 1) d)\<lparr>d_len := 0\<rparr>))"
    by (subst dis_loop.simps) (simp add: case_prod_beta read_value split: outcome.split)
  have main: "adds (prefix_step E ?b ?d) (most_reads E) ?d (dis_main E ?b ?d)"
    by (rule plain_dis_main [OF assms(1) f b])
  show ?case
  proof (cases "dis_main E ?b ?d")
    case (Again d')
    then have "prefix_step E ?b ?d d'" using main by (simp add: adds_def)
    note p = prefix_decreases [OF this less.prems]
    show ?thesis
      using less.hyps [OF p(2,1)] p step Again by fastforce
  next
    case (Line d')
    then show ?thesis using main step by (auto simp: adds_def steer)
  next
    case (Sequence h d')
    then show ?thesis using main by (simp add: adds_def)
  qed
qed

end
