(* ===== verification/Ticks_Listing.thy ===== *)
theory Ticks_Listing
  imports Ticks_DisLength
begin

text \<open>
  The listings: a plain processor's instruction is listed in at most six bytes, which the line shows; a memory of
  prefixes is never listed on the others; a listing of a range ends.
\<close>

section \<open>The bytes on a line\<close>

definition listed :: "dis_env \<Rightarrow> 32 word \<Rightarrow> dcontext \<Rightarrow> bool" where
  "listed E a d \<longleftrightarrow> d_pc d = a + of_nat (d_len d) \<and> length (d_bytes d) = 6 \<and>
     (\<forall>i < min 6 (d_len d). d_bytes d ! i = uint (mem_at E (a + of_nat i)))"

interpretation listing: reading "listed E a" E for E a
proof
  fix d assume d: "listed E a d"
  show "listed E a (snd (READ_BYTE E d))"
  proof (cases "d_len d < 6")
    case True
    then show ?thesis
      using d by (auto simp: listed_def READ_BYTE_def Let_def nth_list_update)
  next
    case False
    then show ?thesis
      using d by (simp add: listed_def READ_BYTE_def Let_def)
  qed
next
  fix d d' assume d: "listed E a d" and same: "same_reads d d'"
  have "d_pc d' = d_pc d" "d_len d' = d_len d" "d_bytes d' = d_bytes d"
    using same by (simp_all add: same_reads_def)
  then show "listed E a d'" using d by (simp add: listed_def)
qed

text \<open>What the byte column has to show for the \<open>n\<close> bytes at an address.\<close>

definition memory_column :: "dis_env \<Rightarrow> 32 word \<Rightarrow> nat \<Rightarrow> string" where
  "memory_column E a n =
    concat (List.map (\<lambda>i. (if i = 0 then [] else '' '') @ hexw 2 (uint (mem_at E (a + of_nat i)))) [0..<min 6 n]) @
    (if 6 < n then '' '' @ replicate (n - 6) CHR ''.'' else [])"

lemma byte_column_listed:
  assumes "listed E a d"
  shows "byte_column d = memory_column E a (d_len d)"
proof -
  let ?f = "\<lambda>i. if i < 6 then (if i = 0 then [] else '' '') @ hexw 2 (d_bytes d ! i) else (if i = 6 then '' '' else []) @ ''.''"
  have low: "List.map ?f [0..<k] = List.map (\<lambda>i. (if i = 0 then [] else '' '') @ hexw 2 (uint (mem_at E (a + of_nat i)))) [0..<k]"
    if "k \<le> min 6 (d_len d)" for k
    using that assms by (auto simp: listed_def intro!: map_cong)
  have high: "concat (List.map ?f [6..<6 + Suc k]) = '' '' @ replicate (Suc k) CHR ''.''" for k
  proof -
    have tail: "List.map ?f [7..<7 + k] = replicate k ''.''"
      by (auto simp: list_eq_iff_nth_eq)
    have cons: "[6..<6 + Suc k] = 6 # [7..<7 + k]"
      by (simp add: upt_conv_Cons)
    have dots: "concat (replicate k ''.'') = replicate k CHR ''.''"
      by (induction k) simp_all
    show ?thesis
      unfolding cons list.map tail concat.simps dots by simp
  qed
  show ?thesis
  proof (cases "6 < d_len d")
    case True
    then obtain k where k: "d_len d = 6 + Suc k" by (intro that [of "d_len d - 7"]) simp
    have "[0..<d_len d] = [0..<6] @ [6..<6 + Suc k]"
      unfolding k by (rule upt_add_eq_append) simp
    then have "byte_column d = concat (List.map ?f [0..<6]) @ concat (List.map ?f [6..<6 + Suc k])"
      unfolding byte_column_def by (simp only: map_append concat_append)
    moreover have "min 6 (d_len d) = 6" "d_len d - 6 = Suc k"
      using True k by simp_all
    ultimately show ?thesis
      using low [of 6] high [of k] True by (simp add: memory_column_def del: upt_rec_numeral)
  next
    case False
    then have m: "min 6 (d_len d) = d_len d" by simp
    have "d_len d \<le> min 6 (d_len d)" unfolding m ..
    from low [OF this] show ?thesis
      unfolding byte_column_def memory_column_def m using False by (simp only: if_False append_Nil2)
  qed
qed

section \<open>What a call returns\<close>

text \<open>A returned line that does not come from the byte codes: its context has read the bytes it counts.\<close>

definition no_sequences :: "dis_env \<Rightarrow> bool" where
  "no_sequences E \<longleftrightarrow> list_all (\<lambda>h. h_flags h AND F_SEQUENCE = 0) (rst_table (c_target E))"

definition not_sequence :: "outcome \<Rightarrow> bool" where
  "not_sequence o' = (case o' of Sequence h d \<Rightarrow> False | _ \<Rightarrow> True)"

lemma not_sequence_if: "(c \<Longrightarrow> not_sequence a) \<Longrightarrow> (\<not> c \<Longrightarrow> not_sequence b) \<Longrightarrow> not_sequence (if c then a else b)"
  by simp

lemma not_sequence_let: "(\<And>d. not_sequence (f d)) \<Longrightarrow> not_sequence (Let t f)"
  by simp

lemma not_sequence_read: "(\<And>v d. not_sequence (f v d)) \<Longrightarrow> not_sequence (case p of (v, d) \<Rightarrow> f v d)"
  by (simp add: case_prod_beta)

lemma not_sequence_Line: "not_sequence (Line d)" "not_sequence (Again d)"
  by (simp_all add: not_sequence_def)

lemmas no_seq = not_sequence_if not_sequence_let not_sequence_read not_sequence_Line

lemma no_seq_rst:
  assumes "no_sequences E"
  shows "not_sequence (dis_rst E b d)"
proof (cases "get_rsthelper E b d")
  case (Some h)
  then have "h \<in> set (rst_table (c_target E))"
    by (auto simp: get_rsthelper_def find_Some_iff)
  then have "h_flags h AND F_SEQUENCE = 0"
    using assms unfolding no_sequences_def list_all_iff by blast
  with Some show ?thesis
    by (simp add: dis_rst_def Let_def not_sequence_def split: option.split)
qed (simp add: dis_rst_def Let_def not_sequence_def)

named_theorems never_sequence \<open>the pages that never enter the byte codes\<close>

lemma no_seq_dis_x0_z0 [never_sequence]: "not_sequence (dis_x0_z0 E b d)"
  unfolding dis_x0_z0_def by (intro no_seq never_sequence)

lemma no_seq_dis_x0_z1 [never_sequence]: "not_sequence (dis_x0_z1 E b d)"
  unfolding dis_x0_z1_def by (intro no_seq never_sequence)

lemma no_seq_dis_x0_z2 [never_sequence]: "not_sequence (dis_x0_z2 E b d)"
  unfolding dis_x0_z2_def by (intro no_seq never_sequence)

lemma no_seq_dis_x0_z6 [never_sequence]: "not_sequence (dis_x0_z6 E b d)"
  unfolding dis_x0_z6_def by (intro no_seq never_sequence)

lemma no_seq_dis_x0_z7 [never_sequence]: "not_sequence (dis_x0_z7 E b d)"
  unfolding dis_x0_z7_def by (intro no_seq never_sequence)

lemma no_seq_dis_x0 [never_sequence]: "not_sequence (dis_x0 E b d)"
  unfolding dis_x0_def by (intro no_seq never_sequence)

lemma no_seq_dis_49 [never_sequence]: "not_sequence (dis_49 E b d)"
  unfolding dis_49_def by (intro no_seq never_sequence)

lemma no_seq_dis_6d [never_sequence]: "not_sequence (dis_6d E b d)"
  unfolding dis_6d_def by (intro no_seq never_sequence)

lemma no_seq_dis_x1_r4k [never_sequence]: "not_sequence (dis_x1_r4k E b d)"
  unfolding dis_x1_r4k_def by (intro no_seq never_sequence)

lemma no_seq_dis_7f [never_sequence]: "not_sequence (dis_7f E b d)"
  unfolding dis_7f_def by (intro no_seq never_sequence)

lemma no_seq_dis_ld_r_r [never_sequence]: "not_sequence (dis_ld_r_r E b d)"
  unfolding dis_ld_r_r_def by (intro no_seq never_sequence)

lemma no_seq_dis_x1 [never_sequence]: "not_sequence (dis_x1 E b d)"
  unfolding dis_x1_def by (intro no_seq never_sequence)

lemma no_seq_dis_x2_r4k [never_sequence]: "not_sequence (dis_x2_r4k E b d)"
  unfolding dis_x2_r4k_def by (intro no_seq never_sequence)

lemma no_seq_dis_x2 [never_sequence]: "not_sequence (dis_x2 E b d)"
  unfolding dis_x2_def by (intro no_seq never_sequence)

lemma no_seq_dis_x3_z0 [never_sequence]: "not_sequence (dis_x3_z0 E b d)"
  unfolding dis_x3_z0_def by (intro no_seq never_sequence)

lemma no_seq_dis_x3_z1 [never_sequence]: "not_sequence (dis_x3_z1 E b d)"
  unfolding dis_x3_z1_def by (intro no_seq never_sequence)

lemma no_seq_dis_x3_z2 [never_sequence]: "not_sequence (dis_x3_z2 E b d)"
  unfolding dis_x3_z2_def by (intro no_seq never_sequence)

lemma no_seq_dis_cb [never_sequence]: "not_sequence (dis_cb E b d)"
  unfolding dis_cb_def by (intro no_seq never_sequence)

lemma no_seq_dis_x3_z3 [never_sequence]: "not_sequence (dis_x3_z3 E b d)"
  unfolding dis_x3_z3_def by (intro no_seq never_sequence)

lemma no_seq_dis_x3_z4 [never_sequence]: "not_sequence (dis_x3_z4 E b d)"
  unfolding dis_x3_z4_def by (intro no_seq never_sequence)

lemma no_seq_dis_ed_r4k [never_sequence]: "not_sequence (dis_ed_r4k E b d)"
  unfolding dis_ed_r4k_def by (intro no_seq never_sequence)

lemma no_seq_dis_ed_z180 [never_sequence]: "not_sequence (dis_ed_z180 E b d)"
  unfolding dis_ed_z180_def by (intro no_seq never_sequence)

lemma no_seq_dis_ed_z80n [never_sequence]: "not_sequence (dis_ed_z80n E b d)"
  unfolding dis_ed_z80n_def by (intro no_seq never_sequence)

lemma no_seq_dis_ed_kc160 [never_sequence]: "not_sequence (dis_ed_kc160 E b d)"
  unfolding dis_ed_kc160_def by (intro no_seq never_sequence)

lemma no_seq_dis_ed_x0 [never_sequence]: "not_sequence (dis_ed_x0 E b d)"
  unfolding dis_ed_x0_def by (intro no_seq never_sequence)

lemma no_seq_dis_ed_z4 [never_sequence]: "not_sequence (dis_ed_z4 E b d)"
  unfolding dis_ed_z4_def by (intro no_seq never_sequence)

lemma no_seq_dis_ed_z5 [never_sequence]: "not_sequence (dis_ed_z5 E b d)"
  unfolding dis_ed_z5_def by (intro no_seq never_sequence)

lemma no_seq_dis_ed_x1 [never_sequence]: "not_sequence (dis_ed_x1 E b d)"
  unfolding dis_ed_x1_def by (intro no_seq never_sequence)

lemma no_seq_dis_ed_x2 [never_sequence]: "not_sequence (dis_ed_x2 E b d)"
  unfolding dis_ed_x2_def by (intro no_seq never_sequence)

lemma no_seq_dis_ed_x3 [never_sequence]: "not_sequence (dis_ed_x3 E b d)"
  unfolding dis_ed_x3_def by (intro no_seq never_sequence)

lemma no_seq_dis_ed [never_sequence]: "not_sequence (dis_ed E b d)"
  unfolding dis_ed_def by (intro no_seq never_sequence)

lemma no_seq_dis_x3_z5 [never_sequence]: "not_sequence (dis_x3_z5 E b d)"
  unfolding dis_x3_z5_def by (intro no_seq never_sequence)

lemma no_seq_dis_x3_z6 [never_sequence]: "not_sequence (dis_x3_z6 E b d)"
  unfolding dis_x3_z6_def by (intro no_seq never_sequence)

lemma no_seq_main:
  assumes "no_sequences E"
  shows "not_sequence (dis_main E b d)"
  unfolding dis_main_def dis_x3_def dis_x3_z7_def by (intro no_seq never_sequence no_seq_rst [OF assms])

definition listed_result :: "dis_env \<Rightarrow> int \<Rightarrow> 32 word \<Rightarrow> int \<times> dcontext \<Rightarrow> bool" where
  "listed_result E line a y \<longleftrightarrow> (\<exists>d. snd y = eol E line d \<and> fst y = int (d_len d) \<and> listed E a d)"

lemma dis_loop_listed:
  "dis_loop E line d = Some y \<Longrightarrow> no_sequences E \<longrightarrow> listed E a d \<longrightarrow> listed_result E line a y"
proof (erule dis_loop.raw_induct [where P = "\<lambda>E line d y. no_sequences E \<longrightarrow> listed E a d \<longrightarrow> listed_result E line a y",
      rotated], intro impI)
  fix loop E line d y
  assume ih: "\<And>E line d y. loop E line d = Some y \<Longrightarrow> no_sequences E \<longrightarrow> listed E a d \<longrightarrow> listed_result E line a y"
    and call: "(let (b, d) = READ_BYTE E d in case dis_main E b d of
        Again d \<Rightarrow> loop E line d | Line d \<Rightarrow> Some (int (d_len d), eol E line d)
      | Sequence h d \<Rightarrow> dis_sequence E b (Some h) 0 1 (eol E (uint (d_pc d) + 1) d\<lparr>d_len := 0\<rparr>)) = Some y"
    and ns: "no_sequences E" and d: "listed E a d"
  let ?b = "fst (READ_BYTE E d)" and ?d = "snd (READ_BYTE E d)"
  have l: "listed E a (ctx (dis_main E ?b ?d))"
    using listing.dis_main [OF listing.read [OF d]] .
  have s: "not_sequence (dis_main E ?b ?d)" using no_seq_main [OF ns] .
  show "listed_result E line a y"
    using call l s ns ih
    by (cases "dis_main E ?b ?d") (auto simp: case_prod_beta not_sequence_def listed_result_def)
qed

section \<open>Plain processors\<close>

lemma start_inv: "plain E \<Longrightarrow> loop_inv E (start_context E addr T)"
proof -
  assume "plain E"
  then have "c_adl_mode E = 0" unfolding plain_def by blast
  then show "loop_inv E (start_context E addr T)"
    by (simp add: loop_inv_def start_context_def Let_def)
qed

lemma start_listed: "listed E (word_of_int addr) (start_context E addr T)"
  by (simp add: listed_def start_context_def Let_def)

text \<open>The longest instruction of a processor: with index registers, of the KR580VM1, of the others.\<close>

definition longest :: "dis_env \<Rightarrow> nat" where
  "longest E = (if canindex (machine E) then 6 else if isvm1 (machine E) then 5 else 3)"

lemma start_left: "prefixes_left E (start_context E addr T) + 1 + most_reads E \<le> longest E"
  using not_vm1 [of "machine E"]
  by (cases "canindex (machine E)") (simp_all add: prefixes_left_def most_reads_def start_context_def longest_def Let_def)

lemma start_len: "d_len (start_context E addr T) = 0"
  by (simp add: start_context_def Let_def)

lemma disassemble2_returns:
  assumes "plain E"
  shows "\<exists>n line T'. disassemble2 E addr T = Some (n, line, T') \<and> 1 \<le> n \<and> n \<le> int (longest E)"
proof (cases "address_is_code addr (sections E)")
  case True
  obtain n d where "dis_loop E addr (start_context E addr T) = Some (int n, d)" "0 < n" "n \<le> longest E"
    using dis_loop_returns [OF assms start_inv [OF assms], of addr addr T] start_left [of E addr T]
    by (auto simp: start_len)
  then show ?thesis using True by (simp add: disassemble2_def)
next
  case False
  then show ?thesis by (simp add: disassemble2_def case_prod_beta Let_def steer start_len longest_def)
qed

text \<open>The standalone program with a Z80 and no target.\<close>

lemma z80_plain: "plain (program_env CPU_Z80 bytes inverted autolabel)"
  by (simp add: plain_def program_env_def power_on_def cpu_preds cpu_codes iskc160ext_def dis_israbbit4k_def
      dis_israbbit6k_def rst_table_def Let_def)



definition address_mark :: "dis_env \<Rightarrow> int \<Rightarrow> string" where
  "address_mark E addr = (if compact E \<le> 1 then '';['' @ hexw 4 (addr AND 0xffff) @ ''] '' else '';'')"

lemma eol_text:
  "\<exists>pre post. d_text (eol E addr d) = pre @ address_mark E addr @ byte_column d @ post"
  unfolding eol_def Let_def address_mark_def
  by (rule exI [of _ "d_text d @ (if compact E \<le> 1 then replicate (nat (60 - d_linepos d)) CHR '' '' else [])"]) simp



lemma longest_le: "longest E \<le> 6"
  by (simp add: longest_def)

lemma dis_range_total:
  assumes "plain E"
  shows "\<exists>lines T'. dis_range E start end' T = Some (lines, T') \<and> int (length lines) \<le> max 0 (end' - start) \<and>
    max 0 (end' - start) \<le> 6 * int (length lines)"
proof (induction "nat (end' - start)" arbitrary: start T rule: less_induct)
  case less
  show ?case
  proof (cases "start < end'")
    case True
    obtain n out T1 where c: "disassemble2 E start T = Some (n, out, T1)" "1 \<le> n" "n \<le> 6"
      using disassemble2_returns [OF assms, of start T] longest_le [of E] by fastforce
    have "nat (end' - (start + n)) < nat (end' - start)" using True c(2) by simp
    from less [OF this, of T1] obtain lines T' where
      r: "dis_range E (start + n) end' T1 = Some (lines, T')" "int (length lines) \<le> max 0 (end' - (start + n))"
        "max 0 (end' - (start + n)) \<le> 6 * int (length lines)"
      by blast
    have "dis_range E start end' T = Some (out # lines, T')"
      using True c(1) r(1) by (subst dis_range.simps) simp
    then show ?thesis using r(2,3) c True by simp
  next
    case False
    then show ?thesis by (subst dis_range.simps) simp
  qed
qed



section \<open>Endless prefixes\<close>

text \<open>A prefix opcode of the Rabbit, the eZ80 and the KC160.\<close>

definition endless_prefix :: "dis_env \<Rightarrow> 8 word \<Rightarrow> bool" where
  "endless_prefix E b \<longleftrightarrow> israbbit (machine E) \<and> b = 0x76 \<or>
     (iskc160ext (machine E) \<or> isez80 (machine E)) \<and> \<not> dis_rabbit4k E \<and> b = 0x40"

definition continues_plain :: "outcome \<Rightarrow> bool" where
  "continues_plain o' = (case o' of Again d \<Rightarrow> d_index d = 0 | _ \<Rightarrow> False)"

lemma endless_step:
  assumes "endless_prefix E b" "d_index d = 0"
  shows "continues_plain (dis_main E (uint b) d)"
proof (cases "b = 0x76")
  case True
  then have "israbbit (machine E)" using assms by (auto simp: endless_prefix_def)
  with True show ?thesis
    using assms(2) by (simp add: dis_main_def dis_x1_def continues_plain_def Let_def steer)
next
  case False
  then have "b = 0x40" "iskc160ext (machine E) \<or> isez80 (machine E)" "\<not> dis_rabbit4k E"
    using assms by (auto simp: endless_prefix_def)
  then show ?thesis
    using assms(2) by (auto simp: dis_main_def dis_x1_def dis_ld_r_r_def continues_plain_def Let_def steer)
qed

lemma endless_loop:
  "dis_loop E line d = Some y \<Longrightarrow>
    (\<forall>a. mem_at E a = b) \<longrightarrow> endless_prefix E b \<longrightarrow> d_index d = 0 \<longrightarrow> False"
proof (erule dis_loop.raw_induct [where P = "\<lambda>E line d y.
      (\<forall>a. mem_at E a = b) \<longrightarrow> endless_prefix E b \<longrightarrow> d_index d = 0 \<longrightarrow> False", rotated], intro impI)
  fix loop E line d y
  assume ih: "\<And>E line d y. loop E line d = Some y \<Longrightarrow>
      (\<forall>a. mem_at E a = b) \<longrightarrow> endless_prefix E b \<longrightarrow> d_index d = 0 \<longrightarrow> False"
    and call: "(let (b, d) = READ_BYTE E d in case dis_main E b d of
        Again d \<Rightarrow> loop E line d | Line d \<Rightarrow> Some (int (d_len d), eol E line d)
      | Sequence h d \<Rightarrow> dis_sequence E b (Some h) 0 1 (eol E (uint (d_pc d) + 1) d\<lparr>d_len := 0\<rparr>)) = Some y"
    and b: "\<forall>a. mem_at E a = b" "endless_prefix E b" and d: "d_index d = 0"
  have "fst (READ_BYTE E d) = uint b" using b(1) by (simp add: read_value PEEK_BYTE_def)
  then have "continues_plain (dis_main E (fst (READ_BYTE E d)) (snd (READ_BYTE E d)))"
    using endless_step [OF b(2)] d by (simp add: steer)
  then show False
    using call ih b by (auto simp: case_prod_beta continues_plain_def split: outcome.splits)
qed

text \<open>a memory that holds nothing but a prefix opcode of a Rabbit (76h), of the KC160 in its extended mode or of
  the eZ80 (40h) makes \<open>disassemble2\<close> loop for ever: every further prefix is accepted.\<close>

lemma disassemble2_endless:
  assumes "\<forall>a. mem_at E a = b" "endless_prefix E b" "address_is_code addr (sections E)"
  shows "disassemble2 E addr T = None"
proof -
  have "d_index (start_context E addr T) = 0" by (simp add: start_context_def Let_def)
  then have "dis_loop E addr (start_context E addr T) = None"
    using endless_loop [of E addr "start_context E addr T" _ b] assms(1,2) by (cases "dis_loop E addr (start_context E addr T)") auto
  then show ?thesis using assms(3) by (simp add: disassemble2_def)
qed

section \<open>Labels\<close>

text \<open>An operand printed with \<open>c_autolabel\<close> is the label the line of the target shows.\<close>

lemma label_or_consistent:
  assumes "c_autolabel E" "0 \<le> a" "a < 2 ^ 31"
  shows "find_symbol a SYM_ADDRESS (d_labels (snd (label_or E a auto plain' d))) = Some (fst (label_or E a auto plain' d))"
  using assms find_symbol_add_autolabel [of a "d_labels d"]
  by (simp add: label_or_def split: option.split)

lemma labels_read [simp]: "d_labels (snd (READ_BYTE E d)) = d_labels d"
  by (simp add: READ_BYTE_def Let_def)

lemma wide_read [simp]: "WORDIS24 (snd (READ_BYTE E d)) = WORDIS24 d"
  by (simp add: WORDIS24_def steer)

definition operand16 :: "dis_env \<Rightarrow> dcontext \<Rightarrow> int" where
  "operand16 E d = PEEK_BYTE E 0 d + PEEK_BYTE E 1 d * 256 + (if WORDIS24 d then PEEK_BYTE E 2 d * 65536 else 0)"

text \<open>C16: with \<open>-a\<close> the text of an address operand is the label that the listing later prints on the line of that
  address, an existing one or the one the operand adds.\<close>

theorem autolabel_target:
  assumes "c_autolabel E" "compact E = 0"
  shows "label_line E (operand16 E d) (d_labels (snd (handle_addr16 E d))) = fst (handle_addr16 E d) @ '':'' @ [CHR 0x0A]"
proof -
  have v: "PEEK_BYTE E 0 (snd (READ_BYTE E d)) = PEEK_BYTE E 1 d"
    "PEEK_BYTE E 0 (snd (READ_BYTE E (snd (READ_BYTE E d)))) = PEEK_BYTE E 2 d"
    by (simp_all add: PEEK_BYTE_def steer add.assoc)
  have b: "0 \<le> PEEK_BYTE E k d" "PEEK_BYTE E k d < 256" for k
    using uint8_bound by (simp_all add: PEEK_BYTE_def)
  have "0 \<le> operand16 E d" "operand16 E d < 2 ^ 31"
    using b [of 0] b [of 1] b [of 2] by (auto simp: operand16_def)
  note l = label_or_consistent [OF assms(1) this]
  show ?thesis
    using assms(2) l
    by (cases "WORDIS24 d") (simp_all add: handle_addr16_def label_line_def operand16_def case_prod_beta Let_def read_value v)
qed

text \<open>A jump to 1234h: the label L1234.\<close>

theorem autolabel_target_witness:
  "let E = program_env CPU_Z80 [0x34, 0x12] 0 True; d = start_context E 0 (\<lambda>_. []) in
    label_line E (operand16 E d) (d_labels (snd (handle_addr16 E d))) = fst (handle_addr16 E d) @ '':'' @ [CHR 0x0A]"
  unfolding Let_def by (rule autolabel_target) (simp_all add: program_env_def Let_def)

end
