(* ===== verification/Ticks_Advance.thy ===== *)
theory Ticks_Advance
  imports Ticks_Cycles
begin

text \<open>
  What every operation of a Z80 does to \<open>pc\<close>: one rewrite rule for each macro and page, as \<open>Ticks_Time\<close> has
  them for the clock. A conditional jump has the rule of the case in which it is not taken.
\<close>

named_theorems advance \<open>the program counter after an operation\<close>

lemma pc_stores [advance]:
  "pc (put_mem a v s) = pc s" "pc (snd (put_memory a v s)) = pc s" "pc (put_physical n v s) = pc s" "pc (fin s) = pc s"
  by (simp_all add: put_mem_def put_memory_def put_physical_def store_at_def fin_def Let_def split: option.split)

lemma pc_basic [advance]:
  "pc (set_reg r v s) = pc s"
  "pc (set_grp g s) = pc s"
  "pc (put_alu p s) = pc s"
  "pc (VM1_OF_ARITH s) = pc s"
  "pc (VM1_OF_LOGIC s) = pc s"
  "pc (VM1_OF_ONLY s) = pc s"
  "pc (ticks n s) = pc s"
  "pc (snd (fetch s)) = pc s + 1"
  "pc (snd (pop8 s)) = pc s"
  "pc (push8 v s) = pc s"
  "pc (no_io s) = pc s"
  "pc (setf n s) = pc s"
  "pc (set_lv lv n s) = pc s"
  "pc (exchange x y s) = pc s"
  "pc (step_rr up x y s) = pc s"
  "pc (dec_rr x y s) = pc s"
  "pc (put_hl n m s) = pc s"
  "pc (put_hl_sp n k s) = pc s"
  by (simp_all add: set_reg_def set_grp_def put_alu_def VM1_OF_ARITH_def VM1_OF_LOGIC_def VM1_OF_ONLY_def ticks_def
      fetch_def pop8_def push8_def no_io_def setf_def set_lv_def fin_def rel_jump_def exchange_def step_rr_def inc_rr_def
      dec_rr_def put_hl_def put_hl_sp_def Let_def split: lval.splits)

lemma pc_compound [advance]:
  "pc (snd (fetch16 s)) = pc s + 2"
  "pc (snd (step_mem t d g s)) = pc s"
  "pc (ld_pv l s) = pc s"
  "pc (ld_step u s) = pc s"
  by (simp_all add: pop_pc_def call_nn_def fetch16_def step_mem_def put_memory_def put_mem_def ld_pv_def ld_step_def Let_def case_prod_beta advance time_simps split: option.split)

lemma pc_alu [advance]:
  "pc (ADD b n s) = pc s"
  "pc (ADC b n s) = pc s"
  "pc (SUB b n s) = pc s"
  "pc (SBC b n s) = pc s"
  "pc (AND_op b n s) = pc s"
  "pc (XOR_op b n s) = pc s"
  "pc (OR_op b n s) = pc s"
  "pc (CP b n s) = pc s"
  "pc (CP_w b n s) = pc s"
  "pc (add_aa n s) = pc s"
  "pc (adc_aa n s) = pc s"
  "pc (sub_aa n s) = pc s"
  "pc (sbc_aa n s) = pc s"
  "pc (and_aa n s) = pc s"
  "pc (xor_aa n s) = pc s"
  "pc (or_aa n s) = pc s"
  "pc (cp_aa x n s) = pc s"
  by (simp_all only: ADD_def ADC_def SUB_def SBC_def AND_op_def XOR_op_def OR_op_def CP_def CP_w_def add_aa_def adc_aa_def
      sub_aa_def sbc_aa_def and_aa_def xor_aa_def or_aa_def cp_aa_def Let_def pc_basic)

lemma pc_incdec [advance]:
  assumes "c_cpu s = CPU_Z80"
  shows "pc (INC r r' s) = pc s" "pc (DEC r r' s) = pc s"
  "pc (op_step_hl d s) = pc s"
  using assms by (simp_all add: INC_def DEC_def op_step_hl_def INC_TICKS_def Let_def case_prod_beta advance time_simps)

lemma pc_load [advance]:
  assumes "c_cpu s = CPU_Z80"
  shows "pc (LDRIM r r' s) = pc s + 1"
  "pc (LDRRIM a b s) = pc s + 2"
  "pc (LDRP a b r s) = pc s"
  "pc (LDRPI a b r s) = pc s + 1"
  "pc (LDPR a b r s) = pc s"
  "pc (LDPRI a b r s) = pc s + 1"
  "pc (LDRR a b a' b' n s) = pc s"
  "pc (LDPNNRR a b n s) = pc s + 2"
  "pc (LDPIN a b s) = pc s + 2"
  "pc (LDRRPNN a b n s) = pc s + 2"
  "pc (INCW a b s) = pc s"
  "pc (DECW a b s) = pc s"
  "pc (INCPI a b s) = pc s + 1"
  "pc (DECPI a b s) = pc s + 1"
  "pc (ADDRRRR a b c d s) = pc s"
  "pc (ADDISP a b s) = pc s"
  "pc (SBCHLRR x y s) = pc s"
  "pc (ADCHLRR x y s) = pc s"
  "pc (SBC_HL_SP s) = pc s"
  "pc (ADC_HL_SP s) = pc s"
  "pc (LD_NN_SP s) = pc s + 2"
  "pc (LD_SP_NN s) = pc s + 2"
  using assms
  by (simp_all add: LDRIM_def LDRRIM_def LDRP_def LDRPI_def LDPR_def LDPRI_def LDRR_def LDPNNRR_def LDPIN_def LDRRPNN_def
      INCW_def DECW_def INCPI_def DECPI_def stepPI_def INCW_TICKS_def INCPI_TICKS_def ADDRRRR_def ADDRRRR_TICKS_def
      ADDISP_def SBCHLRR_def ADCHLRR_def HL_TICKS_def SBC_HL_SP_def ADC_HL_SP_def LD_NN_SP_def LD_SP_NN_def
      Let_def case_prod_beta advance time_simps)

lemma pc_control [advance]:
  assumes "c_cpu s = CPU_Z80"
  shows "\<not> c \<Longrightarrow> pc (JRCI c s) = pc s + 1"
  "c \<Longrightarrow> pc (JRC c s) = pc s + 1"
  "\<not> c \<Longrightarrow> pc (JPCI c s) = pc s + 2"
  "c \<Longrightarrow> pc (JPC c s) = pc s + 2"
  "pc (PUSH x y x' y' s) = pc s"
  "pc (POP a b a' b' s) = pc s"
  "c \<Longrightarrow> pc (RETC c s) = pc s"
  "\<not> c \<Longrightarrow> pc (RETCI c s) = pc s"
  "c \<Longrightarrow> pc (CALLC c s) = pc s + 2"
  "\<not> c \<Longrightarrow> pc (CALLCI c s) = pc s + 2"
  "pc (EXSPI a b s) = pc s"
  using assms
  by (simp_all add: JRCI_def JRC_def JR_taken_TICKS_def JR_not_taken_TICKS_def JPCI_def JPC_def JPC_TICKS_def
      JPC_taken_TICKS_def PUSH_def PUSH_TICKS_def POP_def POP_TICKS_def RET_def RETC_def RETCI_def
      RET_not_taken_TICKS_def RET_taken_TICKS_def CALLC_def CALLCI_def CALL_taken_TICKS_def CALL_not_taken_TICKS_def
      RST_def RST_TICKS_def EXSPI_def EXSPI_TICKS_def Let_def case_prod_beta advance time_simps)

lemma pc_cb [advance]:
  assumes "c_cpu s = CPU_Z80"
  shows "pc (rot e a b s) = pc s"
  "pc (SLL a s) = pc s"
  "pc (SWAP a s) = pc s"
  "pc (RRC a b s) = pc s"
  "pc (BIT n r r' s) = pc s"
  "pc (BITHL n s) = pc s"
  "pc (BITI n s) = pc s"
  "pc (RES n a b s) = pc s"
  "pc (SET n a b s) = pc s"
  "pc (RESHL n s) = pc s"
  "pc (SETHL n s) = pc s"
  using assms
  by (simp_all add: rot_def SLL_def SWAP_def RRC_def BIT_def BITHL_def BITI_def RES_def SET_def RESHL_def SETHL_def
      RESHL_TICKS_def CBr_TICKS_def BIT_TICKS_def Let_def case_prod_beta advance time_simps)

lemma pc_cb_shift [advance]:
  assumes "c_cpu s = CPU_Z80"
  shows "pc (cb_shift y a b s) = pc s"
proof -
  have "y mod 8 = 0 \<or> y mod 8 = 1 \<or> y mod 8 = 2 \<or> y mod 8 = 3 \<or> y mod 8 = 4 \<or> y mod 8 = 5 \<or> y mod 8 = 6 \<or> y mod 8 = 7"
    by presburger
  then show "pc (cb_shift y a b s) = pc s"
    using assms by (auto simp: cb_shift_def RLC_def RL_def RR_def SLA_def SRA_def SRL_def advance time_simps)
qed

lemma pc_cb_mem [advance]:
  assumes "\<And>s. pc (f s) = pc s"
  shows "pc (cb_mem f s) = pc s"
  using assms by (simp add: cb_mem_def Let_def advance)

lemma pc_cb_mem_shift:
  assumes "c_cpu s = CPU_Z80"
  shows "pc (cb_mem (cb_shift y LU LU) s) = pc s" "pc (cb_mem (SLL LU) s) = pc s"
  using assms by (simp_all add: cb_mem_def Let_def advance)

lemma pc_cb_page [advance]:
  assumes "c_cpu s = CPU_Z80"
  shows "pc (cb_page n s) = pc s"
  using assms by (simp add: cb_page_def cb_rot_def cb_bit_def cb_res_def cb_set_def Let_def pc_cb_mem_shift advance time_simps)

lemma pc_cbi_put [advance]: "pc (cbi_put z s) = pc s"
  by (simp add: cbi_put_def Let_def advance)

lemma pc_cbi_page [advance]:
  assumes "c_cpu s = CPU_Z80"
  shows "pc (cbi_page n s) = pc s"
  using assms by (simp add: cbi_page_def cbi_rot_def cbi_bit_def cbi_res_def cbi_set_def cbi_fix_def Let_def advance time_simps)

lemma pc_handle_cb [advance]:
  assumes "c_cpu s = CPU_Z80"
  shows "pc (handle_cb_page s) = pc s + (if ih s then 1 else 2)"
proof -
  have "ih (set_reg rR v s) = ih s" for v by (simp add: set_reg_def)
  then show ?thesis
    using assms by (simp add: handle_cb_page_def Let_def case_prod_beta advance time_simps)
qed

lemma pc_console [advance]:
  "pc (snd (getch s)) = pc s"
  "pc (snd (kbhit s)) = pc s"
  "pc (fputc v s) = pc s"
  by (simp_all add: getch_def kbhit_def fputc_def Let_def case_prod_beta split: option.split list.split)

lemma pc_paging [advance]:
  "pc (memory_handle_paging p v s) = pc s"
  by (cases "model (mem s)";
      simp add: memory_handle_paging_def zxn_handle_out_def zx_handle_out_def z180_handle_out_def msx_handle_out_def Let_def)+

lemma pc_hook_in [advance]: "pc (snd (hook_console_in p s)) = pc s"
  by (simp_all add: hook_console_in_def pc_console)

lemma pc_apu_in [advance]: "pc (snd (apu_in p s)) = pc s"
  by (simp_all add: apu_in_def apu_read_data_def case_prod_beta Let_def)

lemma pc_acia_in [advance]: "pc (snd (acia_in p s)) = pc s"
  by (simp_all add: acia_in_def pc_console case_prod_beta)

lemma pc_in_port [advance]:
  "pc (snd (in_port p s)) = pc s"
  by (simp_all add: in_port_def case_prod_beta pc_hook_in pc_apu_in pc_acia_in if_distrib [of snd] cong: if_cong)

lemma pc_out_port [advance]: "pc (out_port p v s) = pc s"
  by (auto simp: out_port_def hook_console_out_def apu_out_def apu_write_command_def apu_write_data_def acia_out_def
      advance case_prod_beta split: option.split)

lemma pc_misc [advance]:
  assumes "c_cpu s = CPU_Z80"
  shows "pc (zilog_daa s) = pc s"
    "pc (rot_acc e s) = pc s"
    "pc (op_ld_hl_n s) = pc s + 1"
    "pc (PUSH_r a b a' b' s) = pc s"
    "pc (pop_af s) = pc s"
    "pc (kc_extra s) = pc s"
    "pc (op_in_n s) = pc s + 1"
    "pc (op_ex_de_hl s) = pc s"
    "pc (op_exx s) = pc s"
    "pc (op_ld_sp_hl s) = pc s"
    "pc (op_ex_af s) = pc s"
    "pc (op_di s) = pc s"
    "pc (op_ei s) = pc s"
  "pc (op_out_n s) = pc s + 1"
  using assms
  by (simp_all add: zilog_daa_def DAA_TICKS_def rot_acc_def acc_TICKS_def op_ld_hl_n_def PUSH_r_def pop_af_def jp_nn_def
      jp_hl_def op_call_nn_def kc_extra_def op_in_n_def op_out_n_def op_halt_def op_ex_de_hl_def EX_TICKS_def op_exx_def
      op_ld_sp_hl_def op_ex_af_def op_di_def op_ei_def EI_TICKS_def advance time_simps Let_def case_prod_beta)

lemma pc_alu_operand [advance]:
  assumes "c_cpu s = CPU_Z80" and f: "\<And>b n s. pc (f b n s) = pc s"
  shows "pc (ALU_r f r s) = pc s"
    "pc (ALU_half f r s) = pc s"
    "pc (ALU_hl f s) = pc s"
    "pc (ALU_indexed f a b s) = pc s + 1"
    "pc (ALU_n f s) = pc s + 1"
  using assms
  by (simp_all add: ALU_r_def ALU_half_def ALU_hl_def ALU_indexed_def ALU_n_def ALUr_TICKS_def ALURxy_TICKS_def
      ALUiHL_TICKS_def ALUiXY_TICKS_def ALUn_TICKS_def advance time_simps Let_def case_prod_beta)

lemma pc_add_alt [advance]:
  "pc (add_alt f g s) = (if altd s then pc (f s) else pc (g s))"
  by (simp_all add: add_alt_def)

lemma pc_vm1_dadc [advance]: "pc (vm1_dadc x y s) = pc s"
  by (simp_all add: vm1_dadc_def vm1_setflags_def advance time_simps Let_def)

lemma pc_block [advance]:
  assumes "c_cpu s = CPU_Z80"
  shows "pc (cp_block up False s) = pc s" "pc (in_block up False s) = pc s" "pc (out_block up False s) = pc s"
    "pc (ld_once up s) = pc s"
  using assms
  by (simp_all add: cp_block_def in_block_def out_block_def ld_once_def ld_repeat_def LDI_TICKS_def
      LDIR_TICKS_def Let_def case_prod_beta advance time_simps)

lemma pc_ed [advance]:
  assumes "c_cpu s = CPU_Z80"
  shows "pc (nop8 s) = pc s" "pc (OUTR x s) = pc s" "pc (OUTR_r r s) = pc s"
    "pc (nop48 s) = pc s"
    "pc (INR v s) = pc s"
    "pc (zilog_rld s) = pc s"
    "pc (zilog_rrd s) = pc s"
    "pc (UNDOCUMENTED_NEG s) = pc s"
    "pc (UNDOCUMENTED_IM0 s) = pc s"
    "pc (UNDOCUMENTED_IM1 s) = pc s"
    "pc (UNDOCUMENTED_IM2 s) = pc s"
    "pc (op_neg s) = pc s"
    "pc (op_im k s) = pc s"
    "pc (op_ld_i_a s) = pc s"
    "pc (LD_R_A s) = pc s"
    "pc (LD_A_I s) = pc s"
    "pc (LD_A_R s) = pc s"
    "pc (LDPNNRR_ed a b s) = pc s + 2"
    "pc (LDRRPNN_ed a b s) = pc s + 2"
  using assms
  by (simp_all add: nop8_def nop48_def INR_def OUTR_def OUTR_r_def zilog_rld_def zilog_rrd_def fast_TICKS_def
      UNDOCUMENTED_NEG_def UNDOCUMENTED_IM0_def UNDOCUMENTED_IM1_def UNDOCUMENTED_IM2_def UNDOCUMENTED_RETN_def op_neg_def
      op_im_def op_ld_i_a_def op_reti_def LD_R_A_def LD_A_I_def LD_A_R_def LDAR_TICKS_def ld_a_special_def LDPNNRR_ed_def
      LDRRPNN_ed_def r3k_or_r4k_def not_rabbit_def Let_def case_prod_beta advance time_simps)

section \<open>The length of an instruction\<close>

text \<open>The bytes after an unprefixed opcode, from the Z80 manual. After DD or FD the opcodes whose operand is
  (HL) have a displacement, except JP (HL), EX (SP),HL and the like, which use the register itself.\<close>

definition z80_operand_table :: "nat list" where
  "z80_operand_table =
     [0, 2, 0, 0, 0, 0, 1, 0, 0, 0, 0, 0, 0, 0, 1, 0, 1, 2, 0, 0, 0, 0, 1, 0, 1, 0, 0, 0, 0, 0, 1, 0,
      1, 2, 2, 0, 0, 0, 1, 0, 1, 0, 2, 0, 0, 0, 1, 0, 1, 2, 2, 0, 0, 0, 1, 0, 1, 0, 2, 0, 0, 0, 1, 0,
      0, 0, 0, 0, 0, 0, 0, 0, 0, 0, 0, 0, 0, 0, 0, 0, 0, 0, 0, 0, 0, 0, 0, 0, 0, 0, 0, 0, 0, 0, 0, 0,
      0, 0, 0, 0, 0, 0, 0, 0, 0, 0, 0, 0, 0, 0, 0, 0, 0, 0, 0, 0, 0, 0, 0, 0, 0, 0, 0, 0, 0, 0, 0, 0,
      0, 0, 0, 0, 0, 0, 0, 0, 0, 0, 0, 0, 0, 0, 0, 0, 0, 0, 0, 0, 0, 0, 0, 0, 0, 0, 0, 0, 0, 0, 0, 0,
      0, 0, 0, 0, 0, 0, 0, 0, 0, 0, 0, 0, 0, 0, 0, 0, 0, 0, 0, 0, 0, 0, 0, 0, 0, 0, 0, 0, 0, 0, 0, 0,
      0, 0, 2, 2, 2, 0, 1, 0, 0, 0, 2, 1, 2, 2, 1, 0, 0, 0, 2, 1, 2, 0, 1, 0, 0, 0, 2, 1, 2, 0, 1, 0,
      0, 0, 2, 0, 2, 0, 1, 0, 0, 0, 2, 0, 2, 1, 1, 0, 0, 0, 2, 0, 2, 0, 1, 0, 0, 0, 2, 0, 2, 0, 1, 0]"

definition uses_cell :: "int \<Rightarrow> bool" where
  "uses_cell opc \<longleftrightarrow> opc \<in> {0x34, 0x35, 0x36} \<or> opc div 64 = 1 \<and> opc \<noteq> 0x76 \<and> (opc mod 8 = 6 \<or> opc div 8 mod 8 = 6) \<or>
     opc div 64 = 2 \<and> opc mod 8 = 6 \<or> opc = 0xcb"

definition z80_operands :: "bool \<Rightarrow> int \<Rightarrow> nat" where
  "z80_operands idx opc = z80_operand_table ! nat opc + (if idx \<and> uses_cell opc then 1 else 0)"

text \<open>An opcode that does not transfer control, in this state.\<close>

definition falls_through :: "int \<Rightarrow> cpu \<Rightarrow> bool" where
  "falls_through opc s \<longleftrightarrow> opc \<notin> {0x18, 0x76, 0xc3, 0xc9, 0xcd, 0xe9} \<and> \<not> (192 \<le> opc \<and> opc mod 8 = 7) \<and> \<not> z80_taken opc s"

lemmas length_defs =
  z80_operands_def z80_operand_table_def uses_cell_def falls_through_def z80_taken_def z80_cc_def nz_def cy_def neg_def
  grp_def set_reg_same

lemma advance_00_3f:
  assumes "0 \<le> opc" "opc < 64" "c_cpu s = CPU_Z80" "\<not> altd s" "vm1_mb s = 0" "falls_through opc s"
  shows "pc (exec_00_3f H opc s) = pc s + of_nat (z80_operands (\<not> ih s) opc)"
  using quarter [of 0 opc, simplified, OF assms(1,2)]
  by (elim disjE)
    (use assms(3-) in \<open>simp_all add: z80_exec_00 length_defs advance time_simps Let_def case_prod_beta\<close>)

lemma advance_40_7f:
  assumes "64 \<le> opc" "opc < 128" "c_cpu s = CPU_Z80" "\<not> altd s" "vm1_mb s = 0" "falls_through opc s"
  shows "pc (exec_40_7f H opc s) = pc s + of_nat (z80_operands (\<not> ih s) opc)"
  using quarter [of 64 opc, simplified, OF assms(1,2)]
  by (elim disjE)
    (use assms(3-) in \<open>simp_all add: z80_exec_40 length_defs advance time_simps Let_def case_prod_beta\<close>)

lemma advance_80_bf:
  assumes "128 \<le> opc" "opc < 192" "c_cpu s = CPU_Z80" "\<not> altd s" "vm1_mb s = 0"
  shows "pc (exec_80_bf H opc s) = pc s + of_nat (z80_operands (\<not> ih s) opc)"
  using quarter [of 128 opc, simplified, OF assms(1,2)]
  by (elim disjE)
    (use assms(3-) in \<open>simp_all add: z80_exec_80 length_defs advance time_simps Let_def case_prod_beta\<close>)

lemma advance_c0_ff:
  assumes "192 \<le> opc" "opc < 256" "c_cpu s = CPU_Z80" "\<not> altd s" "vm1_mb s = 0" "falls_through opc s"
    "opc \<notin> {0xdd, 0xed, 0xfd}"
  shows "pc (exec_c0_ff H opc s) = pc s + of_nat (z80_operands (\<not> ih s) opc)"
  using quarter [of 192 opc, simplified, OF assms(1,2)]
  by (elim disjE)
    (use assms(3-) in \<open>simp_all add: z80_exec_c0 op_cb_def length_defs advance time_simps Let_def case_prod_beta\<close>)

end
