(* ===== verification/Ticks_Agree.thy ===== *)
theory Ticks_Agree
  imports Ticks_Listing Ticks_Advance
begin

text \<open>
  The disassembler and the emulator agree on a Z80: \<open>disassemble2\<close> reports as many bytes as the instruction at
  \<open>pc\<close> advances \<open>pc\<close> by.
\<close>

section \<open>The bytes the disassembler reads\<close>

definition exact :: "nat \<Rightarrow> dcontext \<Rightarrow> outcome \<Rightarrow> bool" where
  "exact k d o' = (case o' of Line d' \<Rightarrow> d_len d' = d_len d + k | _ \<Rightarrow> False)"

definition on_z80 :: "dis_env \<Rightarrow> bool" where
  "on_z80 E \<longleftrightarrow> c_cpu (machine E) = CPU_Z80 \<and> \<not> dis_rabbit4k E \<and> \<not> dis_rabbit6k E \<and> rst_table (c_target E) = []"

lemma z80_machine:
  assumes "on_z80 E"
  shows "dis_rabbit4k E = False" "dis_rabbit6k E = False" "rst_table (c_target E) = []"
    "is8080 (machine E) = False" "is8085 (machine E) = False" "isvm1 (machine E) = False" "isgbz80 (machine E) = False"
    "isr800 (machine E) = False" "israbbit (machine E) = False" "isz180 (machine E) = False" "isez80 (machine E) = False"
    "isz80n (machine E) = False" "iskc160 (machine E) = False" "iskc160ext (machine E) = False"
    "israbbit3k (machine E) = False" "canixh (machine E) = True" "cansll (machine E) = True"
    "cancbundoc (machine E) = True" "canaltreg (machine E) = True" "canindex (machine E) = True"
  using assms by (simp_all add: on_z80_def cpu_preds cpu_codes israbbit3k_def iskc160ext_def canaltreg_def)

lemmas z80_low =
  dis_main_def dis_x0_def dis_x0_z0_def dis_x0_z1_def dis_x0_z2_def dis_x0_z6_def dis_x0_z7_def dis_x1_def dis_ld_r_r_def
  dis_x2_def

lemmas z80_high =
  dis_main_def dis_x3_def dis_x3_z0_def dis_x3_z1_def dis_x3_z2_def dis_x3_z3_def dis_x3_z4_def dis_x3_z5_def dis_x3_z6_def
  dis_x3_z7_def dis_rst_def get_rsthelper_def

lemmas z80_lengths = exact_def steer reads_short reads_reg_def z80_operands_def z80_operand_table_def uses_cell_def

lemma exact_x0:
  assumes "0 \<le> opc" "opc < 64" "on_z80 E" "d_am d = 0" "d_adl d = 0" "d_prefix d = 0" "d_index d \<in> {0, 1, 2}"
  shows "exact (z80_operands (d_index d \<noteq> 0) opc) d (dis_main E opc d)"
  using quarter [of 0 opc, simplified, OF assms(1,2)]
  by (elim disjE) (use assms(3-) in \<open>auto simp: z80_low z80_machine [OF assms(3)] Let_def z80_lengths\<close>)

lemma exact_x1:
  assumes "64 \<le> opc" "opc < 128" "on_z80 E" "d_am d = 0" "d_adl d = 0" "d_prefix d = 0" "d_index d \<in> {0, 1, 2}"
  shows "exact (z80_operands (d_index d \<noteq> 0) opc) d (dis_main E opc d)"
  using quarter [of 64 opc, simplified, OF assms(1,2)]
  by (elim disjE) (use assms(3-) in \<open>auto simp: z80_low z80_machine [OF assms(3)] Let_def z80_lengths\<close>)

lemma exact_x2:
  assumes "128 \<le> opc" "opc < 192" "on_z80 E" "d_am d = 0" "d_adl d = 0" "d_prefix d = 0" "d_index d \<in> {0, 1, 2}"
  shows "exact (z80_operands (d_index d \<noteq> 0) opc) d (dis_main E opc d)"
  using quarter [of 128 opc, simplified, OF assms(1,2)]
  by (elim disjE) (use assms(3-) in \<open>auto simp: z80_low z80_machine [OF assms(3)] Let_def z80_lengths\<close>)

text \<open>On the CB page only the opcode is read; the displacement was read before.\<close>

lemma exact_cb:
  assumes "on_z80 E" "d_am d = 0" "d_adl d = 0" "d_prefix d = 0xcb"
  shows "exact 0 d (dis_cb E b d)"
  using assms(2-) by (auto simp: dis_cb_def z80_machine [OF assms(1)] Let_def exact_def steer reads_reg_def)

lemma exact_x3:
  assumes "192 \<le> opc" "opc < 256" "on_z80 E" "d_am d = 0" "d_adl d = 0" "d_prefix d = 0" "d_index d \<in> {0, 1, 2}"
    "opc \<notin> {0xcb, 0xdd, 0xed, 0xfd}"
  shows "exact (z80_operands (d_index d \<noteq> 0) opc) d (dis_main E opc d)"
  using quarter [of 192 opc, simplified, OF assms(1,2)]
  by (elim disjE) (use assms(3-) in \<open>auto simp: z80_high z80_machine [OF assms(3)] Let_def z80_lengths\<close>)

lemma exact_more: "exact j d' o' \<Longrightarrow> d_len d' + j = d_len d + k \<Longrightarrow> exact k d o'"
  by (auto simp: exact_def split: outcome.splits)

lemma exact_x3_cb:
  assumes "on_z80 E" "d_am d = 0" "d_adl d = 0"
  shows "exact (if d_index d = 0 then 1 else 2) d (dis_main E 0xcb d)"
  using assms(2-)
  by (simp add: z80_high z80_machine [OF assms(1)] Let_def case_prod_beta exact_more [OF exact_cb [OF assms(1)]] steer)

definition ed_operands :: "int \<Rightarrow> nat" where
  "ed_operands opc = (if opc \<in> {0x43, 0x4b, 0x53, 0x5b, 0x63, 0x6b, 0x73, 0x7b} then 2 else 0)"

lemmas z80_ed_page =
  dis_ed_def dis_ed_x0_def dis_ed_x1_def dis_ed_x2_def dis_ed_x3_def dis_ed_z4_def dis_ed_z5_def

lemma exact_ed:
  assumes "0 \<le> opc" "opc < 256" "on_z80 E" "d_am d = 0" "d_adl d = 0"
  shows "exact (ed_operands opc) d (dis_ed E opc d)"
proof -
  note m = z80_machine [OF assms(3)]
  have "opc < 64 \<or> 64 \<le> opc \<and> opc < 128 \<or> 128 \<le> opc \<and> opc < 192 \<or> 192 \<le> opc" by linarith
  then show ?thesis
  proof (elim disjE conjE)
    assume "opc < 64"
    from quarter [of 0 opc, simplified, OF assms(1) this] show ?thesis
      by (elim disjE) (use assms(4-) in \<open>simp_all add: z80_ed_page m Let_def exact_def ed_operands_def steer\<close>)
  next
    assume "64 \<le> opc" "opc < 128"
    from quarter [of 64 opc, simplified, OF this] show ?thesis
      by (elim disjE) (use assms(4-) in \<open>simp_all add: z80_ed_page m Let_def exact_def ed_operands_def steer reads_short reads_reg_def\<close>)
  next
    assume "128 \<le> opc" "opc < 192"
    from quarter [of 128 opc, simplified, OF this] show ?thesis
      by (elim disjE) (use assms(4-) in \<open>simp_all add: z80_ed_page m Let_def exact_def ed_operands_def steer\<close>)
  next
    assume "192 \<le> opc"
    from quarter [of 192 opc, simplified, OF this assms(2)] show ?thesis
      by (elim disjE) (use assms(4-) in \<open>simp_all add: z80_ed_page m Let_def exact_def ed_operands_def steer\<close>)
  qed
qed

section \<open>What the ED page does to the program counter\<close>

text \<open>RETN and RETI, the block instructions that repeat, and the two hooks of the emulator are left out.\<close>

definition ed_falls_through :: "int \<Rightarrow> bool" where
  "ed_falls_through opc \<longleftrightarrow> \<not> (64 \<le> opc \<and> opc < 128 \<and> opc mod 8 = 5) \<and>
     opc \<notin> {0xb0, 0xb1, 0xb2, 0xb3, 0xb8, 0xb9, 0xba, 0xbb, 0xfd, 0xfe}"

lemma advance_ed:
  assumes "0 \<le> opc" "opc < 256" "c_cpu s = CPU_Z80" "ed_falls_through opc"
  shows "pc (ed_page H opc s) = pc s + of_nat (ed_operands opc)"
proof -
  have "opc < 64 \<or> 64 \<le> opc \<and> opc < 128 \<or> 128 \<le> opc \<and> opc < 192 \<or> 192 \<le> opc" by linarith
  then show ?thesis
  proof (elim disjE conjE)
    assume "opc < 64"
    from quarter [of 0 opc, simplified, OF assms(1) this] show ?thesis
      by (elim disjE) (use assms(3-) in \<open>simp_all add: z80_ed ed_operands_def ed_falls_through_def advance time_simps\<close>)
  next
    assume "64 \<le> opc" "opc < 128"
    from quarter [of 64 opc, simplified, OF this] show ?thesis
      by (elim disjE) (use assms(3-) in \<open>simp_all add: z80_ed ed_operands_def ed_falls_through_def advance time_simps\<close>)
  next
    assume "128 \<le> opc" "opc < 192"
    from quarter [of 128 opc, simplified, OF this] show ?thesis
      by (elim disjE) (use assms(3-) in \<open>simp_all add: z80_ed ed_operands_def ed_falls_through_def advance time_simps\<close>)
  next
    assume "192 \<le> opc"
    from quarter [of 192 opc, simplified, OF this assms(2)] show ?thesis
      by (elim disjE) (use assms(3-) in \<open>simp_all add: z80_ed ed_operands_def ed_falls_through_def advance time_simps\<close>)
  qed
qed

section \<open>One call of the disassembler\<close>

lemma exact_loop:
  assumes "exact k (snd (READ_BYTE E d)) (dis_main E (PEEK_BYTE E 0 d) (snd (READ_BYTE E d)))"
  shows "\<exists>d'. dis_loop E a d = Some (int (d_len d + 1 + k), d')"
proof (cases "dis_main E (PEEK_BYTE E 0 d) (snd (READ_BYTE E d))")
  case (Line d')
  then show ?thesis
    using assms by (subst dis_loop.simps) (simp add: case_prod_beta read_value exact_def steer)
qed (use assms in \<open>simp_all add: exact_def\<close>)

lemma again_loop:
  assumes "dis_main E (PEEK_BYTE E 0 d) (snd (READ_BYTE E d)) = Again d'"
  shows "dis_loop E a d = dis_loop E a d'"
  using assms by (subst dis_loop.simps) (simp add: case_prod_beta read_value)

lemma exact_main:
  assumes "0 \<le> opc" "opc < 256" "on_z80 E" "d_am d = 0" "d_adl d = 0" "d_prefix d = 0" "d_index d \<in> {0, 1, 2}"
    "opc \<notin> {0xdd, 0xed, 0xfd}"
  shows "exact (z80_operands (d_index d \<noteq> 0) opc) d (dis_main E opc d)"
proof (cases "opc = 0xcb")
  case True
  then show ?thesis
    using exact_x3_cb [OF assms(3-5)] by (simp add: z80_operands_def z80_operand_table_def uses_cell_def numeral_2_eq_2 split: if_splits)
next
  case False
  consider "opc < 64" | "64 \<le> opc" "opc < 128" | "128 \<le> opc" "opc < 192" | "192 \<le> opc" by linarith
  then show ?thesis
    using exact_x0 [OF assms(1) _ assms(3-7)] exact_x1 [OF _ _ assms(3-7)] exact_x2 [OF _ _ assms(3-7)]
      exact_x3 [OF _ assms(2) assms(3-7)] assms(8) False
    by cases simp_all
qed

lemma exact_main_ed:
  assumes "on_z80 E" "d_am d = 0" "d_adl d = 0"
  shows "exact (1 + ed_operands (PEEK_BYTE E 0 d)) d (dis_main E 0xed d)"
proof -
  have "exact (ed_operands (PEEK_BYTE E 0 d)) (snd (READ_BYTE E d)) (dis_ed E (PEEK_BYTE E 0 d) (snd (READ_BYTE E d)))"
    by (rule exact_ed) (use assms uint8_bound in \<open>simp_all add: PEEK_BYTE_def steer\<close>)
  then have "exact (1 + ed_operands (PEEK_BYTE E 0 d)) d (dis_ed E (PEEK_BYTE E 0 d) (snd (READ_BYTE E d)))"
    by (rule exact_more) (simp add: steer)
  moreover have "dis_main E 0xed d = dis_ed E (PEEK_BYTE E 0 d) (snd (READ_BYTE E d))"
    by (simp add: z80_high z80_machine [OF assms(1)] Let_def case_prod_beta read_value)
  ultimately show ?thesis by simp
qed

lemma prefix_main:
  assumes "on_z80 E" "b = 0xdd \<or> b = 0xfd" "PEEK_BYTE E 0 d \<notin> {0xdd, 0xfd}"
  shows "dis_main E b d = Again (d\<lparr>d_index := (if b = 0xdd then 1 else 2)\<rparr>)"
proof -
  have p: "PEEK_BYTE E 0 d \<noteq> 0xdd" "PEEK_BYTE E 0 d \<noteq> 0xfd" using assms(3) by simp_all
  from assms(2) show ?thesis
    by (elim disjE) (simp_all add: z80_high z80_machine [OF assms(1)] Let_def p)
qed

section \<open>One instruction of the emulator\<close>

definition opcode_at :: "cpu \<Rightarrow> 16 word \<Rightarrow> int" where
  "opcode_at s k = uint (get_memory_inst (uint (pc s + k)) s)"

definition after_fetch :: "cpu \<Rightarrow> cpu" where
  "after_fetch s = (set_reg rR (regs s rR + 1) s)\<lparr>pc := pc s + 1\<rparr>"

lemma after_fetch_simps [simp]:
  "c_cpu (after_fetch s) = c_cpu s" "ih (after_fetch s) = ih s" "altd (after_fetch s) = altd s"
  "vm1_mb (after_fetch s) = vm1_mb s" "pc (after_fetch s) = pc s + 1" "get_memory_inst a (after_fetch s) = get_memory_inst a s"
  "falls_through b (after_fetch s) = falls_through b s"
  by (simp_all add: after_fetch_def set_reg_def falls_through_def z80_taken_def z80_cc_def)

lemma opcode_bounds: "0 \<le> opcode_at s k" "opcode_at s k < 256"
  using uint8_bound by (auto simp: opcode_at_def)

lemma cpu_vm1_prefix: "c_cpu (vm1_prefix_step s) = c_cpu s"
  by (simp add: vm1_prefix_step_def vm1_swap_hl_def Let_def)

lemma instruction_main:
  assumes "c_cpu s = CPU_Z80" "\<not> altd s" "\<not> hook_insn s"
  shows "instruction H s = exec_main H (opcode_at s 0) (after_fetch s)"
proof -
  have f: "fetch_opcode s = (opcode_at s 0, after_fetch s)"
    by (simp add: fetch_opcode_def Let_def fetch_def after_fetch_def opcode_at_def set_reg_def)
  have "c_cpu (exec_main H (opcode_at s 0) (after_fetch s)) = c_cpu (instruction H s)"
    by (simp add: instruction_def f Let_def cpu_vm1_prefix)
  also have "\<dots> = CPU_Z80"
    using progress_instruction [OF assms] by simp
  finally have "\<not> isvm1 (exec_main H (opcode_at s 0) (after_fetch s))"
    by (simp add: cpu_preds cpu_codes)
  then show ?thesis by (simp add: instruction_def f)
qed

lemma advance_main:
  assumes "0 \<le> opc" "opc < 256" "c_cpu s = CPU_Z80" "\<not> altd s" "vm1_mb s = 0" "falls_through opc s" "opc \<notin> {0xdd, 0xed, 0xfd}"
  shows "pc (exec_main H opc s) = pc s + of_nat (z80_operands (\<not> ih s) opc)"
proof -
  consider "opc < 64" | "64 \<le> opc" "opc < 128" | "128 \<le> opc" "opc < 192" | "192 \<le> opc" by linarith
  then show ?thesis
    using advance_00_3f [OF assms(1) _ assms(3-6)] advance_40_7f [OF _ _ assms(3-6)] advance_80_bf [OF _ _ assms(3-5)]
      advance_c0_ff [OF _ assms(2) assms(3-7)]
    by cases (simp_all add: exec_main_def)
qed

lemma advance_main_ed:
  assumes "c_cpu s = CPU_Z80" "ed_falls_through (opcode_at s 0)"
  shows "pc (exec_main H 0xed s) = pc s + 1 + of_nat (ed_operands (opcode_at s 0))"
proof -
  have "pc (handle_ed_page H s) = pc s + 1 + of_nat (ed_operands (opcode_at s 0))"
    using advance_ed [OF opcode_bounds _ assms(2), of "snd (fetch (set_reg rR (regs s rR + 1) s))" H] assms(1)
    by (simp add: handle_ed_page_def Let_def fetch_def opcode_at_def set_reg_def add_ac)
  then show ?thesis
    using assms(1) by (simp add: exec_main_def exec_c0_ff_def op_ed_def Let_def advance time_simps)
qed

lemma prefix_exec:
  assumes "c_cpu s = CPU_Z80"
  shows "exec_main H 0xdd s = (ticks (EX_TICKS s) s)\<lparr>ih := False, iy := False\<rparr>"
    "exec_main H 0xfd s = (ticks (EX_TICKS s) s)\<lparr>ih := False, iy := True\<rparr>"
  using assms by (simp_all add: exec_main_def exec_c0_ff_def op_dd_def op_fd_def z80_preds)

section \<open>Agreement\<close>

text \<open>A prefix is an iteration of its own in the emulator.\<close>

definition z80_instruction :: "handlers \<Rightarrow> cpu \<Rightarrow> cpu" where
  "z80_instruction H s =
    (if opcode_at s 0 \<in> {0xdd, 0xfd} then instruction H (instruction H s) else instruction H s)"

text \<open>The instruction at \<open>pc\<close> is one that continues with the next one.\<close>

definition straight_line :: "cpu \<Rightarrow> bool" where
  "straight_line s \<longleftrightarrow>
    (if opcode_at s 0 \<in> {0xdd, 0xfd} then opcode_at s 1 \<notin> {0xdd, 0xed, 0xfd} \<and> falls_through (opcode_at s 1) s
     else if opcode_at s 0 = 0xed then ed_falls_through (opcode_at s 1)
     else falls_through (opcode_at s 0) s)"

definition instruction_length :: "cpu \<Rightarrow> nat" where
  "instruction_length s =
    (if opcode_at s 0 \<in> {0xdd, 0xfd} then 2 + z80_operands True (opcode_at s 1)
     else if opcode_at s 0 = 0xed then 2 + ed_operands (opcode_at s 1)
     else 1 + z80_operands False (opcode_at s 0))"

lemma hook_insn_code: "hook_insn s \<longleftrightarrow> opcode_at s 0 = 0xed \<and> opcode_at s 1 \<in> {0xfd, 0xfe}"
  by (simp add: hook_insn_def opcode_at_def word_uint_eq_iff)

lemma emulator_length:
  assumes "c_cpu s = CPU_Z80" "ih s" "\<not> altd s" "vm1_mb s = 0" "straight_line s"
  shows "pc (z80_instruction H s) = pc s + of_nat (instruction_length s)"
proof -
  have hook: "\<not> hook_insn s"
    using assms(5) by (auto simp: hook_insn_code straight_line_def ed_falls_through_def)
  note first = instruction_main [OF assms(1,3) hook]
  have next_code: "opcode_at (after_fetch s) 0 = opcode_at s 1"
    by (simp add: opcode_at_def)
  consider "opcode_at s 0 = 0xdd \<or> opcode_at s 0 = 0xfd" | "opcode_at s 0 = 0xed" | "opcode_at s 0 \<notin> {0xdd, 0xed, 0xfd}"
    by auto
  then show ?thesis
  proof cases
    case 1
    define t where "t = instruction H s"
    have t: "t = (ticks (EX_TICKS (after_fetch s)) (after_fetch s))\<lparr>ih := False, iy := (opcode_at s 0 = 0xfd)\<rparr>"
      using first prefix_exec [of "after_fetch s" H] 1 assms(1) by (auto simp: t_def)
    have same: "c_cpu t = CPU_Z80" "\<not> altd t" "vm1_mb t = 0" "\<not> ih t" "pc t = pc s + 1" "opcode_at t 0 = opcode_at s 1"
      "falls_through b (after_fetch t) = falls_through b s" for b
      using assms(1-4) unfolding t by (simp_all add: ticks_def opcode_at_def) (simp_all add: falls_through_def z80_taken_def z80_cc_def after_fetch_def set_reg_def)
    have o: "opcode_at t 0 \<notin> {0xdd, 0xed, 0xfd}" "falls_through (opcode_at t 0) (after_fetch t)"
      using assms(5) 1 same by (auto simp: straight_line_def)
    then have "\<not> hook_insn t" by (simp add: hook_insn_code)
    from instruction_main [OF same(1,2) this] show ?thesis
      using advance_main [OF opcode_bounds _ _ _ o(2) o(1), of H] same 1
      by (auto simp: z80_instruction_def instruction_length_def simp flip: t_def)
  next
    case 2
    then show ?thesis
      using first advance_main_ed [of "after_fetch s" H] assms(1,5) next_code
      by (simp add: z80_instruction_def instruction_length_def straight_line_def)
  next
    case 3
    then show ?thesis
      using first advance_main [OF opcode_bounds, of "after_fetch s" s 0 H] assms
      by (simp add: z80_instruction_def instruction_length_def straight_line_def)
  qed
qed

lemma on_z80_env: "c_cpu s = CPU_Z80 \<Longrightarrow> on_z80 (ticks_env s)"
  by (simp add: on_z80_def ticks_env_def time_simps rst_table_def)

lemma env_bytes:
  assumes "d_pc d = ucast (pc s)" "uint (pc s) < 0xffff"
  shows "PEEK_BYTE (ticks_env s) 0 d = opcode_at s 0" "PEEK_BYTE (ticks_env s) 1 d = opcode_at s 1"
proof -
  have "uint (pc s + 1) = uint (pc s) + 1"
    using assms(2) by (simp add: uint_word_ariths)
  moreover have w: "take_bit 32 (uint (pc s)) = uint (pc s)"
    using assms(2) by (simp add: take_bit_int_eq_self)
  then have "uint ((ucast (pc s) :: 32 word) + 1) = uint (pc s) + 1"
    using assms(2) by (simp add: uint_word_ariths unsigned_ucast_eq)
  ultimately show "PEEK_BYTE (ticks_env s) 0 d = opcode_at s 0" "PEEK_BYTE (ticks_env s) 1 d = opcode_at s 1"
    using assms(1) w by (simp_all add: PEEK_BYTE_def opcode_at_def ticks_env_def unsigned_ucast_eq)
qed

lemma peek_next: "PEEK_BYTE E k (snd (READ_BYTE E d)) = PEEK_BYTE E (k + 1) d"
  by (simp add: PEEK_BYTE_def steer add_ac)

text \<open>No prefix follows an index prefix.\<close>

definition single_prefix :: "cpu \<Rightarrow> bool" where
  "single_prefix s \<longleftrightarrow> (opcode_at s 0 \<in> {0xdd, 0xfd} \<longrightarrow> opcode_at s 1 \<notin> {0xdd, 0xed, 0xfd})"

lemma straight_single: "straight_line s \<Longrightarrow> single_prefix s"
  by (auto simp: straight_line_def single_prefix_def split: if_splits)

lemma disassembler_length:
  assumes "c_cpu s = CPU_Z80" "uint (pc s) < 0xffff" "single_prefix s"
  shows "\<exists>d'. dis_loop (ticks_env s) a (start_context (ticks_env s) (uint (pc s)) T) = Some (int (instruction_length s), d')"
proof -
  let ?E = "ticks_env s"
  define d where "d = start_context ?E (uint (pc s)) T"
  have d: "d_len d = 0" "d_am d = 0" "d_adl d = 0" "d_prefix d = 0" "d_index d = 0" "d_pc d = ucast (pc s)"
    by (simp_all add: d_def start_context_def Let_def ticks_env_def unsigned_ucast_eq word_uint_eq_iff)
  note E = on_z80_env [OF assms(1)]
  note b = env_bytes [OF d(6) assms(2)]
  let ?r = "snd (READ_BYTE ?E d)"
  consider "opcode_at s 0 = 0xdd \<or> opcode_at s 0 = 0xfd" | "opcode_at s 0 = 0xed" | "opcode_at s 0 \<notin> {0xdd, 0xed, 0xfd}"
    by auto
  then have "\<exists>d'. dis_loop ?E a d = Some (int (instruction_length s), d')"
  proof cases
    case 1
    define i :: int where "i = (if opcode_at s 0 = 0xdd then 1 else 2)"
    have i: "i \<in> {1, 2}" by (simp add: i_def)
    let ?p = "?r\<lparr>d_index := i\<rparr>"
    have o: "opcode_at s 1 \<notin> {0xdd, 0xed, 0xfd}"
      using assms(3) 1 by (auto simp: single_prefix_def)
    have p: "PEEK_BYTE ?E 0 ?p = opcode_at s 1"
      using b(2) peek_next [of ?E 0 d] by (simp add: PEEK_BYTE_def)
    have "dis_main ?E (PEEK_BYTE ?E 0 d) ?r = Again ?p"
      unfolding b i_def by (rule prefix_main [OF E 1]) (use o b(2) peek_next [of ?E 0 d] in simp)
    note again = again_loop [OF this, of a]
    have "exact (z80_operands True (opcode_at s 1)) (snd (READ_BYTE ?E ?p)) (dis_main ?E (PEEK_BYTE ?E 0 ?p) (snd (READ_BYTE ?E ?p)))"
      unfolding p using exact_main [OF opcode_bounds E _ _ _ _ o, of "snd (READ_BYTE ?E ?p)"] d i
      by (auto simp: steer)
    from exact_loop [OF this, of a] show ?thesis
      unfolding again using 1 d by (auto simp: instruction_length_def steer)
  next
    case 2
    have "exact (1 + ed_operands (opcode_at s 1)) ?r (dis_main ?E (PEEK_BYTE ?E 0 d) ?r)"
      using exact_main_ed [OF E, of ?r] d b peek_next [of ?E 0 d] 2 by (simp add: steer)
    from exact_loop [OF this, of a] show ?thesis
      using 2 d by (simp add: instruction_length_def)
  next
    case 3
    have "exact (z80_operands False (opcode_at s 0)) ?r (dis_main ?E (PEEK_BYTE ?E 0 d) ?r)"
      unfolding b using exact_main [OF opcode_bounds E, of ?r s 0] d 3 by (simp add: steer)
    from exact_loop [OF this, of a] show ?thesis
      using 3 d by (simp add: instruction_length_def)
  qed
  then show ?thesis by (simp add: d_def)
qed

text \<open>C5: on a Z80, the number of bytes \<open>disassemble2\<close> reports for the code at \<open>pc\<close> is the number by which the
  emulator advances \<open>pc\<close> when it executes it, for every instruction that continues with the next one: unprefixed,
  CB, DD, FD, DD CB, FD CB and ED.\<close>

theorem listing_agrees_with_execution:
  assumes "c_cpu s = CPU_Z80" "ih s" "\<not> altd s" "vm1_mb s = 0" "uint (pc s) < 0xffff" "straight_line s"
  shows "\<exists>n line T'. disassemble2 (ticks_env s) (uint (pc s)) T = Some (n, line, T') \<and>
    pc (z80_instruction H s) = pc s + of_int n"
proof -
  have "address_is_code a (sections (ticks_env s))" for a
    by (simp add: address_is_code_def ticks_env_def)
  then show ?thesis
    using emulator_length [OF assms(1-4,6), of H] disassembler_length [OF assms(1,5) straight_single [OF assms(6)], of "uint (pc s)" T]
    by (auto simp: disassemble2_def)
qed

text \<open>The code DD CB CB CB, SET 1,E,(IX-35h): four bytes, two of them prefixes.\<close>

theorem listing_agrees_with_execution_witness:
  "let s = boot CPU_Z80 (\<lambda>i. if i = 0 then 0xdd else 0xcb) in
    \<exists>n line T'. disassemble2 (ticks_env s) (uint (pc s)) (\<lambda>_. []) = Some (n, line, T') \<and>
      pc (z80_instruction (\<lambda>f args s. s) s) = pc s + of_int n"
proof -
  let ?s = "boot CPU_Z80 (\<lambda>i. if i = 0 then 0xdd else 0xcb)"
  have "opcode_at ?s 0 = 0xdd" "opcode_at ?s 1 = 0xcb"
    by (simp_all add: opcode_at_def)
  then have "straight_line ?s"
    by (simp add: straight_line_def falls_through_def z80_taken_def)
  moreover have "vm1_mb ?s = 0" "uint (pc ?s) < 0xffff" by (simp_all add: boot_def power_on_def)
  ultimately show ?thesis
    using listing_agrees_with_execution [of ?s "\<lambda>_. []" "\<lambda>f args s. s"] by (simp add: Let_def)
qed

end
