(* ===== verification/Ticks_Backend.thy ===== *)
theory Ticks_Backend
  imports Ticks_Debugger Ticks_Agree
begin

text \<open>
  \<open>debugger_ticks.c\<close>: the backend of the debugger that is the emulator itself. Its target is the machine
  with \<open>debugger_active\<close>.
\<close>

section \<open>Registers\<close>

definition reported :: "reg list" where
  "reported = [rA, rB, rC, rD, rE, rH, rL, rA', rB', rC', rD', rE', rH', rL', rXH, rXL, rYH, rYL]"

text \<open>Between an RS prefix of the KR580VM1 and its instruction HL and H1L1 are exchanged.\<close>

definition logical_reg :: "cpu \<Rightarrow> reg \<Rightarrow> reg" where
  "logical_reg s r =
    (if vm1_rs s = 1 then
       (if r = rH then rH' else if r = rL then rL' else if r = rH' then rH else if r = rL' then rL else r)
     else r)"

text \<open>The fields the functions do not mention keep what they had.\<close>

definition get_regs :: "cpu \<Rightarrow> debugger_regs \<Rightarrow> debugger_regs" where
  "get_regs s g =
    g\<lparr>r_sp := sp s, r_pc := pc s,
      r_reg := (\<lambda>r. if r \<in> set reported then regs s (logical_reg s r) else r_reg g r)\<rparr>"

definition set_regs :: "debugger_regs \<Rightarrow> cpu \<Rightarrow> cpu" where
  "set_regs g s =
    s\<lparr>sp := r_sp g, pc := r_pc g,
      regs := (\<lambda>r. if r \<in> set reported then r_reg g (logical_reg s r) else regs s r)\<rparr>"

section \<open>Watchpoints\<close>

definition watch_hit :: "breakpoint_type \<Rightarrow> int \<Rightarrow> cpu debugger \<Rightarrow> cpu debugger" where
  "watch_hit type addr d =
    (if \<exists>w\<in>set (watchpoints d). enabled w \<and> btype w = type \<and> bvalue w = addr
     then d\<lparr>target := (target d)\<lparr>debugger_active := True\<rparr>\<rparr> else d)"

definition debugger_write_memory :: "int \<Rightarrow> cpu debugger \<Rightarrow> cpu debugger" where
  "debugger_write_memory = watch_hit BREAK_WRITE"

definition debugger_read_memory :: "int \<Rightarrow> cpu debugger \<Rightarrow> cpu debugger" where
  "debugger_read_memory = watch_hit BREAK_READ"

section \<open>The callbacks\<close>

definition do_nothing :: "cpu breakpoint_cb" where
  "do_nothing type address sz t = (BREAKPOINT_ERROR_OK, t)"

definition set_active :: "bool \<Rightarrow> cpu target \<Rightarrow> cpu target" where
  "set_active on t = t\<lparr>debugger_active := on\<rparr>"

definition ticks_backend :: "cpu backend" where
  "ticks_backend =
    \<lparr>bk_pc = (\<lambda>t. pc (remote t)),
     bk_get_memory = (\<lambda>a t. get_memory (uint a) MEM_TYPE_DATA (remote t)),
     bk_get_regs = (\<lambda>t. get_regs (remote t)),
     bk_break = set_active True,
     bk_resume = (\<lambda>t. t),
     bk_next0 = set_active False,
     bk_step0 = set_active False,
     bk_breakpoints_check = (\<lambda>t. \<not> debugger_active t),
     bk_add_breakpoint = do_nothing,
     bk_remove_breakpoint = do_nothing,
     bk_disable_breakpoint = do_nothing,
     bk_enable_breakpoint = do_nothing,
     bk_add_watchpoint = None,
     bk_remove_watchpoint = None\<rparr>"

section \<open>Stepping\<close>

definition activate :: "bool \<Rightarrow> cpu debugger \<Rightarrow> cpu debugger" where
  "activate on d = d\<lparr>target := set_active on (target d)\<rparr>"

definition calls_and_prefixes :: "8 word list" where
  "calls_and_prefixes = [0xed, 0xcb, 0xc4, 0xcc, 0xcd, 0xd4, 0xdc, 0xe4, 0xec, 0xf4]"

text \<open>\<open>next\<close> disassembles first, to know the length; \<open>None\<close> is a disassembly that never returns.\<close>

definition ticks_next :: "bool \<Rightarrow> symtab \<Rightarrow> cpu debugger \<Rightarrow> cpu debugger option" where
  "ticks_next add_bp T d =
    (let s = remote (target d);
         opcode = get_memory (uint (pc s)) MEM_TYPE_INST s
     in case disassemble2 (ticks_env s) (uint (pc s)) T of
          None \<Rightarrow> None
        | Some (len, _, _) \<Rightarrow>
            Some (activate False
              (if opcode \<in> set calls_and_prefixes then
                 (if add_bp then
                    add_temporary_internal_breakpoint (u32 (uint (pc s) + len)) TMP_REASON_ONE_INSTRUCTION None 0 d
                  else d)
               else if add_bp then add_temp_breakpoint_one_instruction d else d)))"

definition ticks_step :: "bool \<Rightarrow> cpu debugger \<Rightarrow> cpu debugger" where
  "ticks_step add_bp d = activate False (if add_bp then add_temp_breakpoint_one_instruction d else d)"

section \<open>Reading back the registers\<close>

lemma logical_twice: "logical_reg s (logical_reg s r) = r"
  by (simp add: logical_reg_def)

lemma logical_reported: "logical_reg s r \<in> set reported \<longleftrightarrow> r \<in> set reported"
  by (simp add: logical_reg_def reported_def)

lemma set_get_regs: "set_regs (get_regs s g) s = s"
proof -
  have "(\<lambda>r. if r \<in> set reported then r_reg (get_regs s g) (logical_reg s r) else regs s r) = regs s"
    by (rule ext) (simp add: get_regs_def logical_twice logical_reported)
  moreover have "r_sp (get_regs s g) = sp s" "r_pc (get_regs s g) = pc s" by (simp_all add: get_regs_def)
  ultimately show ?thesis by (simp add: set_regs_def)
qed

lemma get_set_regs:
  "get_regs (set_regs g s) h = h\<lparr>r_sp := r_sp g, r_pc := r_pc g,
    r_reg := (\<lambda>r. if r \<in> set reported then r_reg g r else r_reg h r)\<rparr>"
proof -
  have "logical_reg (set_regs g s) = logical_reg s" by (simp add: set_regs_def logical_reg_def fun_eq_iff)
  then have "(\<lambda>r. if r \<in> set reported then regs (set_regs g s) (logical_reg (set_regs g s) r) else r_reg h r) =
      (\<lambda>r. if r \<in> set reported then r_reg g r else r_reg h r)"
    by (intro ext) (simp add: set_regs_def logical_twice logical_reported)
  moreover have "sp (set_regs g s) = r_sp g" "pc (set_regs g s) = r_pc g" by (simp_all add: set_regs_def)
  ultimately show ?thesis by (simp add: get_regs_def [of "set_regs g s"])
qed

end
