(* ===== verification/Ticks_Session.thy ===== *)
theory Ticks_Session
  imports Ticks_Backend "HOL-Library.Sublist"
begin

text \<open>
  What the debugger guarantees: the breakpoint numbers in a whole session, the commands on an accepting
  backend as operations on a table, when \<open>debugger()\<close> stops, and what \<open>next\<close> steps over.
\<close>

section \<open>A session\<close>

text \<open>The commands, the test before an instruction, and the instructions, which change the target only.\<close>

inductive debugger_step :: "'s backend \<Rightarrow> 's debugger \<Rightarrow> 's debugger \<Rightarrow> bool" for bk where
  Break_pc: "debugger_step bk d (break_pc bk v d)"
| Break_memory8: "debugger_step bk d (break_memory8 bk str addr num d)"
| Break_memory16: "debugger_step bk d (break_memory16 bk str addr num d)"
| Break_register: "debugger_step bk d (break_register bk name v d)"
| Break_temporary: "debugger_step bk d (snd (add_breakpoint bk BREAK_PC BK_BREAKPOINT_SOFTWARE 1 v None True d))"
| Break_enable: "debugger_step bk d (break_set_enabled bk num on d)"
| Break_delete: "debugger_step bk d (delete_breakpoint_by_number bk num d)"
| Delete_all: "debugger_step bk d (delete_all_breakpoints bk d)"
| Watch: "debugger_step bk d (watch_add bk w v d)"
| Watch_delete: "debugger_step bk d (watch_delete bk num d)"
| Watch_enable: "debugger_step bk d (watch_set_enabled bk num on d)"
| Temporary: "debugger_step bk d (add_temporary_internal_breakpoint address why file line d)"
| Remove_temporary: "debugger_step bk d (remove_temp_breakpoints bk d)"
| Test: "debugger_step bk d (snd (debugger_stops bk location profiler junk requested d))"
| Run: "debugger_step bk d (d\<lparr>target := t\<rparr>)"

definition no_breakpoints :: "'s target \<Rightarrow> 's debugger" where
  "no_breakpoints t =
    \<lparr>breakpoints = [], watchpoints = [], temporary_breakpoints = [], next_breakpoint_number = 1, target = t\<rparr>"

inductive session :: "'s backend \<Rightarrow> 's debugger \<Rightarrow> bool" for bk where
  Start: "session bk (no_breakpoints t)"
| Step: "session bk d \<Longrightarrow> debugger_step bk d d' \<Longrightarrow> session bk d'"

section \<open>Numbers\<close>

definition numbers :: "'s debugger \<Rightarrow> int list" where
  "numbers d = List.map bnumber (breakpoints d) @ List.map bnumber (watchpoints d)"

definition numbered :: "'s debugger \<Rightarrow> bool" where
  "numbered d \<longleftrightarrow> distinct (numbers d) \<and> (\<forall>n\<in>set (numbers d). n < next_breakpoint_number d)"

text \<open>An operation that adds no number, and one that adds the next.\<close>

definition fewer :: "'s debugger \<Rightarrow> 's debugger \<Rightarrow> bool" where
  "fewer d d' \<longleftrightarrow> subseq (numbers d') (numbers d) \<and> next_breakpoint_number d' = next_breakpoint_number d"

definition one_more :: "'s debugger \<Rightarrow> 's debugger \<Rightarrow> bool" where
  "one_more d d' \<longleftrightarrow> next_breakpoint_number d' = next_breakpoint_number d + 1 \<and>
    (\<exists>xs ys. numbers d = xs @ ys \<and> numbers d' = xs @ next_breakpoint_number d # ys)"

lemma subseq_set: "subseq xs ys \<Longrightarrow> set xs \<subseteq> set ys"
  by (auto elim: list_emb_set)

lemma subseq_keeps_distinct: "subseq xs ys \<Longrightarrow> distinct ys \<Longrightarrow> distinct xs"
  by (induction rule: list_emb.induct) (use subseq_set in auto)

lemma fewer_numbered: "fewer d d' \<Longrightarrow> numbered d \<Longrightarrow> numbered d'"
  unfolding fewer_def numbered_def by (metis subseq_keeps_distinct subseq_set subsetD)

lemma one_more_numbered: "one_more d d' \<Longrightarrow> numbered d \<Longrightarrow> numbered d'"
  unfolding one_more_def numbered_def by (elim conjE exE) (auto intro: less_imp_le)

lemma fewer_refl [simp]: "fewer d d"
  by (simp add: fewer_def)

lemma fewer_target [simp]: "fewer d (d'\<lparr>target := t\<rparr>) = fewer d d'"
  by (simp add: fewer_def numbers_def)

lemma subseq_delete: "subseq (delete_nth i xs) xs"
proof (induction xs arbitrary: i)
  case (Cons x xs)
  have "subseq xs (x # xs)" by (intro list_emb_Cons) simp
  with Cons show ?case by (cases i) (simp_all add: delete_nth_def)
qed (simp add: delete_nth_def)

lemma map_same: "f x = f (xs ! i) \<Longrightarrow> List.map f (xs[i := x]) = List.map f xs"
  by (cases "i < length xs") (simp_all add: map_update list_update_same_conv list_update_beyond)

lemma numbers_change:
  "(\<And>b. bnumber (f b) = bnumber b) \<Longrightarrow> numbers (change_breakpoint i f d) = numbers d"
  by (simp add: numbers_def change_breakpoint_def map_same)

lemma change_next [simp]: "next_breakpoint_number (change_breakpoint i f d) = next_breakpoint_number d"
  by (simp add: change_breakpoint_def)

lemma fewer_change:
  "(\<And>b. bnumber (f b) = bnumber b) \<Longrightarrow> fewer d d' \<Longrightarrow> fewer d (change_breakpoint i f d')"
  by (simp add: fewer_def numbers_change)

lemma one_more_change:
  "(\<And>b. bnumber (f b) = bnumber b) \<Longrightarrow> one_more d d' \<Longrightarrow> one_more d (change_breakpoint i f d')"
  by (simp add: one_more_def numbers_change)

lemma one_more_intro:
  "next_breakpoint_number d' = next_breakpoint_number d + 1 \<Longrightarrow> numbers d = xs @ ys \<Longrightarrow>
    numbers d' = xs @ next_breakpoint_number d # ys \<Longrightarrow> one_more d d'"
  by (auto simp: one_more_def)

lemma one_more_add: "one_more d (snd (add_breakpoint bk type k sz value text temp d))"
  by (rule one_more_intro [where xs = "List.map bnumber (breakpoints d)" and ys = "List.map bnumber (watchpoints d)"])
    (simp_all add: add_breakpoint_def numbers_def Let_def case_prod_beta)

lemma fewer_delete: "fewer d (delete_breakpoint bk i d)"
proof -
  have "subseq (List.map bnumber (delete_nth i (breakpoints d)) @ ws) (List.map bnumber (breakpoints d) @ ws)" for ws
    by (intro list_emb_append_mono subseq_map subseq_delete) simp
  then show ?thesis
    by (simp add: fewer_def delete_breakpoint_def numbers_def Let_def case_prod_beta map_same)
qed

lemma fewer_watch_delete: "fewer d (snd (delete_watchpoint bk i d))"
proof -
  have "subseq (bs @ List.map bnumber (delete_nth i (watchpoints d))) (bs @ List.map bnumber (watchpoints d))" for bs
    by (intro list_emb_append_mono subseq_map subseq_delete) simp
  then show ?thesis
    by (simp add: fewer_def delete_watchpoint_def numbers_def Let_def case_prod_beta)
qed

lemma fewer_watch_enabled: "fewer d (snd (set_watchpoint_enabled bk i on d))"
  by (simp add: fewer_def set_watchpoint_enabled_def numbers_def Let_def case_prod_beta map_same)

lemma fewer_temps: "fewer d (snd (process_temp_breakpoints bk location d))"
  by (simp add: fewer_def process_temp_breakpoints_def numbers_def Let_def case_prod_beta)

lemma fewer_trans: "fewer d d' \<Longrightarrow> fewer d' d'' \<Longrightarrow> fewer d d''"
  by (auto simp: fewer_def intro: subseq_order.order_trans)

lemma fewer_check: "fewer d (snd (check_breakpoints bk junk d))"
  by (simp add: check_breakpoints_def fewer_delete fewer_change split: option.split)

lemma fewer_stops: "fewer d (snd (debugger_stops bk location profiler junk requested d))"
proof -
  have "fewer d (snd (check_breakpoints bk junk (snd (process_temp_breakpoints bk location d))))"
    by (rule fewer_trans [OF fewer_temps fewer_check])
  then show ?thesis by (simp add: debugger_stops_def Let_def case_prod_beta fewer_temps)
qed

lemma watch_more: "fewer d (snd (snd (add_watchpoint bk op v d))) \<or> one_more d (snd (snd (add_watchpoint bk op v d)))"
proof -
  let ?r = "case bk_add_watchpoint bk of None \<Rightarrow> (BREAKPOINT_ERROR_OK, target d)
    | Some f \<Rightarrow> f (watchpoint_rsp_type op) (u16 v) 1 (target d)"
  show ?thesis
  proof (cases "fst ?r = BREAKPOINT_ERROR_OK")
    case True
    then have "one_more d (snd (snd (add_watchpoint bk op v d)))"
      by (intro one_more_intro [where xs = "List.map bnumber (breakpoints d) @ List.map bnumber (watchpoints d)" and ys = "[]"])
        (simp_all add: add_watchpoint_def numbers_def Let_def case_prod_beta)
    then show ?thesis ..
  qed (simp add: add_watchpoint_def fewer_def numbers_def Let_def case_prod_beta)
qed

lemma step_numbers: "debugger_step bk d d' \<Longrightarrow> fewer d d' \<or> one_more d d'"
proof (induction rule: debugger_step.induct)
  case (Break_pc d v)
  then show ?case by (simp add: break_pc_def one_more_add)
next
  case (Break_memory8 d str addr num)
  then show ?case by (simp add: break_memory8_def case_prod_beta one_more_add one_more_change)
next
  case (Break_memory16 d str addr num)
  then show ?case by (simp add: break_memory16_def case_prod_beta one_more_add one_more_change)
next
  case (Break_register d name v)
  then show ?case by (simp add: break_register_def case_prod_beta one_more_add one_more_change split: option.split)
next
  case (Break_enable d num on)
  then show ?case by (simp add: break_set_enabled_def Let_def case_prod_beta fewer_change)
next
  case (Break_delete d num)
  then show ?case by (simp add: delete_breakpoint_by_number_def fewer_delete split: option.split)
next
  case (Test d location profiler junk requested)
  then show ?case by (simp add: fewer_stops)
next
  case (Delete_all d)
  then show ?case by (simp add: fewer_def delete_all_breakpoints_def numbers_def Let_def)
next
  case (Watch d w v)
  then show ?case by (simp add: watch_add_def watch_more)
next
  case (Watch_delete d num)
  then show ?case by (simp add: watch_delete_def fewer_watch_delete split: option.split)
next
  case (Watch_enable d num on)
  then show ?case by (simp add: watch_set_enabled_def fewer_watch_enabled split: option.split)
qed (simp_all add: one_more_add fewer_def add_temporary_internal_breakpoint_def remove_temp_breakpoints_def numbers_def)

lemma session_numbered: "session bk d \<Longrightarrow> numbered d"
proof (induction rule: session.induct)
  case (Start t)
  then show ?case by (simp add: numbered_def numbers_def no_breakpoints_def)
next
  case (Step d d')
  then show ?case using step_numbers fewer_numbered one_more_numbered by blast
qed

lemma find_number_None: "find_number n bs = None \<longleftrightarrow> n \<notin> bnumber ` set bs"
  by (induction bs) auto

lemma find_number_distinct:
  "distinct (List.map bnumber bs) \<Longrightarrow> find_number n bs = Some i \<longleftrightarrow> i < length bs \<and> bnumber (bs ! i) = n"
proof (induction bs arbitrary: i)
  case (Cons b bs)
  have neq: "bnumber (bs ! j) \<noteq> bnumber b" if "j < length bs" for j
    using Cons.prems nth_mem [OF that] by (metis distinct.simps(2) image_eqI image_set list.simps(9))
  show ?case
  proof (cases i)
    case 0
    then show ?thesis by auto
  next
    case (Suc j)
    with Cons.IH [of j] Cons.prems neq [of j] show ?thesis by (cases "bnumber b = n") auto
  qed
qed simp

text \<open>C38: In every state of a session, on any backend, whatever commands, deletions, temporary breakpoints and
  stops came before, the number in \<open>break delete\<close> or \<open>watch delete\<close> names at most one breakpoint: \<open>find_breakpoint\<close>
  and \<open>find_watchpoint\<close> return exactly the element with the number, and never both do.\<close>

theorem numbers_name_one_breakpoint:
  assumes "session bk d"
  shows "(find_breakpoint n d = Some i \<longleftrightarrow> i < length (breakpoints d) \<and> bnumber (breakpoints d ! i) = n) \<and>
    (find_watchpoint n d = Some j \<longleftrightarrow> j < length (watchpoints d) \<and> bnumber (watchpoints d ! j) = n) \<and>
    \<not> (find_breakpoint n d = Some i \<and> find_watchpoint n d = Some j)"
proof -
  have d: "distinct (List.map bnumber (breakpoints d))" "distinct (List.map bnumber (watchpoints d))"
    and disjoint: "bnumber ` set (breakpoints d) \<inter> bnumber ` set (watchpoints d) = {}"
    using session_numbered [OF assms] by (simp_all add: numbered_def numbers_def)
  have "\<not> (i < length (breakpoints d) \<and> bnumber (breakpoints d ! i) = n \<and>
      j < length (watchpoints d) \<and> bnumber (watchpoints d ! j) = n)"
    using disjoint by (metis disjoint_iff imageI nth_mem)
  then show ?thesis
    unfolding find_breakpoint_def find_watchpoint_def find_number_distinct [OF d(1)] find_number_distinct [OF d(2)]
    by blast
qed

theorem numbers_name_one_breakpoint_witness:
  "find_breakpoint 1 (break_pc ticks_backend 100
    (no_breakpoints \<lparr>debugger_active = False, remote = boot CPU_Z80 (\<lambda>_. 0)\<rparr>)) = Some 0"
proof -
  let ?d = "break_pc ticks_backend 100 (no_breakpoints \<lparr>debugger_active = False, remote = boot CPU_Z80 (\<lambda>_. 0)\<rparr>)"
  have "session ticks_backend ?d" by (rule session.Step [OF session.Start debugger_step.Break_pc])
  moreover have "length (breakpoints ?d) = 1" "bnumber (breakpoints ?d ! 0) = 1"
    by (simp_all add: break_pc_def add_breakpoint_def no_breakpoints_def Let_def case_prod_beta)
  ultimately show ?thesis using numbers_name_one_breakpoint [of ticks_backend ?d 1 0 0] by simp
qed

section \<open>An accepting backend\<close>

text \<open>What the commands rely on when nothing is left pending: adding and removing succeed and change nothing.\<close>

locale accepting =
  fixes bk :: "'s backend"
  assumes add_ok: "bk_add_breakpoint bk type address sz t = (BREAKPOINT_ERROR_OK, t)"
    and remove_ok: "bk_remove_breakpoint bk type address sz t = (BREAKPOINT_ERROR_OK, t)"
    and enable_ok: "snd (bk_enable_breakpoint bk type address sz t) = t"
    and disable_ok: "snd (bk_disable_breakpoint bk type address sz t) = t"

text \<open>The table the user sees: the kind, the address or value and whether it is enabled, by number.\<close>

type_synonym breakpoint_table = "int \<rightharpoonup> breakpoint_type \<times> int \<times> bool"

definition row :: "breakpoint \<Rightarrow> breakpoint_type \<times> int \<times> bool" where
  "row b = (btype b, bvalue b, enabled b)"

definition table :: "'s debugger \<Rightarrow> breakpoint_table" where
  "table d = map_of (List.map (\<lambda>b. (bnumber b, row b)) (breakpoints d))"

lemma map_of_snoc: "k \<notin> fst ` set xs \<Longrightarrow> map_of (xs @ [(k, v)]) = (map_of xs)(k \<mapsto> v)"
  by (induction xs) (auto simp: fun_eq_iff)

lemma map_of_delete_nth:
  "distinct (List.map fst xs) \<Longrightarrow> i < length xs \<Longrightarrow> map_of (delete_nth i xs) = (map_of xs)(fst (xs ! i) := None)"
proof (induction xs arbitrary: i)
  case (Cons x xs)
  show ?case
  proof (cases i)
    case 0
    with Cons.prems show ?thesis
      by (cases x) (auto simp: delete_nth_def fun_eq_iff map_of_eq_None_iff)
  next
    case (Suc j)
    with Cons have "map_of (delete_nth j xs) = (map_of xs)(fst (xs ! j) := None)" "fst x \<noteq> fst (xs ! j)"
      by (auto simp: image_iff)
    with Suc show ?thesis by (cases x) (auto simp: delete_nth_def fun_eq_iff)
  qed
qed simp

lemma map_of_update:
  "distinct (List.map fst xs) \<Longrightarrow> i < length xs \<Longrightarrow> fst (xs ! i) = k \<Longrightarrow> map_of (xs[i := (k, v)]) = (map_of xs)(k \<mapsto> v)"
proof (induction xs arbitrary: i)
  case (Cons x xs)
  show ?case
  proof (cases i)
    case 0
    with Cons.prems show ?thesis by (cases x) (auto simp: fun_eq_iff)
  next
    case (Suc j)
    with Cons have "map_of (xs[j := (k, v)]) = (map_of xs)(k \<mapsto> v)" "fst x \<noteq> k"
      by (auto simp: image_iff)
    with Suc show ?thesis by (cases x) (auto simp: fun_eq_iff)
  qed
qed simp

context accepting
begin

lemma table_break:
  assumes "numbered d" "value \<noteq> -1"
  shows "table (break_pc bk value d) = (table d)(next_breakpoint_number d \<mapsto> (BREAK_PC, value, True))"
proof -
  have "next_breakpoint_number d \<notin> fst ` set (List.map (\<lambda>b. (bnumber b, row b)) (breakpoints d))"
    using assms(1) by (force simp: numbered_def numbers_def)
  from map_of_snoc [OF this] assms(2) show ?thesis
    by (simp add: table_def break_pc_def add_breakpoint_def add_ok row_def Let_def blank_def)
qed

lemma table_delete:
  assumes "numbered d"
  shows "table (delete_breakpoint_by_number bk n d) = (table d)(n := None)"
proof (cases "find_breakpoint n d")
  case None
  then have "n \<notin> bnumber ` set (breakpoints d)"
    by (simp add: find_breakpoint_def find_number_None)
  then have "table d n = None" by (force simp: table_def map_of_eq_None_iff)
  with None show ?thesis by (auto simp: delete_breakpoint_by_number_def)
next
  case (Some i)
  have d: "distinct (List.map bnumber (breakpoints d))" using assms by (simp add: numbered_def numbers_def)
  then have i: "i < length (breakpoints d)" "bnumber (breakpoints d ! i) = n"
    using Some by (simp_all add: find_breakpoint_def find_number_distinct)
  have "List.map f (delete_nth i xs) = delete_nth i (List.map f xs)" for f :: "breakpoint \<Rightarrow> int \<times> breakpoint_type \<times> int \<times> bool" and xs
    by (simp add: delete_nth_def take_map drop_map)
  then show ?thesis
    using map_of_delete_nth [of "List.map (\<lambda>b. (bnumber b, row b)) (breakpoints d)" i] d i Some
    by (simp add: delete_breakpoint_by_number_def delete_breakpoint_def remove_ok Let_def table_def o_def)
qed

lemma table_enable:
  assumes "numbered d" "0 < num" "num \<le> int (length (breakpoints d))"
  shows "table (break_set_enabled bk num on d) =
    (let b = breakpoints d ! nat (num - 1) in (table d)(bnumber b \<mapsto> (btype b, bvalue b, on)))"
proof -
  let ?i = "nat (num - 1)" and ?xs = "List.map (\<lambda>b. (bnumber b, row b)) (breakpoints d)"
  have i: "?i < length (breakpoints d)" using assms by simp
  have d: "distinct (List.map bnumber (breakpoints d))" using assms by (simp add: numbered_def numbers_def)
  show ?thesis
    using map_of_update [of ?xs ?i _ "row ((breakpoints d ! ?i)\<lparr>enabled := on\<rparr>)"] assms i d
    by (simp add: break_set_enabled_def change_breakpoint_def table_def Let_def case_prod_beta map_update o_def row_def)
qed

end

interpretation emulator: accepting ticks_backend
  by unfold_locales (simp_all add: ticks_backend_def do_nothing_def)



section \<open>When the debugger stops\<close>

definition temp_hit :: "16 word \<Rightarrow> temporary_breakpoint \<Rightarrow> bool" where
  "temp_hit p b \<longleftrightarrow> at_address b = TEMP_BREAKPOINT_ANYWHERE \<or> uint p = uint (at_address b)"

text \<open>A temporary breakpoint that does not belong to a step by source lines.\<close>

definition stops_at_once :: "temporary_breakpoint \<Rightarrow> bool" where
  "stops_at_once b \<longleftrightarrow> reason b \<noteq> TMP_REASON_STEP_SOURCE_LINE \<and> reason b \<noteq> TMP_REASON_NEXT_SOURCE_LINE"

lemma find_hit_None: "find_hit P bs = None \<longleftrightarrow> \<not> (\<exists>b\<in>set bs. P b)"
  by (induction bs) auto

lemma check_stops:
  "fst (check_breakpoints bk junk d) \<longleftrightarrow> (\<exists>b\<in>set (breakpoints d). breakpoint_hit bk junk (target d) b)"
  using find_hit_None [of "breakpoint_hit bk junk (target d)" "breakpoints d"]
  by (cases "find_hit (breakpoint_hit bk junk (target d)) (breakpoints d)") (auto simp: check_breakpoints_def)

lemma check_temps: "temporary_breakpoints (snd (check_breakpoints bk junk d)) = temporary_breakpoints d"
  by (simp add: check_breakpoints_def delete_breakpoint_def change_breakpoint_def Let_def case_prod_beta split: option.split)

context accepting
begin

lemma removal_id: "removal bk b t = t"
  by (simp add: removal_def remove_ok)

lemma plain_temps:
  "\<forall>b\<in>set bs. stops_at_once b \<Longrightarrow>
    process_temps bk location kept bs dodebug t =
      (dodebug \<or> (\<exists>b\<in>set bs. temp_hit (bk_pc bk t) b), kept @ filter (\<lambda>b. \<not> temp_hit (bk_pc bk t) b) bs, t)"
proof (induction bs arbitrary: kept dodebug)
  case (Cons b bs)
  then show ?case by (auto simp: stops_at_once_def temp_hit_def removal_id)
qed simp

lemma plain_process:
  "\<forall>b\<in>set (temporary_breakpoints d). stops_at_once b \<Longrightarrow>
    process_temp_breakpoints bk location d =
      (\<exists>b\<in>set (temporary_breakpoints d). temp_hit (bk_pc bk (target d)) b,
       d\<lparr>temporary_breakpoints := filter (\<lambda>b. \<not> temp_hit (bk_pc bk (target d)) b) (temporary_breakpoints d)\<rparr>)"
  by (simp add: process_temp_breakpoints_def plain_temps)

end

lemma ticks_pc [simp]: "bk_pc ticks_backend t = pc (remote t)"
  by (simp add: ticks_backend_def)

lemma ticks_check [simp]: "bk_breakpoints_check ticks_backend t = (\<not> debugger_active t)"
  by (simp add: ticks_backend_def)

lemma ticks_resume [simp]: "bk_resume ticks_backend t = t"
  by (simp add: ticks_backend_def)

lemma ticks_check_active:
  "debugger_active (target (snd (check_breakpoints ticks_backend junk d))) = debugger_active (target d)"
  by (simp add: check_breakpoints_def delete_breakpoint_def change_breakpoint_def emulator.remove_ok Let_def split: option.split)



section \<open>Stepping over a call\<close>

definition call_opcodes :: "int set" where
  "call_opcodes = {0xc4, 0xcc, 0xcd, 0xd4, 0xdc, 0xe4, 0xec, 0xf4}"

lemma call_operands: "k \<in> insert 0xfc call_opcodes \<Longrightarrow> z80_operands False k = 2"
  by (simp only: call_opcodes_def insert_iff empty_iff z80_operands_def z80_operand_table_def, elim disjE) simp_all

lemma call_disassembled:
  assumes "c_cpu s = CPU_Z80" "uint (pc s) < 0xffff" "opcode_at s 0 \<in> insert 0xfc call_opcodes"
  shows "\<exists>line T'. disassemble2 (ticks_env s) (uint (pc s)) T = Some (3, line, T')"
proof -
  have "opcode_at s 0 \<notin> {0xdd, 0xfd, 0xed}" using assms(3) by (auto simp: call_opcodes_def)
  then have "single_prefix s" "instruction_length s = 3"
    using call_operands [OF assms(3)] by (simp_all add: single_prefix_def instruction_length_def)
  moreover have "address_is_code a (sections (ticks_env s))" for a
    by (simp add: address_is_code_def ticks_env_def)
  ultimately show ?thesis
    using disassembler_length [OF assms(1,2) \<open>single_prefix s\<close>, of "uint (pc s)" T] by (auto simp: disassemble2_def)
qed



text \<open>CALL M is missing in the list: \<open>next\<close> stops at the first instruction of the called function.\<close>

lemma next_enters_call_m:
  assumes "remote (target d) = s" "c_cpu s = CPU_Z80" "uint (pc s) < 0xffff" "opcode_at s 0 = 0xfc"
    "temporary_breakpoints d = []"
  shows "\<exists>d'. ticks_next True T d = Some d' \<and>
    (\<forall>t. fst (process_temp_breakpoints ticks_backend location (d'\<lparr>target := t\<rparr>)))"
proof -
  let ?d = "activate False (add_temp_breakpoint_one_instruction d)"
  have "get_memory (uint (pc s)) MEM_TYPE_INST s = 0xfc"
    using assms(4) by (simp add: opcode_at_def word_uint_eq_iff)
  then have "ticks_next True T d = Some ?d"
    using call_disassembled [of s T] assms by (auto simp: ticks_next_def calls_and_prefixes_def Let_def)
  moreover have "fst (process_temp_breakpoints ticks_backend location (?d\<lparr>target := t\<rparr>))" for t
    using emulator.plain_process [of "?d\<lparr>target := t\<rparr>" location] assms(5)
    by (simp add: activate_def add_temp_breakpoint_one_instruction_def add_temporary_internal_breakpoint_def stops_at_once_def temp_hit_def)
  ultimately show ?thesis by blast
qed

section \<open>Commands that miss their aim\<close>

text \<open>\<open>break memory8 addr = value\<close> watches address 0: it does not set \<open>lcheck_arg\<close>.\<close>

lemma memory8_watches_zero:
  "addr \<noteq> -1 \<Longrightarrow>
    breakpoint_hit bk junk t (last (breakpoints (break_memory8 bk str addr num d))) \<longleftrightarrow> bk_get_memory bk 0 t = u8 num"
  by (simp add: break_memory8_def add_breakpoint_def change_breakpoint_def breakpoint_hit_def blank_def Let_def
      case_prod_beta last_conv_nth nth_append)

text \<open>\<open>break disable\<close> counts positions, the listing shows numbers: after breakpoint 1 is deleted, \<open>break disable 1\<close>
  disables number 2.\<close>

lemma disable_other:
  "let d = break_pc ticks_backend 200 (break_pc ticks_backend 100 (no_breakpoints t));
       d = break_set_enabled ticks_backend 1 False (delete_breakpoint_by_number ticks_backend 1 d)
   in List.map (\<lambda>b. (bnumber b, enabled b)) (breakpoints d) = [(2, False)]"
  by (simp add: Let_def break_pc_def add_breakpoint_def no_breakpoints_def delete_breakpoint_by_number_def find_breakpoint_def
      delete_breakpoint_def delete_nth_def break_set_enabled_def change_breakpoint_def blank_def emulator.add_ok emulator.remove_ok
      case_prod_beta)

end
