(* ===== verification/Ticks_Packets.thy ===== *)
theory Ticks_Packets
  imports Ticks_DisState
begin

text \<open>
  The packets of the GDB remote protocol: the buffers, the framing and the checksum of
  \<open>debugger_gdb_packets.c\<close>, and the receiving side in \<open>debugger_gdb.c\<close> (\<open>hex\<close>, \<open>mem2hex\<close>, \<open>hex2mem\<close>,
  \<open>process_packet\<close> and the loop of the reading thread). A buffer is the list of the bytes before \<open>end\<close>; the
  reads of a connection are a list of chunks, where an empty one is an error or the end of the connection. The
  threads and their locks are not part of the model.
\<close>

section \<open>Buffers\<close>

type_synonym bytes = "8 word list"

definition PACKET_BUF_SIZE :: nat where "PACKET_BUF_SIZE = 0x4000"

definition INTERRUPT_CHAR :: "8 word" where "INTERRUPT_CHAR = 3"

text \<open>The characters $, #, +, * and the closing brace.\<close>

abbreviation dollar :: "8 word" where "dollar \<equiv> 0x24"
abbreviation hash :: "8 word" where "hash \<equiv> 0x23"
abbreviation plus_char :: "8 word" where "plus_char \<equiv> 0x2b"
abbreviation star :: "8 word" where "star \<equiv> 0x2a"
abbreviation brace :: "8 word" where "brace \<equiv> 0x7d"

text \<open>\<open>None\<close> is \<open>exit(-2)\<close>: the packet does not fit.\<close>

definition pktbuf_insert :: "bytes \<Rightarrow> bytes \<Rightarrow> bytes option" where
  "pktbuf_insert data pkt =
    (if length pkt + length data > PACKET_BUF_SIZE - 1 then None else Some (pkt @ data))"

definition pktbuf_erase_head :: "nat \<Rightarrow> bytes \<Rightarrow> bytes" where
  "pktbuf_erase_head end' pkt = (let end' = (if end' > length pkt then length pkt else end') in drop end' pkt)"

section \<open>Sending\<close>

definition char_byte :: "char \<Rightarrow> 8 word" where
  "char_byte c = of_nat (of_char c)"

text \<open>\<open>%02lx\<close>\<close>

definition write_hex :: "int \<Rightarrow> bytes \<Rightarrow> bytes option" where
  "write_hex v = pktbuf_insert (List.map char_byte (hexw 2 v))"

definition checksum_of :: "bytes \<Rightarrow> 8 word" where
  "checksum_of data = foldl (+) 0 data"

definition write_packet_bytes :: "bytes \<Rightarrow> bytes \<Rightarrow> bytes option" where
  "write_packet_bytes data out =
    Option.bind (pktbuf_insert [dollar] out) (\<lambda>out.
    Option.bind (pktbuf_insert data out) (\<lambda>out.
    Option.bind (pktbuf_insert [hash] out) (\<lambda>out.
    write_hex (uint (checksum_of data)) out)))"

text \<open>The argument is a C string.\<close>

definition write_packet :: "bytes \<Rightarrow> bytes \<Rightarrow> bytes option" where
  "write_packet data = write_packet_bytes (takeWhile (\<lambda>b. b \<noteq> 0) data)"

fun escape :: "bytes \<Rightarrow> bytes" where
  "escape [] = []"
| "escape (b # data) =
    (if b = hash \<or> b = dollar \<or> b = brace \<or> b = star then brace # (b XOR 0x20) # escape data
     else b # escape data)"

definition write_binary_packet :: "bytes \<Rightarrow> bytes \<Rightarrow> bytes \<Rightarrow> bytes option" where
  "write_binary_packet pfx data = write_packet_bytes (takeWhile (\<lambda>b. b \<noteq> 0) pfx @ escape data)"

text \<open>
  \<open>write_flush\<close>: the results of the calls of \<open>write\<close>. The bytes written and what is left; \<open>None\<close> is the
  \<open>exit\<close> after an error.
\<close>

fun write_flush :: "int list \<Rightarrow> bytes \<Rightarrow> (bytes \<times> bytes) option" where
  "write_flush rs [] = Some ([], [])"
| "write_flush [] out = Some ([], out)"
| "write_flush (n # rs) out =
    (if n < 0 then None
     else map_option (\<lambda>(written, rest). (take (nat n) out @ written, rest)) (write_flush rs (drop (nat n) out)))"

section \<open>Finding a packet\<close>

fun find_start :: "bytes \<Rightarrow> nat option" where
  "find_start [] = None"
| "find_start (b # rest) = (if b = dollar \<or> b = INTERRUPT_CHAR then Some 0 else map_option Suc (find_start rest))"

definition skip_to_packet_start :: "bytes \<Rightarrow> bool \<times> bytes" where
  "skip_to_packet_start inb =
    (if inb \<noteq> [] \<and> hd inb = plus_char then (True, inb)
     else case find_start inb of
         None \<Rightarrow> (False, [])
       | Some n \<Rightarrow> (let inb = pktbuf_erase_head n inb in (hash \<in> set inb, inb)))"

text \<open>A packet in the buffer, the end of the connection, or a full buffer.\<close>

datatype received = Got bytes "bytes list" | Closed | Overflow

fun read_packet :: "bytes list \<Rightarrow> bytes \<Rightarrow> received" where
  "read_packet [] inb =
    (let (ready, inb) = skip_to_packet_start inb in if ready then Got inb [] else Closed)"
| "read_packet (chunk # chunks) inb =
    (let (ready, inb) = skip_to_packet_start inb in
     if ready then Got inb (chunk # chunks)
     else if chunk = [] then Closed
     else case pktbuf_insert chunk inb of None \<Rightarrow> Overflow | Some inb \<Rightarrow> read_packet chunks inb)"

section \<open>Hexadecimal\<close>

definition hex :: "8 word \<Rightarrow> int" where
  "hex ch =
    (if 0x61 \<le> ch \<and> ch \<le> 0x66 then uint ch - 0x61 + 10
     else if 0x30 \<le> ch \<and> ch \<le> 0x39 then uint ch - 0x30
     else if 0x41 \<le> ch \<and> ch \<le> 0x46 then uint ch - 0x41 + 10
     else -1)"

definition hexchar :: "int \<Rightarrow> 8 word" where
  "hexchar n = char_byte (''0123456789abcdef'' ! nat n)"

fun mem2hex :: "bytes \<Rightarrow> bytes" where
  "mem2hex [] = []"
| "mem2hex (ch # rest) = hexchar (shr (uint ch) 4) # hexchar (uint ch mod 16) # mem2hex rest"

text \<open>The bytes of \<open>count\<close> pairs of digits.\<close>

fun hex2mem :: "bytes \<Rightarrow> bytes" where
  "hex2mem (a # b # buf) = (let ch = u8 (shl (hex a) 4); ch = u8 (uint ch + hex b) in ch # hex2mem buf)"
| "hex2mem _ = []"

section \<open>Receiving\<close>

text \<open>What \<open>process_packet\<close> does: nothing, an acknowledgement, a wrong checksum, a packet without
  its $ whose length -1 becomes that of the whole buffer, a stop with its code (two characters), output of the
  target in the pieces printed, or a response.\<close>

datatype event = Idle | Ack | Corrupt | Stale | Stopped bytes | Output "bytes list" | Payload bytes

text \<open>A byte after \<open>end\<close>: the first is 0, and then the rest of the digits does not matter.\<close>

definition at_byte :: "bytes \<Rightarrow> nat \<Rightarrow> 8 word" where
  "at_byte inb i = (if i < length inb then inb ! i else 0)"

fun output_pieces :: "bytes \<Rightarrow> bytes list" where
  "output_pieces [] = []"
| "output_pieces (h # hs) = hex2mem (take 1024 (h # hs)) # output_pieces (drop 1023 hs)"

definition classify :: "bytes \<Rightarrow> event" where
  "classify data =
    (let payload = takeWhile (\<lambda>b. b \<noteq> 0) (tl data) in
     if data \<noteq> [] \<and> hd data = 0x54 then Stopped (take 2 payload)
     else if data \<noteq> [] \<and> hd data = 0x4f \<and> takeWhile (\<lambda>b. b \<noteq> 0) data \<noteq> [0x4f, 0x4b] then
       Output (if payload \<noteq> [] \<and> length payload mod 2 = 0 then output_pieces payload else [])
     else Payload data)"

text \<open>The event and the buffer after it.\<close>

definition process_packet :: "bytes \<Rightarrow> event \<times> bytes" where
  "process_packet inb =
    (if inb = [] then (Idle, inb)
     else if hd inb = plus_char then (Ack, pktbuf_erase_head 1 inb)
     else if hash \<notin> set inb then (Idle, inb)
     else
       (let packetend = length (takeWhile (\<lambda>b. b \<noteq> hash) inb);
            data = take (packetend - 1) (drop 1 inb);
            checksum = checksum_of data;
            given = shl (hex (at_byte inb (packetend + 1))) 4 OR hex (at_byte inb (packetend + 2));
            rest = pktbuf_erase_head (packetend + 3) inb
        in if uint checksum \<noteq> given then (Corrupt, rest) else if packetend = 0 then (Stale, rest) else (classify data, rest)))"

text \<open>\<open>while (process_packet()) {}\<close>\<close>

lemma process_shrinks: "fst (process_packet inb) \<noteq> Idle \<Longrightarrow> length (snd (process_packet inb)) < length inb"
  by (cases inb) (auto simp: process_packet_def pktbuf_erase_head_def Let_def split: if_splits)

function drain :: "bytes \<Rightarrow> event list \<times> bytes" where
  "drain inb =
    (if fst (process_packet inb) = Idle then ([], inb)
     else (let (events, rest) = drain (snd (process_packet inb)) in (fst (process_packet inb) # events, rest)))"
  by auto

termination
  by (relation "measure length") (auto intro: process_shrinks)

declare drain.simps [simp del]

section \<open>Progress\<close>

text \<open>Every call with a packet at hand takes something off the buffer.\<close>

lemma drain_shrinks: "length (snd (drain inb)) \<le> length inb"
  by (induction inb rule: drain.induct)
    (subst drain.simps, use process_shrinks in \<open>fastforce simp: case_prod_beta Let_def\<close>)

lemma skip_ready: "fst (skip_to_packet_start inb) \<Longrightarrow> fst (process_packet (snd (skip_to_packet_start inb))) \<noteq> Idle"
  by (auto simp: skip_to_packet_start_def process_packet_def classify_def Let_def split: if_splits option.splits)

lemma skip_shrinks: "length (snd (skip_to_packet_start inb)) \<le> length inb"
  by (auto simp: skip_to_packet_start_def pktbuf_erase_head_def Let_def split: option.split)

lemma read_got:
  "read_packet chunks inb = Got inb' chunks' \<Longrightarrow>
    fst (process_packet inb') \<noteq> Idle \<and>
    (length chunks' < length chunks \<or> chunks' = chunks \<and> length inb' \<le> length inb)"
proof (induction chunks arbitrary: inb)
  case Nil
  then show ?case
    using skip_ready [of inb] skip_shrinks [of inb] by (auto simp: case_prod_beta Let_def split: if_splits)
next
  case (Cons chunk chunks)
  then show ?case
    using skip_ready [of inb] skip_shrinks [of inb]
    by (fastforce simp: case_prod_beta Let_def split: if_splits option.splits)
qed

lemma drain_shrinks_strictly:
  "fst (process_packet inb) \<noteq> Idle \<Longrightarrow> length (snd (drain inb)) < length inb"
  using drain_shrinks [of "snd (process_packet inb)"] process_shrinks [of inb]
  by (subst drain.simps) (simp add: case_prod_beta Let_def)

section \<open>The reading thread\<close>

text \<open>\<open>network_read_thread\<close>: the events of a connection and whether it ends with a full buffer.\<close>

function listen :: "bytes list \<Rightarrow> bytes \<Rightarrow> event list \<times> bool" where
  "listen chunks inb =
    (case read_packet chunks inb of
       Got inb' chunks' \<Rightarrow>
         (let (events, rest) = drain inb'; (later, full) = listen chunks' rest in (events @ later, full))
     | Closed \<Rightarrow> ([], False)
     | Overflow \<Rightarrow> ([], True))"
  by auto

termination
proof (relation "measures [\<lambda>(chunks, inb). length chunks, \<lambda>(chunks, inb). length inb]", goal_cases)
  case (2 chunks inb inb' chunks' d events rest)
  then have "rest = snd (drain inb')" by (metis snd_conv)
  then have "length rest < length inb'"
    using read_got [OF 2(1)] drain_shrinks_strictly [of inb'] by simp
  then show ?case using read_got [OF 2(1)] by auto
qed simp

declare listen.simps [simp del]

text \<open>A message of the wire, the acknowledgement or a packet, put into the buffer of the sender.\<close>

fun send_message :: "bytes option \<Rightarrow> bytes \<Rightarrow> bytes option" where
  "send_message None out = pktbuf_insert [plus_char] out"
| "send_message (Some p) out = write_packet_bytes p out"

fun send_all :: "bytes option list \<Rightarrow> bytes \<Rightarrow> bytes option" where
  "send_all [] out = Some out"
| "send_all (m # ms) out = Option.bind (send_message m out) (send_all ms)"

section \<open>Hexadecimal both ways\<close>

lemma hex_digit_cases:
  assumes "0 \<le> (n :: int)" "n < 16"
  shows "n \<in> {0, 1, 2, 3, 4, 5, 6, 7, 8, 9, 10, 11, 12, 13, 14, 15}"
  using assms by (simp only: insert_iff empty_iff) presburger

lemma nibble_bounds:
  "0 \<le> uint (c :: 8 word) div 16" "uint c div 16 < 16" "0 \<le> uint c mod 16" "uint c mod 16 < 16"
  using uint8_bound [of c] by (simp_all add: pos_imp_zdiv_nonneg_iff)

lemma high_nibble: "shr (uint (c :: 8 word)) 4 = uint c div 16"
  by (simp add: drop_bit_eq_div)

lemma hex_hexchar: "0 \<le> n \<Longrightarrow> n < 16 \<Longrightarrow> hex (hexchar n) = n"
  using hex_digit_cases [of n] by (auto simp: hexchar_def hex_def char_byte_def)

lemma hex2mem_mem2hex: "hex2mem (mem2hex bs) = bs"
proof (induction bs)
  case (Cons ch bs)
  have b: "0 \<le> uint ch" "uint ch < 256" using uint8_bound by auto
  have d: "hex (hexchar (uint ch div 16)) = uint ch div 16" "hex (hexchar (uint ch mod 16)) = uint ch mod 16"
    using nibble_bounds by (auto intro!: hex_hexchar)
  have "shr (uint ch) 4 = uint ch div 16" by (rule high_nibble)
  moreover have "shl (uint ch div 16) 4 = uint ch div 16 * 16" by (simp add: push_bit_eq_mult)
  moreover have "u8 (uint (u8 (uint ch div 16 * 16)) + uint ch mod 16) = ch"
  proof -
    have "uint (u8 (uint ch div 16 * 16)) = uint ch div 16 * 16"
    proof -
      have "0 \<le> uint ch div 16 * 16" "uint ch div 16 * 16 < 256" using b by presburger+
      then show ?thesis by (subst uint_word_of_int) (simp add: mod_pos_pos_trivial)
    qed
    then show ?thesis by (simp only: div_mult_mod_eq word_of_int_uint)
  qed
  ultimately show ?case using Cons d by simp
qed simp

lemma mem2hex_append: "mem2hex (xs @ ys) = mem2hex xs @ mem2hex ys"
  by (induction xs) simp_all

lemma length_mem2hex: "length (mem2hex bs) = 2 * length bs"
  by (induction bs) simp_all

lemma hexchar_set: "b \<in> set (mem2hex bs) \<Longrightarrow> b \<noteq> 0 \<and> b \<noteq> hash \<and> b \<noteq> dollar \<and> b \<noteq> 0x4b"
proof (induction bs)
  case (Cons ch bs)
  have c: "0 \<le> n \<Longrightarrow> n < 16 \<Longrightarrow> hexchar n \<noteq> 0 \<and> hexchar n \<noteq> hash \<and> hexchar n \<noteq> dollar \<and> hexchar n \<noteq> 0x4b" for n
    using hex_digit_cases [of n] by (auto simp: hexchar_def char_byte_def)
  show ?case
    using Cons c [OF nibble_bounds(1,2), of ch] c [OF nibble_bounds(3,4), of ch] by (auto simp: high_nibble)
qed simp

section \<open>Frames\<close>

definition frame :: "bytes \<Rightarrow> bytes" where
  "frame p = dollar # p @ hash # mem2hex [checksum_of p]"

lemma hexw_byte: "List.map char_byte (hexw 2 (uint (c :: 8 word))) = mem2hex [c]"
proof -
  have b: "0 \<le> uint c" "uint c < 256" using uint8_bound by auto
  define v where "v = nat (uint c)"
  have v: "uint c = int v" using b by (simp add: v_def)
  then have v2: "v < 256" using b by linarith
  have "hexw 2 (int v) = [hexdigit (v div 16), hexdigit (v mod 16)]"
    using v2 by (auto simp: hexw_def Let_def hexdigits.simps [of v] hexdigits.simps [of "v div 16"] hexdigit_def)
  moreover have "char_byte (hexdigit k) = hexchar (int k)" for k by (simp add: hexchar_def hexdigit_def)
  moreover have "shr (int v) 4 = int (v div 16)" by (simp add: drop_bit_eq_div zdiv_int)
  ultimately show ?thesis using v by (simp add: zmod_int)
qed

lemma write_packet_frame:
  "write_packet_bytes p out =
    (if length out + length p + 4 > PACKET_BUF_SIZE - 1 then None else Some (out @ frame p))"
  by (auto simp: write_packet_bytes_def pktbuf_insert_def write_hex_def hexw_byte frame_def)

lemma checksum_ok: "shl (hex (hexchar (shr (uint (c :: 8 word)) 4))) 4 OR hex (hexchar (uint c mod 16)) = uint c"
proof -
  have "hex (hexchar (uint c div 16)) = uint c div 16" "hex (hexchar (uint c mod 16)) = uint c mod 16"
    using nibble_bounds by (auto intro!: hex_hexchar)
  moreover have "shl (uint c div 16) 4 OR uint c mod 16 = uint c"
  proof (rule bit_eqI)
    fix n
    show "bit (shl (uint c div 16) 4 OR uint c mod 16) n = bit (uint c) n"
      using bit_take_bit_iff [of 4 "uint c" n]
      by (auto simp: bit_or_iff bit_push_bit_iff take_bit_eq_mod simp flip: drop_bit_eq_div [of 4 "uint c", simplified] simp: bit_drop_bit_eq)
  qed
  ultimately show ?thesis by (simp add: high_nibble)
qed

lemma takeWhile_frame: "hash \<notin> set p \<Longrightarrow> takeWhile (\<lambda>b. b \<noteq> hash) (dollar # p @ hash # r) = dollar # p"
  by (induction p) auto

lemma process_frame:
  assumes "hash \<notin> set p"
  shows "process_packet (frame p @ rest) = (classify p, rest)"
proof -
  let ?a = "hexchar (shr (uint (checksum_of p)) 4)"
  let ?b = "hexchar (uint (checksum_of p) mod 16)"
  let ?s = "dollar # p @ hash # ?a # ?b # rest"
  have s: "frame p @ rest = ?s" by (simp add: frame_def)
  have w: "length (takeWhile (\<lambda>b. b \<noteq> hash) ?s) = Suc (length p)"
    using takeWhile_frame [OF assms] by simp
  have a: "at_byte ?s (Suc (length p) + 1) = ?a" "at_byte ?s (Suc (length p) + 2) = ?b"
    by (simp_all add: at_byte_def nth_append)
  have d: "pktbuf_erase_head (Suc (length p) + 3) ?s = rest"
    by (simp add: pktbuf_erase_head_def Let_def numeral_eq_Suc)
  have t: "take (Suc (length p) - 1) (drop 1 ?s) = p" by simp
  have n: "?s \<noteq> []" "hd ?s \<noteq> plus_char" "hash \<in> set ?s" by simp_all
  show ?thesis
    unfolding s process_packet_def Let_def w a d t checksum_ok using n by (simp del: takeWhile.simps)
qed

lemma classify_not_idle: "classify p \<noteq> Idle"
  by (simp add: classify_def Let_def)

lemma drain_frame:
  assumes "hash \<notin> set p"
  shows "drain (frame p @ rest) = (let (events, r) = drain rest in (classify p # events, r))"
  by (subst drain.simps) (simp add: process_frame [OF assms] classify_not_idle)

lemma drain_frames:
  "\<forall>p\<in>set ps. hash \<notin> set p \<Longrightarrow> drain (concat (List.map frame ps)) = (List.map classify ps, [])"
proof (induction ps)
  case Nil
  then show ?case by (subst drain.simps) (simp add: process_packet_def)
qed (simp add: drain_frame)

end
