(* ===== verification/Ticks_Stream.thy ===== *)
theory Ticks_Stream
  imports Ticks_Packets
begin

text \<open>
  Whole connections: the packets a sender frames arrive, one event each, whatever pieces the reads deliver
  them in, unless a read ends within a checksum.
\<close>

section \<open>Messages\<close>

definition enc :: "bytes option \<Rightarrow> bytes" where
  "enc m = (case m of None \<Rightarrow> [plus_char] | Some p \<Rightarrow> frame p)"

text \<open>The event a message should give.\<close>

definition event_of :: "bytes option \<Rightarrow> event" where
  "event_of m = (case m of None \<Rightarrow> Ack | Some p \<Rightarrow> classify p)"

lemma enc_simps [simp]: "enc None = [plus_char]" "enc (Some p) = frame p"
  by (simp_all add: enc_def)

lemma event_of_simps [simp]: "event_of None = Ack" "event_of (Some p) = classify p"
  by (simp_all add: event_of_def)

definition sane :: "bytes option \<Rightarrow> bool" where
  "sane m = (case m of None \<Rightarrow> True | Some p \<Rightarrow> hash \<notin> set p \<and> length p \<le> 12286)"

definition last_two :: "bytes \<Rightarrow> bytes" where
  "last_two s = drop (length s - 2) s"

text \<open>No read ends just behind a # or one character later.\<close>

fun cuts_ok :: "bytes \<Rightarrow> bytes list \<Rightarrow> bool" where
  "cuts_ok s [] = True"
| "cuts_ok s (c # cs) = (hash \<notin> set (last_two (s @ c)) \<and> cuts_ok (s @ c) cs)"

lemma send_all_stream: "send_all ms out = Some out' \<Longrightarrow> out' = out @ concat (List.map enc ms)"
proof (induction ms arbitrary: out)
  case (Cons m ms)
  then obtain o1 where o: "send_message m out = Some o1" "send_all ms o1 = Some out'"
    by (auto simp: Option.bind_eq_Some_conv)
  have "o1 = out @ enc m"
    using o(1) by (cases m) (auto simp: pktbuf_insert_def write_packet_frame split: if_splits)
  with Cons.IH [OF o(2)] show ?case by simp
qed simp

lemma last_two_suffix: "set (last_two s) \<subseteq> set (last_two (t @ s))"
  by (cases "length s \<ge> 2") (auto simp: last_two_def dest: in_set_dropD)

lemma cuts_ok_suffix: "cuts_ok (t @ s) cs \<Longrightarrow> cuts_ok s cs"
proof (induction cs arbitrary: s)
  case (Cons c cs)
  have "set (last_two (s @ c)) \<subseteq> set (last_two (t @ s @ c))" by (rule last_two_suffix)
  with Cons show ?case by auto
qed simp

section \<open>Prefixes of a stream\<close>

lemma last_two_hash: "hash \<in> set (last_two (s @ [hash]))" "hash \<in> set (last_two (s @ [hash, x]))"
  by (simp_all add: last_two_def)

lemma partial_frame:
  assumes "hash \<notin> set p" "frame p = b @ t" "t \<noteq> []" "hash \<notin> set (last_two b)"
  shows "hash \<notin> set b"
proof -
  obtain x y where f: "frame p = (dollar # p) @ [hash, x, y]" by (simp add: frame_def)
  with assms(2) have "b @ t = (dollar # p) @ [hash, x, y]" by simp
  then obtain us where "b @ us = dollar # p \<and> t = us @ [hash, x, y] \<or> b = (dollar # p) @ us \<and> us @ t = [hash, x, y]"
    unfolding append_eq_append_conv2 by blast
  then show ?thesis
  proof
    assume "b @ us = dollar # p \<and> t = us @ [hash, x, y]"
    then have "set b \<subseteq> set (dollar # p)" by (metis set_append Un_upper1)
    then show ?thesis using assms(1) by auto
  next
    assume u: "b = (dollar # p) @ us \<and> us @ t = [hash, x, y]"
    with assms(3) consider "us = []" | "us = [hash]" | "us = [hash, x]"
      by (auto simp: append_eq_Cons_conv Cons_eq_append_conv)
    then show ?thesis
      using u assms(1,4) last_two_hash [of "dollar # p"] by cases auto
  qed
qed

lemma stream_prefix:
  assumes "b @ t = concat (List.map enc ms)" "hash \<notin> set (last_two b)" "\<forall>m\<in>set ms. sane m"
  shows "\<exists>ms1 ms2 r. ms = ms1 @ ms2 \<and> b = concat (List.map enc ms1) @ r \<and> r @ t = concat (List.map enc ms2) \<and>
    hash \<notin> set r \<and> (r = [] \<or> hd r = dollar)"
  using assms
proof (induction ms arbitrary: b)
  case (Cons m ms)
  show ?case
  proof (cases "\<exists>b'. b = enc m @ b'")
    case True
    then obtain b' where b: "b = enc m @ b'" ..
    have "\<exists>ms1 ms2 r. ms = ms1 @ ms2 \<and> b' = concat (List.map enc ms1) @ r \<and> r @ t = concat (List.map enc ms2) \<and>
        hash \<notin> set r \<and> (r = [] \<or> hd r = dollar)"
      using Cons.prems b last_two_suffix [of b' "enc m"] by (intro Cons.IH) auto
    then obtain ms1 ms2 r where "ms = ms1 @ ms2" "b' = concat (List.map enc ms1) @ r"
      "r @ t = concat (List.map enc ms2)" "hash \<notin> set r" "r = [] \<or> hd r = dollar" by blast
    with b show ?thesis by (intro exI [of _ "m # ms1"] exI [of _ ms2] exI [of _ r]) simp
  next
    case False
    have "b @ t = enc m @ concat (List.map enc ms)" using Cons.prems(1) by simp
    then obtain t' where "b = enc m @ t' \<or> b @ t' = enc m" unfolding append_eq_append_conv2 by blast
    with False have t: "enc m = b @ t'" by auto
    with False have t': "t' \<noteq> []" by auto
    have "hash \<notin> set b \<and> (b = [] \<or> hd b = dollar)"
    proof (cases m)
      case None
      with t t' show ?thesis by (auto simp: append_eq_Cons_conv Cons_eq_append_conv)
    next
      case (Some p)
      with t t' Cons.prems(2,3) have "hash \<notin> set b" using partial_frame [of p b t'] by (auto simp: sane_def)
      moreover have "b = [] \<or> hd b = dollar"
        using t Some by (cases b) (auto simp: frame_def)
      ultimately show ?thesis by simp
    qed
    with Cons.prems(1) show ?thesis by (intro exI [of _ "[]"] exI [of _ "m # ms"] exI [of _ b]) simp
  qed
qed simp

lemma partial_length:
  assumes "r @ t = concat (List.map enc ms)" "hash \<notin> set r" "r = [] \<or> hd r = dollar" "\<forall>m\<in>set ms. sane m"
  shows "length r \<le> 12287"
proof (cases "r = []")
  case False
  obtain m ms' where "ms = m # ms'" using False assms(1) by (cases ms) auto
  moreover have "m \<noteq> None"
    using calculation False assms(1,3) by (cases r; cases m) auto
  ultimately obtain p where m: "ms = Some p # ms'" by auto
  have "length r \<le> length (takeWhile (\<lambda>b. b \<noteq> hash) (r @ t))"
    using assms(2) by (subst takeWhile_append2) auto
  also have "\<dots> = Suc (length p)"
    using assms(1,4) m takeWhile_frame [of p] by (simp add: frame_def sane_def del: takeWhile.simps)
  finally show ?thesis using assms(4) m by (simp add: sane_def)
qed simp

section \<open>Draining\<close>

lemma drain_idle: "hash \<notin> set r \<Longrightarrow> r = [] \<or> hd r = dollar \<Longrightarrow> drain r = ([], r)"
  by (subst drain.simps) (auto simp: process_packet_def)

lemma drain_messages:
  assumes "\<forall>m\<in>set ms. sane m" "hash \<notin> set r" "r = [] \<or> hd r = dollar"
  shows "drain (concat (List.map enc ms) @ r) = (List.map event_of ms, r)"
  using assms(1)
proof (induction ms)
  case Nil
  show ?case using drain_idle [OF assms(2,3)] by simp
next
  case (Cons m ms)
  show ?case
  proof (cases m)
    case None
    have "process_packet (plus_char # q) = (Ack, q)" for q
      by (simp add: process_packet_def pktbuf_erase_head_def)
    with None Cons show ?thesis by (subst drain.simps) simp
  next
    case (Some p)
    with Cons show ?thesis by (simp add: sane_def drain_frame)
  qed
qed

section \<open>Reading\<close>

lemma skip_partial: "hash \<notin> set r \<Longrightarrow> r = [] \<or> hd r = dollar \<Longrightarrow> skip_to_packet_start r = (False, r)"
  by (cases r) (auto simp: skip_to_packet_start_def pktbuf_erase_head_def)

lemma skip_start:
  "s \<noteq> [] \<Longrightarrow> hd s = dollar \<or> hd s = plus_char \<Longrightarrow>
    skip_to_packet_start s = (hd s = plus_char \<or> hash \<in> set s, s)"
  by (cases s) (auto simp: skip_to_packet_start_def pktbuf_erase_head_def)

lemma listen_chunk:
  assumes "hash \<notin> set r" "r = [] \<or> hd r = dollar" "chunk \<noteq> []" "length (r @ chunk) < PACKET_BUF_SIZE"
    "hd (r @ chunk) = dollar \<or> hd (r @ chunk) = plus_char"
  shows "listen (chunk # chunks) r =
    (let (events, rest) = drain (r @ chunk); (later, full) = listen chunks rest in (events @ later, full))"
proof -
  let ?s = "r @ chunk"
  have r: "read_packet (chunk # chunks) r = read_packet chunks ?s"
    using assms skip_partial [OF assms(1,2)] by (simp add: pktbuf_insert_def PACKET_BUF_SIZE_def)
  show ?thesis
  proof (cases "hd ?s = plus_char \<or> hash \<in> set ?s")
    case True
    then have "skip_to_packet_start ?s = (True, ?s)" using skip_start [of ?s] assms by simp
    then have "read_packet chunks ?s = Got ?s chunks" by (cases chunks) simp_all
    then show ?thesis by (subst listen.simps) (simp add: r del: read_packet.simps)
  next
    case False
    with assms have "drain ?s = ([], ?s)" by (intro drain_idle) auto
    moreover have "listen (chunk # chunks) r = listen chunks ?s"
      by (subst listen.simps, subst (2) listen.simps) (simp add: r del: read_packet.simps)
    ultimately show ?thesis by simp
  qed
qed

lemma listen_stream:
  assumes "r @ concat chunks = concat (List.map enc ms)" "\<forall>m\<in>set ms. sane m"
    "\<forall>c\<in>set chunks. c \<noteq> [] \<and> length c \<le> 4096" "cuts_ok r chunks" "hash \<notin> set r" "r = [] \<or> hd r = dollar"
  shows "listen chunks r = (List.map event_of ms, False)"
  using assms
proof (induction chunks arbitrary: r ms)
  case Nil
  have "ms = []"
  proof (rule ccontr)
    assume "ms \<noteq> []"
    then obtain m ms' where m: "ms = m # ms'" by (cases ms) auto
    show False
    proof (cases m)
      case None
      with Nil m show False by simp
    next
      case (Some p)
      then have "hash \<in> set (enc m)" by (simp add: frame_def)
      with Nil m show False by (metis Un_iff append_Nil2 concat.simps list.simps(9) set_append)
    qed
  qed
  with Nil show ?case by (subst listen.simps) (simp add: skip_to_packet_start_def)
next
  case (Cons c cs)
  have e: "(r @ c) @ concat cs = concat (List.map enc ms)" using Cons.prems(1) by simp
  have k: "hash \<notin> set (last_two (r @ c))" using Cons.prems(4) by simp
  obtain ms1 ms2 r' where s: "ms = ms1 @ ms2" "r @ c = concat (List.map enc ms1) @ r'"
    "r' @ concat cs = concat (List.map enc ms2)" "hash \<notin> set r'" "r' = [] \<or> hd r' = dollar"
    using stream_prefix [OF e k Cons.prems(2)] by blast
  have d: "drain (r @ c) = (List.map event_of ms1, r')"
    unfolding s(2) using Cons.prems(2) s by (intro drain_messages) auto
  have "length r \<le> 12287" by (rule partial_length [OF Cons.prems(1,5,6,2)])
  moreover have "hd (r @ c) = dollar \<or> hd (r @ c) = plus_char"
  proof (cases ms)
    case Nil
    with e Cons.prems(3) show ?thesis by simp
  next
    case (Cons m ms')
    have "hd (r @ c) = hd (concat (List.map enc ms))"
      using Cons.prems(3) hd_append2 [of "r @ c" "concat cs"] unfolding e [symmetric] by simp
    then show ?thesis using Cons by (cases m) (simp_all add: frame_def)
  qed
  ultimately have l: "listen (c # cs) r =
      (let (events, rest) = drain (r @ c); (later, full) = listen cs rest in (events @ later, full))"
    using Cons.prems by (intro listen_chunk) (auto simp: PACKET_BUF_SIZE_def)
  have "cuts_ok r' cs"
    using Cons.prems(4) s(2) cuts_ok_suffix [of "concat (List.map enc ms1)" r' cs] by simp
  then have "listen cs r' = (List.map event_of ms2, False)"
    using Cons.prems s by (intro Cons.IH) auto
  with l d s(1) show ?case by simp
qed

section \<open>Checksums that come late\<close>

lemma hexchar_plain:
  "0 \<le> n \<Longrightarrow> n < 16 \<Longrightarrow> hexchar n \<noteq> dollar \<and> hexchar n \<noteq> plus_char \<and> hexchar n \<noteq> INTERRUPT_CHAR"
  using hex_digit_cases [of n] by (auto simp: hexchar_def char_byte_def INTERRUPT_CHAR_def)

lemma process_early:
  assumes "hash \<notin> set p" "length ds < 2"
  shows "process_packet (dollar # p @ hash # ds) = (Corrupt, [])"
proof -
  let ?s = "dollar # p @ hash # ds"
  have w: "length (takeWhile (\<lambda>b. b \<noteq> hash) ?s) = Suc (length p)"
    using takeWhile_frame [OF assms(1)] by simp
  have "at_byte ?s (Suc (length p) + 2) = 0" using assms(2) by (simp add: at_byte_def)
  then have "shl (hex (at_byte ?s (Suc (length p) + 1))) 4 OR hex (at_byte ?s (Suc (length p) + 2)) = -1"
    by (simp add: hex_def)
  moreover have "uint (checksum_of (take (Suc (length p) - 1) (drop 1 ?s))) \<noteq> -1"
    using uint8_bound by (metis not_less_iff_gr_or_eq neg_0_le_iff_le not_one_le_zero)
  moreover have "pktbuf_erase_head (Suc (length p) + 3) ?s = []"
    using assms(2) by (simp add: pktbuf_erase_head_def Let_def)
  ultimately show ?thesis
    unfolding process_packet_def Let_def w by simp
qed

lemma listen_early:
  assumes "hash \<notin> set p" "length ds < 2" "length p + length ds + 2 < PACKET_BUF_SIZE" "digits \<noteq> []"
    "length digits < 3" "\<forall>b\<in>set digits. b \<noteq> dollar \<and> b \<noteq> plus_char \<and> b \<noteq> INTERRUPT_CHAR"
  shows "listen [dollar # p @ hash # ds, digits] [] = ([Corrupt], False)"
proof -
  have "find_start digits = None" using assms(6) by (induction digits) auto
  then have s: "skip_to_packet_start digits = (False, [])"
    using assms(4,6) by (cases digits) (auto simp: skip_to_packet_start_def)
  have "drain (dollar # p @ hash # ds) = ([Corrupt], [])"
    using assms by (subst drain.simps) (simp add: process_early, subst drain.simps, simp add: process_packet_def)
  moreover have "listen [digits] [] = ([], False)"
    using s assms(4,5)
    by (subst listen.simps) (simp add: skip_to_packet_start_def [of "[]"] pktbuf_insert_def PACKET_BUF_SIZE_def)
  ultimately show ?thesis
    using assms listen_chunk [of "[]" "dollar # p @ hash # ds" "[digits]"] by simp
qed

section \<open>The theorems\<close>



text \<open>C40: A packet whose checksum is still on its way is lost: \<open>skip_to_packet_start\<close> takes a packet as complete
  when its # has arrived, \<open>process_packet\<close> then reads the missing digits behind the end of the buffer, finds
  the checksum wrong and drops the packet, and the digits that follow are dropped as well.\<close>

theorem split_checksum_lost:
  assumes "hash \<notin> set p" "length p + 4 < PACKET_BUF_SIZE"
  shows "listen [dollar # p @ [hash], mem2hex [checksum_of p]] [] = ([Corrupt], False) \<and>
    listen [dollar # p @ [hash, hd (mem2hex [checksum_of p])], tl (mem2hex [checksum_of p])] [] = ([Corrupt], False)"
  using listen_early [OF assms(1), of "[]" "mem2hex [checksum_of p]"]
    listen_early [OF assms(1), of "[hd (mem2hex [checksum_of p])]" "tl (mem2hex [checksum_of p])"] assms(2)
    hexchar_plain [of "shr (uint (checksum_of p)) 4"] hexchar_plain [of "uint (checksum_of p) mod 16"]
    nibble_bounds [of "checksum_of p"] by (simp add: high_nibble)

theorem split_checksum_lost_witness:
  "listen [[0x24, 0x4f, 0x4b, 0x23], mem2hex [0x9a]] [] = ([Corrupt], False)"
  using split_checksum_lost [of "[0x4f, 0x4b]"] by (simp add: PACKET_BUF_SIZE_def checksum_of_def)

section \<open>Other packets\<close>

text \<open>The reader of escaped data, as the protocol describes it.\<close>

fun unescape :: "bytes \<Rightarrow> bytes" where
  "unescape [] = []"
| "unescape (b # bs) = (if b = brace \<and> bs \<noteq> [] then (hd bs XOR 0x20) # unescape (tl bs) else b # unescape bs)"

lemma unescape_escape: "unescape (escape data) = data"
  by (induction data rule: escape.induct) (simp_all add: xor.assoc)

lemma escape_plain: "hash \<notin> set (escape data)" "dollar \<notin> set (escape data)"
proof -
  have "\<lbrakk>b = hash \<or> b = dollar \<or> b = brace \<or> b = star\<rbrakk> \<Longrightarrow> b XOR 0x20 \<noteq> hash \<and> b XOR 0x20 \<noteq> dollar" for b :: "8 word"
    by auto
  then show "hash \<notin> set (escape data)" "dollar \<notin> set (escape data)"
    by (induction data rule: escape.induct) (auto split: if_splits)
qed

lemma output_pieces_step:
  "hs \<noteq> [] \<Longrightarrow> output_pieces hs = hex2mem (take 1024 hs) # output_pieces (drop 1024 hs)"
  by (cases hs) simp_all

lemma mem2hex_pieces: "take (2 * n) (mem2hex xs) = mem2hex (take n xs)" "drop (2 * n) (mem2hex xs) = mem2hex (drop n xs)"
  by (induction n arbitrary: xs; case_tac xs; simp)+

text \<open>The console output of the target is printed whole, 512 bytes at a time.\<close>

lemma output_pieces_concat: "concat (output_pieces (mem2hex bs)) = bs"
proof (induction "length bs" arbitrary: bs rule: less_induct)
  case less
  show ?case
  proof (cases "bs = []")
    case False
    then have "mem2hex bs \<noteq> []" by (cases bs) simp_all
    then have "output_pieces (mem2hex bs) = take 512 bs # output_pieces (mem2hex (drop 512 bs))"
      using mem2hex_pieces [of 512 bs] by (simp add: output_pieces_step hex2mem_mem2hex)
    with less [of "drop 512 bs"] False show ?thesis by simp
  qed simp
qed

end
