(* ===== verification/Spec2Isabelle.thy ===== *)
theory Spec2Isabelle
  imports Ticks_Decode Ticks_Z80n Ticks_Small Ticks_I8085 Ticks_Vm1 Ticks_Ends Ticks_Safety Ticks_Session Ticks_Stream
begin

text \<open>
  Verification of \<open>ticks\<close>, the emulator of z88dk (\<open>src/src/ticks\<close>): fifteen processors of the 8080 and
  Z80 family, six memory maps, an Am9511 arithmetic unit, a console, serial and parallel ports, and the
  host calls of the test, CP/M and RC2014 targets. \<open>z88dk-ticks\<close> runs the library's test suites and counts
  their clock cycles, so both the results and the times it computes are relied on.

  \<^bold>\<open>The program and its state.\<close> The emulator is one loop, \<open>cpu_run\<close> of \<open>ticks.c\<close>, over global variables. The
  record \<open>cpu\<close> (\<open>Ticks_State\<close>) holds them: register bytes as a function of \<open>reg\<close>, two groups of flag words
  \<open>flg\<close> (the C variables \<open>ff fr fa fb\<close>, from which F is computed on demand), \<open>pc sp mp st\<close>, the prefix latches
  \<open>ih iy altd alts ioi ioe\<close>, the memory (\<open>memory.c\<close>), the APU (\<open>am9511.c\<close>) and the host. A variable of w bits is
  a \<open>w word\<close>. C computes in \<open>int\<close>: expressions are evaluated on \<open>int\<close> and cut back by \<open>u8\<close>, \<open>u16\<close> and \<open>u32\<close>
  where the source assigns, so every truncation of the source is visible. The clock \<open>st\<close> is an \<open>int\<close> (64 bits
  in the source).

  \<^bold>\<open>Theories.\<close> Each file of the source has its theory, each function or macro its definition of the same name.
  \<^item> \<open>Ticks_Prelude\<close>: conversions and bit lemmas. \<open>Ticks_Bus\<close>: the contracts \<open>byte_bus\<close> (a read after a write
    sees it exactly at the same byte), \<open>flat_bus\<close> (no two addresses share a byte; block copies) and \<open>byte_stack\<close>.
  \<^item> \<open>Ticks_Memory\<close> (\<open>memory.c\<close>): an access resolves to a location, an array and an index, or to none; the port
    handlers change the page registers. It interprets both bus contracts, \<open>byte_bus\<close> for all six maps.
  \<^item> \<open>Ticks_Flags\<close>, \<open>Ticks_Alu\<close>, \<open>Ticks_Shift\<close>, \<open>Ticks_Load\<close>, \<open>Ticks_Control\<close>: \<open>f\<close>, \<open>setf\<close> and the macros of
    \<open>ticks.c\<close>. \<open>Ticks_Cb\<close>, \<open>Ticks_Ed\<close>, \<open>Ticks_Page7f\<close>, \<open>Ticks_Main1\<close> to \<open>Ticks_Main4\<close>: the opcode pages,
    \<open>handle_cb_page\<close>, \<open>handle_ed_page\<close>, \<open>handle_r4k_7f_page\<close> and the switch of \<open>cpu_run\<close>, each case with all its
    processor branches, fall-throughs and early breaks. \<open>Ticks_Run\<close>: interrupts, fetch and the loop.
  \<^item> \<open>Ticks_Zilog\<close>, \<open>Ticks_Z80n\<close>, \<open>Ticks_Small\<close> (SM83, Z180, R800), \<open>Ticks_I8085\<close>, \<open>Ticks_Vm1\<close>, \<open>Ticks_Rabbit\<close>,
    \<open>Ticks_R4kLoad\<close>, \<open>Ticks_R4kAlu\<close>, \<open>Ticks_Ez80\<close>, \<open>Ticks_Kc160\<close>: the files \<open>*_inst.c\<close>. \<open>Ticks_Am9511\<close> and
    \<open>Ticks_Devices\<close>: the devices and the port dispatch.
  \<^item> \<open>Ticks_Hooks\<close>: \<open>hook.c\<close>, \<open>hook_io.c\<close>, \<open>hook_misc.c\<close>, \<open>hook_cpm.c\<close>, \<open>hook_rc2014.c\<close>. \<open>Ticks_Handlers\<close>:
    the pages call the functions of the later files by their C names through an argument \<open>H\<close>; the table
    \<open>ticks_handlers\<close> binds the names to the models, and \<open>ticks_run\<close> is the complete machine.
  \<^item> The disassembler, a part of the debugger and a program of its own: \<open>Ticks_Syms\<close> (\<open>syms.c\<close>), \<open>Ticks_Rsthelper\<close>
    (\<open>rsthelper.h\<close>), \<open>Ticks_DisState\<close>, \<open>Ticks_DisLow\<close>, \<open>Ticks_DisHigh\<close> and \<open>Ticks_Disassembler\<close> (\<open>disassembler_alg.c\<close>,
    \<open>disassembler_main.c\<close>). \<open>dcontext\<close> is the source's structure with the local variables of \<open>disassemble2\<close>; a page of
    its switch is a function to an \<open>outcome\<close>, the three ways to leave it. \<open>mem_at\<close> is the back end's \<open>get_memory\<close>.

  \<^item> The debugger: \<open>Ticks_Breakpoints\<close> (\<open>breakpoints.c\<close>, over a record of the backend functions it calls),
    \<open>Ticks_Debugger\<close> (the breakpoint commands and the stop test of \<open>debugger.c\<close>), \<open>Ticks_Backend\<close> (\<open>debugger_ticks.c\<close>,
    the emulator as a backend) and \<open>Ticks_Packets\<close> (\<open>debugger_gdb_packets.c\<close> and the reading thread of
    \<open>debugger_gdb.c\<close>; a connection is the list of the pieces its reads deliver).

  \<^bold>\<open>What is proved.\<close>
  \<^item> Instructions: sums, differences, logic and flags of the 8- and 16-bit operations, rotations, bit
    operations, DAA on packed decimals, 16- and 32-bit products and quotients, the barrel shifts against the
    shifts of words; calls and returns, pushes and pops, interrupts and exchanges as round trips. They
    hold under ALTD and ALTS where a Rabbit has them.
  \<^item> Repeating instructions step the program counter back to themselves. The locale \<open>block_loop\<close>
    (\<open>Ticks_Zilog\<close>) proves once that the iteration ends after BC steps and copies; LDIR, LDDR (\<open>ldir\<close>) and LDIRX,
    LDDRX (\<open>ldirx\<close>) interpret it.
  \<^item> Decoding and clock: for a Z80 the switch equals the regular decoding of half of the opcodes, and each opcode
    takes the T-states of the manual, with the exceptions the statements list. \<open>Ticks_Time\<close> has one rewrite rule per
    operation for the clock; \<open>Ticks_Ends\<close> concludes that the tick limit ends every run.
  \<^item> Disassembler: every page keeps the contract of the locale \<open>reading\<close> (\<open>Ticks_DisLemmas\<close>), interpreted as \<open>listing\<close>,
    so the bytes shown are those in memory; \<open>Ticks_DisLength\<close> bounds the length of an instruction on the processors
    without endless prefixes. \<open>Ticks_Advance\<close> has one rule per operation for \<open>pc\<close>, and \<open>Ticks_Agree\<close> concludes that
    disassembler and emulator give the instructions of a Z80 the same lengths.
  \<^item> Debugger: \<open>Ticks_Session\<close> has the steps of a session as an inductive relation and the invariant of the breakpoint
    numbers; the locale \<open>accepting\<close>, interpreted on the backend of the emulator as \<open>emulator\<close>, carries the refinement to a
    table and the test of temporary breakpoints; with \<open>Ticks_Agree\<close> it follows that \<open>next\<close> steps over calls. \<open>Ticks_Stream\<close>
    proves that framed packets arrive whatever the pieces are, and what is lost when one ends within a checksum.
  \<^item> Memory: read after write in the banked maps; every access of every run stays inside the arrays; the ROM limit
    protects. Properties of all runs go through two locales: \<open>state_invariant\<close> (\<open>Ticks_Invariant\<close>) asks that
    a property ignores the processor's own fields and survives stores and paging, and its lemmas carry it through
    every operation; \<open>machine_invariant\<close> adds the instruction files and concludes for \<open>cpu_step\<close>, the reachable
    states and \<open>cpu_run\<close>; \<open>physical_invariant\<close> (\<open>Ticks_Machine\<close>) proves the law about the instruction files
    for the real table and is a sublocale of \<open>machine_invariant\<close>. Interpretations: \<open>banks\<close> and \<open>config\<close>
    (\<open>Ticks_Safety\<close>), \<open>alone\<close> and \<open>rom\<close> (\<open>Ticks_Ends\<close>).
  \<^item> Devices and host: the Am9511 commands on its ring of sixteen bytes, its ports as a stack (\<open>byte_stack\<close>, interpreted
    as \<open>ring\<close>), file operations of the test target with their error returns, the record positions of CP/M.

  Several statements describe behaviour that differs from the processor's or the host's manual, because
  the code does; their text says so.

  \<^bold>\<open>Ends of a run.\<close> \<open>cpu_run\<close> is a partial function: \<open>None\<close> is a run without end; so are the loops of \<open>disassemble2\<close>. A run also ends when the process does: the
  field \<open>stopped\<close> records an \<open>exit\<close>, a division trap of the host, undefined behaviour (a pointer
  outside its array, an uninitialised variable) or a loop inside an instruction that never ends. The
  last is found by fuel in one place: CP/M function 9 prints up to a dollar sign, and every map repeats after 65536
  addresses or ends, so 131072 steps without one repeat for ever. The search for the end of a C string is
  bounded by the end of the array the string lies in.

  \<^bold>\<open>The operating system\<close> is not modelled: a system call takes the next of a list of replies in the host state and is
  recorded, so statements about host calls hold for every behaviour of the system. What POSIX fixes is
  built in: descriptor -1 fails with EBADF, a read stores no more than was asked for. Terminal modes and messages
  on \<open>stderr\<close> are left out; bytes printed and read are lists. The floating-point library
  the Am9511 uses is a record of functions, an argument of its commands.

  \<^bold>\<open>Not modelled.\<close> In \<open>src/src/ticks\<close>: option parsing and file loading (\<open>ticks_main.c\<close>), whose result is the initial
  state and the configuration of \<open>Ticks_Safety\<close>; the line editing, expressions and type information of the debugger, its MI front end
  and GDB requests, the reading of symbol files and the profiler, which read the machine and print, and are inactive unless asked for; the third-party line editor and XML reader and
  the generated lexer and parser. The size of the disassembler's text buffer is left out. Outside it: the compilers, assembler and packaging tools of z88dk,
  independent programs, most of whose lines are generated tables, and the libraries for the emulated targets.
\<close>

end
